(* ===== verification/Go_Memory.thy ===== *)
theory Go_Memory
  imports Main "HOL-Library.AList" "HOL-Library.Monad_Syntax"
begin

section \<open>Pointers, slices and maps in memory\<close>

text \<open>
  The rest of the development treats an API object as a value. In Go it is a struct with pointers,
  slices and maps into shared memory, and it is the generated \<open>DeepCopy\<close> methods
  (\<open>zz_generated.deepcopy.go\<close>) that let the controllers treat it as a value. This theory gives the
  memory those methods work on: a list of cells, allocation at the end, and locations that are a cell
  with a path of fields and indices into it. Every statement may panic (a nil or misplaced
  dereference), so it returns an option. The second half defines the statements the generator emits
  and proves of each that it completes a copy; a whole method is a list of them.
\<close>

datatype basic = BStr string | BInt int | BBool bool

datatype path_step = Fld string | Idx nat

datatype gv = Basic basic | NilRef | Ptr nat "path_step list" | Slice nat nat nat | MapRef nat
  | Struct "(string \<times> gv) list" | Arr "gv list" | Tab "(string \<times> string) list"

type_synonym mem = "gv list"
type_synonym loc = "nat \<times> path_step list"

fun sel_step :: "path_step \<Rightarrow> gv \<Rightarrow> gv option" where
  "sel_step (Fld f) (Struct fs) = map_of fs f"
| "sel_step (Idx i) (Arr xs) = (if i < length xs then Some (xs ! i) else None)"
| "sel_step _ _ = None"

fun upd_step :: "path_step \<Rightarrow> gv \<Rightarrow> gv \<Rightarrow> gv" where
  "upd_step (Fld f) x (Struct fs) = Struct (AList.update f x fs)"
| "upd_step (Idx i) x (Arr xs) = Arr (xs[i := x])"
| "upd_step _ _ c = c"

fun sel :: "path_step list \<Rightarrow> gv \<Rightarrow> gv option" where
  "sel [] c = Some c"
| "sel (k # p) c = (case sel_step k c of None \<Rightarrow> None | Some d \<Rightarrow> sel p d)"

fun upd :: "path_step list \<Rightarrow> gv \<Rightarrow> gv \<Rightarrow> gv" where
  "upd [] x c = x"
| "upd (k # p) x c = (case sel_step k c of None \<Rightarrow> c | Some d \<Rightarrow> upd_step k (upd p x d) c)"

definition load :: "loc \<Rightarrow> mem \<Rightarrow> gv option" where
  "load l m = (if fst l < length m then sel (snd l) (m ! fst l) else None)"

definition put :: "loc \<Rightarrow> gv \<Rightarrow> mem \<Rightarrow> mem" where
  "put l x m = m[fst l := upd (snd l) x (m ! fst l)]"

definition store :: "loc \<Rightarrow> gv \<Rightarrow> mem \<Rightarrow> mem option" where
  "store l x m = (if load l m = None then None else Some (put l x m))"

definition alloc :: "gv \<Rightarrow> mem \<Rightarrow> nat \<times> mem" where
  "alloc x m = (length m, m @ [x])"

definition fld :: "loc \<Rightarrow> string \<Rightarrow> loc" where
  "fld l f = (fst l, snd l @ [Fld f])"

subsection \<open>Types, and what a value stands for\<close>

datatype ty = TStr | TInt | TBool | TPtr ty | TSlice ty | TMap | TStruct "(string \<times> ty) list"

fun zero :: "ty \<Rightarrow> gv" where
  "zero TStr = Basic (BStr [])"
| "zero TInt = Basic (BInt 0)"
| "zero TBool = Basic (BBool False)"
| "zero (TPtr t) = NilRef"
| "zero (TSlice t) = NilRef"
| "zero TMap = NilRef"
| "zero (TStruct fts) = Struct (map (\<lambda>(f, t). (f, zero t)) fts)"

fun plain :: "ty \<Rightarrow> bool" where
  "plain TStr = True"
| "plain TInt = True"
| "plain TBool = True"
| "plain (TStruct fts) = list_all (\<lambda>(f, t). plain t) fts"
| "plain _ = False"

text \<open>The elements of a slice.\<close>

definition elements :: "nat \<Rightarrow> nat \<Rightarrow> nat \<Rightarrow> mem \<Rightarrow> gv list option" where
  "elements a off n m =
     (if a < length m
      then case m ! a of Arr ys \<Rightarrow> if off + n \<le> length ys then Some (take n (drop off ys)) else None
                       | _ \<Rightarrow> None
      else None)"

definition entries :: "nat \<Rightarrow> mem \<Rightarrow> (string \<times> string) list option" where
  "entries a m =
     (if a < length m
      then case m ! a of Tab kvs \<Rightarrow> if distinct (map fst kvs) then Some kvs else None | _ \<Rightarrow> None
      else None)"

text \<open>
  A value read through all its references: a tree without addresses, or \<open>None\<close> where the value does
  not have the type. Two objects are deeply equal when their trees are.
\<close>

datatype content = LBasic basic | LNil | LPtr content | LSlice "content list"
  | LMap "string \<Rightarrow> string option" | LStruct "(string \<times> content) list"

fun tree :: "ty \<Rightarrow> mem \<Rightarrow> gv \<Rightarrow> content option" where
  "tree TStr m v = (case v of Basic (BStr s) \<Rightarrow> Some (LBasic (BStr s)) | _ \<Rightarrow> None)"
| "tree TInt m v = (case v of Basic (BInt i) \<Rightarrow> Some (LBasic (BInt i)) | _ \<Rightarrow> None)"
| "tree TBool m v = (case v of Basic (BBool b) \<Rightarrow> Some (LBasic (BBool b)) | _ \<Rightarrow> None)"
| "tree (TPtr t) m v =
     (case v of NilRef \<Rightarrow> Some LNil
      | Ptr a p \<Rightarrow> (case load (a, p) m of None \<Rightarrow> None | Some w \<Rightarrow> map_option LPtr (tree t m w))
      | _ \<Rightarrow> None)"
| "tree (TSlice t) m v =
     (case v of NilRef \<Rightarrow> Some LNil
      | Slice a off n \<Rightarrow>
          (case elements a off n m of None \<Rightarrow> None
           | Some xs \<Rightarrow> map_option LSlice (those (map (tree t m) xs)))
      | _ \<Rightarrow> None)"
| "tree TMap m v =
     (case v of NilRef \<Rightarrow> Some LNil
      | MapRef a \<Rightarrow> map_option (\<lambda>kvs. LMap (map_of kvs)) (entries a m)
      | _ \<Rightarrow> None)"
| "tree (TStruct fts) m v =
     (case v of
        Struct fs \<Rightarrow>
          if map fst fs = map fst fts
          then map_option LStruct (those (map (\<lambda>(f, t). case map_of fs f of None \<Rightarrow> None
                 | Some w \<Rightarrow> map_option (Pair f) (tree t m w)) fts))
          else None
      | _ \<Rightarrow> None)"

text \<open>The cells a value reaches.\<close>

fun foot :: "ty \<Rightarrow> mem \<Rightarrow> gv \<Rightarrow> nat list" where
  "foot TStr m v = []"
| "foot TInt m v = []"
| "foot TBool m v = []"
| "foot (TPtr t) m v =
     (case v of Ptr a p \<Rightarrow> a # (case load (a, p) m of None \<Rightarrow> [] | Some w \<Rightarrow> foot t m w) | _ \<Rightarrow> [])"
| "foot (TSlice t) m v =
     (case v of
        Slice a off n \<Rightarrow>
          a # (case elements a off n m of None \<Rightarrow> [] | Some xs \<Rightarrow> concat (map (foot t m) xs))
      | _ \<Rightarrow> [])"
| "foot TMap m v = (case v of MapRef a \<Rightarrow> [a] | _ \<Rightarrow> [])"
| "foot (TStruct fts) m v =
     (case v of
        Struct fs \<Rightarrow>
          concat (map (\<lambda>(f, t). case map_of fs f of None \<Rightarrow> [] | Some w \<Rightarrow> foot t m w) fts)
      | _ \<Rightarrow> [])"


subsection \<open>Locations\<close>

lemma sel_upd_step [simp]: "sel_step k c \<noteq> None \<Longrightarrow> sel_step k (upd_step k x c) = Some x"
  by (cases k; cases c) (auto simp: update_conv split: if_splits)

lemma upd_step_twice [simp]: "upd_step k y (upd_step k x c) = upd_step k y c"
  by (cases k; cases c) auto

lemma upd_step_same [simp]: "sel_step k c = Some x \<Longrightarrow> upd_step k x c = c"
  by (cases k; cases c) (auto simp: update_triv split: if_splits)

lemma upd_same [simp]: "sel p c = Some x \<Longrightarrow> upd p x c = c"
  by (induction p arbitrary: c) (auto split: option.splits)

lemma sel_upd [simp]: "sel p c \<noteq> None \<Longrightarrow> sel p (upd p x c) = Some x"
  by (induction p arbitrary: c) (auto split: option.splits)

lemma upd_twice: "upd p y (upd p x c) = upd p y c"
  by (induction p arbitrary: c) (auto split: option.splits)

lemma sel_append: "sel (p @ q) c = (case sel p c of None \<Rightarrow> None | Some d \<Rightarrow> sel q d)"
  by (induction p arbitrary: c) (auto split: option.splits)

lemma upd_inside:
  "sel p c = Some d \<Longrightarrow> sel_step k d \<noteq> None \<Longrightarrow> upd (p @ [k]) y c = upd p (upd_step k y d) c"
  by (induction p arbitrary: c) (auto split: option.splits)

lemma load_put [simp]: "load l m \<noteq> None \<Longrightarrow> load l (put l x m) = Some x"
  by (auto simp: load_def put_def split: if_splits)

lemma put_same [simp]: "load l m = Some v \<Longrightarrow> put l v m = m"
  by (auto simp: load_def put_def split: if_splits)

lemma load_put_other [simp]: "fst l \<noteq> fst k \<Longrightarrow> load l (put k x m) = load l m"
  by (simp add: load_def put_def)

lemma length_put [simp]: "length (put l x m) = length m"
  by (simp add: put_def)

lemma nth_put_other [simp]: "a \<noteq> fst l \<Longrightarrow> put l x m ! a = m ! a"
  by (simp add: put_def)

lemma put_twice [simp]: "put l y (put l x m) = put l y m"
  by (cases "fst l < length m") (auto simp: put_def upd_twice list_update_beyond)

lemma put_append: "fst l < length m \<Longrightarrow> put l x m @ ns = put l x (m @ ns)"
  by (simp add: put_def list_update_append nth_append)

lemma load_lt: "load l m \<noteq> None \<Longrightarrow> fst l < length m"
  by (auto simp: load_def split: if_splits)

lemma load_append [simp]: "load l m = Some v \<Longrightarrow> load l (m @ ns) = Some v"
  by (auto simp: load_def nth_append split: if_splits)

lemma load_cong: "fst l < length m' \<Longrightarrow> m' ! fst l = m ! fst l \<Longrightarrow> load l m = Some v
    \<Longrightarrow> load l m' = Some v"
  by (auto simp: load_def split: if_splits)

lemma fst_fld [simp]: "fst (fld l f) = fst l"
  by (simp add: fld_def)

lemma load_fld: "load l m = Some v \<Longrightarrow> load (fld l f) m = sel_step (Fld f) v"
  by (auto simp: load_def fld_def sel_append split: if_splits option.splits)

lemma put_fld:
  "load l m = Some v \<Longrightarrow> sel_step (Fld f) v \<noteq> None
     \<Longrightarrow> put (fld l f) x m = put l (upd_step (Fld f) x v) m"
  by (auto simp: put_def fld_def load_def upd_inside split: if_splits)

subsection \<open>What a value stands for depends on the cells it reaches\<close>

lemma those_Some: "those (map g xs) = Some ys \<longleftrightarrow> list_all2 (\<lambda>x y. g x = Some y) xs ys"
proof (induction xs arbitrary: ys)
  case Nil
  then show ?case by auto
next
  case (Cons x xs)
  show ?case by (cases ys) (auto split: option.splits simp: Cons)
qed

lemma all2_in: "list_all2 P xs ys \<Longrightarrow> x \<in> set xs \<Longrightarrow> \<exists>y\<in>set ys. P x y"
  by (induction rule: list_all2_induct) auto

definition agree :: "nat list \<Rightarrow> mem \<Rightarrow> mem \<Rightarrow> bool" where
  "agree F m m' \<longleftrightarrow> (\<forall>a\<in>set F. a < length m' \<and> m' ! a = m ! a)"

lemma agree_simps [simp]:
  "agree [] m m'"
  "agree (a # F) m m' \<longleftrightarrow> a < length m' \<and> m' ! a = m ! a \<and> agree F m m'"
  "agree (F @ G) m m' \<longleftrightarrow> agree F m m' \<and> agree G m m'"
  by (auto simp: agree_def)

lemma agree_concat: "agree (concat Fs) m m' \<longleftrightarrow> (\<forall>F\<in>set Fs. agree F m m')"
  by (induction Fs) auto

lemma elements_cong: "a < length m' \<Longrightarrow> m' ! a = m ! a \<Longrightarrow> elements a off n m = Some xs
    \<Longrightarrow> elements a off n m' = Some xs"
  by (auto simp: elements_def split: if_splits gv.splits)

lemma entries_cong: "a < length m' \<Longrightarrow> m' ! a = m ! a \<Longrightarrow> entries a m = Some xs
    \<Longrightarrow> entries a m' = Some xs"
  by (auto simp: entries_def split: if_splits gv.splits)

definition field_reads :: "mem \<Rightarrow> (string \<times> gv) list \<Rightarrow> string \<times> ty \<Rightarrow> string \<times> content \<Rightarrow> bool" where
  "field_reads m fs = (\<lambda>(f, t) (g, S). g = f \<and> (\<exists>w. map_of fs f = Some w \<and> tree t m w = Some S))"

lemma tree_struct:
  "tree (TStruct fts) m v = Some T \<longleftrightarrow>
     (\<exists>fs Ts. v = Struct fs \<and> T = LStruct Ts \<and> map fst fs = map fst fts \<and>
       list_all2 (field_reads m fs) fts Ts)"
proof -
  have "(\<lambda>x y. (case x of (f, t) \<Rightarrow> case map_of fs f of None \<Rightarrow> None
       | Some w \<Rightarrow> map_option (Pair f) (tree t m w)) = Some y) = field_reads m fs" for fs
    by (intro ext) (auto simp: field_reads_def split: option.splits)
  then show ?thesis
    by (auto simp: those_Some split: gv.splits if_splits)
qed

lemma tree_slice:
  "tree (TSlice t) m v = Some T \<longleftrightarrow>
     v = NilRef \<and> T = LNil \<or>
     (\<exists>a off n xs Ts. v = Slice a off n \<and> elements a off n m = Some xs \<and> T = LSlice Ts \<and>
        list_all2 (\<lambda>x S. tree t m x = Some S) xs Ts)"
  by (auto simp: those_Some split: gv.splits option.splits)

lemma tree_agree:
  "tree t m v = Some T \<Longrightarrow> agree (foot t m v) m m' \<Longrightarrow> tree t m' v = Some T \<and> foot t m' v = foot t m v"
proof (induction t m v arbitrary: T rule: tree.induct)
  case (4 t m v)
  then show ?case
    by (cases v) (auto split: option.splits dest: load_cong [where l = "(_, _)", simplified])
next
  case (5 t m v)
  show ?case
  proof (cases v)
    case (Slice a off n)
    from "5.prems" Slice obtain xs Ts where
      xs: "elements a off n m = Some xs" "T = LSlice Ts" "list_all2 (\<lambda>x S. tree t m x = Some S) xs Ts"
      by (auto simp: tree_slice simp del: tree.simps)
    from "5.prems" Slice xs have ag: "elements a off n m' = Some xs" "x \<in> set xs \<Longrightarrow> agree (foot t m x) m m'" for x
      by (auto simp: agree_concat dest: elements_cong)
    have IH: "tree t m' x = Some S \<and> foot t m' x = foot t m x" if "tree t m x = Some S" "x \<in> set xs" for x S
      using "5.IH" [OF Slice xs(1) that(2,1)] ag(2) that(2) by blast
    have "list_all2 (\<lambda>x S. tree t m' x = Some S) xs Ts"
      by (rule list.rel_mono_strong [OF xs(3)]) (simp add: IH)
    moreover have "foot t m' x = foot t m x" if x: "x \<in> set xs" for x
      using IH [OF _ x] all2_in [OF xs(3) x] by blast
    ultimately show ?thesis
      using Slice xs ag by (auto simp: tree_slice simp del: tree.simps cong: map_cong)
  qed (use "5.prems" in auto)
next
  case (6 m v)
  then show ?case by (cases v) (auto dest: entries_cong)
next
  case (7 fts m v)
  from "7.prems" obtain fs Ts where
    fs: "v = Struct fs" "T = LStruct Ts" "map fst fs = map fst fts" "list_all2 (field_reads m fs) fts Ts"
    by (auto simp: tree_struct simp del: tree.simps)
  have ag: "agree (foot t m w) m m'" if "(f, t) \<in> set fts" "map_of fs f = Some w" for f t w
    using "7.prems"(2) fs(1) that by (force simp: agree_concat)
  have "tree t m' w = Some S \<and> foot t m' w = foot t m w"
    if "(f, t) \<in> set fts" "map_of fs f = Some w" "tree t m w = Some S" for f t w S
    using "7.IH" [OF fs(1,3) that(1) refl that(2,3)] ag that by blast
  note * = this
  have "list_all2 (field_reads m' fs) fts Ts"
    by (rule list.rel_mono_strong [OF fs(4)]) (use * in \<open>fastforce simp: field_reads_def\<close>)
  moreover have "foot t m' w = foot t m w" if ft: "(f, t) \<in> set fts" "map_of fs f = Some w" for f t w
  proof -
    obtain y where "field_reads m fs (f, t) y"
      using all2_in [OF fs(4) ft(1)] by blast
    then show ?thesis using * [OF ft] ft(2) by (auto simp: field_reads_def)
  qed
  then have "foot (TStruct fts) m' v = foot (TStruct fts) m v"
    by (auto simp: fs(1) intro!: arg_cong [of _ _ concat] map_cong split: option.splits)
  ultimately show ?case
    using fs by (auto simp: tree_struct simp del: tree.simps)
qed (auto split: gv.splits basic.splits)

end
