(* ===== verification/Copying.thy ===== *)
theory Copying
  imports Go_Memory
begin

section \<open>The statements of the generated copy methods\<close>

text \<open>
  controller-gen emits a handful of statement forms, one per kind of field. Each is a definition here
  and each comes with the rule that it completes a copy: with the receiver's struct already copied
  shallowly (\<open>*out = *in\<close>), running it replaces a field that shares memory with one that does not.
  \<open>completes_struct\<close> puts the rules together: a method copies its type when every field of the type is
  either plain data or the subject of a statement.
\<close>

type_synonym copier = "loc \<Rightarrow> loc \<Rightarrow> mem \<Rightarrow> mem option"

fun loop :: "('a \<Rightarrow> mem \<Rightarrow> mem option) \<Rightarrow> 'a list \<Rightarrow> mem \<Rightarrow> mem option" where
  "loop f [] m = Some m"
| "loop f (x # xs) m = do { m \<leftarrow> f x m; loop f xs m }"

text \<open>\<open>*out = *in\<close>\<close>

definition assign :: copier where
  "assign s d m = do { v \<leftarrow> load s m; store d v m }"

text \<open>The built-in \<open>copy(dst, src)\<close>\<close>

fun go_copy :: "gv \<Rightarrow> gv \<Rightarrow> mem \<Rightarrow> mem option" where
  "go_copy (Slice b p k) (Slice a q n) m =
     (case (elements a q (min k n) m, elements b p (min k n) m, m ! b) of
        (Some xs, Some _, Arr ys) \<Rightarrow> Some (m[b := Arr (take p ys @ xs @ drop (p + min k n) ys)])
      | _ \<Rightarrow> None)"
| "go_copy _ _ m = None"

text \<open>\<open>*out = make([]T, len(*in)); copy(*out, *in)\<close>\<close>

definition copy_slice :: "ty \<Rightarrow> copier" where
  "copy_slice t s d m = do {
     v \<leftarrow> load s m;
     case v of
       NilRef \<Rightarrow> Some m
     | Slice a q n \<Rightarrow>
         (let (b, m) = alloc (Arr (replicate n (zero t))) m in do {
            m \<leftarrow> store d (Slice b 0 n) m;
            go_copy (Slice b 0 n) v m })
     | _ \<Rightarrow> None }"

text \<open>\<open>*out = make([]T, len(*in)); for i := range *in { (*in)[i].DeepCopyInto(&(*out)[i]) }\<close>\<close>

definition copy_each :: "ty \<Rightarrow> copier \<Rightarrow> copier" where
  "copy_each t c s d m = do {
     v \<leftarrow> load s m;
     case v of
       NilRef \<Rightarrow> Some m
     | Slice a q n \<Rightarrow>
         (let (b, m) = alloc (Arr (replicate n (zero t))) m in do {
            m \<leftarrow> store d (Slice b 0 n) m;
            loop (\<lambda>i. c (a, [Idx (q + i)]) (b, [Idx i])) [0..<n] m })
     | _ \<Rightarrow> None }"

text \<open>\<open>(*out)[key] = val\<close>\<close>

definition set_key :: "nat \<Rightarrow> string \<times> string \<Rightarrow> mem \<Rightarrow> mem option" where
  "set_key b kv m =
     (if b < length m
      then case m ! b of Tab kvs \<Rightarrow> Some (m[b := Tab (AList.update (fst kv) (snd kv) kvs)]) | _ \<Rightarrow> None
      else None)"

text \<open>\<open>*out = make(map[string]string, len(*in)); for key, val := range *in { (*out)[key] = val }\<close>\<close>

definition copy_map :: copier where
  "copy_map s d m = do {
     v \<leftarrow> load s m;
     case v of
       NilRef \<Rightarrow> Some m
     | MapRef a \<Rightarrow>
         (let (b, m) = alloc (Tab []) m in do {
            m \<leftarrow> store d (MapRef b) m;
            kvs \<leftarrow> entries a m;
            loop (set_key b) kvs m })
     | _ \<Rightarrow> None }"

text \<open>\<open>*out = new(T); (*in).DeepCopyInto(*out)\<close>\<close>

definition copy_ptr_into :: "ty \<Rightarrow> copier \<Rightarrow> copier" where
  "copy_ptr_into t c s d m = do {
     v \<leftarrow> load s m;
     case v of
       NilRef \<Rightarrow> Some m
     | Ptr a p \<Rightarrow>
         (let (b, m) = alloc (zero t) m in do {
            m \<leftarrow> store d (Ptr b []) m;
            c (a, p) (b, []) m })
     | _ \<Rightarrow> None }"

text \<open>\<open>*out = new(T); **out = **in\<close>\<close>

definition copy_ptr :: "ty \<Rightarrow> copier" where
  "copy_ptr t = copy_ptr_into t assign"

text \<open>\<open>*out = (*in).DeepCopy()\<close>\<close>

type_synonym cloner = "gv \<Rightarrow> mem \<Rightarrow> (gv \<times> mem) option"

definition copy_call :: "cloner \<Rightarrow> copier" where
  "copy_call k s d m = do {
     v \<leftarrow> load s m;
     case v of
       NilRef \<Rightarrow> Some m
     | _ \<Rightarrow> do { (x, m) \<leftarrow> k v m; store d x m } }"

text \<open>A whole \<open>DeepCopyInto\<close>: the shallow copy, and then one statement for each field listed.\<close>

definition copy_struct :: "(string \<times> copier) list \<Rightarrow> copier" where
  "copy_struct bs s d m = do {
     m \<leftarrow> assign s d m;
     loop (\<lambda>(f, c). c (fld s f) (fld d f)) bs m }"

text \<open>\<open>DeepCopy\<close>: nil for a nil receiver, a new object otherwise.\<close>

definition deep_copy :: "ty \<Rightarrow> copier \<Rightarrow> cloner" where
  "deep_copy t c p m =
     (case p of
        NilRef \<Rightarrow> Some (NilRef, m)
      | Ptr a q \<Rightarrow>
          (let (b, m) = alloc (zero t) m in do { m \<leftarrow> c (a, q) (b, []) m; Some (Ptr b [], m) })
      | _ \<Rightarrow> None)"

subsection \<open>What a statement owes\<close>

definition fresh :: "ty \<Rightarrow> content \<Rightarrow> mem \<Rightarrow> mem \<Rightarrow> gv \<Rightarrow> bool" where
  "fresh t T m M w \<longleftrightarrow> tree t M w = Some T \<and> (\<forall>a\<in>set (foot t M w). length m \<le> a)"

definition result :: "ty \<Rightarrow> content \<Rightarrow> loc \<Rightarrow> mem \<Rightarrow> mem option \<Rightarrow> bool" where
  "result t T d m r \<longleftrightarrow> (\<exists>w ns. r = Some (put d w (m @ ns)) \<and> fresh t T m (m @ ns) w)"

definition ready :: "ty \<Rightarrow> content \<Rightarrow> gv \<Rightarrow> loc \<Rightarrow> loc \<Rightarrow> mem \<Rightarrow> bool" where
  "ready t T v s d m \<longleftrightarrow> load s m = Some v \<and> tree t m v = Some T \<and> load d m \<noteq> None
     \<and> fst d \<noteq> fst s \<and> fst d \<notin> set (foot t m v)"

definition copies :: "ty \<Rightarrow> copier \<Rightarrow> bool" where
  "copies t c \<longleftrightarrow> (\<forall>T v s d m. ready t T v s d m \<longrightarrow> result t T d m (c s d m))"

definition completes :: "ty \<Rightarrow> copier \<Rightarrow> bool" where
  "completes t c \<longleftrightarrow>
     (\<forall>T v s d m. ready t T v s d m \<longrightarrow> load d m = Some v \<longrightarrow> result t T d m (c s d m))"

definition clones :: "ty \<Rightarrow> cloner \<Rightarrow> bool" where
  "clones t k \<longleftrightarrow> (\<forall>T a p v m. load (a, p) m = Some v \<longrightarrow> tree t m v = Some T \<longrightarrow>
     (\<exists>b q ns. k (Ptr a p) m = Some (Ptr b q, m @ ns) \<and> fresh (TPtr t) (LPtr T) m (m @ ns) (Ptr b q)))"

lemma copies_completes: "copies t c \<Longrightarrow> completes t c"
  by (simp add: copies_def completes_def)

lemma foot_lt: "tree t m v = Some T \<Longrightarrow> a \<in> set (foot t m v) \<Longrightarrow> a < length m"
proof (induction t m v arbitrary: T rule: tree.induct)
  case (4 t m v)
  then show ?case
    by (cases v) (auto split: option.splits simp: load_def split: if_splits)
next
  case (5 t m v)
  show ?case
  proof (cases v)
    case (Slice a' off n)
    from "5.prems" Slice obtain xs Ts where
      xs: "elements a' off n m = Some xs" "list_all2 (\<lambda>x S. tree t m x = Some S) xs Ts"
      by (auto simp: tree_slice simp del: tree.simps)
    have "a' < length m" using xs(1) by (simp add: elements_def split: if_splits)
    moreover have "a < length m" if x: "x \<in> set xs" "a \<in> set (foot t m x)" for x
      using "5.IH" [OF Slice xs(1) x(1) _ x(2)] all2_in [OF xs(2) x(1)] by blast
    ultimately show ?thesis using "5.prems" Slice xs(1) by auto
  qed (use "5.prems" in auto)
next
  case (6 m v)
  then show ?case by (cases v) (auto simp: entries_def split: if_splits)
next
  case (7 fts m v)
  from "7.prems"(1) obtain fs Ts where
    fs: "v = Struct fs" "map fst fs = map fst fts" "list_all2 (field_reads m fs) fts Ts"
    by (auto simp: tree_struct simp del: tree.simps)
  from "7.prems"(2) fs(1) obtain f t w where
    w: "(f, t) \<in> set fts" "map_of fs f = Some w" "a \<in> set (foot t m w)"
    by (auto split: option.splits) (metis that)
  obtain S where "tree t m w = Some S"
    using all2_in [OF fs(3) w(1)] w(2) by (auto simp: field_reads_def)
  then show ?case using "7.IH" [OF fs(1,2) w(1) refl w(2) _ w(3)] by blast
qed auto

lemma plain_foot: "plain t \<Longrightarrow> foot t m v = []"
proof (induction t m v rule: foot.induct)
  case (7 fts m v)
  then show ?case by (cases v) (auto simp: list_all_iff split: option.splits)
qed auto

lemma fresh_agree:
  "fresh t T m M w \<Longrightarrow> length M \<le> length M'
     \<Longrightarrow> (\<And>a. length m \<le> a \<Longrightarrow> a < length M \<Longrightarrow> M' ! a = M ! a) \<Longrightarrow> fresh t T m M' w"
  unfolding fresh_def by (frule tree_agree [of t M w T M', OF conjunct1])
    (auto simp: agree_def dest: foot_lt [of t M w T])

lemma fresh_mono: "fresh t T m M w \<Longrightarrow> length m' \<le> length m \<Longrightarrow> fresh t T m' M w"
  by (auto simp: fresh_def)

lemma ready_agree:
  "tree t m v = Some T \<Longrightarrow> (\<And>a. a \<in> set (foot t m v) \<Longrightarrow> m' ! a = m ! a) \<Longrightarrow> length m \<le> length m'
     \<Longrightarrow> tree t m' v = Some T \<and> foot t m' v = foot t m v"
  by (rule tree_agree) (auto simp: agree_def dest: foot_lt [of t m v T])

lemma copies_assign: "plain t \<Longrightarrow> copies t assign"
  unfolding copies_def ready_def result_def fresh_def
  by (auto simp: assign_def store_def plain_foot intro!: exI [of _ "[]"])


subsection \<open>The rules\<close>

lemma result_same: "load d m = Some v \<Longrightarrow> fresh t T m m v \<Longrightarrow> result t T d m (Some m)"
  unfolding result_def by (rule exI [of _ v], rule exI [of _ "[]"]) simp

lemma alloc_simp [simp]: "alloc x m = (length m, m @ [x])"
  by (simp add: alloc_def)

lemma store_ok: "load d m \<noteq> None \<Longrightarrow> store d x m = Some (put d x m)"
  by (simp add: store_def)

lemma load_new: "fst d < length m \<Longrightarrow> load (length m, []) (put d x (m @ [y])) = Some y"
  by (simp add: load_def put_def nth_append)

lemma put_new: "fst d < length m
    \<Longrightarrow> put (length m, []) y (put d x (m @ [z]) @ ns) = put d x (m @ y # ns)"
  by (simp add: put_def nth_append list_update_append)

lemma completes_ptr_into:
  assumes c: "copies t c"
  shows "completes (TPtr t) (copy_ptr_into t c)"
  unfolding completes_def
proof (intro allI impI)
  fix T v s d m
  assume r: "ready (TPtr t) T v s d m" and d: "load d m = Some v"
  note lt = load_lt [of d m, unfolded d, simplified]
  show "result (TPtr t) T d m (copy_ptr_into t c s d m)"
  proof (cases v)
    case NilRef
    with r d show ?thesis
      by (auto simp: copy_ptr_into_def ready_def fresh_def intro!: result_same)
  next
    case (Ptr a p)
    from r Ptr obtain w S where w: "load (a, p) m = Some w" "tree t m w = Some S" "T = LPtr S"
      and fd: "fst d \<noteq> a" "fst d \<notin> set (foot t m w)" "load s m = Some v" "fst d \<noteq> fst s"
      by (auto simp: ready_def split: option.splits)
    let ?m = "put d (Ptr (length m) []) (m @ [zero t])"
    have alt: "a < length m" using w(1) by (simp add: load_def split: if_splits)
    have keep: "x < length m \<Longrightarrow> x \<noteq> fst d \<Longrightarrow> ?m ! x = m ! x" for x by (simp add: nth_append)
    have tr: "tree t ?m w = Some S \<and> foot t ?m w = foot t m w"
      by (rule ready_agree [OF w(2)]) (use fd foot_lt [OF w(2)] keep in \<open>auto simp del: nth_put_other\<close>)
    have "ready t S w (a, p) (length m, []) ?m"
      using w fd alt lt tr foot_lt [OF w(2)] load_append [OF w(1)]
      by (auto simp: ready_def load_def nth_append put_def)
    then obtain w' ns where res: "c (a, p) (length m, []) ?m = Some (put (length m, []) w' (?m @ ns))"
      "fresh t S ?m (?m @ ns) w'"
      using c unfolding copies_def result_def by blast
    have "fresh t S (m @ [w']) (m @ w' # ns) w'"
      by (rule fresh_mono, rule fresh_agree [OF res(2)]) (use lt in \<open>auto simp: nth_append nth_Cons'\<close>)
    then have "fresh (TPtr t) T m (m @ w' # ns) (Ptr (length m) [])"
      by (auto simp: fresh_def load_def w nth_append)
    moreover have "copy_ptr_into t c s d m = Some (put d (Ptr (length m) []) (m @ w' # ns))"
      using res(1) fd(3) d lt by (simp add: copy_ptr_into_def Ptr store_ok put_new)
    ultimately show ?thesis unfolding result_def by blast
  qed (use r in \<open>auto simp: ready_def\<close>)
qed

lemma completes_ptr: "plain t \<Longrightarrow> completes (TPtr t) (copy_ptr t)"
  unfolding copy_ptr_def by (intro completes_ptr_into copies_assign)

lemma clones_deep_copy:
  assumes c: "copies t c"
  shows "clones t (deep_copy t c)"
  unfolding clones_def
proof (intro allI impI)
  fix T a p v m
  assume v: "load (a, p) m = Some v" "tree t m v = Some T"
  have alt: "a < length m" using v(1) by (simp add: load_def split: if_splits)
  have tr: "tree t (m @ [zero t]) v = Some T \<and> foot t (m @ [zero t]) v = foot t m v"
    by (rule ready_agree [OF v(2)]) (auto simp: nth_append dest: foot_lt [OF v(2)])
  then have "ready t T v (a, p) (length m, []) (m @ [zero t])"
    using v alt foot_lt [OF v(2)] load_append [OF v(1)] by (auto simp: ready_def) (simp add: load_def)
  then obtain w ns where res: "c (a, p) (length m, []) (m @ [zero t])
      = Some (put (length m, []) w (m @ zero t # ns))"
    "fresh t T (m @ [zero t]) (m @ zero t # ns) w"
    using c unfolding copies_def result_def by fastforce
  have "fresh t T (m @ [zero t]) (m @ w # ns) w"
    by (rule fresh_agree [OF res(2)]) (auto simp: nth_append nth_Cons')
  then have "fresh (TPtr t) (LPtr T) m (m @ w # ns) (Ptr (length m) [])"
    by (auto simp: fresh_def load_def nth_append)
  moreover have "deep_copy t c (Ptr a p) m = Some (Ptr (length m) [], m @ w # ns)"
    using res(1) by (simp add: deep_copy_def put_def)
  ultimately show "\<exists>b q ns. deep_copy t c (Ptr a p) m = Some (Ptr b q, m @ ns)
      \<and> fresh (TPtr t) (LPtr T) m (m @ ns) (Ptr b q)" by blast
qed

lemma completes_call:
  assumes k: "clones t k"
  shows "completes (TPtr t) (copy_call k)"
  unfolding completes_def
proof (intro allI impI)
  fix T v s d m
  assume r: "ready (TPtr t) T v s d m" and d: "load d m = Some v"
  show "result (TPtr t) T d m (copy_call k s d m)"
  proof (cases v)
    case NilRef
    with r d show ?thesis
      by (auto simp: copy_call_def ready_def fresh_def intro!: result_same)
  next
    case (Ptr a p)
    from r Ptr obtain w S where w: "load (a, p) m = Some w" "tree t m w = Some S" "T = LPtr S"
      by (auto simp: ready_def split: option.splits)
    obtain b q ns where "k (Ptr a p) m = Some (Ptr b q, m @ ns)"
      "fresh (TPtr t) (LPtr S) m (m @ ns) (Ptr b q)"
      using k w(1,2) unfolding clones_def by blast
    with r d Ptr w show ?thesis
      by (auto simp: copy_call_def ready_def result_def store_ok)
  qed (use r in \<open>auto simp: ready_def\<close>)
qed


lemma elements_load:
  "elements a q n m = Some xs \<Longrightarrow> i < n \<Longrightarrow> load (a, [Idx (q + i)]) m = Some (xs ! i) \<and> length xs = n"
  by (auto simp: elements_def load_def split: if_splits gv.splits)

lemma fresh_slice:
  assumes "length m \<le> b" "b < length M" "M ! b = Arr xs" "list_all2 (\<lambda>x S. fresh t S m M x) xs Ts"
  shows "fresh (TSlice t) (LSlice Ts) m M (Slice b 0 (length xs))"
proof -
  have "list_all2 (\<lambda>x S. tree t M x = Some S) xs Ts"
    by (rule list.rel_mono_strong [OF assms(4)]) (simp add: fresh_def)
  moreover have "\<forall>a\<in>set (foot t M x). length m \<le> a" if "x \<in> set xs" for x
    using all2_in [OF assms(4) that] by (auto simp: fresh_def)
  ultimately show ?thesis
    using assms(1-3) by (auto simp: fresh_def those_Some elements_def)
qed

lemma completes_slice:
  assumes p: "plain t"
  shows "completes (TSlice t) (copy_slice t)"
  unfolding completes_def
proof (intro allI impI)
  fix T v s d m
  assume r: "ready (TSlice t) T v s d m" and d: "load d m = Some v"
  note lt = load_lt [of d m, unfolded d, simplified]
  show "result (TSlice t) T d m (copy_slice t s d m)"
  proof (cases v)
    case NilRef
    with r d show ?thesis
      by (auto simp: copy_slice_def ready_def fresh_def intro!: result_same)
  next
    case (Slice a q n)
    from r Slice obtain xs Ts where xs: "elements a q n m = Some xs" "T = LSlice Ts"
        "list_all2 (\<lambda>x S. tree t m x = Some S) xs Ts"
      and fd: "fst d \<noteq> a" "load s m = Some v" "fst d \<noteq> fst s"
      by (auto simp: ready_def tree_slice simp del: tree.simps)
    have n: "length xs = n" and alt: "a < length m"
      using xs(1) by (auto simp: elements_def split: if_splits gv.splits)
    let ?z = "Arr (replicate n (zero t))"
    let ?m = "put d (Slice (length m) 0 n) (m @ [?z])"
    have e: "elements a q n ?m = Some xs"
      by (rule elements_cong [OF _ _ xs(1)]) (use alt fd in \<open>auto simp: nth_append\<close>)
    have z: "?m ! length m = ?z" using lt by (simp add: nth_append)
    have g: "go_copy (Slice (length m) 0 n) (Slice a q n) ?m
        = Some (put d (Slice (length m) 0 n) (m @ [Arr xs]))"
      using e z n lt by (simp add: elements_def [of "length m"]) (simp add: put_def list_update_append nth_append)
    have "tree t (m @ [Arr xs]) x = tree t m x" if "tree t m x = Some S" for x S
      using tree_agree [OF that, of "m @ [Arr xs]"] p that by (simp add: plain_foot)
    then have "list_all2 (\<lambda>x S. fresh t S m (m @ [Arr xs]) x) xs Ts"
      by (intro list.rel_mono_strong [OF xs(3)]) (simp add: fresh_def plain_foot p)
    then have "fresh (TSlice t) T m (m @ [Arr xs]) (Slice (length m) 0 n)"
      using fresh_slice [of m "length m" "m @ [Arr xs]" xs t Ts] n xs(2) by simp
    moreover have "copy_slice t s d m = Some (put d (Slice (length m) 0 n) (m @ [Arr xs]))"
      using g fd d Slice by (simp add: copy_slice_def store_ok del: go_copy.simps)
    ultimately show ?thesis unfolding result_def by blast
  qed (use r in \<open>auto simp: ready_def\<close>)
qed

text \<open>The loop over a slice: the first \<open>k\<close> elements are copied, the rest are still zero.\<close>

lemma loop_append: "loop f (xs @ ys) m = (case loop f xs m of None \<Rightarrow> None | Some m \<Rightarrow> loop f ys m)"
  by (induction xs arbitrary: m) (auto split: option.splits bind_splits)

lemma loop_elements:
  assumes c: "copies t c" and k: "k \<le> n"
    and xs: "elements a q n m = Some xs" "list_all2 (\<lambda>x S. tree t m x = Some S) xs Ts"
    and fd: "fst d \<noteq> a" "\<forall>x\<in>set xs. fst d \<notin> set (foot t m x)" and lt: "fst d < length m"
  shows "\<exists>ys ns. loop (\<lambda>i. c (a, [Idx (q + i)]) (length m, [Idx i])) [0..<k]
             (put d w (m @ [Arr (replicate n z)])) = Some (put d w (m @ Arr ys # ns))
           \<and> length ys = n \<and> (\<forall>i<k. fresh t (Ts ! i) (m @ [NilRef]) (m @ Arr ys # ns) (ys ! i))"
  using k
proof (induction k)
  case 0
  show ?case by (rule exI [of _ "replicate n z"], rule exI [of _ "[]"]) simp
next
  case (Suc k)
  then obtain ys ns where IH: "loop (\<lambda>i. c (a, [Idx (q + i)]) (length m, [Idx i])) [0..<k]
             (put d w (m @ [Arr (replicate n z)])) = Some (put d w (m @ Arr ys # ns))"
    "length ys = n" "\<forall>i<k. fresh t (Ts ! i) (m @ [NilRef]) (m @ Arr ys # ns) (ys ! i)" by fastforce
  let ?m = "put d w (m @ Arr ys # ns)"
  have kn: "k < n" and n: "length xs = n" "length Ts = n" and alt: "a < length m"
    using Suc.prems xs by (auto simp: elements_def list_all2_conv_all_nth split: if_splits gv.splits)
  have x: "tree t m (xs ! k) = Some (Ts ! k)" "fst d \<notin> set (foot t m (xs ! k))"
    using xs(2) fd(2) kn n by (auto simp: list_all2_conv_all_nth)
  have tr: "tree t ?m (xs ! k) = Some (Ts ! k) \<and> foot t ?m (xs ! k) = foot t m (xs ! k)"
    by (rule ready_agree [OF x(1)]) (use x(2) foot_lt [OF x(1)] in \<open>auto simp: put_def nth_append nth_list_update\<close>)
  have e: "elements a q n ?m = Some xs"
    by (rule elements_cong [OF _ _ xs(1)]) (use alt fd in \<open>auto simp: nth_append\<close>)
  have "ready t (Ts ! k) (xs ! k) (a, [Idx (q + k)]) (length m, [Idx k]) ?m"
    using elements_load [OF e kn] tr x foot_lt [OF x(1)] alt lt kn IH(2)
    by (auto simp: ready_def) (auto simp: load_def put_def nth_append)
  then obtain y ns' where res: "c (a, [Idx (q + k)]) (length m, [Idx k]) ?m
       = Some (put (length m, [Idx k]) y (?m @ ns'))" "fresh t (Ts ! k) ?m (?m @ ns') y"
    using c unfolding copies_def result_def by blast
  have eq: "put (length m, [Idx k]) y (?m @ ns') = put d w (m @ Arr (ys[k := y]) # ns @ ns')"
    using lt kn IH(2) by (auto simp: put_def nth_append list_update_append)
  let ?M = "m @ Arr (ys[k := y]) # ns @ ns'"
  have "fresh t (Ts ! k) (m @ [NilRef]) ?M y"
    by (rule fresh_mono, rule fresh_agree [OF res(2)])
      (use lt in \<open>auto simp: put_def nth_append nth_Cons' nth_list_update\<close>)
  moreover have "fresh t (Ts ! i) (m @ [NilRef]) ?M (ys ! i)" if "i < k" for i
    by (rule fresh_agree [OF IH(3) [rule_format, OF that]]) (auto simp: nth_append nth_Cons')
  ultimately have "\<forall>i<Suc k. fresh t (Ts ! i) (m @ [NilRef]) ?M (ys[k := y] ! i)"
    using kn IH(2) by (auto simp: less_Suc_eq)
  moreover have "loop (\<lambda>i. c (a, [Idx (q + i)]) (length m, [Idx i])) [0..<Suc k]
      (put d w (m @ [Arr (replicate n z)])) = Some (put d w ?M)"
    using res(1) eq IH(1) by (simp add: loop_append)
  ultimately show ?case using IH(2) by (metis length_list_update)
qed

lemma completes_each:
  assumes c: "copies t c"
  shows "completes (TSlice t) (copy_each t c)"
  unfolding completes_def
proof (intro allI impI)
  fix T v s d m
  assume r: "ready (TSlice t) T v s d m" and d: "load d m = Some v"
  note lt = load_lt [of d m, unfolded d, simplified]
  show "result (TSlice t) T d m (copy_each t c s d m)"
  proof (cases v)
    case NilRef
    with r d show ?thesis
      by (auto simp: copy_each_def ready_def fresh_def intro!: result_same)
  next
    case (Slice a q n)
    from r Slice obtain xs Ts where xs: "elements a q n m = Some xs" "T = LSlice Ts"
        "list_all2 (\<lambda>x S. tree t m x = Some S) xs Ts"
      and fd: "fst d \<noteq> a" "load s m = Some v" "fst d \<noteq> fst s"
        "\<forall>x\<in>set xs. fst d \<notin> set (foot t m x)"
      by (auto simp: ready_def tree_slice simp del: tree.simps)
    have n: "length Ts = n"
      using xs(1,3) by (auto simp: elements_def list_all2_conv_all_nth split: if_splits gv.splits)
    let ?w = "Slice (length m) 0 n" and ?z = "zero t"
    obtain ys ns where l: "loop (\<lambda>i. c (a, [Idx (q + i)]) (length m, [Idx i])) [0..<n]
        (put d ?w (m @ [Arr (replicate n ?z)])) = Some (put d ?w (m @ Arr ys # ns))"
      and ys: "length ys = n" "\<forall>i<n. fresh t (Ts ! i) (m @ [NilRef]) (m @ Arr ys # ns) (ys ! i)"
      using loop_elements [OF c order_refl xs(1,3) fd(1,4) lt] by blast
    have "list_all2 (\<lambda>x S. fresh t S m (m @ Arr ys # ns) x) ys Ts"
      using ys n by (auto simp: list_all2_conv_all_nth intro: fresh_mono [of t _ "m @ [NilRef]"])
    then have "fresh (TSlice t) T m (m @ Arr ys # ns) ?w"
      using fresh_slice [of m "length m" "m @ Arr ys # ns" ys t Ts] ys(1) xs(2) by simp
    moreover have "copy_each t c s d m = Some (put d ?w (m @ Arr ys # ns))"
      using l fd(2) d Slice by (simp add: copy_each_def store_ok)
    ultimately show ?thesis unfolding result_def by blast
  qed (use r in \<open>auto simp: ready_def\<close>)
qed

lemma loop_set_key:
  assumes "fst d < length m"
  shows "loop (set_key (length m)) kvs (put d w (m @ [Tab acc]))
      = Some (put d w (m @ [Tab (fold (\<lambda>(k, x). AList.update k x) kvs acc)]))"
proof (induction kvs arbitrary: acc)
  case (Cons kv kvs)
  have "set_key (length m) kv (put d w (m @ [Tab acc]))
      = Some (put d w (m @ [Tab (AList.update (fst kv) (snd kv) acc)]))"
    using assms by (simp add: set_key_def nth_append) (simp add: put_def list_update_append nth_append)
  then show ?case using Cons by (simp add: case_prod_unfold)
qed simp

lemma map_of_fold_update:
  "distinct (map fst kvs) \<Longrightarrow> distinct (map fst acc) \<Longrightarrow>
     map_of (fold (\<lambda>(k, x). AList.update k x) kvs acc) = map_of acc ++ map_of kvs
     \<and> distinct (map fst (fold (\<lambda>(k, x). AList.update k x) kvs acc))"
proof (induction kvs arbitrary: acc)
  case (Cons kv kvs)
  obtain k x where kv: "kv = (k, x)" by (cases kv)
  have "k \<notin> dom (map_of kvs)" using Cons.prems kv by (simp add: dom_map_of_conv_image_fst)
  then have "(map_of acc)(k \<mapsto> x) ++ map_of kvs = map_of acc ++ (map_of kvs)(k \<mapsto> x)"
    by (simp add: map_add_upd_left)
  moreover have "map_of (kv # kvs) = (map_of kvs)(k \<mapsto> x)" by (simp add: kv)
  ultimately show ?case
    using Cons.IH [of "AList.update k x acc"] Cons.prems
    by (simp add: kv update_conv' distinct_update fun_upd_def del: map_of.simps map_add_upd)
qed simp

lemma completes_map: "completes TMap copy_map"
  unfolding completes_def
proof (intro allI impI)
  fix T v s d m
  assume r: "ready TMap T v s d m" and d: "load d m = Some v"
  note lt = load_lt [of d m, unfolded d, simplified]
  show "result TMap T d m (copy_map s d m)"
  proof (cases v)
    case NilRef
    with r d show ?thesis
      by (auto simp: copy_map_def ready_def fresh_def intro!: result_same)
  next
    case (MapRef a)
    from r MapRef obtain kvs where kvs: "entries a m = Some kvs" "T = LMap (map_of kvs)"
      and fd: "fst d \<noteq> a" "load s m = Some v"
      by (auto simp: ready_def)
    have dis: "distinct (map fst kvs)" and alt: "a < length m"
      using kvs(1) by (auto simp: entries_def split: if_splits gv.splits)
    let ?r = "fold (\<lambda>(k, x). AList.update k x) kvs []"
    have e: "entries a (put d (MapRef (length m)) (m @ [Tab []])) = Some kvs"
      by (rule entries_cong [OF _ _ kvs(1)]) (use alt fd in \<open>auto simp: nth_append\<close>)
    have "map_of ?r = map_of kvs" "distinct (map fst ?r)"
      using map_of_fold_update [OF dis, of "[]"] by simp_all
    then have "fresh TMap T m (m @ [Tab ?r]) (MapRef (length m))"
      by (simp add: fresh_def entries_def kvs)
    moreover have "copy_map s d m = Some (put d (MapRef (length m)) (m @ [Tab ?r]))"
      using e fd(2) d lt MapRef by (simp add: copy_map_def store_ok loop_set_key)
    ultimately show ?thesis unfolding result_def by blast
  qed (use r in \<open>auto simp: ready_def\<close>)
qed


text \<open>
  A struct under construction: the fields done read as they should and reach only new memory; the
  others still hold what the shallow copy put there.
\<close>

definition partial :: "(string \<times> ty) list \<Rightarrow> (string \<times> content) list \<Rightarrow> (string \<times> gv) list \<Rightarrow> string set
    \<Rightarrow> mem \<Rightarrow> mem \<Rightarrow> (string \<times> gv) list \<Rightarrow> bool" where
  "partial fts Ts fs F m M fs' \<longleftrightarrow>
     map fst fs' = map fst fts \<and> (\<forall>(f, t)\<in>set fts. \<exists>w. map_of fs' f = Some w
       \<and> (if f \<in> F then \<exists>S. (f, S) \<in> set Ts \<and> fresh t S m M w else map_of fs f = Some w))"

lemma field_reads_map_of:
  assumes "list_all2 (field_reads m fs) fts Ts" "distinct (map fst fts)"
  shows "map fst Ts = map fst fts"
    and "(f, t) \<in> set fts \<Longrightarrow> \<exists>S. (f, S) \<in> set Ts \<and> (\<exists>w. map_of fs f = Some w \<and> tree t m w = Some S)"
proof -
  show "map fst Ts = map fst fts"
    using assms(1) by (induction rule: list_all2_induct) (auto simp: field_reads_def split: prod.splits)
  show "(f, t) \<in> set fts \<Longrightarrow> \<exists>S. (f, S) \<in> set Ts \<and> (\<exists>w. map_of fs f = Some w \<and> tree t m w = Some S)"
    using all2_in [OF assms(1)] by (fastforce simp: field_reads_def)
qed

lemma partial_done:
  assumes p: "partial fts Ts fs F m M fs'" and F: "\<forall>(f, t)\<in>set fts. f \<in> F \<or> plain t"
    and rd: "list_all2 (field_reads m fs) fts Ts" and dis: "distinct (map fst fts)"
  shows "fresh (TStruct fts) (LStruct Ts) m M (Struct fs')"
proof -
  note T = field_reads_map_of(1) [OF rd dis] dis
  have *: "\<exists>w S. map_of fs' f = Some w \<and> (f, S) \<in> set Ts \<and> fresh t S m M w" if ft: "(f, t) \<in> set fts" for f t
  proof (cases "f \<in> F")
    case True
    with p ft show ?thesis unfolding partial_def by fastforce
  next
    case False
    then have pl: "plain t" using F ft by auto
    obtain w where w: "map_of fs' f = Some w" "map_of fs f = Some w"
      using p False ft unfolding partial_def by fastforce
    obtain S where S: "(f, S) \<in> set Ts" "tree t m w = Some S"
      using field_reads_map_of(2) [OF rd dis ft] w(2) by auto
    have "fresh t S m M w"
      using tree_agree [OF S(2), of M] pl by (simp add: fresh_def plain_foot)
    with w S show ?thesis by blast
  qed
  have "list_all2 (field_reads M fs') fts Ts"
  proof (rule list_all2_all_nthI)
    show l: "length fts = length Ts" using T(1) by (metis length_map)
    fix i assume i: "i < length fts"
    obtain f t where ft: "fts ! i = (f, t)" by (cases "fts ! i")
    obtain S' where S': "Ts ! i = (f, S')"
      using T(1) i l ft by (metis fst_conv nth_map prod.collapse)
    obtain w S where w: "map_of fs' f = Some w" "(f, S) \<in> set Ts" "fresh t S m M w"
      using * [of f t] i ft by (metis nth_mem)
    have "S = S'" using w(2) S' T i l
      by (metis eq_key_imp_eq_value nth_mem)
    then show "field_reads M fs' (fts ! i) (Ts ! i)"
      using w ft S' by (auto simp: field_reads_def fresh_def)
  qed
  moreover have "length m \<le> a" if "(f, t) \<in> set fts" "map_of fs' f = Some w" "a \<in> set (foot t M w)" for f t w a
    using * [OF that(1)] that(2,3) by (auto simp: fresh_def)
  ultimately show ?thesis
    using p by (auto simp: fresh_def tree_struct partial_def simp del: tree.simps split: option.splits)
qed

lemma partial_step:
  assumes p: "partial fts Ts fs F m M fs'" and f: "(f, t) \<in> set fts" "distinct (map fst fts)"
    and S: "(f, S) \<in> set Ts" "fresh t S m (M @ ns) w"
  shows "partial fts Ts fs (insert f F) m (M @ ns) (AList.update f w fs')"
proof -
  have eq: "t' = t" if "(f, t') \<in> set fts" for t' using that f by (metis eq_key_imp_eq_value)
  have up: "fresh t' S' m (M @ ns) w'" if "fresh t' S' m M w'" for t' S' w'
    by (rule fresh_agree [OF that]) (auto simp: nth_append)
  have "f \<in> set (map fst fs')" using p f(1) by (force simp: partial_def)
  with p S show ?thesis
    unfolding partial_def by (auto simp: update_keys update_conv' dest!: eq) (use up in fastforce)+
qed


lemma loop_fields:
  assumes r: "ready (TStruct fts) (LStruct Ts) (Struct fs) s d m" and dis: "distinct (map fst fts)"
    and bs: "\<forall>(f, c)\<in>set bs. f \<notin> F \<and> (\<exists>t. (f, t) \<in> set fts \<and> completes t c)" "distinct (map fst bs)"
    and p: "partial fts Ts fs F m (m @ ns) fs'"
  shows "\<exists>fs'' ns'. loop (\<lambda>(f, c). c (fld s f) (fld d f)) bs (put d (Struct fs') (m @ ns))
           = Some (put d (Struct fs'') (m @ ns'))
         \<and> partial fts Ts fs (F \<union> fst ` set bs) m (m @ ns') fs''"
  using bs p
proof (induction bs arbitrary: F ns fs')
  case Nil
  then show ?case by auto
next
  case (Cons fc bs)
  obtain f c where fc: "fc = (f, c)" by (cases fc)
  from Cons.prems(1) fc obtain t where t: "(f, t) \<in> set fts" "completes t c" and fF: "f \<notin> F" by auto
  from r have ld: "load s m = Some (Struct fs)" "load d m \<noteq> None" "fst d \<noteq> fst s"
    "fst d \<notin> set (foot (TStruct fts) m (Struct fs))" and rd: "list_all2 (field_reads m fs) fts Ts"
    by (auto simp: ready_def tree_struct simp del: tree.simps foot.simps)
  obtain S v where S: "(f, S) \<in> set Ts" "map_of fs f = Some v" "tree t m v = Some S"
    using field_reads_map_of(2) [OF rd dis t(1)] by blast
  have fv: "map_of fs' f = Some v" using Cons.prems(3) t(1) fF S(2) unfolding partial_def by fastforce
  have ft: "fst d \<notin> set (foot t m v)" using ld(4) t(1) S(2) by force
  let ?m = "put d (Struct fs') (m @ ns)"
  have dl: "fst d < length m" using ld(2) by (rule load_lt)
  have lds: "load s ?m = Some (Struct fs)" and ldd: "load d ?m = Some (Struct fs')"
    using ld by (auto simp: load_append)
  have tr: "tree t ?m v = Some S \<and> foot t ?m v = foot t m v"
    by (rule ready_agree [OF S(3)]) (use ft foot_lt [OF S(3)] in \<open>auto simp: put_def nth_append nth_list_update\<close>)
  have "ready t S v (fld s f) (fld d f) ?m" and "load (fld d f) ?m = Some v"
    using load_fld [OF lds, of f] load_fld [OF ldd, of f] S fv tr ft ld(3) by (auto simp: ready_def)
  then obtain x ns' where res: "c (fld s f) (fld d f) ?m = Some (put (fld d f) x (?m @ ns'))"
    "fresh t S ?m (?m @ ns') x"
    using t(2) unfolding completes_def result_def by blast
  have "load d (?m @ ns') = Some (Struct fs')" using ldd by (rule load_append)
  then have eq: "put (fld d f) x (?m @ ns') = put d (Struct (AList.update f x fs')) (m @ ns @ ns')"
    using fv dl by (simp add: put_fld put_append)
  have "fresh t S m (m @ ns @ ns') x"
    by (rule fresh_mono, rule fresh_agree [OF res(2)]) (use dl in \<open>auto simp: put_def nth_append nth_list_update\<close>)
  then have p': "partial fts Ts fs (insert f F) m (m @ ns @ ns') (AList.update f x fs')"
    using partial_step [OF Cons.prems(3) t(1) dis S(1), of ns' x] by simp
  have "\<forall>(f', c)\<in>set bs. f' \<notin> insert f F \<and> (\<exists>t. (f', t) \<in> set fts \<and> completes t c)"
    using Cons.prems(1,2) fc by (auto simp: image_iff)
  from Cons.IH [OF this _ p'] Cons.prems(2) obtain fs'' ns'' where
    "loop (\<lambda>(f, c). c (fld s f) (fld d f)) bs (put d (Struct (AList.update f x fs')) (m @ ns @ ns'))
       = Some (put d (Struct fs'') (m @ ns''))"
    "partial fts Ts fs (insert f F \<union> fst ` set bs) m (m @ ns'') fs''" by auto
  then show ?case using res(1) eq fc by (auto simp: insert_commute Un_insert_left)
qed

lemma copies_struct:
  assumes dis: "distinct (map fst fts)" "distinct (map fst bs)"
    and bs: "\<forall>(f, c)\<in>set bs. \<exists>t. (f, t) \<in> set fts \<and> completes t c"
    and pl: "\<forall>(f, t)\<in>set fts. f \<in> fst ` set bs \<or> plain t"
  shows "copies (TStruct fts) (copy_struct bs)"
  unfolding copies_def
proof (intro allI impI)
  fix T v s d m
  assume r: "ready (TStruct fts) T v s d m"
  then obtain fs Ts where v: "v = Struct fs" "T = LStruct Ts" "map fst fs = map fst fts"
    and rd: "list_all2 (field_reads m fs) fts Ts" and ld: "load s m = Some v" "load d m \<noteq> None"
    by (auto simp: ready_def tree_struct simp del: tree.simps foot.simps)
  have "partial fts Ts fs {} m (m @ []) fs"
    using v(3) field_reads_map_of(2) [OF rd dis(1)] by (fastforce simp: partial_def)
  from loop_fields [OF r [unfolded v(1,2)] dis(1) _ dis(2) this, of] bs obtain fs'' ns' where
    *: "loop (\<lambda>(f, c). c (fld s f) (fld d f)) bs (put d (Struct fs) (m @ [])) = Some (put d (Struct fs'') (m @ ns'))"
    "partial fts Ts fs ({} \<union> fst ` set bs) m (m @ ns') fs''" by auto
  have "fresh (TStruct fts) T m (m @ ns') (Struct fs'')"
    unfolding v(2) by (rule partial_done [OF *(2) _ rd dis(1)]) (use pl in auto)
  moreover have "copy_struct bs s d m = Some (put d (Struct fs'') (m @ ns'))"
    using *(1) ld v(1) by (simp add: copy_struct_def assign_def store_ok)
  ultimately show "result (TStruct fts) T d m (copy_struct bs s d m)"
    unfolding result_def by blast
qed

end
