(* ===== verification/Deep_Copy.thy ===== *)
theory Deep_Copy
  imports Copying
begin

section \<open>The generated methods: api/v1/zz_generated.deepcopy.go\<close>

text \<open>
  For each type of \<open>api/v1\<close>: its fields as the declaration has them (\<open>ty_X\<close>), \<open>DeepCopyInto_X\<close> with one
  statement for each block of the generated body in its order, \<open>DeepCopy_X\<close> and, for the six API
  objects, \<open>DeepCopyObject_X\<close>. The statement forms are those of Copying. The types of
  \<open>k8s.io/apimachinery\<close> and their methods are the parameter \<open>metav1\<close>; \<open>metav1_laws\<close> is what is relied
  on: \<open>TypeMeta\<close> holds two strings, and the other methods copy. A named string type is a string, and
  an integer of any width a \<open>TInt\<close>: no statement computes with either.
\<close>

named_theorems copy_rules \<open>statements that complete the copy of a field\<close>

declare copies_assign [copy_rules] completes_ptr [copy_rules] completes_ptr_into [copy_rules]
  completes_call [copy_rules] completes_slice [copy_rules] completes_each [copy_rules]
  completes_map [copy_rules] copies_completes [copy_rules]

record metav1 =
  m1_type_meta :: ty
  m1_object_meta :: ty
  m1_object_meta_into :: copier
  m1_list_meta :: ty
  m1_list_meta_into :: copier
  m1_condition :: ty
  m1_condition_into :: copier
  m1_time :: ty
  m1_time_copy :: cloner

definition metav1_laws :: "metav1 \<Rightarrow> bool" where
  "metav1_laws k \<longleftrightarrow> plain (m1_type_meta k)
     \<and> copies (m1_object_meta k) (m1_object_meta_into k)
     \<and> copies (m1_list_meta k) (m1_list_meta_into k)
     \<and> copies (m1_condition k) (m1_condition_into k)
     \<and> clones (m1_time k) (m1_time_copy k)"

text \<open>\<open>if c := in.DeepCopy(); c != nil { return c }; return nil\<close>: a nil pointer becomes a nil interface.\<close>

definition deep_copy_object :: "cloner \<Rightarrow> gv \<Rightarrow> mem \<Rightarrow> (gv option \<times> mem) option" where
  "deep_copy_object c p m = do { (x, m) \<leftarrow> c p m; Some (if x \<noteq> NilRef then Some x else None, m) }"

definition ty_ConfigVolumeConfig :: "ty" where
  "ty_ConfigVolumeConfig = TStruct
    [(''ClaimName'', TStr), (''SnapshotClass'', TStr)]"

definition DeepCopyInto_ConfigVolumeConfig :: "copier" where
  "DeepCopyInto_ConfigVolumeConfig = copy_struct
    []"

definition DeepCopy_ConfigVolumeConfig :: "cloner" where
  "DeepCopy_ConfigVolumeConfig = deep_copy ty_ConfigVolumeConfig DeepCopyInto_ConfigVolumeConfig"

definition ty_DeploymentPatch :: "ty" where
  "ty_DeploymentPatch = TStruct
    [(''RemoveContainers'', TSlice TStr), (''RemoveInitContainers'', TSlice TStr)]"

definition DeepCopyInto_DeploymentPatch :: "copier" where
  "DeepCopyInto_DeploymentPatch = copy_struct
    [(''RemoveContainers'', copy_slice TStr), (''RemoveInitContainers'', copy_slice TStr)]"

definition DeepCopy_DeploymentPatch :: "cloner" where
  "DeepCopy_DeploymentPatch = deep_copy ty_DeploymentPatch DeepCopyInto_DeploymentPatch"

definition ty_EnvMapping :: "ty" where
  "ty_EnvMapping = TStruct
    [(''ContainerNames'', TSlice TStr), (''DatabaseHost'', TStr), (''DatabaseName'', TStr),
     (''DatabaseUser'', TStr), (''DatabasePassword'', TStr), (''RedisHost'', TStr),
     (''RedisPort'', TStr), (''S3Endpoint'', TStr), (''S3AccessKey'', TStr),
     (''S3SecretKey'', TStr), (''S3Bucket'', TStr), (''S3Region'', TStr), (''OIDCClientID'', TStr),
     (''OIDCClientSecret'', TStr), (''OIDCRedirectURI'', TStr), (''AppURL'', TStr),
     (''ExtraEnv'', TMap)]"

definition DeepCopyInto_EnvMapping :: "copier" where
  "DeepCopyInto_EnvMapping = copy_struct
    [(''ContainerNames'', copy_slice TStr), (''ExtraEnv'', copy_map)]"

definition DeepCopy_EnvMapping :: "cloner" where
  "DeepCopy_EnvMapping = deep_copy ty_EnvMapping DeepCopyInto_EnvMapping"

definition ty_HelmValuesMapping :: "ty" where
  "ty_HelmValuesMapping = TStruct
    [(''DatabaseHost'', TStr), (''DatabaseName'', TStr), (''DatabaseUser'', TStr),
     (''DatabasePassword'', TStr), (''RedisHost'', TStr), (''RedisPort'', TStr),
     (''S3Endpoint'', TStr), (''S3AccessKey'', TStr), (''S3SecretKey'', TStr), (''S3Bucket'', TStr),
     (''OIDCClientID'', TStr), (''OIDCClientSecret'', TStr), (''AppURL'', TStr),
     (''ExtraValues'', TMap)]"

definition DeepCopyInto_HelmValuesMapping :: "copier" where
  "DeepCopyInto_HelmValuesMapping = copy_struct
    [(''ExtraValues'', copy_map)]"

definition DeepCopy_HelmValuesMapping :: "cloner" where
  "DeepCopy_HelmValuesMapping = deep_copy ty_HelmValuesMapping DeepCopyInto_HelmValuesMapping"

definition ty_MigrationProbe :: "ty" where
  "ty_MigrationProbe = TStruct
    [(''Image'', TStr), (''Command'', TSlice TStr), (''Args'', TSlice TStr), (''Port'', TInt),
     (''ReadyPath'', TStr), (''Expect'', TStr), (''RunAsUser'', TPtr TInt), (''Env'', TMap),
     (''TimeoutSeconds'', TInt)]"

definition DeepCopyInto_MigrationProbe :: "copier" where
  "DeepCopyInto_MigrationProbe = copy_struct
    [(''Command'', copy_slice TStr), (''Args'', copy_slice TStr), (''RunAsUser'', copy_ptr TInt),
     (''Env'', copy_map)]"

definition DeepCopy_MigrationProbe :: "cloner" where
  "DeepCopy_MigrationProbe = deep_copy ty_MigrationProbe DeepCopyInto_MigrationProbe"

definition ty_MigrationReport :: "ty" where
  "ty_MigrationReport = TStruct
    [(''Provider'', TStr), (''Repo'', TStr), (''Revision'', TStr), (''Name'', TStr)]"

definition DeepCopyInto_MigrationReport :: "copier" where
  "DeepCopyInto_MigrationReport = copy_struct
    []"

definition DeepCopy_MigrationReport :: "cloner" where
  "DeepCopy_MigrationReport = deep_copy ty_MigrationReport DeepCopyInto_MigrationReport"

definition ty_MigrationCheckSpec :: "ty" where
  "ty_MigrationCheckSpec = TStruct
    [(''AppName'', TStr), (''ClusterName'', TStr), (''ClusterNamespace'', TStr),
     (''DatabaseName'', TStr), (''TTLSeconds'', TInt), (''ReadyTimeoutSeconds'', TInt),
     (''Probe'', TPtr ty_MigrationProbe), (''Report'', TPtr ty_MigrationReport)]"

definition DeepCopyInto_MigrationCheckSpec :: "copier" where
  "DeepCopyInto_MigrationCheckSpec = copy_struct
    [(''Probe'', copy_ptr_into ty_MigrationProbe DeepCopyInto_MigrationProbe),
     (''Report'', copy_ptr ty_MigrationReport)]"

definition DeepCopy_MigrationCheckSpec :: "cloner" where
  "DeepCopy_MigrationCheckSpec = deep_copy ty_MigrationCheckSpec DeepCopyInto_MigrationCheckSpec"

definition ty_MigrationCheckStatus :: "metav1 \<Rightarrow> ty" where
  "ty_MigrationCheckStatus k = TStruct
    [(''Phase'', TStr), (''Reason'', TStr), (''Message'', TStr), (''ConnectionSecretName'', TStr),
     (''ConnectionSecretNamespace'', TStr), (''CloneNamespace'', TStr), (''CloneImage'', TStr),
     (''ExpiresAt'', TPtr (m1_time k)), (''StartedAt'', TPtr (m1_time k)), (''ProbeJobName'', TStr),
     (''ProbeStartedAt'', TPtr (m1_time k)), (''CompletedAt'', TPtr (m1_time k)),
     (''CheckRunID'', TInt), (''ReportedPhase'', TStr)]"

definition DeepCopyInto_MigrationCheckStatus :: "metav1 \<Rightarrow> copier" where
  "DeepCopyInto_MigrationCheckStatus k = copy_struct
    [(''ExpiresAt'', copy_call (m1_time_copy k)), (''StartedAt'', copy_call (m1_time_copy k)),
     (''ProbeStartedAt'', copy_call (m1_time_copy k)), (''CompletedAt'', copy_call (m1_time_copy k))]"

definition DeepCopy_MigrationCheckStatus :: "metav1 \<Rightarrow> cloner" where
  "DeepCopy_MigrationCheckStatus k = deep_copy (ty_MigrationCheckStatus k) (DeepCopyInto_MigrationCheckStatus k)"

definition ty_MigrationCheck :: "metav1 \<Rightarrow> ty" where
  "ty_MigrationCheck k = TStruct
    [(''TypeMeta'', m1_type_meta k), (''ObjectMeta'', m1_object_meta k),
     (''Spec'', ty_MigrationCheckSpec), (''Status'', ty_MigrationCheckStatus k)]"

definition DeepCopyInto_MigrationCheck :: "metav1 \<Rightarrow> copier" where
  "DeepCopyInto_MigrationCheck k = copy_struct
    [(''TypeMeta'', assign), (''ObjectMeta'', m1_object_meta_into k),
     (''Spec'', DeepCopyInto_MigrationCheckSpec), (''Status'', DeepCopyInto_MigrationCheckStatus k)]"

definition DeepCopy_MigrationCheck :: "metav1 \<Rightarrow> cloner" where
  "DeepCopy_MigrationCheck k = deep_copy (ty_MigrationCheck k) (DeepCopyInto_MigrationCheck k)"

definition DeepCopyObject_MigrationCheck :: "metav1 \<Rightarrow> gv \<Rightarrow> mem \<Rightarrow> (gv option \<times> mem) option" where
  "DeepCopyObject_MigrationCheck k = deep_copy_object (DeepCopy_MigrationCheck k)"

definition ty_MigrationCheckList :: "metav1 \<Rightarrow> ty" where
  "ty_MigrationCheckList k = TStruct
    [(''TypeMeta'', m1_type_meta k), (''ListMeta'', m1_list_meta k),
     (''Items'', TSlice (ty_MigrationCheck k))]"

definition DeepCopyInto_MigrationCheckList :: "metav1 \<Rightarrow> copier" where
  "DeepCopyInto_MigrationCheckList k = copy_struct
    [(''TypeMeta'', assign), (''ListMeta'', m1_list_meta_into k),
     (''Items'', copy_each (ty_MigrationCheck k) (DeepCopyInto_MigrationCheck k))]"

definition DeepCopy_MigrationCheckList :: "metav1 \<Rightarrow> cloner" where
  "DeepCopy_MigrationCheckList k = deep_copy (ty_MigrationCheckList k) (DeepCopyInto_MigrationCheckList k)"

definition DeepCopyObject_MigrationCheckList :: "metav1 \<Rightarrow> gv \<Rightarrow> mem \<Rightarrow> (gv option \<times> mem) option" where
  "DeepCopyObject_MigrationCheckList k = deep_copy_object (DeepCopy_MigrationCheckList k)"

definition ty_PreviewCheckThresholds :: "ty" where
  "ty_PreviewCheckThresholds = TStruct
    [(''KEVMax'', TPtr TInt), (''EPSSMaxPermille'', TPtr TInt)]"

definition DeepCopyInto_PreviewCheckThresholds :: "copier" where
  "DeepCopyInto_PreviewCheckThresholds = copy_struct
    [(''KEVMax'', copy_ptr TInt), (''EPSSMaxPermille'', copy_ptr TInt)]"

definition DeepCopy_PreviewCheckThresholds :: "cloner" where
  "DeepCopy_PreviewCheckThresholds = deep_copy ty_PreviewCheckThresholds DeepCopyInto_PreviewCheckThresholds"

definition ty_PreviewCheckResult :: "metav1 \<Rightarrow> ty" where
  "ty_PreviewCheckResult k = TStruct
    [(''Name'', TStr), (''Phase'', TStr), (''Reason'', TStr), (''Message'', TStr),
     (''StartedAt'', TPtr (m1_time k)), (''FinishedAt'', TPtr (m1_time k)), (''Details'', TMap)]"

definition DeepCopyInto_PreviewCheckResult :: "metav1 \<Rightarrow> copier" where
  "DeepCopyInto_PreviewCheckResult k = copy_struct
    [(''StartedAt'', copy_call (m1_time_copy k)), (''FinishedAt'', copy_call (m1_time_copy k)),
     (''Details'', copy_map)]"

definition DeepCopy_PreviewCheckResult :: "metav1 \<Rightarrow> cloner" where
  "DeepCopy_PreviewCheckResult k = deep_copy (ty_PreviewCheckResult k) (DeepCopyInto_PreviewCheckResult k)"

definition ty_PreviewCheckSpec :: "ty" where
  "ty_PreviewCheckSpec = TStruct
    [(''PRNumber'', TInt), (''App'', TStr), (''Image'', TStr), (''Revision'', TStr),
     (''Checks'', TSlice TStr), (''HTTPPath'', TStr), (''ExpectStatus'', TSlice TInt),
     (''TimeoutSeconds'', TInt), (''TTLSeconds'', TInt), (''Thresholds'', ty_PreviewCheckThresholds)]"

definition DeepCopyInto_PreviewCheckSpec :: "copier" where
  "DeepCopyInto_PreviewCheckSpec = copy_struct
    [(''Checks'', copy_slice TStr), (''ExpectStatus'', copy_slice TInt),
     (''Thresholds'', DeepCopyInto_PreviewCheckThresholds)]"

definition DeepCopy_PreviewCheckSpec :: "cloner" where
  "DeepCopy_PreviewCheckSpec = deep_copy ty_PreviewCheckSpec DeepCopyInto_PreviewCheckSpec"

definition ty_PreviewCheckStatus :: "metav1 \<Rightarrow> ty" where
  "ty_PreviewCheckStatus k = TStruct
    [(''Phase'', TStr), (''Message'', TStr), (''Checks'', TSlice (ty_PreviewCheckResult k)),
     (''PreviewNamespace'', TStr), (''PreviewHost'', TStr), (''ResolvedImage'', TStr),
     (''StartedAt'', TPtr (m1_time k)), (''CompletedAt'', TPtr (m1_time k)),
     (''ExpiresAt'', TPtr (m1_time k)), (''ObservedGeneration'', TInt),
     (''Conditions'', TSlice (m1_condition k))]"

definition DeepCopyInto_PreviewCheckStatus :: "metav1 \<Rightarrow> copier" where
  "DeepCopyInto_PreviewCheckStatus k = copy_struct
    [(''Checks'', copy_each (ty_PreviewCheckResult k) (DeepCopyInto_PreviewCheckResult k)),
     (''StartedAt'', copy_call (m1_time_copy k)), (''CompletedAt'', copy_call (m1_time_copy k)),
     (''ExpiresAt'', copy_call (m1_time_copy k)),
     (''Conditions'', copy_each (m1_condition k) (m1_condition_into k))]"

definition DeepCopy_PreviewCheckStatus :: "metav1 \<Rightarrow> cloner" where
  "DeepCopy_PreviewCheckStatus k = deep_copy (ty_PreviewCheckStatus k) (DeepCopyInto_PreviewCheckStatus k)"

definition ty_PreviewCheck :: "metav1 \<Rightarrow> ty" where
  "ty_PreviewCheck k = TStruct
    [(''TypeMeta'', m1_type_meta k), (''ObjectMeta'', m1_object_meta k),
     (''Spec'', ty_PreviewCheckSpec), (''Status'', ty_PreviewCheckStatus k)]"

definition DeepCopyInto_PreviewCheck :: "metav1 \<Rightarrow> copier" where
  "DeepCopyInto_PreviewCheck k = copy_struct
    [(''TypeMeta'', assign), (''ObjectMeta'', m1_object_meta_into k),
     (''Spec'', DeepCopyInto_PreviewCheckSpec), (''Status'', DeepCopyInto_PreviewCheckStatus k)]"

definition DeepCopy_PreviewCheck :: "metav1 \<Rightarrow> cloner" where
  "DeepCopy_PreviewCheck k = deep_copy (ty_PreviewCheck k) (DeepCopyInto_PreviewCheck k)"

definition DeepCopyObject_PreviewCheck :: "metav1 \<Rightarrow> gv \<Rightarrow> mem \<Rightarrow> (gv option \<times> mem) option" where
  "DeepCopyObject_PreviewCheck k = deep_copy_object (DeepCopy_PreviewCheck k)"

definition ty_PreviewCheckList :: "metav1 \<Rightarrow> ty" where
  "ty_PreviewCheckList k = TStruct
    [(''TypeMeta'', m1_type_meta k), (''ListMeta'', m1_list_meta k),
     (''Items'', TSlice (ty_PreviewCheck k))]"

definition DeepCopyInto_PreviewCheckList :: "metav1 \<Rightarrow> copier" where
  "DeepCopyInto_PreviewCheckList k = copy_struct
    [(''TypeMeta'', assign), (''ListMeta'', m1_list_meta_into k),
     (''Items'', copy_each (ty_PreviewCheck k) (DeepCopyInto_PreviewCheck k))]"

definition DeepCopy_PreviewCheckList :: "metav1 \<Rightarrow> cloner" where
  "DeepCopy_PreviewCheckList k = deep_copy (ty_PreviewCheckList k) (DeepCopyInto_PreviewCheckList k)"

definition DeepCopyObject_PreviewCheckList :: "metav1 \<Rightarrow> gv \<Rightarrow> mem \<Rightarrow> (gv option \<times> mem) option" where
  "DeepCopyObject_PreviewCheckList k = deep_copy_object (DeepCopy_PreviewCheckList k)"

definition ty_RedisConfig :: "ty" where
  "ty_RedisConfig = TStruct
    [(''Enabled'', TBool)]"

definition DeepCopyInto_RedisConfig :: "copier" where
  "DeepCopyInto_RedisConfig = copy_struct
    []"

definition DeepCopy_RedisConfig :: "cloner" where
  "DeepCopy_RedisConfig = deep_copy ty_RedisConfig DeepCopyInto_RedisConfig"

definition ty_StorageConfig :: "ty" where
  "ty_StorageConfig = TStruct
    [(''Enabled'', TBool), (''Bucket'', TStr)]"

definition DeepCopyInto_StorageConfig :: "copier" where
  "DeepCopyInto_StorageConfig = copy_struct
    []"

definition DeepCopy_StorageConfig :: "cloner" where
  "DeepCopy_StorageConfig = deep_copy ty_StorageConfig DeepCopyInto_StorageConfig"

definition ty_SmokeTestConfig :: "ty" where
  "ty_SmokeTestConfig = TStruct
    [(''Image'', TStr), (''Command'', TSlice TStr), (''Args'', TSlice TStr), (''Env'', TMap),
     (''TimeoutSeconds'', TInt)]"

definition DeepCopyInto_SmokeTestConfig :: "copier" where
  "DeepCopyInto_SmokeTestConfig = copy_struct
    [(''Command'', copy_slice TStr), (''Args'', copy_slice TStr), (''Env'', copy_map)]"

definition DeepCopy_SmokeTestConfig :: "cloner" where
  "DeepCopy_SmokeTestConfig = deep_copy ty_SmokeTestConfig DeepCopyInto_SmokeTestConfig"

definition ty_PreviewConfigSpec :: "ty" where
  "ty_PreviewConfigSpec = TStruct
    [(''DeploymentType'', TStr), (''Redis'', TPtr ty_RedisConfig),
     (''Storage'', TPtr ty_StorageConfig), (''EnvMapping'', TPtr ty_EnvMapping),
     (''HelmValues'', TPtr ty_HelmValuesMapping), (''SharedServices'', TSlice TStr),
     (''ConfigVolume'', TPtr ty_ConfigVolumeConfig), (''DeploymentPatch'', TPtr ty_DeploymentPatch),
     (''SmokeTest'', TPtr ty_SmokeTestConfig)]"

definition DeepCopyInto_PreviewConfigSpec :: "copier" where
  "DeepCopyInto_PreviewConfigSpec = copy_struct
    [(''Redis'', copy_ptr ty_RedisConfig), (''Storage'', copy_ptr ty_StorageConfig),
     (''EnvMapping'', copy_ptr_into ty_EnvMapping DeepCopyInto_EnvMapping),
     (''HelmValues'', copy_ptr_into ty_HelmValuesMapping DeepCopyInto_HelmValuesMapping),
     (''SharedServices'', copy_slice TStr), (''ConfigVolume'', copy_ptr ty_ConfigVolumeConfig),
     (''DeploymentPatch'', copy_ptr_into ty_DeploymentPatch DeepCopyInto_DeploymentPatch),
     (''SmokeTest'', copy_ptr_into ty_SmokeTestConfig DeepCopyInto_SmokeTestConfig)]"

definition DeepCopy_PreviewConfigSpec :: "cloner" where
  "DeepCopy_PreviewConfigSpec = deep_copy ty_PreviewConfigSpec DeepCopyInto_PreviewConfigSpec"

definition ty_PreviewConfigStatus :: "metav1 \<Rightarrow> ty" where
  "ty_PreviewConfigStatus k = TStruct
    [(''Conditions'', TSlice (m1_condition k)), (''LastProcessedTime'', TPtr (m1_time k))]"

definition DeepCopyInto_PreviewConfigStatus :: "metav1 \<Rightarrow> copier" where
  "DeepCopyInto_PreviewConfigStatus k = copy_struct
    [(''Conditions'', copy_each (m1_condition k) (m1_condition_into k)),
     (''LastProcessedTime'', copy_call (m1_time_copy k))]"

definition DeepCopy_PreviewConfigStatus :: "metav1 \<Rightarrow> cloner" where
  "DeepCopy_PreviewConfigStatus k = deep_copy (ty_PreviewConfigStatus k) (DeepCopyInto_PreviewConfigStatus k)"

definition ty_PreviewConfig :: "metav1 \<Rightarrow> ty" where
  "ty_PreviewConfig k = TStruct
    [(''TypeMeta'', m1_type_meta k), (''ObjectMeta'', m1_object_meta k),
     (''Spec'', ty_PreviewConfigSpec), (''Status'', ty_PreviewConfigStatus k)]"

definition DeepCopyInto_PreviewConfig :: "metav1 \<Rightarrow> copier" where
  "DeepCopyInto_PreviewConfig k = copy_struct
    [(''TypeMeta'', assign), (''ObjectMeta'', m1_object_meta_into k),
     (''Spec'', DeepCopyInto_PreviewConfigSpec), (''Status'', DeepCopyInto_PreviewConfigStatus k)]"

definition DeepCopy_PreviewConfig :: "metav1 \<Rightarrow> cloner" where
  "DeepCopy_PreviewConfig k = deep_copy (ty_PreviewConfig k) (DeepCopyInto_PreviewConfig k)"

definition DeepCopyObject_PreviewConfig :: "metav1 \<Rightarrow> gv \<Rightarrow> mem \<Rightarrow> (gv option \<times> mem) option" where
  "DeepCopyObject_PreviewConfig k = deep_copy_object (DeepCopy_PreviewConfig k)"

definition ty_PreviewConfigList :: "metav1 \<Rightarrow> ty" where
  "ty_PreviewConfigList k = TStruct
    [(''TypeMeta'', m1_type_meta k), (''ListMeta'', m1_list_meta k),
     (''Items'', TSlice (ty_PreviewConfig k))]"

definition DeepCopyInto_PreviewConfigList :: "metav1 \<Rightarrow> copier" where
  "DeepCopyInto_PreviewConfigList k = copy_struct
    [(''TypeMeta'', assign), (''ListMeta'', m1_list_meta_into k),
     (''Items'', copy_each (ty_PreviewConfig k) (DeepCopyInto_PreviewConfig k))]"

definition DeepCopy_PreviewConfigList :: "metav1 \<Rightarrow> cloner" where
  "DeepCopy_PreviewConfigList k = deep_copy (ty_PreviewConfigList k) (DeepCopyInto_PreviewConfigList k)"

definition DeepCopyObject_PreviewConfigList :: "metav1 \<Rightarrow> gv \<Rightarrow> mem \<Rightarrow> (gv option \<times> mem) option" where
  "DeepCopyObject_PreviewConfigList k = deep_copy_object (DeepCopy_PreviewConfigList k)"

subsection \<open>Every one of them copies its type\<close>

lemma plain_ConfigVolumeConfig [simp]: "plain ty_ConfigVolumeConfig"
  by (simp add: ty_ConfigVolumeConfig_def)

lemma plain_MigrationReport [simp]: "plain ty_MigrationReport"
  by (simp add: ty_MigrationReport_def)

lemma plain_RedisConfig [simp]: "plain ty_RedisConfig"
  by (simp add: ty_RedisConfig_def)

lemma plain_StorageConfig [simp]: "plain ty_StorageConfig"
  by (simp add: ty_StorageConfig_def)

lemma copies_ConfigVolumeConfig [copy_rules]: "copies ty_ConfigVolumeConfig DeepCopyInto_ConfigVolumeConfig"
  unfolding DeepCopyInto_ConfigVolumeConfig_def ty_ConfigVolumeConfig_def
  by (rule copies_struct) (simp_all add: copy_rules)

lemma copies_DeploymentPatch [copy_rules]: "copies ty_DeploymentPatch DeepCopyInto_DeploymentPatch"
  unfolding DeepCopyInto_DeploymentPatch_def ty_DeploymentPatch_def
  by (rule copies_struct) (simp_all add: copy_rules)

lemma copies_EnvMapping [copy_rules]: "copies ty_EnvMapping DeepCopyInto_EnvMapping"
  unfolding DeepCopyInto_EnvMapping_def ty_EnvMapping_def
  by (rule copies_struct) (simp_all add: copy_rules)

lemma copies_HelmValuesMapping [copy_rules]: "copies ty_HelmValuesMapping DeepCopyInto_HelmValuesMapping"
  unfolding DeepCopyInto_HelmValuesMapping_def ty_HelmValuesMapping_def
  by (rule copies_struct) (simp_all add: copy_rules)

lemma copies_MigrationProbe [copy_rules]: "copies ty_MigrationProbe DeepCopyInto_MigrationProbe"
  unfolding DeepCopyInto_MigrationProbe_def ty_MigrationProbe_def
  by (rule copies_struct) (simp_all add: copy_rules)

lemma copies_MigrationReport [copy_rules]: "copies ty_MigrationReport DeepCopyInto_MigrationReport"
  unfolding DeepCopyInto_MigrationReport_def ty_MigrationReport_def
  by (rule copies_struct) (simp_all add: copy_rules)

lemma copies_MigrationCheckSpec [copy_rules]: "copies ty_MigrationCheckSpec DeepCopyInto_MigrationCheckSpec"
  unfolding DeepCopyInto_MigrationCheckSpec_def ty_MigrationCheckSpec_def
  by (rule copies_struct) (simp_all add: copy_rules)

lemma copies_MigrationCheckStatus [copy_rules]: "metav1_laws k \<Longrightarrow> copies (ty_MigrationCheckStatus k) (DeepCopyInto_MigrationCheckStatus k)"
  unfolding DeepCopyInto_MigrationCheckStatus_def ty_MigrationCheckStatus_def
  by (rule copies_struct) (simp_all add: copy_rules metav1_laws_def)

lemma copies_MigrationCheck [copy_rules]: "metav1_laws k \<Longrightarrow> copies (ty_MigrationCheck k) (DeepCopyInto_MigrationCheck k)"
  unfolding DeepCopyInto_MigrationCheck_def ty_MigrationCheck_def
  by (rule copies_struct) (simp_all add: copy_rules metav1_laws_def)

lemma copies_MigrationCheckList [copy_rules]: "metav1_laws k \<Longrightarrow> copies (ty_MigrationCheckList k) (DeepCopyInto_MigrationCheckList k)"
  unfolding DeepCopyInto_MigrationCheckList_def ty_MigrationCheckList_def
  by (rule copies_struct) (simp_all add: copy_rules metav1_laws_def)

lemma copies_PreviewCheckThresholds [copy_rules]: "copies ty_PreviewCheckThresholds DeepCopyInto_PreviewCheckThresholds"
  unfolding DeepCopyInto_PreviewCheckThresholds_def ty_PreviewCheckThresholds_def
  by (rule copies_struct) (simp_all add: copy_rules)

lemma copies_PreviewCheckResult [copy_rules]: "metav1_laws k \<Longrightarrow> copies (ty_PreviewCheckResult k) (DeepCopyInto_PreviewCheckResult k)"
  unfolding DeepCopyInto_PreviewCheckResult_def ty_PreviewCheckResult_def
  by (rule copies_struct) (simp_all add: copy_rules metav1_laws_def)

lemma copies_PreviewCheckSpec [copy_rules]: "copies ty_PreviewCheckSpec DeepCopyInto_PreviewCheckSpec"
  unfolding DeepCopyInto_PreviewCheckSpec_def ty_PreviewCheckSpec_def
  by (rule copies_struct) (simp_all add: copy_rules)

lemma copies_PreviewCheckStatus [copy_rules]: "metav1_laws k \<Longrightarrow> copies (ty_PreviewCheckStatus k) (DeepCopyInto_PreviewCheckStatus k)"
  unfolding DeepCopyInto_PreviewCheckStatus_def ty_PreviewCheckStatus_def
  by (rule copies_struct) (simp_all add: copy_rules metav1_laws_def)

lemma copies_PreviewCheck [copy_rules]: "metav1_laws k \<Longrightarrow> copies (ty_PreviewCheck k) (DeepCopyInto_PreviewCheck k)"
  unfolding DeepCopyInto_PreviewCheck_def ty_PreviewCheck_def
  by (rule copies_struct) (simp_all add: copy_rules metav1_laws_def)

lemma copies_PreviewCheckList [copy_rules]: "metav1_laws k \<Longrightarrow> copies (ty_PreviewCheckList k) (DeepCopyInto_PreviewCheckList k)"
  unfolding DeepCopyInto_PreviewCheckList_def ty_PreviewCheckList_def
  by (rule copies_struct) (simp_all add: copy_rules metav1_laws_def)

lemma copies_RedisConfig [copy_rules]: "copies ty_RedisConfig DeepCopyInto_RedisConfig"
  unfolding DeepCopyInto_RedisConfig_def ty_RedisConfig_def
  by (rule copies_struct) (simp_all add: copy_rules)

lemma copies_StorageConfig [copy_rules]: "copies ty_StorageConfig DeepCopyInto_StorageConfig"
  unfolding DeepCopyInto_StorageConfig_def ty_StorageConfig_def
  by (rule copies_struct) (simp_all add: copy_rules)

lemma copies_SmokeTestConfig [copy_rules]: "copies ty_SmokeTestConfig DeepCopyInto_SmokeTestConfig"
  unfolding DeepCopyInto_SmokeTestConfig_def ty_SmokeTestConfig_def
  by (rule copies_struct) (simp_all add: copy_rules)

lemma copies_PreviewConfigSpec [copy_rules]: "copies ty_PreviewConfigSpec DeepCopyInto_PreviewConfigSpec"
  unfolding DeepCopyInto_PreviewConfigSpec_def ty_PreviewConfigSpec_def
  by (rule copies_struct) (simp_all add: copy_rules)

lemma copies_PreviewConfigStatus [copy_rules]: "metav1_laws k \<Longrightarrow> copies (ty_PreviewConfigStatus k) (DeepCopyInto_PreviewConfigStatus k)"
  unfolding DeepCopyInto_PreviewConfigStatus_def ty_PreviewConfigStatus_def
  by (rule copies_struct) (simp_all add: copy_rules metav1_laws_def)

lemma copies_PreviewConfig [copy_rules]: "metav1_laws k \<Longrightarrow> copies (ty_PreviewConfig k) (DeepCopyInto_PreviewConfig k)"
  unfolding DeepCopyInto_PreviewConfig_def ty_PreviewConfig_def
  by (rule copies_struct) (simp_all add: copy_rules metav1_laws_def)

lemma copies_PreviewConfigList [copy_rules]: "metav1_laws k \<Longrightarrow> copies (ty_PreviewConfigList k) (DeepCopyInto_PreviewConfigList k)"
  unfolding DeepCopyInto_PreviewConfigList_def ty_PreviewConfigList_def
  by (rule copies_struct) (simp_all add: copy_rules metav1_laws_def)

lemmas copies_closed = copies_ConfigVolumeConfig copies_DeploymentPatch copies_EnvMapping copies_HelmValuesMapping copies_MigrationProbe copies_MigrationReport copies_MigrationCheckSpec copies_PreviewCheckThresholds copies_PreviewCheckSpec copies_RedisConfig copies_StorageConfig copies_SmokeTestConfig copies_PreviewConfigSpec
lemmas copies_lemmas = copies_MigrationCheckStatus copies_MigrationCheck copies_MigrationCheckList copies_PreviewCheckResult copies_PreviewCheckStatus copies_PreviewCheck copies_PreviewCheckList copies_PreviewConfigStatus copies_PreviewConfig copies_PreviewConfigList
lemmas DeepCopy_defs = DeepCopy_ConfigVolumeConfig_def DeepCopy_DeploymentPatch_def DeepCopy_EnvMapping_def DeepCopy_HelmValuesMapping_def DeepCopy_MigrationProbe_def DeepCopy_MigrationReport_def DeepCopy_MigrationCheckSpec_def DeepCopy_MigrationCheckStatus_def DeepCopy_MigrationCheck_def DeepCopy_MigrationCheckList_def DeepCopy_PreviewCheckThresholds_def DeepCopy_PreviewCheckResult_def DeepCopy_PreviewCheckSpec_def DeepCopy_PreviewCheckStatus_def DeepCopy_PreviewCheck_def DeepCopy_PreviewCheckList_def DeepCopy_RedisConfig_def DeepCopy_StorageConfig_def DeepCopy_SmokeTestConfig_def DeepCopy_PreviewConfigSpec_def DeepCopy_PreviewConfigStatus_def DeepCopy_PreviewConfig_def DeepCopy_PreviewConfigList_def

text \<open>The \<open>DeepCopy\<close> methods with the types they belong to.\<close>

definition deep_copy_methods :: "metav1 \<Rightarrow> (ty \<times> cloner) list" where
  "deep_copy_methods k =
    [(ty_ConfigVolumeConfig, DeepCopy_ConfigVolumeConfig),
     (ty_DeploymentPatch, DeepCopy_DeploymentPatch), (ty_EnvMapping, DeepCopy_EnvMapping),
     (ty_HelmValuesMapping, DeepCopy_HelmValuesMapping),
     (ty_MigrationProbe, DeepCopy_MigrationProbe), (ty_MigrationReport, DeepCopy_MigrationReport),
     (ty_MigrationCheckSpec, DeepCopy_MigrationCheckSpec),
     (ty_MigrationCheckStatus k, DeepCopy_MigrationCheckStatus k),
     (ty_MigrationCheck k, DeepCopy_MigrationCheck k),
     (ty_MigrationCheckList k, DeepCopy_MigrationCheckList k),
     (ty_PreviewCheckThresholds, DeepCopy_PreviewCheckThresholds),
     (ty_PreviewCheckResult k, DeepCopy_PreviewCheckResult k),
     (ty_PreviewCheckSpec, DeepCopy_PreviewCheckSpec),
     (ty_PreviewCheckStatus k, DeepCopy_PreviewCheckStatus k),
     (ty_PreviewCheck k, DeepCopy_PreviewCheck k),
     (ty_PreviewCheckList k, DeepCopy_PreviewCheckList k), (ty_RedisConfig, DeepCopy_RedisConfig),
     (ty_StorageConfig, DeepCopy_StorageConfig), (ty_SmokeTestConfig, DeepCopy_SmokeTestConfig),
     (ty_PreviewConfigSpec, DeepCopy_PreviewConfigSpec),
     (ty_PreviewConfigStatus k, DeepCopy_PreviewConfigStatus k),
     (ty_PreviewConfig k, DeepCopy_PreviewConfig k),
     (ty_PreviewConfigList k, DeepCopy_PreviewConfigList k)]"

lemma deep_copy_methods_deep_copy:
  assumes "metav1_laws k" "(t, c) \<in> set (deep_copy_methods k)"
  obtains into where "copies t into" "c = deep_copy t into"
proof -
  have "list_all (\<lambda>(t, c). \<exists>into. copies t into \<and> c = deep_copy t into) (deep_copy_methods k)"
    using copies_lemmas [OF assms(1)] copies_closed
    by (simp add: deep_copy_methods_def DeepCopy_defs) blast
  then show ?thesis using assms(2) that by (auto simp: list_all_iff)
qed

end
