(* ===== verification/Deep_Copy_Run.thy ===== *)
theory Deep_Copy_Run
  imports Deep_Copy
begin

section \<open>Deep copies: properties\<close>

text \<open>
  What a program does to memory from some point on, when it may write only the cells that \<open>P\<close> allows:
  it stores into them and allocates.
\<close>

inductive mutates :: "(nat \<Rightarrow> bool) \<Rightarrow> mem \<Rightarrow> mem \<Rightarrow> bool" for P m where
  mutates_refl: "mutates P m m"
| mutates_store: "mutates P m m' \<Longrightarrow> P (fst l) \<Longrightarrow> store l x m' = Some m'' \<Longrightarrow> mutates P m m''"
| mutates_alloc: "mutates P m m' \<Longrightarrow> mutates P m (snd (alloc x m'))"

lemma mutates_keeps:
  "mutates P m m' \<Longrightarrow> length m \<le> length m' \<and> (\<forall>a<length m. \<not> P a \<longrightarrow> m' ! a = m ! a)"
proof (induction rule: mutates.induct)
  case (mutates_store m' l x m'')
  then show ?case by (auto simp: store_def split: if_splits) (metis nth_put_other)
qed (auto simp: nth_append)

lemma mutates_tree:
  assumes "mutates P m m'" "tree t m v = Some T" "\<forall>a\<in>set (foot t m v). \<not> P a"
  shows "tree t m' v = Some T"
  using tree_agree [OF assms(2), of m'] mutates_keeps [OF assms(1)] foot_lt [OF assms(2)] assms(3)
  by (auto simp: agree_def) (meson order_less_le_trans)

text \<open>C25 Every generated \<open>DeepCopy\<close> makes a copy that is equal to the original and shares no memory with
  it. For a well-typed object at a non-nil receiver it returns (no dereference in it panics) a pointer
  to an object with the same content; it writes nothing the caller could see before; and whatever is
  later written through the copy leaves the original as it was, as whatever is written through the
  original leaves the copy. A nil receiver gives nil.\<close>

theorem deep_copies_are_independent:
  assumes k: "metav1_laws k" and c: "(t, copy) \<in> set (deep_copy_methods k)"
    and T: "tree (TPtr t) m (Ptr a p) = Some T"
  shows "copy NilRef m = Some (NilRef, m)
    \<and> (\<exists>b q ns. copy (Ptr a p) m = Some (Ptr b q, m @ ns)
        \<and> tree (TPtr t) (m @ ns) (Ptr a p) = Some T \<and> tree (TPtr t) (m @ ns) (Ptr b q) = Some T
        \<and> (\<forall>m'. mutates (\<lambda>c. length m \<le> c) (m @ ns) m' \<longrightarrow> tree (TPtr t) m' (Ptr a p) = Some T)
        \<and> (\<forall>m'. mutates (\<lambda>c. c < length m \<or> length (m @ ns) \<le> c) (m @ ns) m'
             \<longrightarrow> tree (TPtr t) m' (Ptr b q) = Some T))"
proof -
  obtain into where into: "copies t into" "copy = deep_copy t into"
    using deep_copy_methods_deep_copy [OF k c] by blast
  obtain v S where v: "load (a, p) m = Some v" "tree t m v = Some S" "T = LPtr S"
    using T by (auto split: option.splits)
  obtain b q ns where b: "copy (Ptr a p) m = Some (Ptr b q, m @ ns)"
    "fresh (TPtr t) T m (m @ ns) (Ptr b q)"
    using clones_deep_copy [OF into(1)] v into(2) unfolding clones_def by blast
  have orig: "tree (TPtr t) (m @ ns) (Ptr a p) = Some T"
      "foot (TPtr t) (m @ ns) (Ptr a p) = foot (TPtr t) m (Ptr a p)"
    using ready_agree [OF T, of "m @ ns"] foot_lt [OF T] by (auto simp: nth_append)
  have "tree (TPtr t) m' (Ptr a p) = Some T" if "mutates (\<lambda>c. length m \<le> c) (m @ ns) m'" for m'
    by (rule mutates_tree [OF that orig(1)]) (use foot_lt [OF T] orig(2) in \<open>auto simp: not_le\<close>)
  moreover have "tree (TPtr t) m' (Ptr b q) = Some T"
    if "mutates (\<lambda>c. c < length m \<or> length (m @ ns) \<le> c) (m @ ns) m'" for m'
    using b(2) foot_lt [of "TPtr t" "m @ ns" "Ptr b q" T]
    by (intro mutates_tree [OF that]) (auto simp: fresh_def not_le simp del: tree.simps foot.simps)
  moreover have "copy NilRef m = Some (NilRef, m)" by (simp add: into(2) deep_copy_def)
  ultimately show ?thesis using b orig(1) by (auto simp: fresh_def simp del: tree.simps foot.simps)
qed


text \<open>A small apimachinery, and a probe with a command, a user and an environment in cells of their own.\<close>

definition demo_metav1 :: metav1 where
  "demo_metav1 =
     \<lparr>m1_type_meta = TStruct [(''Kind'', TStr), (''APIVersion'', TStr)],
      m1_object_meta = TStruct [(''Name'', TStr), (''Labels'', TMap)],
      m1_object_meta_into = copy_struct [(''Labels'', copy_map)],
      m1_list_meta = TStruct [(''ResourceVersion'', TStr)],
      m1_list_meta_into = copy_struct [],
      m1_condition = TStruct [(''Type'', TStr), (''Status'', TStr)],
      m1_condition_into = copy_struct [],
      m1_time = TInt,
      m1_time_copy = deep_copy TInt assign\<rparr>"

lemma demo_metav1_laws: "metav1_laws demo_metav1"
proof -
  have "copies (TStruct [(''Name'', TStr), (''Labels'', TMap)]) (copy_struct [(''Labels'', copy_map)])"
    by (rule copies_struct) (simp_all add: copy_rules)
  moreover have "copies (TStruct fts) (copy_struct [])" if "distinct (map fst fts)"
      "\<forall>(f, t)\<in>set fts. plain t" for fts
    by (rule copies_struct) (use that in auto)
  moreover have "clones TInt (deep_copy TInt assign)"
    by (rule clones_deep_copy) (simp add: copy_rules)
  ultimately show ?thesis by (simp add: metav1_laws_def demo_metav1_def)
qed

definition demo_memory :: mem where
  "demo_memory =
     [Struct [(''Image'', Basic (BStr ''app:1'')), (''Command'', Slice 1 0 2), (''Args'', NilRef),
        (''Port'', Basic (BInt 8080)), (''ReadyPath'', Basic (BStr ''/'')),
        (''Expect'', Basic (BStr ''Exit0'')), (''RunAsUser'', Ptr 2 []), (''Env'', MapRef 3),
        (''TimeoutSeconds'', Basic (BInt 300))],
      Arr [Basic (BStr ''sh''), Basic (BStr ''-c'')], Basic (BInt 1000), Tab [(''A'', ''1'')]]"

definition demo_content :: content where
  "demo_content = LPtr (LStruct [(''Image'', LBasic (BStr ''app:1'')),
     (''Command'', LSlice [LBasic (BStr ''sh''), LBasic (BStr ''-c'')]), (''Args'', LNil),
     (''Port'', LBasic (BInt 8080)), (''ReadyPath'', LBasic (BStr ''/'')),
     (''Expect'', LBasic (BStr ''Exit0'')), (''RunAsUser'', LPtr (LBasic (BInt 1000))),
     (''Env'', LMap [''A'' \<mapsto> ''1'']), (''TimeoutSeconds'', LBasic (BInt 300))])"

lemma demo_tree: "tree (TPtr ty_MigrationProbe) demo_memory (Ptr 0 []) = Some demo_content"
  by (simp add: ty_MigrationProbe_def demo_memory_def demo_content_def load_def elements_def entries_def
      numeral_2_eq_2 numeral_3_eq_3)

theorem deep_copies_are_independent_witness:
  "\<exists>b q ns. DeepCopy_MigrationProbe (Ptr 0 []) demo_memory = Some (Ptr b q, demo_memory @ ns)
     \<and> tree (TPtr ty_MigrationProbe) (demo_memory @ ns) (Ptr b q) = Some demo_content
     \<and> tree (TPtr ty_MigrationProbe) (snd (alloc NilRef (demo_memory @ ns))) (Ptr b q) = Some demo_content"
proof -
  have "(ty_MigrationProbe, DeepCopy_MigrationProbe) \<in> set (deep_copy_methods demo_metav1)"
    by (simp add: deep_copy_methods_def)
  from deep_copies_are_independent [OF demo_metav1_laws this demo_tree] obtain b q ns where
    *: "DeepCopy_MigrationProbe (Ptr 0 []) demo_memory = Some (Ptr b q, demo_memory @ ns)"
       "tree (TPtr ty_MigrationProbe) (demo_memory @ ns) (Ptr b q) = Some demo_content"
       "\<forall>m'. mutates (\<lambda>c. c < length demo_memory \<or> length (demo_memory @ ns) \<le> c) (demo_memory @ ns) m'
          \<longrightarrow> tree (TPtr ty_MigrationProbe) m' (Ptr b q) = Some demo_content" by blast
  then show ?thesis using mutates_alloc [OF mutates_refl] by blast
qed

end
