(* ===== verification/Prelude.thy ===== *)
theory Prelude
  imports Main "HOL-Library.Sublist" "HOL-Library.Char_ord" "HOL-Library.List_Lexorder"
begin

section \<open>Prelude: the Go operations every component uses\<close>

text \<open>
  Strings, slices, decimal formatting, 64-bit durations and instants, as the Go language and
  its standard library define them, and the generic lemmas the component theories share.

  A Go string is a byte string: here \<open>string\<close>, a list of 8-bit characters, with
  \<open>length\<close> for \<open>len\<close>. Case mapping, trimming and quoting are modelled on the ASCII range
  (the range of Kubernetes names, image references, CVE ids and the operator's own texts); a
  byte of 128 or more is left as it is.

  An instant is the number of nanoseconds since the epoch (\<open>time.Time\<close> has no overflow in
  any range a cluster reaches); a \<open>time.Duration\<close> is a signed 64-bit number of nanoseconds,
  so the multiplication \<open>time.Duration(secs) * time.Second\<close> wraps and \<open>Time.Sub\<close>
  saturates.
\<close>

named_theorems gostr \<open>evaluation rules for the string operations\<close>

subsection \<open>Slices of strings\<close>

text \<open>\<open>strings.IndexByte\<close> and \<open>strings.LastIndex\<close> of a one-character separator.\<close>

fun index_byte :: "string \<Rightarrow> char \<Rightarrow> nat option" where
  "index_byte [] c = None"
| "index_byte (x # xs) c = (if x = c then Some 0 else map_option Suc (index_byte xs c))"

fun last_index_byte :: "string \<Rightarrow> char \<Rightarrow> nat option" where
  "last_index_byte [] c = None"
| "last_index_byte (x # xs) c =
     (case last_index_byte xs c of
        Some i \<Rightarrow> Some (Suc i)
      | None \<Rightarrow> if x = c then Some 0 else None)"

definition has_prefix :: "string \<Rightarrow> string \<Rightarrow> bool" where
  "has_prefix s p \<longleftrightarrow> take (length p) s = p"

definition has_suffix :: "string \<Rightarrow> string \<Rightarrow> bool" where
  "has_suffix s p \<longleftrightarrow> length p \<le> length s \<and> drop (length s - length p) s = p"

text \<open>\<open>strings.Index\<close> of a whole substring.\<close>

fun index_str :: "string \<Rightarrow> string \<Rightarrow> nat option" where
  "index_str [] p = (if p = [] then Some 0 else None)"
| "index_str (x # xs) p =
     (if has_prefix (x # xs) p then Some 0 else map_option Suc (index_str xs p))"

definition str_contains :: "string \<Rightarrow> string \<Rightarrow> bool" where
  "str_contains s p \<longleftrightarrow> index_str s p \<noteq> None"

definition trim_prefix :: "string \<Rightarrow> string \<Rightarrow> string" where
  "trim_prefix s p = (if has_prefix s p then drop (length p) s else s)"

definition trim_suffix :: "string \<Rightarrow> string \<Rightarrow> string" where
  "trim_suffix s p = (if has_suffix s p then take (length s - length p) s else s)"

subsection \<open>White space and case\<close>

definition is_space :: "char \<Rightarrow> bool" where
  "is_space c \<longleftrightarrow>
     c = CHR 0x09 \<or> c = CHR 0x0A \<or> c = CHR 0x0B \<or> c = CHR 0x0C \<or> c = CHR 0x0D \<or> c = CHR 0x20"

definition trim_space :: "string \<Rightarrow> string" where
  "trim_space s = rev (dropWhile is_space (rev (dropWhile is_space s)))"

abbreviation upper_letters :: string where
  "upper_letters \<equiv> ''ABCDEFGHIJKLMNOPQRSTUVWXYZ''"

abbreviation lower_letters :: string where
  "lower_letters \<equiv> ''abcdefghijklmnopqrstuvwxyz''"

definition upper_char :: "char \<Rightarrow> char" where
  "upper_char c =
     (case index_byte lower_letters c of Some i \<Rightarrow> upper_letters ! i | None \<Rightarrow> c)"

definition lower_char :: "char \<Rightarrow> char" where
  "lower_char c =
     (case index_byte upper_letters c of Some i \<Rightarrow> lower_letters ! i | None \<Rightarrow> c)"

definition to_upper :: "string \<Rightarrow> string" where
  "to_upper s = map upper_char s"

definition to_lower :: "string \<Rightarrow> string" where
  "to_lower s = map lower_char s"

definition equal_fold :: "string \<Rightarrow> string \<Rightarrow> bool" where
  "equal_fold a b \<longleftrightarrow> to_lower a = to_lower b"

text \<open>\<open>strings.ReplaceAll\<close> with a non-empty pattern: left to right, without overlaps.\<close>

function replace_all :: "string \<Rightarrow> string \<Rightarrow> string \<Rightarrow> string" where
  "replace_all s old new =
     (if s = [] \<or> old = [] then s
      else if has_prefix s old then new @ replace_all (drop (length old) s) old new
      else hd s # replace_all (tl s) old new)"
  by pat_completeness auto
termination
  by (relation "measure (\<lambda>(s, _, _). length s)") auto

declare replace_all.simps [simp del]

text \<open>\<open>strings.Join\<close>.\<close>

fun join_with :: "string \<Rightarrow> string list \<Rightarrow> string" where
  "join_with sep [] = []"
| "join_with sep [x] = x"
| "join_with sep (x # y # ys) = x @ sep @ join_with sep (y # ys)"

subsection \<open>Formatting\<close>

definition digit_char :: "nat \<Rightarrow> char" where
  "digit_char d = ''0123456789'' ! d"

function nat_digits :: "nat \<Rightarrow> string" where
  "nat_digits n =
     (if n < 10 then [digit_char n] else nat_digits (n div 10) @ [digit_char (n mod 10)])"
  by pat_completeness auto
termination
  by (relation "measure id") auto

declare nat_digits.simps [simp del]

text \<open>\<open>%d\<close> and \<open>strconv.Itoa\<close>.\<close>

definition itoa :: "int \<Rightarrow> string" where
  "itoa i = (if i < 0 then CHR ''-'' # nat_digits (nat (- i)) else nat_digits (nat i))"

text \<open>\<open>%t\<close>.\<close>

definition btoa :: "bool \<Rightarrow> string" where
  "btoa b = (if b then ''true'' else ''false'')"

text \<open>\<open>%.3f\<close> of an integer number of thousandths divided by 1000.\<close>

definition thousandths :: "int \<Rightarrow> string" where
  "thousandths p =
     (let a = nat \<bar>p\<bar>; r = a mod 1000 in
      (if p < 0 then ''-'' else []) @ nat_digits (a div 1000) @ ''.'' @
      [digit_char (r div 100), digit_char (r div 10 mod 10), digit_char (r mod 10)])"

definition hex_char :: "nat \<Rightarrow> char" where
  "hex_char d = ''0123456789abcdef'' ! d"

text \<open>\<open>%q\<close>: a double-quoted Go literal.\<close>

definition quote_char :: "char \<Rightarrow> string" where
  "quote_char c =
     (if c = CHR 0x22 then [CHR 0x5C, CHR 0x22]
      else if c = CHR 0x5C then [CHR 0x5C, CHR 0x5C]
      else if c = CHR 0x07 then CHR 0x5C # ''a''
      else if c = CHR 0x08 then CHR 0x5C # ''b''
      else if c = CHR 0x0C then CHR 0x5C # ''f''
      else if c = CHR 0x0A then CHR 0x5C # ''n''
      else if c = CHR 0x0D then CHR 0x5C # ''r''
      else if c = CHR 0x09 then CHR 0x5C # ''t''
      else if c = CHR 0x0B then CHR 0x5C # ''v''
      else
        let n = (of_char c :: nat) in
        if n < 32 \<or> n = 127
        then CHR 0x5C # CHR ''x'' # [hex_char (n div 16), hex_char (n mod 16)]
        else [c])"

definition go_quote :: "string \<Rightarrow> string" where
  "go_quote s = CHR 0x22 # concat (map quote_char s) @ [CHR 0x22]"

definition newline :: string where
  "newline = [CHR 0x0A]"

subsection \<open>Durations and instants\<close>

type_synonym duration = int
type_synonym instant = int

definition wrap64 :: "int \<Rightarrow> int" where
  "wrap64 i = (i + 2 ^ 63) mod 2 ^ 64 - 2 ^ 63"

definition sat64 :: "int \<Rightarrow> int" where
  "sat64 i = max (- (2 ^ 63)) (min (2 ^ 63 - 1) i)"

abbreviation millisecond :: duration where
  "millisecond \<equiv> 1000000"

abbreviation second :: duration where
  "second \<equiv> 1000000000"

abbreviation minute :: duration where
  "minute \<equiv> 60 * second"

abbreviation hour :: duration where
  "hour \<equiv> 3600 * second"

text \<open>\<open>time.Duration(n) * time.Second\<close>.\<close>

definition dur_seconds :: "int \<Rightarrow> duration" where
  "dur_seconds n = wrap64 (n * second)"

text \<open>\<open>t.Sub(u)\<close> saturates; \<open>t.Add(d)\<close> is addition.\<close>

definition time_sub :: "instant \<Rightarrow> instant \<Rightarrow> duration" where
  "time_sub t u = sat64 (t - u)"

subsection \<open>Lemmas on strings\<close>

lemma index_byte_None [simp]: "index_byte s c = None \<longleftrightarrow> c \<notin> set s"
  by (induction s) auto

lemma index_byte_Some:
  "index_byte s c = Some i \<Longrightarrow> i < length s \<and> s ! i = c \<and> c \<notin> set (take i s)"
  by (induction s arbitrary: i) (auto split: if_splits)

lemma index_byte_append:
  "c \<notin> set a \<Longrightarrow> index_byte (a @ c # b) c = Some (length a)"
  by (induction a) auto

lemma last_index_byte_None [simp]: "last_index_byte s c = None \<longleftrightarrow> c \<notin> set s"
  by (induction s) (auto split: option.splits)

lemma last_index_byte_append:
  "c \<notin> set b \<Longrightarrow> last_index_byte (a @ c # b) c = Some (length a)"
proof (induction a)
  case Nil
  then have "last_index_byte b c = None" by (rule iffD2 [OF last_index_byte_None])
  then show ?case by (simp del: last_index_byte_None)
next
  case (Cons x a)
  then show ?case by simp
qed

lemma last_index_byte_Some:
  "last_index_byte s c = Some i \<Longrightarrow> i < length s \<and> s ! i = c \<and> c \<notin> set (drop (Suc i) s)"
  by (induction s arbitrary: i) (auto split: option.splits if_splits)

lemma has_prefix_append [simp]: "has_prefix (p @ s) p"
  by (simp add: has_prefix_def)

lemma has_prefix_iff: "has_prefix s p \<longleftrightarrow> (\<exists>t. s = p @ t)"
  by (metis append_take_drop_id has_prefix_append has_prefix_def)

lemma has_suffix_iff: "has_suffix s p \<longleftrightarrow> (\<exists>t. s = t @ p)"
proof
  assume "has_suffix s p"
  then show "\<exists>t. s = t @ p"
    unfolding has_suffix_def by (metis append_take_drop_id)
next
  assume "\<exists>t. s = t @ p"
  then show "has_suffix s p" by (auto simp: has_suffix_def)
qed

lemma has_suffix_append [simp]: "has_suffix (t @ p) p"
  by (auto simp: has_suffix_iff)

lemma trim_prefix_append [simp]: "trim_prefix (p @ s) p = s"
  by (simp add: trim_prefix_def)

lemma has_suffix_Nil [simp]: "has_suffix s []"
  by (simp add: has_suffix_def)

lemma length_trim_space: "length (trim_space s) \<le> length s"
  unfolding trim_space_def
  by (metis length_dropWhile_le length_rev order_trans)

lemma dropWhile_idI: "(s = [] \<or> \<not> P (hd s)) \<Longrightarrow> dropWhile P s = s"
  by (cases s) auto

lemma trim_space_id:
  assumes "\<forall>c\<in>set s. \<not> is_space c"
  shows "trim_space s = s"
proof -
  have 1: "dropWhile is_space s = s" using assms by (intro dropWhile_idI) (cases s, auto)
  have 2: "dropWhile is_space (rev s) = rev s"
    using assms by (intro dropWhile_idI) (cases s rule: rev_cases, auto)
  show ?thesis by (simp add: trim_space_def 1 2)
qed

lemma to_lower_append [simp]: "to_lower (a @ b) = to_lower a @ to_lower b"
  by (simp add: to_lower_def)

lemma length_to_lower [simp]: "length (to_lower s) = length s"
  by (simp add: to_lower_def)

lemma to_lower_Nil_iff [simp]: "to_lower s = [] \<longleftrightarrow> s = []"
  by (simp add: to_lower_def)

lemma equal_fold_refl [simp]: "equal_fold s s"
  by (simp add: equal_fold_def)

lemma equal_fold_sym: "equal_fold a b \<Longrightarrow> equal_fold b a"
  by (simp add: equal_fold_def)

lemma equal_fold_trans: "equal_fold a b \<Longrightarrow> equal_fold b c \<Longrightarrow> equal_fold a c"
  by (simp add: equal_fold_def)

lemma equal_fold_Nil [simp]: "equal_fold [] s \<longleftrightarrow> s = []" "equal_fold s [] \<longleftrightarrow> s = []"
  by (auto simp: equal_fold_def to_lower_def)

lemma nat_digits_not_Nil [simp]: "nat_digits n \<noteq> []"
  by (subst nat_digits.simps) simp

lemma itoa_not_Nil [simp]: "itoa n \<noteq> []"
  by (simp add: itoa_def)

subsection \<open>Lemmas on durations\<close>

lemma wrap64_id: "- (2 ^ 63) \<le> i \<Longrightarrow> i < 2 ^ 63 \<Longrightarrow> wrap64 i = i"
  by (simp add: wrap64_def)

lemma wrap64_range: "- (2 ^ 63) \<le> wrap64 i \<and> wrap64 i < 2 ^ 63"
proof -
  have "0 \<le> (i + 2 ^ 63) mod (2 ^ 64 :: int)" and "(i + 2 ^ 63) mod (2 ^ 64 :: int) < 2 ^ 64"
    by simp_all
  then show ?thesis unfolding wrap64_def by simp
qed

text \<open>A 32-bit number of seconds never overflows a duration.\<close>

lemma dur_seconds_int32 [simp]:
  "0 \<le> n \<Longrightarrow> n < 2 ^ 31 \<Longrightarrow> dur_seconds n = n * second"
  unfolding dur_seconds_def by (rule wrap64_id) simp_all

lemma sat64_id: "- (2 ^ 63) \<le> i \<Longrightarrow> i < 2 ^ 63 \<Longrightarrow> sat64 i = i"
  by (simp add: sat64_def)

lemma sat64_le_0_iff: "sat64 i \<le> 0 \<longleftrightarrow> i \<le> 0"
  by (auto simp: sat64_def)

lemma time_sub_le_0_iff [simp]: "time_sub t u \<le> 0 \<longleftrightarrow> t \<le> u"
  by (simp add: time_sub_def sat64_le_0_iff)

end
