(* ===== verification/Kube_Types.thy ===== *)
theory Kube_Types
  imports Prelude
begin

section \<open>Kubernetes objects, as the operator reads and writes them\<close>

text \<open>
  The Kubernetes API types are third-party Go structs. Each record here carries exactly the
  fields of a struct that the operator reads or writes; a pointer field is an \<open>option\<close>, a
  Go map is its list of entries (the order is the iteration order, which Go leaves open), an
  \<open>int32\<close> or \<open>int64\<close> that is only compared is an \<open>int\<close>. Unstructured objects are
  represented by the values their accessors return.
\<close>

type_synonym smap = "(string \<times> string) list"

text \<open>\<open>m[k]\<close> on a Go map of strings: the zero value when the key is absent.\<close>

definition sget :: "smap \<Rightarrow> string \<Rightarrow> string" where
  "sget m k = (case map_of m k of None \<Rightarrow> [] | Some v \<Rightarrow> v)"

definition sput :: "string \<Rightarrow> string \<Rightarrow> smap \<Rightarrow> smap" where
  "sput k v m = (k, v) # filter (\<lambda>p. fst p \<noteq> k) m"

definition sdel :: "string \<Rightarrow> smap \<Rightarrow> smap" where
  "sdel k m = filter (\<lambda>p. fst p \<noteq> k) m"

lemma sget_sput [simp]: "sget (sput k v m) k' = (if k' = k then v else sget m k')"
proof (cases "k' = k")
  case False
  have "map_of (filter (\<lambda>p. fst p \<noteq> k) m) k' = map_of m k'"
    using False by (induction m) auto
  then show ?thesis using False by (simp add: sget_def sput_def)
qed (simp add: sget_def sput_def)

lemma sget_sdel [simp]: "sget (sdel k m) k' = (if k' = k then [] else sget m k')"
proof (cases "k' = k")
  case True
  have "map_of (filter (\<lambda>p. fst p \<noteq> k) m) k = None"
    by (induction m) auto
  then show ?thesis using True by (simp add: sget_def sdel_def)
next
  case False
  have "map_of (filter (\<lambda>p. fst p \<noteq> k) m) k' = map_of m k'"
    using False by (induction m) auto
  then show ?thesis using False by (simp add: sget_def sdel_def)
qed

subsection \<open>Pods\<close>

datatype env_source = SecretKeyRef (skr_name: string) (skr_key: string)

record env_var =
  ev_name :: string
  ev_value :: string
  ev_from :: "env_source option"

definition plain_env :: "string \<Rightarrow> string \<Rightarrow> env_var" where
  "plain_env n v = \<lparr>ev_name = n, ev_value = v, ev_from = None\<rparr>"

record security_context =
  sc_allow_privilege_escalation :: "bool option"
  sc_read_only_root :: "bool option"
  sc_run_as_non_root :: "bool option"
  sc_run_as_user :: "int option"
  sc_drop :: "string list"
  sc_seccomp :: "string option"

record resource_list =
  res_cpu :: string
  res_memory :: string

record container =
  c_name :: string
  c_image :: string
  c_pull_policy :: string
  c_restart_policy :: "string option"
  c_command :: "string list"
  c_args :: "string list"
  c_env :: "env_var list"
  c_security :: "security_context option"
  c_requests :: "resource_list option"
  c_limits :: "resource_list option"

record pod_security =
  psc_run_as_non_root :: "bool option"
  psc_run_as_user :: "int option"
  psc_seccomp :: "string option"

record pod_spec =
  ps_restart_policy :: string
  ps_automount_token :: "bool option"
  ps_security :: "pod_security option"
  ps_init_containers :: "container list"
  ps_containers :: "container list"

record waiting_state =
  w_reason :: string
  w_message :: string

record container_status =
  cst_name :: string
  cst_waiting :: "waiting_state option"

record pod =
  pod_init_statuses :: "container_status list"
  pod_statuses :: "container_status list"

subsection \<open>Workloads, Services, Jobs\<close>

record workload =
  wl_name :: string
  wl_generation :: int
  wl_replicas :: "int option"
  wl_ready_replicas :: int
  wl_observed_generation :: int
  wl_pod_spec :: pod_spec

record service =
  svc_name :: string
  svc_ports :: "int list"

record job_condition =
  jc_type :: string
  jc_status :: string
  jc_reason :: string
  jc_message :: string

record job =
  job_name :: string
  job_namespace :: string
  job_labels :: smap
  job_deleting :: bool
  job_backoff_limit :: "int option"
  job_active_deadline :: "int option"
  job_ttl :: "int option"
  job_pod_labels :: smap
  job_pod :: pod_spec
  job_conditions :: "job_condition list"
  job_succeeded :: int
  job_failed :: int

subsection \<open>Namespaces and conditions\<close>

record namespace =
  ns_name :: string
  ns_deleting :: bool
  ns_labels :: smap
  ns_annotations :: smap

datatype cond_status = CondTrue | CondFalse | CondUnknown | CondOther string

record condition =
  cond_type :: string
  cond_status :: cond_status
  cond_reason :: string
  cond_message :: string
  cond_observed_generation :: int
  cond_last_transition :: instant

end
