(* ===== verification/Eval.thy ===== *)
theory Eval
  imports Complex_Main Kube_Types
begin

section \<open>Pure decisions: internal/previewcheck/eval.go\<close>

text \<open>
  The functions behind a PreviewCheck verdict, each translated under its Go name: image
  reference parsing and matching, CVE extraction, the exploitability verdict with its
  double-precision permille rounding, the HTTP status set, the Job outcome, workload
  readiness, the check id and the log-tail cut.

  A \<open>float64\<close> is \<open>Fin m e\<close> for the double \<open>m * 2^e\<close>, or an infinity or NaN. The product
  \<open>epss * 1000\<close> is rounded to 53 significant bits, ties to even, as IEEE 754 prescribes;
  \<open>math.Round\<close> rounds half away from zero.
\<close>

subsection \<open>Image references\<close>

record artifact =
  art_registry :: string
  art_repository :: string
  art_tag :: string
  art_digest :: string

record image_ref =
  img_registry :: string
  img_repository :: string
  img_tag :: string
  img_digest :: string

definition Artifact_String :: "artifact \<Rightarrow> string" where
  "Artifact_String a =
     (let ref = (if art_registry a \<noteq> [] then art_registry a @ ''/'' @ art_repository a
                 else art_repository a) in
      if art_tag a \<noteq> [] then ref @ '':'' @ art_tag a
      else if art_digest a \<noteq> [] then ref @ ''@'' @ art_digest a
      else ref)"

definition host_like :: "string \<Rightarrow> bool" where
  "host_like head \<longleftrightarrow> head = ''localhost'' \<or> CHR ''.'' \<in> set head \<or> CHR '':'' \<in> set head"

definition split_digest :: "string \<Rightarrow> string \<times> string" where
  "split_digest rest =
     (case last_index_byte rest CHR ''@'' of
        Some i \<Rightarrow> (drop (Suc i) rest, take i rest)
      | None \<Rightarrow> ([], rest))"

definition split_tag :: "string \<Rightarrow> string \<times> string" where
  "split_tag rest =
     (case last_index_byte rest CHR '':'' of
        Some colon \<Rightarrow>
          (if CHR ''/'' \<notin> set (drop (Suc colon) rest)
           then (drop (Suc colon) rest, take colon rest) else ([], rest))
      | None \<Rightarrow> ([], rest))"

definition split_registry :: "string \<Rightarrow> string \<times> string" where
  "split_registry rest =
     (case index_byte rest CHR ''/'' of
        Some slash \<Rightarrow>
          (if host_like (take slash rest) then (take slash rest, drop (Suc slash) rest)
           else ([], rest))
      | None \<Rightarrow> ([], rest))"

definition ParseImage :: "string \<Rightarrow> image_ref" where
  "ParseImage img =
     (let rest = trim_space img;
          (digest, rest) = split_digest rest;
          (tag, rest) = split_tag rest;
          (registry, rest) = split_registry rest
      in \<lparr>img_registry = registry, img_repository = rest, img_tag = tag, img_digest = digest\<rparr>)"

definition MatchesImage :: "artifact \<Rightarrow> string \<Rightarrow> bool" where
  "MatchesImage a want =
     (if want = [] then False
      else
        let w = ParseImage want in
        if img_digest w \<noteq> [] then art_digest a \<noteq> [] \<and> equal_fold (art_digest a) (img_digest w)
        else if img_repository w = [] \<or> \<not> equal_fold (art_repository a) (img_repository w) then False
        else if img_registry w \<noteq> [] \<and> \<not> equal_fold (art_registry a) (img_registry w) then False
        else if img_tag w \<noteq> [] then art_tag a = img_tag w
        else True)"

subsection \<open>CVE extraction\<close>

fun extract_loop :: "string list \<Rightarrow> string list \<Rightarrow> string list \<Rightarrow> string list \<times> string list" where
  "extract_loop [] cves dropped = (cves, dropped)"
| "extract_loop (raw # ids) cves dropped =
     (let id = trim_space raw in
      if id = [] then extract_loop ids cves dropped
      else if has_prefix (to_upper id) ''CVE-'' then
        (if id \<notin> set cves then extract_loop ids (cves @ [id]) dropped
         else extract_loop ids cves dropped)
      else if id \<notin> set dropped then extract_loop ids cves (dropped @ [id])
      else extract_loop ids cves dropped)"

definition ExtractCVEs :: "string list \<Rightarrow> string list \<times> string list" where
  "ExtractCVEs ids = (let (cves, dropped) = extract_loop ids [] [] in (sort cves, sort dropped))"

subsection \<open>Doubles and permille\<close>

datatype float64 = NaN | PosInf | NegInf | Fin int int

definition f_le_zero :: "float64 \<Rightarrow> bool" where
  "f_le_zero x = (case x of NaN \<Rightarrow> False | PosInf \<Rightarrow> False | NegInf \<Rightarrow> True | Fin m e \<Rightarrow> m \<le> 0)"

definition f_ge_one :: "float64 \<Rightarrow> bool" where
  "f_ge_one x = (case x of NaN \<Rightarrow> False | PosInf \<Rightarrow> True | NegInf \<Rightarrow> False
     | Fin m e \<Rightarrow> if 0 \<le> e then 1 \<le> m else 2 ^ nat (- e) \<le> m)"

function bit_len :: "int \<Rightarrow> nat" where
  "bit_len n = (if n \<le> 0 then 0 else Suc (bit_len (n div 2)))"
  by pat_completeness auto
termination
  by (relation "measure nat") auto

declare bit_len.simps [simp del]

text \<open>\<open>n / 2^k\<close> rounded to the nearest integer, ties to even.\<close>

definition round_even :: "int \<Rightarrow> nat \<Rightarrow> int" where
  "round_even n k =
     (let q = n div 2 ^ k; r = n mod 2 ^ k in
      if 2 * r < 2 ^ k then q
      else if 2 ^ k < 2 * r then q + 1
      else if even q then q else q + 1)"

text \<open>The double product of a positive finite double with 1000.\<close>

definition f_times_1000 :: "int \<Rightarrow> int \<Rightarrow> int \<times> int" where
  "f_times_1000 m e =
     (let n = 1000 * m; k = bit_len n - 53 in (round_even n k, e + int k))"

text \<open>\<open>math.Round\<close> of a positive finite double, as an integer.\<close>

definition f_round :: "int \<Rightarrow> int \<Rightarrow> int" where
  "f_round p f = (if 0 \<le> f then p * 2 ^ nat f else (p + 2 ^ nat (- f - 1)) div 2 ^ nat (- f))"

definition Permille :: "float64 \<Rightarrow> int" where
  "Permille epss =
     (if f_le_zero epss \<or> epss = NaN then 0
      else if f_ge_one epss then 1000
      else case epss of Fin m e \<Rightarrow> (case f_times_1000 m e of (p, f) \<Rightarrow> f_round p f) | _ \<Rightarrow> 0)"

subsection \<open>Exploitability\<close>

record cve_intel =
  ci_cve :: string
  ci_kev :: bool
  ci_epss :: float64

datatype exploit_reason = NoReason | KEVReason | EPSSReason

record exploitability =
  ex_passed :: bool
  ex_reason :: exploit_reason
  ex_kev_count :: nat
  ex_kev_ids :: "string list"
  ex_max_permille :: int
  ex_max_cve :: string
  ex_detail :: string

definition exploit_step :: "exploitability \<Rightarrow> cve_intel \<Rightarrow> exploitability" where
  "exploit_step out r =
     (let out = (if ci_kev r
                 then out\<lparr>ex_kev_count := Suc (ex_kev_count out),
                          ex_kev_ids := ex_kev_ids out @ [ci_cve r]\<rparr>
                 else out);
          p = Permille (ci_epss r)
      in if ex_max_permille out < p then out\<lparr>ex_max_permille := p, ex_max_cve := ci_cve r\<rparr>
         else out)"

definition exploit_zero :: exploitability where
  "exploit_zero = \<lparr>ex_passed = False, ex_reason = NoReason, ex_kev_count = 0, ex_kev_ids = [],
     ex_max_permille = 0, ex_max_cve = [], ex_detail = []\<rparr>"

definition EvaluateExploitability :: "cve_intel list \<Rightarrow> int \<Rightarrow> int \<Rightarrow> exploitability" where
  "EvaluateExploitability results kevMax epssMaxPermille =
     (let out = foldl exploit_step exploit_zero results;
          out = out\<lparr>ex_kev_ids := sort (ex_kev_ids out)\<rparr>
      in if int (ex_kev_count out) > kevMax then
           out\<lparr>ex_reason := KEVReason,
               ex_detail := itoa (int (ex_kev_count out)) @ '' known-exploited CVE(s) (max '' @
                 itoa kevMax @ ''): '' @ join_with '', '' (ex_kev_ids out)\<rparr>
         else if ex_max_permille out > epssMaxPermille then
           out\<lparr>ex_reason := EPSSReason,
               ex_detail := ex_max_cve out @ '' has EPSS '' @ thousandths (ex_max_permille out) @
                 '' (max '' @ thousandths epssMaxPermille @ '')''\<rparr>
         else
           out\<lparr>ex_passed := True,
               ex_detail := itoa (int (length results)) @ '' CVE(s) enriched, '' @
                 itoa (int (ex_kev_count out)) @ '' known-exploited, peak EPSS '' @
                 thousandths (ex_max_permille out)\<rparr>)"

subsection \<open>HTTP status, Job outcome, workloads\<close>

fun StatusAccepted :: "int \<Rightarrow> int list \<Rightarrow> bool" where
  "StatusAccepted status [] = False"
| "StatusAccepted status (a # accepted) = (if a = status then True else StatusAccepted status accepted)"

datatype job_phase = JobRunning | JobSucceeded | JobFailed

fun condition_outcome :: "job_condition list \<Rightarrow> (job_phase \<times> string \<times> string) option" where
  "condition_outcome [] = None"
| "condition_outcome (c # cs) =
     (if jc_status c \<noteq> ''True'' then condition_outcome cs
      else if jc_type c = ''Complete'' then Some (JobSucceeded, jc_reason c, jc_message c)
      else if jc_type c = ''Failed'' then Some (JobFailed, jc_reason c, jc_message c)
      else condition_outcome cs)"

definition JobOutcome :: "job option \<Rightarrow> job_phase \<times> string \<times> string" where
  "JobOutcome j =
     (case j of
        None \<Rightarrow> (JobRunning, [], [])
      | Some job \<Rightarrow>
          (case condition_outcome (job_conditions job) of
             Some r \<Rightarrow> r
           | None \<Rightarrow>
               if job_succeeded job > 0 then (JobSucceeded, [], [])
               else
                 (case job_backoff_limit job of
                    Some limit \<Rightarrow>
                      if job_failed job > 0 \<and> job_failed job > limit
                      then (JobFailed, ''BackoffLimitExceeded'', ''job pods failed'')
                      else (JobRunning, [], [])
                  | None \<Rightarrow> (JobRunning, [], []))))"

definition wanted_replicas :: "workload \<Rightarrow> int" where
  "wanted_replicas w = (case wl_replicas w of Some n \<Rightarrow> n | None \<Rightarrow> 1)"

definition workload_pending :: "string \<Rightarrow> workload \<Rightarrow> string option" where
  "workload_pending kind w =
     (let want = wanted_replicas w in
      if want = 0 then None
      else if wl_ready_replicas w < want \<or> wl_observed_generation w < wl_generation w
      then Some (kind @ ''/'' @ wl_name w @ '' '' @ itoa (wl_ready_replicas w) @ ''/'' @ itoa want)
      else None)"

definition EvaluateWorkloadReadiness :: "workload list \<Rightarrow> workload list \<Rightarrow> bool \<times> string" where
  "EvaluateWorkloadReadiness deployments statefulsets =
     (let pending = List.map_filter (workload_pending ''deployment'') deployments
                    @ List.map_filter (workload_pending ''statefulset'') statefulsets;
          total = length deployments + length statefulsets
      in if total = 0 then (False, ''no workloads found'')
         else if pending \<noteq> [] then (False, join_with '', '' (sort pending))
         else (True, itoa (int total) @ '' workload(s) available''))"

subsection \<open>Check id and log tail\<close>

definition CheckID :: "string \<Rightarrow> string \<Rightarrow> string" where
  "CheckID uid fallbackName =
     (let id = replace_all uid ''-'' [];
          id = (if length id > 12 then take 12 id else id);
          id = (if id = [] then ''n'' @ fallbackName else id)
      in to_lower id)"

definition TruncateLogTail :: "string \<Rightarrow> int \<Rightarrow> string" where
  "TruncateLogTail s maxBytes =
     (if maxBytes \<le> 0 \<or> int (length s) \<le> maxBytes then s
      else
        let cut = drop (length s - nat maxBytes) s;
            cut = (case index_byte cut CHR 0x0A of
                     Some nl \<Rightarrow> if nl + 1 < length cut then drop (Suc nl) cut else cut
                   | None \<Rightarrow> cut)
        in ''...'' @ newline @ cut)"

subsection \<open>Rounding\<close>

text \<open>
  The real value of a double, and how far \<open>Permille\<close> can be from a thousand times it: half a
  unit for \<open>math.Round\<close> and at most \<open>2^-43\<close> for the double product.
\<close>

definition fval :: "int \<Rightarrow> int \<Rightarrow> real" where
  "fval m e = real_of_int m * 2 powi e"

lemma bit_len_bounds: "0 < n \<Longrightarrow> 0 < bit_len n \<and> 2 ^ (bit_len n - 1) \<le> n"
proof (induction n rule: bit_len.induct)
  case (1 n)
  show ?case
  proof (cases "n = 1")
    case True
    then show ?thesis by (simp add: bit_len.simps)
  next
    case False
    with "1.prems" have "0 < n div 2" by simp
    with "1.IH" "1.prems" have IH: "0 < bit_len (n div 2)" "2 ^ (bit_len (n div 2) - 1) \<le> n div 2"
      by auto
    have eq: "bit_len n = Suc (bit_len (n div 2))"
      using "1.prems" by (subst bit_len.simps) simp
    have "(2::int) ^ bit_len (n div 2) = 2 * 2 ^ (bit_len (n div 2) - 1)"
      using IH(1) by (metis One_nat_def Suc_pred power_Suc)
    also have "\<dots> \<le> n" using IH(2) by simp
    finally show ?thesis by (simp add: eq)
  qed
qed

lemma round_even_error: "\<bar>2 * (2 ^ k * round_even n k - n)\<bar> \<le> 2 ^ k"
proof -
  define q r where "q = n div 2 ^ k" and "r = n mod (2::int) ^ k"
  have n: "n = 2 ^ k * q + r" by (simp add: q_def r_def)
  have r: "0 \<le> r" "r < 2 ^ k" by (simp_all add: r_def)
  have "round_even n k = q \<and> 2 * r \<le> 2 ^ k \<or> round_even n k = q + 1 \<and> 2 ^ k \<le> 2 * r"
    unfolding round_even_def Let_def q_def [symmetric] r_def [symmetric] by auto
  then show ?thesis
    by (elim disjE conjE) (simp_all only: n, insert r, simp_all add: algebra_simps)
qed

lemma round_even_0 [simp]: "round_even n 0 = n"
  by (simp add: round_even_def)

lemma f_round_error: "\<bar>real_of_int (f_round p f) - fval p f\<bar> \<le> 1 / 2"
proof (cases "0 \<le> f")
  case True
  then have "fval p f = real_of_int (f_round p f)"
    by (simp add: fval_def f_round_def power_int_def)
  then show ?thesis by simp
next
  case False
  define j where "j = nat (- f - 1)"
  have nf: "nat (- f) = Suc j" using False by (simp add: j_def)
  define h where "h = (2::int) ^ j"
  have h: "0 < h" by (simp add: h_def)
  have P: "f_round p f = (p + h) div (2 * h)"
    using False by (simp add: f_round_def nf j_def [symmetric] h_def)
  have hr: "real_of_int h = 2 ^ j" by (simp add: h_def)
  have v: "fval p f = real_of_int p / (2 * real_of_int h)"
    using False nf by (simp add: fval_def power_int_def hr field_simps)
  define q r where "q = (p + h) div (2 * h)" and "r = (p + h) mod (2 * h)"
  have "p + h = 2 * h * q + r" unfolding q_def r_def by (rule mult_div_mod_eq [symmetric])
  then have pr: "p = 2 * h * q + r - h" by simp
  then have rp: "real_of_int p = 2 * real_of_int h * real_of_int q + real_of_int r - real_of_int h"
    by (simp only: of_int_diff of_int_add of_int_mult of_int_numeral)
  have r: "0 \<le> r" "r < 2 * h" using h by (simp_all add: r_def)
  have "real_of_int q - fval p f = (real_of_int h - real_of_int r) / (2 * real_of_int h)"
    using h by (simp add: v rp field_simps)
  moreover have "\<bar>(real_of_int h - real_of_int r) / (2 * real_of_int h)\<bar> \<le> 1 / 2"
    using h r by (simp add: abs_le_iff field_simps) 
  ultimately show ?thesis by (simp add: P q_def)
qed

lemma f_times_1000_error:
  assumes m: "0 < m" and lt: "fval m e < 1" and pf: "f_times_1000 m e = (p, f)"
  shows "\<bar>fval p f - 1000 * fval m e\<bar> \<le> 1 / 2 ^ 43"
proof -
  define k where "k = bit_len (1000 * m) - 53"
  have p: "p = round_even (1000 * m) k" and f: "f = e + int k"
    using pf by (simp_all add: f_times_1000_def Let_def k_def)
  show ?thesis
  proof (cases "k = 0")
    case True
    then show ?thesis by (simp add: p f fval_def)
  next
    case False
    have pw: "(2::real) powi f = 2 powi e * 2 ^ k"
      by (simp add: f power_int_add)
    have "bit_len (1000 * m) - 1 = k + 52" using False by (simp add: k_def)
    with bit_len_bounds [of "1000 * m"] m have "(2::int) ^ (k + 52) \<le> 1000 * m" by simp
    then have "real_of_int (2 ^ (k + 52)) \<le> real_of_int (1000 * m)"
      by (simp only: of_int_le_iff)
    then have "2 ^ (k + 52) * 2 powi e \<le> 1000 * real_of_int m * 2 powi e"
      by (intro mult_right_mono) simp_all
    also have "\<dots> \<le> 1000" using lt by (simp add: fval_def)
    finally have "2 ^ 52 * (2 powi f :: real) \<le> 1000"
      by (simp add: pw power_add mult_ac)
    then have small: "(2 powi f :: real) \<le> 1000 / 2 ^ 52" by (simp add: field_simps)
    have "real_of_int \<bar>2 * (2 ^ k * p - 1000 * m)\<bar> \<le> real_of_int (2 ^ k)"
      using round_even_error [of k "1000 * m"] by (simp only: p of_int_le_iff)
    then have "\<bar>2 * (2 ^ k * real_of_int p - 1000 * real_of_int m)\<bar> \<le> 2 ^ k" by simp
    then have "\<bar>2 ^ k * real_of_int p - 1000 * real_of_int m\<bar> \<le> 2 ^ k / 2"
      unfolding abs_mult by simp
    then have "2 powi e * \<bar>2 ^ k * real_of_int p - 1000 * real_of_int m\<bar> \<le> 2 powi e * (2 ^ k / 2)"
      by (intro mult_left_mono) simp_all
    also have "2 powi e * \<bar>2 ^ k * real_of_int p - 1000 * real_of_int m\<bar>
        = \<bar>2 powi e * (2 ^ k * real_of_int p - 1000 * real_of_int m)\<bar>"
      by (simp add: abs_mult)
    also have "2 powi e * (2 ^ k * real_of_int p - 1000 * real_of_int m) = fval p f - 1000 * fval m e"
      by (simp add: fval_def pw algebra_simps)
    finally have "\<bar>fval p f - 1000 * fval m e\<bar> \<le> 2 powi f / 2" by (simp add: pw)
    with small show ?thesis by simp
  qed
qed

lemma f_ge_one_iff: "f_ge_one (Fin m e) \<longleftrightarrow> 1 \<le> fval m e"
proof (cases "0 \<le> e")
  case True
  then have "fval m e = real_of_int (m * 2 ^ nat e)" by (simp add: fval_def power_int_def)
  moreover have "1 \<le> m * 2 ^ nat e \<longleftrightarrow> 1 \<le> m"
  proof
    assume "1 \<le> m * 2 ^ nat e" then show "1 \<le> m"
      by (smt (verit, best) zero_less_mult_pos2 zero_less_power)
  next
    assume "1 \<le> m" then show "1 \<le> m * 2 ^ nat e"
      by (smt (verit, best) mult_pos_pos zero_less_power)
  qed
  ultimately show ?thesis using True by (simp add: f_ge_one_def del: of_int_mult of_int_power)
next
  case False
  have "1 \<le> fval m e \<longleftrightarrow> (2 ^ nat (- e) :: real) \<le> real_of_int m"
    using False by (simp add: fval_def power_int_def field_simps)
  also have "\<dots> \<longleftrightarrow> 2 ^ nat (- e) \<le> m"
    by (metis of_int_le_iff of_int_numeral of_int_power)
  finally show ?thesis using False by (simp add: f_ge_one_def)
qed

lemma Permille_error:
  assumes "0 < m" and "fval m e < 1"
  shows "\<bar>real_of_int (Permille (Fin m e)) - 1000 * fval m e\<bar> \<le> 1 / 2 + 1 / 2 ^ 43"
proof -
  obtain p f where pf: "f_times_1000 m e = (p, f)" by (cases "f_times_1000 m e")
  have "\<not> f_ge_one (Fin m e)" using assms(2) by (simp add: f_ge_one_iff)
  then have "Permille (Fin m e) = f_round p f"
    using assms(1) pf by (simp add: Permille_def f_le_zero_def)
  then show ?thesis
    using f_round_error [of p f] f_times_1000_error [OF assms pf] by linarith
qed

lemma Permille_near:
  assumes "0 < m" and "fval m e < 1"
  shows "1000 * fval m e - 5 / 8 \<le> real_of_int (Permille (Fin m e))"
    and "real_of_int (Permille (Fin m e)) \<le> 1000 * fval m e + 5 / 8"
proof -
  have "(1 / 2 + 1 / 2 ^ 43 :: real) \<le> 5 / 8" by simp
  with Permille_error [OF assms]
  have "\<bar>real_of_int (Permille (Fin m e)) - 1000 * fval m e\<bar> \<le> 5 / 8" by (rule order_trans)
  then show "1000 * fval m e - 5 / 8 \<le> real_of_int (Permille (Fin m e))"
    and "real_of_int (Permille (Fin m e)) \<le> 1000 * fval m e + 5 / 8"
    unfolding abs_le_iff by linarith+
qed

lemma fval_pos: "0 < fval m e \<longleftrightarrow> 0 < m"
proof -
  have "\<not> (2::real) powi e < 0" using zero_less_power_int [of "2::real" e] by (metis less_asym zero_less_numeral)
  then show ?thesis by (simp add: fval_def zero_less_mult_iff)
qed

lemma Permille_range: "0 \<le> Permille x \<and> Permille x \<le> 1000"
proof (cases x)
  case (Fin m e)
  show ?thesis
  proof (cases "0 < m \<and> fval m e < 1")
    case True
    then have m: "0 < m" "fval m e < 1" "0 < fval m e" by (simp_all add: fval_pos)
    show ?thesis using Permille_near [OF m(1,2)] m(2,3) by (simp add: Fin)
  next
    case False
    then show ?thesis by (auto simp: Fin Permille_def f_le_zero_def f_ge_one_iff)
  qed
qed (simp_all add: Permille_def f_le_zero_def f_ge_one_def)

lemma Permille_nonpos: "m \<le> 0 \<Longrightarrow> Permille (Fin m e) = 0"
  by (simp add: Permille_def f_le_zero_def)

lemma Permille_ge_one: "1 \<le> fval m e \<Longrightarrow> Permille (Fin m e) = 1000"
  using fval_pos [of m e] by (simp add: Permille_def f_le_zero_def f_ge_one_iff not_le)

lemma Permille_le:
  assumes "0 \<le> t" and "fval m e \<le> real_of_int t / 1000"
  shows "Permille (Fin m e) \<le> t"
proof (cases "0 < m")
  case True
  show ?thesis
  proof (cases "fval m e < 1")
    case lt: True
    have "real_of_int (Permille (Fin m e)) < real_of_int t + 1"
      using Permille_near [OF True lt] assms(2) by simp
    then show ?thesis by linarith
  next
    case False
    then have "1000 \<le> t" using assms(2) by simp
    then show ?thesis using Permille_range [of "Fin m e"] by linarith
  qed
next
  case False
  then show ?thesis using assms(1) by (simp add: Permille_nonpos)
qed

lemma Permille_ge:
  assumes "t \<le> 1000" and "real_of_int t / 1000 \<le> fval m e"
  shows "t \<le> Permille (Fin m e)"
proof (cases "0 < m")
  case True
  show ?thesis
  proof (cases "fval m e < 1")
    case lt: True
    have "real_of_int t - 1 < real_of_int (Permille (Fin m e))"
      using Permille_near [OF True lt] assms(2) by simp
    then show ?thesis by linarith
  next
    case False
    then show ?thesis using assms(1) by (simp add: Permille_ge_one)
  qed
next
  case False
  then have "fval m e \<le> 0" by (meson fval_pos not_less)
  with assms(2) have "t \<le> 0" by simp
  then show ?thesis using Permille_range [of "Fin m e"] by linarith
qed

lemma Permille_published:
  assumes "0 \<le> k" and "k \<le> 1000" and "\<bar>fval m e - real_of_int k / 1000\<bar> \<le> 1 / 4000"
  shows "Permille (Fin m e) = k"
proof (cases "0 < m")
  case True
  show ?thesis
  proof (cases "fval m e < 1")
    case lt: True
    have "\<bar>real_of_int (Permille (Fin m e)) - real_of_int k\<bar> < 1"
      using Permille_near [OF True lt] assms(3) unfolding abs_le_iff abs_less_iff by linarith
    then show ?thesis by linarith
  next
    case False
    then have "999 < k" using assms(3) unfolding abs_le_iff by linarith
    then show ?thesis using False assms(2) by (simp add: Permille_ge_one)
  qed
next
  case False
  then have "fval m e \<le> 0" by (meson fval_pos not_less)
  with assms(3) have "k < 1" unfolding abs_le_iff by linarith
  then show ?thesis using False assms(1) by (simp add: Permille_nonpos)
qed

subsection \<open>The exploitability fold\<close>

lemma exploit_fold_kev:
  "ex_kev_count (foldl exploit_step out rs) = ex_kev_count out + length (filter ci_kev rs)"
  "ex_kev_ids (foldl exploit_step out rs) = ex_kev_ids out @ map ci_cve (filter ci_kev rs)"
  "ex_passed (foldl exploit_step out rs) = ex_passed out"
  "ex_reason (foldl exploit_step out rs) = ex_reason out"
  by (induction rs arbitrary: out) (simp_all add: exploit_step_def Let_def)

lemma exploit_fold_max:
  "ex_max_permille (foldl exploit_step out rs) \<le> t \<longleftrightarrow>
     ex_max_permille out \<le> t \<and> (\<forall>r\<in>set rs. Permille (ci_epss r) \<le> t)"
  by (induction rs arbitrary: out) (auto simp: exploit_step_def Let_def)

lemma exploit_step_peak:
  "ex_max_permille (exploit_step out r) = max (ex_max_permille out) (Permille (ci_epss r))"
  "ex_max_cve (exploit_step out r) =
     (if ex_max_permille out < Permille (ci_epss r) then ci_cve r else ex_max_cve out)"
  by (simp_all add: exploit_step_def Let_def max_def)

lemma exploit_fold_mono: "ex_max_permille out \<le> ex_max_permille (foldl exploit_step out rs)"
  using exploit_fold_max [of out rs "ex_max_permille (foldl exploit_step out rs)"] by simp

lemma exploit_fold_peak:
  "foldl exploit_step out rs = out' \<Longrightarrow>
     ex_max_permille out' = ex_max_permille out \<and> ex_max_cve out' = ex_max_cve out
     \<or> ex_max_permille out < ex_max_permille out'
        \<and> (\<exists>r\<in>set rs. ci_cve r = ex_max_cve out' \<and> Permille (ci_epss r) = ex_max_permille out')"
proof (induction rs arbitrary: out)
  case (Cons r rs)
  from Cons.prems have "foldl exploit_step (exploit_step out r) rs = out'" by simp
  from Cons.IH [OF this] show ?case
    by (auto simp: exploit_step_peak max_def split: if_splits)
qed simp

lemma exploit_verdict:
  assumes "0 \<le> t"
  shows "ex_passed (EvaluateExploitability rs k t) \<longleftrightarrow>
           int (length (filter ci_kev rs)) \<le> k \<and> (\<forall>r\<in>set rs. Permille (ci_epss r) \<le> t)"
  using assms exploit_fold_max [of exploit_zero rs t]
  by (auto simp: EvaluateExploitability_def Let_def exploit_fold_kev exploit_zero_def)

lemma exploit_reason_cases:
  "ex_reason (EvaluateExploitability rs k t) =
     (if int (length (filter ci_kev rs)) > k then KEVReason
      else if ex_passed (EvaluateExploitability rs k t) then NoReason else EPSSReason)"
  by (auto simp: EvaluateExploitability_def Let_def exploit_fold_kev exploit_zero_def)

lemma exploit_counts:
  "ex_kev_count (EvaluateExploitability rs k t) = length (filter ci_kev rs)"
  "ex_kev_ids (EvaluateExploitability rs k t) = sort (map ci_cve (filter ci_kev rs))"
  by (auto simp: EvaluateExploitability_def Let_def exploit_fold_kev exploit_zero_def)

subsection \<open>CVE extraction and image references\<close>

lemma extract_loop_sets:
  "extract_loop ids cves dropped = (cs, ds) \<Longrightarrow> distinct cves \<Longrightarrow> distinct dropped \<Longrightarrow>
     distinct cs \<and> distinct ds
     \<and> set cs = set cves \<union> {i \<in> trim_space ` set ids. i \<noteq> [] \<and> has_prefix (to_upper i) ''CVE-''}
     \<and> set ds = set dropped \<union> {i \<in> trim_space ` set ids. i \<noteq> [] \<and> \<not> has_prefix (to_upper i) ''CVE-''}"
proof (induction ids cves dropped rule: extract_loop.induct)
  case (2 raw ids cves dropped)
  let ?id = "trim_space raw"
  consider "?id = []" | "?id \<noteq> []" "has_prefix (to_upper ?id) ''CVE-''" "?id \<notin> set cves"
    | "?id \<noteq> []" "has_prefix (to_upper ?id) ''CVE-''" "?id \<in> set cves"
    | "?id \<noteq> []" "\<not> has_prefix (to_upper ?id) ''CVE-''" "?id \<notin> set dropped"
    | "?id \<noteq> []" "\<not> has_prefix (to_upper ?id) ''CVE-''" "?id \<in> set dropped" by blast
  then show ?case
  proof cases
    case 1
    then have "{i \<in> trim_space ` set (raw # ids). i \<noteq> [] \<and> Q i} = {i \<in> trim_space ` set ids. i \<noteq> [] \<and> Q i}"
      for Q by auto
    with 1 "2.prems" "2.IH"(1) [of ?id] show ?thesis by simp
  next
    case 2
    with "2.prems" "2.IH"(2) [of ?id] show ?thesis by auto
  next
    case 3
    with "2.prems" "2.IH"(3) [of ?id] show ?thesis by auto
  next
    case 4
    with "2.prems" "2.IH"(4) [of ?id] show ?thesis by auto
  next
    case 5
    with "2.prems" "2.IH"(5) [of ?id] show ?thesis by auto
  qed
qed simp

definition free_of :: "char list \<Rightarrow> string \<Rightarrow> bool" where
  "free_of cs s \<longleftrightarrow> (\<forall>c\<in>set s. \<not> is_space c \<and> c \<notin> set cs)"

lemma free_of_notin: "free_of cs s \<Longrightarrow> c \<in> set cs \<Longrightarrow> c \<notin> set s"
  unfolding free_of_def by blast

lemma free_of_simps [simp]:
  "free_of cs []"
  "free_of cs (x # s) \<longleftrightarrow> \<not> is_space x \<and> x \<notin> set cs \<and> free_of cs s"
  "free_of cs (s @ t) \<longleftrightarrow> free_of cs s \<and> free_of cs t"
  unfolding free_of_def by (simp_all add: ball_Un)

lemma free_of_mono: "free_of cs s \<Longrightarrow> set ds \<subseteq> set cs \<Longrightarrow> free_of ds s"
  unfolding free_of_def by blast

lemma free_of_trim: "free_of cs s \<Longrightarrow> trim_space s = s"
  unfolding free_of_def by (rule trim_space_id) blast

text \<open>The artifacts a registry can hold: the character classes of the distribution reference
  grammar, and a first path segment that reads as a host exactly when there is a registry.\<close>

definition art_wf :: "artifact \<Rightarrow> bool" where
  "art_wf a \<longleftrightarrow>
     art_repository a \<noteq> []
     \<and> free_of ''@:'' (art_repository a) \<and> free_of ''@/'' (art_registry a)
     \<and> free_of ''@:/'' (art_tag a) \<and> free_of ''@'' (art_digest a)
     \<and> (if art_registry a \<noteq> [] then host_like (art_registry a)
        else \<not> host_like (takeWhile (\<lambda>c. c \<noteq> CHR ''/'') (art_repository a)))"

lemma art_wfD:
  assumes "art_wf a"
  shows "art_repository a \<noteq> []" "CHR '':'' \<notin> set (art_repository a)"
    "CHR ''/'' \<notin> set (art_registry a)"
    "CHR '':'' \<notin> set (art_tag a)" "CHR ''/'' \<notin> set (art_tag a)" "CHR ''@'' \<notin> set (art_tag a)"
    "CHR ''@'' \<notin> set (art_digest a)"
    "art_registry a \<noteq> [] \<Longrightarrow> host_like (art_registry a)"
    "art_registry a = [] \<Longrightarrow> \<not> host_like (takeWhile (\<lambda>c. c \<noteq> CHR ''/'') (art_repository a))"
    "free_of ''@'' (art_repository a)" "free_of ''@'' (art_registry a)" "free_of [] (art_tag a)"
    "free_of [] (art_digest a)"
proof -
  have w: "art_repository a \<noteq> []" "free_of ''@:'' (art_repository a)" "free_of ''@/'' (art_registry a)"
    "free_of ''@:/'' (art_tag a)" "free_of ''@'' (art_digest a)"
    using assms unfolding art_wf_def by blast+
  show "art_repository a \<noteq> []" by (rule w)
  show "CHR '':'' \<notin> set (art_repository a)" by (rule free_of_notin [OF w(2)]) simp
  show "CHR ''/'' \<notin> set (art_registry a)" by (rule free_of_notin [OF w(3)]) simp
  show "CHR '':'' \<notin> set (art_tag a)" by (rule free_of_notin [OF w(4)]) simp
  show "CHR ''/'' \<notin> set (art_tag a)" by (rule free_of_notin [OF w(4)]) simp
  show "CHR ''@'' \<notin> set (art_tag a)" by (rule free_of_notin [OF w(4)]) simp
  show "CHR ''@'' \<notin> set (art_digest a)" by (rule free_of_notin [OF w(5)]) simp
  show "free_of ''@'' (art_repository a)" by (rule free_of_mono [OF w(2)]) simp
  show "free_of ''@'' (art_registry a)" by (rule free_of_mono [OF w(3)]) simp
  show "free_of [] (art_tag a)" by (rule free_of_mono [OF w(4)]) simp
  show "free_of [] (art_digest a)" by (rule free_of_mono [OF w(5)]) simp
  have r: "if art_registry a \<noteq> [] then host_like (art_registry a)
        else \<not> host_like (takeWhile (\<lambda>c. c \<noteq> CHR ''/'') (art_repository a))"
    using assms unfolding art_wf_def by blast
  show "host_like (art_registry a)" if "art_registry a \<noteq> []" using r that by argo
  show "\<not> host_like (takeWhile (\<lambda>c. c \<noteq> CHR ''/'') (art_repository a))" if "art_registry a = []"
    using r that by argo
qed

lemma separator_not_space [simp]:
  "\<not> is_space CHR ''/''" "\<not> is_space CHR '':''" "\<not> is_space CHR ''@''"
  by (simp_all add: is_space_def)

definition art_ref :: "artifact \<Rightarrow> string" where
  "art_ref a = (if art_registry a \<noteq> [] then art_registry a @ ''/'' @ art_repository a
                else art_repository a)"

lemma Artifact_String_cases:
  "Artifact_String a =
     (if art_tag a \<noteq> [] then art_ref a @ CHR '':'' # art_tag a
      else if art_digest a \<noteq> [] then art_ref a @ CHR ''@'' # art_digest a else art_ref a)"
  by (simp add: Artifact_String_def art_ref_def Let_def)

lemma index_byte_takeWhile: "index_byte s c = Some i \<Longrightarrow> take i s = takeWhile (\<lambda>x. x \<noteq> c) s"
  by (induction s arbitrary: i) (auto split: if_splits)

lemma split_registry_ref:
  assumes "art_wf a"
  shows "split_registry (art_ref a) = (art_registry a, art_repository a)"
proof (cases "art_registry a = []")
  case True
  note nh = art_wfD(9) [OF assms True]
  show ?thesis
  proof (cases "index_byte (art_repository a) CHR ''/''")
    case (Some i)
    then show ?thesis using True nh
      by (simp add: split_registry_def art_ref_def index_byte_takeWhile [OF Some])
  next
    case None
    then show ?thesis using True by (simp add: split_registry_def art_ref_def del: index_byte_None)
  qed
next
  case False
  note h = art_wfD(8) [OF assms False] art_wfD(3) [OF assms]
  then have "index_byte (art_ref a) CHR ''/'' = Some (length (art_registry a))"
    using False by (simp add: art_ref_def index_byte_append)
  then show ?thesis using False h by (simp add: split_registry_def art_ref_def)
qed

lemma split_tag_ref:
  assumes "art_wf a"
  shows "split_tag (art_ref a) = ([], art_ref a)"
proof (cases "last_index_byte (art_ref a) CHR '':''")
  case (Some i)
  from last_index_byte_Some [OF Some]
  have i: "i < length (art_ref a)" "art_ref a ! i = CHR '':''" by auto
  note nc = art_wfD(2) [OF assms]
  have reg: "art_registry a \<noteq> []"
  proof
    assume "art_registry a = []"
    then have "art_ref a = art_repository a" by (simp add: art_ref_def)
    with nth_mem [OF i(1)] i(2) nc show False by simp
  qed
  have "i < length (art_registry a)"
  proof (rule ccontr)
    assume "\<not> i < length (art_registry a)"
    then have "art_ref a ! i \<in> set (''/'' @ art_repository a)"
      using i(1) reg nth_mem [of "i - length (art_registry a)" "''/'' @ art_repository a"]
      by (simp add: art_ref_def nth_append del: append_Cons)
    with i nc show False by simp
  qed
  then have "CHR ''/'' \<in> set (drop (Suc i) (art_ref a))"
    using reg by (simp add: art_ref_def)
  then show ?thesis using Some by (simp add: split_tag_def)
next
  case None
  then show ?thesis by (simp add: split_tag_def del: last_index_byte_None)
qed

lemma art_ref_chars:
  assumes "art_wf a"
  shows "free_of ''@'' (art_ref a)" "CHR ''@'' \<notin> set (art_ref a)"
proof -
  show f: "free_of ''@'' (art_ref a)"
    using art_wfD(10,11) [OF assms] by (simp add: art_ref_def)
  show "CHR ''@'' \<notin> set (art_ref a)" by (rule free_of_notin [OF f]) simp
qed

lemma split_digest_none: "CHR ''@'' \<notin> set s \<Longrightarrow> split_digest s = ([], s)"
  by (simp add: split_digest_def del: last_index_byte_None add: last_index_byte_None [THEN iffD2])

lemma ParseImage_Artifact_String:
  assumes "art_wf a"
  shows "ParseImage (Artifact_String a) =
    \<lparr>img_registry = art_registry a, img_repository = art_repository a, img_tag = art_tag a,
     img_digest = (if art_tag a = [] then art_digest a else [])\<rparr>"
proof -
  have sp: "trim_space (Artifact_String a) = Artifact_String a"
    using free_of_mono [OF art_ref_chars(1) [OF assms], of "[]"] art_wfD(12,13) [OF assms]
    by (intro free_of_trim [of "[]"]) (simp add: Artifact_String_cases)
  consider (tag) "art_tag a \<noteq> []" | (digest) "art_tag a = []" "art_digest a \<noteq> []"
    | (bare) "art_tag a = []" "art_digest a = []" by blast
  then show ?thesis
  proof cases
    case tag
    then have s: "Artifact_String a = art_ref a @ CHR '':'' # art_tag a"
      by (simp add: Artifact_String_cases)
    note tg = art_wfD(4-6) [OF assms]
    have "split_tag (art_ref a @ CHR '':'' # art_tag a) = (art_tag a, art_ref a)"
      using tg by (simp add: split_tag_def last_index_byte_append)
    moreover have "split_digest (art_ref a @ CHR '':'' # art_tag a) = ([], art_ref a @ CHR '':'' # art_tag a)"
      using tg art_ref_chars [OF assms] by (intro split_digest_none) simp
    ultimately show ?thesis using tag
      by (simp add: ParseImage_def Let_def sp [unfolded s] s split_registry_ref [OF assms])
  next
    case digest
    then have s: "Artifact_String a = art_ref a @ CHR ''@'' # art_digest a"
      by (simp add: Artifact_String_cases)
    have "split_digest (art_ref a @ CHR ''@'' # art_digest a) = (art_digest a, art_ref a)"
      using art_wfD(7) [OF assms] by (simp add: split_digest_def last_index_byte_append)
    then show ?thesis using digest
      by (simp add: ParseImage_def Let_def sp [unfolded s] s split_registry_ref [OF assms] split_tag_ref [OF assms])
  next
    case bare
    then have s: "Artifact_String a = art_ref a"
      by (simp add: Artifact_String_cases)
    have "split_digest (art_ref a) = ([], art_ref a)"
      using art_ref_chars [OF assms] by (intro split_digest_none) simp
    then show ?thesis using bare
      by (simp add: ParseImage_def Let_def sp [unfolded s] s split_registry_ref [OF assms] split_tag_ref [OF assms])
  qed
qed

lemma MatchesImage_own:
  assumes "art_wf a"
  shows "MatchesImage a (Artifact_String a)"
proof -
  have "art_repository a \<noteq> []" by (rule art_wfD(1) [OF assms])
  then have "Artifact_String a \<noteq> []" by (simp add: Artifact_String_cases art_ref_def)
  with \<open>art_repository a \<noteq> []\<close> show ?thesis
    by (simp add: MatchesImage_def ParseImage_Artifact_String [OF assms])
qed

subsection \<open>Jobs, workloads, log tails\<close>

lemma condition_outcome_Some:
  "condition_outcome cs = Some (p, r, m) \<Longrightarrow>
     \<exists>c\<in>set cs. jc_status c = ''True'' \<and> jc_reason c = r \<and> jc_message c = m
       \<and> (p = JobSucceeded \<and> jc_type c = ''Complete'' \<or> p = JobFailed \<and> jc_type c = ''Failed'')"
  by (induction cs) (auto split: if_splits)

lemma condition_outcome_None:
  "condition_outcome cs = None \<longleftrightarrow>
     (\<forall>c\<in>set cs. jc_status c = ''True'' \<longrightarrow> jc_type c \<noteq> ''Complete'' \<and> jc_type c \<noteq> ''Failed'')"
  by (induction cs) auto

lemma JobOutcome_failed:
  "fst (JobOutcome (Some j)) = JobFailed \<Longrightarrow>
     (\<exists>c\<in>set (job_conditions j). jc_type c = ''Failed'' \<and> jc_status c = ''True'')
     \<or> (\<exists>l. job_backoff_limit j = Some l \<and> l < job_failed j \<and> 0 < job_failed j \<and> job_succeeded j \<le> 0)"
  by (auto simp: JobOutcome_def dest!: condition_outcome_Some split: option.splits if_splits)

lemma JobOutcome_running:
  "fst (JobOutcome (Some j)) = JobRunning \<Longrightarrow>
     job_succeeded j \<le> 0
     \<and> (\<forall>c\<in>set (job_conditions j). jc_status c = ''True'' \<longrightarrow> jc_type c \<noteq> ''Complete'' \<and> jc_type c \<noteq> ''Failed'')"
  by (auto simp: JobOutcome_def condition_outcome_None split: option.splits if_splits
      dest: condition_outcome_Some)

definition workload_ready :: "workload \<Rightarrow> bool" where
  "workload_ready w \<longleftrightarrow> wanted_replicas w = 0
     \<or> wanted_replicas w \<le> wl_ready_replicas w \<and> wl_generation w \<le> wl_observed_generation w"

lemma workload_pending_None: "workload_pending kind w = None \<longleftrightarrow> workload_ready w"
  by (auto simp: workload_pending_def workload_ready_def Let_def)

lemma map_filter_Nil: "List.map_filter f xs = [] \<longleftrightarrow> (\<forall>x\<in>set xs. f x = None)"
  by (induction xs) (auto simp: List.map_filter_simps split: option.splits)

lemma readiness_iff:
  "fst (EvaluateWorkloadReadiness ds ss) \<longleftrightarrow>
     ds @ ss \<noteq> [] \<and> (\<forall>w\<in>set (ds @ ss). workload_ready w)"
  by (auto simp: EvaluateWorkloadReadiness_def Let_def map_filter_Nil workload_pending_None)

lemma TruncateLogTail_cases:
  assumes "0 < n" and "n < int (length s)"
  obtains t where "TruncateLogTail s n = ''...'' @ newline @ t" and "has_suffix s t"
    and "t \<noteq> []" and "int (length t) \<le> n"
    and "int (length t) < n \<longrightarrow> (\<exists>u. s = u @ newline @ t)"
proof -
  define cut where "cut = drop (length s - nat n) s"
  have l: "length cut = nat n" using assms by (simp add: cut_def)
  have s: "s = take (length s - nat n) s @ cut" by (simp add: cut_def)
  show thesis
  proof (cases "\<exists>nl. index_byte cut CHR 0x0A = Some nl \<and> nl + 1 < length cut")
    case True
    then obtain nl where nl: "index_byte cut CHR 0x0A = Some nl" "nl + 1 < length cut" by blast
    have "TruncateLogTail s n = ''...'' @ newline @ drop (Suc nl) cut"
      using assms nl by (simp add: TruncateLogTail_def cut_def [symmetric])
    moreover have "cut = take nl cut @ newline @ drop (Suc nl) cut"
      using index_byte_Some [OF nl(1)] id_take_nth_drop [of nl cut] by (simp add: newline_def)
    ultimately show thesis
      using that [of "drop (Suc nl) cut"] nl l s assms
      by (metis One_nat_def add.commute append.assoc drop_eq_Nil2 has_suffix_append int_nat_eq le_add_diff_inverse2
          length_drop linorder_not_less nat_int of_nat_le_iff order_less_imp_le plus_1_eq_Suc diff_le_self)
  next
    case False
    then have "TruncateLogTail s n = ''...'' @ newline @ cut"
      using assms by (auto simp: TruncateLogTail_def cut_def [symmetric] split: option.splits)
    moreover have "has_suffix s cut" using s has_suffix_append by metis
    moreover have "cut \<noteq> []" "int (length cut) = n" using l assms by auto
    ultimately show thesis using that [of cut] by simp
  qed
qed

lemma replace_all_char: "replace_all s [c] [] = filter (\<lambda>x. x \<noteq> c) s"
proof (induction s)
  case (Cons x s)
  then show ?case by (subst replace_all.simps) (simp add: has_prefix_def)
qed (simp add: replace_all.simps)

lemma CheckID_uid:
  assumes "filter (\<lambda>x. x \<noteq> CHR ''-'') uid \<noteq> []"
  shows "CheckID uid fallback = to_lower (take 12 (filter (\<lambda>x. x \<noteq> CHR ''-'') uid))"
  using assms by (auto simp: CheckID_def replace_all_char Let_def)

subsection \<open>Properties\<close>

text \<open>The exploitability verdict: an image passes exactly when at most \<open>kevMax\<close> of its CVEs are
  known exploited and no CVE's rounded EPSS exceeds the limit; a failure names the KEV list first;
  the ids reported are exactly the known-exploited ones, in sorted order.\<close>

theorem exploitability_verdict:
  assumes "0 \<le> t"
  shows "(ex_passed (EvaluateExploitability rs k t) \<longleftrightarrow>
            int (length (filter ci_kev rs)) \<le> k \<and> (\<forall>r\<in>set rs. Permille (ci_epss r) \<le> t))
    \<and> ex_reason (EvaluateExploitability rs k t) =
        (if int (length (filter ci_kev rs)) > k then KEVReason
         else if \<exists>r\<in>set rs. Permille (ci_epss r) > t then EPSSReason else NoReason)
    \<and> ex_kev_ids (EvaluateExploitability rs k t) = sort (map ci_cve (filter ci_kev rs))"
  using exploit_verdict [OF assms, of rs k] exploit_reason_cases [of rs k t]
  by (auto simp: exploit_counts not_le not_less)

theorem exploitability_verdict_witness:
  "ex_reason (EvaluateExploitability
     [\<lparr>ci_cve = ''CVE-1'', ci_kev = True, ci_epss = Fin 1 (- 1)\<rparr>] 0 400) = KEVReason"
  using exploitability_verdict [of 400 "[\<lparr>ci_cve = ''CVE-1'', ci_kev = True, ci_epss = Fin 1 (- 1)\<rparr>]" 0]
  by simp

text \<open>The EPSS limit is inclusive and rounds to the published three decimals: scores of at most
  \<open>t\<close> thousandths pass a limit of \<open>t\<close>, one of \<open>t + 1\<close> thousandths or more fails it, and a
  double within a quarter of a thousandth of \<open>k/1000\<close> is read as exactly \<open>k\<close>.\<close>

theorem epss_limit_inclusive:
  assumes "0 \<le> t" and "t < 1000" and "int (length (filter ci_kev rs)) \<le> kev"
    and "\<forall>r\<in>set rs. \<exists>m e. ci_epss r = Fin m e"
  shows "((\<forall>r\<in>set rs. \<forall>m e. ci_epss r = Fin m e \<longrightarrow> fval m e \<le> real_of_int t / 1000) \<longrightarrow>
            ex_passed (EvaluateExploitability rs kev t))
    \<and> ((\<exists>r\<in>set rs. \<exists>m e. ci_epss r = Fin m e \<and> real_of_int (t + 1) / 1000 \<le> fval m e) \<longrightarrow>
            ex_reason (EvaluateExploitability rs kev t) = EPSSReason)
    \<and> (\<forall>m e k. 0 \<le> k \<and> k \<le> 1000 \<and> \<bar>fval m e - real_of_int k / 1000\<bar> \<le> 1 / 4000 \<longrightarrow>
            Permille (Fin m e) = k)"
proof (intro conjI impI allI)
  assume le: "\<forall>r\<in>set rs. \<forall>m e. ci_epss r = Fin m e \<longrightarrow> fval m e \<le> real_of_int t / 1000"
  have "Permille (ci_epss r) \<le> t" if "r \<in> set rs" for r
    using that assms(4) le Permille_le [OF assms(1)] by force
  then show "ex_passed (EvaluateExploitability rs kev t)"
    using exploit_verdict [OF assms(1)] assms(3) by blast
next
  assume "\<exists>r\<in>set rs. \<exists>m e. ci_epss r = Fin m e \<and> real_of_int (t + 1) / 1000 \<le> fval m e"
  then obtain r where "r \<in> set rs" "t + 1 \<le> Permille (ci_epss r)"
    using Permille_ge [of "t + 1"] assms(2) by force
  then have "\<not> ex_passed (EvaluateExploitability rs kev t)"
    using exploit_verdict [OF assms(1)] by fastforce
  then show "ex_reason (EvaluateExploitability rs kev t) = EPSSReason"
    using assms(3) by (simp add: exploit_reason_cases)
next
  fix m e k
  assume "0 \<le> k \<and> k \<le> 1000 \<and> \<bar>fval m e - real_of_int k / 1000\<bar> \<le> 1 / 4000"
  then show "Permille (Fin m e) = k" by (blast intro: Permille_published)
qed

theorem epss_limit_inclusive_witness:
  "ex_passed (EvaluateExploitability
     [\<lparr>ci_cve = ''CVE-1'', ci_kev = False, ci_epss = Fin 1 (- 1)\<rparr>] 0 500)"
  using epss_limit_inclusive [of 500 "[\<lparr>ci_cve = ''CVE-1'', ci_kev = False, ci_epss = Fin 1 (- 1)\<rparr>]" 0]
  by (simp add: fval_def power_int_def)

text \<open>CVE extraction: the CVEs and the dropped ids are sorted and distinct, and together they
  are exactly the non-blank trimmed inputs, split by the CVE prefix in any case.\<close>

theorem ExtractCVEs_partition:
  "sorted (fst (ExtractCVEs ids)) \<and> distinct (fst (ExtractCVEs ids))
   \<and> sorted (snd (ExtractCVEs ids)) \<and> distinct (snd (ExtractCVEs ids))
   \<and> set (fst (ExtractCVEs ids)) =
       {i \<in> trim_space ` set ids. i \<noteq> [] \<and> has_prefix (to_upper i) ''CVE-''}
   \<and> set (snd (ExtractCVEs ids)) =
       {i \<in> trim_space ` set ids. i \<noteq> [] \<and> \<not> has_prefix (to_upper i) ''CVE-''}"
proof -
  obtain cs ds where l: "extract_loop ids [] [] = (cs, ds)" by fastforce
  show ?thesis using extract_loop_sets [OF l] by (simp add: ExtractCVEs_def l)
qed

text \<open>A scan artifact's rendering parses back to the artifact (the digest being dropped next to a
  tag, as the rendering drops it), and the artifact matches its own rendering.\<close>

theorem artifact_roundtrip:
  assumes "art_wf a"
  shows "ParseImage (Artifact_String a) =
      \<lparr>img_registry = art_registry a, img_repository = art_repository a, img_tag = art_tag a,
       img_digest = (if art_tag a = [] then art_digest a else [])\<rparr>
    \<and> MatchesImage a (Artifact_String a)"
  using ParseImage_Artifact_String [OF assms] MatchesImage_own [OF assms] by blast

theorem artifact_roundtrip_witness:
  "ParseImage ''ghcr.io:443/owner/app:1.2'' =
     \<lparr>img_registry = ''ghcr.io:443'', img_repository = ''owner/app'', img_tag = ''1.2'', img_digest = []\<rparr>"
  using artifact_roundtrip [of "\<lparr>art_registry = ''ghcr.io:443'', art_repository = ''owner/app'',
     art_tag = ''1.2'', art_digest = ''sha256:ab''\<rparr>"]
  by (simp add: art_wf_def is_space_def host_like_def Artifact_String_def)

text \<open>Readiness: a preview is ready exactly when it has a workload and every Deployment and
  StatefulSet is scaled to zero or has all its replicas ready at its current generation.\<close>

theorem workload_readiness:
  "fst (EvaluateWorkloadReadiness ds ss) \<longleftrightarrow>
     ds @ ss \<noteq> [] \<and>
     (\<forall>w\<in>set (ds @ ss). wanted_replicas w = 0
        \<or> wanted_replicas w \<le> wl_ready_replicas w \<and> wl_generation w \<le> wl_observed_generation w)"
  using readiness_iff [of ds ss] by (simp add: workload_ready_def)


theorem workload_readiness_witness:
  "fst (EvaluateWorkloadReadiness
     [\<lparr>wl_name = ''web'', wl_generation = 2, wl_replicas = Some 0, wl_ready_replicas = 0,
       wl_observed_generation = 1,
       wl_pod_spec = \<lparr>ps_restart_policy = [], ps_automount_token = None, ps_security = None,
         ps_init_containers = [], ps_containers = []\<rparr>\<rparr>] [])"
  by (rule workload_readiness [THEN iffD2]) (simp add: wanted_replicas_def)

text \<open>A cut log tail keeps the end of the log: the ellipsis line is followed by a non-empty
  suffix of the log, within the byte limit, that starts at a line start whenever a line break
  could be found; a log within the limit is returned as it is.\<close>

theorem log_tail_cut:
  "(0 < n \<and> n < int (length s) \<longrightarrow>
      (\<exists>t. TruncateLogTail s n = ''...'' @ newline @ t \<and> has_suffix s t \<and> t \<noteq> []
         \<and> int (length t) \<le> n \<and> (int (length t) < n \<longrightarrow> (\<exists>u. s = u @ newline @ t))))
   \<and> (n \<le> 0 \<or> int (length s) \<le> n \<longrightarrow> TruncateLogTail s n = s)"
proof (intro conjI impI)
  assume a: "0 < n \<and> n < int (length s)"
  show "\<exists>t. TruncateLogTail s n = ''...'' @ newline @ t \<and> has_suffix s t \<and> t \<noteq> []
      \<and> int (length t) \<le> n \<and> (int (length t) < n \<longrightarrow> (\<exists>u. s = u @ newline @ t))"
    by (rule TruncateLogTail_cases [OF conjunct1 [OF a] conjunct2 [OF a]]) (intro exI conjI)
next
  assume "n \<le> 0 \<or> int (length s) \<le> n"
  then show "TruncateLogTail s n = s" unfolding TruncateLogTail_def by (rule if_P)
qed

theorem log_tail_cut_witness:
  "\<exists>t. TruncateLogTail ''abcdef'' 3 = ''...'' @ newline @ t \<and> has_suffix ''abcdef'' t"
  using log_tail_cut [THEN conjunct1, of 3 "''abcdef''"] by fastforce

end
