(* ===== verification/Effects.thy ===== *)
theory Effects
  imports Prelude "HOL-Library.State_Monad"
begin

section \<open>Programs that call the outside world\<close>

text \<open>
  A controller is a program over an arbitrary world \<open>'w\<close>: the API server, the clock, the log
  store. Every call to it is one \<open>operate\<close>: it lets the world answer and change, and appends an
  entry with the request and the answer to the call log. Nothing is assumed of the world, so a
  statement about every run is a statement about every sequence of answers.

  \<open>ensures m P\<close> says that every run of \<open>m\<close> appends some entries \<open>xs\<close> to the log and returns
  some \<open>a\<close> with \<open>P a xs\<close>; the rules below compose such statements along the program text.
\<close>

record ('w, 'c) sys =
  world :: 'w
  calls :: "'c list"

type_synonym ('w, 'c, 'a) prog = "(('w, 'c) sys, 'a) state"

definition operate :: "('w \<Rightarrow> 'a \<times> 'w) \<Rightarrow> ('a \<Rightarrow> 'c) \<Rightarrow> ('w, 'c, 'a) prog" where
  "operate g c = State (\<lambda>s. case g (world s) of (a, w) \<Rightarrow> (a, s\<lparr>world := w, calls := calls s @ [c a]\<rparr>))"

definition emit :: "'c \<Rightarrow> ('w, 'c, unit) prog" where
  "emit c = operate (\<lambda>w. ((), w)) (\<lambda>_. c)"

definition whenM :: "bool \<Rightarrow> ('w, 'c, unit) prog \<Rightarrow> ('w, 'c, unit) prog" where
  "whenM b m = (if b then m else State_Monad.return ())"

definition ensures :: "('w, 'c, 'a) prog \<Rightarrow> ('a \<Rightarrow> 'c list \<Rightarrow> bool) \<Rightarrow> bool" where
  "ensures m P \<longleftrightarrow> (\<forall>s. \<exists>xs. calls (snd (run_state m s)) = calls s @ xs \<and> P (fst (run_state m s)) xs)"

text \<open>The answer and the log of a program started in a world.\<close>

definition run_in :: "('w, 'c, 'a) prog \<Rightarrow> 'w \<Rightarrow> 'a \<times> 'c list" where
  "run_in m w = (case run_state m \<lparr>world = w, calls = []\<rparr> of (a, s) \<Rightarrow> (a, calls s))"

named_theorems ens_rules \<open>introduction rules for ensures\<close>
named_theorems run_simps \<open>evaluation of programs\<close>

lemma ens_return [ens_rules]: "P a [] \<Longrightarrow> ensures (State_Monad.return a) P"
  by (simp add: ensures_def State_Monad.return_def)

lemma run_bind:
  "run_state (State_Monad.bind m f) s = (case run_state m s of (a, s') \<Rightarrow> run_state (f a) s')"
  by (cases m) (simp add: State_Monad.bind_def split: prod.split)

lemma ens_bind [ens_rules]:
  assumes "ensures m (\<lambda>a xs. ensures (f a) (\<lambda>b ys. P b (xs @ ys)))"
  shows "ensures (State_Monad.bind m f) P"
  unfolding ensures_def
proof
  fix s
  obtain a s1 where m: "run_state m s = (a, s1)" by fastforce
  with assms obtain xs where xs: "calls s1 = calls s @ xs" and f: "ensures (f a) (\<lambda>b ys. P b (xs @ ys))"
    unfolding ensures_def by (metis fst_conv snd_conv)
  obtain b s2 where fa: "run_state (f a) s1 = (b, s2)" by fastforce
  with f obtain ys where "calls s2 = calls s1 @ ys" "P b (xs @ ys)"
    unfolding ensures_def by (metis fst_conv snd_conv)
  then show "\<exists>zs. calls (snd (run_state (State_Monad.bind m f) s)) = calls s @ zs
      \<and> P (fst (run_state (State_Monad.bind m f) s)) zs"
    using xs m fa by (simp add: run_bind)
qed

lemma ens_weaken:
  assumes "ensures m P" and "\<And>a xs. P a xs \<Longrightarrow> Q a xs"
  shows "ensures m Q"
  using assms unfolding ensures_def by blast

lemma ens_bindI:
  assumes "ensures m P" and "\<And>a xs. P a xs \<Longrightarrow> ensures (f a) (\<lambda>b ys. Q b (xs @ ys))"
  shows "ensures (State_Monad.bind m f) Q"
  by (rule ens_bind) (rule ens_weaken [OF assms])

lemma ens_operate [ens_rules]: "(\<And>a. P a [c a]) \<Longrightarrow> ensures (operate g c) P"
  by (simp add: ensures_def operate_def split: prod.split)

lemma ens_emit [ens_rules]: "P () [c] \<Longrightarrow> ensures (emit c) P"
  unfolding emit_def by (rule ens_operate) simp

lemma ens_whenM [ens_rules]:
  "(b \<Longrightarrow> ensures m P) \<Longrightarrow> (\<not> b \<Longrightarrow> P () []) \<Longrightarrow> ensures (whenM b m) P"
  by (cases b) (auto simp: whenM_def intro: ens_return)

lemma ens_sum [ens_rules]:
  "(\<And>a. x = Inl a \<Longrightarrow> ensures (f a) P) \<Longrightarrow> (\<And>b. x = Inr b \<Longrightarrow> ensures (g b) P) \<Longrightarrow>
   ensures (case x of Inl a \<Rightarrow> f a | Inr b \<Rightarrow> g b) P"
  by (cases x) simp_all

lemma ens_option [ens_rules]:
  "(x = None \<Longrightarrow> ensures f P) \<Longrightarrow> (\<And>a. x = Some a \<Longrightarrow> ensures (g a) P) \<Longrightarrow>
   ensures (case x of None \<Rightarrow> f | Some a \<Rightarrow> g a) P"
  by (cases x) simp_all

lemma ens_if [ens_rules]:
  "(b \<Longrightarrow> ensures f P) \<Longrightarrow> (\<not> b \<Longrightarrow> ensures g P) \<Longrightarrow> ensures (if b then f else g) P"
  by simp

lemma ens_prod [ens_rules]:
  "(\<And>a b. x = (a, b) \<Longrightarrow> ensures (f a b) P) \<Longrightarrow> ensures (case x of (a, b) \<Rightarrow> f a b) P"
  by (cases x) simp

lemma ens_let [ens_rules]: "ensures (f x) P \<Longrightarrow> ensures (let y = x in f y) P"
  by simp

lemma ens_conj: "ensures m P \<Longrightarrow> ensures m Q \<Longrightarrow> ensures m (\<lambda>a xs. P a xs \<and> Q a xs)"
  unfolding ensures_def by (metis same_append_eq)

lemma ens_run_in: "ensures m P \<Longrightarrow> run_in m w = (a, xs) \<Longrightarrow> P a xs"
  unfolding ensures_def run_in_def by (auto split: prod.splits) (metis append_Nil fst_conv snd_conv sys.select_convs(2))

lemma run_return [run_simps]: "run_state (State_Monad.return a) s = (a, s)"
  by (simp add: State_Monad.return_def)

lemma run_operate [run_simps]:
  "run_state (operate g c) s =
     (case g (world s) of (a, w) \<Rightarrow> (a, s\<lparr>world := w, calls := calls s @ [c a]\<rparr>))"
  by (simp add: operate_def)

lemmas [run_simps] = run_bind emit_def whenM_def run_in_def

end
