(* ===== verification/Errors.thy ===== *)
theory Errors
  imports Kube_Types
begin

section \<open>Errors and reconcile results\<close>

text \<open>
  An error is an API status (its reason, the cause types of its details, its message), an HTTP
  status of the enrichment endpoint, a plain message, or a wrapped error (\<open>fmt.Errorf\<close> with
  \<open>%w\<close>). The predicates look through wrapping, as \<open>errors.As\<close> does. A function that returns a
  value and an error returns \<open>Inl\<close> the error or \<open>Inr\<close> the value.
\<close>

datatype api_reason = RNotFound | RAlreadyExists | RConflict | RForbidden | ROther

datatype goerr =
    ApiErr api_reason "string list" string
  | HTTPErr int string
  | Plain string
  | Wrapped string goerr

type_synonym 'a result = "goerr + 'a"

fun err_text :: "goerr \<Rightarrow> string" where
  "err_text (ApiErr r causes msg) = msg"
| "err_text (HTTPErr code body) = ''cve enrichment: HTTP '' @ itoa code @ '': '' @ body"
| "err_text (Plain msg) = msg"
| "err_text (Wrapped pre e) = pre @ err_text e"

fun api_reason_of :: "goerr \<Rightarrow> api_reason" where
  "api_reason_of (ApiErr r causes msg) = r"
| "api_reason_of (HTTPErr code body) = ROther"
| "api_reason_of (Plain msg) = ROther"
| "api_reason_of (Wrapped pre e) = api_reason_of e"

fun api_causes_of :: "goerr \<Rightarrow> string list" where
  "api_causes_of (ApiErr r causes msg) = causes"
| "api_causes_of (HTTPErr code body) = []"
| "api_causes_of (Plain msg) = []"
| "api_causes_of (Wrapped pre e) = api_causes_of e"

definition IsNotFound :: "goerr \<Rightarrow> bool" where
  "IsNotFound e \<longleftrightarrow> api_reason_of e = RNotFound"

definition IsAlreadyExists :: "goerr \<Rightarrow> bool" where
  "IsAlreadyExists e \<longleftrightarrow> api_reason_of e = RAlreadyExists"

definition IsConflict :: "goerr \<Rightarrow> bool" where
  "IsConflict e \<longleftrightarrow> api_reason_of e = RConflict"

definition IsForbidden :: "goerr \<Rightarrow> bool" where
  "IsForbidden e \<longleftrightarrow> api_reason_of e = RForbidden"

subsection \<open>The three meanings of Forbidden\<close>

datatype forbidden_kind = forbiddenOther | forbiddenQuota | forbiddenTerminating

definition classifyForbidden :: "goerr \<Rightarrow> forbidden_kind" where
  "classifyForbidden err =
     (if \<not> IsForbidden err then forbiddenOther
      else if ''NamespaceTerminating'' \<in> set (api_causes_of err) then forbiddenTerminating
      else if str_contains (err_text err) ''exceeded quota'' then forbiddenQuota
      else if str_contains (err_text err) ''being terminated''
              \<or> str_contains (err_text err) ''NamespaceTerminating'' then forbiddenTerminating
      else forbiddenOther)"

definition namespaceUnavailable :: "goerr \<Rightarrow> bool" where
  "namespaceUnavailable err \<longleftrightarrow> IsNotFound err \<or> classifyForbidden err = forbiddenTerminating"

subsection \<open>Results of a reconcile pass\<close>

record ctrl_result =
  res_requeue :: bool
  res_after :: duration

type_synonym reconcile_result = "ctrl_result \<times> goerr option"

definition res_done :: ctrl_result where
  "res_done = \<lparr>res_requeue = False, res_after = 0\<rparr>"

definition res_requeue_now :: ctrl_result where
  "res_requeue_now = \<lparr>res_requeue = True, res_after = 0\<rparr>"

definition res_requeue_after :: "duration \<Rightarrow> ctrl_result" where
  "res_requeue_after d = \<lparr>res_requeue = False, res_after = d\<rparr>"

definition requeueOnConflict :: "goerr \<Rightarrow> reconcile_result" where
  "requeueOnConflict err = (if IsConflict err then (res_requeue_now, None) else (res_done, Some err))"

text \<open>\<open>client.IgnoreNotFound\<close> of an error or nil.\<close>

definition ignore_not_found :: "goerr option \<Rightarrow> goerr option" where
  "ignore_not_found e = (case e of Some err \<Rightarrow> if IsNotFound err then None else Some err | None \<Rightarrow> None)"

definition errorf :: "string \<Rightarrow> goerr \<Rightarrow> goerr" where
  "errorf pre e = Wrapped pre e"

lemma err_class_wrapped [simp]:
  "IsNotFound (errorf p e) = IsNotFound e" "IsConflict (errorf p e) = IsConflict e"
  "IsForbidden (errorf p e) = IsForbidden e" "IsAlreadyExists (errorf p e) = IsAlreadyExists e"
  by (simp_all add: errorf_def IsNotFound_def IsConflict_def IsForbidden_def IsAlreadyExists_def)

lemma classifyForbidden_iff:
  "classifyForbidden err \<noteq> forbiddenOther \<Longrightarrow> IsForbidden err"
  by (auto simp: classifyForbidden_def split: if_splits)

lemma quota_not_unavailable:
  "classifyForbidden err = forbiddenQuota \<Longrightarrow> \<not> namespaceUnavailable err"
  using classifyForbidden_iff [of err]
  by (auto simp: namespaceUnavailable_def IsForbidden_def IsNotFound_def)

end
