(* ===== verification/Cache.thy ===== *)
theory Cache
  imports Prelude
begin

section \<open>The contract of a cache with expiry\<close>

text \<open>
  What the operator's memo tables promise their clients: an entry is readable under its key
  while it is fresh, a write never makes another key readable that was not, and every write of
  an acceptable value keeps the table's invariant. The clients rely on two consequences: over
  any history of writes the invariant holds, and a value that is read was written under that
  key and is still fresh.
\<close>

locale ttl_cache =
  fixes get :: "'m \<Rightarrow> instant \<Rightarrow> 'k \<Rightarrow> 'v option"
    and put :: "'m \<Rightarrow> instant \<Rightarrow> 'k \<Rightarrow> 'v \<Rightarrow> 'm"
    and empty :: 'm
    and inv :: "'m \<Rightarrow> bool"
    and fresh :: "instant \<Rightarrow> instant \<Rightarrow> bool"
    and ok :: "'v \<Rightarrow> bool"
  assumes inv_empty: "inv empty"
    and get_empty: "get empty t k = None"
    and inv_put: "inv m \<Longrightarrow> ok v \<Longrightarrow> inv (put m t k v)"
    and get_put: "inv m \<Longrightarrow> get (put m t k v) t' k = (if fresh t t' then Some v else None)"
    and get_put_other: "inv m \<Longrightarrow> k' \<noteq> k \<Longrightarrow> get (put m t k v) t' k' = Some v' \<Longrightarrow> get m t' k' = Some v'"
begin

lemma inv_history:
  "\<forall>(t, k, v)\<in>set hist. ok v \<Longrightarrow> inv m \<Longrightarrow> inv (foldl (\<lambda>m (t, k, v). put m t k v) m hist)"
  by (induction hist arbitrary: m) (auto intro: inv_put)

lemma get_history:
  assumes "\<forall>(t, k, v)\<in>set hist. ok v"
    and "get (foldl (\<lambda>m (t, k, v). put m t k v) empty hist) t' k' = Some v'"
  shows "\<exists>t. (t, k', v') \<in> set hist \<and> fresh t t'"
  using assms
proof (induction hist rule: rev_induct)
  case Nil
  then show ?case by (simp add: get_empty)
next
  case (snoc x xs)
  obtain t k v where x: "x = (t, k, v)" by (cases x)
  let ?m = "foldl (\<lambda>m (t, k, v). put m t k v) empty xs"
  have i: "inv ?m" using snoc.prems(1) by (intro inv_history inv_empty) auto
  show ?case
  proof (cases "k' = k")
    case True
    with snoc.prems(2) have "(if fresh t t' then Some v else None) = Some v'"
      by (simp add: x get_put [OF i])
    then show ?thesis using True x by (auto split: if_splits)
  next
    case False
    with snoc.prems(2) have "get ?m t' k' = Some v'"
      by (auto simp: x dest: get_put_other [OF i])
    with snoc show ?thesis by auto
  qed
qed

end

end
