(* ===== verification/Enrichment.thy ===== *)
theory Enrichment
  imports Eval Effects Errors Cache
begin

section \<open>The KEV/EPSS client: internal/enrichment/client.go\<close>

text \<open>
  \<open>Lookup\<close> sorts the CVE ids, answers from a bounded 15-minute memo, or posts the ids in chunks
  of at most 200 and merges the answers towards the least confident reading. The memo table is
  a Go map: here its entries, with distinct keys; each locked section is one step on it.

  Parameters (\<open>enrich_env\<close>): the HTTP exchange (whose transport errors include the two
  timeouts), JSON coding, SHA-256, and the clock.
\<close>

abbreviation maxChunk :: nat where "maxChunk \<equiv> 200"
abbreviation memoTTL :: duration where "memoTTL \<equiv> 15 * minute"
abbreviation memoMax :: nat where "memoMax \<equiv> 128"

record enrich_response =
  er_results :: "cve_intel list"
  er_unknown :: "string list"
  er_fetched :: "instant option"
  er_kev_total :: int
  er_epss_total :: int
  er_stale :: bool

definition empty_response :: enrich_response where
  "empty_response = \<lparr>er_results = [], er_unknown = [], er_fetched = None, er_kev_total = 0,
     er_epss_total = 0, er_stale = False\<rparr>"

definition Usable :: "enrich_response \<Rightarrow> bool" where
  "Usable r \<longleftrightarrow> \<not> er_stale r \<and> er_kev_total r > 0"

text \<open>\<open>errors.As(err, *StatusError)\<close> followed by \<open>Terminal\<close>.\<close>

fun IsTerminal :: "goerr \<Rightarrow> bool" where
  "IsTerminal (HTTPErr code body) \<longleftrightarrow> 400 \<le> code \<and> code < 500"
| "IsTerminal (Wrapped pre e) \<longleftrightarrow> IsTerminal e"
| "IsTerminal (ApiErr r cs m) \<longleftrightarrow> False"
| "IsTerminal (Plain m) \<longleftrightarrow> False"

definition mergeResponses :: "enrich_response \<Rightarrow> enrich_response \<Rightarrow> bool \<Rightarrow> enrich_response" where
  "mergeResponses agg chunk first =
     (let agg = agg\<lparr>er_results := er_results agg @ er_results chunk,
                    er_unknown := er_unknown agg @ er_unknown chunk,
                    er_stale := er_stale agg \<or> er_stale chunk\<rparr>
      in if first then
           agg\<lparr>er_kev_total := er_kev_total chunk, er_epss_total := er_epss_total chunk,
               er_fetched := er_fetched chunk\<rparr>
         else
           let agg = agg\<lparr>er_kev_total := min (er_kev_total agg) (er_kev_total chunk),
                         er_epss_total := min (er_epss_total agg) (er_epss_total chunk)\<rparr>
           in case er_fetched chunk of
                None \<Rightarrow> agg
              | Some t \<Rightarrow>
                  (case er_fetched agg of
                     None \<Rightarrow> agg\<lparr>er_fetched := Some t\<rparr>
                   | Some u \<Rightarrow> if t < u then agg\<lparr>er_fetched := Some t\<rparr> else agg))"

subsection \<open>The memo\<close>

record memo_entry =
  me_resp :: enrich_response
  me_at :: instant

type_synonym memo = "(string \<times> memo_entry) list"

definition memoGet :: "memo \<Rightarrow> instant \<Rightarrow> string \<Rightarrow> enrich_response option" where
  "memoGet m now key =
     (case map_of m key of
        None \<Rightarrow> None
      | Some entry \<Rightarrow> if time_sub now (me_at entry) > memoTTL then None else Some (me_resp entry))"

definition memoPut :: "memo \<Rightarrow> instant \<Rightarrow> string \<Rightarrow> enrich_response \<Rightarrow> memo" where
  "memoPut m now key resp =
     (let m = filter (\<lambda>(k, v). \<not> time_sub now (me_at v) > memoTTL) m;
          m = (if length m \<ge> memoMax then [] else m)
      in (key, \<lparr>me_resp = resp, me_at = now\<rparr>) # filter (\<lambda>(k, v). k \<noteq> key) m)"

subsection \<open>One request\<close>

datatype http_reply = TransportError string | ReadError string | Reply int string

datatype enrich_call = HttpPost "string list" http_reply | EnrichNow instant

record 'w enrich_env =
  en_http :: "string \<Rightarrow> string \<Rightarrow> 'w \<Rightarrow> http_reply \<times> 'w"
  en_encode :: "string list \<Rightarrow> string"
  en_decode :: "string \<Rightarrow> string + enrich_response"
  en_sha256 :: "string \<Rightarrow> string"
  en_now :: "'w \<Rightarrow> instant \<times> 'w"

definition truncate_body :: "string \<Rightarrow> nat \<Rightarrow> string" where
  "truncate_body s n = (if length s \<le> n then s else take n s @ ''...'')"

definition post_chunk ::
  "'w enrich_env \<Rightarrow> string \<Rightarrow> string list \<Rightarrow> ('w, enrich_call, enrich_response result) prog" where
  "post_chunk E url ids =
     do {
       reply \<leftarrow> operate (en_http E url (en_encode E ids)) (HttpPost ids);
       State_Monad.return
         (case reply of
            TransportError m \<Rightarrow>
              Inl (Wrapped (''cve enrichment: post '' @ itoa (int (length ids)) @ '' id(s): '') (Plain m))
          | ReadError m \<Rightarrow> Inl (Wrapped ''cve enrichment: read response: '' (Plain m))
          | Reply code raw \<Rightarrow>
              if code \<noteq> 200 then Inl (HTTPErr code (truncate_body raw 256))
              else
                (case en_decode E raw of
                   Inl m \<Rightarrow> Inl (Wrapped ''cve enrichment: decode response: '' (Plain m))
                 | Inr out \<Rightarrow> Inr out))
     }"

definition memoKey :: "'w enrich_env \<Rightarrow> string list \<Rightarrow> string" where
  "memoKey E ids = en_sha256 E (join_with '','' ids)"

subsection \<open>Lookup\<close>

function chunk_loop ::
  "'w enrich_env \<Rightarrow> string \<Rightarrow> string list \<Rightarrow> enrich_response \<Rightarrow> bool
    \<Rightarrow> ('w, enrich_call, enrich_response result) prog" where
  "chunk_loop E url ids agg first =
     (if ids = [] then State_Monad.return (Inr agg)
      else
        do {
          r \<leftarrow> post_chunk E url (take maxChunk ids);
          case r of
            Inl err \<Rightarrow> State_Monad.return (Inl err)
          | Inr chunk \<Rightarrow>
              chunk_loop E url (drop maxChunk ids) (mergeResponses agg chunk first) False
        })"
  by pat_completeness auto
termination
  by (relation "measure (\<lambda>(_, _, ids, _, _). length ids)") auto

declare chunk_loop.simps [simp del]

definition Lookup ::
  "'w enrich_env \<Rightarrow> string \<Rightarrow> memo \<Rightarrow> string list
    \<Rightarrow> ('w, enrich_call, enrich_response result \<times> memo) prog" where
  "Lookup E url m cves =
     (if cves = [] then
        State_Monad.return
          (Inl (Plain ''cve enrichment: refusing to look up an empty CVE set''), m)
      else
        let ids = sort cves; key = memoKey E ids in
        do {
          hit \<leftarrow> (case map_of m key of
                    None \<Rightarrow> State_Monad.return None
                  | Some _ \<Rightarrow>
                      do { now \<leftarrow> operate (en_now E) EnrichNow;
                           State_Monad.return (memoGet m now key) });
          case hit of
            Some resp \<Rightarrow> State_Monad.return (Inr resp, m)
          | None \<Rightarrow>
              do {
                r \<leftarrow> chunk_loop E url ids empty_response True;
                case r of
                  Inl err \<Rightarrow> State_Monad.return (Inl err, m)
                | Inr agg \<Rightarrow>
                    if Usable agg then
                      do { now \<leftarrow> operate (en_now E) EnrichNow;
                           State_Monad.return (Inr agg, memoPut m now key agg) }
                    else State_Monad.return (Inr agg, m)
              }
        })"

text \<open>\<open>New\<close>: no enricher for a blank URL.\<close>

definition New_enricher :: "string \<Rightarrow> (string \<times> memo) option" where
  "New_enricher url = (if trim_space url = [] then None else Some (url, []))"

subsection \<open>Lemmas: chunks and merging\<close>

text \<open>The ids posted in a log and the answers that decoded.\<close>

fun posted :: "enrich_call list \<Rightarrow> string list" where
  "posted [] = []"
| "posted (HttpPost ids r # xs) = ids @ posted xs"
| "posted (EnrichNow t # xs) = posted xs"

fun answers :: "'w enrich_env \<Rightarrow> enrich_call list \<Rightarrow> enrich_response list" where
  "answers E [] = []"
| "answers E (HttpPost ids (Reply code raw) # xs) =
     (if code = 200 then (case en_decode E raw of Inl _ \<Rightarrow> [] | Inr out \<Rightarrow> [out]) else []) @ answers E xs"
| "answers E (HttpPost ids _ # xs) = answers E xs"
| "answers E (EnrichNow t # xs) = answers E xs"

definition post_ok :: "enrich_call \<Rightarrow> bool" where
  "post_ok c \<longleftrightarrow> (case c of HttpPost ids _ \<Rightarrow> ids \<noteq> [] \<and> length ids \<le> maxChunk | EnrichNow _ \<Rightarrow> True)"

lemma posted_append [simp]: "posted (xs @ ys) = posted xs @ posted ys"
  by (induction xs rule: posted.induct) auto

lemma answers_append [simp]: "answers E (xs @ ys) = answers E xs @ answers E ys"
  by (induction E xs rule: answers.induct) auto

fun merge_all :: "enrich_response \<Rightarrow> enrich_response list \<Rightarrow> bool \<Rightarrow> enrich_response" where
  "merge_all agg [] first = agg"
| "merge_all agg (c # cs) first = merge_all (mergeResponses agg c first) cs False"

definition chunk_post ::
  "'w enrich_env \<Rightarrow> string list \<Rightarrow> enrich_response \<Rightarrow> bool \<Rightarrow> enrich_response result \<Rightarrow> enrich_call list \<Rightarrow> bool" where
  "chunk_post E ids agg first r xs \<longleftrightarrow>
     (\<forall>c\<in>set xs. post_ok c \<and> (\<forall>t. c \<noteq> EnrichNow t))
     \<and> (case r of
          Inl _ \<Rightarrow> True
        | Inr out \<Rightarrow> posted xs = ids \<and> out = merge_all agg (answers E xs) first
                    \<and> length (answers E xs) = length xs)"

lemma post_chunk_spec:
  "ids \<noteq> [] \<Longrightarrow> length ids \<le> maxChunk \<Longrightarrow>
   ensures (post_chunk E url ids)
     (\<lambda>r xs. (\<exists>reply. xs = [HttpPost ids reply]) \<and> (\<forall>c\<in>set xs. post_ok c)
        \<and> (\<forall>out. r = Inr out \<longrightarrow> answers E xs = [out]))"
  unfolding post_chunk_def
  by (intro ens_rules) (auto simp: post_ok_def split: http_reply.splits sum.splits if_splits)

lemma chunk_loop_spec: "ensures (chunk_loop E url ids agg first) (chunk_post E ids agg first)"
proof (induction E url ids agg first rule: chunk_loop.induct)
  case (1 E url ids agg first)
  show ?case
  proof (cases "ids = []")
    case True
    then show ?thesis by (subst chunk_loop.simps) (auto simp: chunk_post_def intro!: ens_rules)
  next
    case False
    let ?hd = "take maxChunk ids"
    have "ensures (case r of Inl err \<Rightarrow> State_Monad.return (Inl err)
        | Inr chunk \<Rightarrow> chunk_loop E url (drop maxChunk ids) (mergeResponses agg chunk first) False)
        (\<lambda>r' ys. chunk_post E ids agg first r' (xs @ ys))"
      if x: "(\<exists>reply. xs = [HttpPost ?hd reply]) \<and> (\<forall>c\<in>set xs. post_ok c)
        \<and> (\<forall>out. r = Inr out \<longrightarrow> answers E xs = [out])" for r xs
    proof (cases r)
      case (Inl err)
      then show ?thesis using x by (auto simp: chunk_post_def intro!: ens_rules)
    next
      case (Inr chunk)
      have "ensures (chunk_loop E url (drop maxChunk ids) (mergeResponses agg chunk first) False)
          (\<lambda>r' ys. chunk_post E ids agg first r' (xs @ ys))"
        by (rule ens_weaken [OF "1.IH" [OF False]])
           (use x Inr in \<open>auto simp: chunk_post_def ball_Un split: sum.splits\<close>)
      then show ?thesis by (simp add: Inr)
    qed
    then show ?thesis using False
      by (subst chunk_loop.simps) (auto intro!: ens_bindI [OF post_chunk_spec])
  qed
qed

lemma Usable_merge:
  "Usable (mergeResponses agg c first) \<longleftrightarrow>
     Usable c \<and> (if first then \<not> er_stale agg else Usable agg)"
  by (cases "er_fetched c"; cases "er_fetched agg")
     (auto simp: Usable_def mergeResponses_def Let_def)

lemma Usable_merge_all:
  "Usable (merge_all agg cs False) \<longleftrightarrow> Usable agg \<and> (\<forall>c\<in>set cs. Usable c)"
  by (induction cs arbitrary: agg) (auto simp: Usable_merge)

lemma merge_sel:
  "er_results (mergeResponses agg c first) = er_results agg @ er_results c"
  "er_unknown (mergeResponses agg c first) = er_unknown agg @ er_unknown c"
  by (cases "er_fetched c"; cases "er_fetched agg"; simp add: mergeResponses_def Let_def)+

lemma merge_all_sel:
  "er_results (merge_all agg cs first) = er_results agg @ concat (map er_results cs)"
  "er_unknown (merge_all agg cs first) = er_unknown agg @ concat (map er_unknown cs)"
  by (induction cs arbitrary: agg first) (simp_all add: merge_sel)

lemma Usable_merge_first:
  "cs \<noteq> [] \<Longrightarrow> Usable (merge_all empty_response cs True) \<longleftrightarrow> (\<forall>c\<in>set cs. Usable c)"
  by (cases cs) (auto simp: Usable_merge_all Usable_merge empty_response_def)

text \<open>
  The memo misses: there is no entry, and the clock is not read for one, or the entry is found older
  than its 15 minutes.
\<close>

definition missed :: "memo \<Rightarrow> string \<Rightarrow> enrich_call list \<Rightarrow> bool" where
  "missed m key xs \<longleftrightarrow>
     map_of m key = None \<or> (\<exists>t ys. xs = EnrichNow t # ys \<and> memoGet m t key = None)"

text \<open>What a lookup that missed the memo fetched: the ids were posted in bounded chunks, the answer is the
  merge of the replies.\<close>

definition merged :: "'w enrich_env \<Rightarrow> string list \<Rightarrow> enrich_response \<Rightarrow> enrich_call list \<Rightarrow> bool" where
  "merged E ids out xs \<longleftrightarrow> posted xs = ids \<and> (\<forall>c\<in>set xs. post_ok c) \<and> answers E xs \<noteq> []
     \<and> out = merge_all empty_response (answers E xs) True"

lemma merged_of_chunks:
  assumes "chunk_post E ids empty_response True (Inr out) ys" and "ids \<noteq> []"
    and "posted xs = []" and "answers E xs = []" and "\<forall>c\<in>set xs. post_ok c"
  shows "merged E ids out (xs @ ys)" and "merged E ids out (xs @ ys @ [EnrichNow t])"
proof -
  note c = assms(1) [unfolded chunk_post_def sum.case]
  have "ys \<noteq> []" using c assms(2) by auto
  then have "answers E ys \<noteq> []" using c by auto
  moreover have "\<forall>c\<in>set (xs @ ys). post_ok c" using c assms(5) by auto
  ultimately show "merged E ids out (xs @ ys)" "merged E ids out (xs @ ys @ [EnrichNow t])"
    using c assms(3,4) by (simp_all add: merged_def post_ok_def)
qed

lemma Lookup_cases:
  assumes "cves \<noteq> []"
  shows "ensures (Lookup E url m cves)
    (\<lambda>(r, m') xs.
       (case r of
          Inl _ \<Rightarrow> m' = m
        | Inr out \<Rightarrow>
            (\<exists>t. xs = [EnrichNow t] \<and> memoGet m t (memoKey E (sort cves)) = Some out \<and> m' = m)
            \<or> (missed m (memoKey E (sort cves)) xs \<and> merged E (sort cves) out xs
               \<and> (if Usable out then \<exists>t. last xs = EnrichNow t \<and> m' = memoPut m t (memoKey E (sort cves)) out
                  else m' = m))))"
proof -
  let ?key = "memoKey E (sort cves)"
  have hit: "ensures (case map_of m ?key of
        None \<Rightarrow> State_Monad.return None
      | Some _ \<Rightarrow> do { now \<leftarrow> operate (en_now E) EnrichNow; State_Monad.return (memoGet m now ?key) })
      (\<lambda>hit xs. (map_of m ?key = None \<and> xs = [] \<or> (\<exists>t. xs = [EnrichNow t] \<and> memoGet m t ?key = hit))
         \<and> (\<forall>resp. hit = Some resp \<longrightarrow> (\<exists>t. xs = [EnrichNow t] \<and> memoGet m t ?key = Some resp)))"
    by (cases "map_of m ?key") (auto intro!: ens_rules)
  have ne: "sort cves \<noteq> []" using assms by (metis length_0_conv length_sort)
  have miss: "missed m ?key (xs @ ys) \<and> merged E (sort cves) out (xs @ ys)
      \<and> merged E (sort cves) out (xs @ ys @ [EnrichNow t]) \<and> missed m ?key (xs @ ys @ [EnrichNow t])"
    if "map_of m ?key = None \<and> xs = [] \<or> (\<exists>t. xs = [EnrichNow t] \<and> memoGet m t ?key = None)"
      and "chunk_post E (sort cves) empty_response True (Inr out) ys" for out xs ys t
    using that(1) merged_of_chunks [OF that(2) ne, of xs] by (auto simp: missed_def post_ok_def)
  show ?thesis
    unfolding Lookup_def Let_def
    apply (simp only: assms if_False)
    apply (rule ens_bindI [OF hit])
    subgoal for h xs
      apply (cases h)
       apply (simp only: option.case)
       apply (rule ens_bindI [OF chunk_loop_spec])
      subgoal for r ys
        using miss [of xs _ ys] by (cases r) (auto intro!: ens_rules)
      by (auto intro!: ens_rules)
    done
qed

lemma merged_sel:
  assumes "merged E ids out xs"
  shows "er_results out = concat (map er_results (answers E xs))"
    and "Usable out \<longleftrightarrow> (\<forall>a\<in>set (answers E xs). Usable a)"
  using assms Usable_merge_first by (auto simp: merged_def merge_all_sel empty_response_def)

subsection \<open>The memo implements the cache contract\<close>

definition memo_inv :: "memo \<Rightarrow> bool" where
  "memo_inv m \<longleftrightarrow> distinct (map fst m) \<and> length m \<le> memoMax \<and> (\<forall>(k, e)\<in>set m. Usable (me_resp e))"

definition memo_fresh :: "instant \<Rightarrow> instant \<Rightarrow> bool" where
  "memo_fresh t now \<longleftrightarrow> time_sub now t \<le> memoTTL"

lemma map_of_filter_Some:
  "distinct (map fst m) \<Longrightarrow> map_of (filter P m) k = Some v \<Longrightarrow> map_of m k = Some v"
  by (meson map_of_SomeD map_of_is_SomeI mem_Collect_eq set_filter filter_is_subset subsetD)

lemma memoPut_inv:
  assumes "memo_inv m" and "Usable r"
  shows "memo_inv (memoPut m t k r)"
proof -
  define m1 where "m1 = filter (\<lambda>(k, v). \<not> time_sub t (me_at v) > memoTTL) m"
  define m2 where "m2 = (if length m1 \<ge> memoMax then [] else m1)"
  have m1: "distinct (map fst m1)" "set m1 \<subseteq> set m"
    using assms(1) by (auto simp: m1_def memo_inv_def distinct_map_filter)
  have m2: "distinct (map fst m2)" "set m2 \<subseteq> set m" "length m2 < memoMax"
    using m1 by (auto simp: m2_def)
  have "memoPut m t k r = (k, \<lparr>me_resp = r, me_at = t\<rparr>) # filter (\<lambda>(k', v). k' \<noteq> k) m2"
    by (simp add: memoPut_def m2_def m1_def Let_def)
  moreover have "length (filter (\<lambda>(k', v). k' \<noteq> k) m2) < memoMax"
    using m2(3) length_filter_le [of "\<lambda>(k', v). k' \<noteq> k" m2] by linarith
  moreover have "distinct (map fst (filter (\<lambda>(k', v). k' \<noteq> k) m2))"
    using m2(1) by (rule distinct_map_filter)
  moreover have "k \<notin> fst ` set (filter (\<lambda>(k', v). k' \<noteq> k) m2)" by auto
  moreover have "\<forall>(k, e)\<in>set m2. Usable (me_resp e)" using m2(2) assms(1) by (auto simp: memo_inv_def)
  ultimately show ?thesis using assms(2) by (auto simp: memo_inv_def)
qed

lemma memoGet_put_other:
  assumes "memo_inv m" and "k' \<noteq> k" and "memoGet (memoPut m t k r) t' k' = Some v"
  shows "memoGet m t' k' = Some v"
proof -
  have d: "distinct (map fst m)" using assms(1) by (simp add: memo_inv_def)
  from assms(2,3) obtain e where
    e: "map_of (filter (\<lambda>(k', v). k' \<noteq> k)
          (if length (filter (\<lambda>(k, v). \<not> time_sub t (me_at v) > memoTTL) m) \<ge> memoMax then []
           else filter (\<lambda>(k, v). \<not> time_sub t (me_at v) > memoTTL) m)) k' = Some e"
      and ev: "\<not> time_sub t' (me_at e) > memoTTL" "v = me_resp e"
    by (auto simp: memoGet_def memoPut_def Let_def split: option.splits if_splits)
  have "map_of m k' = Some e"
  proof (cases "length (filter (\<lambda>(k, v). \<not> time_sub t (me_at v) > memoTTL) m) \<ge> memoMax")
    case True
    with e show ?thesis by simp
  next
    case False
    with e have "map_of (filter (\<lambda>(k', v). k' \<noteq> k)
        (filter (\<lambda>(k, v). \<not> time_sub t (me_at v) > memoTTL) m)) k' = Some e" by simp
    then show ?thesis
      using map_of_filter_Some [OF distinct_map_filter [OF d]] map_of_filter_Some [OF d] by blast
  qed
  then show ?thesis using ev by (simp add: memoGet_def)
qed

interpretation memo: ttl_cache memoGet memoPut "[]" memo_inv memo_fresh Usable
proof unfold_locales
  show "memo_inv []" by (simp add: memo_inv_def)
  show "memoGet [] t k = None" for t k by (simp add: memoGet_def)
  show "memo_inv m \<Longrightarrow> Usable v \<Longrightarrow> memo_inv (memoPut m t k v)" for m v t k by (rule memoPut_inv)
  show "memo_inv m \<Longrightarrow> memoGet (memoPut m t k v) t' k = (if memo_fresh t t' then Some v else None)"
    for m t k v t' by (auto simp: memoGet_def memoPut_def memo_fresh_def Let_def)
  show "memo_inv m \<Longrightarrow> k' \<noteq> k \<Longrightarrow> memoGet (memoPut m t k v) t' k' = Some v' \<Longrightarrow> memoGet m t' k' = Some v'"
    for m k' k t v t' v' by (rule memoGet_put_other)
qed

subsection \<open>Properties\<close>

text \<open>C30 A successful enrichment either repeats the answer its memo holds under the id set at the time it
  read the clock, and changes nothing; or it missed the memo, which held no entry or one older than 15
  minutes, and posted exactly the sorted CVE ids, in non-empty chunks of at most 200: then its results are
  the chunks' results in order, it is usable exactly when every chunk's answer is, and the memo stores
  it under this id set exactly if it is usable.\<close>

theorem lookup_trusts_worst_chunk:
  assumes "cves \<noteq> []" and "run_in (Lookup E url m cves) w = ((Inr out, m'), xs)"
  shows "(\<exists>t. xs = [EnrichNow t] \<and> memoGet m t (memoKey E (sort cves)) = Some out \<and> m' = m)
    \<or> missed m (memoKey E (sort cves)) xs
      \<and> posted xs = sort cves
      \<and> (\<forall>ids r. HttpPost ids r \<in> set xs \<longrightarrow> ids \<noteq> [] \<and> length ids \<le> 200)
      \<and> er_results out = concat (map er_results (answers E xs))
      \<and> (Usable out \<longleftrightarrow> (\<forall>a\<in>set (answers E xs). Usable a))
      \<and> (if Usable out then \<exists>t. last xs = EnrichNow t \<and> m' = memoPut m t (memoKey E (sort cves)) out else m' = m)"
proof -
  let ?key = "memoKey E (sort cves)"
  from ens_run_in [OF Lookup_cases [OF assms(1)] assms(2)] consider
    t where "xs = [EnrichNow t]" "memoGet m t ?key = Some out" "m' = m"
    | "missed m ?key xs" "merged E (sort cves) out xs"
      "if Usable out then \<exists>t. last xs = EnrichNow t \<and> m' = memoPut m t ?key out else m' = m" by auto
  then show ?thesis
  proof cases
    case 2
    have "ids \<noteq> [] \<and> length ids \<le> 200" if "HttpPost ids r \<in> set xs" for ids r
      using 2(2) that by (auto simp: merged_def post_ok_def)
    with 2 merged_sel [OF 2(2)] show ?thesis by (auto simp: merged_def)
  qed blast
qed

text \<open>An endpoint that answers every request with one fixed response.\<close>

definition enrich_demo :: "enrich_response \<Rightarrow> unit enrich_env" where
  "enrich_demo r = \<lparr>en_http = (\<lambda>url body w. (Reply 200 [], w)), en_encode = concat,
     en_decode = (\<lambda>_. Inr r), en_sha256 = (\<lambda>s. s), en_now = (\<lambda>w. (0, w))\<rparr>"

lemma enrich_demo_run:
  "run_in (Lookup (enrich_demo (empty_response\<lparr>er_kev_total := 5\<rparr>)) ''u'' [] [''CVE-2'', ''CVE-1'']) () =
     ((Inr (empty_response\<lparr>er_kev_total := 5\<rparr>),
       memoPut [] 0 ''CVE-1,CVE-2'' (empty_response\<lparr>er_kev_total := 5\<rparr>)),
      [HttpPost [''CVE-1'', ''CVE-2''] (Reply 200 []), EnrichNow 0])"
  by code_simp

theorem lookup_trusts_worst_chunk_witness:
  "posted [HttpPost [''CVE-1'', ''CVE-2''] (Reply 200 []), EnrichNow 0] = sort [''CVE-2'', ''CVE-1'']
   \<and> Usable (empty_response\<lparr>er_kev_total := 5\<rparr>)"
  using lookup_trusts_worst_chunk [OF _ enrich_demo_run]
  by (simp add: enrich_demo_def Usable_def empty_response_def)

subsection \<open>The memo over a history of lookups\<close>

text \<open>The memo of a client, and the lookups that filled it: the ids asked, the answer, the calls made.\<close>

inductive memo_after ::
  "'w enrich_env \<Rightarrow> string \<Rightarrow> (string list \<times> enrich_response result \<times> enrich_call list) list \<Rightarrow> memo \<Rightarrow> bool"
  for E url where
    start: "memo_after E url [] []"
  | asked: "memo_after E url hist m \<Longrightarrow> run_in (Lookup E url m cves) w = ((r, m'), xs) \<Longrightarrow>
      memo_after E url (hist @ [(cves, r, xs)]) m'"

lemma Lookup_empty:
  assumes "run_in (Lookup E url m []) w = ((r, m'), xs)"
  shows "r \<noteq> Inr out" and "m' = m"
  using assms by (auto simp: Lookup_def run_in_def)

definition stored_by ::
  "'w enrich_env \<Rightarrow> (string list \<times> enrich_response result \<times> enrich_call list) list \<Rightarrow> instant \<times> string \<times> enrich_response \<Rightarrow> bool"
where
  "stored_by E hist = (\<lambda>(t, k, v). Usable v \<and> (\<exists>cves xs. (cves, Inr v, xs) \<in> set hist \<and> cves \<noteq> []
      \<and> k = memoKey E (sort cves) \<and> merged E (sort cves) v xs \<and> last xs = EnrichNow t))"

lemma stored_by_more: "stored_by E hist s \<Longrightarrow> stored_by E (hist @ h) s"
  by (cases s) (auto simp: stored_by_def)

lemma memo_after_writes:
  "memo_after E url hist m \<Longrightarrow>
     \<exists>writes. m = foldl (\<lambda>m (t, k, v). memoPut m t k v) [] writes \<and> (\<forall>s\<in>set writes. stored_by E hist s)"
proof (induction rule: memo_after.induct)
  case (asked hist m cves w r m' xs)
  then obtain writes where i: "m = foldl (\<lambda>m (t, k, v). memoPut m t k v) [] writes" "\<forall>s\<in>set writes. stored_by E hist s"
    by blast
  have same: ?case if "m' = m" using i stored_by_more that by blast
  show ?case
  proof (cases "cves = []")
    case True
    have "m' = m" by (rule Lookup_empty(2) [OF asked.hyps(2) [unfolded True]])
    then show ?thesis by (rule same)
  next
    case ne: False
    note l = ens_run_in [OF Lookup_cases [OF ne] asked.hyps(2)]
    show ?thesis
    proof (cases r)
      case (Inl e)
      then show ?thesis using l same by simp
    next
      case (Inr out)
      show ?thesis
      proof (cases "m' = m")
        case False
        then obtain t where t: "merged E (sort cves) out xs" "Usable out" "last xs = EnrichNow t"
          "m' = memoPut m t (memoKey E (sort cves)) out" using l unfolding Inr by (simp split: if_splits) blast
        let ?s = "(t, memoKey E (sort cves), out)"
        have "stored_by E (hist @ [(cves, r, xs)]) ?s"
          using t(1-3) ne by (auto simp: stored_by_def Inr)
        moreover have "\<forall>s\<in>set writes. stored_by E (hist @ [(cves, r, xs)]) s"
          using i(2) by (intro ballI stored_by_more) blast
        ultimately show ?thesis
          by (intro exI [of _ "writes @ [?s]"]) (simp add: i(1) t(4) del: split_paired_All)
      qed (rule same)
    qed
  qed
qed (rule exI [of _ "[]"], simp)

definition comma_free :: "string list \<Rightarrow> bool" where
  "comma_free ids \<longleftrightarrow> list_all (\<lambda>i. CHR '','' \<notin> set i) ids"

lemma join_inj:
  assumes "xs \<noteq> []" and "ys \<noteq> []" and "comma_free xs" and "comma_free ys" and "join_with '','' xs = join_with '','' ys"
  shows "xs = ys"
  using assms
proof (induction xs arbitrary: ys)
  case (Cons x xs)
  then obtain y ys' where ys: "ys = y # ys'" by (cases ys) simp_all
  have cut: "takeWhile (\<lambda>c. c \<noteq> CHR '','') (join_with '','' (z # zs)) = z
      \<and> dropWhile (\<lambda>c. c \<noteq> CHR '','') (join_with '','' (z # zs)) = (if zs = [] then [] else CHR '','' # join_with '','' zs)"
    if "CHR '','' \<notin> set z" for z and zs :: "string list"
    using that by (cases zs) (auto simp: takeWhile_eq_all_conv dropWhile_eq_Nil_conv takeWhile_append dropWhile_append)
  have "CHR '','' \<notin> set x" "CHR '','' \<notin> set y" using Cons.prems(3,4) by (simp_all add: comma_free_def ys)
  from cut [OF this(1), of xs] cut [OF this(2), of ys'] Cons.prems(5)
  have "x = y" and t: "(if xs = [] then [] else CHR '','' # join_with '','' xs) = (if ys' = [] then [] else CHR '','' # join_with '','' ys')"
    by (simp_all only: ys)
  moreover have "xs = ys'"
  proof (cases "xs = []")
    case False
    then show ?thesis using Cons.IH [of ys'] t Cons.prems(3,4) by (auto simp: ys comma_free_def split: if_splits)
  qed (use t in \<open>simp split: if_splits\<close>)
  ultimately show ?case by (simp only: ys)
qed simp

lemma sort_comma_free [simp]: "comma_free (sort ids) = comma_free ids"
  by (simp add: comma_free_def list_all_iff)

lemma sort_nonempty [simp]: "sort ids = [] \<longleftrightarrow> ids = []" "[] = sort ids \<longleftrightarrow> ids = []"
  by (metis length_0_conv length_sort)+

text \<open>C31 The memo never invents: after any history of lookups it holds at most 128 entries, all usable, and a
  lookup that it answers without a request repeats what an earlier lookup of the very same ids fetched,
  usable, at most 15 minutes before. It is keyed by the SHA-256 of the ids joined by commas, so this
  rests on ids without a comma, as CVE ids are, and on no two of the id lists asked colliding under
  that hash.\<close>

theorem memo_never_invents:
  assumes "memo_after E url hist m"
  shows "memo_inv m \<and> length m \<le> 128
    \<and> (run_in (Lookup E url m cves) w = ((Inr out, m'), xs) \<longrightarrow> posted xs = []
       \<longrightarrow> list_all comma_free (cves # map fst hist)
       \<longrightarrow> inj_on (en_sha256 E) ((\<lambda>ids. join_with '','' (sort ids)) ` set (cves # map fst hist))
       \<longrightarrow> m' = m
         \<and> (\<exists>earlier ys t now. (earlier, Inr out, ys) \<in> set hist \<and> sort earlier = sort cves
              \<and> posted ys = sort cves \<and> Usable out
              \<and> xs = [EnrichNow now] \<and> last ys = EnrichNow t \<and> time_sub now t \<le> memoTTL))"
proof -
  obtain writes where m: "m = foldl (\<lambda>m (t, k, v). memoPut m t k v) [] writes" and s: "\<forall>s\<in>set writes. stored_by E hist s"
    using memo_after_writes [OF assms] by blast
  have u: "\<forall>(t, k, v)\<in>set writes. Usable v" using s by (auto simp: stored_by_def)
  have i: "memo_inv m" unfolding m by (rule memo.inv_history [OF u memo.inv_empty])
  have "m' = m \<and> (\<exists>earlier ys t now. (earlier, Inr out, ys) \<in> set hist \<and> sort earlier = sort cves
      \<and> posted ys = sort cves \<and> Usable out \<and> xs = [EnrichNow now] \<and> last ys = EnrichNow t \<and> time_sub now t \<le> memoTTL)"
    if r: "run_in (Lookup E url m cves) w = ((Inr out, m'), xs)" and p: "posted xs = []"
      and c: "list_all comma_free (cves # map fst hist)"
      and inj: "inj_on (en_sha256 E) ((\<lambda>ids. join_with '','' (sort ids)) ` set (cves # map fst hist))"
  proof -
    have ne: "cves \<noteq> []"
    proof
      assume "cves = []"
      from Lookup_empty(1) [OF r [unfolded this]] show False by blast
    qed
    from ens_run_in [OF Lookup_cases [OF ne] r] p ne obtain now where
      h: "xs = [EnrichNow now]" "memoGet m now (memoKey E (sort cves)) = Some out" "m' = m"
      by (auto simp: merged_def)
    obtain t where t: "(t, memoKey E (sort cves), out) \<in> set writes" "time_sub now t \<le> memoTTL"
      using memo.get_history [OF u h(2) [unfolded m]] unfolding memo_fresh_def by blast
    then obtain earlier ys where e: "(earlier, Inr out, ys) \<in> set hist" "earlier \<noteq> []" "Usable out"
      "memoKey E (sort cves) = memoKey E (sort earlier)" "merged E (sort earlier) out ys" "last ys = EnrichNow t"
      using bspec [OF s t(1)] unfolding stored_by_def prod.case by metis
    have in1: "earlier \<in> set (cves # map fst hist)" using e(1) by force
    have "join_with '','' (sort earlier) = join_with '','' (sort cves)"
      using inj_onD [OF inj _ imageI [OF in1] imageI [of cves]] e(4) by (simp add: memoKey_def)
    moreover have "comma_free earlier" "comma_free cves" using c in1 by (auto simp: list_all_iff)
    ultimately have "sort earlier = sort cves" using join_inj e(2) ne by simp
    with e h t show ?thesis by (auto simp: merged_def)
  qed
  with i show ?thesis by (simp add: memo_inv_def)
qed

lemma enrich_demo_again:
  "run_in (Lookup (enrich_demo (empty_response\<lparr>er_kev_total := 5\<rparr>)) ''u''
      (memoPut [] 0 ''CVE-1,CVE-2'' (empty_response\<lparr>er_kev_total := 5\<rparr>)) [''CVE-1'', ''CVE-2'']) () =
     ((Inr (empty_response\<lparr>er_kev_total := 5\<rparr>),
       memoPut [] 0 ''CVE-1,CVE-2'' (empty_response\<lparr>er_kev_total := 5\<rparr>)), [EnrichNow 0])"
  by code_simp

theorem memo_never_invents_witness:
  "\<exists>ids ys. (ids, Inr (empty_response\<lparr>er_kev_total := 5\<rparr>), ys) \<in> set [([''CVE-2'', ''CVE-1''],
        Inr (empty_response\<lparr>er_kev_total := 5\<rparr>) :: enrich_response result,
        [HttpPost [''CVE-1'', ''CVE-2''] (Reply 200 []), EnrichNow 0])]
     \<and> sort ids = sort [''CVE-1'', ''CVE-2''] \<and> last ys = EnrichNow 0 \<and> Usable (empty_response\<lparr>er_kev_total := 5\<rparr>)"
proof -
  let ?E = "enrich_demo (empty_response\<lparr>er_kev_total := 5\<rparr>)"
  have a: "memo_after ?E ''u'' ([] @ [([''CVE-2'', ''CVE-1''], Inr (empty_response\<lparr>er_kev_total := 5\<rparr>),
      [HttpPost [''CVE-1'', ''CVE-2''] (Reply 200 []), EnrichNow 0])])
      (memoPut [] 0 ''CVE-1,CVE-2'' (empty_response\<lparr>er_kev_total := 5\<rparr>))"
    by (rule memo_after.asked [OF memo_after.start enrich_demo_run])
  have "inj (en_sha256 ?E)" by (simp add: enrich_demo_def)
  then have "inj_on (en_sha256 ?E) A" for A by (rule inj_on_subset) simp
  from memo_never_invents [OF a, THEN conjunct2, THEN conjunct2, THEN mp, OF enrich_demo_again,
      THEN mp, THEN mp, THEN mp, OF _ _ this]
  show ?thesis by (auto simp: comma_free_def)
qed

end
