(* ===== verification/Api_PreviewCheck.thy ===== *)
theory Api_PreviewCheck
  imports Kube_Types
begin

section \<open>PreviewCheck: api/v1/previewcheck_types.go\<close>

text \<open>
  The PreviewCheck resource, its phases and reasons. A Go string type with an enumeration of
  constants is a datatype with one constructor per constant and one for the empty string;
  a check name outside the enumeration is \<open>CheckOther\<close>. A timestamp pointer is an option.
\<close>

datatype check_name = CheckReadiness | CheckHTTP | CheckTrivy | CheckSmoke | CheckOther string

fun check_text :: "check_name \<Rightarrow> string" where
  "check_text CheckReadiness = ''readiness''"
| "check_text CheckHTTP = ''http''"
| "check_text CheckTrivy = ''trivy''"
| "check_text CheckSmoke = ''smoke''"
| "check_text (CheckOther s) = s"

datatype pc_phase = NoPhase | PreviewCheckPending | PreviewCheckRunning | PreviewCheckPassed
  | PreviewCheckFailed | PreviewCheckExpired

fun pc_terminal :: "pc_phase \<Rightarrow> bool" where
  "pc_terminal PreviewCheckPassed = True"
| "pc_terminal PreviewCheckFailed = True"
| "pc_terminal PreviewCheckExpired = True"
| "pc_terminal _ = False"

datatype check_phase = NoCheckPhase | CheckPending | CheckRunning | CheckPassed | CheckFailed
  | CheckSkipped

fun check_terminal :: "check_phase \<Rightarrow> bool" where
  "check_terminal CheckPassed = True"
| "check_terminal CheckFailed = True"
| "check_terminal CheckSkipped = True"
| "check_terminal _ = False"

fun check_phase_text :: "check_phase \<Rightarrow> string" where
  "check_phase_text NoCheckPhase = []"
| "check_phase_text CheckPending = ''Pending''"
| "check_phase_text CheckRunning = ''Running''"
| "check_phase_text CheckPassed = ''Passed''"
| "check_phase_text CheckFailed = ''Failed''"
| "check_phase_text CheckSkipped = ''Skipped''"

datatype pc_reason = ReasonEmpty | ReasonPending | ReasonRunning | ReasonAllChecksPassed
  | ReasonKustomizationNotReady | ReasonRevisionMismatch | ReasonPodsNotReady
  | ReasonTargetUnresolved | ReasonUnexpectedStatus | ReasonProbeJobFailed | ReasonScanPending
  | ReasonScanMissing | ReasonKEVExceeded | ReasonEPSSExceeded | ReasonEnrichmentUnavailable
  | ReasonInvalidThreshold | ReasonNoSmokeTest | ReasonSmokeJobFailed | ReasonAppMismatch
  | ReasonNamespaceGone | ReasonQuotaExceeded | ReasonTimeout

fun reason_text :: "pc_reason \<Rightarrow> string" where
  "reason_text ReasonEmpty = []"
| "reason_text ReasonPending = ''Pending''"
| "reason_text ReasonRunning = ''Running''"
| "reason_text ReasonAllChecksPassed = ''AllChecksPassed''"
| "reason_text ReasonKustomizationNotReady = ''KustomizationNotReady''"
| "reason_text ReasonRevisionMismatch = ''RevisionMismatch''"
| "reason_text ReasonPodsNotReady = ''PodsNotReady''"
| "reason_text ReasonTargetUnresolved = ''TargetUnresolved''"
| "reason_text ReasonUnexpectedStatus = ''UnexpectedStatus''"
| "reason_text ReasonProbeJobFailed = ''ProbeJobFailed''"
| "reason_text ReasonScanPending = ''ScanPending''"
| "reason_text ReasonScanMissing = ''ScanMissing''"
| "reason_text ReasonKEVExceeded = ''KEVExceeded''"
| "reason_text ReasonEPSSExceeded = ''EPSSExceeded''"
| "reason_text ReasonEnrichmentUnavailable = ''EnrichmentUnavailable''"
| "reason_text ReasonInvalidThreshold = ''InvalidThreshold''"
| "reason_text ReasonNoSmokeTest = ''NoSmokeTest''"
| "reason_text ReasonSmokeJobFailed = ''SmokeJobFailed''"
| "reason_text ReasonAppMismatch = ''AppMismatch''"
| "reason_text ReasonNamespaceGone = ''NamespaceGone''"
| "reason_text ReasonQuotaExceeded = ''QuotaExceeded''"
| "reason_text ReasonTimeout = ''Timeout''"

definition ConditionSucceeded :: string where
  "ConditionSucceeded = ''Succeeded''"

record pc_thresholds =
  thr_kev_max :: "int option"
  thr_epss_max :: "int option"

record pc_spec_t =
  pcs_pr :: int
  pcs_app :: string
  pcs_image :: string
  pcs_revision :: string
  pcs_checks :: "check_name list"
  pcs_http_path :: string
  pcs_expect_status :: "int list"
  pcs_timeout :: int
  pcs_ttl :: int
  pcs_thresholds :: pc_thresholds

record check_result =
  cr_name :: check_name
  cr_phase :: check_phase
  cr_reason :: pc_reason
  cr_message :: string
  cr_started :: "instant option"
  cr_finished :: "instant option"
  cr_details :: smap

record pc_status_t =
  st_phase :: pc_phase
  st_message :: string
  st_checks :: "check_result list"
  st_namespace :: string
  st_host :: string
  st_image :: string
  st_started :: "instant option"
  st_completed :: "instant option"
  st_expires :: "instant option"
  st_observed_generation :: int
  st_conditions :: "condition list"

record preview_check =
  pc_name :: string
  pc_namespace :: string
  pc_uid :: string
  pc_generation :: int
  pc_deleting :: bool
  pc_finalizers :: "string list"
  pc_spec :: pc_spec_t
  pc_status :: pc_status_t

definition DefaultExpectStatus :: "int list" where
  "DefaultExpectStatus = [200, 201, 202, 203, 204, 301, 302, 303, 307, 308]"

definition Defaulted :: "pc_spec_t \<Rightarrow> pc_spec_t" where
  "Defaulted s =
     (let out = s;
          out = (if pcs_checks out = []
                 then out\<lparr>pcs_checks := [CheckReadiness, CheckHTTP, CheckTrivy, CheckSmoke]\<rparr> else out);
          out = (if pcs_http_path out = [] then out\<lparr>pcs_http_path := ''/''\<rparr> else out);
          out = (if pcs_expect_status out = []
                 then out\<lparr>pcs_expect_status := DefaultExpectStatus\<rparr> else out);
          out = (if pcs_timeout out \<le> 0 then out\<lparr>pcs_timeout := 1800\<rparr> else out);
          out = (if pcs_ttl out \<le> 0 then out\<lparr>pcs_ttl := 7200\<rparr> else out);
          thr = pcs_thresholds out;
          thr = (if thr_kev_max thr = None then thr\<lparr>thr_kev_max := Some 0\<rparr> else thr);
          thr = (if thr_epss_max thr = None then thr\<lparr>thr_epss_max := Some 500\<rparr> else thr)
      in out\<lparr>pcs_thresholds := thr\<rparr>)"

subsection \<open>Lemmas\<close>

lemma reason_text_inject [simp]: "reason_text r = reason_text r' \<longleftrightarrow> r = r'"
  by (cases r; cases r') simp_all

lemma Defaulted_sel [simp]:
  "pcs_pr (Defaulted s) = pcs_pr s" "pcs_app (Defaulted s) = pcs_app s"
  "pcs_image (Defaulted s) = pcs_image s" "pcs_revision (Defaulted s) = pcs_revision s"
  "pcs_checks (Defaulted s) =
     (if pcs_checks s = [] then [CheckReadiness, CheckHTTP, CheckTrivy, CheckSmoke] else pcs_checks s)"
  "pcs_http_path (Defaulted s) = (if pcs_http_path s = [] then ''/'' else pcs_http_path s)"
  "pcs_expect_status (Defaulted s) =
     (if pcs_expect_status s = [] then DefaultExpectStatus else pcs_expect_status s)"
  "pcs_timeout (Defaulted s) = (if pcs_timeout s \<le> 0 then 1800 else pcs_timeout s)"
  "pcs_ttl (Defaulted s) = (if pcs_ttl s \<le> 0 then 7200 else pcs_ttl s)"
  "thr_kev_max (pcs_thresholds (Defaulted s)) =
     Some (case thr_kev_max (pcs_thresholds s) of None \<Rightarrow> 0 | Some k \<Rightarrow> k)"
  "thr_epss_max (pcs_thresholds (Defaulted s)) =
     Some (case thr_epss_max (pcs_thresholds s) of None \<Rightarrow> 500 | Some k \<Rightarrow> k)"
  by (auto simp: Defaulted_def Let_def split: option.splits)

lemma Defaulted_idem: "Defaulted (Defaulted s) = Defaulted s"
proof -
  have "pcs_checks (Defaulted s) \<noteq> []" "pcs_http_path (Defaulted s) \<noteq> []"
    "pcs_expect_status (Defaulted s) \<noteq> []" "\<not> pcs_timeout (Defaulted s) \<le> 0"
    "\<not> pcs_ttl (Defaulted s) \<le> 0"
    by (simp_all add: DefaultExpectStatus_def)
  then show ?thesis
    by (subst Defaulted_def) (simp del: Defaulted_sel(5-9))
qed

end
