(* ===== verification/Api_PreviewConfig.thy ===== *)
theory Api_PreviewConfig
  imports Kube_Types
begin

section \<open>PreviewConfig: api/v1/previewconfig_types.go\<close>

text \<open>
  The per-application preview settings, read from the production namespace. A nil pointer to a
  sub-struct is \<open>None\<close>.
\<close>

record smoke_test =
  smk_image :: string
  smk_command :: "string list"
  smk_args :: "string list"
  smk_env :: smap
  smk_timeout :: int

record config_volume =
  cv_claim :: string
  cv_snapshot_class :: string

record deployment_patch =
  dp_containers :: "string list"
  dp_init_containers :: "string list"

datatype deployment_type = DeploymentTypeEmpty | DeploymentTypeDeployment | DeploymentTypeHelm

record storage_config =
  sto_enabled :: bool
  sto_bucket :: string

record env_mapping =
  em_container_names :: "string list"
  em_database_host :: string
  em_database_name :: string
  em_database_user :: string
  em_database_password :: string
  em_redis_host :: string
  em_redis_port :: string
  em_s3_endpoint :: string
  em_s3_access_key :: string
  em_s3_secret_key :: string
  em_s3_bucket :: string
  em_s3_region :: string
  em_oidc_client_id :: string
  em_oidc_client_secret :: string
  em_oidc_redirect_uri :: string
  em_app_url :: string
  em_extra_env :: smap

record helm_mapping =
  hm_database_host :: string
  hm_database_name :: string
  hm_database_user :: string
  hm_database_password :: string
  hm_redis_host :: string
  hm_redis_port :: string
  hm_s3_endpoint :: string
  hm_s3_access_key :: string
  hm_s3_secret_key :: string
  hm_s3_bucket :: string
  hm_oidc_client_id :: string
  hm_oidc_client_secret :: string
  hm_app_url :: string
  hm_extra_values :: smap

record preview_config =
  cfg_deployment_type :: deployment_type
  cfg_redis :: "bool option"
  cfg_storage :: "storage_config option"
  cfg_env_mapping :: "env_mapping option"
  cfg_helm_values :: "helm_mapping option"
  cfg_shared_services :: "string list"
  cfg_config_volume :: "config_volume option"
  cfg_deployment_patch :: "deployment_patch option"
  cfg_smoke_test :: "smoke_test option"

end
