(* ===== verification/Klib.thy ===== *)
theory Klib
  imports Errors
begin

section \<open>Third-party helpers the controllers call\<close>

text \<open>
  The helpers of \<open>k8s.io/apimachinery\<close> and \<open>controller-runtime\<close> are not part of the repository:
  they are the fields of \<open>klib\<close>, a parameter of every definition that calls them. An
  unstructured object is a JSON value; its \<open>Nested*\<close> accessors are parameters too (a slice
  accessor is \<open>None\<close> when it reports an error or that nothing was found; a string or number
  accessor whose error the code ignores returns the zero value).
\<close>

datatype json = JNull | JBool bool | JInt int | JFloat string | JStr string | JArr "json list"
  | JObj "(string \<times> json) list"

definition json_is_map :: "json \<Rightarrow> bool" where
  "json_is_map j = (case j of JObj _ \<Rightarrow> True | _ \<Rightarrow> False)"

record klib =
  lib_nested_slice :: "json \<Rightarrow> string list \<Rightarrow> json list option"
  lib_nested_string :: "json \<Rightarrow> string list \<Rightarrow> string"
  lib_nested_int64 :: "json \<Rightarrow> string list \<Rightarrow> int"
  lib_find_condition :: "condition list \<Rightarrow> string \<Rightarrow> condition option"
  lib_set_condition :: "condition list \<Rightarrow> condition \<Rightarrow> condition list"
  lib_contains_finalizer :: "string list \<Rightarrow> string \<Rightarrow> bool"
  lib_add_finalizer :: "string list \<Rightarrow> string \<Rightarrow> string list"
  lib_remove_finalizer :: "string list \<Rightarrow> string \<Rightarrow> string list"
  lib_rfc3339 :: "instant option \<Rightarrow> string"
  lib_nested_bool :: "json \<Rightarrow> string list \<Rightarrow> bool"
  lib_nested_map :: "json \<Rightarrow> string list \<Rightarrow> (string \<times> json) list option"
  lib_set_nested_map :: "json \<Rightarrow> (string \<times> json) list \<Rightarrow> string list \<Rightarrow> json result"

text \<open>The Kustomization fields the operator reads.\<close>

record kustomization =
  ks_name :: string
  ks_namespace :: string
  ks_annotations :: smap
  ks_generation :: int
  ks_suspend :: bool
  ks_observed_generation :: int
  ks_last_applied :: string
  ks_conditions :: "condition list"

text \<open>Label and annotation keys shared by the controllers (kustomization_controller.go).\<close>

definition PreviewEnvironmentLabel :: string where
  "PreviewEnvironmentLabel = ''preview-environment''"

definition CredentialsPatchedAnnotation :: string where
  "CredentialsPatchedAnnotation = ''preview.homelab.io/credentials-patched''"

text \<open>A concrete instance, used to evaluate the controllers on examples.\<close>

fun json_path :: "json \<Rightarrow> string list \<Rightarrow> json option" where
  "json_path j [] = Some j"
| "json_path j (k # ks) =
     (case j of
        JObj fs \<Rightarrow> (case map_of fs k of Some v \<Rightarrow> json_path v ks | None \<Rightarrow> None)
      | _ \<Rightarrow> None)"

definition klib_demo :: klib where
  "klib_demo =
     \<lparr>lib_nested_slice = (\<lambda>j p. case json_path j p of Some (JArr xs) \<Rightarrow> Some xs | _ \<Rightarrow> None),
      lib_nested_string = (\<lambda>j p. case json_path j p of Some (JStr s) \<Rightarrow> s | _ \<Rightarrow> []),
      lib_nested_int64 = (\<lambda>j p. case json_path j p of Some (JInt i) \<Rightarrow> i | _ \<Rightarrow> 0),
      lib_find_condition = (\<lambda>cs t. List.find (\<lambda>c. cond_type c = t) cs),
      lib_set_condition = (\<lambda>cs c. filter (\<lambda>d. cond_type d \<noteq> cond_type c) cs @ [c]),
      lib_contains_finalizer = (\<lambda>fs f. f \<in> set fs),
      lib_add_finalizer = (\<lambda>fs f. if f \<in> set fs then fs else fs @ [f]),
      lib_remove_finalizer = (\<lambda>fs f. filter (\<lambda>g. g \<noteq> f) fs),
      lib_rfc3339 = (\<lambda>t. case t of None \<Rightarrow> ''0001-01-01T00:00:00Z'' | Some n \<Rightarrow> itoa n),
      lib_nested_bool = (\<lambda>j p. case json_path j p of Some (JBool b) \<Rightarrow> b | _ \<Rightarrow> False),
      lib_nested_map = (\<lambda>j p. case json_path j p of Some (JObj fs) \<Rightarrow> Some fs | _ \<Rightarrow> None),
      lib_set_nested_map = (\<lambda>j fs p.
        case (j, p) of
          (JObj old, [k]) \<Rightarrow> Inr (JObj ((k, JObj fs) # filter (\<lambda>e. fst e \<noteq> k) old))
        | _ \<Rightarrow> Inl (Plain ''value cannot be set''))\<rparr>"

end
