(* ===== verification/Preview_Api.thy ===== *)
theory Preview_Api
  imports Api_PreviewCheck Api_PreviewConfig Enrichment Klib
begin

section \<open>What the PreviewCheck reconciler calls\<close>

text \<open>
  \<open>preview_api\<close> holds the client operations, the clock, the log reader and the enricher of
  \<open>PreviewCheckReconciler\<close>, as functions of the world; \<open>preview_call\<close> is the entry each leaves
  in the call log, with the request and the answer. A write returns the object as the server
  stored it, which the Go client decodes back into the caller's object. A nil \<open>Logs\<close> or
  \<open>Enricher\<close> is \<open>None\<close>.
\<close>

datatype propagation = PropagationBackground

datatype event_kind = EventNormal | EventWarning

datatype preview_call =
    GetPC string string "preview_check result"
  | UpdatePC preview_check "preview_check result"
  | UpdateStatus preview_check "preview_check result"
  | DeletePC preview_check "goerr option"
  | GetNamespace string "namespace result"
  | GetKustomization string string "kustomization result"
  | GetRoute string string "json result"
  | GetConfig string string "preview_config result"
  | GetJob string string "job result"
  | CreateJob job "job result"
  | DeleteJob job propagation "goerr option"
  | ListJobs string string string "job list result"
  | ListDeployments string "workload list result"
  | ListStatefulSets string "workload list result"
  | ListServices string "service list result"
  | ListReports string "json list result"
  | Now instant
  | TailLogs string string int "string result"
  | Enrich "string list" "enrich_response result"
  | Event event_kind string string
  | CountCheck string string string
  | CountVerdict string pc_phase pc_reason
  | ObserveDuration string duration

record 'w preview_api =
  api_lib :: klib
  api_get_pc :: "string \<Rightarrow> string \<Rightarrow> 'w \<Rightarrow> preview_check result \<times> 'w"
  api_update_pc :: "preview_check \<Rightarrow> 'w \<Rightarrow> preview_check result \<times> 'w"
  api_update_status :: "preview_check \<Rightarrow> 'w \<Rightarrow> preview_check result \<times> 'w"
  api_delete_pc :: "preview_check \<Rightarrow> 'w \<Rightarrow> goerr option \<times> 'w"
  api_get_namespace :: "string \<Rightarrow> 'w \<Rightarrow> namespace result \<times> 'w"
  api_get_kustomization :: "string \<Rightarrow> string \<Rightarrow> 'w \<Rightarrow> kustomization result \<times> 'w"
  api_get_route :: "string \<Rightarrow> string \<Rightarrow> 'w \<Rightarrow> json result \<times> 'w"
  api_get_config :: "string \<Rightarrow> string \<Rightarrow> 'w \<Rightarrow> preview_config result \<times> 'w"
  api_get_job :: "string \<Rightarrow> string \<Rightarrow> 'w \<Rightarrow> job result \<times> 'w"
  api_create_job :: "job \<Rightarrow> 'w \<Rightarrow> job result \<times> 'w"
  api_delete_job :: "job \<Rightarrow> propagation \<Rightarrow> 'w \<Rightarrow> goerr option \<times> 'w"
  api_list_jobs :: "string \<Rightarrow> string \<Rightarrow> string \<Rightarrow> 'w \<Rightarrow> job list result \<times> 'w"
  api_list_deployments :: "string \<Rightarrow> 'w \<Rightarrow> workload list result \<times> 'w"
  api_list_statefulsets :: "string \<Rightarrow> 'w \<Rightarrow> workload list result \<times> 'w"
  api_list_services :: "string \<Rightarrow> 'w \<Rightarrow> service list result \<times> 'w"
  api_list_reports :: "string \<Rightarrow> 'w \<Rightarrow> json list result \<times> 'w"
  api_now :: "'w \<Rightarrow> instant \<times> 'w"
  api_tail_logs :: "(string \<Rightarrow> string \<Rightarrow> int \<Rightarrow> 'w \<Rightarrow> string result \<times> 'w) option"
  api_enricher :: "(string list \<Rightarrow> 'w \<Rightarrow> enrich_response result \<times> 'w) option"
  api_recorder :: bool

type_synonym ('w, 'a) pprog = "('w, preview_call, 'a) prog"

record pc_config =
  cf_preview_domain :: string
  cf_probe_image :: string

record check_env =
  ce_now :: instant
  ce_elapsed :: duration
  ce_past_deadline :: bool
  ce_pr :: int
  ce_ns_name :: string
  ce_id :: string
  ce_ns :: "namespace option"
  ce_app :: string

record check_step =
  stp_phase :: check_phase
  stp_reason :: pc_reason
  stp_message :: string
  stp_details :: smap
  stp_requeue :: duration
  stp_cr_phase :: pc_phase

definition step_of :: "check_phase \<Rightarrow> pc_reason \<Rightarrow> string \<Rightarrow> check_step" where
  "step_of phase reason message =
     \<lparr>stp_phase = phase, stp_reason = reason, stp_message = message, stp_details = [],
      stp_requeue = 0, stp_cr_phase = NoPhase\<rparr>"

text \<open>The entries that change nothing outside: reads, the clock, the enrichment request.\<close>

fun is_read :: "preview_call \<Rightarrow> bool" where
  "is_read (UpdatePC _ _) = False"
| "is_read (UpdateStatus _ _) = False"
| "is_read (DeletePC _ _) = False"
| "is_read (CreateJob _ _) = False"
| "is_read (DeleteJob _ _ _) = False"
| "is_read (Event _ _ _) = False"
| "is_read (CountCheck _ _ _) = False"
| "is_read (CountVerdict _ _ _) = False"
| "is_read (ObserveDuration _ _) = False"
| "is_read _ = True"

abbreviation reads :: "preview_call list \<Rightarrow> bool" where
  "reads xs \<equiv> list_all is_read xs"

subsection \<open>A small server to evaluate the reconciler on\<close>

text \<open>
  A world that answers every read from its own fields and stores what is written; used by the
  concrete examples.
\<close>

record preview_world =
  pw_pc :: "preview_check result"
  pw_namespace :: "namespace result"
  pw_kustomization :: "kustomization result"
  pw_route :: "json result"
  pw_config :: "preview_config result"
  pw_job :: "job result"
  pw_deployments :: "workload list"
  pw_services :: "service list"
  pw_reports :: "json list"
  pw_answer :: "enrich_response result"
  pw_now :: instant

definition not_found :: goerr where
  "not_found = ApiErr RNotFound [] ''not found''"

definition world_demo :: preview_world where
  "world_demo = \<lparr>pw_pc = Inl not_found, pw_namespace = Inl not_found, pw_kustomization = Inl not_found,
     pw_route = Inl not_found, pw_config = Inl not_found, pw_job = Inl not_found, pw_deployments = [],
     pw_services = [], pw_reports = [], pw_answer = Inl not_found, pw_now = 0\<rparr>"

definition api_demo :: "preview_world preview_api" where
  "api_demo =
     \<lparr>api_lib = klib_demo,
      api_get_pc = (\<lambda>ns n w. (pw_pc w, w)),
      api_update_pc = (\<lambda>pc w. (Inr pc, w\<lparr>pw_pc := Inr pc\<rparr>)),
      api_update_status = (\<lambda>pc w. (Inr pc, w\<lparr>pw_pc := Inr pc\<rparr>)),
      api_delete_pc = (\<lambda>pc w. (None, w)),
      api_get_namespace = (\<lambda>n w. (pw_namespace w, w)),
      api_get_kustomization = (\<lambda>ns n w. (pw_kustomization w, w)),
      api_get_route = (\<lambda>ns n w. (pw_route w, w)),
      api_get_config = (\<lambda>ns n w. (pw_config w, w)),
      api_get_job = (\<lambda>ns n w. (pw_job w, w)),
      api_create_job = (\<lambda>j w. (Inr j, w)),
      api_delete_job = (\<lambda>j p w. (None, w)),
      api_list_jobs = (\<lambda>ns k v w. (Inr (case pw_job w of Inl _ \<Rightarrow> [] | Inr j \<Rightarrow> [j]), w)),
      api_list_deployments = (\<lambda>ns w. (Inr (pw_deployments w), w)),
      api_list_statefulsets = (\<lambda>ns w. (Inr [], w)),
      api_list_services = (\<lambda>ns w. (Inr (pw_services w), w)),
      api_list_reports = (\<lambda>ns w. (Inr (pw_reports w), w)),
      api_now = (\<lambda>w. (pw_now w, w)),
      api_tail_logs = None,
      api_enricher = Some (\<lambda>cves w. (pw_answer w, w)),
      api_recorder = True\<rparr>"

definition spec_demo :: pc_spec_t where
  "spec_demo = \<lparr>pcs_pr = 7, pcs_app = [], pcs_image = ''ghcr.io/o/app:1'', pcs_revision = [],
     pcs_checks = [], pcs_http_path = [], pcs_expect_status = [], pcs_timeout = 0, pcs_ttl = 0,
     pcs_thresholds = \<lparr>thr_kev_max = None, thr_epss_max = None\<rparr>\<rparr>"

definition status_demo :: pc_status_t where
  "status_demo = \<lparr>st_phase = NoPhase, st_message = [], st_checks = [], st_namespace = [], st_host = [],
     st_image = [], st_started = None, st_completed = None, st_expires = None,
     st_observed_generation = 0, st_conditions = []\<rparr>"

definition pc_demo :: preview_check where
  "pc_demo = \<lparr>pc_name = ''pc'', pc_namespace = ''preview-check'', pc_uid = ''u-1'', pc_generation = 1,
     pc_deleting = False, pc_finalizers = [''preview.homelab.io/preview-check''],
     pc_spec = spec_demo, pc_status = status_demo\<rparr>"

definition ns_demo :: namespace where
  "ns_demo = \<lparr>ns_name = ''preview-pr-7'', ns_deleting = False,
     ns_labels = [(''preview-environment'', ''true''), (''preview-app'', ''app'')], ns_annotations = []\<rparr>"

definition env_demo :: check_env where
  "env_demo = \<lparr>ce_now = 0, ce_elapsed = 0, ce_past_deadline = False, ce_pr = 7,
     ce_ns_name = ''preview-pr-7'', ce_id = ''u1'', ce_ns = Some ns_demo, ce_app = ''app''\<rparr>"

lemma api_demo_sel [run_simps]:
  "api_lib api_demo = klib_demo"
  "api_get_pc api_demo ns n w = (pw_pc w, w)"
  "api_update_pc api_demo pc w = (Inr pc, w\<lparr>pw_pc := Inr pc\<rparr>)"
  "api_update_status api_demo pc w = (Inr pc, w\<lparr>pw_pc := Inr pc\<rparr>)"
  "api_get_namespace api_demo n w = (pw_namespace w, w)"
  "api_get_kustomization api_demo ns n w = (pw_kustomization w, w)"
  "api_get_route api_demo ns n w = (pw_route w, w)"
  "api_get_config api_demo ns n w = (pw_config w, w)"
  "api_get_job api_demo ns n w = (pw_job w, w)"
  "api_create_job api_demo j w = (Inr j, w)"
  "api_delete_job api_demo j p w = (None, w)"
  "api_list_jobs api_demo ns k v w = (Inr (case pw_job w of Inl _ \<Rightarrow> [] | Inr j \<Rightarrow> [j]), w)"
  "api_list_deployments api_demo ns w = (Inr (pw_deployments w), w)"
  "api_list_statefulsets api_demo ns w = (Inr [], w)"
  "api_list_services api_demo ns w = (Inr (pw_services w), w)"
  "api_now api_demo w = (pw_now w, w)"
  "api_recorder api_demo = True"
  by (simp_all add: api_demo_def)

lemma find_simps [run_simps]:
  "List.find P [] = None" "List.find P (x # xs) = (if P x then Some x else List.find P xs)"
  by simp_all

end
