(* ===== verification/Preview_Jobs.thy ===== *)
theory Preview_Jobs
  imports Preview_Api
begin

section \<open>Check Jobs: internal/controller/previewcheck_jobs.go\<close>

text \<open>
  The probe and smoke Jobs a PreviewCheck runs in the preview namespace, their creation, and
  the probe's shell script with its meaning.
\<close>

abbreviation checkJobTTL :: int where "checkJobTTL \<equiv> 900"

definition CheckJobLabel :: string where
  "CheckJobLabel = ''preview.homelab.io/preview-check''"

definition CheckNameLabel :: string where
  "CheckNameLabel = ''preview.homelab.io/check''"

subsection \<open>The probe script\<close>

definition probeScript :: string where
  \<open>probeScript = concat (map (\<lambda>line. line @ newline)
     [''set -eu'',
      ''code=$(curl -sS -o /dev/null -w '%{http_code}' --max-time "${PROBE_TIMEOUT}" "${TARGET_URL}") || {'',
      ''  echo "probe: request to ${TARGET_URL} failed"'',
      ''  exit 1'',
      ''}'',
      ''echo "probe: status=${code}"'',
      ''for want in ${EXPECT_STATUS}; do'',
      ''  if [ "${code}" = "${want}" ]; then'',
      ''    echo "probe: accepted"'',
      ''    exit 0'',
      ''  fi'',
      ''done'',
      ''echo "probe: unexpected status ${code}, expected one of ${EXPECT_STATUS}"'',
      ''exit 2''])\<close>

text \<open>
  What the script does: \<open>curl\<close> is the status code it printed, or \<open>None\<close> when it failed; the
  result is the exit code and the output. \<open>words\<close> is the shell's field splitting of
  \<open>EXPECT_STATUS\<close>.
\<close>

fun shell_words :: "string \<Rightarrow> string \<Rightarrow> string list" where
  "shell_words [] acc = (if acc = [] then [] else [acc])"
| "shell_words (c # cs) acc =
     (if is_space c then (if acc = [] then shell_words cs [] else acc # shell_words cs [])
      else shell_words cs (acc @ [c]))"

definition run_probe :: "string \<Rightarrow> string \<Rightarrow> string option \<Rightarrow> int \<times> string" where
  "run_probe target expect curl =
     (case curl of
        None \<Rightarrow> (1, ''probe: request to '' @ target @ '' failed'' @ newline)
      | Some code \<Rightarrow>
          let out = ''probe: status='' @ code @ newline in
          if list_ex (\<lambda>want. code = want) (shell_words expect [])
          then (0, out @ ''probe: accepted'' @ newline)
          else (2, out @ ''probe: unexpected status '' @ code @ '', expected one of '' @ expect @ newline))"

subsection \<open>Jobs\<close>

definition jobName :: "string \<Rightarrow> check_name \<Rightarrow> string" where
  "jobName cid check = ''preview-check-'' @ cid @ ''-'' @ check_text check"

definition listCheckJobs ::
  "'w preview_api \<Rightarrow> string \<Rightarrow> string \<Rightarrow> ('w, job list result) pprog" where
  "listCheckJobs api ns crName =
     operate (api_list_jobs api ns CheckJobLabel crName) (ListJobs ns CheckJobLabel crName)"

definition terminating_step :: check_step where
  "terminating_step =
     (step_of CheckRunning ReasonEmpty ''waiting for the previous check job to finish terminating'')
       \<lparr>stp_requeue := 5 * second\<rparr>"

definition ns_is_preview :: "namespace option \<Rightarrow> bool" where
  "ns_is_preview ns =
     (case ns of None \<Rightarrow> False | Some n \<Rightarrow> sget (ns_labels n) PreviewEnvironmentLabel = ''true'')"

definition job_ref :: "job \<Rightarrow> string" where
  "job_ref j = job_namespace j @ ''/'' @ job_name j"

text \<open>
  \<open>ensureJob\<close> returns an error, or a step to publish (\<open>Inl\<close>), or the Job (\<open>Inr\<close>).
\<close>

definition ensureJob ::
  "'w preview_api \<Rightarrow> check_env \<Rightarrow> job \<Rightarrow> ('w, (check_step + job) result) pprog" where
  "ensureJob api env desired =
     (let ns = job_namespace desired; name = job_name desired in
      if \<not> ns_is_preview (ce_ns env) then
        State_Monad.return (Inl (Plain (''refusing to create job '' @ job_ref desired @
          '': namespace is not labelled '' @ PreviewEnvironmentLabel @ ''=true'')))
      else do {
        got \<leftarrow> operate (api_get_job api ns name) (GetJob ns name);
        case got of
          Inr existing \<Rightarrow>
            State_Monad.return
              (Inr (if job_deleting existing then Inl terminating_step else Inr existing))
        | Inl err \<Rightarrow>
            if \<not> IsNotFound err then
              State_Monad.return (Inl (errorf (''get job '' @ job_ref desired @ '': '') err))
            else do {
              created \<leftarrow> operate (api_create_job api desired) (CreateJob desired);
              case created of
                Inr stored \<Rightarrow> State_Monad.return (Inr (Inr stored))
              | Inl cerr \<Rightarrow>
                  if IsAlreadyExists cerr then do {
                    again \<leftarrow> operate (api_get_job api ns name) (GetJob ns name);
                    State_Monad.return
                      (case again of
                         Inl gerr \<Rightarrow> Inl (errorf ''re-get job after AlreadyExists: '' gerr)
                       | Inr j \<Rightarrow> Inr (if job_deleting j then Inl terminating_step else Inr j))
                  }
                  else if classifyForbidden cerr = forbiddenQuota then
                    State_Monad.return (Inr (Inl
                      ((step_of CheckRunning ReasonQuotaExceeded
                          (''preview quota refused the check job: '' @ err_text cerr))
                        \<lparr>stp_requeue := 15 * second\<rparr>)))
                  else if classifyForbidden cerr = forbiddenTerminating then
                    State_Monad.return (Inr (Inl
                      ((step_of CheckFailed ReasonNamespaceGone
                          (''preview namespace '' @ ns @ '' is terminating''))
                        \<lparr>stp_cr_phase := PreviewCheckFailed\<rparr>)))
                  else
                    State_Monad.return (Inl (errorf (''create job '' @ job_ref desired @ '': '') cerr))
            }
      })"

definition checkJobLabels :: "string \<Rightarrow> check_name \<Rightarrow> smap" where
  "checkJobLabels pcName check =
     [(CheckJobLabel, pcName), (CheckNameLabel, check_text check),
      (''preview.homelab.io/type'', ''preview-check''),
      (''app.kubernetes.io/managed-by'', ''homelab-preview-operator'')]"

definition check_job ::
  "check_env \<Rightarrow> string \<Rightarrow> check_name \<Rightarrow> int \<Rightarrow> pod_spec \<Rightarrow> job" where
  "check_job env pcName check deadline pod =
     \<lparr>job_name = jobName (ce_id env) check, job_namespace = ce_ns_name env,
      job_labels = checkJobLabels pcName check, job_deleting = False,
      job_backoff_limit = Some 0, job_active_deadline = Some deadline, job_ttl = Some checkJobTTL,
      job_pod_labels = [(CheckJobLabel, pcName), (CheckNameLabel, check_text check)],
      job_pod = pod, job_conditions = [], job_succeeded = 0, job_failed = 0\<rparr>"

definition probe_container :: "string \<Rightarrow> string \<Rightarrow> string \<Rightarrow> container" where
  "probe_container probeImage targetURL expect =
     \<lparr>c_name = ''probe'', c_image = probeImage, c_pull_policy = [], c_restart_policy = None,
      c_command = [''/bin/sh'', ''-c'', probeScript], c_args = [],
      c_env = [plain_env ''TARGET_URL'' targetURL, plain_env ''EXPECT_STATUS'' expect,
               plain_env ''PROBE_TIMEOUT'' ''20''],
      c_security = Some \<lparr>sc_allow_privilege_escalation = Some False, sc_read_only_root = Some True,
        sc_run_as_non_root = Some True, sc_run_as_user = Some 100, sc_drop = [''ALL''],
        sc_seccomp = Some ''RuntimeDefault''\<rparr>,
      c_requests = Some \<lparr>res_cpu = ''10m'', res_memory = ''32Mi''\<rparr>,
      c_limits = Some \<lparr>res_cpu = ''100m'', res_memory = ''64Mi''\<rparr>\<rparr>"

definition expect_words :: "int list \<Rightarrow> string" where
  "expect_words statuses = join_with '' '' (map itoa statuses)"

definition probeJob :: "pc_config \<Rightarrow> check_env \<Rightarrow> preview_check \<Rightarrow> pc_spec_t \<Rightarrow> string \<Rightarrow> job" where
  "probeJob cf env pc spec targetURL =
     check_job env (pc_name pc) CheckHTTP 60
       \<lparr>ps_restart_policy = ''Never'', ps_automount_token = Some False,
        ps_security = Some \<lparr>psc_run_as_non_root = Some True, psc_run_as_user = Some 100,
          psc_seccomp = Some ''RuntimeDefault''\<rparr>,
        ps_init_containers = [],
        ps_containers = [probe_container (cf_probe_image cf) targetURL
                           (expect_words (pcs_expect_status spec))]\<rparr>"

definition smoke_timeout :: "smoke_test \<Rightarrow> int" where
  "smoke_timeout cfg = (if smk_timeout cfg \<le> 0 then 300 else smk_timeout cfg)"

definition smoke_env :: "check_env \<Rightarrow> smoke_test \<Rightarrow> string \<Rightarrow> env_var list" where
  "smoke_env env cfg previewURL =
     [plain_env ''PREVIEW_URL'' previewURL, plain_env ''PREVIEW_NAMESPACE'' (ce_ns_name env),
      plain_env ''APP_NAME'' (ce_app env), plain_env ''PR_NUMBER'' (itoa (ce_pr env))]
     @ map (\<lambda>k. plain_env k (sget (smk_env cfg) k)) (sort (map fst (smk_env cfg)))"

definition smokeJob :: "check_env \<Rightarrow> preview_check \<Rightarrow> smoke_test \<Rightarrow> string \<Rightarrow> job" where
  "smokeJob env pc cfg previewURL =
     check_job env (pc_name pc) CheckSmoke (smoke_timeout cfg)
       \<lparr>ps_restart_policy = ''Never'', ps_automount_token = Some False,
        ps_security = Some \<lparr>psc_run_as_non_root = None, psc_run_as_user = None,
          psc_seccomp = Some ''RuntimeDefault''\<rparr>,
        ps_init_containers = [],
        ps_containers = [
          \<lparr>c_name = ''smoke'', c_image = smk_image cfg, c_pull_policy = [], c_restart_policy = None,
           c_command = smk_command cfg, c_args = smk_args cfg, c_env = smoke_env env cfg previewURL,
           c_security = Some \<lparr>sc_allow_privilege_escalation = Some False, sc_read_only_root = None,
             sc_run_as_non_root = None, sc_run_as_user = None, sc_drop = [''ALL''],
             sc_seccomp = Some ''RuntimeDefault''\<rparr>,
           c_requests = None, c_limits = None\<rparr>]\<rparr>"

end
