(* ===== verification/Preview_Checks.thy ===== *)
theory Preview_Checks
  imports Preview_Jobs
begin

section \<open>The four checks: internal/controller/previewcheck_checks.go\<close>

text \<open>
  One step of each check. A check returns an error of the operator's own (\<open>Inl\<close>) or a step to
  publish; \<open>checkTrivy\<close> also records the image it judged on the PreviewCheck, so it returns the
  updated object.
\<close>

abbreviation logTailBytes :: int where "logTailBytes \<equiv> 2048"

subsection \<open>Details\<close>

text \<open>All matches of \<open>status=(\d{3})\<close>, leftmost first, without overlaps.\<close>

definition is_digit :: "char \<Rightarrow> bool" where
  "is_digit c \<longleftrightarrow> c \<in> set ''0123456789''"

definition status_at :: "string \<Rightarrow> string option" where
  "status_at s =
     (if has_prefix s ''status='' \<and> length s \<ge> 10 \<and> list_all is_digit (take 3 (drop 7 s))
      then Some (take 3 (drop 7 s)) else None)"

function status_matches :: "string \<Rightarrow> string list" where
  "status_matches s =
     (if s = [] then []
      else case status_at s of
             Some d \<Rightarrow> d # status_matches (drop 10 s)
           | None \<Rightarrow> status_matches (tl s))"
  by pat_completeness auto
termination
  by (relation "measure length") auto

declare status_matches.simps [simp del]

definition digit_val :: "char \<Rightarrow> int" where
  "digit_val c = (case index_byte ''0123456789'' c of Some i \<Rightarrow> int i | None \<Rightarrow> 0)"

definition atoi_digits :: "string \<Rightarrow> int" where
  "atoi_digits s = foldl (\<lambda>n c. 10 * n + digit_val c) 0 s"

definition parseProbeStatus :: "string \<Rightarrow> int option" where
  "parseProbeStatus tail =
     (case status_matches tail of
        [] \<Rightarrow> None
      | m # ms \<Rightarrow> Some (atoi_digits (last (m # ms))))"

definition joinDetail :: "string \<Rightarrow> string \<Rightarrow> string" where
  "joinDetail head tail = (if tail = [] then head else head @ newline @ tail)"

definition truncateMessage :: "string \<Rightarrow> int \<Rightarrow> string" where
  "truncateMessage s mx = (if int (length s) \<le> mx then s else take (nat (mx - 3)) s @ ''...'')"

definition tailJob :: "'w preview_api \<Rightarrow> string \<Rightarrow> string \<Rightarrow> ('w, string) pprog" where
  "tailJob api ns name =
     (case api_tail_logs api of
        None \<Rightarrow> State_Monad.return []
      | Some tl_logs \<Rightarrow>
          do {
            r \<leftarrow> operate (tl_logs ns name logTailBytes) (TailLogs ns name logTailBytes);
            State_Monad.return
              (case r of
                 Inl _ \<Rightarrow> []
               | Inr text \<Rightarrow> TruncateLogTail (trim_space text) logTailBytes)
          })"

definition namespaceGoneStep :: "goerr \<Rightarrow> check_step option" where
  "namespaceGoneStep err =
     (if \<not> namespaceUnavailable err then None
      else Some ((step_of CheckFailed ReasonNamespaceGone
                    ''the preview namespace went away while the check was running'')
                   \<lparr>stp_cr_phase := PreviewCheckFailed\<rparr>))"

text \<open>A list call whose failure is either the namespace going away or a wrapped error.\<close>

definition list_failed :: "string \<Rightarrow> goerr \<Rightarrow> check_step result" where
  "list_failed what err =
     (case namespaceGoneStep err of Some step \<Rightarrow> Inr step | None \<Rightarrow> Inl (errorf what err))"

subsection \<open>Readiness\<close>

definition checkReadiness :: "'w preview_api \<Rightarrow> check_env \<Rightarrow> ('w, check_step result) pprog" where
  "checkReadiness api env =
     do {
       ds \<leftarrow> operate (api_list_deployments api (ce_ns_name env)) (ListDeployments (ce_ns_name env));
       case ds of
         Inl err \<Rightarrow>
           State_Monad.return (list_failed (''list deployments in '' @ ce_ns_name env @ '': '') err)
       | Inr deployments \<Rightarrow>
           do {
             ss \<leftarrow> operate (api_list_statefulsets api (ce_ns_name env))
                    (ListStatefulSets (ce_ns_name env));
             case ss of
               Inl err \<Rightarrow>
                 State_Monad.return
                   (list_failed (''list statefulsets in '' @ ce_ns_name env @ '': '') err)
             | Inr statefulsets \<Rightarrow>
                 (let (ready, detail) = EvaluateWorkloadReadiness deployments statefulsets in
                  State_Monad.return
                    (Inr (if \<not> ready then step_of CheckRunning ReasonPodsNotReady detail
                          else step_of CheckPassed ReasonEmpty detail)))
           }
     }"

subsection \<open>The HTTP target\<close>

record http_target =
  ht_service :: string
  ht_port :: int

definition no_target :: http_target where
  "no_target = \<lparr>ht_service = [], ht_port = 0\<rparr>"

definition serviceURL :: "http_target \<Rightarrow> string \<Rightarrow> string" where
  "serviceURL t ns =
     ''http://'' @ ht_service t @ ''.'' @ ns @ ''.svc.cluster.local:'' @ itoa (ht_port t)"

definition firstBackendRef :: "klib \<Rightarrow> json \<Rightarrow> (string \<times> int) option" where
  "firstBackendRef lib route =
     (case lib_nested_slice lib route [''spec'', ''rules''] of
        None \<Rightarrow> None
      | Some [] \<Rightarrow> None
      | Some (rule # _) \<Rightarrow>
          if \<not> json_is_map rule then None
          else
            (case lib_nested_slice lib rule [''backendRefs''] of
               None \<Rightarrow> None
             | Some [] \<Rightarrow> None
             | Some (ref # _) \<Rightarrow>
                 if \<not> json_is_map ref then None
                 else
                   let name = lib_nested_string lib ref [''name''];
                       p = lib_nested_int64 lib ref [''port'']
                   in if name = [] then None
                      else if p < 1 \<or> p > 65535 then Some (name, 0)
                      else Some (name, p)))"

definition isInfraService :: "string \<Rightarrow> bool" where
  "isInfraService name \<longleftrightarrow>
     has_prefix name ''redis'' \<or> str_contains name ''s3proxy''
     \<or> has_suffix name ''-rw'' \<or> has_suffix name ''-ro'' \<or> has_suffix name ''-r''
     \<or> has_suffix name ''-any''"

text \<open>\<open>byName[n]\<close>: a later Service of the same name replaces an earlier one.\<close>

definition service_named :: "service list \<Rightarrow> string \<Rightarrow> service option" where
  "service_named svcs n = List.find (\<lambda>s. svc_name s = n) (rev svcs)"

definition choose_target :: "check_env \<Rightarrow> http_target \<Rightarrow> service list \<Rightarrow> http_target" where
  "choose_target env target svcs =
     (let candidates = filter (\<lambda>s. \<not> isInfraService (svc_name s)) svcs;
          picked = (if ht_service target \<noteq> [] then Some target
                    else if service_named svcs (ce_app env) \<noteq> None
                    then Some (target\<lparr>ht_service := ce_app env\<rparr>)
                    else case candidates of
                           [c] \<Rightarrow> Some (target\<lparr>ht_service := svc_name c\<rparr>)
                         | _ \<Rightarrow> None)
      in case picked of
           None \<Rightarrow> no_target
         | Some t \<Rightarrow>
             if ht_port t \<noteq> 0 then t
             else
               (case service_named svcs (ht_service t) of
                  None \<Rightarrow> no_target
                | Some svc \<Rightarrow>
                    (case svc_ports svc of [] \<Rightarrow> no_target | p # _ \<Rightarrow> t\<lparr>ht_port := p\<rparr>)))"

definition resolveHTTPTarget ::
  "'w preview_api \<Rightarrow> check_env \<Rightarrow> ('w, http_target result) pprog" where
  "resolveHTTPTarget api env =
     (let routeName = ''preview-'' @ itoa (ce_pr env) in
      do {
        route \<leftarrow> operate (api_get_route api (ce_ns_name env) routeName)
                  (GetRoute (ce_ns_name env) routeName);
        let target = (case route of
                        Inl _ \<Rightarrow> no_target
                      | Inr obj \<Rightarrow>
                          (case firstBackendRef (api_lib api) obj of
                             Some (name, port) \<Rightarrow> \<lparr>ht_service = name, ht_port = port\<rparr>
                           | None \<Rightarrow> no_target));
        svcs \<leftarrow> operate (api_list_services api (ce_ns_name env)) (ListServices (ce_ns_name env));
        State_Monad.return
          (case svcs of
             Inl err \<Rightarrow>
               if namespaceUnavailable err then Inr no_target
               else Inl (errorf (''list services in '' @ ce_ns_name env @ '': '') err)
           | Inr items \<Rightarrow> Inr (choose_target env target items))
      })"

subsection \<open>The http check\<close>

definition probe_failed_step :: "pc_spec_t \<Rightarrow> smap \<Rightarrow> string \<Rightarrow> string \<Rightarrow> string \<Rightarrow> check_step" where
  "probe_failed_step spc details jobReason jobMessage tail =
     (let code = parseProbeStatus tail;
          details = (case code of Some c \<Rightarrow> sput ''httpStatus'' (itoa c) details | None \<Rightarrow> details);
          reason = (case code of
                      Some c \<Rightarrow> if \<not> StatusAccepted c (pcs_expect_status spc)
                                then ReasonUnexpectedStatus else ReasonProbeJobFailed
                    | None \<Rightarrow> ReasonProbeJobFailed)
      in (step_of CheckFailed reason
            (joinDetail (''probe job failed ('' @ jobReason @ '' '' @ jobMessage @ '')'') tail))
           \<lparr>stp_details := details\<rparr>)"

definition checkHTTP ::
  "'w preview_api \<Rightarrow> pc_config \<Rightarrow> preview_check \<Rightarrow> pc_spec_t \<Rightarrow> check_env
    \<Rightarrow> ('w, check_step result) pprog" where
  "checkHTTP api cf pc spc env =
     do {
       tr \<leftarrow> resolveHTTPTarget api env;
       case tr of
         Inl err \<Rightarrow> State_Monad.return (Inl err)
       | Inr target \<Rightarrow>
           if ht_service target = [] then
             State_Monad.return (Inr (step_of CheckRunning ReasonTargetUnresolved
               (''no HTTPRoute backend or app Service found in '' @ ce_ns_name env)))
           else
             let url = serviceURL target (ce_ns_name env) @ pcs_http_path spc in
             do {
               er \<leftarrow> ensureJob api env (probeJob cf env pc spc url);
               case er of
                 Inl err \<Rightarrow> State_Monad.return (Inl err)
               | Inr (Inl step) \<Rightarrow> State_Monad.return (Inr step)
               | Inr (Inr j) \<Rightarrow>
                   (let (phase, jobReason, jobMessage) = JobOutcome (Some j);
                        details = [(''targetUrl'', url)]
                    in case phase of
                         JobSucceeded \<Rightarrow>
                           State_Monad.return (Inr ((step_of CheckPassed ReasonEmpty
                             ''app answered with an accepted status'')\<lparr>stp_details := details\<rparr>))
                       | JobRunning \<Rightarrow>
                           State_Monad.return (Inr ((step_of CheckRunning ReasonEmpty
                             ''probe job running'')
                               \<lparr>stp_details := details, stp_requeue := 5 * second\<rparr>))
                       | JobFailed \<Rightarrow>
                           do {
                             tail \<leftarrow> tailJob api (ce_ns_name env) (job_name j);
                             State_Monad.return
                               (Inr (probe_failed_step spc details jobReason jobMessage tail))
                           })
             }
     }"

subsection \<open>The image under test\<close>

definition containerImage :: "pod_spec \<Rightarrow> string \<Rightarrow> string" where
  "containerImage ps app =
     (case List.find (\<lambda>c. c_name c = app) (ps_containers ps) of
        Some c \<Rightarrow> c_image c
      | None \<Rightarrow> (case ps_containers ps of c # _ \<Rightarrow> c_image c | [] \<Rightarrow> []))"

text \<open>\<open>pods[name]\<close>: StatefulSets are entered after Deployments, a later entry replaces an earlier.\<close>

definition workload_pods :: "workload list \<Rightarrow> workload list \<Rightarrow> (string \<times> pod_spec) list" where
  "workload_pods ds ss = rev (map (\<lambda>w. (wl_name w, wl_pod_spec w)) (ds @ ss))"

fun first_image :: "(string \<times> pod_spec) list \<Rightarrow> string \<Rightarrow> string list \<Rightarrow> string" where
  "first_image pods app [] = []"
| "first_image pods app (n # ns) =
     (if isInfraService n then first_image pods app ns
      else case map_of pods n of
             Some ps \<Rightarrow> if containerImage ps app \<noteq> [] then containerImage ps app
                        else first_image pods app ns
           | None \<Rightarrow> first_image pods app ns)"

definition choose_image :: "string \<Rightarrow> workload list \<Rightarrow> workload list \<Rightarrow> string" where
  "choose_image app ds ss =
     (let pods = workload_pods ds ss;
          names = sort (map wl_name ds @
            filter (\<lambda>n. n \<notin> wl_name ` set ds) (remdups (map wl_name ss)));
          own = (case map_of pods app of Some ps \<Rightarrow> containerImage ps app | None \<Rightarrow> [])
      in if own \<noteq> [] then own else first_image pods app names)"

definition resolveWorkloadImage :: "'w preview_api \<Rightarrow> check_env \<Rightarrow> ('w, string result) pprog" where
  "resolveWorkloadImage api env =
     do {
       dr \<leftarrow> operate (api_list_deployments api (ce_ns_name env)) (ListDeployments (ce_ns_name env));
       case dr of
         Inl err \<Rightarrow>
           State_Monad.return
             (if namespaceUnavailable err then Inr []
              else Inl (errorf (''list deployments in '' @ ce_ns_name env @ '': '') err))
       | Inr ds \<Rightarrow>
           do {
             sr \<leftarrow> operate (api_list_statefulsets api (ce_ns_name env))
                    (ListStatefulSets (ce_ns_name env));
             State_Monad.return
               (case sr of
                  Inl err \<Rightarrow>
                    if namespaceUnavailable err then Inr []
                    else Inl (errorf (''list statefulsets in '' @ ce_ns_name env @ '': '') err)
                | Inr ss \<Rightarrow> Inr (choose_image (ce_app env) ds ss))
           }
     }"

subsection \<open>The trivy check\<close>

definition reportArtifact :: "klib \<Rightarrow> json \<Rightarrow> artifact" where
  "reportArtifact lib report =
     \<lparr>art_registry = lib_nested_string lib report [''report'', ''registry'', ''server''],
      art_repository = lib_nested_string lib report [''report'', ''artifact'', ''repository''],
      art_tag = lib_nested_string lib report [''report'', ''artifact'', ''tag''],
      art_digest = lib_nested_string lib report [''report'', ''artifact'', ''digest'']\<rparr>"

definition reportVulnerabilityIDs :: "klib \<Rightarrow> json \<Rightarrow> string list" where
  "reportVulnerabilityIDs lib report =
     (case lib_nested_slice lib report [''report'', ''vulnerabilities''] of
        None \<Rightarrow> []
      | Some items \<Rightarrow>
          filter (\<lambda>i. i \<noteq> [])
            (map (\<lambda>v. lib_nested_string lib v [''vulnerabilityID'']) (filter json_is_map items)))"

text \<open>The matched artifact's rendering (empty: none matched) and the findings of all matches.\<close>

fun match_reports :: "klib \<Rightarrow> string \<Rightarrow> json list \<Rightarrow> string \<Rightarrow> string list \<Rightarrow> string \<times> string list" where
  "match_reports lib img [] matched ids = (matched, ids)"
| "match_reports lib img (r # rs) matched ids =
     (let artifact = reportArtifact lib r in
      if \<not> MatchesImage artifact img then match_reports lib img rs matched ids
      else match_reports lib img rs (Artifact_String artifact) (ids @ reportVulnerabilityIDs lib r))"

definition exploit_pc_reason :: "exploit_reason \<Rightarrow> pc_reason" where
  "exploit_pc_reason r =
     (case r of NoReason \<Rightarrow> ReasonEmpty | KEVReason \<Rightarrow> ReasonKEVExceeded | EPSSReason \<Rightarrow> ReasonEPSSExceeded)"

definition trivy_verdict ::
  "klib \<Rightarrow> pc_thresholds \<Rightarrow> string \<Rightarrow> smap \<Rightarrow> enrich_response result \<Rightarrow> check_step" where
  "trivy_verdict lib thr matched details answer =
     (case answer of
        Inl err \<Rightarrow>
          if IsTerminal err then
            (step_of CheckFailed ReasonEnrichmentUnavailable
               (''CVE enrichment rejected the request: '' @ err_text err))
              \<lparr>stp_cr_phase := PreviewCheckFailed, stp_details := details\<rparr>
          else
            (step_of CheckRunning ReasonEnrichmentUnavailable
               (''CVE enrichment unavailable: '' @ err_text err))
              \<lparr>stp_details := details, stp_requeue := 30 * second\<rparr>
      | Inr resp \<Rightarrow>
          if \<not> Usable resp then
            (step_of CheckRunning ReasonEnrichmentUnavailable
               (''CVE enrichment is not usable (stale='' @ btoa (er_stale resp) @ '' kevTotal='' @
                itoa (er_kev_total resp) @ '', fetched '' @ lib_rfc3339 lib (er_fetched resp) @ '')''))
              \<lparr>stp_details := details, stp_requeue := 30 * second\<rparr>
          else
            (case (thr_kev_max thr, thr_epss_max thr) of
               (Some kevMax, Some epssMax) \<Rightarrow>
                 (let details = sput ''unknownCves'' (itoa (int (length (er_unknown resp)))) details;
                      verdict = EvaluateExploitability (er_results resp) kevMax epssMax;
                      details = sput ''kevCount'' (itoa (int (ex_kev_count verdict))) details;
                      details = sput ''maxEpssPermille'' (itoa (ex_max_permille verdict)) details;
                      message = matched @ '': '' @ ex_detail verdict
                  in if \<not> ex_passed verdict then
                       (step_of CheckFailed (exploit_pc_reason (ex_reason verdict)) message)
                         \<lparr>stp_details := details\<rparr>
                     else (step_of CheckPassed ReasonEmpty message)\<lparr>stp_details := details\<rparr>)
             | _ \<Rightarrow>
                 (step_of CheckFailed ReasonInvalidThreshold ''thresholds are not fully defaulted'')
                   \<lparr>stp_details := details\<rparr>))"

definition trivy_details :: "string \<Rightarrow> string list \<Rightarrow> string list \<Rightarrow> string list \<Rightarrow> smap" where
  "trivy_details matched ids cves dropped =
     (let details = [(''image'', matched), (''findings'', itoa (int (length ids))),
                     (''cves'', itoa (int (length cves)))]
      in if dropped \<noteq> []
         then sput ''nonCveIds'' (truncateMessage (join_with '','' dropped) 512) details else details)"

definition score_reports ::
  "'w preview_api \<Rightarrow> pc_spec_t \<Rightarrow> string \<Rightarrow> json list \<Rightarrow> ('w, check_step result) pprog" where
  "score_reports api spc img reports =
     (let (matched, ids) = match_reports (api_lib api) img reports [] [] in
      if matched = [] then
        State_Monad.return (Inr ((step_of CheckRunning ReasonScanPending
          (''no VulnerabilityReport for '' @ img @ '' yet''))\<lparr>stp_requeue := 30 * second\<rparr>))
      else
        let (cves, dropped) = ExtractCVEs ids;
            details = trivy_details matched ids cves dropped
        in if cves = [] then
             State_Monad.return (Inr ((step_of CheckPassed ReasonEmpty
               (matched @ '': no fixable CRITICAL/HIGH CVE findings''))\<lparr>stp_details := details\<rparr>))
           else
             (case api_enricher api of
                None \<Rightarrow>
                  State_Monad.return (Inr ((step_of CheckFailed ReasonEnrichmentUnavailable
                    ''no CVE enrichment endpoint is configured; refusing to read an unenriched scan as clean'')
                      \<lparr>stp_cr_phase := PreviewCheckExpired, stp_details := details\<rparr>))
              | Some lookup \<Rightarrow>
                  do {
                    answer \<leftarrow> operate (lookup cves) (Enrich cves);
                    State_Monad.return
                      (Inr (trivy_verdict (api_lib api) (pcs_thresholds spc) matched details answer))
                  }))"

definition set_resolved_image :: "string \<Rightarrow> preview_check \<Rightarrow> preview_check" where
  "set_resolved_image img pc = pc\<lparr>pc_status := (pc_status pc)\<lparr>st_image := img\<rparr>\<rparr>"

definition checkTrivy ::
  "'w preview_api \<Rightarrow> preview_check \<Rightarrow> pc_spec_t \<Rightarrow> check_env
    \<Rightarrow> ('w, preview_check \<times> check_step result) pprog" where
  "checkTrivy api pc spc env =
     do {
       ir \<leftarrow> (if pcs_image spc = [] then resolveWorkloadImage api env
             else State_Monad.return (Inr (pcs_image spc)));
       case ir of
         Inl err \<Rightarrow> State_Monad.return (pc, Inl err)
       | Inr img \<Rightarrow>
           if img = [] then
             State_Monad.return (pc, Inr (step_of CheckRunning ReasonTargetUnresolved
               (''could not resolve the previewed image in '' @ ce_ns_name env)))
           else
             let pc = set_resolved_image img pc in
             do {
               rr \<leftarrow> operate (api_list_reports api (ce_ns_name env)) (ListReports (ce_ns_name env));
               case rr of
                 Inl err \<Rightarrow>
                   State_Monad.return
                     (pc, list_failed (''list vulnerabilityreports in '' @ ce_ns_name env @ '': '') err)
               | Inr reports \<Rightarrow>
                   do {
                     step \<leftarrow> score_reports api spc img reports;
                     State_Monad.return (pc, step)
                   }
             }
     }"

subsection \<open>The smoke check\<close>

definition smoke_skipped :: "string \<Rightarrow> check_step" where
  "smoke_skipped message = step_of CheckSkipped ReasonNoSmokeTest message"

definition run_smoke ::
  "'w preview_api \<Rightarrow> preview_check \<Rightarrow> check_env \<Rightarrow> smoke_test \<Rightarrow> ('w, check_step result) pprog" where
  "run_smoke api pc env smoke =
     do {
       tr \<leftarrow> resolveHTTPTarget api env;
       case tr of
         Inl err \<Rightarrow> State_Monad.return (Inl err)
       | Inr target \<Rightarrow>
           if ht_service target = [] then
             State_Monad.return (Inr (step_of CheckRunning ReasonTargetUnresolved
               (''no HTTPRoute backend or app Service in '' @ ce_ns_name env @ '' to point PREVIEW_URL at'')))
           else do {
             er \<leftarrow> ensureJob api env (smokeJob env pc smoke (serviceURL target (ce_ns_name env)));
             case er of
               Inl err \<Rightarrow> State_Monad.return (Inl err)
             | Inr (Inl step) \<Rightarrow> State_Monad.return (Inr step)
             | Inr (Inr j) \<Rightarrow>
                 (let (phase, jobReason, jobMessage) = JobOutcome (Some j);
                      details = [(''image'', smk_image smoke)]
                  in case phase of
                       JobSucceeded \<Rightarrow>
                         State_Monad.return (Inr ((step_of CheckPassed ReasonEmpty ''smoke test passed'')
                           \<lparr>stp_details := details\<rparr>))
                     | JobRunning \<Rightarrow>
                         State_Monad.return (Inr ((step_of CheckRunning ReasonEmpty ''smoke job running'')
                           \<lparr>stp_details := details, stp_requeue := 10 * second\<rparr>))
                     | JobFailed \<Rightarrow>
                         do {
                           tail \<leftarrow> tailJob api (ce_ns_name env) (job_name j);
                           State_Monad.return (Inr ((step_of CheckFailed ReasonSmokeJobFailed
                             (joinDetail (''smoke job failed ('' @ jobReason @ '' '' @ jobMessage @ '')'') tail))
                               \<lparr>stp_details := details\<rparr>))
                         })
           }
     }"

definition checkSmoke ::
  "'w preview_api \<Rightarrow> preview_check \<Rightarrow> check_env \<Rightarrow> ('w, check_step result) pprog" where
  "checkSmoke api pc env =
     (let app = ce_app env in
      do {
        cr \<leftarrow> operate (api_get_config api app app) (GetConfig app app);
        case cr of
          Inl err \<Rightarrow>
            State_Monad.return
              (if IsNotFound err then Inr (smoke_skipped (''no PreviewConfig '' @ app @ ''/'' @ app))
               else Inl (errorf (''get previewconfig '' @ app @ ''/'' @ app @ '': '') err))
        | Inr cfg \<Rightarrow>
            (case cfg_smoke_test cfg of
               None \<Rightarrow>
                 State_Monad.return (Inr (smoke_skipped
                   (''PreviewConfig '' @ app @ ''/'' @ app @ '' declares no smokeTest'')))
             | Some smoke \<Rightarrow>
                 if smk_image smoke = [] then
                   State_Monad.return (Inr (smoke_skipped
                     (''PreviewConfig '' @ app @ ''/'' @ app @ '' declares no smokeTest'')))
                 else run_smoke api pc env smoke)
      })"

subsection \<open>Dispatch\<close>

definition keep_pc :: "preview_check \<Rightarrow> ('w, 'a) pprog \<Rightarrow> ('w, preview_check \<times> 'a) pprog" where
  "keep_pc pc m = do { a \<leftarrow> m; State_Monad.return (pc, a) }"

definition evaluateCheck ::
  "'w preview_api \<Rightarrow> pc_config \<Rightarrow> preview_check \<Rightarrow> pc_spec_t \<Rightarrow> check_env \<Rightarrow> check_name
    \<Rightarrow> ('w, preview_check \<times> check_step result) pprog" where
  "evaluateCheck api cf pc spc env name =
     (case name of
        CheckReadiness \<Rightarrow> keep_pc pc (checkReadiness api env)
      | CheckHTTP \<Rightarrow> keep_pc pc (checkHTTP api cf pc spc env)
      | CheckTrivy \<Rightarrow> checkTrivy api pc spc env
      | CheckSmoke \<Rightarrow> keep_pc pc (checkSmoke api pc env)
      | CheckOther s \<Rightarrow>
          keep_pc pc (State_Monad.return
            (Inr (step_of CheckFailed ReasonInvalidThreshold (''unknown check '' @ go_quote s)))))"

subsection \<open>What a check step may do\<close>

text \<open>
  The log of a check: reads of the preview, the PreviewConfig of the resolved app only, and the
  creation of a confined Job in the labelled preview namespace.
\<close>

definition confined :: "container \<Rightarrow> bool" where
  "confined c \<longleftrightarrow>
     (case c_security c of
        None \<Rightarrow> False
      | Some sc \<Rightarrow> sc_allow_privilege_escalation sc = Some False \<and> sc_drop sc = [''ALL'']
                   \<and> sc_seccomp sc = Some ''RuntimeDefault'')
     \<and> list_all (\<lambda>e. ev_from e = None) (c_env c)"

definition check_job_ok :: "check_env \<Rightarrow> string \<Rightarrow> job \<Rightarrow> bool" where
  "check_job_ok env owner j \<longleftrightarrow>
     job_namespace j = ce_ns_name env
     \<and> sget (job_labels j) CheckJobLabel = owner
     \<and> job_backoff_limit j = Some 0
     \<and> ps_automount_token (job_pod j) = Some False
     \<and> list_all confined (ps_containers (job_pod j))
     \<and> (\<exists>name. job_name j = jobName (ce_id env) name)"

fun check_call :: "check_env \<Rightarrow> string \<Rightarrow> preview_call \<Rightarrow> bool" where
  "check_call env owner (CreateJob j r) \<longleftrightarrow> ns_is_preview (ce_ns env) \<and> check_job_ok env owner j"
| "check_call env owner (GetConfig a b r) \<longleftrightarrow> a = ce_app env \<and> b = ce_app env"
| "check_call env owner (GetPC a b r) \<longleftrightarrow> False"
| "check_call env owner (GetNamespace a r) \<longleftrightarrow> False"
| "check_call env owner (GetKustomization a b r) \<longleftrightarrow> False"
| "check_call env owner (Now t) \<longleftrightarrow> False"
| "check_call env owner c \<longleftrightarrow> is_read c"

abbreviation check_log :: "check_env \<Rightarrow> string \<Rightarrow> preview_call list \<Rightarrow> bool" where
  "check_log env owner xs \<equiv> list_all (check_call env owner) xs"

text \<open>
  The steps a check may report: a failed step names the change's fault, or an inability to look
  together with the phase it must lead to.
\<close>

fun step_fault :: "pc_reason \<Rightarrow> pc_phase \<Rightarrow> bool" where
  "step_fault ReasonUnexpectedStatus p \<longleftrightarrow> p = NoPhase"
| "step_fault ReasonProbeJobFailed p \<longleftrightarrow> p = NoPhase"
| "step_fault ReasonSmokeJobFailed p \<longleftrightarrow> p = NoPhase"
| "step_fault ReasonKEVExceeded p \<longleftrightarrow> p = NoPhase"
| "step_fault ReasonEPSSExceeded p \<longleftrightarrow> p = NoPhase"
| "step_fault ReasonInvalidThreshold p \<longleftrightarrow> p = NoPhase"
| "step_fault ReasonNamespaceGone p \<longleftrightarrow> p = PreviewCheckFailed"
| "step_fault ReasonEnrichmentUnavailable p \<longleftrightarrow> p = PreviewCheckFailed \<or> p = PreviewCheckExpired"
| "step_fault r p \<longleftrightarrow> False"

fun step_wait :: "pc_reason \<Rightarrow> bool" where
  "step_wait ReasonEmpty = True"
| "step_wait ReasonPodsNotReady = True"
| "step_wait ReasonTargetUnresolved = True"
| "step_wait ReasonScanPending = True"
| "step_wait ReasonEnrichmentUnavailable = True"
| "step_wait ReasonQuotaExceeded = True"
| "step_wait _ = False"

definition step_ok :: "check_step \<Rightarrow> bool" where
  "step_ok s \<longleftrightarrow>
     (case stp_phase s of
        CheckRunning \<Rightarrow> step_wait (stp_reason s) \<and> stp_cr_phase s = NoPhase
      | CheckFailed \<Rightarrow> step_fault (stp_reason s) (stp_cr_phase s)
      | CheckPassed \<Rightarrow> stp_reason s = ReasonEmpty \<and> stp_cr_phase s = NoPhase
      | CheckSkipped \<Rightarrow> stp_reason s = ReasonNoSmokeTest \<and> stp_cr_phase s = NoPhase
      | _ \<Rightarrow> False)"

definition step_good :: "check_env \<Rightarrow> string \<Rightarrow> check_step result \<Rightarrow> preview_call list \<Rightarrow> bool" where
  "step_good env owner r xs \<longleftrightarrow> check_log env owner xs \<and> (\<forall>s. r = Inr s \<longrightarrow> step_ok s)"

lemma step_of_sel [simp]:
  "stp_phase (step_of p r m) = p" "stp_reason (step_of p r m) = r" "stp_message (step_of p r m) = m"
  "stp_details (step_of p r m) = []" "stp_requeue (step_of p r m) = 0"
  "stp_cr_phase (step_of p r m) = NoPhase"
  by (simp_all add: step_of_def)

lemma list_failed_good: "list_failed what err = Inr s \<Longrightarrow> step_ok s"
  by (auto simp: list_failed_def namespaceGoneStep_def step_ok_def split: if_splits)

lemma checkReadiness_ens: "ensures (checkReadiness api env) (step_good env owner)"
  unfolding checkReadiness_def
  by (intro ens_rules) (auto simp: step_good_def step_ok_def dest: list_failed_good)

lemma tailJob_ens: "ensures (tailJob api ns name) (\<lambda>r xs. check_log env owner xs)"
  unfolding tailJob_def by (intro ens_rules) auto

lemma resolveHTTPTarget_ens: "ensures (resolveHTTPTarget api env) (\<lambda>r xs. check_log env owner xs)"
  unfolding resolveHTTPTarget_def by (intro ens_rules) auto

lemma ensureJob_ens:
  assumes "check_job_ok env owner desired"
  shows "ensures (ensureJob api env desired)
    (\<lambda>r xs. check_log env owner xs \<and> (\<forall>s. r = Inr (Inl s) \<longrightarrow> step_ok s)
       \<and> (ns_is_preview (ce_ns env) \<or> xs = []))"
  unfolding ensureJob_def
  by (intro ens_rules) (use assms in \<open>auto simp: step_ok_def terminating_step_def split: sum.splits\<close>)

lemma probeJob_ok: "check_job_ok env (pc_name pc) (probeJob cf env pc spc url)"
  unfolding check_job_ok_def probeJob_def check_job_def
  by (auto simp: checkJobLabels_def sget_def confined_def probe_container_def plain_env_def)

lemma smokeJob_ok: "check_job_ok env (pc_name pc) (smokeJob env pc smoke url)"
  unfolding check_job_ok_def smokeJob_def check_job_def
  by (auto simp: checkJobLabels_def sget_def confined_def smoke_env_def plain_env_def list_all_iff)

lemma checkHTTP_ens: "ensures (checkHTTP api cf pc spc env) (step_good env (pc_name pc))"
  unfolding checkHTTP_def
  apply (rule ens_bindI [OF resolveHTTPTarget_ens [where owner = "pc_name pc"]])
  apply (intro ens_sum ens_if ens_let ens_return)
    apply (simp_all add: step_good_def step_ok_def)[2]
  apply (rule ens_bindI [OF ensureJob_ens [OF probeJob_ok]])
  apply (intro ens_sum ens_let ens_prod ens_return)
    apply (simp_all add: step_good_def)[2]
  subgoal for a xs b r ys b' j phase p2 jr jm
    by (cases phase)
       (auto simp: step_good_def step_ok_def probe_failed_step_def Let_def split: option.splits
         intro!: ens_return ens_bindI [OF tailJob_ens [where owner = "pc_name pc" and env = env]])
  done

lemma exploit_pc_reason_fault:
  assumes "\<not> ex_passed (EvaluateExploitability rs k t)"
  shows "step_fault (exploit_pc_reason (ex_reason (EvaluateExploitability rs k t))) NoPhase"
  using exploit_reason_cases [of rs k t] assms by (auto simp: exploit_pc_reason_def)

lemma trivy_verdict_ok: "step_ok (trivy_verdict lib thr matched details answer)"
  using exploit_pc_reason_fault
  by (auto simp: trivy_verdict_def step_ok_def Let_def split: sum.splits option.splits)

text \<open>The log of scoring: at most the enrichment of exactly the extracted CVEs.\<close>

definition score_post :: "klib \<Rightarrow> pc_spec_t \<Rightarrow> string \<Rightarrow> json list \<Rightarrow> check_step result \<Rightarrow> preview_call list \<Rightarrow> bool" where
  "score_post lib spc img reports r xs \<longleftrightarrow>
     list_all is_read xs \<and> (\<exists>s. r = Inr s \<and> step_ok s \<and>
       (stp_phase s = CheckPassed \<longrightarrow>
          (let (matched, ids) = match_reports lib img reports [] []; cves = fst (ExtractCVEs ids) in
           matched \<noteq> [] \<and>
           (cves = [] \<or>
            (\<exists>resp kevMax epssMax. Enrich cves (Inr resp) \<in> set xs \<and> Usable resp
               \<and> thr_kev_max (pcs_thresholds spc) = Some kevMax
               \<and> thr_epss_max (pcs_thresholds spc) = Some epssMax
               \<and> ex_passed (EvaluateExploitability (er_results resp) kevMax epssMax))))))"

lemma trivy_verdict_passed:
  "stp_phase (trivy_verdict lib thr matched details answer) = CheckPassed \<Longrightarrow>
     \<exists>resp kevMax epssMax. answer = Inr resp \<and> Usable resp \<and> thr_kev_max thr = Some kevMax
       \<and> thr_epss_max thr = Some epssMax \<and> ex_passed (EvaluateExploitability (er_results resp) kevMax epssMax)"
  by (auto simp: trivy_verdict_def Let_def split: sum.splits option.splits if_splits)

lemma score_reports_ens:
  "ensures (score_reports api spc img reports)
     (\<lambda>r xs. score_post (api_lib api) spc img reports r xs \<and> check_log env owner xs)"
proof (cases "match_reports (api_lib api) img reports [] []")
  case (Pair matched ids)
  obtain cves dropped where ex: "ExtractCVEs ids = (cves, dropped)" by fastforce
  show ?thesis
    unfolding score_reports_def Pair ex Let_def prod.case
    apply (intro ens_rules)
    using trivy_verdict_ok
    by (auto simp: score_post_def Pair ex step_ok_def [of "step_of _ _ _"] step_ok_def [of "stp_requeue_update _ _"]
        step_ok_def [of "stp_details_update _ _"] dest: trivy_verdict_passed)
qed

definition trivy_good ::
  "'w preview_api \<Rightarrow> preview_check \<Rightarrow> pc_spec_t \<Rightarrow> check_env \<Rightarrow> preview_check \<times> check_step result
    \<Rightarrow> preview_call list \<Rightarrow> bool" where
  "trivy_good api pc spc env pr xs \<longleftrightarrow>
     step_good env (pc_name pc) (snd pr) xs
     \<and> (fst pr = pc \<or> (\<exists>img. fst pr = set_resolved_image img pc))
     \<and> (\<forall>s. snd pr = Inr s \<longrightarrow> stp_phase s = CheckPassed \<longrightarrow>
          (\<exists>reports ys img. ListReports (ce_ns_name env) (Inr reports) \<in> set xs \<and> set ys \<subseteq> set xs
             \<and> fst pr = set_resolved_image img pc \<and> (pcs_image spc \<noteq> [] \<longrightarrow> img = pcs_image spc)
             \<and> score_post (api_lib api) spc img reports (Inr s) ys))"

lemma resolveWorkloadImage_ens: "ensures (resolveWorkloadImage api env) (\<lambda>r xs. check_log env owner xs)"
  unfolding resolveWorkloadImage_def by (intro ens_rules) auto

lemma checkTrivy_ens: "ensures (checkTrivy api pc spc env) (trivy_good api pc spc env)"
proof -
  have ir: "ensures (if pcs_image spc = [] then resolveWorkloadImage api env
      else State_Monad.return (Inr (pcs_image spc)))
      (\<lambda>r xs. check_log env (pc_name pc) xs \<and> (pcs_image spc \<noteq> [] \<longrightarrow> r = Inr (pcs_image spc)))"
    by (intro ens_if ens_return ens_weaken [OF resolveWorkloadImage_ens [where owner = "pc_name pc"]]) auto
  show ?thesis
    unfolding checkTrivy_def
    apply (rule ens_bindI [OF ir])
    apply (intro ens_sum ens_if ens_let ens_return ens_bind ens_operate)
       apply (simp_all add: trivy_good_def step_good_def step_ok_def)[3]
    subgoal for a xs img r err
      by (auto dest: list_failed_good simp: step_ok_def list_failed_def namespaceGoneStep_def split: if_splits)
    apply (rule ens_weaken [OF score_reports_ens [where env = env and owner = "pc_name pc"]])
    apply (rule ens_return)
    subgoal for a xs img r reports s ys
      apply (auto simp: trivy_good_def step_good_def)
       apply (auto simp: score_post_def)
      done
    done
qed

lemma run_smoke_ens: "ensures (run_smoke api pc env smoke) (step_good env (pc_name pc))"
  unfolding run_smoke_def
  apply (rule ens_bindI [OF resolveHTTPTarget_ens [where owner = "pc_name pc"]])
  apply (intro ens_sum ens_if ens_let ens_return)
    apply (simp_all add: step_good_def step_ok_def)[2]
  apply (rule ens_bindI [OF ensureJob_ens [OF smokeJob_ok]])
  apply (intro ens_sum ens_let ens_prod ens_return)
    apply (simp_all add: step_good_def)[2]
  subgoal for a xs b r ys b' j phase p2 jr jm
    by (cases phase)
       (auto simp: step_good_def step_ok_def
         intro!: ens_return ens_bindI [OF tailJob_ens [where owner = "pc_name pc" and env = env]])
  done

lemma checkSmoke_ens: "ensures (checkSmoke api pc env) (step_good env (pc_name pc))"
  unfolding checkSmoke_def Let_def
  apply (intro ens_bind ens_operate ens_sum ens_option ens_if ens_return)
     apply (auto simp: step_good_def step_ok_def smoke_skipped_def split: if_splits)[3]
  apply (rule ens_weaken [OF run_smoke_ens])
  apply (simp add: step_good_def)
  done

definition eval_good ::
  "preview_check \<Rightarrow> check_env \<Rightarrow> preview_check \<times> check_step result \<Rightarrow> preview_call list \<Rightarrow> bool" where
  "eval_good pc env pr xs \<longleftrightarrow>
     step_good env (pc_name pc) (snd pr) xs
     \<and> (fst pr = pc \<or> (\<exists>img. fst pr = set_resolved_image img pc))"

lemma keep_pc_ens: "ensures m (step_good env (pc_name pc)) \<Longrightarrow> ensures (keep_pc pc m) (eval_good pc env)"
  unfolding keep_pc_def
  by (rule ens_bindI, assumption) (auto simp: eval_good_def intro!: ens_return)

lemma evaluateCheck_ens: "ensures (evaluateCheck api cf pc spc env name) (eval_good pc env)"
proof (cases name)
  case CheckTrivy
  then show ?thesis
    by (auto simp: evaluateCheck_def eval_good_def trivy_good_def intro: ens_weaken [OF checkTrivy_ens])
qed (auto simp: evaluateCheck_def step_good_def step_ok_def
      intro!: keep_pc_ens checkReadiness_ens checkHTTP_ens checkSmoke_ens ens_return)

subsection \<open>The probe's log reads back\<close>

lemma less_10: "d < (10::nat) \<longleftrightarrow> d \<in> {0, 1, 2, 3, 4, 5, 6, 7, 8, 9}"
  by auto

lemma digit_val_char: "d < 10 \<Longrightarrow> digit_val (digit_char d) = int d"
  unfolding less_10 by (auto simp: digit_val_def digit_char_def)

lemma is_digit_char: "d < 10 \<Longrightarrow> is_digit (digit_char d)"
  unfolding less_10 by (auto simp: is_digit_def digit_char_def)

lemma nat_digits_digits: "list_all is_digit (nat_digits n)"
proof (induction n rule: nat_digits.induct)
  case (1 n)
  then show ?case by (subst nat_digits.simps) (simp add: is_digit_char)
qed

lemma atoi_append: "atoi_digits (s @ [c]) = 10 * atoi_digits s + digit_val c"
  by (simp add: atoi_digits_def)

lemma atoi_nat_digits: "atoi_digits (nat_digits n) = int n"
proof (induction n rule: nat_digits.induct)
  case (1 n)
  show ?case
  proof (cases "n < 10")
    case True
    then show ?thesis by (subst nat_digits.simps) (simp add: atoi_digits_def digit_val_char)
  next
    case False
    have "10 * int (n div 10) + int (n mod 10) = int n"
      by (metis div_mult_mod_eq mult.commute of_nat_add of_nat_mult of_nat_numeral)
    with False 1 show ?thesis
      by (subst nat_digits.simps) (simp add: atoi_append digit_val_char)
  qed
qed

lemma itoa_nonneg: "0 \<le> c \<Longrightarrow> itoa c = nat_digits (nat c)"
  by (simp add: itoa_def)

lemma is_digit_facts: "is_digit c \<Longrightarrow> \<not> is_space c \<and> c \<noteq> CHR ''='' \<and> c \<noteq> CHR ''-''"
  by (auto simp: is_digit_def is_space_def)

lemma itoa_chars: "\<forall>c\<in>set (itoa i). \<not> is_space c \<and> c \<noteq> CHR ''=''"
  using nat_digits_digits [of "nat i"] nat_digits_digits [of "nat (- i)"] is_digit_facts
  by (auto simp: itoa_def list_all_iff is_space_def)

lemma nat_digits_inj: "nat_digits m = nat_digits n \<Longrightarrow> m = n"
  by (metis atoi_nat_digits of_nat_eq_iff)

lemma itoa_inj: "itoa a = itoa b \<Longrightarrow> a = b"
proof -
  assume eq: "itoa a = itoa b"
  have ne: "nat_digits m \<noteq> CHR ''-'' # s" for m s
    using nat_digits_digits [of m] is_digit_facts [of "CHR ''-''"] by auto
  show ?thesis using eq ne nat_digits_inj
    by (auto simp: itoa_def split: if_splits dest!: nat_digits_inj)
      (metis ne)+
qed

lemma nat_digits_three:
  assumes "100 \<le> n" and "n \<le> 999"
  shows "length (nat_digits n) = 3"
proof -
  have "nat_digits n = nat_digits (n div 10) @ [digit_char (n mod 10)]"
    using assms by (subst nat_digits.simps) simp
  moreover have "nat_digits (n div 10) = nat_digits (n div 100) @ [digit_char (n div 10 mod 10)]"
    using assms by (subst nat_digits.simps) (simp add: div_mult2_eq [symmetric])
  moreover have "nat_digits (n div 100) = [digit_char (n div 100)]"
    using assms by (subst nat_digits.simps) simp
  ultimately show ?thesis by simp
qed

lemma status_at_eq: "status_at s \<noteq> None \<Longrightarrow> CHR ''='' \<in> set s"
  by (auto simp: status_at_def has_prefix_iff split: if_splits)

lemma status_matches_none: "CHR ''='' \<notin> set s \<Longrightarrow> status_matches s = []"
proof (induction s)
  case (Cons x s)
  then have "status_at (x # s) = None" using status_at_eq [of "x # s"] by blast
  with Cons show ?case by (subst status_matches.simps) simp
qed (simp add: status_matches.simps)

lemma status_matches_step: "status_at (x # s) = None \<Longrightarrow> status_matches (x # s) = status_matches s"
  by (subst status_matches.simps) simp

lemma status_matches_log:
  assumes "length d = 3" and "list_all is_digit d"
  shows "status_matches (''probe: status='' @ d @ rest) = d # status_matches rest"
proof -
  have at: "status_at (''status='' @ d @ rest) = Some d"
    using assms by (simp add: status_at_def has_prefix_def)
  have no: "status_at (x # s) = None" if "x \<noteq> CHR ''s''" for x s
    using that by (simp add: status_at_def has_prefix_def)
  have "status_matches (''probe: status='' @ d @ rest) = status_matches (''status='' @ d @ rest)"
    by (simp add: status_matches_step [OF no])
  also have "\<dots> = d # status_matches rest"
    using assms(1) by (subst status_matches.simps) (simp add: at [simplified])
  finally show ?thesis .
qed

lemma shell_words_append:
  "\<forall>c\<in>set w. \<not> is_space c \<Longrightarrow> shell_words (w @ s) acc = shell_words s (acc @ w)"
  by (induction w arbitrary: acc) auto

lemma shell_words_join:
  "\<forall>w\<in>set ws. w \<noteq> [] \<and> (\<forall>c\<in>set w. \<not> is_space c) \<Longrightarrow> shell_words (join_with '' '' ws) [] = ws"
proof (induction "'' ''" ws rule: join_with.induct)
  case (2 x)
  then show ?case using shell_words_append [of x "[]" "[]"] by simp
next
  case (3 x y ys)
  have "is_space CHR '' ''" by (simp add: is_space_def)
  with 3 show ?case using shell_words_append [of x "'' '' @ join_with '' '' (y # ys)" "[]"] by simp
qed simp

lemma expect_words_split: "shell_words (expect_words statuses) [] = map itoa statuses"
  unfolding expect_words_def by (rule shell_words_join) (use itoa_chars in auto)

lemma StatusAccepted_iff: "StatusAccepted c statuses \<longleftrightarrow> c \<in> set statuses"
  by (induction statuses) auto

lemma expect_words_no_eq: "CHR ''='' \<notin> set (expect_words statuses)"
proof -
  have "CHR ''='' \<notin> set (join_with '' '' ws)" if "\<forall>w\<in>set ws. CHR ''='' \<notin> set w" for ws
    using that by (induction "'' ''" ws rule: join_with.induct) auto
  then show ?thesis unfolding expect_words_def using itoa_chars by (metis (no_types, lifting) imageE list.set_map)
qed

lemma run_probe_exit:
  "fst (run_probe target (expect_words statuses) (Some (itoa c))) =
     (if StatusAccepted c statuses then 0 else 2)"
  by (auto simp: run_probe_def expect_words_split StatusAccepted_iff list_ex_iff Let_def dest: itoa_inj)

lemma run_probe_parse:
  assumes "100 \<le> c" and "c \<le> 999"
  shows "parseProbeStatus (snd (run_probe target (expect_words statuses) (Some (itoa c)))) = Some c"
proof -
  have d: "length (itoa c) = 3" "list_all is_digit (itoa c)"
    using assms nat_digits_three [of "nat c"] nat_digits_digits [of "nat c"] by (auto simp: itoa_nonneg)
  have a: "atoi_digits (itoa c) = c" using assms by (simp add: itoa_nonneg atoi_nat_digits)
  obtain rest where r: "snd (run_probe target (expect_words statuses) (Some (itoa c)))
      = ''probe: status='' @ itoa c @ rest" and n: "CHR ''='' \<notin> set rest"
  proof (cases "list_ex (\<lambda>want. itoa c = want) (shell_words (expect_words statuses) [])")
    case True
    then show ?thesis
      by (intro that [of "newline @ ''probe: accepted'' @ newline"])
         (simp_all add: run_probe_def newline_def)
  next
    case False
    then show ?thesis
      using expect_words_no_eq itoa_chars [of c]
      by (intro that [of "newline @ ''probe: unexpected status '' @ itoa c @ '', expected one of '' @
            expect_words statuses @ newline"])
         (auto simp: run_probe_def newline_def)
  qed
  show ?thesis
    unfolding parseProbeStatus_def r status_matches_log [OF d] status_matches_none [OF n]
    by (simp add: a)
qed

subsection \<open>Properties\<close>

lemma exploit_passedD:
  "ex_passed (EvaluateExploitability rs k t) \<Longrightarrow>
     int (length (filter ci_kev rs)) \<le> k \<and> (\<forall>r\<in>set rs. Permille (ci_epss r) \<le> t)"
  using exploit_fold_max [of exploit_zero rs t]
  by (auto simp: EvaluateExploitability_def Let_def exploit_fold_kev exploit_zero_def split: if_splits)

lemma match_reports_snd:
  "snd (match_reports lib img rs m ids) =
     ids @ concat (map (reportVulnerabilityIDs lib) (filter (\<lambda>r. MatchesImage (reportArtifact lib r) img) rs))"
  by (induction rs arbitrary: m ids) (simp_all add: Let_def)

lemma match_reports_fst:
  "fst (match_reports lib img rs m ids) \<noteq> m \<Longrightarrow> \<exists>r\<in>set rs. MatchesImage (reportArtifact lib r) img"
  by (induction rs arbitrary: m ids) (auto simp: Let_def split: if_splits)

definition judged_cves :: "klib \<Rightarrow> string \<Rightarrow> json list \<Rightarrow> string list" where
  "judged_cves lib img reports =
     fst (ExtractCVEs (concat (map (reportVulnerabilityIDs lib)
       (filter (\<lambda>r. MatchesImage (reportArtifact lib r) img) reports))))"

text \<open>Calls that show a scan of an image in a namespace to be clean: a report of the image was read,
  and its CVEs are none, or were all sent to the enricher, whose usable answer stays within both
  thresholds.\<close>

definition scan_clean :: "klib \<Rightarrow> pc_spec_t \<Rightarrow> string \<Rightarrow> string \<Rightarrow> preview_call set \<Rightarrow> bool" where
  "scan_clean lib spc n img E \<longleftrightarrow>
     (\<exists>reports. ListReports n (Inr reports) \<in> E
        \<and> (\<exists>r\<in>set reports. MatchesImage (reportArtifact lib r) img)
        \<and> (judged_cves lib img reports = []
           \<or> (\<exists>resp kevMax epssMax. Enrich (judged_cves lib img reports) (Inr resp) \<in> E \<and> Usable resp
                \<and> thr_kev_max (pcs_thresholds spc) = Some kevMax
                \<and> thr_epss_max (pcs_thresholds spc) = Some epssMax
                \<and> int (length (filter ci_kev (er_results resp))) \<le> kevMax
                \<and> (\<forall>r\<in>set (er_results resp). Permille (ci_epss r) \<le> epssMax))))"

lemma trivy_good_clean:
  assumes g: "trivy_good api pc spc env (pc', Inr s) xs" and s: "stp_phase s = CheckPassed"
  shows "scan_clean (api_lib api) spc (ce_ns_name env) (st_image (pc_status pc')) (set xs)"
    and "pcs_image spc \<noteq> [] \<longrightarrow> st_image (pc_status pc') = pcs_image spc"
proof -
  from g s obtain reports ys img where r: "ListReports (ce_ns_name env) (Inr reports) \<in> set xs"
    "set ys \<subseteq> set xs" "pc' = set_resolved_image img pc" "pcs_image spc \<noteq> [] \<longrightarrow> img = pcs_image spc"
    and p: "score_post (api_lib api) spc img reports (Inr s) ys"
    unfolding trivy_good_def by auto
  obtain matched ids where m: "match_reports (api_lib api) img reports [] [] = (matched, ids)" by fastforce
  have "fst (ExtractCVEs ids) = judged_cves (api_lib api) img reports"
    using match_reports_snd [of "api_lib api" img reports "[]" "[]"] by (simp add: m judged_cves_def)
  with p s have n: "matched \<noteq> []" and d: "judged_cves (api_lib api) img reports = [] \<or>
      (\<exists>resp kevMax epssMax. Enrich (judged_cves (api_lib api) img reports) (Inr resp) \<in> set ys \<and> Usable resp
         \<and> thr_kev_max (pcs_thresholds spc) = Some kevMax \<and> thr_epss_max (pcs_thresholds spc) = Some epssMax
         \<and> ex_passed (EvaluateExploitability (er_results resp) kevMax epssMax))"
    by (auto simp: score_post_def m Let_def)
  have "\<exists>r\<in>set reports. MatchesImage (reportArtifact (api_lib api) r) img"
    using n match_reports_fst [of "api_lib api" img reports "[]" "[]"] by (simp add: m)
  moreover have "judged_cves (api_lib api) img reports = [] \<or>
      (\<exists>resp kevMax epssMax. Enrich (judged_cves (api_lib api) img reports) (Inr resp) \<in> set xs \<and> Usable resp
         \<and> thr_kev_max (pcs_thresholds spc) = Some kevMax \<and> thr_epss_max (pcs_thresholds spc) = Some epssMax
         \<and> int (length (filter ci_kev (er_results resp))) \<le> kevMax
         \<and> (\<forall>r\<in>set (er_results resp). Permille (ci_epss r) \<le> epssMax))"
    using d subsetD [OF r(2)] exploit_passedD by meson
  moreover have i: "st_image (pc_status pc') = img" by (simp add: r(3) set_resolved_image_def)
  ultimately show "scan_clean (api_lib api) spc (ce_ns_name env) (st_image (pc_status pc')) (set xs)"
    unfolding scan_clean_def using r(1) by blast
  show "pcs_image spc \<noteq> [] \<longrightarrow> st_image (pc_status pc') = pcs_image spc" using r(4) i by simp
qed

text \<open>The trivy check fails closed.\<close>

theorem trivy_fails_closed:
  assumes "run_in (checkTrivy api pc spc env) w = ((pc', Inr s), xs)" and "stp_phase s = CheckPassed"
  shows "\<exists>reports img. ListReports (ce_ns_name env) (Inr reports) \<in> set xs
    \<and> st_image (pc_status pc') = img \<and> (pcs_image spc \<noteq> [] \<longrightarrow> img = pcs_image spc)
    \<and> (\<exists>r\<in>set reports. MatchesImage (reportArtifact (api_lib api) r) img)
    \<and> (judged_cves (api_lib api) img reports = [] \<or>
       (\<exists>resp kevMax epssMax. Enrich (judged_cves (api_lib api) img reports) (Inr resp) \<in> set xs
          \<and> Usable resp
          \<and> thr_kev_max (pcs_thresholds spc) = Some kevMax
          \<and> thr_epss_max (pcs_thresholds spc) = Some epssMax
          \<and> int (length (filter ci_kev (er_results resp))) \<le> kevMax
          \<and> (\<forall>r\<in>set (er_results resp). Permille (ci_epss r) \<le> epssMax)))"
  using trivy_good_clean [OF ens_run_in [OF checkTrivy_ens assms(1)] assms(2)] unfolding scan_clean_def by blast

text \<open>The report of a scanned image without findings.\<close>

definition report_demo :: json where
  "report_demo = JObj [(''report'', JObj [
     (''registry'', JObj [(''server'', JStr ''ghcr.io'')]),
     (''artifact'', JObj [(''repository'', JStr ''o/app''), (''tag'', JStr ''1'')]),
     (''vulnerabilities'', JArr [JObj [(''vulnerabilityID'', JStr ''CVE-1'')]])])]"

lemma trivy_demo_run:
  "run_in (checkTrivy api_demo pc_demo (Defaulted spec_demo) env_demo)
     (world_demo\<lparr>pw_reports := [report_demo], pw_answer := Inr (empty_response\<lparr>er_kev_total := 9\<rparr>)\<rparr>) =
   ((set_resolved_image ''ghcr.io/o/app:1'' pc_demo,
     Inr ((step_of CheckPassed ReasonEmpty
       ''ghcr.io/o/app:1: 0 CVE(s) enriched, 0 known-exploited, peak EPSS 0.000'')
       \<lparr>stp_details := [(''maxEpssPermille'', ''0''), (''kevCount'', ''0''), (''unknownCves'', ''0''),
          (''image'', ''ghcr.io/o/app:1''), (''findings'', ''1''), (''cves'', ''1'')]\<rparr>)),
    [ListReports ''preview-pr-7'' (Inr [report_demo]),
     Enrich [''CVE-1''] (Inr (empty_response\<lparr>er_kev_total := 9\<rparr>))])"
  by code_simp

theorem trivy_fails_closed_witness:
  "\<exists>reports img. ListReports ''preview-pr-7'' (Inr reports) \<in>
       set [ListReports ''preview-pr-7'' (Inr [report_demo]),
            Enrich [''CVE-1''] (Inr (empty_response\<lparr>er_kev_total := 9\<rparr>))]
     \<and> (\<exists>r\<in>set reports. MatchesImage (reportArtifact klib_demo r) img)"
proof -
  have "ce_ns_name env_demo = ''preview-pr-7''" "api_lib api_demo = klib_demo"
    by (simp_all add: env_demo_def api_demo_def)
  then show ?thesis using trivy_fails_closed [OF trivy_demo_run] by fastforce
qed

text \<open>C29 The probe's exit code and log agree with the reconciler: for any three-digit status code the
  script succeeds exactly when the code is accepted, the log reads back as that code, and a
  refused code is reported as an unexpected status with the code in the details.\<close>

theorem probe_verdict_roundtrip:
  assumes "100 \<le> c" and "c \<le> 999"
    and "run_probe target (expect_words (pcs_expect_status spc)) (Some (itoa c)) = (code, out)"
  shows "(code = 0 \<longleftrightarrow> StatusAccepted c (pcs_expect_status spc))
    \<and> parseProbeStatus out = Some c
    \<and> (code \<noteq> 0 \<longrightarrow>
         stp_reason (probe_failed_step spc details reason message out) = ReasonUnexpectedStatus
         \<and> sget (stp_details (probe_failed_step spc details reason message out)) ''httpStatus'' = itoa c)"
proof -
  have p: "parseProbeStatus out = Some c"
    using run_probe_parse [OF assms(1,2), of target "pcs_expect_status spc"] by (simp add: assms(3))
  moreover have e: "code = (if StatusAccepted c (pcs_expect_status spc) then 0 else 2)"
    using run_probe_exit [of target "pcs_expect_status spc" c] by (simp add: assms(3))
  ultimately show ?thesis by (auto simp: probe_failed_step_def Let_def)
qed

lemma probe_demo_run:
  "run_probe ''http://x'' (expect_words (pcs_expect_status (Defaulted spec_demo))) (Some (itoa 503)) =
     (2, ''probe: status=503'' @ newline @ ''probe: unexpected status 503, expected one of '' @
         ''200 201 202 203 204 301 302 303 307 308'' @ newline)"
  by code_simp

theorem probe_verdict_roundtrip_witness:
  "parseProbeStatus (snd (run_probe ''http://x'' (expect_words (pcs_expect_status (Defaulted spec_demo)))
     (Some (itoa 503)))) = Some 503"
  unfolding probe_demo_run snd_conv
  by (rule probe_verdict_roundtrip [OF _ _ probe_demo_run, THEN conjunct2, THEN conjunct1]) simp_all

text \<open>A probe that got no answer is still read as the status that the target URL spells out.\<close>

lemma failed_probe_misread:
  "fst (run_probe ''http://a:80/?status=500'' ''200'' None) = 1
   \<and> stp_reason (probe_failed_step (Defaulted spec_demo) [] [] []
       (snd (run_probe ''http://a:80/?status=500'' ''200'' None))) = ReasonUnexpectedStatus"
  by code_simp

end
