(* ===== verification/Verdicts.thy ===== *)
theory Verdicts
  imports Main
begin

section \<open>The contract of a verdict machine\<close>

text \<open>
  A check is a machine whose steps may reach a terminal state, and whose callers read the
  verdict once it has. What they rely on is that no step changes the verdict of a terminal
  state: then the verdict is stable along every later run, and two readers agree.
\<close>

locale verdict_machine =
  fixes step :: "'s \<Rightarrow> 's \<Rightarrow> bool"
    and terminal :: "'s \<Rightarrow> bool"
    and verdict :: "'s \<Rightarrow> 'v"
  assumes terminal_step: "step s t \<Longrightarrow> terminal s \<Longrightarrow> terminal t \<and> verdict t = verdict s"
begin

lemma terminal_run: "step\<^sup>*\<^sup>* s t \<Longrightarrow> terminal s \<Longrightarrow> terminal t \<and> verdict t = verdict s"
  by (induction rule: rtranclp_induct) (auto dest: terminal_step)

lemma readers_agree:
  assumes "step\<^sup>*\<^sup>* s t" and "step\<^sup>*\<^sup>* t u" and "terminal t"
  shows "verdict u = verdict t"
  using terminal_run [OF assms(2,3)] by simp

end

end
