(* ===== verification/Preview_Check.thy ===== *)
theory Preview_Check
  imports Preview_Checks Verdicts
begin

section \<open>The PreviewCheck reconciler: internal/controller/previewcheck_controller.go\<close>

text \<open>
  One reconcile pass: deletion and finalizer, the terminal short-cut and the self-delete
  backstop, the start stamp, the TTL, the namespace and Kustomization gates, and one step of
  one check, published as a status write.
\<close>

definition previewCheckFinalizer :: string where
  "previewCheckFinalizer = ''preview.homelab.io/preview-check''"

definition PreviewAppLabel :: string where
  "PreviewAppLabel = ''preview-app''"

abbreviation selfDeleteGrace :: duration where "selfDeleteGrace \<equiv> 24 * hour"
abbreviation maxCheckMessage :: int where "maxCheckMessage \<equiv> 4096"

subsection \<open>Tables and lookups\<close>

definition terminalPhaseFor :: "pc_reason \<Rightarrow> pc_phase" where
  "terminalPhaseFor reason =
     (if reason \<in> {ReasonScanMissing, ReasonEnrichmentUnavailable, ReasonQuotaExceeded,
                   ReasonTargetUnresolved, ReasonTimeout}
      then PreviewCheckExpired else PreviewCheckFailed)"

definition orderedChecks :: "check_name list \<Rightarrow> check_name list" where
  "orderedChecks selected =
     filter (\<lambda>n. n \<in> set selected) [CheckReadiness, CheckHTTP, CheckTrivy, CheckSmoke]"

definition findCheck :: "check_result list \<Rightarrow> check_name \<Rightarrow> check_result option" where
  "findCheck rs name = List.find (\<lambda>r. cr_name r = name) rs"

fun upsertCheck :: "check_result list \<Rightarrow> check_result \<Rightarrow> check_result list" where
  "upsertCheck [] res = [res]"
| "upsertCheck (r # rs) res = (if cr_name r = cr_name res then res # rs else r # upsertCheck rs res)"

definition check_done :: "check_result list \<Rightarrow> check_name \<Rightarrow> bool" where
  "check_done rs name =
     (case findCheck rs name of None \<Rightarrow> False | Some r \<Rightarrow> check_terminal (cr_phase r))"

definition allChecksTerminal :: "check_result list \<Rightarrow> pc_spec_t \<Rightarrow> bool" where
  "allChecksTerminal rs spc = list_all (check_done rs) (orderedChecks (pcs_checks spc))"

definition anyCheckStarted :: "check_result list \<Rightarrow> bool" where
  "anyCheckStarted rs = list_ex (\<lambda>r. cr_phase r \<noteq> CheckPending) rs"

definition requeueLadder :: "duration \<Rightarrow> duration" where
  "requeueLadder elapsed =
     (if elapsed < minute then 5 * second
      else if elapsed < 5 * minute then 15 * second
      else 30 * second)"

definition metricApp :: "preview_check \<Rightarrow> string \<Rightarrow> string" where
  "metricApp pc resolved =
     (if resolved \<noteq> [] then resolved
      else if pcs_app (pc_spec pc) \<noteq> [] then pcs_app (pc_spec pc)
      else ''unknown'')"

subsection \<open>Publishing\<close>

record status_update =
  u_phase :: pc_phase
  u_reason :: pc_reason
  u_message :: string
  u_requeue :: duration
  u_app :: string
  u_check_done :: "check_result option"

definition update_of :: "pc_phase \<Rightarrow> pc_reason \<Rightarrow> string \<Rightarrow> string \<Rightarrow> status_update" where
  "update_of phase reason app message =
     \<lparr>u_phase = phase, u_reason = reason, u_message = message, u_requeue = 0, u_app = app,
      u_check_done = None\<rparr>"

definition phase_condition :: "pc_phase \<Rightarrow> cond_status" where
  "phase_condition phase =
     (case phase of
        PreviewCheckPassed \<Rightarrow> CondTrue
      | PreviewCheckFailed \<Rightarrow> CondFalse
      | PreviewCheckExpired \<Rightarrow> CondFalse
      | _ \<Rightarrow> CondUnknown)"

definition publish_status :: "klib \<Rightarrow> preview_check \<Rightarrow> status_update \<Rightarrow> instant \<Rightarrow> preview_check" where
  "publish_status lib pc u now =
     (let st = pc_status pc;
          message = truncateMessage (u_message u) maxCheckMessage;
          becameTerminal = pc_terminal (u_phase u) \<and> \<not> pc_terminal (st_phase st)
      in pc\<lparr>pc_status := st\<lparr>
           st_phase := u_phase u, st_message := message,
           st_observed_generation := pc_generation pc,
           st_conditions := lib_set_condition lib (st_conditions st)
             \<lparr>cond_type = ConditionSucceeded, cond_status = phase_condition (u_phase u),
              cond_reason = reason_text (u_reason u), cond_message = truncateMessage message 32768,
              cond_observed_generation = pc_generation pc, cond_last_transition = now\<rparr>,
           st_completed := (if becameTerminal then Some now else st_completed st)\<rparr>\<rparr>)"

definition pc_event ::
  "'w preview_api \<Rightarrow> pc_phase \<Rightarrow> pc_reason \<Rightarrow> string \<Rightarrow> ('w, unit) pprog" where
  "pc_event api phase reason message =
     whenM (api_recorder api)
       (emit (Event
          (if phase = PreviewCheckFailed \<or> phase = PreviewCheckExpired then EventWarning else EventNormal)
          (if reason = ReasonEmpty then ''Running'' else reason_text reason)
          (truncateMessage message 1024)))"

definition count_check :: "string \<Rightarrow> check_result option \<Rightarrow> ('w, unit) pprog" where
  "count_check app cd =
     (case cd of
        None \<Rightarrow> State_Monad.return ()
      | Some r \<Rightarrow> emit (CountCheck app (check_text (cr_name r)) (check_phase_text (cr_phase r))))"

definition count_verdict ::
  "string \<Rightarrow> pc_phase \<Rightarrow> pc_reason \<Rightarrow> instant option \<Rightarrow> instant \<Rightarrow> ('w, unit) pprog" where
  "count_verdict app phase reason started now =
     do {
       emit (CountVerdict app phase reason);
       case started of
         None \<Rightarrow> State_Monad.return ()
       | Some t \<Rightarrow> emit (ObserveDuration app (time_sub now t))
     }"

definition publish ::
  "'w preview_api \<Rightarrow> preview_check \<Rightarrow> status_update \<Rightarrow> ('w, reconcile_result) pprog" where
  "publish api pc u =
     (let prevPhase = st_phase (pc_status pc);
          prevReason = (case lib_find_condition (api_lib api) (st_conditions (pc_status pc))
                               ConditionSucceeded of
                          Some c \<Rightarrow> cond_reason c
                        | None \<Rightarrow> []);
          becameTerminal = pc_terminal (u_phase u) \<and> \<not> pc_terminal prevPhase
      in do {
        now \<leftarrow> operate (api_now api) Now;
        let pc = publish_status (api_lib api) pc u now;
        r \<leftarrow> operate (api_update_status api pc) (UpdateStatus pc);
        case r of
          Inl err \<Rightarrow> State_Monad.return (requeueOnConflict err)
        | Inr pc \<Rightarrow>
            (let app = metricApp pc (u_app u) in
             do {
               count_check app (u_check_done u);
               whenM becameTerminal
                 (count_verdict app (u_phase u) (u_reason u) (st_started (pc_status pc)) now);
               whenM (prevPhase \<noteq> u_phase u \<or> prevReason \<noteq> reason_text (u_reason u))
                 (pc_event api (u_phase u) (u_reason u) (st_message (pc_status pc)));
               State_Monad.return
                 (if pc_terminal (u_phase u) then (res_done, None)
                  else (res_requeue_after (u_requeue u), None))
             })
      })"

definition pendingOrExpired ::
  "'w preview_api \<Rightarrow> preview_check \<Rightarrow> check_env \<Rightarrow> pc_reason \<Rightarrow> string
    \<Rightarrow> ('w, reconcile_result) pprog" where
  "pendingOrExpired api pc env reason message =
     publish api pc
       (if ce_past_deadline env then update_of PreviewCheckExpired reason (ce_app env) message
        else (update_of PreviewCheckPending reason (ce_app env) message)
               \<lparr>u_requeue := requeueLadder (ce_elapsed env)\<rparr>)"

subsection \<open>The namespace\<close>

definition finish :: "('w, 'r) pprog \<Rightarrow> ('w, 'r + 'a) pprog" where
  "finish m = do { r \<leftarrow> m; State_Monad.return (Inl r) }"

definition observe_namespace ::
  "pc_config \<Rightarrow> pc_spec_t \<Rightarrow> string \<Rightarrow> string \<Rightarrow> preview_check \<Rightarrow> preview_check" where
  "observe_namespace cf spc nsName app pc =
     pc\<lparr>pc_status := (pc_status pc)\<lparr>st_namespace := nsName,
       st_host := ''pr-'' @ itoa (pcs_pr spc) @ ''-'' @ app @ ''.preview.'' @ cf_preview_domain cf\<rparr>\<rparr>"

text \<open>Either the pass's result, or the PreviewCheck and environment with the namespace resolved.\<close>

definition resolveNamespace ::
  "'w preview_api \<Rightarrow> pc_config \<Rightarrow> preview_check \<Rightarrow> pc_spec_t \<Rightarrow> check_env
    \<Rightarrow> ('w, reconcile_result + preview_check \<times> check_env) pprog" where
  "resolveNamespace api cf pc spc env =
     (let nsName = ce_ns_name env in
      do {
        got \<leftarrow> operate (api_get_namespace api nsName) (GetNamespace nsName);
        let gone = (case got of Inl err \<Rightarrow> IsNotFound err | Inr ns \<Rightarrow> ns_deleting ns);
        if gone \<and> st_namespace (pc_status pc) \<noteq> [] then
          finish (publish api pc (update_of PreviewCheckFailed ReasonNamespaceGone []
            (''preview namespace '' @ nsName @ '' was observed and has since been removed'')))
        else if gone then
          finish (pendingOrExpired api pc env ReasonNamespaceGone
            (''preview namespace '' @ nsName @ '' has not been rendered yet''))
        else
          (case got of
             Inl err \<Rightarrow> State_Monad.return (Inl (res_done, Some err))
           | Inr ns \<Rightarrow>
               if sget (ns_labels ns) PreviewEnvironmentLabel \<noteq> ''true'' then
                 finish (pendingOrExpired api pc env ReasonNamespaceGone
                   (''namespace '' @ nsName @ '' is not labelled '' @ PreviewEnvironmentLabel @ ''=true''))
               else
                 let app = sget (ns_labels ns) PreviewAppLabel in
                 if app = [] then
                   finish (pendingOrExpired api pc env ReasonTargetUnresolved
                     (''namespace '' @ nsName @ '' carries no '' @ PreviewAppLabel @ '' label yet''))
                 else if pcs_app spc \<noteq> [] \<and> pcs_app spc \<noteq> app then
                   finish (publish api pc (update_of PreviewCheckFailed ReasonAppMismatch app
                     (''spec.app '' @ go_quote (pcs_app spc) @ '' does not match the preview namespace's ''
                      @ PreviewAppLabel @ ''='' @ go_quote app)))
                 else
                   State_Monad.return
                     (Inr (observe_namespace cf spc nsName app pc,
                           env\<lparr>ce_ns := Some ns, ce_app := app\<rparr>)))
      })"

subsection \<open>The Kustomization gate\<close>

text \<open>Settled, or the reason, the detail and whether it is explicitly not ready.\<close>

definition kustomizationSettled ::
  "klib \<Rightarrow> kustomization \<Rightarrow> string \<Rightarrow> bool \<times> pc_reason \<times> string \<times> bool" where
  "kustomizationSettled lib ks revision =
     (let no = (\<lambda>detail. (False, ReasonKustomizationNotReady, detail, False)) in
      if ks_suspend ks then no ''preview Kustomization is still suspended''
      else if sget (ks_annotations ks) CredentialsPatchedAnnotation \<noteq> ''true''
      then no ''preview credentials have not been patched in yet''
      else if ks_generation ks \<noteq> ks_observed_generation ks
      then no (''preview Kustomization generation '' @ itoa (ks_generation ks) @
               '' not observed (at '' @ itoa (ks_observed_generation ks) @ '')'')
      else
        case lib_find_condition lib (ks_conditions ks) ''Ready'' of
          None \<Rightarrow> no ''preview Kustomization has no Ready condition yet''
        | Some ready \<Rightarrow>
            if cond_observed_generation ready \<noteq> 0
               \<and> cond_observed_generation ready \<noteq> ks_generation ks
            then no (''preview Kustomization Ready condition is stale (observed '' @
                     itoa (cond_observed_generation ready) @ '', want '' @ itoa (ks_generation ks) @ '')'')
            else if cond_status ready = CondFalse
            then (False, ReasonKustomizationNotReady,
                  ''preview Kustomization is not Ready: '' @ cond_reason ready @ '': '' @ cond_message ready,
                  True)
            else if cond_status ready \<noteq> CondTrue
            then no ''preview Kustomization readiness is unknown''
            else if revision \<noteq> [] \<and> \<not> has_suffix (ks_last_applied ks) revision
            then (False, ReasonRevisionMismatch,
                  ''preview applied '' @ go_quote (ks_last_applied ks) @
                  '', which does not end with the requested revision '' @ go_quote revision, False)
            else (True, ReasonEmpty, ''preview Kustomization applied '' @ ks_last_applied ks, False))"

definition checkGate ::
  "'w preview_api \<Rightarrow> preview_check \<Rightarrow> pc_spec_t \<Rightarrow> check_env
    \<Rightarrow> ('w, reconcile_result + unit) pprog" where
  "checkGate api pc spc env =
     (let ksName = ''preview-app-'' @ itoa (pcs_pr spc) in
      do {
        got \<leftarrow> operate (api_get_kustomization api (ce_ns_name env) ksName)
                (GetKustomization (ce_ns_name env) ksName);
        if (case got of Inl err \<Rightarrow> \<not> IsNotFound err | Inr _ \<Rightarrow> False)
        then State_Monad.return
               (Inl (res_done, case got of Inl err \<Rightarrow> Some err | Inr _ \<Rightarrow> None))
        else
          let (settled, reason, detail, readyFalse) =
                (case got of
                   Inl _ \<Rightarrow> (False, ReasonKustomizationNotReady,
                             ''Kustomization '' @ ce_ns_name env @ ''/'' @ ksName @ '' not found'', False)
                 | Inr ks \<Rightarrow> kustomizationSettled (api_lib api) ks (pcs_revision spc))
          in if settled then State_Monad.return (Inr ())
             else if ce_past_deadline env then
               finish (publish api pc (update_of
                 (if readyFalse \<or> reason = ReasonRevisionMismatch then PreviewCheckFailed
                  else PreviewCheckExpired) reason (ce_app env) detail))
             else
               finish (publish api pc
                 ((update_of (if anyCheckStarted (st_checks (pc_status pc)) then PreviewCheckRunning
                              else PreviewCheckPending) reason (ce_app env) detail)
                    \<lparr>u_requeue := requeueLadder (ce_elapsed env)\<rparr>))
      })"

subsection \<open>Advancing one check\<close>

text \<open>The run deadline turns an unfinished step into a failed one.\<close>

definition deadline_step :: "check_env \<Rightarrow> check_step \<Rightarrow> check_step" where
  "deadline_step env step =
     (if \<not> check_terminal (stp_phase step) \<and> ce_past_deadline env then
        step\<lparr>stp_phase := CheckFailed,
             stp_reason := (case stp_reason step of
                              ReasonEmpty \<Rightarrow> ReasonTimeout
                            | ReasonRunning \<Rightarrow> ReasonTimeout
                            | ReasonScanPending \<Rightarrow> ReasonScanMissing
                            | r \<Rightarrow> r),
             stp_message := trim_space (''run deadline reached: '' @ stp_message step)\<rparr>
      else step)"

definition step_result :: "check_env \<Rightarrow> check_name \<Rightarrow> instant \<Rightarrow> check_step \<Rightarrow> check_result" where
  "step_result env name startedAt step =
     \<lparr>cr_name = name, cr_phase = stp_phase step, cr_reason = stp_reason step,
      cr_message = truncateMessage (stp_message step) maxCheckMessage,
      cr_started = Some startedAt,
      cr_finished = (if check_terminal (stp_phase step) then Some (ce_now env) else None),
      cr_details = stp_details step\<rparr>"

definition record_check :: "check_result \<Rightarrow> preview_check \<Rightarrow> preview_check" where
  "record_check res pc =
     pc\<lparr>pc_status := (pc_status pc)\<lparr>st_checks := upsertCheck (st_checks (pc_status pc)) res\<rparr>\<rparr>"

definition step_update ::
  "preview_check \<Rightarrow> pc_spec_t \<Rightarrow> check_env \<Rightarrow> check_name \<Rightarrow> check_step \<Rightarrow> status_update" where
  "step_update pc spc env name step =
     (if stp_phase step = CheckFailed then
        update_of
          (if stp_cr_phase step = NoPhase then terminalPhaseFor (stp_reason step) else stp_cr_phase step)
          (stp_reason step) (ce_app env)
          (check_text name @ '' check failed: '' @ stp_message step)
      else if check_terminal (stp_phase step) \<and> allChecksTerminal (st_checks (pc_status pc)) spc then
        update_of PreviewCheckPassed ReasonAllChecksPassed (ce_app env)
          (itoa (int (length (st_checks (pc_status pc)))) @ '' check(s) passed'')
      else if check_terminal (stp_phase step) then
        (update_of PreviewCheckRunning ReasonRunning (ce_app env)
           (check_text name @ '' check '' @ to_lower (check_phase_text (stp_phase step))))
          \<lparr>u_requeue := second\<rparr>
      else
        (update_of PreviewCheckRunning
           (if stp_reason step = ReasonEmpty then ReasonRunning else stp_reason step) (ce_app env)
           (check_text name @ '' check running: '' @ stp_message step))
          \<lparr>u_requeue := (if stp_requeue step = 0 then requeueLadder (ce_elapsed env)
                         else stp_requeue step)\<rparr>)"

definition advanceCheck ::
  "'w preview_api \<Rightarrow> pc_config \<Rightarrow> preview_check \<Rightarrow> pc_spec_t \<Rightarrow> check_env \<Rightarrow> check_name
    \<Rightarrow> check_result option \<Rightarrow> ('w, reconcile_result) pprog" where
  "advanceCheck api cf pc spc env name existing =
     (let prevPhase = (case existing of None \<Rightarrow> CheckPending | Some r \<Rightarrow> cr_phase r);
          startedAt = (case existing of
                         None \<Rightarrow> ce_now env
                       | Some r \<Rightarrow> (case cr_started r of None \<Rightarrow> ce_now env | Some t \<Rightarrow> t))
      in do {
        (pc, r) \<leftarrow> evaluateCheck api cf pc spc env name;
        case r of
          Inl err \<Rightarrow>
            if ce_past_deadline env then
              publish api pc (update_of PreviewCheckExpired ReasonTimeout (ce_app env)
                (check_text name @ '' check could not complete before the run deadline: '' @ err_text err))
            else State_Monad.return (res_done, Some err)
        | Inr raw \<Rightarrow>
            let step = deadline_step env raw;
                res = step_result env name startedAt step;
                pc = record_check res pc
            in publish api pc ((step_update pc spc env name step)
                 \<lparr>u_check_done := (if \<not> check_terminal prevPhase \<and> check_terminal (stp_phase step)
                                   then Some res else None)\<rparr>)
      })"

fun runChecks_loop ::
  "'w preview_api \<Rightarrow> pc_config \<Rightarrow> preview_check \<Rightarrow> pc_spec_t \<Rightarrow> check_env \<Rightarrow> check_name list
    \<Rightarrow> ('w, reconcile_result) pprog" where
  "runChecks_loop api cf pc spc env [] =
     publish api pc (update_of PreviewCheckPassed ReasonAllChecksPassed (ce_app env)
       (itoa (int (length (st_checks (pc_status pc)))) @ '' check(s) passed''))"
| "runChecks_loop api cf pc spc env (name # names) =
     (if check_done (st_checks (pc_status pc)) name then runChecks_loop api cf pc spc env names
      else advanceCheck api cf pc spc env name (findCheck (st_checks (pc_status pc)) name))"

definition runChecks ::
  "'w preview_api \<Rightarrow> pc_config \<Rightarrow> preview_check \<Rightarrow> pc_spec_t \<Rightarrow> check_env
    \<Rightarrow> ('w, reconcile_result) pprog" where
  "runChecks api cf pc spc env = runChecks_loop api cf pc spc env (orderedChecks (pcs_checks spc))"

subsection \<open>Teardown\<close>

fun delete_jobs :: "'w preview_api \<Rightarrow> job list \<Rightarrow> ('w, goerr option) pprog" where
  "delete_jobs api [] = State_Monad.return None"
| "delete_jobs api (j # js) =
     do {
       r \<leftarrow> operate (api_delete_job api j PropagationBackground) (DeleteJob j PropagationBackground);
       case r of
         None \<Rightarrow> delete_jobs api js
       | Some err \<Rightarrow>
           if IsNotFound err \<or> namespaceUnavailable err then delete_jobs api js
           else State_Monad.return (Some (errorf (''delete job '' @ job_ref j @ '': '') err))
     }"

definition preview_ns_of :: "preview_check \<Rightarrow> string" where
  "preview_ns_of pc =
     (if st_namespace (pc_status pc) = [] then ''preview-pr-'' @ itoa (pcs_pr (pc_spec pc))
      else st_namespace (pc_status pc))"

definition teardown :: "'w preview_api \<Rightarrow> preview_check \<Rightarrow> ('w, goerr option) pprog" where
  "teardown api pc =
     (let nsName = preview_ns_of pc in
      do {
        r \<leftarrow> listCheckJobs api nsName (pc_name pc);
        case r of
          Inl err \<Rightarrow>
            State_Monad.return
              (if namespaceUnavailable err then None
               else Some (errorf (''list check jobs in '' @ nsName @ '': '') err))
        | Inr jobs \<Rightarrow> delete_jobs api jobs
      })"

subsection \<open>Reconcile\<close>

definition reconcile_deleted ::
  "'w preview_api \<Rightarrow> preview_check \<Rightarrow> ('w, reconcile_result) pprog" where
  "reconcile_deleted api pc =
     (let lib = api_lib api in
      if lib_contains_finalizer lib (pc_finalizers pc) previewCheckFinalizer then
        do {
          r \<leftarrow> teardown api pc;
          case r of
            Some err \<Rightarrow> State_Monad.return (res_requeue_after (15 * second), None)
          | None \<Rightarrow>
              let pc = pc\<lparr>pc_finalizers :=
                    lib_remove_finalizer lib (pc_finalizers pc) previewCheckFinalizer\<rparr>
              in do {
                u \<leftarrow> operate (api_update_pc api pc) (UpdatePC pc);
                State_Monad.return
                  (case u of Inl err \<Rightarrow> requeueOnConflict err | Inr _ \<Rightarrow> (res_done, None))
              }
        }
      else State_Monad.return (res_done, None))"

definition add_finalizer_pass ::
  "'w preview_api \<Rightarrow> preview_check \<Rightarrow> ('w, reconcile_result) pprog" where
  "add_finalizer_pass api pc =
     (let pc = pc\<lparr>pc_finalizers :=
           lib_add_finalizer (api_lib api) (pc_finalizers pc) previewCheckFinalizer\<rparr>
      in do {
        u \<leftarrow> operate (api_update_pc api pc) (UpdatePC pc);
        State_Monad.return
          (case u of Inl err \<Rightarrow> requeueOnConflict err | Inr _ \<Rightarrow> (res_requeue_now, None))
      })"

definition self_delete_pass ::
  "'w preview_api \<Rightarrow> preview_check \<Rightarrow> instant \<Rightarrow> ('w, reconcile_result) pprog" where
  "self_delete_pass api pc now =
     (if (case st_expires (pc_status pc) of None \<Rightarrow> False | Some t \<Rightarrow> t + selfDeleteGrace < now)
      then do {
        r \<leftarrow> operate (api_delete_pc api pc) (DeletePC pc);
        State_Monad.return (res_done, ignore_not_found r)
      }
      else State_Monad.return (res_done, None))"

definition start_pass ::
  "'w preview_api \<Rightarrow> preview_check \<Rightarrow> pc_spec_t \<Rightarrow> instant \<Rightarrow> ('w, reconcile_result) pprog" where
  "start_pass api pc spc now =
     publish api
       (pc\<lparr>pc_status := (pc_status pc)\<lparr>st_started := Some now,
          st_expires := Some (now + dur_seconds (pcs_ttl spc))\<rparr>\<rparr>)
       ((update_of PreviewCheckPending ReasonPending [] ''waiting for the preview environment'')
          \<lparr>u_requeue := 5 * second\<rparr>)"

definition make_env :: "preview_check \<Rightarrow> pc_spec_t \<Rightarrow> instant \<Rightarrow> instant \<Rightarrow> check_env" where
  "make_env pc spc started now =
     \<lparr>ce_now = now, ce_elapsed = time_sub now started,
      ce_past_deadline = (started + dur_seconds (pcs_timeout spc) \<le> now),
      ce_pr = pcs_pr spc, ce_ns_name = ''preview-pr-'' @ itoa (pcs_pr spc),
      ce_id = CheckID (pc_uid pc) (pc_name pc), ce_ns = None, ce_app = []\<rparr>"

definition judge_pass ::
  "'w preview_api \<Rightarrow> pc_config \<Rightarrow> preview_check \<Rightarrow> pc_spec_t \<Rightarrow> check_env
    \<Rightarrow> ('w, reconcile_result) pprog" where
  "judge_pass api cf pc spc env =
     do {
       nr \<leftarrow> resolveNamespace api cf pc spc env;
       case nr of
         Inl res \<Rightarrow> State_Monad.return res
       | Inr (pc, env) \<Rightarrow>
           do {
             gr \<leftarrow> checkGate api pc spc env;
             case gr of
               Inl res \<Rightarrow> State_Monad.return res
             | Inr _ \<Rightarrow> runChecks api cf pc spc env
           }
     }"

definition Reconcile ::
  "'w preview_api \<Rightarrow> pc_config \<Rightarrow> string \<Rightarrow> string \<Rightarrow> ('w, reconcile_result) pprog" where
  "Reconcile api cf ns name =
     do {
       got \<leftarrow> operate (api_get_pc api ns name) (GetPC ns name);
       case got of
         Inl err \<Rightarrow> State_Monad.return (res_done, ignore_not_found (Some err))
       | Inr pc \<Rightarrow>
           if pc_deleting pc then reconcile_deleted api pc
           else if \<not> lib_contains_finalizer (api_lib api) (pc_finalizers pc) previewCheckFinalizer
           then add_finalizer_pass api pc
           else
             let spc = Defaulted (pc_spec pc) in
             do {
               now \<leftarrow> operate (api_now api) Now;
               if pc_terminal (st_phase (pc_status pc)) then self_delete_pass api pc now
               else
                 (case st_started (pc_status pc) of
                    None \<Rightarrow> start_pass api pc spc now
                  | Some started \<Rightarrow>
                      if (case st_expires (pc_status pc) of None \<Rightarrow> False | Some t \<Rightarrow> t \<le> now)
                      then publish api pc (update_of PreviewCheckExpired ReasonTimeout []
                             ''TTL expired before a verdict was reached'')
                      else judge_pass api cf pc spc (make_env pc spc started now))
             }
     }"

subsection \<open>What a pass publishes\<close>

text \<open>
  The log of a publish: the clock, one status write, and, when the write landed, the counters
  and the event. \<open>published\<close> says that a log is some calls of a given kind followed by such a publish of an
  object and update that satisfy a relation.
\<close>

definition verdict_entered :: "preview_check \<Rightarrow> status_update \<Rightarrow> bool" where
  "verdict_entered pc u \<longleftrightarrow> pc_terminal (u_phase u) \<and> \<not> pc_terminal (st_phase (pc_status pc))"

fun is_counter :: "preview_call \<Rightarrow> bool" where
  "is_counter (CountVerdict _ _ _) = True"
| "is_counter (CountCheck _ _ _) = True"
| "is_counter (ObserveDuration _ _) = True"
| "is_counter (Event _ _ _) = True"
| "is_counter _ = False"

definition verdicts :: "preview_call list \<Rightarrow> (string \<times> pc_phase \<times> pc_reason) list" where
  "verdicts xs = concat (map (\<lambda>c. case c of CountVerdict a p r \<Rightarrow> [(a, p, r)] | _ \<Rightarrow> []) xs)"

definition check_counts :: "preview_call list \<Rightarrow> (string \<times> string \<times> string) list" where
  "check_counts xs = concat (map (\<lambda>c. case c of CountCheck a n p \<Rightarrow> [(a, n, p)] | _ \<Rightarrow> []) xs)"

definition check_label :: "check_result \<Rightarrow> string \<times> string" where
  "check_label r = (check_text (cr_name r), check_phase_text (cr_phase r))"

definition tail_ok :: "preview_check \<Rightarrow> status_update \<Rightarrow> preview_check result \<Rightarrow> preview_call list \<Rightarrow> bool" where
  "tail_ok pc u r ys \<longleftrightarrow>
     list_all is_counter ys \<and>
     (case r of
        Inl _ \<Rightarrow> ys = []
      | Inr stored \<Rightarrow>
          map snd (verdicts ys) = (if verdict_entered pc u then [(u_phase u, u_reason u)] else [])
          \<and> map snd (check_counts ys) = (case u_check_done u of None \<Rightarrow> [] | Some r \<Rightarrow> [check_label r]))"

definition publish_res :: "status_update \<Rightarrow> preview_check result \<Rightarrow> reconcile_result" where
  "publish_res u r =
     (case r of
        Inl err \<Rightarrow> requeueOnConflict err
      | Inr _ \<Rightarrow> if pc_terminal (u_phase u) then (res_done, None) else (res_requeue_after (u_requeue u), None))"

definition published ::
  "klib \<Rightarrow> (preview_call \<Rightarrow> bool) \<Rightarrow> (preview_check \<Rightarrow> status_update \<Rightarrow> bool) \<Rightarrow> reconcile_result
    \<Rightarrow> preview_call list \<Rightarrow> bool" where
  "published lib L Q res xs \<longleftrightarrow>
     (\<exists>pre now pc u r ys.
        xs = pre @ Now now # UpdateStatus (publish_status lib pc u now) r # ys
        \<and> list_all L pre \<and> Q pc u \<and> tail_ok pc u r ys \<and> res = publish_res u r)"

lemma verdicts_append [simp]: "verdicts (xs @ ys) = verdicts xs @ verdicts ys"
  by (simp add: verdicts_def)

lemma check_counts_append [simp]: "check_counts (xs @ ys) = check_counts xs @ check_counts ys"
  by (simp add: check_counts_def)

lemma publishedI:
  assumes "xs = [Now now] @ [UpdateStatus (publish_status lib pc u now) r] @ ys"
    and "Q pc u \<and> res = publish_res u r" and "tail_ok pc u r ys"
  shows "published lib L Q res xs"
  unfolding published_def
  by (rule exI [of _ "[]"], intro exI [of _ now] exI [of _ pc] exI [of _ u] exI [of _ r] exI [of _ ys])
     (use assms in simp)

lemma publish_ens: "ensures (publish api pc u) (published (api_lib api) L (\<lambda>pc' u'. pc' = pc \<and> u' = u))"
proof -
  have tail: "ensures (do {
        count_check app (u_check_done u);
        whenM bt (count_verdict app (u_phase u) (u_reason u) started now);
        whenM tr (pc_event api (u_phase u) (u_reason u) msg);
        State_Monad.return (if pc_terminal (u_phase u) then (res_done, None)
                  else (res_requeue_after (u_requeue u), None))})
      (\<lambda>res ys. res = publish_res u (Inr stored) \<and> (bt = verdict_entered pc u \<longrightarrow> tail_ok pc u (Inr stored) ys))"
    for app bt tr started now msg stored
    unfolding count_check_def count_verdict_def pc_event_def
    by (intro ens_rules)
       (auto simp: publish_res_def tail_ok_def verdicts_def check_counts_def check_label_def split: option.splits)
  show ?thesis
    unfolding publish_def Let_def
    apply (rule ens_bind, rule ens_operate)
    apply (rule ens_bind, rule ens_operate)
    apply (rule ens_sum)
     apply (rule ens_return)
     apply (rule publishedI, rule refl)
      apply (simp add: publish_res_def)
     apply (simp add: tail_ok_def)
    subgoal for now r stored
      by (rule ens_weaken [OF tail [where stored = stored]], rule publishedI, rule refl)
         (simp_all add: verdict_entered_def)
    done
qed

lemma published_weaken:
  assumes "published lib L Q res xs" and "\<And>c. L c \<Longrightarrow> L' c" and "\<And>pc u. Q pc u \<Longrightarrow> Q' pc u"
  shows "published lib L' Q' res xs"
  using assms unfolding published_def by (metis (mono_tags, lifting) list.pred_mono_strong)

lemma published_append:
  assumes "published lib L Q res xs" and "list_all L zs"
  shows "published lib L Q res (zs @ xs)"
proof -
  from assms(1) obtain pre now pc u r ys where
    "xs = pre @ Now now # UpdateStatus (publish_status lib pc u now) r # ys"
    "list_all L pre" "Q pc u" "tail_ok pc u r ys" "res = publish_res u r"
    unfolding published_def by blast
  then show ?thesis
    unfolding published_def
    by (intro exI [of _ "zs @ pre"] exI [of _ now] exI [of _ pc] exI [of _ u] exI [of _ r] exI [of _ ys])
       (use assms(2) in simp)
qed

subsection \<open>The two gates\<close>

definition is_gate_read :: "preview_call \<Rightarrow> bool" where
  "is_gate_read c \<longleftrightarrow> (\<exists>a r. c = GetNamespace a r) \<or> (\<exists>a b r. c = GetKustomization a b r)"

text \<open>What a closed gate may publish: never a pass, and a failure only for a namespace that went
  away, a mismatched application, or, at the deadline, manifests that do not apply.\<close>

definition gate_update :: "check_env \<Rightarrow> check_result list \<Rightarrow> status_update \<Rightarrow> bool" where
  "gate_update env checks u \<longleftrightarrow>
     u_check_done u = None \<and>
     (case u_phase u of
        PreviewCheckPending \<Rightarrow> \<not> ce_past_deadline env
      | PreviewCheckRunning \<Rightarrow> \<not> ce_past_deadline env \<and> anyCheckStarted checks
      | PreviewCheckExpired \<Rightarrow> ce_past_deadline env
          \<and> u_reason u \<in> {ReasonNamespaceGone, ReasonTargetUnresolved, ReasonKustomizationNotReady}
      | PreviewCheckFailed \<Rightarrow> u_reason u \<in> {ReasonNamespaceGone, ReasonAppMismatch}
          \<or> ce_past_deadline env \<and> u_reason u \<in> {ReasonRevisionMismatch, ReasonKustomizationNotReady}
      | _ \<Rightarrow> False)"

definition touched :: "preview_check \<Rightarrow> preview_check \<Rightarrow> bool" where
  "touched pc pc' \<longleftrightarrow>
     (\<exists>ns host img. pc' = pc\<lparr>pc_status := (pc_status pc)
        \<lparr>st_namespace := ns, st_host := host, st_image := img\<rparr>\<rparr>)"

definition gate_rel :: "preview_check \<Rightarrow> check_env \<Rightarrow> preview_check \<Rightarrow> status_update \<Rightarrow> bool" where
  "gate_rel pc env pc' u \<longleftrightarrow> touched pc pc' \<and> gate_update env (st_checks (pc_status pc)) u"

definition gate_post ::
  "klib \<Rightarrow> preview_check \<Rightarrow> check_env \<Rightarrow> reconcile_result \<Rightarrow> preview_call list \<Rightarrow> bool" where
  "gate_post lib pc env res xs \<longleftrightarrow>
     (list_all is_gate_read xs \<and> (\<exists>e. res = (res_done, Some e)))
     \<or> published lib is_gate_read (gate_rel pc env) res xs"

lemma touched_refl [simp]: "touched pc pc"
  unfolding touched_def
  by (rule exI [of _ "st_namespace (pc_status pc)"], rule exI [of _ "st_host (pc_status pc)"],
      rule exI [of _ "st_image (pc_status pc)"]) simp

lemma touched_trans: "touched a b \<Longrightarrow> touched b c \<Longrightarrow> touched a c"
  unfolding touched_def by (elim exE) (simp, blast)

lemma touched_observe [simp]: "touched pc (observe_namespace cf spc n app pc)"
  unfolding touched_def observe_namespace_def
  by (rule exI, rule exI, rule exI [of _ "st_image (pc_status pc)"]) simp

lemma touched_image [simp]: "touched pc (set_resolved_image img pc)"
  unfolding touched_def set_resolved_image_def
  by (rule exI [of _ "st_namespace (pc_status pc)"], rule exI [of _ "st_host (pc_status pc)"], rule exI) simp

lemma touched_sel:
  "touched pc pc' \<Longrightarrow> st_checks (pc_status pc') = st_checks (pc_status pc)
     \<and> st_phase (pc_status pc') = st_phase (pc_status pc) \<and> pc_spec pc' = pc_spec pc
     \<and> pc_name pc' = pc_name pc \<and> st_started (pc_status pc') = st_started (pc_status pc)
     \<and> st_expires (pc_status pc') = st_expires (pc_status pc)"
  unfolding touched_def by auto

lemma update_of_sel [simp]:
  "u_phase (update_of p r a m) = p" "u_reason (update_of p r a m) = r" "u_app (update_of p r a m) = a"
  "u_message (update_of p r a m) = m" "u_check_done (update_of p r a m) = None"
  "u_requeue (update_of p r a m) = 0"
  by (simp_all add: update_of_def)

lemma publish_gate:
  assumes "touched pc0 pc" and "gate_update env (st_checks (pc_status pc0)) u"
  shows "ensures (publish api pc u) (gate_post (api_lib api) pc0 env)"
proof (rule ens_weaken [OF publish_ens [where L = is_gate_read]])
  fix res xs
  assume "published (api_lib api) is_gate_read (\<lambda>pc' u'. pc' = pc \<and> u' = u) res xs"
  then have "published (api_lib api) is_gate_read (gate_rel pc0 env) res xs"
    by (rule published_weaken) (use assms in \<open>simp_all add: gate_rel_def\<close>)
  then show "gate_post (api_lib api) pc0 env res xs" by (simp add: gate_post_def)
qed

lemma pendingOrExpired_gate:
  assumes "touched pc0 pc" and "r = ReasonNamespaceGone \<or> r = ReasonTargetUnresolved"
  shows "ensures (pendingOrExpired api pc env r m) (gate_post (api_lib api) pc0 env)"
  unfolding pendingOrExpired_def
  by (rule publish_gate [OF assms(1)]) (use assms(2) in \<open>auto simp: gate_update_def\<close>)

lemma ens_finish:
  "ensures m (\<lambda>r xs. P (Inl r) xs) \<Longrightarrow> ensures (finish m) P"
  unfolding finish_def by (rule ens_bindI, assumption) (auto intro!: ens_return)

lemma gate_post_Cons:
  "is_gate_read c \<Longrightarrow> gate_post lib pc env res xs \<Longrightarrow> gate_post lib pc env res (c # xs)"
  unfolding gate_post_def using published_append [of lib is_gate_read "gate_rel pc env" res xs "[c]"]
  by auto

definition resolved_env :: "check_env \<Rightarrow> namespace \<Rightarrow> check_env" where
  "resolved_env env ns = env\<lparr>ce_ns := Some ns, ce_app := sget (ns_labels ns) PreviewAppLabel\<rparr>"

lemma resolveNamespace_ens:
  "ensures (resolveNamespace api cf pc spc env)
     (\<lambda>r xs. case r of
        Inl res \<Rightarrow> gate_post (api_lib api) pc env res xs
      | Inr (pc', env') \<Rightarrow>
          (\<exists>ns. xs = [GetNamespace (ce_ns_name env) (Inr ns)] \<and> \<not> ns_deleting ns
             \<and> ns_is_preview (Some ns) \<and> sget (ns_labels ns) PreviewAppLabel \<noteq> []
             \<and> (pcs_app spc = [] \<or> pcs_app spc = sget (ns_labels ns) PreviewAppLabel)
             \<and> env' = resolved_env env ns
             \<and> pc' = observe_namespace cf spc (ce_ns_name env) (sget (ns_labels ns) PreviewAppLabel) pc))"
proof -
  have gr: "is_gate_read (GetNamespace a r)" for a r by (simp add: is_gate_read_def)
  note fin = ens_finish ens_weaken [OF publish_gate [OF touched_refl]]
    ens_weaken [OF pendingOrExpired_gate [OF touched_refl]]
  show ?thesis
    unfolding resolveNamespace_def Let_def
    apply (rule ens_bind, rule ens_operate)
    apply (intro ens_if ens_sum fin ens_return)
    apply (auto simp: gr gate_update_def ns_is_preview_def resolved_env_def intro!: gate_post_Cons)
    apply (auto simp: gate_post_def gr)
    done
qed

definition ks_name_of :: "pc_spec_t \<Rightarrow> string" where
  "ks_name_of spc = ''preview-app-'' @ itoa (pcs_pr spc)"

lemma kustomizationSettled_reason:
  "kustomizationSettled lib ks rv = (s, r, d, f) \<Longrightarrow>
     \<not> s \<longrightarrow> r = ReasonKustomizationNotReady \<or> r = ReasonRevisionMismatch"
  by (auto simp: kustomizationSettled_def Let_def split: if_splits option.splits)

lemma kustomizationSettled_iff:
  "fst (kustomizationSettled lib ks rv) \<longleftrightarrow>
     \<not> ks_suspend ks \<and> sget (ks_annotations ks) CredentialsPatchedAnnotation = ''true''
     \<and> ks_generation ks = ks_observed_generation ks
     \<and> (\<exists>c. lib_find_condition lib (ks_conditions ks) ''Ready'' = Some c \<and> cond_status c = CondTrue
          \<and> (cond_observed_generation c = 0 \<or> cond_observed_generation c = ks_generation ks))
     \<and> (rv = [] \<or> has_suffix (ks_last_applied ks) rv)"
  by (auto simp: kustomizationSettled_def Let_def split: option.splits)

lemma checkGate_ens:
  "ensures (checkGate api pc spc env)
     (\<lambda>r xs. case r of
        Inl res \<Rightarrow> gate_post (api_lib api) pc env res xs
      | Inr _ \<Rightarrow>
          (\<exists>ks. xs = [GetKustomization (ce_ns_name env) (ks_name_of spc) (Inr ks)]
             \<and> fst (kustomizationSettled (api_lib api) ks (pcs_revision spc))))"
proof -
  have gr: "is_gate_read (GetKustomization a b r)" for a b r by (simp add: is_gate_read_def)
  have rsn: "r = ReasonKustomizationNotReady \<or> r = ReasonRevisionMismatch"
    if "(case got of Inl _ \<Rightarrow> (False, ReasonKustomizationNotReady, m, False)
         | Inr ks \<Rightarrow> kustomizationSettled (api_lib api) ks (pcs_revision spc)) = (False, r, d, f)"
    for got m r d f
    using that kustomizationSettled_reason by (fastforce split: sum.splits)
  show ?thesis
    unfolding checkGate_def Let_def ks_name_of_def [symmetric]
    apply (rule ens_bind, rule ens_operate)
    apply (rule ens_if)
     apply (rule ens_return)
     apply (auto simp: gate_post_def gr split: sum.splits)[1]
    apply (rule ens_prod)+
    apply (intro ens_if ens_return)
      apply (auto split: sum.splits)[1]
     apply (rule ens_finish, rule ens_weaken [OF publish_gate [OF touched_refl]])
      apply (auto simp: gate_update_def dest: rsn)[1]
     apply (auto intro: gate_post_Cons gr)[1]
    apply (rule ens_finish, rule ens_weaken [OF publish_gate [OF touched_refl]])
     apply (auto simp: gate_update_def dest: rsn)[1]
    apply (auto intro: gate_post_Cons gr)[1]
    done
qed

subsection \<open>One step of one check\<close>

definition same_but_checks :: "preview_check \<Rightarrow> check_result list \<Rightarrow> preview_check \<Rightarrow> bool" where
  "same_but_checks pc checks pc' \<longleftrightarrow>
     (\<exists>pc1. touched pc pc1 \<and> pc' = pc1\<lparr>pc_status := (pc_status pc1)\<lparr>st_checks := checks\<rparr>\<rparr>)"

text \<open>
  What judging may publish, from the checks recorded so far: the check that is next in the
  fixed order takes one step; or all are done; or, past the deadline, an error of the operator's
  own is resolved as inconclusive.
\<close>

definition next_check :: "check_result list \<Rightarrow> pc_spec_t \<Rightarrow> check_name \<Rightarrow> bool" where
  "next_check checks spc name \<longleftrightarrow>
     (\<exists>done rest. orderedChecks (pcs_checks spc) = done @ name # rest
        \<and> list_all (check_done checks) done \<and> \<not> check_done checks name)"

definition step_rel ::
  "preview_check \<Rightarrow> pc_spec_t \<Rightarrow> check_env \<Rightarrow> check_name \<Rightarrow> preview_check \<Rightarrow> status_update \<Rightarrow> bool" where
  "step_rel pc spc env name pc' u \<longleftrightarrow>
     (\<exists>raw started. step_ok raw \<and>
        (let step = deadline_step env raw; res = step_result env name started step in
         same_but_checks pc (upsertCheck (st_checks (pc_status pc)) res) pc'
         \<and> u = (step_update pc' spc env name step)
                 \<lparr>u_check_done := (if check_terminal (stp_phase step) then Some res else None)\<rparr>))"

definition run_rel ::
  "preview_check \<Rightarrow> pc_spec_t \<Rightarrow> check_env \<Rightarrow> preview_check \<Rightarrow> status_update \<Rightarrow> bool" where
  "run_rel pc spc env pc' u \<longleftrightarrow>
     (\<exists>name. next_check (st_checks (pc_status pc)) spc name \<and> step_rel pc spc env name pc' u)
     \<or> (touched pc pc' \<and> u_check_done u = None \<and>
        (list_all (check_done (st_checks (pc_status pc))) (orderedChecks (pcs_checks spc))
           \<and> u_phase u = PreviewCheckPassed \<and> u_reason u = ReasonAllChecksPassed
         \<or> ce_past_deadline env \<and> u_phase u = PreviewCheckExpired \<and> u_reason u = ReasonTimeout))"

definition run_post ::
  "klib \<Rightarrow> preview_check \<Rightarrow> pc_spec_t \<Rightarrow> check_env \<Rightarrow> reconcile_result \<Rightarrow> preview_call list \<Rightarrow> bool" where
  "run_post lib pc spc env res xs \<longleftrightarrow>
     (check_log env (pc_name pc) xs \<and> \<not> ce_past_deadline env \<and> (\<exists>e. res = (res_done, Some e)))
     \<or> published lib (check_call env (pc_name pc)) (run_rel pc spc env) res xs"

lemma publish_run:
  assumes "run_rel pc0 spc env pc u"
  shows "ensures (publish api pc u) (run_post (api_lib api) pc0 spc env)"
proof (rule ens_weaken [OF publish_ens [where L = "check_call env (pc_name pc0)"]])
  fix res xs
  assume "published (api_lib api) (check_call env (pc_name pc0)) (\<lambda>pc' u'. pc' = pc \<and> u' = u) res xs"
  then have "published (api_lib api) (check_call env (pc_name pc0)) (run_rel pc0 spc env) res xs"
    by (rule published_weaken) (use assms in simp_all)
  then show "run_post (api_lib api) pc0 spc env res xs" by (simp add: run_post_def)
qed

lemma run_post_append:
  "check_log env (pc_name pc) zs \<Longrightarrow> run_post lib pc spc env res xs \<Longrightarrow> run_post lib pc spc env res (zs @ xs)"
  unfolding run_post_def
  using published_append [of lib "check_call env (pc_name pc)" "run_rel pc spc env" res xs zs] by fastforce

lemma advanceCheck_ens:
  assumes nxt: "next_check (st_checks (pc_status pc)) spc name"
  shows "ensures (advanceCheck api cf pc spc env name (findCheck (st_checks (pc_status pc)) name))
           (run_post (api_lib api) pc spc env)"
proof -
  let ?ex = "findCheck (st_checks (pc_status pc)) name"
  let ?prev = "case ?ex of None \<Rightarrow> CheckPending | Some r \<Rightarrow> cr_phase r"
  have np: "\<not> check_terminal ?prev"
    using nxt by (auto simp: next_check_def check_done_def split: option.splits)
  have rel: "run_rel pc spc env (record_check (step_result env name st (deadline_step env raw)) pc1)
      ((step_update (record_check (step_result env name st (deadline_step env raw)) pc1) spc env name
          (deadline_step env raw))
        \<lparr>u_check_done := (if \<not> check_terminal ?prev \<and> check_terminal (stp_phase (deadline_step env raw))
            then Some (step_result env name st (deadline_step env raw)) else None)\<rparr>)"
    if t: "touched pc pc1" and ok: "step_ok raw" for pc1 raw st
  proof -
    have "same_but_checks pc (upsertCheck (st_checks (pc_status pc)) (step_result env name st (deadline_step env raw)))
        (record_check (step_result env name st (deadline_step env raw)) pc1)"
      unfolding same_but_checks_def record_check_def using t touched_sel [OF t] by auto
    with nxt ok np show ?thesis
      unfolding run_rel_def step_rel_def Let_def by auto
  qed
  have tc: "touched pc (fst pr)" if "eval_good pc env pr xs" for pr xs
    using that by (auto simp: eval_good_def)
  show ?thesis
    unfolding advanceCheck_def
    apply (subst Let_def)
    apply (subst Let_def)
    apply (rule ens_bindI [OF evaluateCheck_ens])
    apply (rule ens_prod)
    apply (rule ens_sum)
     apply (rule ens_if)
      apply (rule ens_weaken [OF publish_run])
       apply (auto simp: run_rel_def dest: tc)[1]
      apply (auto simp: eval_good_def step_good_def intro: run_post_append)[1]
     apply (rule ens_return)
     apply (auto simp: run_post_def eval_good_def step_good_def)[1]
    apply (rule ens_let)+
    apply (rule ens_weaken [OF publish_run [OF rel]])
      apply (auto dest: tc)[1]
     apply (auto simp: eval_good_def step_good_def)[1]
    apply (auto simp: eval_good_def step_good_def intro: run_post_append)[1]
    done
qed

lemma runChecks_loop_ens:
  "orderedChecks (pcs_checks spc) = done @ names \<Longrightarrow> list_all (check_done (st_checks (pc_status pc))) done \<Longrightarrow>
   ensures (runChecks_loop api cf pc spc env names) (run_post (api_lib api) pc spc env)"
proof (induction names arbitrary: "done")
  case Nil
  then show ?case by (auto simp: run_rel_def intro!: publish_run)
next
  case (Cons name names)
  show ?case
  proof (cases "check_done (st_checks (pc_status pc)) name")
    case True
    then show ?thesis using Cons.IH [of "done @ [name]"] Cons.prems by simp
  next
    case False
    then have "next_check (st_checks (pc_status pc)) spc name"
      using Cons.prems by (auto simp: next_check_def)
    then show ?thesis using False by (simp add: advanceCheck_ens)
  qed
qed

lemma runChecks_ens: "ensures (runChecks api cf pc spc env) (run_post (api_lib api) pc spc env)"
  unfolding runChecks_def by (rule runChecks_loop_ens [of spc "[]"]) simp_all

subsection \<open>A whole pass\<close>

text \<open>The namespace carries the preview label, is not being deleted and names the application.\<close>

definition ns_ready :: "pc_spec_t \<Rightarrow> namespace \<Rightarrow> bool" where
  "ns_ready spc ns \<longleftrightarrow> \<not> ns_deleting ns \<and> ns_is_preview (Some ns)
     \<and> sget (ns_labels ns) PreviewAppLabel \<noteq> []
     \<and> (pcs_app spc = [] \<or> pcs_app spc = sget (ns_labels ns) PreviewAppLabel)"

definition judge_post ::
  "klib \<Rightarrow> preview_check \<Rightarrow> pc_spec_t \<Rightarrow> check_env \<Rightarrow> reconcile_result \<Rightarrow> preview_call list \<Rightarrow> bool" where
  "judge_post lib pc spc env res xs \<longleftrightarrow>
     gate_post lib pc env res xs
     \<or> (\<exists>ns ks pc1 ys. xs = GetNamespace (ce_ns_name env) (Inr ns)
            # GetKustomization (ce_ns_name env) (ks_name_of spc) (Inr ks) # ys
          \<and> ns_ready spc ns \<and> fst (kustomizationSettled lib ks (pcs_revision spc))
          \<and> touched pc pc1 \<and> run_post lib pc1 spc (resolved_env env ns) res ys)"

lemma resolved_env_sel [simp]:
  "ce_ns_name (resolved_env env ns) = ce_ns_name env"
  "ce_past_deadline (resolved_env env ns) = ce_past_deadline env"
  "ce_now (resolved_env env ns) = ce_now env"
  "ce_id (resolved_env env ns) = ce_id env"
  "ce_ns (resolved_env env ns) = Some ns"
  "ce_app (resolved_env env ns) = sget (ns_labels ns) PreviewAppLabel"
  by (simp_all add: resolved_env_def)

lemma gate_post_touched:
  assumes "touched pc pc1" and "gate_post lib pc1 (resolved_env env ns) res xs"
  shows "gate_post lib pc env res xs"
proof -
  have "gate_rel pc1 (resolved_env env ns) pc' u \<Longrightarrow> gate_rel pc env pc' u" for pc' u
    using touched_trans [OF assms(1)] touched_sel [OF assms(1)]
    by (auto simp: gate_rel_def gate_update_def split: pc_phase.splits)
  then show ?thesis
    using assms(2) published_weaken unfolding gate_post_def by blast
qed

lemma judge_pass_ens: "ensures (judge_pass api cf pc spc env) (judge_post (api_lib api) pc spc env)"
  unfolding judge_pass_def
  apply (rule ens_bindI [OF resolveNamespace_ens])
  apply (rule ens_sum)
   apply (rule ens_return)
   apply (simp add: judge_post_def)
  apply (rule ens_prod)
  apply (rule ens_bindI [OF checkGate_ens])
  apply (rule ens_sum)
   apply (rule ens_return)
  subgoal premises p for a xs b pc1 env1 r ys res
  proof -
    from p(1) p(2) p(3) obtain ns where ns: "xs = [GetNamespace (ce_ns_name env) (Inr ns)]"
      "env1 = resolved_env env ns"
      "pc1 = observe_namespace cf spc (ce_ns_name env) (sget (ns_labels ns) PreviewAppLabel) pc"
      by auto
    from p(4,5) have "gate_post (api_lib api) pc1 env1 res ys" by simp
    then have "gate_post (api_lib api) pc env res ys"
      unfolding ns by (rule gate_post_touched [OF touched_observe])
    then show ?thesis
      unfolding judge_post_def ns by (simp add: gate_post_Cons is_gate_read_def)
  qed
  subgoal premises p for a xs b pc1 env1 r ys res
  proof -
    from p(1) p(2) p(3) obtain ns where ns: "xs = [GetNamespace (ce_ns_name env) (Inr ns)]"
      "env1 = resolved_env env ns" "ns_ready spc ns"
      "pc1 = observe_namespace cf spc (ce_ns_name env) (sget (ns_labels ns) PreviewAppLabel) pc"
      by (auto simp: ns_ready_def)
    from p(4,5) obtain ks where ks: "ys = [GetKustomization (ce_ns_name env) (ks_name_of spc) (Inr ks)]"
      "fst (kustomizationSettled (api_lib api) ks (pcs_revision spc))"
      by (auto simp: ns)
    show ?thesis
      by (rule ens_weaken [OF runChecks_ens], unfold judge_post_def, rule disjI2)
         (use ns ks touched_observe in \<open>fastforce simp: ns\<close>)
  qed
  done

text \<open>The status write of a pass over \<open>pc\<close> at time \<open>now\<close>.\<close>

definition pass_rel :: "preview_check \<Rightarrow> instant \<Rightarrow> preview_check \<Rightarrow> status_update \<Rightarrow> bool" where
  "pass_rel pc now pc' u \<longleftrightarrow>
     \<not> pc_terminal (st_phase (pc_status pc)) \<and>
     (case st_started (pc_status pc) of
        None \<Rightarrow>
          pc' = pc\<lparr>pc_status := (pc_status pc)\<lparr>st_started := Some now,
                   st_expires := Some (now + dur_seconds (pcs_ttl (Defaulted (pc_spec pc))))\<rparr>\<rparr>
          \<and> u_phase u = PreviewCheckPending \<and> u_check_done u = None
      | Some started \<Rightarrow>
          (\<exists>t. st_expires (pc_status pc) = Some t \<and> t \<le> now \<and> pc' = pc
             \<and> u_phase u = PreviewCheckExpired \<and> u_reason u = ReasonTimeout \<and> u_check_done u = None)
          \<or> gate_rel pc (make_env pc (Defaulted (pc_spec pc)) started now) pc' u
          \<or> (\<exists>pc1 ns. touched pc pc1 \<and> ns_ready (Defaulted (pc_spec pc)) ns
               \<and> run_rel pc1 (Defaulted (pc_spec pc))
                   (resolved_env (make_env pc (Defaulted (pc_spec pc)) started now) ns) pc' u))"

fun is_silent :: "preview_call \<Rightarrow> bool" where
  "is_silent (UpdateStatus _ _) = False"
| "is_silent (CountVerdict _ _ _) = False"
| "is_silent (CountCheck _ _ _) = False"
| "is_silent (ObserveDuration _ _) = False"
| "is_silent (Event _ _ _) = False"
| "is_silent (GetPC _ _ _) = False"
| "is_silent _ = True"

text \<open>
  A pass reads the PreviewCheck first. It then either writes no status, or publishes what
  \<open>pass_rel\<close> allows for the object it read.
\<close>

definition active :: "klib \<Rightarrow> preview_check \<Rightarrow> bool" where
  "active lib pc \<longleftrightarrow> \<not> pc_deleting pc \<and> lib_contains_finalizer lib (pc_finalizers pc) previewCheckFinalizer"

definition reconcile_post ::
  "klib \<Rightarrow> string \<Rightarrow> string \<Rightarrow> reconcile_result \<Rightarrow> preview_call list \<Rightarrow> bool" where
  "reconcile_post lib ns name res xs \<longleftrightarrow>
     (\<exists>got ys. xs = GetPC ns name got # ys \<and>
        (list_all is_silent ys \<or>
         (\<exists>pc now. got = Inr pc \<and> active lib pc \<and> Now now \<in> set ys
            \<and> published lib is_silent (pass_rel pc now) res ys)))"

lemma check_call_silent: "check_call env owner c \<Longrightarrow> is_silent c"
  by (cases c) auto

lemma gate_read_silent: "is_gate_read c \<Longrightarrow> is_silent c"
  by (cases c) (auto simp: is_gate_read_def)

lemma judge_post_silent:
  assumes "judge_post lib pc spc env res ys" and "spc = Defaulted (pc_spec pc)"
    and "st_started (pc_status pc) = Some started" and "env = make_env pc spc started now"
    and "\<not> pc_terminal (st_phase (pc_status pc))"
  shows "list_all is_silent ys \<or> published lib is_silent (pass_rel pc now) res ys"
  using assms(1) unfolding judge_post_def
proof (elim disjE exE conjE)
  assume "gate_post lib pc env res ys"
  then show ?thesis
    unfolding gate_post_def
  proof (elim disjE conjE)
    assume "list_all is_gate_read ys"
    then show ?thesis by (auto simp: gate_read_silent intro: list.pred_mono_strong)
  next
    assume "published lib is_gate_read (gate_rel pc env) res ys"
    then have "published lib is_silent (pass_rel pc now) res ys"
      by (rule published_weaken) (use assms(2-5) in \<open>auto simp: gate_read_silent pass_rel_def\<close>)
    then show ?thesis ..
  qed
next
  fix ns ks pc1 zs
  assume ys: "ys = GetNamespace (ce_ns_name env) (Inr ns)
      # GetKustomization (ce_ns_name env) (ks_name_of spc) (Inr ks) # zs"
    and nr: "ns_ready spc ns" and t: "touched pc pc1"
    and rp: "run_post lib pc1 spc (resolved_env env ns) res zs"
  from rp show ?thesis
    unfolding run_post_def
  proof (elim disjE conjE)
    assume "check_log (resolved_env env ns) (pc_name pc1) zs"
    then have "list_all is_silent zs" by (auto simp: check_call_silent intro: list.pred_mono_strong)
    then show ?thesis by (simp add: ys)
  next
    assume "published lib (check_call (resolved_env env ns) (pc_name pc1))
      (run_rel pc1 spc (resolved_env env ns)) res zs"
    then have "published lib is_silent (pass_rel pc now) res zs"
      by (rule published_weaken)
         (use assms(2-5) nr t in \<open>auto simp: pass_rel_def dest: check_call_silent\<close>)
    from published_append [OF this, of "[_, _]"] show ?thesis by (simp add: ys)
  qed
qed

lemma delete_jobs_silent: "ensures (delete_jobs api js) (\<lambda>r xs. list_all is_silent xs)"
proof (induction js)
  case Nil
  show ?case by (auto intro: ens_rules)
next
  case (Cons j js)
  show ?case
    by (auto intro!: ens_rules ens_weaken [OF Cons.IH])
qed

lemma reconcile_deleted_silent: "ensures (reconcile_deleted api pc) (\<lambda>r xs. list_all is_silent xs)"
  unfolding reconcile_deleted_def teardown_def listCheckJobs_def Let_def
  by (intro ens_if ens_bind ens_operate ens_sum ens_option ens_return ens_weaken [OF delete_jobs_silent]) auto

lemma publish_pass:
  assumes "pass_rel pc0 now pc u"
  shows "ensures (publish api pc u) (published (api_lib api) is_silent (pass_rel pc0 now))"
  by (rule ens_weaken [OF publish_ens [where L = is_silent]], erule published_weaken)
     (use assms in simp_all)

lemma published_Cons:
  "is_silent c \<Longrightarrow> published lib is_silent Q res xs \<Longrightarrow> published lib is_silent Q res (c # xs)"
  using published_append [of lib is_silent Q res xs "[c]"] by simp

lemma reconcile_post_published:
  assumes "active lib pc"
    and "list_all is_silent ys \<or> published lib is_silent (pass_rel pc now) res ys"
  shows "reconcile_post lib ns name res ([GetPC ns name (Inr pc)] @ [Now now] @ ys)"
proof -
  have "list_all is_silent (Now now # ys) \<or> published lib is_silent (pass_rel pc now) res (Now now # ys)"
    using assms(2) published_Cons [of "Now now" lib "pass_rel pc now" res ys] by auto
  with assms(1) show ?thesis unfolding reconcile_post_def by auto
qed

lemma Reconcile_ens: "ensures (Reconcile api cf ns name) (reconcile_post (api_lib api) ns name)"
  unfolding Reconcile_def Let_def
  apply (rule ens_bind, rule ens_operate)
  apply (rule ens_sum)
   apply (rule ens_return)
   apply (simp add: reconcile_post_def)
  apply (rule ens_if)
   apply (rule ens_weaken [OF reconcile_deleted_silent])
   apply (simp add: reconcile_post_def)
  apply (rule ens_if)
   apply (unfold add_finalizer_pass_def Let_def)
   apply (rule ens_bind, rule ens_operate, rule ens_return)
   apply (simp add: reconcile_post_def)
  apply (rule ens_bind, rule ens_operate)
  apply (rule ens_if)
   apply (unfold self_delete_pass_def)
   apply (rule ens_if)
    apply (rule ens_bind, rule ens_operate, rule ens_return)
    apply (simp add: reconcile_post_def)
   apply (rule ens_return)
   apply (simp add: reconcile_post_def)
  apply (rule ens_option)
   apply (unfold start_pass_def)
   apply (rule ens_weaken [OF publish_pass])
    apply (auto simp: pass_rel_def)[1]
   apply (simp only:, rule reconcile_post_published, simp add: active_def, erule disjI2)
  apply (rule ens_if)
   apply (rule ens_weaken [OF publish_pass])
    apply (auto simp: pass_rel_def split: option.splits)[1]
   apply (simp only:, rule reconcile_post_published, simp add: active_def, erule disjI2)
  apply (rule ens_weaken [OF judge_pass_ens])
  apply (drule judge_post_silent, rule refl, assumption, rule refl, assumption)
  apply (simp only:, rule reconcile_post_published, simp add: active_def)
  apply assumption
  done

subsection \<open>The recorded checks\<close>

definition check_good :: "check_result \<Rightarrow> bool" where
  "check_good r \<longleftrightarrow> cr_phase r = CheckPassed \<or> cr_phase r = CheckSkipped"

text \<open>The results are the first checks of the fixed order, all but the last of them good.\<close>

definition rec_ok :: "check_name list \<Rightarrow> check_result list \<Rightarrow> bool" where
  "rec_ok ord cs \<longleftrightarrow> map cr_name cs = take (length cs) ord \<and> list_all check_good (butlast cs)"

definition ord_of :: "preview_check \<Rightarrow> check_name list" where
  "ord_of pc = orderedChecks (pcs_checks (Defaulted (pc_spec pc)))"

lemma distinct_ordered: "distinct (orderedChecks cs)"
  by (simp add: orderedChecks_def)

lemma findCheck_in:
  "distinct (map cr_name cs) \<Longrightarrow> findCheck cs n = Some r \<longleftrightarrow> r \<in> set cs \<and> cr_name r = n"
  unfolding findCheck_def by (induction cs) (auto simp: image_iff)

lemma findCheck_None: "findCheck cs n = None \<longleftrightarrow> n \<notin> cr_name ` set cs"
  unfolding findCheck_def by (auto simp: find_None_iff)

lemma check_done_in:
  "distinct (map cr_name cs) \<Longrightarrow>
     check_done cs n \<longleftrightarrow> (\<exists>r\<in>set cs. cr_name r = n \<and> check_terminal (cr_phase r))"
proof (cases "findCheck cs n")
  case None
  then show ?thesis using findCheck_None [of cs n] by (auto simp: check_done_def)
next
  case (Some a)
  assume d: "distinct (map cr_name cs)"
  then have a: "a \<in> set cs" "cr_name a = n" using Some findCheck_in by blast+
  then have "r = a" if "r \<in> set cs" "cr_name r = n" for r
    using d that by (metis distinct_map inj_on_eq_iff)
  then have "(\<exists>r\<in>set cs. cr_name r = n \<and> check_terminal (cr_phase r)) \<longleftrightarrow> check_terminal (cr_phase a)"
    using a by blast
  then show ?thesis using Some by (simp add: check_done_def)
qed

lemma rec_ok_distinct: "rec_ok ord cs \<Longrightarrow> distinct ord \<Longrightarrow> distinct (map cr_name cs)"
  by (simp add: rec_ok_def)

lemma check_good_terminal: "check_good r \<Longrightarrow> check_terminal (cr_phase r)"
  by (auto simp: check_good_def)

lemma upsert_append: "cr_name res \<notin> cr_name ` set cs \<Longrightarrow> upsertCheck cs res = cs @ [res]"
  by (induction cs) auto

lemma upsert_last:
  "cr_name res \<notin> cr_name ` set fr \<Longrightarrow> cr_name r = cr_name res \<Longrightarrow> upsertCheck (fr @ [r]) res = fr @ [res]"
  by (induction fr) auto

lemma prefix_length_le:
  assumes "distinct (xs @ ys)" and "set xs \<subseteq> set (take k (xs @ ys))"
  shows "length xs \<le> k"
proof (rule ccontr)
  assume "\<not> length xs \<le> k"
  then have k: "k < length xs" by simp
  then have "xs ! k \<in> set (take k xs)" using assms(2) nth_mem [of k xs] by auto
  then obtain j where "j < k" "xs ! j = xs ! k" using k by (auto simp: in_set_conv_nth)
  then show False using assms(1) k by (simp add: nth_eq_iff_index_eq)
qed

text \<open>Everything before the last recorded check is done, so it comes before the first check that is not.\<close>

lemma front_not_longer:
  assumes ok: "rec_ok ord cs" and d: "distinct ord" and ord: "ord = done @ name # rest"
    and nn: "\<not> check_done cs name" and cs: "cs = fr @ [r]"
  shows "length fr \<le> length done"
proof (rule ccontr)
  assume "\<not> length fr \<le> length done"
  then have l: "length done < length fr" by simp
  have dc: "distinct (map cr_name cs)" by (rule rec_ok_distinct [OF ok d])
  have names: "map cr_name cs = take (length cs) ord" using ok by (simp add: rec_ok_def)
  have lo: "length cs \<le> length ord" using names by (metis length_map length_take min.absorb_iff2 min.commute)
  have gf: "list_all check_good fr" using ok by (simp add: rec_ok_def cs)
  have "cr_name (fr ! length done) = ord ! length done"
    using names lo l by (simp add: cs) (metis (no_types, lifting) length_map less_SucI lessI less_trans
        map_append nth_append nth_map nth_take)
  then have "cr_name (fr ! length done) = name" by (simp add: ord)
  moreover have "check_terminal (cr_phase (fr ! length done))"
    using gf l check_good_terminal by (simp add: list_all_length)
  ultimately have "check_done cs name"
    using l check_done_in [OF dc] by (auto simp: cs)
  with nn show False by simp
qed

text \<open>The next check in the order is either new, or the last recorded one.\<close>

lemma upsert_next:
  assumes ok: "rec_ok ord cs" and d: "distinct ord" and ord: "ord = done @ name # rest"
    and dn: "list_all (check_done cs) done" and nn: "\<not> check_done cs name"
    and nf: "\<forall>r\<in>set cs. cr_phase r \<noteq> CheckFailed" and res: "cr_name res = name"
  obtains fr where "upsertCheck cs res = fr @ [res]" and "map cr_name fr = done"
    and "list_all check_good fr" and "cs = fr \<or> (\<exists>r. cs = fr @ [r] \<and> cr_name r = name)"
proof -
  have dc: "distinct (map cr_name cs)" by (rule rec_ok_distinct [OF ok d])
  have names: "map cr_name cs = take (length cs) ord" using ok by (simp add: rec_ok_def)
  have good: "check_good r" if "r \<in> set cs" "check_done cs (cr_name r)" for r
  proof -
    have "check_terminal (cr_phase r)" using that dc check_done_in [OF dc]
      by (metis distinct_map inj_on_eq_iff)
    moreover have "cr_phase r \<noteq> CheckFailed" using nf that(1) by blast
    ultimately show ?thesis by (cases "cr_phase r") (auto simp: check_good_def)
  qed
  have rec: "n \<in> cr_name ` set cs" if "check_done cs n" for n
    using that check_done_in [OF dc] by auto
  have "set done \<subseteq> set (take (length cs) ord)"
    using dn rec names by (metis (no_types, lifting) list.set_map list_all_iff subsetI)
  then have le: "length done \<le> length cs"
    using prefix_length_le [of "done" "name # rest" "length cs"] d ord by simp
  have lo: "length cs \<le> length ord" using names by (metis length_map length_take min.absorb_iff2 min.commute)
  show thesis
  proof (cases "length cs = length done")
    case True
    then have nd: "map cr_name cs = done" using names ord by simp
    then have "name \<notin> cr_name ` set cs" using d ord by (metis distinct_append disjoint_iff list.set_intros(1) list.set_map)
    then have "upsertCheck cs res = cs @ [res]" using res upsert_append by blast
    moreover have "list_all check_good cs"
      using good dn nd by (auto simp: list_all_iff)
    ultimately show thesis using that nd by blast
  next
    case False
    with le have "length done < length cs" by simp
    then obtain fr r where cs: "cs = fr @ [r]" by (metis append_butlast_last_id length_0_conv less_nat_zero_code)
    have gf: "list_all check_good fr" using ok by (simp add: rec_ok_def cs)
    have "length fr \<le> length done" by (rule front_not_longer [OF ok d ord nn cs])
    with False le cs have lf: "length fr = length done" by simp
    then have nf: "map cr_name fr = done" "cr_name r = name"
      using names lo by (simp_all add: cs ord)
    have "name \<notin> cr_name ` set fr" using d nf(1) by (metis ord distinct_append disjoint_iff list.set_intros(1) list.set_map)
    then have "upsertCheck cs res = fr @ [res]" using upsert_last [of res fr r] nf(2) res by (simp add: cs)
    then show thesis using that nf gf cs by blast
  qed
qed

text \<open>When every check of the order is done and none failed, the results are good and complete.\<close>

lemma all_done_good:
  assumes ok: "rec_ok ord cs" and d: "distinct ord" and dn: "list_all (check_done cs) ord"
    and nf: "\<forall>r\<in>set cs. cr_phase r \<noteq> CheckFailed"
  shows "map cr_name cs = ord \<and> list_all check_good cs"
proof
  have dc: "distinct (map cr_name cs)" by (rule rec_ok_distinct [OF ok d])
  have names: "map cr_name cs = take (length cs) ord" using ok by (simp add: rec_ok_def)
  have "set ord \<subseteq> set (take (length cs) ord)"
    using dn check_done_in [OF dc] by (auto simp: list_all_iff names [symmetric])
  then have "length ord \<le> length cs" using prefix_length_le [of ord "[]" "length cs"] d by simp
  then show nm: "map cr_name cs = ord" using names by simp
  show "list_all check_good cs"
    unfolding list_all_iff
  proof
    fix r assume r: "r \<in> set cs"
    then have "check_done cs (cr_name r)" using dn nm by (auto simp: list_all_iff)
    then have "check_terminal (cr_phase r)" using check_done_in [OF dc] r dc
      by (metis distinct_map inj_on_eq_iff)
    moreover have "cr_phase r \<noteq> CheckFailed" using nf r by blast
    ultimately show "check_good r" by (cases "cr_phase r") (auto simp: check_good_def)
  qed
qed

subsection \<open>Reachable PreviewChecks\<close>

text \<open>
  The fields of the spec that the CRD lets a caller edit are the timeout, the TTL and the
  thresholds.
\<close>

definition spec_edit_ok :: "pc_spec_t \<Rightarrow> pc_spec_t \<Rightarrow> bool" where
  "spec_edit_ok s s' \<longleftrightarrow> (\<exists>t ttl thr. s' = s\<lparr>pcs_timeout := t, pcs_ttl := ttl, pcs_thresholds := thr\<rparr>)"

text \<open>
  The stored PreviewCheck changes by a reconcile pass over it whose status write lands, by an
  allowed edit of its spec, or by a change of its metadata. A pass over a stale copy is not a
  step: the API server refuses its write as a conflict.
\<close>

inductive pc_step :: "'w preview_api \<Rightarrow> pc_config \<Rightarrow> preview_check \<Rightarrow> preview_check \<Rightarrow> bool"
  for api cf where
    pass: "run_in (Reconcile api cf ns name) w = (res, xs) \<Longrightarrow> GetPC ns name (Inr pc) \<in> set xs \<Longrightarrow>
      UpdateStatus pc' (Inr stored) \<in> set xs \<Longrightarrow> pc_step api cf pc (pc\<lparr>pc_status := pc_status pc'\<rparr>)"
  | edit: "spec_edit_ok (pc_spec pc) s \<Longrightarrow> pc_step api cf pc (pc\<lparr>pc_spec := s, pc_generation := g\<rparr>)"
  | meta: "pc_step api cf pc (pc\<lparr>pc_deleting := d, pc_finalizers := f\<rparr>)"

definition pc_fresh :: "preview_check \<Rightarrow> bool" where
  "pc_fresh pc \<longleftrightarrow> st_phase (pc_status pc) = NoPhase \<and> st_checks (pc_status pc) = []
     \<and> st_started (pc_status pc) = None \<and> st_completed (pc_status pc) = None"

inductive pc_reachable :: "'w preview_api \<Rightarrow> pc_config \<Rightarrow> preview_check \<Rightarrow> bool"
  for api cf where
    fresh: "pc_fresh pc \<Longrightarrow> pc_reachable api cf pc"
  | step: "pc_reachable api cf pc \<Longrightarrow> pc_step api cf pc pc' \<Longrightarrow> pc_reachable api cf pc'"

text \<open>The one status write of a pass, from its log.\<close>

lemma reconcile_status_write:
  assumes run: "run_in (Reconcile api cf ns name) w = (res, xs)"
    and g: "GetPC ns name (Inr pc) \<in> set xs" and u: "UpdateStatus pc' r \<in> set xs"
  obtains now t pc1 up ys where "active (api_lib api) pc" and "Now now \<in> set xs" and "pass_rel pc now pc1 up"
    and "pc' = publish_status (api_lib api) pc1 up t" and "tail_ok pc1 up r ys"
    and "verdicts xs = verdicts ys" and "check_counts xs = check_counts ys" and "res = publish_res up r"
proof -
  from ens_run_in [OF Reconcile_ens run] obtain got ys where
    xs: "xs = GetPC ns name got # ys" and c: "list_all is_silent ys \<or>
      (\<exists>pc now. got = Inr pc \<and> active (api_lib api) pc \<and> Now now \<in> set ys
         \<and> published (api_lib api) is_silent (pass_rel pc now) res ys)"
    unfolding reconcile_post_def by blast
  have u': "UpdateStatus pc' r \<in> set ys" using u by (simp add: xs)
  have "\<not> list_all is_silent ys"
  proof
    assume "list_all is_silent ys"
    then have "is_silent (UpdateStatus pc' r)" using u' unfolding list_all_iff by blast
    then show False by simp
  qed
  with c obtain pc0 now where p: "got = Inr pc0" "active (api_lib api) pc0"
    "published (api_lib api) is_silent (pass_rel pc0 now) res ys" and nw: "Now now \<in> set xs"
    unfolding xs by auto
  then obtain pre t pc1 up r' tl where
    ys: "ys = pre @ Now t # UpdateStatus (publish_status (api_lib api) pc1 up t) r' # tl"
    and pre: "list_all is_silent pre" and pr: "pass_rel pc0 now pc1 up" and tl: "tail_ok pc1 up r' tl"
    and rs: "res = publish_res up r'"
    unfolding published_def by blast
  have silent: "GetPC a b z \<notin> set pre" "UpdateStatus a' b' \<notin> set pre" for a b z a' b'
    using pre by (auto simp: list_all_iff)
  have cnt: "GetPC a b z \<notin> set tl" "UpdateStatus a' b' \<notin> set tl" for a b z a' b'
    using tl by (auto simp: tail_ok_def list_all_iff)
  have pcs: "pc0 = pc" using g silent cnt by (auto simp: xs ys p(1))
  have eq: "pc' = publish_status (api_lib api) pc1 up t" "r = r'" using u silent cnt by (auto simp: xs ys)
  have "verdicts pre = []" "check_counts pre = []"
    using pre by (induction pre) (auto simp: verdicts_def check_counts_def split: preview_call.splits)
  then have "verdicts xs = verdicts tl" "check_counts xs = check_counts tl"
    by (simp_all add: xs ys verdicts_def check_counts_def)
  then show thesis using that p(2) nw pr tl rs pcs eq by blast
qed

lemma publish_status_sel [simp]:
  "st_phase (pc_status (publish_status lib pc u t)) = u_phase u"
  "st_checks (pc_status (publish_status lib pc u t)) = st_checks (pc_status pc)"
  "st_started (pc_status (publish_status lib pc u t)) = st_started (pc_status pc)"
  "st_completed (pc_status (publish_status lib pc u t)) =
     (if verdict_entered pc u then Some t else st_completed (pc_status pc))"
  "pc_spec (publish_status lib pc u t) = pc_spec pc"
  by (simp_all add: publish_status_def verdict_entered_def Let_def)

subsection \<open>The invariant of the stored PreviewCheck\<close>

definition pc_inv :: "preview_check \<Rightarrow> bool" where
  "pc_inv pc \<longleftrightarrow>
     (let st = pc_status pc in
      rec_ok (ord_of pc) (st_checks st)
      \<and> (\<not> pc_terminal (st_phase st) \<longrightarrow> (\<forall>r\<in>set (st_checks st). cr_phase r \<noteq> CheckFailed))
      \<and> (st_phase st = PreviewCheckPassed \<longrightarrow>
           map cr_name (st_checks st) = ord_of pc \<and> list_all check_good (st_checks st))
      \<and> (st_completed st \<noteq> None \<longleftrightarrow> pc_terminal (st_phase st)))"

text \<open>What a status write does to the recorded checks, by the phase it publishes.\<close>

definition write_ok :: "preview_check \<Rightarrow> preview_check \<Rightarrow> status_update \<Rightarrow> bool" where
  "write_ok pc pc1 u \<longleftrightarrow>
     rec_ok (ord_of pc) (st_checks (pc_status pc1))
     \<and> (\<not> pc_terminal (u_phase u) \<longrightarrow> (\<forall>r\<in>set (st_checks (pc_status pc1)). cr_phase r \<noteq> CheckFailed))
     \<and> (u_phase u = PreviewCheckPassed \<longrightarrow>
          map cr_name (st_checks (pc_status pc1)) = ord_of pc
          \<and> list_all check_good (st_checks (pc_status pc1)))"

lemma deadline_step_phase:
  "step_ok raw \<Longrightarrow> stp_phase (deadline_step env raw) \<in> {CheckRunning, CheckPassed, CheckFailed, CheckSkipped}"
  by (auto simp: deadline_step_def step_ok_def split: check_phase.splits)

lemma step_update_phase:
  "step_ok raw \<Longrightarrow> u_phase (step_update pc spc env name (deadline_step env raw)) =
     (case stp_phase (deadline_step env raw) of
        CheckFailed \<Rightarrow>
          (if stp_cr_phase raw = NoPhase then terminalPhaseFor (stp_reason (deadline_step env raw))
           else stp_cr_phase raw)
      | CheckRunning \<Rightarrow> PreviewCheckRunning
      | _ \<Rightarrow> if allChecksTerminal (st_checks (pc_status pc)) spc then PreviewCheckPassed
             else PreviewCheckRunning)"
  using deadline_step_phase [of raw env]
  by (auto simp: step_update_def deadline_step_def split: check_phase.splits)

lemma failed_step_phase:
  "step_ok raw \<Longrightarrow> stp_phase (deadline_step env raw) = CheckFailed \<Longrightarrow>
     u_phase (step_update pc spc env name (deadline_step env raw)) \<in> {PreviewCheckFailed, PreviewCheckExpired}"
  unfolding step_update_phase
  by (auto simp: step_ok_def terminalPhaseFor_def deadline_step_def split: check_phase.splits if_splits
      elim: step_fault.elims)

lemma ord_of_touched: "touched pc pc1 \<Longrightarrow> ord_of pc1 = ord_of pc"
  using touched_sel by (simp add: ord_of_def)

lemma same_but_checks_sel:
  "same_but_checks pc cs pc' \<Longrightarrow> st_checks (pc_status pc') = cs \<and> pc_spec pc' = pc_spec pc
     \<and> st_phase (pc_status pc') = st_phase (pc_status pc)
     \<and> st_completed (pc_status pc') = st_completed (pc_status pc)"
  unfolding same_but_checks_def touched_def by auto

lemma step_rel_write:
  assumes i: "rec_ok (ord_of pc) (st_checks (pc_status pc))"
    and nf: "\<forall>r\<in>set (st_checks (pc_status pc)). cr_phase r \<noteq> CheckFailed"
    and n: "next_check (st_checks (pc_status pc)) (Defaulted (pc_spec pc)) name"
    and s: "step_rel pc (Defaulted (pc_spec pc)) env name pc' u"
  shows "write_ok pc pc' u"
proof -
  from n obtain dn rest where o: "ord_of pc = dn @ name # rest"
    "list_all (check_done (st_checks (pc_status pc))) dn" "\<not> check_done (st_checks (pc_status pc)) name"
    by (auto simp: next_check_def ord_of_def)
  from s obtain raw started where ok: "step_ok raw" and
    sb: "same_but_checks pc (upsertCheck (st_checks (pc_status pc))
           (step_result env name started (deadline_step env raw))) pc'" and
    u: "u_phase u = u_phase (step_update pc' (Defaulted (pc_spec pc)) env name (deadline_step env raw))"
    unfolding step_rel_def Let_def by auto
  let ?res = "step_result env name started (deadline_step env raw)"
  have res: "cr_name ?res = name" "cr_phase ?res = stp_phase (deadline_step env raw)"
    by (simp_all add: step_result_def)
  have d: "distinct (ord_of pc)" by (simp add: ord_of_def distinct_ordered)
  from upsert_next [OF i d o nf res(1)] obtain fr where
    fr: "upsertCheck (st_checks (pc_status pc)) ?res = fr @ [?res]" "map cr_name fr = dn" "list_all check_good fr"
    by blast
  have cs: "st_checks (pc_status pc') = fr @ [?res]" using same_but_checks_sel [OF sb] fr(1) by simp
  have lf: "length fr = length dn" using fr(2) by (metis length_map)
  have rec: "rec_ok (ord_of pc) (fr @ [?res])"
    using fr(2,3) by (simp add: rec_ok_def o(1) lf res(1))
  have goodf: "\<forall>r\<in>set fr. cr_phase r \<noteq> CheckFailed"
    using fr(3) by (auto simp: list_all_iff check_good_def)
  have nofail: "\<not> pc_terminal (u_phase u) \<Longrightarrow> \<forall>r\<in>set (fr @ [?res]). cr_phase r \<noteq> CheckFailed"
    using failed_step_phase [OF ok, of env pc' "Defaulted (pc_spec pc)" name] goodf u res(2) by auto
  have pass: "map cr_name (fr @ [?res]) = ord_of pc \<and> list_all check_good (fr @ [?res])"
    if p: "u_phase u = PreviewCheckPassed"
  proof -
    have ph: "stp_phase (deadline_step env raw) \<noteq> CheckFailed"
      using failed_step_phase [OF ok, of env pc' "Defaulted (pc_spec pc)" name] u p by auto
    then have "allChecksTerminal (fr @ [?res]) (Defaulted (pc_spec pc))"
      using p u cs step_update_phase [OF ok, of pc' "Defaulted (pc_spec pc)" env name]
      by (auto split: check_phase.splits if_splits)
    then have "list_all (check_done (fr @ [?res])) (ord_of pc)"
      by (simp add: allChecksTerminal_def ord_of_def)
    moreover have "\<forall>r\<in>set (fr @ [?res]). cr_phase r \<noteq> CheckFailed" using goodf ph res(2) by auto
    ultimately show ?thesis using all_done_good [OF rec d] by blast
  qed
  show ?thesis unfolding write_ok_def cs using rec nofail pass by blast
qed

lemma touched_frame:
  "touched pc pc2 \<Longrightarrow> pc_spec pc2 = pc_spec pc \<and> st_completed (pc_status pc2) = st_completed (pc_status pc)
     \<and> st_phase (pc_status pc2) = st_phase (pc_status pc) \<and> st_checks (pc_status pc2) = st_checks (pc_status pc)"
  unfolding touched_def by auto

text \<open>Recorded checks that are in order, none of them failed: what a pass starts from.\<close>

definition checks_ok :: "preview_check \<Rightarrow> bool" where
  "checks_ok pc \<longleftrightarrow>
     rec_ok (ord_of pc) (st_checks (pc_status pc)) \<and> (\<forall>r\<in>set (st_checks (pc_status pc)). cr_phase r \<noteq> CheckFailed)"

lemma write_ok_same:
  "checks_ok pc \<Longrightarrow> st_checks (pc_status pc2) = st_checks (pc_status pc) \<Longrightarrow> u_phase v \<noteq> PreviewCheckPassed \<Longrightarrow> write_ok pc pc2 v"
  by (simp add: checks_ok_def write_ok_def)

lemma run_rel_write:
  assumes ok: "checks_ok pc" and t: "touched pc pc2" and r: "run_rel pc2 (Defaulted (pc_spec pc)) env pc1 u"
  shows "write_ok pc pc1 u \<and> pc_spec pc1 = pc_spec pc
    \<and> st_completed (pc_status pc1) = st_completed (pc_status pc) \<and> st_phase (pc_status pc1) = st_phase (pc_status pc)"
proof -
  let ?spc = "Defaulted (pc_spec pc)"
  note t2 = touched_frame [OF t]
  have rec2: "rec_ok (ord_of pc2) (st_checks (pc_status pc2))"
    and nf2: "\<forall>r\<in>set (st_checks (pc_status pc2)). cr_phase r \<noteq> CheckFailed"
    and o2: "ord_of pc2 = ord_of pc" and d2: "Defaulted (pc_spec pc2) = ?spc"
    using ok t2 by (simp_all add: ord_of_def checks_ok_def)
  from r consider
    (step) name where "next_check (st_checks (pc_status pc2)) ?spc name" "step_rel pc2 ?spc env name pc1 u"
  | (quiet) "touched pc2 pc1" "u_phase u = PreviewCheckExpired"
  | (all) "touched pc2 pc1" "list_all (check_done (st_checks (pc_status pc2))) (orderedChecks (pcs_checks ?spc))"
      "u_phase u = PreviewCheckPassed"
    unfolding run_rel_def by blast
  then show ?thesis
  proof cases
    case step
    have "write_ok pc2 pc1 u"
      by (rule step_rel_write [OF rec2 nf2]) (use step d2 in simp_all)
    moreover from step(2) have "\<exists>cs. same_but_checks pc2 cs pc1"
      unfolding step_rel_def Let_def by blast
    ultimately show ?thesis using t2 o2 same_but_checks_sel by (fastforce simp: write_ok_def)
  next
    case quiet
    then show ?thesis
      using write_ok_same [OF ok, of pc1 u] touched_frame [OF touched_trans [OF t quiet(1)]] by simp
  next
    case all
    have "map cr_name (st_checks (pc_status pc)) = ord_of pc \<and> list_all check_good (st_checks (pc_status pc))"
      by (rule all_done_good) (use ok all(2) t2 in \<open>simp_all add: checks_ok_def ord_of_def distinct_ordered\<close>)
    then show ?thesis
      using touched_frame [OF touched_trans [OF t all(1)]] ok all(3) by (simp add: write_ok_def checks_ok_def)
  qed
qed

lemma pass_rel_write:
  assumes p: "pass_rel pc now pc1 u" and i: "pc_inv pc"
  shows "write_ok pc pc1 u \<and> pc_spec pc1 = pc_spec pc
    \<and> st_completed (pc_status pc1) = st_completed (pc_status pc)
    \<and> st_phase (pc_status pc1) = st_phase (pc_status pc) \<and> \<not> pc_terminal (st_phase (pc_status pc))"
proof -
  let ?spc = "Defaulted (pc_spec pc)"
  have nt: "\<not> pc_terminal (st_phase (pc_status pc))" using p by (simp add: pass_rel_def)
  with i have ok: "checks_ok pc" by (simp add: pc_inv_def Let_def checks_ok_def)
  show ?thesis
  proof (cases "st_started (pc_status pc)")
    case None
    then show ?thesis using p write_ok_same [OF ok, of pc1 u] nt by (auto simp: pass_rel_def)
  next
    case (Some started)
    let ?env = "make_env pc ?spc started now"
    from p Some consider
      (ttl) "pc1 = pc" "u_phase u = PreviewCheckExpired"
      | (gate) "gate_rel pc ?env pc1 u"
      | (run) pc2 ns where "touched pc pc2" "run_rel pc2 ?spc (resolved_env ?env ns) pc1 u"
      by (auto simp: pass_rel_def)
    then show ?thesis
    proof cases
      case ttl
      then show ?thesis using write_ok_same [OF ok, of pc u] nt by simp
    next
      case gate
      then have t: "touched pc pc1" and "u_phase u \<noteq> PreviewCheckPassed"
        by (auto simp: gate_rel_def gate_update_def)
      then show ?thesis using write_ok_same [OF ok, of pc1 u] touched_frame [OF t] nt by simp
    next
      case run
      show ?thesis using run_rel_write [OF ok run] nt by blast
    qed
  qed
qed

lemma Defaulted_checks_edit: "spec_edit_ok s s' \<Longrightarrow> pcs_checks (Defaulted s') = pcs_checks (Defaulted s)"
  by (auto simp: spec_edit_ok_def)

lemma pc_inv_reachable: "pc_reachable api cf pc \<Longrightarrow> pc_inv pc"
proof (induction rule: pc_reachable.induct)
  case (fresh pc)
  then show ?case by (simp add: pc_fresh_def pc_inv_def rec_ok_def)
next
  case (step pc pc')
  from step.hyps(2) step.IH show ?case
  proof (induction rule: pc_step.induct)
    case (pass ns name w res xs pc pc' stored)
    obtain now t pc1 up ys where
      p: "pass_rel pc now pc1 up" and pc': "pc' = publish_status (api_lib api) pc1 up t"
      by (rule reconcile_status_write [OF pass.hyps])
    note w = pass_rel_write [OF p pass.prems]
    have "st_completed (pc_status pc) = None" using pass.prems w by (simp add: pc_inv_def Let_def)
    then have c: "st_completed (pc_status pc') \<noteq> None \<longleftrightarrow> pc_terminal (u_phase up)"
      using w by (simp add: pc' verdict_entered_def)
    have o: "ord_of (pc\<lparr>pc_status := pc_status pc'\<rparr>) = ord_of pc" by (simp add: ord_of_def)
    from w have w': "write_ok pc pc1 up" by blast
    have sel: "st_checks (pc_status pc') = st_checks (pc_status pc1)" "st_phase (pc_status pc') = u_phase up"
      by (simp_all add: pc')
    show ?case
      unfolding pc_inv_def Let_def o using w' c by (simp add: write_ok_def sel)
  next
    case (edit pc s g)
    then show ?case
      using Defaulted_checks_edit [OF edit.hyps] by (simp add: pc_inv_def ord_of_def del: Defaulted_sel)
  next
    case (meta pc d f)
    then show ?case by (simp add: pc_inv_def ord_of_def)
  qed
qed

subsection \<open>Consequences for a pass\<close>

lemma terminal_no_write:
  assumes "run_in (Reconcile api cf ns name) w = (res, xs)" and "GetPC ns name (Inr pc) \<in> set xs"
    and "pc_terminal (st_phase (pc_status pc))"
  shows "UpdateStatus pc' r \<notin> set xs"
proof
  assume "UpdateStatus pc' r \<in> set xs"
  then obtain now t pc1 up ys where "pass_rel pc now pc1 up"
    by (rule reconcile_status_write [OF assms(1,2)])
  then show False using assms(3) by (simp add: pass_rel_def)
qed

lemma pc_step_terminal:
  "pc_step api cf pc pc2 \<Longrightarrow> pc_terminal (st_phase (pc_status pc)) \<Longrightarrow>
     pc_terminal (st_phase (pc_status pc2)) \<and> pc_status pc2 = pc_status pc"
  by (induction rule: pc_step.induct) (auto dest: terminal_no_write)

interpretation pc_verdict: verdict_machine
  "pc_step api cf" "\<lambda>pc. pc_terminal (st_phase (pc_status pc))" pc_status for api cf
  by unfold_locales (rule pc_step_terminal)

text \<open>The reasons a verdict may carry.\<close>

definition failed_reasons :: "pc_reason set" where
  "failed_reasons = {ReasonNamespaceGone, ReasonAppMismatch, ReasonKustomizationNotReady,
     ReasonRevisionMismatch, ReasonPodsNotReady, ReasonUnexpectedStatus, ReasonProbeJobFailed,
     ReasonSmokeJobFailed, ReasonKEVExceeded, ReasonEPSSExceeded, ReasonInvalidThreshold,
     ReasonEnrichmentUnavailable}"

definition expired_reasons :: "pc_reason set" where
  "expired_reasons = {ReasonTimeout, ReasonScanMissing, ReasonEnrichmentUnavailable,
     ReasonQuotaExceeded, ReasonTargetUnresolved, ReasonNamespaceGone, ReasonKustomizationNotReady}"

definition reason_ok :: "pc_phase \<Rightarrow> pc_reason \<Rightarrow> bool" where
  "reason_ok p r \<longleftrightarrow>
     (p = PreviewCheckPassed \<longrightarrow> r = ReasonAllChecksPassed)
     \<and> (p = PreviewCheckFailed \<longrightarrow> r \<in> failed_reasons)
     \<and> (p = PreviewCheckExpired \<longrightarrow> r \<in> expired_reasons)"

lemma step_update_reason:
  assumes "step_ok raw"
  shows "reason_ok (u_phase (step_update pc spc env name (deadline_step env raw)))
           (u_reason (step_update pc spc env name (deadline_step env raw)))"
proof (cases "stp_phase (deadline_step env raw) = CheckFailed")
  case False
  then show ?thesis by (auto simp: step_update_def reason_ok_def)
next
  case True
  show ?thesis
  proof (cases "stp_phase raw = CheckFailed")
    case raw: True
    then have eq: "deadline_step env raw = raw" by (simp add: deadline_step_def)
    have "step_fault (stp_reason raw) (stp_cr_phase raw)" using assms raw by (simp add: step_ok_def)
    then show ?thesis
      unfolding step_update_def reason_ok_def eq
      by (cases "stp_reason raw")
         (auto simp: raw terminalPhaseFor_def failed_reasons_def expired_reasons_def)
  next
    case raw: False
    with True have d: "stp_phase raw = CheckRunning" "ce_past_deadline env"
      using assms by (auto simp: deadline_step_def step_ok_def split: check_phase.splits if_splits)
    then have "step_wait (stp_reason raw)" "stp_cr_phase raw = NoPhase"
      using assms by (simp_all add: step_ok_def)
    then show ?thesis
      unfolding step_update_def reason_ok_def deadline_step_def using d
      by (cases "stp_reason raw") (auto simp: terminalPhaseFor_def failed_reasons_def expired_reasons_def)
  qed
qed

lemma run_rel_cases:
  assumes "run_rel pc spc env pc1 u"
  obtains (step) raw name started where "step_ok raw" and "name \<in> set (orderedChecks (pcs_checks spc))"
      and "\<not> check_done (st_checks (pc_status pc)) name"
      and "same_but_checks pc (upsertCheck (st_checks (pc_status pc))
         (step_result env name started (deadline_step env raw))) pc1"
      and "u_phase u = u_phase (step_update pc1 spc env name (deadline_step env raw))"
      and "u_reason u = u_reason (step_update pc1 spc env name (deadline_step env raw))"
  | (other) "touched pc pc1"
      and "u_phase u = PreviewCheckPassed \<and> u_reason u = ReasonAllChecksPassed
           \<or> u_phase u = PreviewCheckExpired \<and> u_reason u = ReasonTimeout"
  using assms unfolding run_rel_def
proof (elim disjE exE conjE)
  fix name
  assume n: "next_check (st_checks (pc_status pc)) spc name" and s: "step_rel pc spc env name pc1 u"
  from s obtain raw started where r: "step_ok raw"
    "same_but_checks pc (upsertCheck (st_checks (pc_status pc))
       (step_result env name started (deadline_step env raw))) pc1"
    "u_phase u = u_phase (step_update pc1 spc env name (deadline_step env raw))"
    "u_reason u = u_reason (step_update pc1 spc env name (deadline_step env raw))"
    unfolding step_rel_def Let_def by auto
  from n have "name \<in> set (orderedChecks (pcs_checks spc))" "\<not> check_done (st_checks (pc_status pc)) name"
    unfolding next_check_def by (metis in_set_conv_decomp)+
  with r show thesis by (intro step)
next
  assume "touched pc pc1" "u_phase u = PreviewCheckPassed" "u_reason u = ReasonAllChecksPassed"
  then show thesis by (intro other) simp_all
next
  assume "touched pc pc1" "u_phase u = PreviewCheckExpired" "u_reason u = ReasonTimeout"
  then show thesis by (intro other) simp_all
qed

lemma pass_rel_reason:
  assumes "pass_rel pc now pc1 u"
  shows "reason_ok (u_phase u) (u_reason u)"
proof (cases "st_started (pc_status pc)")
  case None
  then show ?thesis using assms by (auto simp: pass_rel_def reason_ok_def)
next
  case (Some started)
  from assms Some consider
    (ttl) "u_phase u = PreviewCheckExpired" "u_reason u = ReasonTimeout"
    | (gate) env where "gate_rel pc env pc1 u"
    | (run) pc2 env where "run_rel pc2 (Defaulted (pc_spec pc)) env pc1 u"
    by (auto simp: pass_rel_def)
  then show ?thesis
  proof cases
    case ttl
    then show ?thesis by (simp add: reason_ok_def expired_reasons_def)
  next
    case gate
    then show ?thesis
      by (auto simp: gate_rel_def gate_update_def reason_ok_def failed_reasons_def expired_reasons_def
          split: pc_phase.splits)
  next
    case run
    from run show ?thesis
    proof (cases rule: run_rel_cases)
      case (step raw name started)
      then show ?thesis using step_update_reason [OF step(1)] by simp
    next
      case other
      then show ?thesis by (auto simp: reason_ok_def expired_reasons_def)
    qed
  qed
qed

subsection \<open>Past the deadline\<close>

definition undone :: "preview_check \<Rightarrow> nat" where
  "undone pc = length (filter (\<lambda>n. \<not> check_done (st_checks (pc_status pc)) n) (ord_of pc))"

lemma findCheck_upsert:
  "findCheck (upsertCheck cs res) n = (if n = cr_name res then Some res else findCheck cs n)"
  by (induction cs) (auto simp: findCheck_def)

lemma check_done_upsert:
  "check_done (upsertCheck cs res) n =
     (if n = cr_name res then check_terminal (cr_phase res) else check_done cs n)"
  by (simp add: check_done_def findCheck_upsert)

lemma filter_length_less:
  assumes "x \<in> set xs" and "P x" and "\<not> Q x" and "\<And>y. Q y \<Longrightarrow> P y"
  shows "length (filter Q xs) < length (filter P xs)"
  using assms(1)
proof (induction xs)
  case (Cons a xs)
  have le: "length (filter Q xs) \<le> length (filter P xs)"
    using assms(4) by (induction xs) auto
  show ?case
  proof (cases "x \<in> set xs")
    case True
    then show ?thesis using Cons assms(4) by auto
  next
    case False
    then have "a = x" using Cons.prems by simp
    then show ?thesis using assms(2,3) le by simp
  qed
qed simp

lemma run_rel_deadline:
  assumes r: "run_rel pc (Defaulted (pc_spec pc)) env pc1 u" and past: "ce_past_deadline env"
  shows "pc_terminal (u_phase u) \<or> undone pc1 < undone pc"
proof (rule disjCI)
  assume nt: "\<not> undone pc1 < undone pc"
  from r show "pc_terminal (u_phase u)"
  proof (cases rule: run_rel_cases)
    case (step raw name started)
    let ?res = "step_result env name started (deadline_step env raw)"
    have t: "check_terminal (stp_phase (deadline_step env raw))"
      using past by (simp add: deadline_step_def)
    have cs: "st_checks (pc_status pc1) = upsertCheck (st_checks (pc_status pc)) ?res"
      and o: "ord_of pc1 = ord_of pc"
      using same_but_checks_sel [OF step(4)] by (simp_all add: ord_of_def)
    have res: "cr_name ?res = name" "cr_phase ?res = stp_phase (deadline_step env raw)"
      by (simp_all add: step_result_def)
    have "undone pc1 < undone pc"
      unfolding undone_def o cs
      by (rule filter_length_less [OF step(2) [folded ord_of_def]]) (use step(3) t in \<open>auto simp: check_done_upsert res split: if_splits\<close>)
    with nt show ?thesis by simp
  next
    case other
    then show ?thesis by auto
  qed
qed

lemma pass_rel_deadline:
  assumes p: "pass_rel pc now pc1 u" and s: "st_started (pc_status pc) = Some started"
    and past: "started + dur_seconds (pcs_timeout (Defaulted (pc_spec pc))) \<le> now"
  shows "pc_terminal (u_phase u) \<or> undone pc1 < undone pc"
proof -
  let ?env = "make_env pc (Defaulted (pc_spec pc)) started now"
  have e: "ce_past_deadline ?env" using past by (simp add: make_env_def)
  from p s consider
    (ttl) "u_phase u = PreviewCheckExpired"
    | (gate) "gate_rel pc ?env pc1 u"
    | (run) pc2 ns where "touched pc pc2" "run_rel pc2 (Defaulted (pc_spec pc)) (resolved_env ?env ns) pc1 u"
    by (auto simp: pass_rel_def)
  then show ?thesis
  proof cases
    case ttl
    then show ?thesis by simp
  next
    case gate
    then show ?thesis using e by (auto simp: gate_rel_def gate_update_def split: pc_phase.splits)
  next
    case run
    have "pc_spec pc2 = pc_spec pc" "undone pc2 = undone pc"
      using touched_sel [OF run(1)] by (simp_all add: undone_def ord_of_def)
    then show ?thesis using run_rel_deadline [of pc2 "resolved_env ?env ns" pc1 u] run(2) e by simp
  qed
qed

subsection \<open>Jobs and teardown\<close>

fun job_call :: "preview_call \<Rightarrow> bool" where
  "job_call (CreateJob _ _) = True"
| "job_call (GetConfig _ _ _) = True"
| "job_call _ = False"

text \<open>Jobs and the smoke configuration are touched only behind both gates.\<close>

definition gated :: "klib \<Rightarrow> preview_check \<Rightarrow> preview_call list \<Rightarrow> bool" where
  "gated lib pc xs \<longleftrightarrow>
     list_all (\<lambda>c. \<not> job_call c) xs \<or>
     (\<exists>env ns ks ksn. GetNamespace (ce_ns_name env) (Inr ns) \<in> set xs
        \<and> ce_ns_name env = ''preview-pr-'' @ itoa (pcs_pr (pc_spec pc))
        \<and> ce_id env = CheckID (pc_uid pc) (pc_name pc)
        \<and> ce_ns env = Some ns \<and> ce_app env = sget (ns_labels ns) PreviewAppLabel
        \<and> ns_ready (Defaulted (pc_spec pc)) ns
        \<and> GetKustomization (ce_ns_name env) ksn (Inr ks) \<in> set xs
        \<and> fst (kustomizationSettled lib ks (pcs_revision (pc_spec pc)))
        \<and> (\<forall>c\<in>set xs. job_call c \<longrightarrow> check_call env (pc_name pc) c))"

lemma published_no_jobs:
  assumes "published lib L Q res xs" and "\<And>c. L c \<Longrightarrow> \<not> job_call c"
  shows "list_all (\<lambda>c. \<not> job_call c) xs"
proof -
  from assms(1) obtain pre now pc u r ys where
    xs: "xs = pre @ Now now # UpdateStatus (publish_status lib pc u now) r # ys"
    "list_all L pre" "tail_ok pc u r ys"
    unfolding published_def by blast
  have "list_all (\<lambda>c. \<not> job_call c) pre" using xs(2) assms(2) by (auto simp: list_all_iff)
  moreover have "list_all is_counter ys" using xs(3) by (simp add: tail_ok_def)
  then have "list_all (\<lambda>c. \<not> job_call c) ys"
    by (rule list.pred_mono_strong) (auto elim: is_counter.elims)
  ultimately show ?thesis by (simp add: xs(1))
qed

lemma published_check_calls:
  assumes "published lib (check_call env owner) Q res xs" and "c \<in> set xs" and "job_call c"
  shows "check_call env owner c"
proof -
  from assms(1) obtain pre now pc u r ys where
    xs: "xs = pre @ Now now # UpdateStatus (publish_status lib pc u now) r # ys"
    "list_all (check_call env owner) pre" "tail_ok pc u r ys"
    unfolding published_def by blast
  have "list_all is_counter ys" using xs(3) by (simp add: tail_ok_def)
  moreover have "\<not> is_counter c" using assms(3) by (cases c) auto
  ultimately have "c \<notin> set ys" unfolding list_all_iff by blast
  with assms(2,3) have "c \<in> set pre" by (auto simp: xs(1))
  then show ?thesis using xs(2) by (simp add: list_all_iff)
qed

lemma judge_post_gated:
  assumes "judge_post lib pc (Defaulted (pc_spec pc)) (make_env pc (Defaulted (pc_spec pc)) started now) res ys"
  shows "gated lib pc ys"
  using assms unfolding judge_post_def
proof (elim disjE exE conjE)
  assume "gate_post lib pc (make_env pc (Defaulted (pc_spec pc)) started now) res ys"
  then have "list_all (\<lambda>c. \<not> job_call c) ys"
    unfolding gate_post_def
  proof (elim disjE conjE)
    assume "list_all is_gate_read ys"
    then show ?thesis by (rule list.pred_mono_strong) (auto simp: is_gate_read_def)
  next
    assume "published lib is_gate_read (gate_rel pc (make_env pc (Defaulted (pc_spec pc)) started now)) res ys"
    then show ?thesis by (rule published_no_jobs) (auto simp: is_gate_read_def)
  qed
  then show ?thesis by (simp add: gated_def)
next
  let ?env = "make_env pc (Defaulted (pc_spec pc)) started now"
  fix ns ks pc1 zs
  assume ys: "ys = GetNamespace (ce_ns_name ?env) (Inr ns)
      # GetKustomization (ce_ns_name ?env) (ks_name_of (Defaulted (pc_spec pc))) (Inr ks) # zs"
    and nr: "ns_ready (Defaulted (pc_spec pc)) ns"
    and st: "fst (kustomizationSettled lib ks (pcs_revision (Defaulted (pc_spec pc))))"
    and t: "touched pc pc1" and rp: "run_post lib pc1 (Defaulted (pc_spec pc)) (resolved_env ?env ns) res zs"
  have n: "pc_name pc1 = pc_name pc" using touched_sel [OF t] by simp
  from rp n have cc: "check_call (resolved_env ?env ns) (pc_name pc) c" if "c \<in> set zs" "job_call c" for c
    using that unfolding run_post_def
  proof (elim disjE conjE)
    assume "check_log (resolved_env ?env ns) (pc_name pc1) zs"
    then show ?thesis using that(1) n by (simp add: list_all_iff)
  next
    assume "published lib (check_call (resolved_env ?env ns) (pc_name pc1))
      (run_rel pc1 (Defaulted (pc_spec pc)) (resolved_env ?env ns)) res zs"
    from published_check_calls [OF this that] show ?thesis by (simp add: n)
  qed
  have "\<forall>c\<in>set ys. job_call c \<longrightarrow> check_call (resolved_env ?env ns) (pc_name pc) c"
    using cc by (simp add: ys)
  moreover have "ce_ns_name ?env = ''preview-pr-'' @ itoa (pcs_pr (pc_spec pc))"
    "ce_id ?env = CheckID (pc_uid pc) (pc_name pc)" by (simp_all add: make_env_def)
  ultimately show ?thesis
    unfolding gated_def using nr st
    by (intro disjI2 exI [of _ "resolved_env ?env ns"] exI [of _ ns] exI [of _ ks]
        exI [of _ "ks_name_of (Defaulted (pc_spec pc))"]) (simp add: ys)
qed

lemma delete_jobs_ens:
  "ensures (delete_jobs api js)
     (\<lambda>r xs. list_all (\<lambda>c. \<exists>j d. c = DeleteJob j PropagationBackground d) xs \<and>
        (r = None \<longrightarrow> (\<forall>j\<in>set js. \<exists>d. DeleteJob j PropagationBackground d \<in> set xs
           \<and> (\<forall>e. d = Some e \<longrightarrow> namespaceUnavailable e))))"
proof (induction js)
  case Nil
  show ?case by (auto intro: ens_rules)
next
  case (Cons j js)
  show ?case
    unfolding delete_jobs.simps
    apply (rule ens_bind, rule ens_operate)
    apply (intro ens_option ens_if ens_return)
      apply (rule ens_weaken [OF Cons.IH], force)
     apply (rule ens_weaken [OF Cons.IH], force simp: namespaceUnavailable_def)
    apply simp
    done
qed

text \<open>The finalizer is given up only when the Jobs are gone.\<close>

definition torn_down :: "preview_check \<Rightarrow> preview_call list \<Rightarrow> bool" where
  "torn_down pc xs \<longleftrightarrow>
     (\<exists>lr. ListJobs (preview_ns_of pc) CheckJobLabel (pc_name pc) lr \<in> set xs \<and>
        (case lr of
           Inl e \<Rightarrow> namespaceUnavailable e
         | Inr jobs \<Rightarrow> \<forall>j\<in>set jobs. \<exists>d. DeleteJob j PropagationBackground d \<in> set xs
             \<and> (\<forall>e. d = Some e \<longrightarrow> namespaceUnavailable e)))"

lemma torn_down_more: "torn_down pc xs \<Longrightarrow> torn_down pc (xs @ ys)"
  unfolding torn_down_def by (fastforce split: sum.splits)

lemma teardown_ens:
  "ensures (teardown api pc)
     (\<lambda>r xs. list_all (\<lambda>c. \<not> job_call c \<and> (\<forall>p q. c \<noteq> UpdatePC p q)) xs \<and> (r = None \<longrightarrow> torn_down pc xs))"
  unfolding teardown_def listCheckJobs_def Let_def
  apply (rule ens_bind, rule ens_operate)
  apply (rule ens_sum)
   apply (rule ens_return)
   apply (auto simp: torn_down_def)[1]
  apply (rule ens_weaken [OF delete_jobs_ens])
  apply (auto simp: torn_down_def list_all_iff)
  done

lemma reconcile_deleted_ens:
  "ensures (reconcile_deleted api pc)
     (\<lambda>r xs. list_all (\<lambda>c. \<not> job_call c) xs \<and> ((\<exists>p q. UpdatePC p q \<in> set xs) \<longrightarrow> torn_down pc xs))"
  unfolding reconcile_deleted_def Let_def
  apply (rule ens_if)
   apply (rule ens_bindI [OF teardown_ens])
   apply (rule ens_option)
    apply (rule ens_bind, rule ens_operate, rule ens_return)
    apply (simp add: torn_down_more list_all_iff)
   apply (rule ens_return)
   apply (auto simp: list_all_iff)[1]
  apply (rule ens_return)
  apply simp
  done

lemma Reconcile_gated:
  "ensures (Reconcile api cf ns name)
     (\<lambda>r xs. \<exists>got ys. xs = GetPC ns name got # ys \<and>
        (case got of
           Inl _ \<Rightarrow> ys = []
         | Inr pc \<Rightarrow>
             if pc_deleting pc
             then list_all (\<lambda>c. \<not> job_call c) ys \<and> ((\<exists>p q. UpdatePC p q \<in> set ys) \<longrightarrow> torn_down pc ys)
             else if lib_contains_finalizer (api_lib api) (pc_finalizers pc) previewCheckFinalizer
             then gated (api_lib api) pc ys
             else list_all (\<lambda>c. \<not> job_call c) ys))"
proof -
  have pub: "ensures (publish api pc u) (\<lambda>r xs. list_all (\<lambda>c. \<not> job_call c) xs)" for pc u
    by (rule ens_weaken [OF publish_ens [where L = "\<lambda>_. False"]]) (rule published_no_jobs, assumption, simp)
  have gd: "gated lib pc xs" if "list_all (\<lambda>c. \<not> job_call c) xs" for lib pc xs
    using that by (simp add: gated_def)
  have gN: "gated lib pc (Now t # xs)" if "gated lib pc xs" for lib pc t xs
    using that unfolding gated_def by auto
  show ?thesis
    unfolding Reconcile_def Let_def
    apply (rule ens_bind, rule ens_operate)
    apply (rule ens_sum)
     apply (rule ens_return, simp)
    apply (rule ens_if)
     apply (rule ens_weaken [OF reconcile_deleted_ens], simp)
    apply (rule ens_if)
     apply (unfold add_finalizer_pass_def Let_def)
     apply (rule ens_bind, rule ens_operate, rule ens_return, simp)
    apply (rule ens_bind, rule ens_operate)
    apply (rule ens_if)
     apply (unfold self_delete_pass_def)
     apply (rule ens_if)
      apply (rule ens_bind, rule ens_operate, rule ens_return, simp add: gd)
     apply (rule ens_return, simp add: gd)
    apply (rule ens_option)
     apply (unfold start_pass_def)
     apply (rule ens_weaken [OF pub], simp add: gd)
    apply (rule ens_if)
     apply (rule ens_weaken [OF pub], simp add: gd)
    apply (rule ens_weaken [OF judge_pass_ens])
    apply (drule judge_post_gated, simp add: gN)
    done
qed

end
