(* ===== verification/Preview_Run.thy ===== *)
theory Preview_Run
  imports Preview_Check
begin

section \<open>The PreviewCheck reconciler: runs and what they guarantee\<close>

text \<open>
  Evaluated runs of \<open>Reconcile\<close> on a small server (a start pass, a judging pass, a late pass, a
  pass that creates a probe Job, one over a deleted check), which show that the hypotheses below
  can hold, and the theorems about every run and every reachable PreviewCheck.
\<close>

subsection \<open>A run of two passes\<close>

text \<open>A PreviewCheck with the readiness check only: the start pass and the judging pass.\<close>

definition cf_demo :: pc_config where
  "cf_demo = \<lparr>cf_preview_domain = ''example.org'', cf_probe_image = ''curl''\<rparr>"

definition pc_demo1 :: preview_check where
  "pc_demo1 = pc_demo\<lparr>pc_spec := spec_demo\<lparr>pcs_checks := [CheckReadiness]\<rparr>\<rparr>"

definition pc_started :: preview_check where
  "pc_started = pc_demo1\<lparr>pc_status := status_demo\<lparr>st_phase := PreviewCheckPending,
     st_message := ''waiting for the preview environment'', st_started := Some 0,
     st_expires := Some (7200 * second), st_observed_generation := 1,
     st_conditions := [\<lparr>cond_type = ''Succeeded'', cond_status = CondUnknown, cond_reason = ''Pending'',
       cond_message = ''waiting for the preview environment'', cond_observed_generation = 1,
       cond_last_transition = 0\<rparr>]\<rparr>\<rparr>"

definition ks_demo :: kustomization where
  "ks_demo = \<lparr>ks_name = ''preview-app-7'', ks_namespace = ''preview-pr-7'',
     ks_annotations = [(''preview.homelab.io/credentials-patched'', ''true'')], ks_generation = 3,
     ks_suspend = False, ks_observed_generation = 3, ks_last_applied = ''sha1:abc'',
     ks_conditions = [\<lparr>cond_type = ''Ready'', cond_status = CondTrue, cond_reason = [], cond_message = [],
       cond_observed_generation = 3, cond_last_transition = 0\<rparr>]\<rparr>"

definition wl_demo :: workload where
  "wl_demo = \<lparr>wl_name = ''app'', wl_generation = 1, wl_replicas = Some 1, wl_ready_replicas = 1,
     wl_observed_generation = 1, wl_pod_spec = \<lparr>ps_restart_policy = [], ps_automount_token = None,
       ps_security = None, ps_init_containers = [], ps_containers = []\<rparr>\<rparr>"

definition world_ready :: preview_world where
  "world_ready = world_demo\<lparr>pw_pc := Inr pc_started, pw_namespace := Inr ns_demo,
     pw_kustomization := Inr ks_demo, pw_deployments := [wl_demo], pw_now := 60 * second\<rparr>"

definition pc_passed :: preview_check where
  "pc_passed = pc_started\<lparr>pc_status := (pc_status pc_started)\<lparr>st_phase := PreviewCheckPassed,
     st_message := ''1 check(s) passed'',
     st_checks := [\<lparr>cr_name = CheckReadiness, cr_phase = CheckPassed, cr_reason = ReasonEmpty,
       cr_message = ''1 workload(s) available'', cr_started = Some (60 * second),
       cr_finished = Some (60 * second), cr_details = []\<rparr>],
     st_namespace := ''preview-pr-7'', st_host := ''pr-7-app.preview.example.org'',
     st_completed := Some (60 * second),
     st_conditions := [\<lparr>cond_type = ''Succeeded'', cond_status = CondTrue,
       cond_reason = ''AllChecksPassed'', cond_message = ''1 check(s) passed'',
       cond_observed_generation = 1, cond_last_transition = 60 * second\<rparr>]\<rparr>\<rparr>"

lemma demo_start:
  "run_in (Reconcile api_demo cf_demo ''preview-check'' ''pc'') (world_demo\<lparr>pw_pc := Inr pc_demo1\<rparr>) =
     ((\<lparr>res_requeue = False, res_after = 5 * second\<rparr>, None),
      [GetPC ''preview-check'' ''pc'' (Inr pc_demo1), Now 0, Now 0, UpdateStatus pc_started (Inr pc_started),
       Event EventNormal ''Pending'' ''waiting for the preview environment''])"
  by code_simp

lemma itoa_demo [run_simps]: "itoa 7 = ''7''" "itoa 1 = ''1''" "itoa 80 = ''80''" by code_simp+

lemma world_ready_sel [run_simps]:
  "pw_pc world_ready = Inr pc_started" "pw_namespace world_ready = Inr ns_demo"
  "pw_kustomization world_ready = Inr ks_demo" "pw_deployments world_ready = [wl_demo]"
  "pw_now world_ready = 60 * second" "pw_route world_ready = Inl not_found"
  "pw_job world_ready = Inl not_found" "pw_config world_ready = Inl not_found"
  by (simp_all add: world_ready_def world_demo_def)

lemma not_found_sel [run_simps]:
  "IsNotFound not_found = True" "api_reason_of not_found = RNotFound"
  by (simp_all add: not_found_def IsNotFound_def)

lemma ns_demo_sel [run_simps]:
  "ns_deleting ns_demo = False"
  "sget (ns_labels ns_demo) PreviewEnvironmentLabel = ''true''"
  "sget (ns_labels ns_demo) PreviewAppLabel = ''app''"
  by (simp_all add: ns_demo_def sget_def PreviewEnvironmentLabel_def PreviewAppLabel_def)

lemma pc_started_sel [run_simps]:
  "pc_deleting pc_started = False" "pc_name pc_started = ''pc''"
  "lib_contains_finalizer klib_demo (pc_finalizers pc_started) previewCheckFinalizer = True"
  "pcs_pr (pc_spec pc_started) = 7" "pcs_app (pc_spec pc_started) = []"
  "pcs_revision (pc_spec pc_started) = []" "pcs_checks (pc_spec pc_started) = [CheckReadiness]"
  "pcs_timeout (pc_spec pc_started) = 0"
  "st_phase (pc_status pc_started) = PreviewCheckPending" "st_started (pc_status pc_started) = Some 0"
  "st_expires (pc_status pc_started) = Some (7200 * second)" "st_checks (pc_status pc_started) = []"
  "st_namespace (pc_status pc_started) = []"
  by (simp_all add: pc_started_def pc_demo1_def pc_demo_def spec_demo_def status_demo_def klib_demo_def
      previewCheckFinalizer_def)

lemma ks_demo_settled [run_simps]:
  "kustomizationSettled klib_demo ks_demo [] = (True, ReasonEmpty, ''preview Kustomization applied sha1:abc'', False)"
  by code_simp

lemma wl_demo_ready [run_simps]:
  "EvaluateWorkloadReadiness [wl_demo] [] = (True, ''1 workload(s) available'')"
  by code_simp

lemmas pass_defs = Let_def judge_pass_def resolveNamespace_def make_env_def observe_namespace_def
  checkGate_def runChecks_def orderedChecks_def check_done_def findCheck_def advanceCheck_def
  evaluateCheck_def keep_pc_def checkReadiness_def deadline_step_def step_of_def record_check_def
  step_result_def step_update_def update_of_def allChecksTerminal_def publish_def
  phase_condition_def count_check_def count_verdict_def pc_event_def metricApp_def
  time_sub_def sat64_def dur_seconds_def wrap64_def

lemma demo_judge:
  "run_in (Reconcile api_demo cf_demo ''preview-check'' ''pc'') world_ready =
     ((res_done, None),
      [GetPC ''preview-check'' ''pc'' (Inr pc_started), Now (60 * second),
       GetNamespace ''preview-pr-7'' (Inr ns_demo),
       GetKustomization ''preview-pr-7'' ''preview-app-7'' (Inr ks_demo),
       ListDeployments ''preview-pr-7'' (Inr [wl_demo]), ListStatefulSets ''preview-pr-7'' (Inr []),
       Now (60 * second), UpdateStatus pc_passed (Inr pc_passed),
       CountCheck ''app'' ''readiness'' ''Passed'', CountVerdict ''app'' PreviewCheckPassed ReasonAllChecksPassed,
       ObserveDuration ''app'' (60 * second), Event EventNormal ''AllChecksPassed'' ''1 check(s) passed''])"
  by (simp add: Reconcile_def run_simps pass_defs truncateMessage_def)
     (simp add: publish_status_def Let_def klib_demo_def pc_passed_def truncateMessage_def
        ConditionSucceeded_def pc_started_def pc_demo1_def pc_demo_def spec_demo_def status_demo_def
        cf_demo_def phase_condition_def)

definition pc_expired :: preview_check where
  "pc_expired = pc_started\<lparr>pc_status := (pc_status pc_started)\<lparr>st_phase := PreviewCheckExpired,
     st_message := ''preview namespace preview-pr-7 has not been rendered yet'',
     st_completed := Some (3600 * second),
     st_conditions := [\<lparr>cond_type = ''Succeeded'', cond_status = CondFalse, cond_reason = ''NamespaceGone'',
       cond_message = ''preview namespace preview-pr-7 has not been rendered yet'',
       cond_observed_generation = 1, cond_last_transition = 3600 * second\<rparr>]\<rparr>\<rparr>"

text \<open>The same check an hour later, in a cluster that never rendered the preview.\<close>

lemma demo_late:
  "run_in (Reconcile api_demo cf_demo ''preview-check'' ''pc'')
     (world_demo\<lparr>pw_pc := Inr pc_started, pw_now := 3600 * second\<rparr>) =
     ((res_done, None),
      [GetPC ''preview-check'' ''pc'' (Inr pc_started), Now (3600 * second),
       GetNamespace ''preview-pr-7'' (Inl not_found), Now (3600 * second),
       UpdateStatus pc_expired (Inr pc_expired),
       CountVerdict ''unknown'' PreviewCheckExpired ReasonNamespaceGone,
       ObserveDuration ''unknown'' (3600 * second),
       Event EventWarning ''NamespaceGone'' ''preview namespace preview-pr-7 has not been rendered yet''])"
  by code_simp

lemma demo_reachable: "pc_reachable api_demo cf_demo pc_passed"
proof -
  have f: "pc_reachable api_demo cf_demo pc_demo1"
    by (rule pc_reachable.fresh) (simp add: pc_fresh_def pc_demo1_def pc_demo_def status_demo_def)
  have "pc_step api_demo cf_demo pc_demo1 (pc_demo1\<lparr>pc_status := pc_status pc_started\<rparr>)"
    by (rule pc_step.pass [OF demo_start, of pc_demo1 pc_started pc_started]) simp_all
  moreover have "pc_demo1\<lparr>pc_status := pc_status pc_started\<rparr> = pc_started"
    by (simp add: pc_started_def)
  ultimately have s1: "pc_step api_demo cf_demo pc_demo1 pc_started" by simp
  have "pc_step api_demo cf_demo pc_started (pc_started\<lparr>pc_status := pc_status pc_passed\<rparr>)"
    by (rule pc_step.pass [OF demo_judge, of pc_started pc_passed pc_passed]) simp_all
  moreover have "pc_started\<lparr>pc_status := pc_status pc_passed\<rparr> = pc_passed"
    by (simp add: pc_passed_def)
  ultimately have s2: "pc_step api_demo cf_demo pc_started pc_passed" by simp
  show ?thesis by (rule pc_reachable.step [OF pc_reachable.step [OF f s1] s2])
qed

subsection \<open>Properties\<close>

text \<open>C6 A verdict is final: once a PreviewCheck is Passed, Failed or Expired, no sequence of
  reconcile passes, spec edits and metadata changes alters its status again.\<close>

theorem verdict_is_final:
  assumes "(pc_step api cf)\<^sup>*\<^sup>* pc pc'" and "pc_terminal (st_phase (pc_status pc))"
  shows "pc_status pc' = pc_status pc"
  using pc_verdict.terminal_run [OF assms] by simp

theorem verdict_is_final_witness:
  "pc_status (pc_passed\<lparr>pc_spec := (pc_spec pc_passed)\<lparr>pcs_timeout := 9\<rparr>, pc_generation := 2\<rparr>) =
     pc_status pc_passed"
proof (rule verdict_is_final)
  show "(pc_step api_demo cf_demo)\<^sup>*\<^sup>* pc_passed
      (pc_passed\<lparr>pc_spec := (pc_spec pc_passed)\<lparr>pcs_timeout := 9\<rparr>, pc_generation := 2\<rparr>)"
    by (rule r_into_rtranclp, rule pc_step.edit, unfold spec_edit_ok_def,
        rule exI [of _ 9], rule exI [of _ "pcs_ttl (pc_spec pc_passed)"],
        rule exI [of _ "pcs_thresholds (pc_spec pc_passed)"]) simp
  show "pc_terminal (st_phase (pc_status pc_passed))" by (simp add: pc_passed_def)
qed

text \<open>C2 A pass is earned: in every reachable PreviewCheck that is Passed, the recorded checks are
  exactly the selected ones, each of them Passed or Skipped.\<close>

theorem passed_is_earned:
  assumes "pc_reachable api cf pc" and "st_phase (pc_status pc) = PreviewCheckPassed"
  shows "map cr_name (st_checks (pc_status pc)) = orderedChecks (pcs_checks (Defaulted (pc_spec pc)))
    \<and> (\<forall>r\<in>set (st_checks (pc_status pc)). cr_phase r = CheckPassed \<or> cr_phase r = CheckSkipped)"
  using pc_inv_reachable [OF assms(1)] assms(2)
  by (simp add: pc_inv_def ord_of_def check_good_def list_all_iff Let_def del: Defaulted_sel)

theorem passed_is_earned_witness:
  "pc_reachable api_demo cf_demo pc_passed
   \<and> map cr_name (st_checks (pc_status pc_passed)) = orderedChecks (pcs_checks (Defaulted (pc_spec pc_passed)))"
  using passed_is_earned [OF demo_reachable] demo_reachable by (simp add: pc_passed_def del: Defaulted_sel)

text \<open>C27 One check at a time, in the fixed order: the recorded checks are always an initial segment of
  the selected checks in the order readiness, http, trivy, smoke, and all but the last of them
  passed or were skipped.\<close>

theorem checks_in_fixed_order:
  assumes "pc_reachable api cf pc"
  shows "map cr_name (st_checks (pc_status pc)) =
      take (length (st_checks (pc_status pc))) (orderedChecks (pcs_checks (Defaulted (pc_spec pc))))
    \<and> (\<forall>r\<in>set (butlast (st_checks (pc_status pc))). cr_phase r = CheckPassed \<or> cr_phase r = CheckSkipped)"
  using pc_inv_reachable [OF assms]
  by (simp add: pc_inv_def rec_ok_def ord_of_def check_good_def list_all_iff Let_def del: Defaulted_sel)

theorem checks_in_fixed_order_witness:
  "map cr_name (st_checks (pc_status pc_passed)) = take 1 [CheckReadiness]"
  using checks_in_fixed_order [OF demo_reachable]
  by (simp add: pc_passed_def pc_started_def pc_demo1_def pc_demo_def orderedChecks_def)

lemma touched_phase: "touched pc pc1 \<Longrightarrow> st_phase (pc_status pc1) = st_phase (pc_status pc)"
  using touched_sel by blast

lemma pass_rel_phase:
  assumes "pass_rel pc now pc1 u"
  shows "st_phase (pc_status pc1) = st_phase (pc_status pc)"
proof (cases "st_started (pc_status pc)")
  case None
  then show ?thesis using assms by (simp add: pass_rel_def)
next
  case (Some started)
  from assms Some consider
    (ttl) "pc1 = pc" | (gate) env where "gate_rel pc env pc1 u"
    | (run) pc2 env where "touched pc pc2" "run_rel pc2 (Defaulted (pc_spec pc)) env pc1 u"
    by (auto simp: pass_rel_def)
  then show ?thesis
  proof cases
    case run
    from run(2) have "st_phase (pc_status pc1) = st_phase (pc_status pc2)"
      by (cases rule: run_rel_cases) (simp_all add: touched_phase same_but_checks_sel)
    then show ?thesis using touched_phase [OF run(1)] by simp
  qed (simp_all add: touched_phase gate_rel_def)
qed

text \<open>Counted exactly once: in a pass whose status write landed, the verdict counter is incremented
  exactly when the write turned a non-terminal PreviewCheck terminal, once, with the phase written
  and a reason that phase allows; a pass whose write failed counts nothing.\<close>

theorem verdict_counted_once:
  assumes "run_in (Reconcile api cf ns name) w = (res, xs)" and "GetPC ns name (Inr pc) \<in> set xs"
    and "UpdateStatus pc' r \<in> set xs"
  shows "case r of
      Inl _ \<Rightarrow> verdicts xs = [] \<and> check_counts xs = []
    | Inr _ \<Rightarrow>
        (if pc_terminal (st_phase (pc_status pc')) \<and> \<not> pc_terminal (st_phase (pc_status pc))
         then \<exists>app reason. verdicts xs = [(app, st_phase (pc_status pc'), reason)]
                \<and> reason_ok (st_phase (pc_status pc')) reason
         else verdicts xs = [])
        \<and> length (check_counts xs) \<le> 1"
proof -
  obtain now t pc1 up ys where p: "pass_rel pc now pc1 up" and pc': "pc' = publish_status (api_lib api) pc1 up t"
    and tl: "tail_ok pc1 up r ys" and v: "verdicts xs = verdicts ys" "check_counts xs = check_counts ys"
    by (rule reconcile_status_write [OF assms])
  have ph: "st_phase (pc_status pc1) = st_phase (pc_status pc)"
    using pass_rel_phase [OF p] .
  have rs: "reason_ok (u_phase up) (u_reason up)" by (rule pass_rel_reason [OF p])
  show ?thesis
  proof (cases r)
    case (Inl e)
    then show ?thesis using tl v by (simp add: tail_ok_def verdicts_def check_counts_def)
  next
    case (Inr stored)
    with tl have m: "map snd (verdicts xs) =
        (if verdict_entered pc1 up then [(u_phase up, u_reason up)] else [])"
      and "length (map snd (check_counts xs)) \<le> 1"
      using v by (auto simp: tail_ok_def split: option.splits)
    then have l: "length (check_counts xs) \<le> 1" by simp
    show ?thesis
    proof (cases "verdict_entered pc1 up")
      case True
      with m obtain a where "verdicts xs = [(a, u_phase up, u_reason up)]" by auto
      with True l rs show ?thesis by (auto simp: Inr pc' ph verdict_entered_def)
    next
      case False
      with m have "verdicts xs = []" by simp
      with False l show ?thesis by (simp add: Inr pc' ph verdict_entered_def)
    qed
  qed
qed

theorem verdict_counted_once_witness:
  "verdicts [CountVerdict ''app'' PreviewCheckPassed ReasonAllChecksPassed] \<noteq> []"
  using verdict_counted_once [OF demo_judge, of pc_started pc_passed "Inr pc_passed"]
  by (simp add: verdicts_def pc_passed_def pc_started_def)

text \<open>The gate facts of a pass, from its log.\<close>

lemma gated_Cons: "gated lib pc xs \<Longrightarrow> \<not> job_call c \<Longrightarrow> gated lib pc (c # xs)"
  unfolding gated_def by (elim disjE exE conjE) (simp, fastforce)

lemma reconcile_post_one_get:
  assumes "reconcile_post lib ns name res (GetPC ns name got # ys)"
  shows "GetPC a b g \<notin> set ys"
proof -
  from assms consider "list_all is_silent ys"
    | pc now where "published lib is_silent (pass_rel pc now) res ys"
    unfolding reconcile_post_def by auto
  then show ?thesis
  proof cases
    case 1
    have "\<not> is_silent (GetPC a b g)" by simp
    with 1 show ?thesis unfolding list_all_iff by blast
  next
    case 2
    then obtain pre t pc1 u r tl where
      ys: "ys = pre @ Now t # UpdateStatus (publish_status lib pc1 u t) r # tl"
      "list_all is_silent pre" "list_all is_counter tl"
      unfolding published_def tail_ok_def by blast
    have "\<not> is_silent (GetPC a b g)" "\<not> is_counter (GetPC a b g)" by simp_all
    then have "GetPC a b g \<notin> set pre" "GetPC a b g \<notin> set tl"
      using ys(2,3) unfolding list_all_iff by blast+
    then show ?thesis by (simp add: ys(1))
  qed
qed

lemma reconcile_gated_log:
  assumes "run_in (Reconcile api cf ns name) w = (res, xs)" and "GetPC ns name (Inr pc) \<in> set xs"
  shows "if pc_deleting pc
     then list_all (\<lambda>c. \<not> job_call c) xs \<and> ((\<exists>p q. UpdatePC p q \<in> set xs) \<longrightarrow> torn_down pc xs)
     else list_all (\<lambda>c. \<not> job_call c) xs \<or> gated (api_lib api) pc xs"
proof -
  from ens_run_in [OF Reconcile_gated assms(1)] obtain got ys where
    xs: "xs = GetPC ns name got # ys" and c: "case got of
           Inl _ \<Rightarrow> ys = []
         | Inr pc \<Rightarrow>
             if pc_deleting pc
             then list_all (\<lambda>c. \<not> job_call c) ys \<and> ((\<exists>p q. UpdatePC p q \<in> set ys) \<longrightarrow> torn_down pc ys)
             else if lib_contains_finalizer (api_lib api) (pc_finalizers pc) previewCheckFinalizer
             then gated (api_lib api) pc ys
             else list_all (\<lambda>c. \<not> job_call c) ys" by blast
  from ens_run_in [OF Reconcile_ens assms(1)] have "GetPC ns name g \<notin> set ys" for g
    unfolding xs by (rule reconcile_post_one_get)
  then have got: "got = Inr pc" using assms(2) by (auto simp: xs)
  have td: "torn_down pc (GetPC ns name got # ys)" if "torn_down pc ys"
    using that unfolding torn_down_def by (fastforce split: sum.splits)
  from c show ?thesis
    by (auto simp: xs got td [unfolded got] gated_Cons split: if_splits)
qed

text \<open>C12 Nothing runs outside a gated preview: whenever a pass creates a Job, it read the preview
  namespace, labelled as a preview, not being deleted and naming the application, and a settled
  Kustomization of the requested revision; the Job is in that namespace, carries the owner's
  label, has no service account token and no retries, and its containers may not escalate.\<close>

theorem jobs_only_behind_gates:
  assumes "run_in (Reconcile api cf ns name) w = (res, xs)" and "GetPC ns name (Inr pc) \<in> set xs"
    and "CreateJob j r \<in> set xs"
  shows "\<exists>pns ks ksn. GetNamespace (job_namespace j) (Inr pns) \<in> set xs
      \<and> job_namespace j = ''preview-pr-'' @ itoa (pcs_pr (pc_spec pc))
      \<and> ns_ready (Defaulted (pc_spec pc)) pns
      \<and> GetKustomization (job_namespace j) ksn (Inr ks) \<in> set xs
      \<and> fst (kustomizationSettled (api_lib api) ks (pcs_revision (pc_spec pc)))
      \<and> sget (job_labels j) CheckJobLabel = pc_name pc
      \<and> job_backoff_limit j = Some 0
      \<and> ps_automount_token (job_pod j) = Some False
      \<and> list_all confined (ps_containers (job_pod j))"
proof -
  have "\<not> list_all (\<lambda>c. \<not> job_call c) xs"
    using assms(3) unfolding list_all_iff by (metis job_call.simps(1,2))
  then have "gated (api_lib api) pc xs"
    using reconcile_gated_log [OF assms(1,2)] by (simp split: if_splits)
  then obtain env pns ks ksn where g: "GetNamespace (ce_ns_name env) (Inr pns) \<in> set xs"
    "ce_ns_name env = ''preview-pr-'' @ itoa (pcs_pr (pc_spec pc))"
    "ns_ready (Defaulted (pc_spec pc)) pns"
    "GetKustomization (ce_ns_name env) ksn (Inr ks) \<in> set xs"
    "fst (kustomizationSettled (api_lib api) ks (pcs_revision (pc_spec pc)))"
    "\<forall>c\<in>set xs. job_call c \<longrightarrow> check_call env (pc_name pc) c"
    using \<open>\<not> list_all (\<lambda>c. \<not> job_call c) xs\<close> unfolding gated_def by blast
  from g(6) assms(3) have "check_job_ok env (pc_name pc) j" by fastforce
  then show ?thesis using g(1-5) unfolding check_job_ok_def by metis
qed

text \<open>The same preview judged over HTTP: the probe Job is created.\<close>

definition pc_http :: preview_check where
  "pc_http = pc_started\<lparr>pc_spec := spec_demo\<lparr>pcs_checks := [CheckHTTP]\<rparr>\<rparr>"

definition world_http :: preview_world where
  "world_http = world_ready\<lparr>pw_pc := Inr pc_http,
     pw_services := [\<lparr>svc_name = ''app'', svc_ports = [80]\<rparr>]\<rparr>"

definition job_demo :: job where
  "job_demo = probeJob cf_demo (env_demo\<lparr>ce_id := CheckID ''u-1'' ''pc''\<rparr>) pc_http (Defaulted (pc_spec pc_http))
     ''http://app.preview-pr-7.svc.cluster.local:80/''"

lemma probeJob_sel [run_simps]:
  "job_namespace (probeJob cf env pc spc url) = ce_ns_name env"
  "job_name (probeJob cf env pc spc url) = jobName (ce_id env) CheckHTTP"
  "JobOutcome (Some (probeJob cf env pc spc url)) = (JobRunning, [], [])"
  by (simp_all add: probeJob_def check_job_def JobOutcome_def)

lemma probeJob_cong:
  "ce_ns_name env = ce_ns_name env' \<Longrightarrow> ce_id env = ce_id env' \<Longrightarrow>
   probeJob cf env pc spc url = probeJob cf env' pc spc url"
  by (simp add: probeJob_def check_job_def)

lemma pc_started_uid [run_simps]: "pc_uid pc_started = ''u-1''"
  by (simp add: pc_started_def pc_demo1_def pc_demo_def)

lemma spec_demo_sel [run_simps]:
  "pcs_pr spec_demo = 7" "pcs_app spec_demo = []" "pcs_revision spec_demo = []"
  "pcs_timeout spec_demo = 0" "pcs_http_path spec_demo = []"
  by (simp_all add: spec_demo_def)

lemma choose_target_demo [run_simps]:
  "ce_app env = ''app'' \<Longrightarrow>
   choose_target env no_target [\<lparr>svc_name = ''app'', svc_ports = [80]\<rparr>] = \<lparr>ht_service = ''app'', ht_port = 80\<rparr>"
  by (simp add: choose_target_def service_named_def no_target_def Let_def)

lemmas http_defs = checkHTTP_def resolveHTTPTarget_def serviceURL_def ensureJob_def ns_is_preview_def

lemma demo_http:
  "GetPC ''preview-check'' ''pc'' (Inr pc_http)
     \<in> set (snd (run_in (Reconcile api_demo cf_demo ''preview-check'' ''pc'') world_http))"
  "CreateJob job_demo (Inr job_demo)
     \<in> set (snd (run_in (Reconcile api_demo cf_demo ''preview-check'' ''pc'') world_http))"
   apply (simp add: Reconcile_def run_simps pass_defs http_defs world_http_def pc_http_def)
  apply (simp add: Reconcile_def run_simps pass_defs http_defs world_http_def pc_http_def)
  apply (simp add: job_demo_def probeJob_def check_job_def env_demo_def pc_http_def run_simps)
  done

theorem jobs_only_behind_gates_witness:
  "job_namespace job_demo = ''preview-pr-'' @ itoa (pcs_pr (pc_spec pc_http))
   \<and> sget (job_labels job_demo) CheckJobLabel = pc_name pc_http"
  using jobs_only_behind_gates [OF surjective_pairing demo_http] by blast

text \<open>The test that judges a change is not the change's: every PreviewConfig a pass reads is the one
  named after the application in the application's own production namespace, as the label of the
  gated preview namespace names it.\<close>

theorem smoke_config_from_production:
  assumes "run_in (Reconcile api cf ns name) w = (res, xs)" and "GetPC ns name (Inr pc) \<in> set xs"
    and "GetConfig a b r \<in> set xs"
  shows "\<exists>pns. GetNamespace (''preview-pr-'' @ itoa (pcs_pr (pc_spec pc))) (Inr pns) \<in> set xs
      \<and> ns_ready (Defaulted (pc_spec pc)) pns
      \<and> a = sget (ns_labels pns) PreviewAppLabel \<and> b = sget (ns_labels pns) PreviewAppLabel"
proof -
  have "\<not> list_all (\<lambda>c. \<not> job_call c) xs"
    using assms(3) unfolding list_all_iff by (metis job_call.simps(1,2))
  then have "gated (api_lib api) pc xs"
    using reconcile_gated_log [OF assms(1,2)] by (simp split: if_splits)
  then obtain env pns where g: "GetNamespace (ce_ns_name env) (Inr pns) \<in> set xs"
    "ce_ns_name env = ''preview-pr-'' @ itoa (pcs_pr (pc_spec pc))"
    "ce_app env = sget (ns_labels pns) PreviewAppLabel" "ns_ready (Defaulted (pc_spec pc)) pns"
    "\<forall>c\<in>set xs. job_call c \<longrightarrow> check_call env (pc_name pc) c"
    using \<open>\<not> list_all (\<lambda>c. \<not> job_call c) xs\<close> unfolding gated_def by blast
  from g(5) assms(3) have "a = ce_app env \<and> b = ce_app env" by fastforce
  then show ?thesis using g by auto
qed

text \<open>C28 No leaked Jobs: a pass over a PreviewCheck that is being deleted gives up the finalizer only
  after every Job carrying its label in its preview namespace was deleted with background
  propagation or was already gone with its namespace.\<close>

theorem finalizer_after_teardown:
  assumes "run_in (Reconcile api cf ns name) w = (res, xs)" and "GetPC ns name (Inr pc) \<in> set xs"
    and "pc_deleting pc" and "UpdatePC pc' r \<in> set xs"
  shows "\<exists>lr. ListJobs (preview_ns_of pc) CheckJobLabel (pc_name pc) lr \<in> set xs \<and>
     (case lr of
        Inl e \<Rightarrow> namespaceUnavailable e
      | Inr jobs \<Rightarrow> \<forall>j\<in>set jobs. \<exists>d. DeleteJob j PropagationBackground d \<in> set xs
          \<and> (\<forall>e. d = Some e \<longrightarrow> namespaceUnavailable e))"
  using reconcile_gated_log [OF assms(1,2)] assms(3,4) unfolding torn_down_def by auto

definition pc_smoke :: preview_check where
  "pc_smoke = pc_started\<lparr>pc_spec := spec_demo\<lparr>pcs_checks := [CheckSmoke]\<rparr>\<rparr>"

lemma pc_smoke_sel [run_simps]:
  "pc_deleting pc_smoke = False" "pc_name pc_smoke = ''pc''"
  "lib_contains_finalizer klib_demo (pc_finalizers pc_smoke) previewCheckFinalizer = True"
  "pc_spec pc_smoke = spec_demo\<lparr>pcs_checks := [CheckSmoke]\<rparr>" "pc_status pc_smoke = pc_status pc_started"
  by (simp_all add: pc_smoke_def run_simps)

definition world_smoke :: preview_world where
  "world_smoke = world_ready\<lparr>pw_pc := Inr pc_smoke\<rparr>"

lemma world_smoke_sel [run_simps]:
  "pw_pc world_smoke = Inr pc_smoke" "pw_namespace world_smoke = Inr ns_demo"
  "pw_kustomization world_smoke = Inr ks_demo" "pw_now world_smoke = 60 * second"
  "pw_config world_smoke = Inl not_found"
  by (simp_all add: world_smoke_def run_simps)

lemma demo_smoke:
  "GetPC ''preview-check'' ''pc'' (Inr pc_smoke)
     \<in> set (snd (run_in (Reconcile api_demo cf_demo ''preview-check'' ''pc'') world_smoke))"
  "GetConfig ''app'' ''app'' (Inl not_found)
     \<in> set (snd (run_in (Reconcile api_demo cf_demo ''preview-check'' ''pc'') world_smoke))"
  by (simp_all add: Reconcile_def run_simps pass_defs checkSmoke_def smoke_skipped_def)

theorem smoke_config_from_production_witness:
  "\<exists>pns. ''app'' = sget (ns_labels pns) PreviewAppLabel \<and> ns_ready (Defaulted (pc_spec pc_smoke)) pns"
  using smoke_config_from_production [OF surjective_pairing demo_smoke] by blast

definition pc_gone :: preview_check where
  "pc_gone = pc_demo\<lparr>pc_deleting := True\<rparr>"

definition job_light :: job where
  "job_light = \<lparr>job_name = ''preview-check-u1-http'', job_namespace = ''preview-pr-7'',
     job_labels = [(CheckJobLabel, ''pc'')], job_deleting = False, job_backoff_limit = None,
     job_active_deadline = None, job_ttl = None, job_pod_labels = [], job_pod = wl_pod_spec wl_demo,
     job_conditions = [], job_succeeded = 1, job_failed = 0\<rparr>"

definition world_gone :: preview_world where
  "world_gone = world_demo\<lparr>pw_pc := Inr pc_gone, pw_job := Inr job_light\<rparr>"

lemma pc_gone_sel [run_simps]:
  "pc_deleting pc_gone = True" "pc_name pc_gone = ''pc''" "preview_ns_of pc_gone = ''preview-pr-7''"
  "lib_contains_finalizer klib_demo (pc_finalizers pc_gone) previewCheckFinalizer = True"
  "lib_remove_finalizer klib_demo (pc_finalizers pc_gone) previewCheckFinalizer = []"
  by (simp_all add: pc_gone_def pc_demo_def preview_ns_of_def spec_demo_def status_demo_def
      klib_demo_def previewCheckFinalizer_def run_simps)

lemma world_gone_sel [run_simps]: "pw_pc world_gone = Inr pc_gone" "pw_job world_gone = Inr job_light"
  by (simp_all add: world_gone_def)

lemma demo_gone:
  "run_in (Reconcile api_demo cf_demo ''preview-check'' ''pc'') world_gone =
     ((res_done, None),
      [GetPC ''preview-check'' ''pc'' (Inr pc_gone),
       ListJobs ''preview-pr-7'' CheckJobLabel ''pc'' (Inr [job_light]),
       DeleteJob job_light PropagationBackground None,
       UpdatePC (pc_gone\<lparr>pc_finalizers := []\<rparr>) (Inr (pc_gone\<lparr>pc_finalizers := []\<rparr>))])"
  by (simp add: Reconcile_def run_simps reconcile_deleted_def teardown_def listCheckJobs_def Let_def)

theorem finalizer_after_teardown_witness:
  "\<exists>lr. ListJobs (preview_ns_of pc_gone) CheckJobLabel (pc_name pc_gone) lr
     \<in> set (snd (run_in (Reconcile api_demo cf_demo ''preview-check'' ''pc'') world_gone))"
  using finalizer_after_teardown [OF demo_gone, of pc_gone "pc_gone\<lparr>pc_finalizers := []\<rparr>"
      "Inr (pc_gone\<lparr>pc_finalizers := []\<rparr>)"]
  by (auto simp: demo_gone pc_gone_sel)

end
