(* ===== verification/Preview_Deadline.thy ===== *)
theory Preview_Deadline
  imports Preview_Run
begin

section \<open>The deadline of a PreviewCheck\<close>

text \<open>
  What happens to a check once its deadline has passed: a pass that reports no error writes the status,
  each such write ends the check or finishes one of its steps, and no other pass or edit undoes a step.
\<close>

subsection \<open>The unfinished steps\<close>


lemma undone_status [simp]:
  "undone (publish_status lib pc u t) = undone pc"
  "undone (pc\<lparr>pc_deleting := d, pc_finalizers := f\<rparr>) = undone pc"
  by (simp_all add: undone_def ord_of_def)










subsection \<open>A late pass writes\<close>


definition writes :: "preview_call list \<Rightarrow> bool" where
  "writes xs \<longleftrightarrow> (\<exists>p r. UpdateStatus p r \<in> set xs)"

lemma writes_append [simp]: "writes (xs @ ys) \<longleftrightarrow> writes xs \<or> writes ys" "writes (Now t # xs) \<longleftrightarrow> writes xs"
  by (auto simp: writes_def)






subsection \<open>Late passes in a row\<close>








end
