(* ===== verification/Api_MigrationCheck.thy ===== *)
theory Api_MigrationCheck
  imports Kube_Types
begin

section \<open>MigrationCheck: api/v1/migrationcheck_types.go\<close>

text \<open>
  The MigrationCheck resource, its phases and reasons, and the probe and report it may carry.
  A nil pointer is \<open>None\<close>; the empty phase and the empty reason have a constructor.
\<close>

datatype mc_phase = MigrationCheckNone | MigrationCheckPending | MigrationCheckProvisioning
  | MigrationCheckReady | MigrationCheckRunning | MigrationCheckPassed | MigrationCheckFailed
  | MigrationCheckExpired

fun mc_terminal :: "mc_phase \<Rightarrow> bool" where
  "mc_terminal MigrationCheckPassed = True"
| "mc_terminal MigrationCheckFailed = True"
| "mc_terminal MigrationCheckExpired = True"
| "mc_terminal _ = False"

fun mc_phase_text :: "mc_phase \<Rightarrow> string" where
  "mc_phase_text MigrationCheckNone = []"
| "mc_phase_text MigrationCheckPending = ''Pending''"
| "mc_phase_text MigrationCheckProvisioning = ''Provisioning''"
| "mc_phase_text MigrationCheckReady = ''Ready''"
| "mc_phase_text MigrationCheckRunning = ''Running''"
| "mc_phase_text MigrationCheckPassed = ''Passed''"
| "mc_phase_text MigrationCheckFailed = ''Failed''"
| "mc_phase_text MigrationCheckExpired = ''Expired''"

datatype mc_reason = MigrationReasonNone | MigrationReasonProvisioning | MigrationReasonReady
  | MigrationReasonCloneFailed | MigrationReasonCloneNotReady | MigrationReasonProbeRunning
  | MigrationReasonProbePassed | MigrationReasonProbeFailed | MigrationReasonImageUnavailable
  | MigrationReasonPodNotStarted | MigrationReasonDeadlineExceeded | MigrationReasonTTLTooShort

fun mc_reason_text :: "mc_reason \<Rightarrow> string" where
  "mc_reason_text MigrationReasonNone = []"
| "mc_reason_text MigrationReasonProvisioning = ''Provisioning''"
| "mc_reason_text MigrationReasonReady = ''Ready''"
| "mc_reason_text MigrationReasonCloneFailed = ''CloneFailed''"
| "mc_reason_text MigrationReasonCloneNotReady = ''CloneNotReady''"
| "mc_reason_text MigrationReasonProbeRunning = ''ProbeRunning''"
| "mc_reason_text MigrationReasonProbePassed = ''ProbePassed''"
| "mc_reason_text MigrationReasonProbeFailed = ''ProbeFailed''"
| "mc_reason_text MigrationReasonImageUnavailable = ''ImageUnavailable''"
| "mc_reason_text MigrationReasonPodNotStarted = ''PodNotStarted''"
| "mc_reason_text MigrationReasonDeadlineExceeded = ''DeadlineExceeded''"
| "mc_reason_text MigrationReasonTTLTooShort = ''TTLTooShort''"

text \<open>\<open>MigrationProbe\<close>: numbers are the \<open>int32\<close> and \<open>int64\<close> the API server decoded.\<close>

record mig_probe =
  mp_image :: string
  mp_command :: "string list"
  mp_args :: "string list"
  mp_port :: int
  mp_ready_path :: string
  mp_expect :: string
  mp_run_as_user :: "int option"
  mp_env :: smap
  mp_timeout :: int

record mig_report =
  mrp_provider :: string
  mrp_repo :: string
  mrp_revision :: string
  mrp_name :: string

record mc_spec_t =
  mcs_app :: string
  mcs_cluster :: string
  mcs_cluster_ns :: string
  mcs_database :: string
  mcs_ttl :: int
  mcs_ready_timeout :: int
  mcs_probe :: "mig_probe option"
  mcs_report :: "mig_report option"

record mc_status_t =
  mst_phase :: mc_phase
  mst_reason :: mc_reason
  mst_message :: string
  mst_secret_name :: string
  mst_secret_ns :: string
  mst_clone_ns :: string
  mst_clone_image :: string
  mst_expires :: "instant option"
  mst_started :: "instant option"
  mst_probe_job :: string
  mst_probe_started :: "instant option"
  mst_completed :: "instant option"
  mst_check_run :: int
  mst_reported :: mc_phase

record migration_check =
  mc_name :: string
  mc_namespace :: string
  mc_uid :: string
  mc_created :: instant
  mc_deleting :: bool
  mc_finalizers :: "string list"
  mc_spec :: mc_spec_t
  mc_status :: mc_status_t

end
