(* ===== verification/Check_Run.thy ===== *)
theory Check_Run
  imports Klib
begin

section \<open>Check runs: internal/githubapp/client.go\<close>

text \<open>
  The subset of a GitHub check run that the operator publishes, and its JSON body. A JSON object
  is the list of its members; \<open>body\<close> leaves out every empty field.
\<close>

record check_run =
  run_name :: string
  run_head_sha :: string
  run_status :: string
  run_conclusion :: string
  run_details_url :: string
  run_started :: "instant option"
  run_completed :: "instant option"
  run_title :: string
  run_summary :: string
  run_text :: string

definition str_field :: "string \<Rightarrow> string \<Rightarrow> (string \<times> json) list" where
  "str_field k v = (if v = [] then [] else [(k, JStr v)])"

definition time_field :: "klib \<Rightarrow> string \<Rightarrow> instant option \<Rightarrow> (string \<times> json) list" where
  "time_field lib k t = (case t of None \<Rightarrow> [] | Some i \<Rightarrow> [(k, JStr (lib_rfc3339 lib (Some i)))])"

definition run_body :: "klib \<Rightarrow> check_run \<Rightarrow> bool \<Rightarrow> (string \<times> json) list" where
  "run_body lib r withHeadSHA =
     str_field ''name'' (run_name r)
     @ (if withHeadSHA then str_field ''head_sha'' (run_head_sha r) else [])
     @ str_field ''status'' (run_status r)
     @ str_field ''conclusion'' (run_conclusion r)
     @ str_field ''details_url'' (run_details_url r)
     @ time_field lib ''started_at'' (run_started r)
     @ time_field lib ''completed_at'' (run_completed r)
     @ (if run_title r \<noteq> [] \<or> run_summary r \<noteq> [] then
          [(''output'', JObj ([(''title'', JStr (run_title r)), (''summary'', JStr (run_summary r))]
                              @ str_field ''text'' (run_text r)))]
        else [])"

definition no_run :: check_run where
  "no_run = \<lparr>run_name = [], run_head_sha = [], run_status = [], run_conclusion = [],
     run_details_url = [], run_started = None, run_completed = None, run_title = [],
     run_summary = [], run_text = []\<rparr>"

lemma str_field_keys: "map fst (str_field k v) = (if v = [] then [] else [k])"
  by (simp add: str_field_def)

lemma time_field_keys: "map fst (time_field lib k t) = (if t = None then [] else [k])"
  by (cases t) (simp_all add: time_field_def)

text \<open>The commit is named on a creation that has one, and never on an update.\<close>

lemma head_sha_only_on_creation:
  "''head_sha'' \<in> set (map fst (run_body lib r withHeadSHA)) \<longleftrightarrow> withHeadSHA \<and> run_head_sha r \<noteq> []"
  unfolding run_body_def map_append if_distrib [of "map fst"]
  by (simp only: str_field_keys time_field_keys) simp

end
