(* ===== verification/Cluster.thy ===== *)
theory Cluster
  imports Effects Api_MigrationCheck Check_Run
begin

section \<open>What the MigrationCheck reconciler and the clone routines call\<close>

text \<open>
  \<open>cluster_api\<close> holds the client operations, the clocks, the log reader and the check-run reporter
  as functions of the world; \<open>cluster_call\<close> is the entry each leaves in the call log. An
  unstructured object is its kind, its metadata and its JSON fields. A \<open>select\<close> over a context, a
  timer and a ticker is one entry: \<open>WaitPlan n e\<close> says that the ticker fired \<open>n\<close> times, and what
  ends the wait if none of these ticks returns.
\<close>

record gvk =
  gvk_group :: string
  gvk_version :: string
  gvk_kind :: string

record uobj =
  u_gvk :: gvk
  u_namespace :: string
  u_name :: string
  u_labels :: "smap option"
  u_resource_version :: string
  u_created :: instant
  u_object :: json

record secret =
  sec_name :: string
  sec_namespace :: string
  sec_labels :: smap
  sec_type :: string
  sec_string_data :: smap
  sec_data :: smap
  sec_owners :: "string list"

text \<open>An Endpoints object: the addresses of each subset.\<close>

type_synonym endpoints = "string list list"

datatype wait_end = CtxDone goerr | TimedOut

datatype cluster_call =
    UGet gvk string string "uobj result"
  | UCreate uobj "uobj result"
  | UUpdate uobj "uobj result"
  | UDelete gvk string string "goerr option"
  | WallNow instant
  | WaitPlan nat wait_end
  | GetMC string string "migration_check result"
  | UpdateMC migration_check "migration_check result"
  | StatusMC migration_check "migration_check result"
  | DeleteMC migration_check "goerr option"
  | GetNS string "namespace result"
  | CreateNS namespace "namespace result"
  | DeleteNS string "goerr option"
  | GetEndpoints string string "endpoints result"
  | GetSecret string string "secret result"
  | CreateSecret secret "secret result"
  | DeleteSecret string string "goerr option"
  | GetProbeJob string string "job result"
  | CreateProbeJob job "job result"
  | DeleteProbeJob string string "goerr option"
  | ListJobPods string string "pod list result"
  | TailProbe string string int "string result"
  | Report mig_report int check_run "int result"
  | ClockNow instant

record 'w cluster_api =
  cl_lib :: klib
  cl_uget :: "gvk \<Rightarrow> string \<Rightarrow> string \<Rightarrow> 'w \<Rightarrow> uobj result \<times> 'w"
  cl_ucreate :: "uobj \<Rightarrow> 'w \<Rightarrow> uobj result \<times> 'w"
  cl_uupdate :: "uobj \<Rightarrow> 'w \<Rightarrow> uobj result \<times> 'w"
  cl_udelete :: "gvk \<Rightarrow> string \<Rightarrow> string \<Rightarrow> 'w \<Rightarrow> goerr option \<times> 'w"
  cl_wall :: "'w \<Rightarrow> instant \<times> 'w"
  cl_wait :: "'w \<Rightarrow> (nat \<times> wait_end) \<times> 'w"
  cl_get_mc :: "string \<Rightarrow> string \<Rightarrow> 'w \<Rightarrow> migration_check result \<times> 'w"
  cl_update_mc :: "migration_check \<Rightarrow> 'w \<Rightarrow> migration_check result \<times> 'w"
  cl_status_mc :: "migration_check \<Rightarrow> 'w \<Rightarrow> migration_check result \<times> 'w"
  cl_delete_mc :: "migration_check \<Rightarrow> 'w \<Rightarrow> goerr option \<times> 'w"
  cl_get_ns :: "string \<Rightarrow> 'w \<Rightarrow> namespace result \<times> 'w"
  cl_create_ns :: "namespace \<Rightarrow> 'w \<Rightarrow> namespace result \<times> 'w"
  cl_delete_ns :: "string \<Rightarrow> 'w \<Rightarrow> goerr option \<times> 'w"
  cl_get_endpoints :: "string \<Rightarrow> string \<Rightarrow> 'w \<Rightarrow> endpoints result \<times> 'w"
  cl_get_secret :: "string \<Rightarrow> string \<Rightarrow> 'w \<Rightarrow> secret result \<times> 'w"
  cl_create_secret :: "secret \<Rightarrow> 'w \<Rightarrow> secret result \<times> 'w"
  cl_delete_secret :: "string \<Rightarrow> string \<Rightarrow> 'w \<Rightarrow> goerr option \<times> 'w"
  cl_get_job :: "string \<Rightarrow> string \<Rightarrow> 'w \<Rightarrow> job result \<times> 'w"
  cl_create_job :: "job \<Rightarrow> 'w \<Rightarrow> job result \<times> 'w"
  cl_delete_job :: "string \<Rightarrow> string \<Rightarrow> 'w \<Rightarrow> goerr option \<times> 'w"
  cl_list_pods :: "string \<Rightarrow> string \<Rightarrow> 'w \<Rightarrow> pod list result \<times> 'w"
  cl_tail :: "(string \<Rightarrow> string \<Rightarrow> int \<Rightarrow> 'w \<Rightarrow> string result \<times> 'w) option"
  cl_report :: "(mig_report \<Rightarrow> int \<Rightarrow> check_run \<Rightarrow> 'w \<Rightarrow> int result \<times> 'w) option"
  cl_now :: "'w \<Rightarrow> instant \<times> 'w"
  cl_set_owner :: "migration_check \<Rightarrow> secret \<Rightarrow> secret result"
  cl_probe_image :: string

type_synonym ('w, 'a) cprog = "('w, cluster_call, 'a) prog"

subsection \<open>Unstructured objects\<close>

definition VolumeSnapshot :: gvk where
  "VolumeSnapshot = \<lparr>gvk_group = ''snapshot.storage.k8s.io'', gvk_version = ''v1'', gvk_kind = ''VolumeSnapshot''\<rparr>"

definition VolumeSnapshotContent :: gvk where
  "VolumeSnapshotContent =
     \<lparr>gvk_group = ''snapshot.storage.k8s.io'', gvk_version = ''v1'', gvk_kind = ''VolumeSnapshotContent''\<rparr>"

definition CnpgCluster :: gvk where
  "CnpgCluster = \<lparr>gvk_group = ''postgresql.cnpg.io'', gvk_version = ''v1'', gvk_kind = ''Cluster''\<rparr>"

definition CnpgBackup :: gvk where
  "CnpgBackup = \<lparr>gvk_group = ''postgresql.cnpg.io'', gvk_version = ''v1'', gvk_kind = ''Backup''\<rparr>"

definition new_uobj :: "gvk \<Rightarrow> string \<Rightarrow> string \<Rightarrow> uobj" where
  "new_uobj k ns name =
     \<lparr>u_gvk = k, u_namespace = ns, u_name = name, u_labels = None, u_resource_version = [],
      u_created = 0, u_object = JObj []\<rparr>"

lemma new_uobj_sel [simp]:
  "u_gvk (new_uobj k ns name) = k" "u_namespace (new_uobj k ns name) = ns"
  "u_name (new_uobj k ns name) = name" "u_labels (new_uobj k ns name) = None"
  "u_resource_version (new_uobj k ns name) = []" "u_object (new_uobj k ns name) = JObj []"
  by (simp_all add: new_uobj_def)

text \<open>\<open>unstructured.SetNestedMap\<close> of \<open>spec\<close> on an object.\<close>

definition set_spec :: "klib \<Rightarrow> uobj \<Rightarrow> (string \<times> json) list \<Rightarrow> uobj result" where
  "set_spec lib u fs =
     (case lib_set_nested_map lib (u_object u) fs [''spec''] of
        Inl err \<Rightarrow> Inl err
      | Inr j \<Rightarrow> Inr (u\<lparr>u_object := j\<rparr>))"

subsection \<open>Create or update (preview_handler.go)\<close>

definition createOrUpdate :: "'w cluster_api \<Rightarrow> uobj \<Rightarrow> ('w, goerr option) cprog" where
  "createOrUpdate api u =
     do {
       c \<leftarrow> operate (cl_ucreate api u) (UCreate u);
       case c of
         Inr _ \<Rightarrow> State_Monad.return None
       | Inl err \<Rightarrow>
           if \<not> IsAlreadyExists err then State_Monad.return (Some err)
           else do {
             g \<leftarrow> operate (cl_uget api (u_gvk u) (u_namespace u) (u_name u))
                   (UGet (u_gvk u) (u_namespace u) (u_name u));
             case g of
               Inl gerr \<Rightarrow> State_Monad.return (Some gerr)
             | Inr existing \<Rightarrow>
                 let u' = u\<lparr>u_resource_version := u_resource_version existing\<rparr> in
                 do {
                   w \<leftarrow> operate (cl_uupdate api u') (UUpdate u');
                   State_Monad.return (case w of Inl werr \<Rightarrow> Some werr | Inr _ \<Rightarrow> None)
                 }
           }
     }"

text \<open>
  What \<open>createOrUpdate\<close> promises: on success the object is on the server, either by a creation or by
  an update that carries the resource version it read.
\<close>

definition applied :: "uobj \<Rightarrow> cluster_call list \<Rightarrow> bool" where
  "applied u xs \<longleftrightarrow>
     (\<exists>r. UCreate u (Inr r) \<in> set xs) \<or>
     (\<exists>old r. UGet (u_gvk u) (u_namespace u) (u_name u) (Inr old) \<in> set xs
        \<and> UUpdate (u\<lparr>u_resource_version := u_resource_version old\<rparr>) (Inr r) \<in> set xs)"

lemma createOrUpdate_applied:
  "ensures (createOrUpdate api u) (\<lambda>r xs. r = None \<longrightarrow> applied u xs)"
  unfolding createOrUpdate_def Let_def
  by (intro ens_rules) (auto simp: applied_def split: sum.splits)

end
