(* ===== verification/Clone.thy ===== *)
theory Clone
  imports Cluster
begin

section \<open>Snapshot-based database clones: internal/controller/clone.go\<close>

text \<open>
  The source snapshot of a production database (a warm one shared between checks, or a per-run
  one), taken as a cold backup of a standby where that is safe, and the clone bootstrapped from
  it. A result is \<open>Inl\<close> the error; a routine that returns only an error returns an option.
\<close>

record cnpg_clone =
  cc_source :: string
  cc_source_ns :: string
  cc_target_ns :: string
  cc_prod_snapshot :: string
  cc_vsc :: string
  cc_vs :: string
  cc_cluster :: string
  cc_class :: string
  cc_labels :: "smap option"
  cc_warm :: string
  cc_warm_max_age :: duration

subsection \<open>Waiting\<close>

text \<open>
  One tick either ends the wait with the routine's answer (\<open>Some r\<close>) or not (\<open>None\<close>); \<open>poll\<close> runs the
  planned number of ticks.
\<close>

fun poll :: "nat \<Rightarrow> ('w, 'r option) cprog \<Rightarrow> ('w, 'r option) cprog" where
  "poll 0 tick = State_Monad.return None"
| "poll (Suc n) tick =
     do {
       r \<leftarrow> tick;
       case r of None \<Rightarrow> poll n tick | Some a \<Rightarrow> State_Monad.return (Some a)
     }"

definition wait_error :: "string \<Rightarrow> wait_end \<Rightarrow> goerr" where
  "wait_error timeout e = (case e of CtxDone err \<Rightarrow> err | TimedOut \<Rightarrow> Plain timeout)"

definition wait_for ::
  "'w cluster_api \<Rightarrow> string \<Rightarrow> ('w, goerr option option) cprog \<Rightarrow> ('w, goerr option) cprog" where
  "wait_for api timeout tick =
     do {
       plan \<leftarrow> operate (cl_wait api) (\<lambda>(n, e). WaitPlan n e);
       r \<leftarrow> poll (fst plan) tick;
       State_Monad.return
         (case r of Some a \<Rightarrow> a | None \<Rightarrow> Some (wait_error timeout (snd plan)))
     }"

definition snapshot_tick :: "'w cluster_api \<Rightarrow> string \<Rightarrow> string \<Rightarrow> ('w, goerr option option) cprog" where
  "snapshot_tick api ns name =
     do {
       r \<leftarrow> operate (cl_uget api VolumeSnapshot ns name) (UGet VolumeSnapshot ns name);
       State_Monad.return
         (case r of
            Inl err \<Rightarrow> Some (Some err)
          | Inr s \<Rightarrow>
              if lib_nested_bool (cl_lib api) (u_object s) [''status'', ''readyToUse''] then Some None
              else None)
     }"

definition waitForSnapshotReady :: "'w cluster_api \<Rightarrow> string \<Rightarrow> string \<Rightarrow> ('w, goerr option) cprog" where
  "waitForSnapshotReady api ns name =
     wait_for api (''timed out waiting for VolumeSnapshot '' @ ns @ ''/'' @ name @ '' to become ready'')
       (snapshot_tick api ns name)"

definition backup_tick :: "'w cluster_api \<Rightarrow> string \<Rightarrow> string \<Rightarrow> ('w, goerr option option) cprog" where
  "backup_tick api ns name =
     do {
       r \<leftarrow> operate (cl_uget api CnpgBackup ns name) (UGet CnpgBackup ns name);
       State_Monad.return
         (case r of
            Inl err \<Rightarrow> if IsNotFound err then None else Some (Some err)
          | Inr b \<Rightarrow>
              let phase = lib_nested_string (cl_lib api) (u_object b) [''status'', ''phase''] in
              if phase = ''completed'' then Some None
              else if phase = ''failed'' then
                Some (Some (Plain (''backup '' @ ns @ ''/'' @ name @ '' failed: '' @
                  lib_nested_string (cl_lib api) (u_object b) [''status'', ''error''])))
              else None)
     }"

definition waitForBackupCompleted :: "'w cluster_api \<Rightarrow> string \<Rightarrow> string \<Rightarrow> ('w, goerr option) cprog" where
  "waitForBackupCompleted api ns name =
     wait_for api (''timed out waiting for Backup '' @ ns @ ''/'' @ name @ '' to complete'')
       (backup_tick api ns name)"

definition gone_tick ::
  "'w cluster_api \<Rightarrow> gvk \<Rightarrow> string \<Rightarrow> string \<Rightarrow> ('w, goerr option option) cprog" where
  "gone_tick api k ns name =
     do {
       r \<leftarrow> operate (cl_uget api k ns name) (UGet k ns name);
       State_Monad.return
         (case r of
            Inl err \<Rightarrow> if IsNotFound err then Some None else Some (Some err)
          | Inr _ \<Rightarrow> None)
     }"

definition delete_and_wait ::
  "'w cluster_api \<Rightarrow> gvk \<Rightarrow> string \<Rightarrow> string \<Rightarrow> ('w, goerr option) cprog" where
  "delete_and_wait api k ns name =
     do {
       d \<leftarrow> operate (cl_udelete api k ns name) (UDelete k ns name);
       case ignore_not_found d of
         Some err \<Rightarrow> State_Monad.return (Some err)
       | None \<Rightarrow>
           wait_for api (''timed out waiting for '' @ gvk_kind k @ '' '' @ ns @ ''/'' @ name @ '' to delete'')
             (gone_tick api k ns name)
     }"

definition deleteBackupAndWaitGone :: "'w cluster_api \<Rightarrow> string \<Rightarrow> string \<Rightarrow> ('w, goerr option) cprog" where
  "deleteBackupAndWaitGone api ns name = delete_and_wait api CnpgBackup ns name"

definition deleteSnapshotAndWaitGone :: "'w cluster_api \<Rightarrow> string \<Rightarrow> string \<Rightarrow> ('w, goerr option) cprog" where
  "deleteSnapshotAndWaitGone api ns name = delete_and_wait api VolumeSnapshot ns name"

subsection \<open>Cold backups\<close>

definition json_str :: "json option \<Rightarrow> string" where
  "json_str j = (case j of Some (JStr s) \<Rightarrow> s | _ \<Rightarrow> [])"

definition coldSnapshotEligible :: "klib \<Rightarrow> uobj \<Rightarrow> bool \<times> string" where
  "coldSnapshotEligible lib cluster =
     (let j = u_object cluster;
          instances = lib_nested_int64 lib j [''spec'', ''instances''];
          ready = lib_nested_int64 lib j [''status'', ''readyInstances''];
          minSync = lib_nested_int64 lib j [''spec'', ''minSyncReplicas'']
      in if instances < 2 \<or> ready < 2 then
           (False, ''no ready standby to fence (instances='' @ itoa instances @ '' readyInstances='' @
              itoa ready @ ''); taking a crash-consistent snapshot of the primary instead'')
         else if minSync > 0 then
           (False, ''minSyncReplicas='' @ itoa minSync @ '' would block commits while the standby is fenced'')
         else
           (case lib_nested_map lib j [''spec'', ''postgresql'', ''synchronous''] of
              None \<Rightarrow> (True, ''cold backup of a standby'')
            | Some sync \<Rightarrow>
                let durability = json_str (map_of sync ''dataDurability'') in
                if durability \<noteq> ''preferred'' then
                  (False, ''synchronous replication with dataDurability='' @ go_quote durability @
                     '' would block commits while the standby is fenced'')
                else (True, ''cold backup of a standby'')))"

definition buildColdBackup :: "string \<Rightarrow> string \<Rightarrow> string \<Rightarrow> smap option \<Rightarrow> uobj" where
  "buildColdBackup ns name cluster labels =
     (new_uobj CnpgBackup ns name)
       \<lparr>u_labels := labels,
        u_object := JObj [(''spec'', JObj
          [(''cluster'', JObj [(''name'', JStr cluster)]), (''method'', JStr ''volumeSnapshot''),
           (''online'', JBool False), (''target'', JStr ''prefer-standby'')])]\<rparr>"

definition start_backup ::
  "'w cluster_api \<Rightarrow> string \<Rightarrow> string \<Rightarrow> string \<Rightarrow> smap option \<Rightarrow> ('w, goerr option) cprog" where
  "start_backup api ns name cluster labels =
     do {
       c \<leftarrow> operate (cl_ucreate api (buildColdBackup ns name cluster labels))
             (UCreate (buildColdBackup ns name cluster labels));
       case c of
         Inl err \<Rightarrow>
           if \<not> IsAlreadyExists err then
             State_Monad.return (Some (errorf (''create cold Backup '' @ ns @ ''/'' @ name @ '': '') err))
           else waitForBackupCompleted api ns name
       | Inr _ \<Rightarrow> waitForBackupCompleted api ns name
     }"

definition ensureColdBackup ::
  "'w cluster_api \<Rightarrow> string \<Rightarrow> string \<Rightarrow> string \<Rightarrow> smap option \<Rightarrow> ('w, goerr option) cprog" where
  "ensureColdBackup api ns name cluster labels =
     do {
       got \<leftarrow> operate (cl_uget api CnpgBackup ns name) (UGet CnpgBackup ns name);
       case got of
         Inr existing \<Rightarrow>
           if lib_nested_string (cl_lib api) (u_object existing) [''status'', ''phase''] = ''failed'' then do {
             d \<leftarrow> deleteBackupAndWaitGone api ns name;
             case d of
               Some err \<Rightarrow> State_Monad.return (Some (errorf ''replace failed warm backup: '' err))
             | None \<Rightarrow> start_backup api ns name cluster labels
           }
           else start_backup api ns name cluster labels
       | Inl err \<Rightarrow>
           if IsNotFound err then start_backup api ns name cluster labels
           else State_Monad.return (Some (errorf (''get warm backup '' @ ns @ ''/'' @ name @ '': '') err))
     }"

subsection \<open>The source snapshot\<close>

definition newVolumeSnapshot :: "string \<Rightarrow> string \<Rightarrow> smap option \<Rightarrow> uobj" where
  "newVolumeSnapshot ns name labels = (new_uobj VolumeSnapshot ns name)\<lparr>u_labels := labels\<rparr>"

definition warmSnapshotUsable :: "bool \<Rightarrow> duration \<Rightarrow> duration \<Rightarrow> bool" where
  "warmSnapshotUsable ready age maxAge \<longleftrightarrow> ready \<and> age < maxAge"

definition warm :: "cnpg_clone \<Rightarrow> bool" where
  "warm c \<longleftrightarrow> cc_warm c \<noteq> []"

definition source_name :: "cnpg_clone \<Rightarrow> string" where
  "source_name c = (if warm c then cc_warm c else cc_prod_snapshot c)"

text \<open>Whether the warm snapshot is reused; a stale one is deleted, its backup first.\<close>

definition refresh_stale :: "'w cluster_api \<Rightarrow> cnpg_clone \<Rightarrow> ('w, goerr option) cprog" where
  "refresh_stale api c =
     do {
       b \<leftarrow> deleteBackupAndWaitGone api (cc_source_ns c) (source_name c);
       case b of
         Some err \<Rightarrow> State_Monad.return (Some (errorf ''refresh stale warm backup: '' err))
       | None \<Rightarrow> do {
           s \<leftarrow> deleteSnapshotAndWaitGone api (cc_source_ns c) (source_name c);
           State_Monad.return (map_option (errorf ''refresh stale warm snapshot: '') s)
         }
     }"

definition reuse_warm :: "'w cluster_api \<Rightarrow> cnpg_clone \<Rightarrow> ('w, bool result) cprog" where
  "reuse_warm api c =
     (if \<not> warm c then State_Monad.return (Inr False)
      else do {
        got \<leftarrow> operate (cl_uget api VolumeSnapshot (cc_source_ns c) (source_name c))
                (UGet VolumeSnapshot (cc_source_ns c) (source_name c));
        case got of
          Inl err \<Rightarrow>
            State_Monad.return
              (if IsNotFound err then Inr False
               else Inl (errorf (''get warm snapshot '' @ cc_source_ns c @ ''/'' @ source_name c @ '': '') err))
        | Inr existing \<Rightarrow> do {
            t \<leftarrow> operate (cl_wall api) WallNow;
            (let ready = lib_nested_bool (cl_lib api) (u_object existing) [''status'', ''readyToUse''];
                 age = time_sub t (u_created existing)
             in if warmSnapshotUsable ready age (cc_warm_max_age c) then State_Monad.return (Inr True)
                else if age \<ge> cc_warm_max_age c then do {
                  r \<leftarrow> refresh_stale api c;
                  State_Monad.return (case r of Some err \<Rightarrow> Inl err | None \<Rightarrow> Inr False)
                }
                else State_Monad.return (Inr False))
          }
      })"

definition raw_snapshot :: "'w cluster_api \<Rightarrow> cnpg_clone \<Rightarrow> string \<Rightarrow> ('w, goerr option) cprog" where
  "raw_snapshot api c primaryPVC =
     (case set_spec (cl_lib api) (newVolumeSnapshot (cc_source_ns c) (source_name c) (cc_labels c))
             [(''volumeSnapshotClassName'', JStr (cc_class c)),
              (''source'', JObj [(''persistentVolumeClaimName'', JStr primaryPVC)])] of
        Inl err \<Rightarrow> State_Monad.return (Some err)
      | Inr snap \<Rightarrow> do {
          r \<leftarrow> operate (cl_ucreate api snap) (UCreate snap);
          State_Monad.return
            (case r of
               Inr _ \<Rightarrow> None
             | Inl err \<Rightarrow>
                 if IsAlreadyExists err then None
                 else Some (errorf (''create source VolumeSnapshot '' @ cc_source_ns c @ ''/'' @ source_name c @ '': '') err))
        })"

definition take_snapshot ::
  "'w cluster_api \<Rightarrow> cnpg_clone \<Rightarrow> string \<Rightarrow> bool \<Rightarrow> ('w, goerr option) cprog" where
  "take_snapshot api c primaryPVC cold =
     do {
       r \<leftarrow> (if warm c \<and> cold
             then ensureColdBackup api (cc_source_ns c) (source_name c) (cc_source c) (cc_labels c)
             else raw_snapshot api c primaryPVC);
       case r of
         Some err \<Rightarrow> State_Monad.return (Some err)
       | None \<Rightarrow> do {
           w \<leftarrow> waitForSnapshotReady api (cc_source_ns c) (source_name c);
           State_Monad.return (map_option (errorf ''source database snapshot not ready: '') w)
         }
     }"

text \<open>The handle, the driver and the size to restore from.\<close>

type_synonym snapshot_meta = "string \<times> string \<times> string"

definition read_snapshot :: "'w cluster_api \<Rightarrow> cnpg_clone \<Rightarrow> ('w, snapshot_meta result) cprog" where
  "read_snapshot api c =
     (let lib = cl_lib api in
      do {
        got \<leftarrow> operate (cl_uget api VolumeSnapshot (cc_source_ns c) (source_name c))
                (UGet VolumeSnapshot (cc_source_ns c) (source_name c));
        case got of
          Inl err \<Rightarrow>
            State_Monad.return
              (Inl (errorf (''re-read source snapshot '' @ cc_source_ns c @ ''/'' @ source_name c @ '': '') err))
        | Inr snap \<Rightarrow>
            let bound = lib_nested_string lib (u_object snap) [''status'', ''boundVolumeSnapshotContentName''] in
            if bound = [] then
              State_Monad.return
                (Inl (Plain (''source snapshot '' @ source_name c @ '' has no boundVolumeSnapshotContentName'')))
            else do {
              vr \<leftarrow> operate (cl_uget api VolumeSnapshotContent [] bound) (UGet VolumeSnapshotContent [] bound);
              State_Monad.return
                (case vr of
                   Inl err \<Rightarrow> Inl (errorf ''get bound VolumeSnapshotContent: '' err)
                 | Inr vsc \<Rightarrow>
                     let handle = lib_nested_string lib (u_object vsc) [''status'', ''snapshotHandle''];
                         driver = lib_nested_string lib (u_object vsc) [''spec'', ''driver''];
                         size = lib_nested_string lib (u_object snap) [''status'', ''restoreSize'']
                     in if handle = [] then Inl (Plain ''bound VolumeSnapshotContent has no snapshotHandle'')
                        else Inr (handle, driver, if size = [] then ''10Gi'' else size))
            }
      })"

definition acquireSourceSnapshot ::
  "'w cluster_api \<Rightarrow> cnpg_clone \<Rightarrow> string \<Rightarrow> bool \<Rightarrow> ('w, snapshot_meta result) cprog" where
  "acquireSourceSnapshot api c primaryPVC cold =
     do {
       reuse \<leftarrow> reuse_warm api c;
       case reuse of
         Inl err \<Rightarrow> State_Monad.return (Inl err)
       | Inr True \<Rightarrow> read_snapshot api c
       | Inr False \<Rightarrow> do {
           t \<leftarrow> take_snapshot api c primaryPVC cold;
           case t of
             Some err \<Rightarrow> State_Monad.return (Inl err)
           | None \<Rightarrow> read_snapshot api c
         }
     }"

subsection \<open>The clone\<close>

definition clone_parameters :: json where
  "clone_parameters = JObj
     [(''shared_buffers'', JStr ''512MB''), (''max_connections'', JStr ''50''), (''fsync'', JStr ''off''),
      (''synchronous_commit'', JStr ''off''), (''full_page_writes'', JStr ''off'')]"

definition clone_affinity :: json where
  "clone_affinity = JObj [(''additionalPodAffinity'', JObj
     [(''preferredDuringSchedulingIgnoredDuringExecution'', JArr [JObj
        [(''weight'', JInt 100),
         (''podAffinityTerm'', JObj
            [(''topologyKey'', JStr ''kubernetes.io/hostname''),
             (''namespaces'', JArr [JStr ''rook-ceph'']),
             (''labelSelector'', JObj [(''matchLabels'', JObj [(''app'', JStr ''rook-ceph-osd'')])])])]])])]"

definition clone_resources :: json where
  "clone_resources = JObj
     [(''requests'', JObj [(''memory'', JStr ''512Mi''), (''cpu'', JStr ''500m'')]),
      (''limits'', JObj [(''memory'', JStr ''2Gi''), (''cpu'', JStr ''4'')])]"

definition clone_bootstrap :: "string \<Rightarrow> json" where
  "clone_bootstrap vsName = JObj [(''recovery'', JObj [(''volumeSnapshots'', JObj [(''storage'', JObj
     [(''name'', JStr vsName), (''kind'', JStr ''VolumeSnapshot''),
      (''apiGroup'', JStr ''snapshot.storage.k8s.io'')])])])]"

definition buildCloneClusterSpec ::
  "string \<Rightarrow> string \<Rightarrow> string \<Rightarrow> string \<Rightarrow> (string \<times> json) list option \<Rightarrow> (string \<times> json) list" where
  "buildCloneClusterSpec vsName restoreSize storageClass sourceImage sourceCatalogRef =
     [(''instances'', JInt 1),
      (''inheritedMetadata'', JObj [(''labels'', JObj [(''istio.io/dataplane-mode'', JStr ''none'')])]),
      (''bootstrap'', clone_bootstrap vsName),
      (''postgresql'', JObj [(''shared_preload_libraries'', JArr [JStr ''pg_stat_statements'']),
                             (''parameters'', clone_parameters)]),
      (''storage'', JObj [(''size'', JStr restoreSize), (''storageClass'', JStr storageClass)]),
      (''resources'', clone_resources),
      (''affinity'', clone_affinity),
      (''enableSuperuserAccess'', JBool True)]
     @ (if sourceImage \<noteq> [] then [(''imageName'', JStr sourceImage)]
        else case sourceCatalogRef of Some m \<Rightarrow> [(''imageCatalogRef'', JObj m)] | None \<Rightarrow> [])"

text \<open>The clone's image selection, as CNPG reads it.\<close>

definition clone_source ::
  "klib \<Rightarrow> uobj \<Rightarrow> string \<times> (string \<times> json) list option \<times> string" where
  "clone_source lib src =
     (let j = u_object src; sc = lib_nested_string lib j [''spec'', ''storage'', ''storageClass'']
      in (lib_nested_string lib j [''spec'', ''imageName''],
          lib_nested_map lib j [''spec'', ''imageCatalogRef''],
          if sc = [] then ''rook-ceph-block'' else sc))"

definition apply_spec ::
  "'w cluster_api \<Rightarrow> string \<Rightarrow> uobj \<Rightarrow> (string \<times> json) list \<Rightarrow> ('w, goerr option) cprog" where
  "apply_spec api what u spec_fields =
     (case set_spec (cl_lib api) u spec_fields of
        Inl err \<Rightarrow> State_Monad.return (Some err)
      | Inr u' \<Rightarrow> do {
          r \<leftarrow> createOrUpdate api u';
          State_Monad.return (map_option (errorf (''failed to create '' @ what @ '': '')) r)
        })"

definition content_fields :: "cnpg_clone \<Rightarrow> string \<Rightarrow> string \<Rightarrow> (string \<times> json) list" where
  "content_fields c handle driver =
     [(''driver'', JStr driver), (''deletionPolicy'', JStr ''Retain''),
      (''source'', JObj [(''snapshotHandle'', JStr handle)]),
      (''volumeSnapshotClassName'', JStr (cc_class c)),
      (''volumeSnapshotRef'', JObj [(''name'', JStr (cc_vs c)), (''namespace'', JStr (cc_target_ns c))])]"

definition restore_clone ::
  "'w cluster_api \<Rightarrow> cnpg_clone \<Rightarrow> uobj \<Rightarrow> snapshot_meta \<Rightarrow> ('w, goerr option) cprog" where
  "restore_clone api c src meta =
     (let (handle, driver, size) = meta;
          (image, catalog, storage) = clone_source (cl_lib api) src in
      do {
        a \<leftarrow> apply_spec api ''VolumeSnapshotContent''
               ((new_uobj VolumeSnapshotContent [] (cc_vsc c))\<lparr>u_labels := cc_labels c\<rparr>)
               (content_fields c handle driver);
        case a of
          Some err \<Rightarrow> State_Monad.return (Some err)
        | None \<Rightarrow> do {
            b \<leftarrow> apply_spec api ''VolumeSnapshot'' (newVolumeSnapshot (cc_target_ns c) (cc_vs c) (cc_labels c))
                   [(''source'', JObj [(''volumeSnapshotContentName'', JStr (cc_vsc c))])];
            case b of
              Some err \<Rightarrow> State_Monad.return (Some err)
            | None \<Rightarrow>
                apply_spec api ''CNPG Cluster''
                  ((new_uobj CnpgCluster (cc_target_ns c) (cc_cluster c))\<lparr>u_labels := cc_labels c\<rparr>)
                  (buildCloneClusterSpec (cc_vs c) size storage image catalog)
          }
      })"

text \<open>The snapshot class defaults to \<open>ceph-block-snapshot\<close>.\<close>

definition with_class :: "cnpg_clone \<Rightarrow> cnpg_clone" where
  "with_class c = (if cc_class c = [] then c\<lparr>cc_class := ''ceph-block-snapshot''\<rparr> else c)"

definition cloneCNPGFromSnapshot :: "'w cluster_api \<Rightarrow> cnpg_clone \<Rightarrow> ('w, goerr option) cprog" where
  "cloneCNPGFromSnapshot api c0 =
     (let c = with_class c0;
          lib = cl_lib api in
      do {
        got \<leftarrow> operate (cl_uget api CnpgCluster (cc_source_ns c) (cc_source c))
                (UGet CnpgCluster (cc_source_ns c) (cc_source c));
        case got of
          Inl err \<Rightarrow>
            State_Monad.return (Some (errorf (''failed to get source CNPG cluster '' @ cc_source_ns c @ ''/''
              @ cc_source c @ '': '') err))
        | Inr src \<Rightarrow>
            let primary = lib_nested_string lib (u_object src) [''status'', ''currentPrimary''];
                cold = (if warm c then fst (coldSnapshotEligible lib src) else False)
            in if primary = [] then
                 State_Monad.return (Some (Plain (''source CNPG cluster '' @ cc_source c @ '' has no currentPrimary'')))
               else do {
                 m \<leftarrow> acquireSourceSnapshot api c primary cold;
                 case m of
                   Inl err \<Rightarrow> State_Monad.return (Some err)
                 | Inr meta \<Rightarrow> restore_clone api c src meta
               }
      })"

subsection \<open>What the waits do\<close>

fun observes :: "cluster_call \<Rightarrow> bool" where
  "observes (UGet _ _ _ _) = True"
| "observes (WallNow _) = True"
| "observes (WaitPlan _ _) = True"
| "observes _ = False"

abbreviation only_observes :: "cluster_call list \<Rightarrow> bool" where
  "only_observes xs \<equiv> list_all observes xs"

text \<open>
  A wait that returns the routine's answer returned it from a tick, and so after that tick's reads;
  one that runs out of ticks returns the timeout or the cancellation.
\<close>

lemma ens_poll:
  assumes "ensures tick (\<lambda>r xs. list_all P xs \<and> (\<forall>a. r = Some a \<longrightarrow> R a xs))"
    and mono: "\<And>a xs ys. R a ys \<Longrightarrow> R a (xs @ ys)"
  shows "ensures (poll n tick) (\<lambda>r xs. list_all P xs \<and> (\<forall>a. r = Some a \<longrightarrow> R a xs))"
proof (induction n)
  case 0
  then show ?case by (auto intro!: ens_rules)
next
  case (Suc n)
  show ?case
    unfolding poll.simps
  proof (rule ens_bindI [OF assms(1)])
    fix r xs
    assume r: "list_all P xs \<and> (\<forall>a. r = Some a \<longrightarrow> R a xs)"
    show "ensures (case r of None \<Rightarrow> poll n tick | Some a \<Rightarrow> State_Monad.return (Some a))
            (\<lambda>b ys. list_all P (xs @ ys) \<and> (\<forall>a. b = Some a \<longrightarrow> R a (xs @ ys)))"
    proof (cases r)
      case None
      with Suc r show ?thesis by (auto elim!: ens_weaken intro: mono)
    next
      case (Some a)
      with r show ?thesis by (auto intro!: ens_return)
    qed
  qed
qed

lemma ens_wait_for:
  assumes "ensures tick (\<lambda>r xs. list_all P xs \<and> (\<forall>a. r = Some a \<longrightarrow> R a xs))"
    and mono: "\<And>a xs ys. R a ys \<Longrightarrow> R a (xs @ ys)" and "\<And>n e. P (WaitPlan n e)"
  shows "ensures (wait_for api msg tick) (\<lambda>r xs. list_all P xs \<and> (r = None \<longrightarrow> R None xs))"
  unfolding wait_for_def
proof (rule ens_bind, rule ens_operate)
  fix plan :: "nat \<times> wait_end"
  have P: "P (case plan of (n, e) \<Rightarrow> WaitPlan n e)" using assms(3) by (cases plan) simp
  show "ensures (State_Monad.bind (poll (fst plan) tick)
          (\<lambda>r. State_Monad.return (case r of Some a \<Rightarrow> a | None \<Rightarrow> Some (wait_error msg (snd plan)))))
        (\<lambda>b ys. list_all P ([case plan of (n, e) \<Rightarrow> WaitPlan n e] @ ys)
           \<and> (b = None \<longrightarrow> R None ([case plan of (n, e) \<Rightarrow> WaitPlan n e] @ ys)))"
  proof (rule ens_bindI [OF ens_poll [OF assms(1) mono]])
    fix r xs
    assume r: "list_all P xs \<and> (\<forall>a. r = Some a \<longrightarrow> R a xs)"
    show "ensures (State_Monad.return (case r of Some a \<Rightarrow> a | None \<Rightarrow> Some (wait_error msg (snd plan))))
        (\<lambda>b ys. list_all P ([case plan of (n, e) \<Rightarrow> WaitPlan n e] @ xs @ ys)
           \<and> (b = None \<longrightarrow> R None ([case plan of (n, e) \<Rightarrow> WaitPlan n e] @ xs @ ys)))"
      using r P mono [of None xs "[case plan of (n, e) \<Rightarrow> WaitPlan n e]"]
      by (cases r) (auto intro!: ens_return)
  qed
qed

definition snapshot_ready :: "klib \<Rightarrow> uobj \<Rightarrow> bool" where
  "snapshot_ready lib s = lib_nested_bool lib (u_object s) [''status'', ''readyToUse'']"

definition backup_phase :: "klib \<Rightarrow> uobj \<Rightarrow> string" where
  "backup_phase lib b = lib_nested_string lib (u_object b) [''status'', ''phase'']"

lemma snapshot_waited:
  "ensures (waitForSnapshotReady api ns name) (\<lambda>r xs. only_observes xs \<and>
     (r = None \<longrightarrow> (\<exists>s. UGet VolumeSnapshot ns name (Inr s) \<in> set xs \<and> snapshot_ready (cl_lib api) s)))"
  unfolding waitForSnapshotReady_def
  by (rule ens_wait_for [where R = "\<lambda>a xs. a = None \<longrightarrow>
        (\<exists>s. UGet VolumeSnapshot ns name (Inr s) \<in> set xs \<and> snapshot_ready (cl_lib api) s)", simplified])
     (auto simp: snapshot_tick_def snapshot_ready_def intro!: ens_rules split: sum.splits if_splits)

lemma backup_waited:
  "ensures (waitForBackupCompleted api ns name) (\<lambda>r xs. only_observes xs \<and>
     (r = None \<longrightarrow> (\<exists>b. UGet CnpgBackup ns name (Inr b) \<in> set xs
        \<and> backup_phase (cl_lib api) b = ''completed'')))"
  unfolding waitForBackupCompleted_def
  by (rule ens_wait_for [where R = "\<lambda>a xs. a = None \<longrightarrow>
        (\<exists>b. UGet CnpgBackup ns name (Inr b) \<in> set xs \<and> backup_phase (cl_lib api) b = ''completed'')", simplified])
     (auto simp: backup_tick_def backup_phase_def Let_def intro!: ens_rules split: sum.splits if_splits)

definition gone_after :: "gvk \<Rightarrow> string \<Rightarrow> string \<Rightarrow> cluster_call list \<Rightarrow> bool" where
  "gone_after k ns name xs \<longleftrightarrow> (\<exists>e. UGet k ns name (Inl e) \<in> set xs \<and> IsNotFound e)"

lemma deleted_and_gone:
  "ensures (delete_and_wait api k ns name) (\<lambda>r xs.
     list_all (\<lambda>x. observes x \<or> (\<exists>d. x = UDelete k ns name d)) xs \<and> (r = None \<longrightarrow> gone_after k ns name xs))"
proof -
  have w: "ensures (wait_for api msg (gone_tick api k ns name)) (\<lambda>r xs.
      list_all (\<lambda>x. observes x \<or> (\<exists>d. x = UDelete k ns name d)) xs \<and> (r = None \<longrightarrow> gone_after k ns name xs))" for msg
    by (rule ens_wait_for [where R = "\<lambda>a xs. a = None \<longrightarrow> gone_after k ns name xs", simplified])
       (auto simp: gone_tick_def gone_after_def intro!: ens_rules split: sum.splits if_splits)
  show ?thesis
    unfolding delete_and_wait_def
    by (intro ens_bind ens_operate ens_option ens_return) (auto simp: gone_after_def intro: ens_weaken [OF w])
qed

subsection \<open>What the routines log\<close>

definition stale_seen :: "cnpg_clone \<Rightarrow> cluster_call list \<Rightarrow> bool" where
  "stale_seen c xs \<longleftrightarrow>
     (\<exists>snap t. UGet VolumeSnapshot (cc_source_ns c) (source_name c) (Inr snap) \<in> set xs \<and> WallNow t \<in> set xs
        \<and> cc_warm_max_age c \<le> time_sub t (u_created snap))"

definition refresh_call :: "cnpg_clone \<Rightarrow> cluster_call \<Rightarrow> bool" where
  "refresh_call c x \<longleftrightarrow> observes x
     \<or> (\<exists>k d. x = UDelete k (cc_source_ns c) (source_name c) d \<and> (k = CnpgBackup \<or> k = VolumeSnapshot))"

lemma list_all_weaken: "list_all P xs \<Longrightarrow> (\<And>x. P x \<Longrightarrow> Q x) \<Longrightarrow> list_all Q xs"
  by (simp add: list_all_iff)

lemma refresh_calls: "ensures (refresh_stale api c) (\<lambda>_ xs. list_all (refresh_call c) xs)"
proof -
  have d: "ensures (delete_and_wait api k (cc_source_ns c) (source_name c)) (\<lambda>_ xs. list_all (refresh_call c) xs)"
    if "k = CnpgBackup \<or> k = VolumeSnapshot" for k
    by (rule ens_weaken [OF deleted_and_gone])
       (use that in \<open>auto simp: refresh_call_def elim!: list_all_weaken\<close>)
  show ?thesis
    unfolding refresh_stale_def deleteBackupAndWaitGone_def deleteSnapshotAndWaitGone_def
    by (rule ens_bindI [OF d], simp)
       (auto intro!: ens_rules intro: ens_weaken [OF d])
qed

lemma reuse_log:
  "ensures (reuse_warm api c) (\<lambda>r xs. list_all (refresh_call c) xs
     \<and> (only_observes xs \<or> (warm c \<and> stale_seen c xs))
     \<and> (r = Inr True \<longrightarrow> only_observes xs \<and> warm c
          \<and> (\<exists>snap t. UGet VolumeSnapshot (cc_source_ns c) (source_name c) (Inr snap) \<in> set xs \<and> WallNow t \<in> set xs
               \<and> snapshot_ready (cl_lib api) snap \<and> time_sub t (u_created snap) < cc_warm_max_age c)))"
  unfolding reuse_warm_def Let_def
  by (intro ens_rules)
     (auto simp: refresh_call_def stale_seen_def warmSnapshotUsable_def snapshot_ready_def list_all_iff
       split: if_splits option.splits
       intro!: ens_return ens_weaken [OF refresh_calls [unfolded list_all_iff refresh_call_def]])

definition take_call :: "klib \<Rightarrow> cnpg_clone \<Rightarrow> string \<Rightarrow> bool \<Rightarrow> cluster_call \<Rightarrow> bool" where
  "take_call lib c primaryPVC cold x \<longleftrightarrow> observes x
     \<or> (warm c \<and> cold \<and>
        ((\<exists>r. x = UCreate (buildColdBackup (cc_source_ns c) (source_name c) (cc_source c) (cc_labels c)) r)
         \<or> (\<exists>d. x = UDelete CnpgBackup (cc_source_ns c) (source_name c) d)))
     \<or> (\<not> (warm c \<and> cold) \<and>
        (\<exists>snap r. set_spec lib (newVolumeSnapshot (cc_source_ns c) (source_name c) (cc_labels c))
             [(''volumeSnapshotClassName'', JStr (cc_class c)),
              (''source'', JObj [(''persistentVolumeClaimName'', JStr primaryPVC)])] = Inr snap
           \<and> x = UCreate snap r))"

definition backup_call :: "string \<Rightarrow> string \<Rightarrow> string \<Rightarrow> smap option \<Rightarrow> cluster_call \<Rightarrow> bool" where
  "backup_call ns name cl labels x \<longleftrightarrow> observes x
     \<or> (\<exists>r. x = UCreate (buildColdBackup ns name cl labels) r) \<or> (\<exists>d. x = UDelete CnpgBackup ns name d)"

definition backup_done :: "klib \<Rightarrow> string \<Rightarrow> string \<Rightarrow> cluster_call list \<Rightarrow> bool" where
  "backup_done lib ns name xs \<longleftrightarrow>
     (\<exists>b. UGet CnpgBackup ns name (Inr b) \<in> set xs \<and> backup_phase lib b = ''completed'')"

lemma start_backup_log:
  "ensures (start_backup api ns name cl labels) (\<lambda>r xs.
     list_all (backup_call ns name cl labels) xs \<and> (r = None \<longrightarrow> backup_done (cl_lib api) ns name xs))"
  unfolding start_backup_def
  by (intro ens_rules)
     (auto simp: list_all_iff backup_call_def backup_done_def
        intro!: ens_weaken [OF backup_waited [unfolded list_all_iff]])

lemma cold_backup_log:
  "ensures (ensureColdBackup api ns name cl labels) (\<lambda>r xs.
     list_all (backup_call ns name cl labels) xs \<and> (r = None \<longrightarrow> backup_done (cl_lib api) ns name xs))"
proof -
  let ?P = "\<lambda>pre r xs. list_all (backup_call ns name cl labels) (pre @ xs)
     \<and> (r = None \<longrightarrow> backup_done (cl_lib api) ns name (pre @ xs))"
  have start: "ensures (start_backup api ns name cl labels) (?P pre)"
    if "list_all (backup_call ns name cl labels) pre" for pre
    by (rule ens_weaken [OF start_backup_log]) (use that in \<open>auto simp: backup_done_def\<close>)
  have replace: "ensures (deleteBackupAndWaitGone api ns name \<bind> (\<lambda>d. case d of
        Some err \<Rightarrow> State_Monad.return (Some (errorf ''replace failed warm backup: '' err))
      | None \<Rightarrow> start_backup api ns name cl labels)) (?P pre)"
    if "list_all (backup_call ns name cl labels) pre" for pre
    unfolding deleteBackupAndWaitGone_def
    apply (rule ens_bindI [OF deleted_and_gone])
    subgoal for a xs
      using that start [of "pre @ xs"]
      by (cases a) (auto simp: list_all_iff backup_call_def intro!: ens_return)
    done
  show ?thesis
    unfolding ensureColdBackup_def
    by (intro ens_bind ens_operate ens_sum ens_if start replace ens_return)
       (simp_all add: backup_call_def)
qed

lemma raw_snapshot_calls:
  "ensures (raw_snapshot api c pvc) (\<lambda>_ xs. \<not> (warm c \<and> cold) \<longrightarrow> list_all (take_call (cl_lib api) c pvc cold) xs)"
  unfolding raw_snapshot_def
  by (intro ens_rules) (auto simp: take_call_def)

lemma take_calls:
  "ensures (take_snapshot api c pvc cold) (\<lambda>_ xs. list_all (take_call (cl_lib api) c pvc cold) xs)"
proof -
  have wait: "ensures (waitForSnapshotReady api ns name) (\<lambda>_ xs. list_all (take_call (cl_lib api) c pvc cold) xs)"
    for ns name
    by (rule ens_weaken [OF snapshot_waited]) (auto simp: list_all_iff take_call_def)
  have "ensures (if warm c \<and> cold
             then ensureColdBackup api (cc_source_ns c) (source_name c) (cc_source c) (cc_labels c)
             else raw_snapshot api c pvc) (\<lambda>_ xs. list_all (take_call (cl_lib api) c pvc cold) xs)"
  proof (rule ens_if)
    assume "warm c \<and> cold"
    then show "ensures (ensureColdBackup api (cc_source_ns c) (source_name c) (cc_source c) (cc_labels c))
      (\<lambda>_ xs. list_all (take_call (cl_lib api) c pvc cold) xs)"
      by (intro ens_weaken [OF cold_backup_log]) (auto simp: list_all_iff take_call_def backup_call_def)
  qed (auto intro: ens_weaken [OF raw_snapshot_calls])
  then show ?thesis
    unfolding take_snapshot_def
    by (rule ens_bindI) (auto intro!: ens_option ens_return ens_bind ens_weaken [OF wait])
qed

text \<open>What a snapshot's metadata was read from.\<close>

definition meta_read :: "klib \<Rightarrow> cnpg_clone \<Rightarrow> snapshot_meta \<Rightarrow> cluster_call list \<Rightarrow> bool" where
  "meta_read lib c meta xs \<longleftrightarrow>
     (\<exists>snap vsc. UGet VolumeSnapshot (cc_source_ns c) (source_name c) (Inr snap) \<in> set xs
        \<and> UGet VolumeSnapshotContent []
            (lib_nested_string lib (u_object snap) [''status'', ''boundVolumeSnapshotContentName'']) (Inr vsc) \<in> set xs
        \<and> fst meta \<noteq> [] \<and> fst meta = lib_nested_string lib (u_object vsc) [''status'', ''snapshotHandle'']
        \<and> fst (snd meta) = lib_nested_string lib (u_object vsc) [''spec'', ''driver''])"

lemma meta_read_append: "meta_read lib c meta ys \<Longrightarrow> meta_read lib c meta (xs @ ys)"
  unfolding meta_read_def by fastforce

lemma read_log:
  "ensures (read_snapshot api c) (\<lambda>r xs. only_observes xs
     \<and> (\<forall>meta. r = Inr meta \<longrightarrow> meta_read (cl_lib api) c meta xs))"
  unfolding read_snapshot_def Let_def
  by (intro ens_rules) (auto simp: meta_read_def split: sum.splits if_splits)

definition acquire_call :: "klib \<Rightarrow> cnpg_clone \<Rightarrow> string \<Rightarrow> bool \<Rightarrow> cluster_call \<Rightarrow> bool" where
  "acquire_call lib c pvc cold x \<longleftrightarrow> refresh_call c x \<or> take_call lib c pvc cold x"

lemma not_observed: "only_observes xs \<Longrightarrow> UDelete k ns name d \<notin> set xs"
  by (auto simp: list_all_iff)

lemma acquire_log:
  "ensures (acquireSourceSnapshot api c pvc cold) (\<lambda>r xs. list_all (acquire_call (cl_lib api) c pvc cold) xs
     \<and> (\<forall>d. UDelete VolumeSnapshot (cc_source_ns c) (source_name c) d \<in> set xs \<longrightarrow> warm c \<and> stale_seen c xs)
     \<and> (\<forall>meta. r = Inr meta \<longrightarrow> meta_read (cl_lib api) c meta xs))"
proof -
  let ?Q = "\<lambda>pre r xs. list_all (acquire_call (cl_lib api) c pvc cold) (pre @ xs)
     \<and> (\<forall>d. UDelete VolumeSnapshot (cc_source_ns c) (source_name c) d \<in> set (pre @ xs) \<longrightarrow> warm c \<and> stale_seen c (pre @ xs))
     \<and> (\<forall>meta. r = Inr meta \<longrightarrow> meta_read (cl_lib api) c meta (pre @ xs))"
  let ?pre = "\<lambda>pre. list_all (acquire_call (cl_lib api) c pvc cold) pre
     \<and> (\<forall>d. UDelete VolumeSnapshot (cc_source_ns c) (source_name c) d \<in> set pre \<longrightarrow> warm c \<and> stale_seen c pre)"
  have more: "stale_seen c xs \<Longrightarrow> stale_seen c (xs @ ys)" for xs ys
    unfolding stale_seen_def by auto
  have no_delete: "\<not> take_call (cl_lib api) c pvc cold (UDelete VolumeSnapshot ns name d)" for ns name d
    by (simp add: take_call_def CnpgBackup_def VolumeSnapshot_def)
  have rd: "ensures (read_snapshot api c) (?Q pre)" if "?pre pre" for pre
  proof (rule ens_weaken [OF read_log])
    fix r xs
    assume r: "only_observes xs \<and> (\<forall>meta. r = Inr meta \<longrightarrow> meta_read (cl_lib api) c meta xs)"
    have "UDelete k ns name d \<notin> set xs" for k ns name d
      using r not_observed by blast
    then show "?Q pre r xs"
      using that r by (auto simp: list_all_iff acquire_call_def refresh_call_def intro: meta_read_append more)
  qed
  have tk: "ensures (take_snapshot api c pvc cold \<bind> (\<lambda>t. case t of
        Some err \<Rightarrow> State_Monad.return (Inl err) | None \<Rightarrow> read_snapshot api c)) (?Q pre)"
    if "?pre pre" for pre
  proof (rule ens_bindI [OF take_calls [where cold = cold]])
    fix t xs
    assume "list_all (take_call (cl_lib api) c pvc cold) xs"
    then have "?pre (pre @ xs)"
      using that no_delete by (auto simp: list_all_iff acquire_call_def intro: more)
    then show "ensures (case t of Some err \<Rightarrow> State_Monad.return (Inl err) | None \<Rightarrow> read_snapshot api c)
        (\<lambda>b ys. ?Q pre b (xs @ ys))"
      using rd [of "pre @ xs"] by (cases t) (auto intro!: ens_return)
  qed
  show ?thesis
    unfolding acquireSourceSnapshot_def
  proof (rule ens_bindI [OF reuse_log])
    fix r :: "bool result" and xs
    assume "list_all (refresh_call c) xs \<and> (only_observes xs \<or> (warm c \<and> stale_seen c xs))
     \<and> (r = Inr True \<longrightarrow> only_observes xs \<and> warm c
          \<and> (\<exists>snap t. UGet VolumeSnapshot (cc_source_ns c) (source_name c) (Inr snap) \<in> set xs \<and> WallNow t \<in> set xs
               \<and> snapshot_ready (cl_lib api) snap \<and> time_sub t (u_created snap) < cc_warm_max_age c))"
    then have "?pre xs" using not_observed by (auto simp: list_all_iff acquire_call_def)
    then show "ensures (case r of Inl err \<Rightarrow> State_Monad.return (Inl err)
        | Inr True \<Rightarrow> read_snapshot api c
        | Inr False \<Rightarrow> take_snapshot api c pvc cold \<bind> (\<lambda>t. case t of
            Some err \<Rightarrow> State_Monad.return (Inl err) | None \<Rightarrow> read_snapshot api c)) (?Q xs)"
      using rd [of xs] tk [of xs] by (auto intro!: ens_return split: sum.split bool.split)
  qed
qed

subsection \<open>Restoring\<close>

definition target_call :: "cnpg_clone \<Rightarrow> cluster_call \<Rightarrow> bool" where
  "target_call c x \<longleftrightarrow> observes x \<or>
     (\<exists>u r. (x = UCreate u r \<or> x = UUpdate u r) \<and>
        (u_gvk u, u_namespace u, u_name u) \<in>
          {(VolumeSnapshotContent, [], cc_vsc c), (VolumeSnapshot, cc_target_ns c, cc_vs c),
           (CnpgCluster, cc_target_ns c, cc_cluster c)})"

lemma createOrUpdate_log:
  "ensures (createOrUpdate api u) (\<lambda>r xs.
     list_all (\<lambda>x. observes x \<or> (\<exists>r. x = UCreate u r) \<or> (\<exists>rv r. x = UUpdate (u\<lparr>u_resource_version := rv\<rparr>) r)) xs
     \<and> (r = None \<longrightarrow> applied u xs))"
  unfolding createOrUpdate_def Let_def
  by (intro ens_rules) (auto simp: applied_def split: sum.splits)

definition applied_spec :: "klib \<Rightarrow> uobj \<Rightarrow> (string \<times> json) list \<Rightarrow> cluster_call list \<Rightarrow> bool" where
  "applied_spec lib u fs xs \<longleftrightarrow> (\<exists>u'. set_spec lib u fs = Inr u' \<and> applied u' xs)"

lemma applied_append:
  "applied u xs \<Longrightarrow> applied u (xs @ ys)" "applied u ys \<Longrightarrow> applied u (xs @ ys)"
  unfolding applied_def by fastforce+

lemma applied_spec_append:
  "applied_spec lib u fs xs \<Longrightarrow> applied_spec lib u fs (xs @ ys)"
  "applied_spec lib u fs ys \<Longrightarrow> applied_spec lib u fs (xs @ ys)"
  unfolding applied_spec_def using applied_append by blast+

lemma set_spec_key:
  "set_spec lib u fs = Inr u' \<Longrightarrow>
   u_gvk u' = u_gvk u \<and> u_namespace u' = u_namespace u \<and> u_name u' = u_name u"
  by (auto simp: set_spec_def split: sum.splits)

lemma apply_spec_log:
  assumes "(u_gvk u, u_namespace u, u_name u) \<in>
     {(VolumeSnapshotContent, [], cc_vsc c), (VolumeSnapshot, cc_target_ns c, cc_vs c),
      (CnpgCluster, cc_target_ns c, cc_cluster c)}"
  shows "ensures (apply_spec api what u fs) (\<lambda>r xs.
     list_all (target_call c) xs \<and> (r = None \<longrightarrow> applied_spec (cl_lib api) u fs xs))"
proof (cases "set_spec (cl_lib api) u fs")
  case (Inl err)
  then show ?thesis by (auto simp: apply_spec_def intro!: ens_return)
next
  case (Inr u')
  have k: "(u_gvk u', u_namespace u', u_name u') = (u_gvk u, u_namespace u, u_name u)"
    using set_spec_key [OF Inr] by simp
  show ?thesis
    unfolding apply_spec_def Inr sum.case
  proof (rule ens_bindI [OF createOrUpdate_log])
    fix r :: "goerr option" and xs
    assume "list_all (\<lambda>x. observes x \<or> (\<exists>r. x = UCreate u' r)
          \<or> (\<exists>rv r. x = UUpdate (u'\<lparr>u_resource_version := rv\<rparr>) r)) xs \<and> (r = None \<longrightarrow> applied u' xs)"
    then have t: "list_all (target_call c) xs" and a: "r = None \<longrightarrow> applied u' xs"
      using k assms by (auto simp: list_all_iff target_call_def)
    then show "ensures (State_Monad.return (map_option (errorf (''failed to create '' @ what @ '': '')) r))
        (\<lambda>b ys. list_all (target_call c) (xs @ ys) \<and> (b = None \<longrightarrow> applied_spec (cl_lib api) u fs (xs @ ys)))"
      using Inr by (auto simp: applied_spec_def intro!: ens_return)
  qed
qed

text \<open>
  What a successful clone left on the server: the content object with the handle and driver read,
  retained on deletion, the restore snapshot bound to it, and the Cluster recovering from that.
\<close>

definition restored ::
  "klib \<Rightarrow> cnpg_clone \<Rightarrow> uobj \<Rightarrow> snapshot_meta \<Rightarrow> cluster_call list \<Rightarrow> bool" where
  "restored lib c src meta xs \<longleftrightarrow>
     applied_spec lib ((new_uobj VolumeSnapshotContent [] (cc_vsc c))\<lparr>u_labels := cc_labels c\<rparr>)
       (content_fields c (fst meta) (fst (snd meta))) xs
     \<and> applied_spec lib (newVolumeSnapshot (cc_target_ns c) (cc_vs c) (cc_labels c))
         [(''source'', JObj [(''volumeSnapshotContentName'', JStr (cc_vsc c))])] xs
     \<and> applied_spec lib ((new_uobj CnpgCluster (cc_target_ns c) (cc_cluster c))\<lparr>u_labels := cc_labels c\<rparr>)
         (buildCloneClusterSpec (cc_vs c) (snd (snd meta)) (snd (snd (clone_source lib src)))
            (fst (clone_source lib src)) (fst (snd (clone_source lib src)))) xs"

lemma restore_log:
  "ensures (restore_clone api c src meta) (\<lambda>r xs. list_all (target_call c) xs
     \<and> (r = None \<longrightarrow> restored (cl_lib api) c src meta xs))"
proof -
  obtain handle driver size where m: "meta = (handle, driver, size)" by (cases meta)
  obtain image catalog storage where s: "clone_source (cl_lib api) src = (image, catalog, storage)"
    by (cases "clone_source (cl_lib api) src")
  show ?thesis
    unfolding restore_clone_def m s Let_def prod.case
    apply (rule ens_bindI [OF apply_spec_log [where c = c]], simp)
    apply (rule ens_option)
     apply (rule ens_bind, rule ens_weaken [OF apply_spec_log [where c = c]], simp add: newVolumeSnapshot_def)
     apply (rule ens_option)
      apply (rule ens_weaken [OF apply_spec_log [where c = c]], simp)
      apply (auto simp: restored_def s intro: applied_spec_append intro!: ens_return)
    done
qed

definition cold_allowed :: "klib \<Rightarrow> cnpg_clone \<Rightarrow> uobj \<Rightarrow> bool" where
  "cold_allowed lib c src \<longleftrightarrow> warm c \<and> fst (coldSnapshotEligible lib src)"

lemma with_class_sel [simp]:
  "cc_source_ns (with_class c) = cc_source_ns c" "cc_source (with_class c) = cc_source c"
  "source_name (with_class c) = source_name c" "warm (with_class c) = warm c"
  "cc_warm_max_age (with_class c) = cc_warm_max_age c" "cc_labels (with_class c) = cc_labels c"
  "cc_target_ns (with_class c) = cc_target_ns c" "cc_vs (with_class c) = cc_vs c"
  "cc_vsc (with_class c) = cc_vsc c" "cc_cluster (with_class c) = cc_cluster c"
  by (simp_all add: with_class_def source_name_def warm_def)

text \<open>What a clone has logged once the source cluster is read, and when it is over.\<close>

definition clone_seen :: "klib \<Rightarrow> cnpg_clone \<Rightarrow> uobj \<Rightarrow> string \<Rightarrow> cluster_call list \<Rightarrow> bool" where
  "clone_seen lib c src pvc xs \<longleftrightarrow>
     UGet CnpgCluster (cc_source_ns c) (cc_source c) (Inr src) \<in> set xs
     \<and> (\<forall>x\<in>set xs. observes x \<or> acquire_call lib (with_class c) pvc (cold_allowed lib c src) x \<or> target_call c x)
     \<and> (\<forall>d. UDelete VolumeSnapshot (cc_source_ns c) (source_name c) d \<in> set xs \<longrightarrow> warm c \<and> stale_seen c xs)"

definition clone_post :: "klib \<Rightarrow> cnpg_clone \<Rightarrow> goerr option \<Rightarrow> cluster_call list \<Rightarrow> bool" where
  "clone_post lib c r xs \<longleftrightarrow>
     (\<forall>x\<in>set xs. observes x \<or> (\<exists>src pvc. UGet CnpgCluster (cc_source_ns c) (cc_source c) (Inr src) \<in> set xs
          \<and> (acquire_call lib (with_class c) pvc (cold_allowed lib c src) x \<or> target_call c x)))
     \<and> (\<forall>d. UDelete VolumeSnapshot (cc_source_ns c) (source_name c) d \<in> set xs \<longrightarrow> warm c \<and> stale_seen c xs)
     \<and> (r = None \<longrightarrow> (\<exists>src meta. UGet CnpgCluster (cc_source_ns c) (cc_source c) (Inr src) \<in> set xs
          \<and> meta_read lib c meta xs \<and> restored lib (with_class c) src meta xs))"

lemma with_class_seen:
  "stale_seen (with_class c) xs = stale_seen c xs" "target_call (with_class c) x = target_call c x"
  "meta_read lib (with_class c) meta xs = meta_read lib c meta xs"
  by (simp_all add: stale_seen_def target_call_def meta_read_def)

lemma stale_seen_append: "stale_seen c xs \<or> stale_seen c ys \<Longrightarrow> stale_seen c (xs @ ys)"
  unfolding stale_seen_def by auto

lemma acquire_seen:
  "ensures (acquireSourceSnapshot api (with_class c) pvc (cold_allowed (cl_lib api) c src))
     (\<lambda>r xs. clone_seen (cl_lib api) c src pvc (UGet CnpgCluster (cc_source_ns c) (cc_source c) (Inr src) # xs)
        \<and> (\<forall>meta. r = Inr meta \<longrightarrow> meta_read (cl_lib api) c meta xs))"
  by (rule ens_weaken [OF acquire_log])
    (auto simp: clone_seen_def list_all_iff with_class_seen intro: stale_seen_append [where xs = "[_]", simplified])

lemma restore_seen:
  assumes "clone_seen (cl_lib api) c src pvc pre"
  shows "ensures (restore_clone api (with_class c) src meta)
     (\<lambda>r xs. clone_seen (cl_lib api) c src pvc (pre @ xs)
        \<and> (r = None \<longrightarrow> restored (cl_lib api) (with_class c) src meta (pre @ xs)))"
proof (rule ens_weaken [OF restore_log])
  fix r xs
  assume r: "list_all (target_call (with_class c)) xs \<and> (r = None \<longrightarrow> restored (cl_lib api) (with_class c) src meta xs)"
  have no_del: "\<not> target_call c (UDelete k ns name d)" for k ns name d by (simp add: target_call_def)
  then have "UDelete k ns name d \<notin> set xs" for k ns name d
    using r unfolding list_all_iff with_class_seen by blast
  moreover have "restored (cl_lib api) (with_class c) src meta ys \<Longrightarrow> restored (cl_lib api) (with_class c) src meta (pre @ ys)" for ys
    unfolding restored_def by (auto intro: applied_spec_append)
  ultimately show "clone_seen (cl_lib api) c src pvc (pre @ xs) \<and> (r = None \<longrightarrow> restored (cl_lib api) (with_class c) src meta (pre @ xs))"
    using assms r unfolding list_all_iff with_class_seen clone_seen_def by (auto intro: stale_seen_append)
qed

lemma clone_postI:
  "clone_seen lib c src pvc xs \<Longrightarrow>
   (r = None \<Longrightarrow> \<exists>meta. meta_read lib c meta xs \<and> restored lib (with_class c) src meta xs) \<Longrightarrow> clone_post lib c r xs"
  unfolding clone_seen_def clone_post_def by blast

lemma clone_from_source:
  "ensures (do {
       m \<leftarrow> acquireSourceSnapshot api (with_class c) pvc (cold_allowed (cl_lib api) c src);
       case m of Inl err \<Rightarrow> State_Monad.return (Some err) | Inr meta \<Rightarrow> restore_clone api (with_class c) src meta
     }) (\<lambda>r ys. clone_post (cl_lib api) c r (UGet CnpgCluster (cc_source_ns c) (cc_source c) (Inr src) # ys))"
proof (rule ens_bindI [OF acquire_seen])
  let ?get = "UGet CnpgCluster (cc_source_ns c) (cc_source c) (Inr src)" and ?lib = "cl_lib api"
  fix m :: "snapshot_meta result" and xs
  assume a: "clone_seen ?lib c src pvc (?get # xs) \<and> (\<forall>meta. m = Inr meta \<longrightarrow> meta_read ?lib c meta xs)"
  note pre = conjunct1 [OF a]
  show "ensures (case m of Inl err \<Rightarrow> State_Monad.return (Some err) | Inr meta \<Rightarrow> restore_clone api (with_class c) src meta)
      (\<lambda>r ys. clone_post ?lib c r (?get # xs @ ys))"
  proof (cases m)
    case (Inl err)
    have "clone_post ?lib c (Some err) (?get # xs)" by (rule clone_postI [OF pre]) simp
    then show ?thesis using Inl by (auto intro!: ens_return)
  next
    case (Inr meta)
    have "meta_read ?lib c meta (?get # xs @ ys)" for ys
      using a Inr unfolding meta_read_def by auto
    then show ?thesis
      unfolding Inr sum.case append_Cons [symmetric]
      by (intro ens_weaken [OF restore_seen [OF pre]]) (blast intro: clone_postI)
  qed
qed

lemma clone_posted:
  "ensures (cloneCNPGFromSnapshot api c) (clone_post (cl_lib api) c)"
  unfolding cloneCNPGFromSnapshot_def Let_def with_class_sel
proof (rule ens_bind, rule ens_operate)
  let ?lib = "cl_lib api"
  fix got :: "uobj result"
  have e: "(if warm c then fst (coldSnapshotEligible ?lib src) else False) = cold_allowed ?lib c src" for src
    by (simp add: cold_allowed_def)
  have r: "clone_post ?lib c (Some err) [UGet CnpgCluster (cc_source_ns c) (cc_source c) got]" for err
    by (simp add: clone_post_def)
  show "ensures (case got of
        Inl err \<Rightarrow> State_Monad.return (Some (errorf (''failed to get source CNPG cluster '' @ cc_source_ns c @ ''/''
              @ cc_source c @ '': '') err))
      | Inr src \<Rightarrow>
          if lib_nested_string ?lib (u_object src) [''status'', ''currentPrimary''] = [] then
            State_Monad.return (Some (Plain (''source CNPG cluster '' @ cc_source c @ '' has no currentPrimary'')))
          else do {
            m \<leftarrow> acquireSourceSnapshot api (with_class c) (lib_nested_string ?lib (u_object src) [''status'', ''currentPrimary''])
                  (if warm c then fst (coldSnapshotEligible ?lib src) else False);
            case m of Inl err \<Rightarrow> State_Monad.return (Some err) | Inr meta \<Rightarrow> restore_clone api (with_class c) src meta
          })
       (\<lambda>r ys. clone_post ?lib c r ([UGet CnpgCluster (cc_source_ns c) (cc_source c) got] @ ys))"
    unfolding e by (cases got) (use r clone_from_source in \<open>auto intro!: ens_return\<close>)
qed

lemma clone_log:
  "ensures (cloneCNPGFromSnapshot api c) (\<lambda>r xs.
     (\<forall>x\<in>set xs. observes x \<or> (\<exists>src pvc. UGet CnpgCluster (cc_source_ns c) (cc_source c) (Inr src) \<in> set xs
          \<and> (acquire_call (cl_lib api) (with_class c) pvc (cold_allowed (cl_lib api) c src) x \<or> target_call c x)))
     \<and> (\<forall>d. UDelete VolumeSnapshot (cc_source_ns c) (source_name c) d \<in> set xs \<longrightarrow> warm c \<and> stale_seen c xs)
     \<and> (r = None \<longrightarrow> (\<exists>src meta. UGet CnpgCluster (cc_source_ns c) (cc_source c) (Inr src) \<in> set xs
          \<and> meta_read (cl_lib api) c meta xs \<and> restored (cl_lib api) (with_class c) src meta xs)))"
  by (rule ens_weaken [OF clone_posted]) (simp only: clone_post_def)

end
