(* ===== verification/Cluster_Demo.thy ===== *)
theory Cluster_Demo
  imports Clone
begin

section \<open>A small cluster to evaluate the routines on\<close>

text \<open>
  A world that answers every read from its own fields; unstructured objects are looked up by kind
  and name, a creation is refused exactly when the object exists, waits see one tick.
\<close>

record cluster_world =
  cw_objs :: "uobj list"
  cw_mc :: "migration_check result"
  cw_ns :: "namespace result"
  cw_endpoints :: "endpoints result"
  cw_secret :: "secret result"
  cw_job :: "job result"
  cw_pods :: "pod list"
  cw_report :: "int result"
  cw_time :: instant

definition cl_missing :: goerr where
  "cl_missing = ApiErr RNotFound [] ''not found''"

definition cl_exists :: goerr where
  "cl_exists = ApiErr RAlreadyExists [] ''already exists''"

definition find_obj :: "uobj list \<Rightarrow> gvk \<Rightarrow> string \<Rightarrow> uobj option" where
  "find_obj us k name = List.find (\<lambda>u. u_gvk u = k \<and> u_name u = name) us"

lemma find_obj_simps [run_simps]:
  "find_obj [] k name = None"
  "find_obj (u # us) k name = (if u_gvk u = k \<and> u_name u = name then Some u else find_obj us k name)"
  by (simp_all add: find_obj_def)

definition cl_any :: "'a cluster_world_scheme cluster_api" where
  "cl_any =
     \<lparr>cl_lib = klib_demo,
      cl_uget = (\<lambda>k ns n w. (case find_obj (cw_objs w) k n of None \<Rightarrow> Inl cl_missing | Some u \<Rightarrow> Inr u, w)),
      cl_ucreate = (\<lambda>u w. (case find_obj (cw_objs w) (u_gvk u) (u_name u) of
          None \<Rightarrow> Inr u | Some _ \<Rightarrow> Inl cl_exists, w)),
      cl_uupdate = (\<lambda>u w. (Inr u, w)),
      cl_udelete = (\<lambda>k ns n w. (None, w)),
      cl_wall = (\<lambda>w. (cw_time w, w)),
      cl_wait = (\<lambda>w. ((1, TimedOut), w)),
      cl_get_mc = (\<lambda>ns n w. (cw_mc w, w)),
      cl_update_mc = (\<lambda>m w. (Inr m, w\<lparr>cw_mc := Inr m\<rparr>)),
      cl_status_mc = (\<lambda>m w. (Inr m, w\<lparr>cw_mc := Inr m\<rparr>)),
      cl_delete_mc = (\<lambda>m w. (None, w)),
      cl_get_ns = (\<lambda>n w. (cw_ns w, w)),
      cl_create_ns = (\<lambda>n w. (Inr n, w)),
      cl_delete_ns = (\<lambda>n w. (None, w)),
      cl_get_endpoints = (\<lambda>ns n w. (cw_endpoints w, w)),
      cl_get_secret = (\<lambda>ns n w. (cw_secret w, w)),
      cl_create_secret = (\<lambda>s w. (Inr s, w)),
      cl_delete_secret = (\<lambda>ns n w. (None, w)),
      cl_get_job = (\<lambda>ns n w. (cw_job w, w)),
      cl_create_job = (\<lambda>j w. (Inr j, w)),
      cl_delete_job = (\<lambda>ns n w. (None, w)),
      cl_list_pods = (\<lambda>ns n w. (Inr (cw_pods w), w)),
      cl_tail = None,
      cl_report = Some (\<lambda>rep i run w. (cw_report w, w)),
      cl_now = (\<lambda>w. (cw_time w, w)),
      cl_set_owner = (\<lambda>m s. Inr (s\<lparr>sec_owners := [mc_uid m]\<rparr>)),
      cl_probe_image = ''curl''\<rparr>"

lemma cl_demo_sel [run_simps]:
  "cl_lib cl_any = klib_demo"
  "cl_uget cl_any k ns n w = (case find_obj (cw_objs w) k n of None \<Rightarrow> Inl cl_missing | Some u \<Rightarrow> Inr u, w)"
  "cl_ucreate cl_any u w = (case find_obj (cw_objs w) (u_gvk u) (u_name u) of
          None \<Rightarrow> Inr u | Some _ \<Rightarrow> Inl cl_exists, w)"
  "cl_uupdate cl_any u w = (Inr u, w)" "cl_udelete cl_any k ns n w = (None, w)"
  "cl_wall cl_any w = (cw_time w, w)" "cl_wait cl_any w = ((1, TimedOut), w)"
  "cl_get_mc cl_any ns n w = (cw_mc w, w)"
  "cl_update_mc cl_any m w = (Inr m, w\<lparr>cw_mc := Inr m\<rparr>)"
  "cl_status_mc cl_any m w = (Inr m, w\<lparr>cw_mc := Inr m\<rparr>)" "cl_delete_mc cl_any m w = (None, w)"
  "cl_get_ns cl_any n w = (cw_ns w, w)" "cl_create_ns cl_any nsp w = (Inr nsp, w)"
  "cl_delete_ns cl_any n w = (None, w)" "cl_get_endpoints cl_any ns n w = (cw_endpoints w, w)"
  "cl_get_secret cl_any ns n w = (cw_secret w, w)" "cl_create_secret cl_any sec w = (Inr sec, w)"
  "cl_delete_secret cl_any ns n w = (None, w)" "cl_get_job cl_any ns n w = (cw_job w, w)"
  "cl_create_job cl_any j w = (Inr j, w)" "cl_delete_job cl_any ns n w = (None, w)"
  "cl_list_pods cl_any ns n w = (Inr (cw_pods w), w)" "cl_tail cl_any = None"
  "cl_report cl_any = Some (\<lambda>rep i run w. (cw_report w, w))" "cl_now cl_any w = (cw_time w, w)"
  "cl_set_owner cl_any m sec = Inr (sec\<lparr>sec_owners := [mc_uid m]\<rparr>)" "cl_probe_image cl_any = ''curl''"
  by (simp_all add: cl_any_def)

text \<open>On a world of these fields only.\<close>

abbreviation cl_demo :: "cluster_world cluster_api" where
  "cl_demo \<equiv> cl_any"

subsection \<open>A source database with a warm snapshot\<close>

definition status_obj :: "gvk \<Rightarrow> string \<Rightarrow> instant \<Rightarrow> (string \<times> json) list \<Rightarrow> (string \<times> json) list \<Rightarrow> uobj" where
  "status_obj k name created spc st =
     (new_uobj k [] name)\<lparr>u_created := created, u_object := JObj [(''spec'', JObj spc), (''status'', JObj st)]\<rparr>"

definition src_demo :: uobj where
  "src_demo = status_obj CnpgCluster ''pg'' 0
     [(''instances'', JInt 2), (''imageName'', JStr ''pg:16'')]
     [(''readyInstances'', JInt 2), (''currentPrimary'', JStr ''pg-1''), (''phase'', JStr ''Cluster in healthy state'')]"

definition warm_demo :: "instant \<Rightarrow> uobj" where
  "warm_demo created = status_obj VolumeSnapshot ''warm'' created []
     [(''readyToUse'', JBool True), (''boundVolumeSnapshotContentName'', JStr ''vsc''), (''restoreSize'', JStr ''5Gi'')]"

definition vsc_demo :: uobj where
  "vsc_demo = status_obj VolumeSnapshotContent ''vsc'' 0 [(''driver'', JStr ''rbd'')] [(''snapshotHandle'', JStr ''h1'')]"

definition clone_demo :: cnpg_clone where
  "clone_demo = \<lparr>cc_source = ''pg'', cc_source_ns = ''postgres'', cc_target_ns = ''mig'',
     cc_prod_snapshot = ''p'', cc_vsc = ''content'', cc_vs = ''restore'', cc_cluster = ''clone'',
     cc_class = [], cc_labels = None, cc_warm = ''warm'', cc_warm_max_age = 12 * hour\<rparr>"

definition cw_demo :: "uobj list \<Rightarrow> cluster_world" where
  "cw_demo us = \<lparr>cw_objs = us, cw_mc = Inl cl_missing, cw_ns = Inl cl_missing, cw_endpoints = Inl cl_missing,
     cw_secret = Inl cl_missing, cw_job = Inl cl_missing, cw_pods = [], cw_report = Inr 7, cw_time = 13 * hour\<rparr>"

lemma cw_demo_sel [run_simps]:
  "cw_objs (cw_demo us) = us" "cw_time (cw_demo us) = 13 * hour" "cw_mc (cw_demo us) = Inl cl_missing"
  "cw_ns (cw_demo us) = Inl cl_missing" "cw_report (cw_demo us) = Inr 7" "cw_pods (cw_demo us) = []"
  "cw_job (cw_demo us) = Inl cl_missing"
  by (simp_all add: cw_demo_def)

lemma clone_demo_sel [run_simps]:
  "cc_source clone_demo = ''pg''" "cc_source_ns clone_demo = ''postgres''" "source_name clone_demo = ''warm''"
  "warm clone_demo = True" "cc_warm_max_age clone_demo = 12 * hour" "cc_target_ns clone_demo = ''mig''"
  "cc_vsc clone_demo = ''content''" "cc_vs clone_demo = ''restore''" "cc_cluster clone_demo = ''clone''"
  "cc_labels clone_demo = None" "cc_class (with_class clone_demo) = ''ceph-block-snapshot''"
  by (simp_all add: clone_demo_def source_name_def warm_def with_class_def)

lemma obj_demo_sel [run_simps]:
  "u_gvk src_demo = CnpgCluster" "u_name src_demo = ''pg''"
  "u_gvk (warm_demo t) = VolumeSnapshot" "u_name (warm_demo t) = ''warm''" "u_created (warm_demo t) = t"
  "u_gvk vsc_demo = VolumeSnapshotContent" "u_name vsc_demo = ''vsc''"
  by (simp_all add: src_demo_def warm_demo_def vsc_demo_def status_obj_def)

lemma gvk_distinct [run_simps]:
  "CnpgCluster \<noteq> VolumeSnapshot" "CnpgCluster \<noteq> VolumeSnapshotContent" "CnpgCluster \<noteq> CnpgBackup"
  "VolumeSnapshot \<noteq> CnpgCluster" "VolumeSnapshot \<noteq> VolumeSnapshotContent" "VolumeSnapshot \<noteq> CnpgBackup"
  "VolumeSnapshotContent \<noteq> CnpgCluster" "VolumeSnapshotContent \<noteq> VolumeSnapshot"
  "VolumeSnapshotContent \<noteq> CnpgBackup" "CnpgBackup \<noteq> CnpgCluster" "CnpgBackup \<noteq> VolumeSnapshot"
  "CnpgBackup \<noteq> VolumeSnapshotContent"
  by (simp_all add: CnpgCluster_def VolumeSnapshot_def VolumeSnapshotContent_def CnpgBackup_def)

end
