(* ===== verification/Clone_Run.thy ===== *)
theory Clone_Run
  imports Cluster_Demo
begin

lemma eligible_demo [run_simps]: "coldSnapshotEligible klib_demo src_demo = (True, ''cold backup of a standby'')"
  by (simp add: coldSnapshotEligible_def src_demo_def status_obj_def klib_demo_def Let_def)

lemma nested_demo [run_simps]:
  "lib_nested_string klib_demo (u_object src_demo) [''status'', ''currentPrimary''] = ''pg-1''"
  "clone_source klib_demo src_demo = (''pg:16'', None, ''rook-ceph-block'')"
  "lib_nested_bool klib_demo (u_object (warm_demo t)) [''status'', ''readyToUse''] = True"
  "lib_nested_string klib_demo (u_object (warm_demo t)) [''status'', ''boundVolumeSnapshotContentName''] = ''vsc''"
  "lib_nested_string klib_demo (u_object (warm_demo t)) [''status'', ''restoreSize''] = ''5Gi''"
  "lib_nested_string klib_demo (u_object vsc_demo) [''status'', ''snapshotHandle''] = ''h1''"
  "lib_nested_string klib_demo (u_object vsc_demo) [''spec'', ''driver''] = ''rbd''"
  by (simp_all add: src_demo_def warm_demo_def vsc_demo_def status_obj_def klib_demo_def clone_source_def Let_def)

lemma set_spec_demo [run_simps]:
  "u_object u = JObj [] \<Longrightarrow> set_spec klib_demo u fs = Inr (u\<lparr>u_object := JObj [(''spec'', JObj fs)]\<rparr>)"
  by (simp add: set_spec_def klib_demo_def)

lemma new_snapshot_sel [run_simps]:
  "u_gvk (newVolumeSnapshot ns n l) = VolumeSnapshot" "u_namespace (newVolumeSnapshot ns n l) = ns"
  "u_name (newVolumeSnapshot ns n l) = n" "u_object (newVolumeSnapshot ns n l) = JObj []"
  by (simp_all add: newVolumeSnapshot_def)

lemma cold_backup_sel [run_simps]:
  "u_gvk (buildColdBackup ns n cl l) = CnpgBackup" "u_name (buildColdBackup ns n cl l) = n"
  by (simp_all add: buildColdBackup_def)

lemmas clone_defs = cloneCNPGFromSnapshot_def acquireSourceSnapshot_def reuse_warm_def read_snapshot_def
  restore_clone_def apply_spec_def createOrUpdate_def warmSnapshotUsable_def refresh_stale_def
  deleteBackupAndWaitGone_def deleteSnapshotAndWaitGone_def delete_and_wait_def wait_for_def
  gone_tick_def ignore_not_found_def take_snapshot_def ensureColdBackup_def start_backup_def
  waitForBackupCompleted_def backup_tick_def time_sub_def sat64_def Let_def


lemma demo_stale:
  "UDelete VolumeSnapshot ''postgres'' ''warm'' None
     \<in> set (snd (run_in (cloneCNPGFromSnapshot cl_demo clone_demo) (cw_demo [src_demo, warm_demo 0, vsc_demo])))"
  by (simp add: clone_defs run_simps IsNotFound_def cl_missing_def)

lemma demo_cold:
  "UCreate (buildColdBackup ''postgres'' ''warm'' ''pg'' None) (Inr (buildColdBackup ''postgres'' ''warm'' ''pg'' None))
     \<in> set (snd (run_in (cloneCNPGFromSnapshot cl_demo clone_demo) (cw_demo [src_demo])))"
  by (simp add: clone_defs run_simps IsNotFound_def cl_missing_def)

lemma clone_call:
  assumes "run_in (cloneCNPGFromSnapshot api c) w = (res, xs)" and "x \<in> set xs" and "\<not> observes x"
  obtains src pvc where "UGet CnpgCluster (cc_source_ns c) (cc_source c) (Inr src) \<in> set xs"
    and "acquire_call (cl_lib api) (with_class c) pvc (cold_allowed (cl_lib api) c src) x \<or> target_call c x"
  using ens_run_in [OF clone_log assms(1)] assms(2,3) by blast

lemma no_snapshot_delete:
  "\<not> take_call lib c pvc cold (UDelete VolumeSnapshot ns name d)" "\<not> target_call c (UDelete k ns name d)"
  by (simp_all add: take_call_def target_call_def gvk_distinct)

subsection \<open>What a clone guarantees\<close>



text \<open>C19 Production is never fenced: a Backup, which fences an instance, is created only for a warm
  snapshot, and only after the source cluster was read with at least two instances, at least two
  of them ready, no synchronous standby required, and synchronous replication absent or
  \<open>preferred\<close>.\<close>

theorem standby_fenced_only_when_safe:
  assumes "run_in (cloneCNPGFromSnapshot api c) w = (res, xs)"
    and "UCreate u r \<in> set xs" and "u_gvk u = CnpgBackup"
  shows "warm c \<and> u = buildColdBackup (cc_source_ns c) (source_name c) (cc_source c) (cc_labels c)
    \<and> (\<exists>src. UGet CnpgCluster (cc_source_ns c) (cc_source c) (Inr src) \<in> set xs
         \<and> 2 \<le> lib_nested_int64 (cl_lib api) (u_object src) [''spec'', ''instances'']
         \<and> 2 \<le> lib_nested_int64 (cl_lib api) (u_object src) [''status'', ''readyInstances'']
         \<and> lib_nested_int64 (cl_lib api) (u_object src) [''spec'', ''minSyncReplicas''] \<le> 0
         \<and> (case lib_nested_map (cl_lib api) (u_object src) [''spec'', ''postgresql'', ''synchronous''] of
              None \<Rightarrow> True
            | Some sync \<Rightarrow> json_str (map_of sync ''dataDurability'') = ''preferred''))"
proof -
  obtain src pvc where g: "UGet CnpgCluster (cc_source_ns c) (cc_source c) (Inr src) \<in> set xs"
    and x: "acquire_call (cl_lib api) (with_class c) pvc (cold_allowed (cl_lib api) c src) (UCreate u r)
            \<or> target_call c (UCreate u r)"
    by (rule clone_call [OF assms(1,2)]) simp
  have nt: "\<not> target_call c (UCreate u r)" using assms(3) by (auto simp: target_call_def gvk_distinct)
  have "u_gvk snap = VolumeSnapshot" if "set_spec (cl_lib api) (newVolumeSnapshot a b l) fs = Inr snap" for snap a b l fs
    using set_spec_key [OF that] by (simp add: newVolumeSnapshot_def)
  then have cold: "cold_allowed (cl_lib api) c src"
    and u: "u = buildColdBackup (cc_source_ns c) (source_name c) (cc_source c) (cc_labels c)"
    using x nt assms(3) by (auto simp: acquire_call_def refresh_call_def take_call_def gvk_distinct)
  then show ?thesis using g
    by (auto simp: cold_allowed_def coldSnapshotEligible_def Let_def intro!: exI [of _ src]
        split: if_splits option.splits)
qed

theorem standby_fenced_only_when_safe_witness:
  "\<exists>src. UGet CnpgCluster ''postgres'' ''pg'' (Inr src)
       \<in> set (snd (run_in (cloneCNPGFromSnapshot cl_demo clone_demo) (cw_demo [src_demo])))
     \<and> 2 \<le> lib_nested_int64 klib_demo (u_object src) [''status'', ''readyInstances'']"
  using standby_fenced_only_when_safe [OF surjective_pairing demo_cold]
  by (auto simp: run_simps simp del: run_in_def)

text \<open>The shared warm snapshot is kept while it is fresh: a clone deletes a VolumeSnapshot only if it
  is the warm one and was read with an age of at least the freshness ceiling.\<close>

theorem warm_snapshot_kept_while_fresh:
  assumes "run_in (cloneCNPGFromSnapshot api c) w = (res, xs)"
    and "UDelete VolumeSnapshot ns name d \<in> set xs"
  shows "warm c \<and> ns = cc_source_ns c \<and> name = cc_warm c
    \<and> (\<exists>snap t. UGet VolumeSnapshot ns name (Inr snap) \<in> set xs \<and> WallNow t \<in> set xs
         \<and> cc_warm_max_age c \<le> time_sub t (u_created snap))"
proof -
  have x: "refresh_call (with_class c) (UDelete VolumeSnapshot ns name d)"
    by (rule clone_call [OF assms]) (simp_all add: no_snapshot_delete acquire_call_def)
  then have n: "ns = cc_source_ns c" "name = source_name c" by (auto simp: refresh_call_def)
  have "warm c \<and> stale_seen c xs"
    using ens_run_in [OF clone_log assms(1)] assms(2) unfolding n by blast
  then show ?thesis
    unfolding n stale_seen_def by (auto simp: source_name_def)
qed

theorem warm_snapshot_kept_while_fresh_witness:
  "\<exists>(snap :: uobj) t. WallNow t \<in> set (snd (run_in (cloneCNPGFromSnapshot cl_demo clone_demo) (cw_demo [src_demo, warm_demo 0, vsc_demo])))
     \<and> 12 * hour \<le> time_sub t (u_created snap)"
  using warm_snapshot_kept_while_fresh [OF surjective_pairing demo_stale]
  unfolding clone_demo_sel by blast

end
