(* ===== verification/Contract.thy ===== *)
theory Contract
  imports Effects
begin

section \<open>Contracts on the call log\<close>

text \<open>
  A controller's discipline is a predicate \<open>allowed E x\<close>: the call \<open>x\<close> may be made when the log
  holds the evidence \<open>E\<close>, and stays allowed with more evidence. \<open>keeps E m R\<close> says that every run of
  \<open>m\<close> started with evidence \<open>E\<close> makes allowed calls only and returns some \<open>a\<close> with \<open>R a\<close> of the
  evidence it leaves. The rules follow the program text, each answer of the outside world joining
  the evidence.
\<close>

text \<open>How a statement about the evidence carries over to more of it.\<close>

lemmas evidence_mono = imp_refl conj_mono disj_mono ex_mono

locale call_contract =
  fixes allowed :: "'c set \<Rightarrow> 'c \<Rightarrow> bool"
  assumes more_evidence: "E \<subseteq> F \<Longrightarrow> allowed E x \<Longrightarrow> allowed F x"
begin

definition keeps :: "'c set \<Rightarrow> ('w, 'c, 'a) prog \<Rightarrow> ('a \<Rightarrow> 'c set \<Rightarrow> bool) \<Rightarrow> bool" where
  "keeps E m R \<longleftrightarrow>
     ensures m (\<lambda>a xs. (\<forall>x\<in>set xs. allowed (E \<union> set xs) x) \<and> R a (E \<union> set xs))"

lemma keeps_return: "R a E \<Longrightarrow> keeps E (State_Monad.return a) R"
  unfolding keeps_def by (rule ens_return) simp

lemma keeps_weaken: "keeps E m R \<Longrightarrow> (\<And>a F. E \<subseteq> F \<Longrightarrow> R a F \<Longrightarrow> S a F) \<Longrightarrow> keeps E m S"
  unfolding keeps_def by (erule ens_weaken) auto

lemma keeps_bind:
  assumes "keeps E m R" and f: "\<And>a F. E \<subseteq> F \<Longrightarrow> R a F \<Longrightarrow> keeps F (f a) S"
  shows "keeps E (State_Monad.bind m f) S"
  unfolding keeps_def
proof (rule ens_bindI [OF assms(1) [unfolded keeps_def]])
  fix a xs
  assume a: "(\<forall>x\<in>set xs. allowed (E \<union> set xs) x) \<and> R a (E \<union> set xs)"
  then have "keeps (E \<union> set xs) (f a) S" by (intro f) auto
  then show "ensures (f a) (\<lambda>b ys. (\<forall>x\<in>set (xs @ ys). allowed (E \<union> set (xs @ ys)) x) \<and> S b (E \<union> set (xs @ ys)))"
    unfolding keeps_def
  proof (rule ens_weaken)
    fix b ys
    assume b: "(\<forall>x\<in>set ys. allowed (E \<union> set xs \<union> set ys) x) \<and> S b (E \<union> set xs \<union> set ys)"
    have e: "E \<union> set (xs @ ys) = E \<union> set xs \<union> set ys" by (simp add: Un_assoc)
    have "allowed (E \<union> set xs \<union> set ys) x" if "x \<in> set (xs @ ys)" for x
    proof (cases "x \<in> set ys")
      case False
      with that have "x \<in> set xs" by simp
      with a show ?thesis by (blast intro: more_evidence [of "E \<union> set xs"])
    qed (use b in blast)
    with b show "(\<forall>x\<in>set (xs @ ys). allowed (E \<union> set (xs @ ys)) x) \<and> S b (E \<union> set (xs @ ys))"
      unfolding e by blast
  qed
qed

lemma keeps_operate:
  "(\<And>a. allowed (insert (c a) E) (c a)) \<Longrightarrow> (\<And>a. R a (insert (c a) E)) \<Longrightarrow> keeps E (operate g c) R"
  unfolding keeps_def by (rule ens_operate) (simp del: Un_iff)

lemma keeps_ens:
  "ensures m P \<Longrightarrow> (\<And>a xs x. P a xs \<Longrightarrow> x \<in> set xs \<Longrightarrow> allowed (E \<union> set xs) x) \<Longrightarrow>
   (\<And>a xs. P a xs \<Longrightarrow> R a (E \<union> set xs)) \<Longrightarrow> keeps E m R"
  unfolding keeps_def by (erule ens_weaken) blast

text \<open>A call followed by the rest of the program, with its answer as new evidence.\<close>

lemma keeps_step:
  assumes "\<And>a. allowed (insert (c a) E) (c a)" and "\<And>a. keeps (insert (c a) E) (f a) S"
  shows "keeps E (State_Monad.bind (operate g c) f) S"
  by (rule keeps_bind [where R = "\<lambda>a F. F = insert (c a) E"], rule keeps_operate)
     (use assms in auto)

lemma keeps_if: "(b \<Longrightarrow> keeps E f R) \<Longrightarrow> (\<not> b \<Longrightarrow> keeps E g R) \<Longrightarrow> keeps E (if b then f else g) R"
  by simp

lemma keeps_sum:
  "(\<And>a. x = Inl a \<Longrightarrow> keeps E (f a) R) \<Longrightarrow> (\<And>b. x = Inr b \<Longrightarrow> keeps E (g b) R) \<Longrightarrow>
   keeps E (case x of Inl a \<Rightarrow> f a | Inr b \<Rightarrow> g b) R"
  by (cases x) simp_all

lemma keeps_option:
  "(x = None \<Longrightarrow> keeps E f R) \<Longrightarrow> (\<And>a. x = Some a \<Longrightarrow> keeps E (g a) R) \<Longrightarrow>
   keeps E (case x of None \<Rightarrow> f | Some a \<Rightarrow> g a) R"
  by (cases x) simp_all

lemma keeps_prod: "(\<And>a b. x = (a, b) \<Longrightarrow> keeps E (f a b) R) \<Longrightarrow> keeps E (case x of (a, b) \<Rightarrow> f a b) R"
  by (cases x) simp

lemma keeps_whenM: "(b \<Longrightarrow> keeps E m R) \<Longrightarrow> (\<not> b \<Longrightarrow> R () E) \<Longrightarrow> keeps E (whenM b m) R"
  by (cases b) (auto simp: whenM_def intro: keeps_return)

lemmas keeps_rules = keeps_return keeps_if keeps_sum keeps_option keeps_prod keeps_whenM

lemma keeps_run_in: "keeps {} m R \<Longrightarrow> run_in m w = (a, xs) \<Longrightarrow> x \<in> set xs \<Longrightarrow> allowed (set xs) x"
  unfolding keeps_def by (drule (1) ens_run_in) simp

lemma keeps_result: "keeps {} m R \<Longrightarrow> run_in m w = (a, xs) \<Longrightarrow> R a (set xs)"
  unfolding keeps_def by (drule (1) ens_run_in) simp

end

end
