(* ===== verification/Migration_Jobs.thy ===== *)
theory Migration_Jobs
  imports Cluster Preview_Jobs
begin

section \<open>The migration probe Job: internal/controller/migrationcheck_jobs.go\<close>

text \<open>
  The Job that runs the app under test against the clone: the two shell scripts and what they do,
  the Job's construction, its creation, and the reading of a pod that never starts.
\<close>

abbreviation probePullGrace :: duration where "probePullGrace \<equiv> 3 * minute"
abbreviation probeJobSlack :: duration where "probeJobSlack \<equiv> 2 * minute"
abbreviation dbSettleGrace :: duration where "dbSettleGrace \<equiv> 10 * minute"

definition MigrationCheckJobsLabel :: string where
  "MigrationCheckJobsLabel = ''preview.homelab.io/migration-check-jobs''"

definition MigrationJobLabel :: string where
  "MigrationJobLabel = ''preview.homelab.io/migration-check''"

definition defaultPgReadyImage :: string where
  "defaultPgReadyImage = ''ghcr.io/cloudnative-pg/postgresql:17''"

subsection \<open>The database gate\<close>

definition apos :: string where
  "apos = [CHR 0x27]"

definition waitDBScript :: string where
  \<open>waitDBScript = concat (map (\<lambda>line. line @ newline)
     [''set -u'',
      ''ok=0'',
      ''i=0'',
      ''while [ "$i" -lt "$WAIT_DB_TIMEOUT" ]; do'',
      ''  if pg_isready -q -d "$DATABASE_URL"; then'',
      ''    ok=$((ok + 1))'',
      ''    if [ "$ok" -ge 6 ]; then'',
      ''      echo "wait-db: database accepted 6 consecutive checks after ${i}s"'',
      ''      break'',
      ''    fi'',
      ''  else'',
      ''    ok=0'',
      ''  fi'',
      ''  i=$((i + 5))'',
      ''  sleep 5'',
      ''done'',
      ''if [ "$ok" -lt 6 ]; then'',
      ''  echo "wait-db: database not stable after ${WAIT_DB_TIMEOUT}s"'',
      ''  exit 1'',
      ''fi'',
      ''start=$(date +%s)'',
      ''if psql -X -q -v ON_ERROR_STOP=1 -d "$DATABASE_URL" <<'' @ apos @ ''SQL'' @ apos,
      ''CREATE EXTENSION IF NOT EXISTS pg_prewarm;'',
      ''SELECT count(*) AS catalog_relations FROM ('',
      ''  SELECT pg_prewarm(c.oid::regclass, '' @ apos @ ''read'' @ apos @ '')'',
      ''  FROM pg_class c JOIN pg_namespace n ON n.oid = c.relnamespace'',
      ''  WHERE n.nspname = '' @ apos @ ''pg_catalog'' @ apos @ '' AND c.relkind IN ('' @ apos @ ''r'' @ apos @ '', ''
        @ apos @ ''i'' @ apos @ '')'',
      '') s;'',
      ''SELECT count(*) AS user_relations, pg_size_pretty(sum(pg_relation_size(c.oid))) AS warmed FROM ('',
      ''  SELECT c.oid, pg_prewarm(c.oid::regclass, '' @ apos @ ''read'' @ apos @ '')'',
      ''  FROM pg_class c JOIN pg_namespace n ON n.oid = c.relnamespace'',
      ''  WHERE c.relkind IN ('' @ apos @ ''r'' @ apos @ '', '' @ apos @ ''i'' @ apos @ '', '' @ apos @ ''t'' @ apos
        @ '', '' @ apos @ ''m'' @ apos @ '') AND n.nspname NOT IN ('' @ apos @ ''pg_catalog'' @ apos @ '', ''
        @ apos @ ''information_schema'' @ apos @ '')'',
      '') s JOIN pg_class c ON c.oid = s.oid;'',
      ''DROP EXTENSION pg_prewarm;'',
      ''SQL'',
      ''then'',
      ''  echo "wait-db: database warmed in $(( $(date +%s) - start ))s"'',
      ''else'',
      ''  echo "wait-db: prewarm unavailable or failed after $(( $(date +%s) - start ))s; the app pays the cold pages"'',
      ''fi'',
      ''exit 0''])\<close>

text \<open>
  What it does: \<open>ready k\<close> is the answer of the poll after \<open>5 * k\<close> seconds. The loop returns the
  length of the run of good outs it stopped with, and the counter \<open>i\<close>; \<open>warmed\<close> says whether
  the prewarming succeeded and \<open>took\<close> how long it took.
\<close>

function wait_db_loop :: "nat \<Rightarrow> (nat \<Rightarrow> bool) \<Rightarrow> nat \<Rightarrow> nat \<Rightarrow> nat \<times> nat" where
  "wait_db_loop timeout ready k ok =
     (if 5 * k < timeout then
        if ready k then
          (if ok + 1 \<ge> 6 then (ok + 1, 5 * k) else wait_db_loop timeout ready (k + 1) (ok + 1))
        else wait_db_loop timeout ready (k + 1) 0
      else (ok, 5 * k))"
  by pat_completeness auto
termination
  by (relation "measure (\<lambda>(timeout, _, k, _). timeout - 5 * k)") auto

declare wait_db_loop.simps [simp del]

definition run_wait_db :: "nat \<Rightarrow> (nat \<Rightarrow> bool) \<Rightarrow> bool \<Rightarrow> nat \<Rightarrow> int \<times> string" where
  "run_wait_db timeout ready warmed took =
     (let (ok, i) = wait_db_loop timeout ready 0 0 in
      if ok < 6 then (1, ''wait-db: database not stable after '' @ nat_digits timeout @ ''s'' @ newline)
      else (0, ''wait-db: database accepted 6 consecutive checks after '' @ nat_digits i @ ''s'' @ newline @
             (if warmed then ''wait-db: database warmed in '' @ nat_digits took @ ''s'' @ newline
              else ''wait-db: prewarm unavailable or failed after '' @ nat_digits took
                   @ ''s; the app pays the cold pages'' @ newline)))"

subsection \<open>The readiness poll\<close>

definition migrationProbeScript :: string where
  \<open>migrationProbeScript = concat (map (\<lambda>line. line @ newline)
     [''set -u'',
      ''i=0'',
      ''out=""'',
      ''while [ "$i" -lt "$PROBE_TIMEOUT" ]; do'',
      ''  out=$(curl -sS -m 5 -w '' @ apos @ [CHR 0x5C] @ ''nPROBE_HTTP=%{http_code}'' @ apos
        @ '' "http://127.0.0.1:${PROBE_PORT}${PROBE_PATH}" 2>&1) || true'',
      ''  code=$(printf '' @ apos @ ''%s'' @ [CHR 0x5C] @ ''n'' @ apos @ '' "$out" | sed -n '' @ apos
        @ ''s/^PROBE_HTTP=//p'' @ apos @ '' | tail -n 1)'',
      ''  case "$code" in'',
      ''    2*)'',
      ''      if [ -z "$PROBE_EXPECT" ] || printf '' @ apos @ ''%s'' @ apos
        @ '' "$out" | grep -qF -- "$PROBE_EXPECT"; then'',
      ''        printf '' @ apos @ ''%s'' @ [CHR 0x5C] @ ''n'' @ apos @ '' "$out"'',
      ''        echo "probe: ready after ${i}s"'',
      ''        exit 0'',
      ''      fi'',
      ''      ;;'',
      ''  esac'',
      ''  i=$((i + 2))'',
      ''  sleep 2'',
      ''done'',
      ''printf '' @ apos @ ''%s'' @ [CHR 0x5C] @ ''n'' @ apos @ '' "$out"'',
      ''echo "probe: ${PROBE_PATH} not ready after ${PROBE_TIMEOUT}s"'',
      ''exit 1''])\<close>

text \<open>
  What it does: \<open>outs k\<close> is what \<open>curl\<close> printed in the attempt after \<open>2 * k\<close> seconds (the body,
  its own error text, and the \<open>PROBE_HTTP=\<close> line of \<open>-w\<close>). \<open>split_lines\<close> is a text's lines;
  \<open>grep_fixed\<close> is \<open>grep -F\<close>: some line contains some line of the pattern.
\<close>

fun split_lines :: "string \<Rightarrow> string list" where
  "split_lines [] = [[]]"
| "split_lines (c # cs) =
     (if c = CHR 0x0A then [] # split_lines cs
      else case split_lines cs of [] \<Rightarrow> [[c]] | l # ls \<Rightarrow> (c # l) # ls)"

definition strip_newlines :: "string \<Rightarrow> string" where
  "strip_newlines s = rev (dropWhile (\<lambda>c. c = CHR 0x0A) (rev s))"

definition probe_code :: "string \<Rightarrow> string" where
  "probe_code out =
     (case filter (\<lambda>l. has_prefix l ''PROBE_HTTP='') (split_lines out) of
        [] \<Rightarrow> []
      | l # ls \<Rightarrow> drop 11 (last (l # ls)))"

definition grep_fixed :: "string \<Rightarrow> string \<Rightarrow> bool" where
  "grep_fixed out pat \<longleftrightarrow>
     out \<noteq> [] \<and> list_ex (\<lambda>l. list_ex (str_contains l) (split_lines pat)) (split_lines out)"

definition answer_ready :: "string \<Rightarrow> string \<Rightarrow> bool" where
  "answer_ready expect out \<longleftrightarrow>
     has_prefix (probe_code out) ''2'' \<and> (expect = [] \<or> grep_fixed out expect)"

function migration_probe_loop ::
  "nat \<Rightarrow> string \<Rightarrow> string \<Rightarrow> (nat \<Rightarrow> string) \<Rightarrow> nat \<Rightarrow> string \<Rightarrow> int \<times> string" where
  "migration_probe_loop timeout path expect outs k out =
     (if 2 * k < timeout then
        let out = strip_newlines (outs k) in
        if answer_ready expect out
        then (0, out @ newline @ ''probe: ready after '' @ nat_digits (2 * k) @ ''s'' @ newline)
        else migration_probe_loop timeout path expect outs (k + 1) out
      else (1, out @ newline @ ''probe: '' @ path @ '' not ready after '' @ nat_digits timeout @ ''s'' @ newline))"
  by pat_completeness auto
termination
  by (relation "measure (\<lambda>(timeout, _, _, _, k, _). timeout - 2 * k)") auto

declare migration_probe_loop.simps [simp del]

definition run_migration_probe ::
  "nat \<Rightarrow> string \<Rightarrow> string \<Rightarrow> (nat \<Rightarrow> string) \<Rightarrow> int \<times> string" where
  "run_migration_probe timeout path expect outs = migration_probe_loop timeout path expect outs 0 []"

subsection \<open>What the scripts decide\<close>

text \<open>The gate opens exactly when six polls in a row were good within the budget.\<close>

definition six_in_a_row :: "nat \<Rightarrow> (nat \<Rightarrow> bool) \<Rightarrow> bool" where
  "six_in_a_row timeout ready \<longleftrightarrow> (\<exists>k. 5 * (k + 5) < timeout \<and> (\<forall>j<6. ready (k + j)))"

lemma wait_db_loop_ok:
  assumes "ok < 6" and "ok \<le> k" and "\<forall>j<ok. ready (k - ok + j)"
  shows "6 \<le> fst (wait_db_loop timeout ready k ok) \<longleftrightarrow>
    (\<exists>m\<ge>k - ok. 5 * (m + 5) < timeout \<and> (\<forall>j<6. ready (m + j)))"
  using assms
proof (induction timeout ready k ok rule: wait_db_loop.induct)
  case (1 timeout ready k ok)
  let ?R = "\<lambda>a. \<exists>m\<ge>a. 5 * (m + 5) < timeout \<and> (\<forall>j<6. ready (m + j))"
  consider (late) "timeout \<le> 5 * k" | (bad) "5 * k < timeout" "\<not> ready k"
    | (hit) "5 * k < timeout" "ready k" "ok = 5" | (good) "5 * k < timeout" "ready k" "ok < 5"
    using 1(3) by linarith
  then show ?case
  proof cases
    case late
    have "\<not> ?R (k - ok)"
    proof
      assume "?R (k - ok)"
      then obtain m where m: "m \<ge> k - ok" "5 * (m + 5) < timeout" by blast
      have "k \<le> m + 5" using m(1) 1(3) by simp
      with late m(2) show False by presburger
    qed
    then show ?thesis using late 1(3) by (subst wait_db_loop.simps) simp
  next
    case bad
    have "?R (k - ok) \<longleftrightarrow> ?R (k + 1)"
    proof
      assume "?R (k - ok)"
      then obtain m where m: "m \<ge> k - ok" "5 * (m + 5) < timeout" "\<forall>j<6. ready (m + j)" by blast
      have "\<not> m \<le> k"
      proof
        assume "m \<le> k"
        then have "k - m < 6" "m + (k - m) = k" using m(1) 1(3,4) \<open>m \<le> k\<close> by simp_all
        with m(3) bad(2) show False by metis
      qed
      then have "k + 1 \<le> m" by simp
      with m show "?R (k + 1)" by blast
    next
      assume "?R (k + 1)"
      then obtain m where m: "m \<ge> k + 1" "5 * (m + 5) < timeout" "\<forall>j<6. ready (m + j)" by blast
      then have "k - ok \<le> m" by linarith
      with m show "?R (k - ok)" by blast
    qed
    moreover have "6 \<le> fst (wait_db_loop timeout ready (k + 1) 0) \<longleftrightarrow> ?R (k + 1)"
      using 1(2) [OF bad] by simp
    ultimately show ?thesis using bad by (subst wait_db_loop.simps) simp
  next
    case hit
    have "\<forall>j<6. ready (k - 5 + j)"
    proof (intro allI impI)
      fix j :: nat assume "j < 6"
      then consider "j < 5" | "j = 5" by linarith
      then show "ready (k - 5 + j)" using 1(4,5) hit by cases auto
    qed
    moreover have "5 * (k - 5 + 5) < timeout" using hit 1(4) by simp
    ultimately have "?R (k - ok)" unfolding hit(3) by blast
    then show ?thesis using hit by (subst wait_db_loop.simps) simp
  next
    case good
    have "\<forall>j<ok + 1. ready (k + 1 - (ok + 1) + j)"
    proof (intro allI impI)
      fix j assume "j < ok + 1"
      then consider "j < ok" | "j = ok" by linarith
      then show "ready (k + 1 - (ok + 1) + j)" using 1(4,5) good by cases auto
    qed
    then have "6 \<le> fst (wait_db_loop timeout ready (k + 1) (ok + 1)) \<longleftrightarrow> ?R (k - ok)"
      using 1(1) [OF good(1,2)] good(3) 1(4) by simp
    then show ?thesis using good by (subst wait_db_loop.simps) simp
  qed
qed

text \<open>The exit code is the verdict: 0 when some attempt in time was ready, 1 otherwise.\<close>

lemma migration_probe_loop_exit:
  "fst (migration_probe_loop timeout path expect outs k out) =
     (if \<exists>m\<ge>k. 2 * m < timeout \<and> answer_ready expect (strip_newlines (outs m)) then 0 else 1)"
proof (induction timeout path expect outs k out rule: migration_probe_loop.induct)
  case (1 timeout path expect outs k out)
  let ?R = "\<lambda>a. \<exists>m\<ge>a. 2 * m < timeout \<and> answer_ready expect (strip_newlines (outs m))"
  show ?case
  proof (cases "2 * k < timeout")
    case True
    show ?thesis
    proof (cases "answer_ready expect (strip_newlines (outs k))")
      case ready: True
      then have "?R k" using True by blast
      then show ?thesis using True ready by (subst migration_probe_loop.simps) (simp add: Let_def)
    next
      case False
      have "?R k \<longleftrightarrow> ?R (k + 1)"
        using False by (metis Suc_eq_plus1 Suc_leI le_neq_implies_less le_SucI Suc_leD)
      then show ?thesis
        using 1 [OF True refl False] True False by (subst migration_probe_loop.simps) (simp add: Let_def)
    qed
  next
    case False
    then have "\<not> ?R k" by (meson le_less_trans linorder_not_less mult_le_mono2)
    then show ?thesis using False by (subst migration_probe_loop.simps) simp
  qed
qed

lemma run_wait_db_exit:
  "fst (run_wait_db timeout ready warmed took) = (if six_in_a_row timeout ready then 0 else 1)"
  using wait_db_loop_ok [of 0 0 ready timeout]
  by (auto simp: run_wait_db_def six_in_a_row_def split: prod.split)

lemma run_migration_probe_exit:
  "fst (run_migration_probe timeout path expect outs) =
     (if \<exists>m. 2 * m < timeout \<and> answer_ready expect (strip_newlines (outs m)) then 0 else 1)"
  by (simp add: run_migration_probe_def migration_probe_loop_exit)

subsection \<open>The Job\<close>

definition migrationProbeJobName :: "string \<Rightarrow> string" where
  "migrationProbeJobName cid = ''migration-probe-'' @ cid"

definition probeTimeout :: "mig_probe option \<Rightarrow> duration" where
  "probeTimeout p =
     (case p of
        None \<Rightarrow> 600 * second
      | Some p \<Rightarrow> if mp_timeout p \<le> 0 then 600 * second else dur_seconds (mp_timeout p))"

text \<open>\<open>int64(d.Seconds())\<close> of a duration of whole seconds, and truncated otherwise.\<close>

definition whole_seconds :: "duration \<Rightarrow> int" where
  "whole_seconds d = sgn d * (\<bar>d\<bar> div second)"

definition database_url_env :: "string \<Rightarrow> env_var" where
  "database_url_env secretName =
     \<lparr>ev_name = ''DATABASE_URL'', ev_value = [], ev_from = Some (SecretKeyRef secretName ''DATABASE_URL'')\<rparr>"

definition app_env :: "mig_probe \<Rightarrow> string \<Rightarrow> env_var list" where
  "app_env p secretName =
     database_url_env secretName
     # map (\<lambda>k. plain_env k (sget (mp_env p) k))
         (filter (\<lambda>k. k \<noteq> ''DATABASE_URL'') (sort (map fst (mp_env p))))"

definition confined_context :: "bool option \<Rightarrow> bool option \<Rightarrow> int option \<Rightarrow> security_context" where
  "confined_context readOnly nonRoot uid =
     \<lparr>sc_allow_privilege_escalation = Some False, sc_read_only_root = readOnly,
      sc_run_as_non_root = nonRoot, sc_run_as_user = uid, sc_drop = [''ALL''],
      sc_seccomp = Some ''RuntimeDefault''\<rparr>"

definition migration_labels :: "migration_check \<Rightarrow> smap" where
  "migration_labels mc =
     [(MigrationJobLabel, mc_name mc), (''preview.homelab.io/type'', ''migration-probe''),
      (''app.kubernetes.io/managed-by'', ''homelab-preview-operator'')]"

definition wait_db_container :: "string \<Rightarrow> string \<Rightarrow> container" where
  "wait_db_container pgImage secretName =
     \<lparr>c_name = ''wait-db'', c_image = pgImage, c_pull_policy = [], c_restart_policy = None,
      c_command = [''/bin/sh'', ''-c'', waitDBScript], c_args = [],
      c_env = [database_url_env secretName,
               plain_env ''WAIT_DB_TIMEOUT'' (itoa (whole_seconds dbSettleGrace))],
      c_security = Some (confined_context (Some True) (Some True) (Some 26)),
      c_requests = Some \<lparr>res_cpu = ''10m'', res_memory = ''32Mi''\<rparr>,
      c_limits = Some \<lparr>res_cpu = ''100m'', res_memory = ''128Mi''\<rparr>\<rparr>"

definition app_container :: "mig_probe \<Rightarrow> string \<Rightarrow> container" where
  "app_container p secretName =
     \<lparr>c_name = ''app'', c_image = mp_image p, c_pull_policy = ''Always'', c_restart_policy = Some ''Always'',
      c_command = mp_command p, c_args = mp_args p, c_env = app_env p secretName,
      c_security = Some (confined_context None None (mp_run_as_user p)),
      c_requests = Some \<lparr>res_cpu = ''200m'', res_memory = ''512Mi''\<rparr>,
      c_limits = Some \<lparr>res_cpu = ''2'', res_memory = ''2Gi''\<rparr>\<rparr>"

definition mig_probe_container :: "string \<Rightarrow> mig_probe \<Rightarrow> container" where
  "mig_probe_container probeImage p =
     \<lparr>c_name = ''probe'', c_image = probeImage, c_pull_policy = [], c_restart_policy = None,
      c_command = [''/bin/sh'', ''-c'', migrationProbeScript], c_args = [],
      c_env = [plain_env ''PROBE_PORT'' (itoa (if mp_port p \<le> 0 then 3000 else mp_port p)),
               plain_env ''PROBE_PATH'' (if mp_ready_path p = [] then ''/'' else mp_ready_path p),
               plain_env ''PROBE_EXPECT'' (mp_expect p),
               plain_env ''PROBE_TIMEOUT'' (itoa (whole_seconds (probeTimeout (Some p))))],
      c_security = Some (confined_context (Some True) (Some True) (Some 100)),
      c_requests = Some \<lparr>res_cpu = ''10m'', res_memory = ''32Mi''\<rparr>,
      c_limits = Some \<lparr>res_cpu = ''100m'', res_memory = ''64Mi''\<rparr>\<rparr>"

definition probe_job_deadline :: "mig_probe \<Rightarrow> int" where
  "probe_job_deadline p =
     whole_seconds (wrap64 (probeTimeout (Some p) + probePullGrace + dbSettleGrace + probeJobSlack))"

definition migrationProbeJob :: "string \<Rightarrow> migration_check \<Rightarrow> mig_probe \<Rightarrow> string \<Rightarrow> job" where
  "migrationProbeJob probeImage mc p cid =
     (let secretName = mst_secret_name (mc_status mc);
          pgImage = (if mst_clone_image (mc_status mc) = [] then defaultPgReadyImage
                     else mst_clone_image (mc_status mc))
      in \<lparr>job_name = migrationProbeJobName cid, job_namespace = mc_namespace mc,
          job_labels = migration_labels mc, job_deleting = False, job_backoff_limit = Some 0,
          job_active_deadline = Some (probe_job_deadline p), job_ttl = Some checkJobTTL,
          job_pod_labels = migration_labels mc,
          job_pod = \<lparr>ps_restart_policy = ''Never'', ps_automount_token = Some False,
            ps_security = Some \<lparr>psc_run_as_non_root = Some True, psc_run_as_user = None,
              psc_seccomp = Some ''RuntimeDefault''\<rparr>,
            ps_init_containers = [wait_db_container pgImage secretName, app_container p secretName],
            ps_containers = [mig_probe_container probeImage p]\<rparr>,
          job_conditions = [], job_succeeded = 0, job_failed = 0\<rparr>)"

subsection \<open>Creating and deleting it\<close>

text \<open>\<open>DeleteProbeJob\<close> in the log is a deletion with background propagation.\<close>

record probe_wait =
  pw_message :: string
  pw_requeue :: duration

text \<open>An error, or a state to publish (\<open>Inl\<close>), or the Job (\<open>Inr\<close>).\<close>

definition ensureProbeJob :: "'w cluster_api \<Rightarrow> job \<Rightarrow> ('w, (probe_wait + job) result) cprog" where
  "ensureProbeJob api desired =
     (let ns = job_namespace desired; name = job_name desired in
      do {
        nsr \<leftarrow> operate (cl_get_ns api ns) (GetNS ns);
        case nsr of
          Inl err \<Rightarrow> State_Monad.return (Inl (errorf (''read namespace '' @ ns @ '': '') err))
        | Inr nso \<Rightarrow>
            if sget (ns_labels nso) MigrationCheckJobsLabel \<noteq> ''true'' then
              State_Monad.return (Inl (Plain (''refusing to create job '' @ job_ref desired @
                '': namespace is not labelled '' @ MigrationCheckJobsLabel @ ''=true'')))
            else do {
              got \<leftarrow> operate (cl_get_job api ns name) (GetProbeJob ns name);
              case got of
                Inr existing \<Rightarrow>
                  State_Monad.return (Inr
                    (if job_deleting existing then
                       Inl \<lparr>pw_message = ''waiting for the previous probe job to finish terminating'',
                            pw_requeue = 5 * second\<rparr>
                     else Inr existing))
              | Inl err \<Rightarrow>
                  if \<not> IsNotFound err then
                    State_Monad.return (Inl (errorf (''get job '' @ job_ref desired @ '': '') err))
                  else do {
                    c \<leftarrow> operate (cl_create_job api desired) (CreateProbeJob desired);
                    case c of
                      Inr stored \<Rightarrow> State_Monad.return (Inr (Inr stored))
                    | Inl cerr \<Rightarrow>
                        if IsAlreadyExists cerr then do {
                          again \<leftarrow> operate (cl_get_job api ns name) (GetProbeJob ns name);
                          State_Monad.return
                            (case again of
                               Inl gerr \<Rightarrow> Inl (errorf ''re-get job after AlreadyExists: '' gerr)
                             | Inr j \<Rightarrow> Inr (Inr j))
                        }
                        else if classifyForbidden cerr = forbiddenQuota then
                          State_Monad.return (Inr (Inl
                            \<lparr>pw_message = ''quota refused the probe job: '' @ err_text cerr,
                             pw_requeue = 15 * second\<rparr>))
                        else
                          State_Monad.return (Inl (errorf (''create job '' @ job_ref desired @ '': '') cerr))
                  }
            }
      })"

text \<open>Why a pod's containers are stuck before they run, when they are.\<close>

definition waiting_failure :: "container_status \<Rightarrow> (mc_reason \<times> string) option" where
  "waiting_failure cs =
     (case cst_waiting cs of
        None \<Rightarrow> None
      | Some w \<Rightarrow>
          if w_reason w \<in> set [''ImagePullBackOff'', ''ErrImagePull'', ''InvalidImageName'', ''ErrImageNeverPull'']
          then Some (MigrationReasonImageUnavailable, w_reason w @ '': '' @ w_message w)
          else if w_reason w \<in> set [''CreateContainerConfigError'', ''CreateContainerError'']
          then Some (MigrationReasonPodNotStarted, w_reason w @ '' ('' @ cst_name cs @ ''): '' @ w_message w)
          else None)"

fun first_failure :: "container_status list \<Rightarrow> (mc_reason \<times> string) option" where
  "first_failure [] = None"
| "first_failure (cs # rest) =
     (case waiting_failure cs of Some f \<Rightarrow> Some f | None \<Rightarrow> first_failure rest)"

definition probeWaitingFailure ::
  "'w cluster_api \<Rightarrow> string \<Rightarrow> string \<Rightarrow> ('w, (mc_reason \<times> string) option) cprog" where
  "probeWaitingFailure api ns jname =
     do {
       r \<leftarrow> operate (cl_list_pods api ns jname) (ListJobPods ns jname);
       State_Monad.return
         (case r of
            Inl _ \<Rightarrow> None
          | Inr pods \<Rightarrow> first_failure (concat (map (\<lambda>p. pod_init_statuses p @ pod_statuses p) pods)))
     }"

definition probe_job_name :: "migration_check \<Rightarrow> string \<Rightarrow> string" where
  "probe_job_name mc cid =
     (if mst_probe_job (mc_status mc) = [] then migrationProbeJobName cid else mst_probe_job (mc_status mc))"

definition deleteProbeJob :: "'w cluster_api \<Rightarrow> migration_check \<Rightarrow> string \<Rightarrow> ('w, goerr option) cprog" where
  "deleteProbeJob api mc cid =
     (let name = probe_job_name mc cid in
      do {
        d \<leftarrow> operate (cl_delete_job api (mc_namespace mc) name) (DeleteProbeJob (mc_namespace mc) name);
        State_Monad.return
          (case d of
             None \<Rightarrow> None
           | Some err \<Rightarrow>
               if IsNotFound err \<or> namespaceUnavailable err then None
               else Some (errorf (''delete probe job '' @ mc_namespace mc @ ''/'' @ name @ '': '') err))
      })"

end
