(* ===== verification/Migration_Report.thy ===== *)
theory Migration_Report
  imports Cluster
begin

section \<open>Publishing the verdict: internal/controller/migrationcheck_report.go\<close>

text \<open>
  The check run a MigrationCheck's state maps to, its publication, and the cancellation of a run
  that will never get a verdict. The reporter is an operation of the environment.
\<close>

abbreviation checkRunTextBytes :: nat where "checkRunTextBytes \<equiv> 8192"

definition splitDetail :: "string \<Rightarrow> string \<times> string" where
  "splitDetail msg =
     (let m = trim_space msg in
      case index_byte m (CHR 0x0A) of
        Some i \<Rightarrow> (take i m, trim_space (drop (i + 1) m))
      | None \<Rightarrow> (m, []))"

fun run_outcome :: "mc_phase \<Rightarrow> string \<times> string" where
  "run_outcome MigrationCheckPassed = (''completed'', ''success'')"
| "run_outcome MigrationCheckFailed = (''completed'', ''failure'')"
| "run_outcome MigrationCheckExpired = (''completed'', ''timed_out'')"
| "run_outcome _ = (''in_progress'', [])"

definition run_title_of :: "mc_status_t \<Rightarrow> string" where
  "run_title_of st =
     (if mc_reason_text (mst_reason st) \<noteq> [] then mc_reason_text (mst_reason st)
      else if mc_phase_text (mst_phase st) \<noteq> [] then mc_phase_text (mst_phase st)
      else ''Pending'')"

definition run_summary_of :: "migration_check \<Rightarrow> string \<Rightarrow> string" where
  "run_summary_of mc head =
     (if head = [] then mc_phase_text (mst_phase (mc_status mc)) else head)
     @ (case mcs_probe (mc_spec mc) of
          None \<Rightarrow> []
        | Some p \<Rightarrow> newline @ newline @ ''Image: `'' @ mp_image p @ ''`'')
     @ (if mst_clone_ns (mc_status mc) = [] then []
        else newline @ ''Clone: `'' @ mst_clone_ns (mc_status mc) @ ''`'')"

definition run_text_of :: "string \<Rightarrow> string" where
  "run_text_of tail =
     (if tail = [] then []
      else ''```'' @ newline
        @ (if length tail > checkRunTextBytes then drop (length tail - checkRunTextBytes) tail else tail)
        @ newline @ ''```'')"

definition checkRunFor :: "migration_check \<Rightarrow> mig_report \<Rightarrow> instant \<Rightarrow> check_run" where
  "checkRunFor mc rep now =
     (let st = mc_status mc;
          (status, conclusion) = run_outcome (mst_phase st);
          (head, tail) = splitDetail (mst_message st)
      in \<lparr>run_name = (if mrp_name rep = [] then ''migration-check'' else mrp_name rep),
          run_head_sha = mrp_revision rep, run_status = status, run_conclusion = conclusion,
          run_details_url = [], run_started = mst_started st,
          run_completed = (if status = ''completed''
                           then (case mst_completed st of Some t \<Rightarrow> Some t | None \<Rightarrow> Some now) else None),
          run_title = run_title_of st, run_summary = run_summary_of mc head, run_text = run_text_of tail\<rparr>)"

definition reported :: "migration_check \<Rightarrow> int \<Rightarrow> migration_check" where
  "reported mc cid =
     mc\<lparr>mc_status := (mc_status mc)\<lparr>mst_check_run := cid, mst_reported := mst_phase (mc_status mc)\<rparr>\<rparr>"

definition publishReport :: "'w cluster_api \<Rightarrow> migration_check \<Rightarrow> ('w, goerr option) cprog" where
  "publishReport api mc =
     (case (cl_report api, mcs_report (mc_spec mc)) of
        (Some report, Some rep) \<Rightarrow>
          if mst_reported (mc_status mc) = mst_phase (mc_status mc) then State_Monad.return None
          else do {
            now \<leftarrow> operate (cl_now api) ClockNow;
            r \<leftarrow> operate (report rep (mst_check_run (mc_status mc)) (checkRunFor mc rep now))
                  (Report rep (mst_check_run (mc_status mc)) (checkRunFor mc rep now));
            case r of
              Inl err \<Rightarrow> State_Monad.return (Some err)
            | Inr cid \<Rightarrow> do {
                u \<leftarrow> operate (cl_status_mc api (reported mc cid)) (StatusMC (reported mc cid));
                State_Monad.return (case u of Inl err \<Rightarrow> Some err | Inr _ \<Rightarrow> None)
              }
          }
      | _ \<Rightarrow> State_Monad.return None)"

definition cancelled_run :: "check_run \<Rightarrow> instant \<Rightarrow> check_run" where
  "cancelled_run run now =
     run\<lparr>run_status := ''completed'', run_conclusion := ''cancelled'', run_completed := Some now,
         run_title := ''Cancelled'',
         run_summary := ''MigrationCheck removed before a verdict (pull request closed, superseded, or unlabelled).''\<rparr>"

definition reportCancelled :: "'w cluster_api \<Rightarrow> migration_check \<Rightarrow> ('w, unit) cprog" where
  "reportCancelled api mc =
     (case (cl_report api, mcs_report (mc_spec mc)) of
        (Some report, Some rep) \<Rightarrow>
          if mst_check_run (mc_status mc) = 0 \<or> mc_terminal (mst_reported (mc_status mc))
          then State_Monad.return ()
          else do {
            t \<leftarrow> operate (cl_now api) ClockNow;
            now \<leftarrow> operate (cl_now api) ClockNow;
            operate (report rep (mst_check_run (mc_status mc)) (cancelled_run (checkRunFor mc rep t) now))
              (Report rep (mst_check_run (mc_status mc)) (cancelled_run (checkRunFor mc rep t) now));
            State_Monad.return ()
          }
      | _ \<Rightarrow> State_Monad.return ())"

end
