(* ===== verification/Net_Url.thy ===== *)
theory Net_Url
  imports Prelude
begin

section \<open>URL escaping\<close>

text \<open>
  The part of \<open>net/url\<close> that \<open>buildDatabaseURL\<close> uses: \<open>shouldEscape\<close> in the path, userinfo
  and host modes, \<open>escape\<close>, and \<open>URL.String\<close> for a URL with a user and password, a host,
  a path that starts with a slash and a raw query. \<open>unescape\<close> is the reader's side.
\<close>

datatype url_mode = EncodePath | EncodeUserPassword | EncodeHost

definition unreserved_chars :: string where
  "unreserved_chars = upper_letters @ lower_letters @ ''0123456789-_.~''"

definition url_kept :: "url_mode \<Rightarrow> string" where
  "url_kept mode =
     (case mode of
        EncodePath \<Rightarrow> ''$&+,/:;=@''
      | EncodeUserPassword \<Rightarrow> ''$&+,;=''
      | EncodeHost \<Rightarrow> ''!$&()*+,;=:[]<>'' @ [CHR 0x27, CHR 0x22])"

definition should_escape :: "char \<Rightarrow> url_mode \<Rightarrow> bool" where
  "should_escape c mode \<longleftrightarrow> c \<notin> set unreserved_chars \<and> c \<notin> set (url_kept mode)"

definition upper_hex :: "nat \<Rightarrow> char" where
  "upper_hex d = ''0123456789ABCDEF'' ! d"

definition escape_char :: "url_mode \<Rightarrow> char \<Rightarrow> string" where
  "escape_char mode c =
     (if should_escape c mode
      then let n = (of_char c :: nat) in [CHR ''%'', upper_hex (n div 16), upper_hex (n mod 16)]
      else [c])"

definition url_escape :: "string \<Rightarrow> url_mode \<Rightarrow> string" where
  "url_escape s mode = concat (map (escape_char mode) s)"

definition url_string ::
  "string \<Rightarrow> string \<Rightarrow> string \<Rightarrow> string \<Rightarrow> string \<Rightarrow> string \<Rightarrow> string" where
  "url_string scheme user pass host path query =
     scheme @ ''://'' @ url_escape user EncodeUserPassword @ '':'' @ url_escape pass EncodeUserPassword
     @ ''@'' @ url_escape host EncodeHost @ url_escape path EncodePath @ ''?'' @ query"

subsection \<open>Reading it back\<close>

definition hex_val :: "char \<Rightarrow> nat option" where
  "hex_val c = index_byte ''0123456789ABCDEF'' c"

fun unescape :: "string \<Rightarrow> string option" where
  "unescape [] = Some []"
| "unescape (c # cs) =
     (if c = CHR ''%'' then
        (case cs of
           h # l # rest \<Rightarrow>
             (case (hex_val h, hex_val l) of
                (Some a, Some b) \<Rightarrow> map_option ((#) (char_of (16 * a + b))) (unescape rest)
              | _ \<Rightarrow> None)
         | _ \<Rightarrow> None)
      else map_option ((#) c) (unescape cs))"

lemma hex_val_upper_hex:
  assumes "n < 16" shows "hex_val (upper_hex n) = Some n"
proof -
  have "\<forall>n\<in>set [0..<16]. hex_val (upper_hex n) = Some n" by code_simp
  then show ?thesis using assms by simp
qed

lemma percent_escaped: "should_escape (CHR ''%'') mode"
  by (cases mode) (simp_all add: should_escape_def unreserved_chars_def url_kept_def)

lemma byte_less: "(of_char c :: nat) < 256"
proof -
  have "(of_char c :: nat) = of_char c mod 256" by simp
  then show ?thesis by (metis mod_less_divisor zero_less_numeral)
qed

lemma unescape_escape_char:
  "unescape (escape_char mode c @ s) = map_option ((#) c) (unescape s)"
proof (cases "should_escape c mode")
  case True
  let ?n = "of_char c :: nat"
  have n: "?n < 256" by (rule byte_less)
  have d: "?n div 16 < 16" "?n mod 16 < 16" using n by (simp_all add: div_less_iff_less_mult)
  have "(16 * (?n div 16) + ?n mod 16) = ?n" by presburger
  then show ?thesis using True d
    by (simp add: escape_char_def Let_def hex_val_upper_hex)
next
  case False
  then have "c \<noteq> CHR ''%''" using percent_escaped by auto
  with False show ?thesis by (simp add: escape_char_def)
qed

text \<open>Escaping loses nothing, in every mode.\<close>

lemma unescape_escape: "unescape (url_escape s mode) = Some s"
  by (induction s) (simp_all add: url_escape_def unescape_escape_char)

lemma set_upper_hex: "n < 16 \<Longrightarrow> upper_hex n \<in> set unreserved_chars"
proof -
  assume "n < 16"
  moreover have "\<forall>n\<in>set [0..<16]. upper_hex n \<in> set unreserved_chars" by code_simp
  ultimately show ?thesis by simp
qed

lemma set_escape_char:
  "d \<in> set (escape_char mode c) \<Longrightarrow>
   d = CHR ''%'' \<or> d \<in> set unreserved_chars \<or> d \<in> set (url_kept mode)"
proof (cases "should_escape c mode")
  case True
  assume d: "d \<in> set (escape_char mode c)"
  have "(of_char c :: nat) < 256" by (rule byte_less)
  then have "upper_hex ((of_char c :: nat) div 16) \<in> set unreserved_chars"
    "upper_hex ((of_char c :: nat) mod 16) \<in> set unreserved_chars"
    by (intro set_upper_hex; simp add: div_less_iff_less_mult)+
  with d True show ?thesis by (auto simp: escape_char_def Let_def)
next
  case False
  assume "d \<in> set (escape_char mode c)"
  with False show ?thesis by (auto simp: escape_char_def should_escape_def)
qed

lemma set_url_escape:
  "d \<in> set (url_escape s mode) \<Longrightarrow>
   d = CHR ''%'' \<or> d \<in> set unreserved_chars \<or> d \<in> set (url_kept mode)"
  unfolding url_escape_def using set_escape_char by fastforce

text \<open>The characters that separate the parts of a URL never occur in an escaped user or password.\<close>

lemma userinfo_separators:
  "CHR '':'' \<notin> set (url_escape s EncodeUserPassword)"
  "CHR ''@'' \<notin> set (url_escape s EncodeUserPassword)"
  "CHR ''/'' \<notin> set (url_escape s EncodeUserPassword)"
  "CHR ''?'' \<notin> set (url_escape s EncodeUserPassword)"
  using set_url_escape [of _ s EncodeUserPassword]
  by (auto simp: unreserved_chars_def url_kept_def)

lemma path_no_query: "CHR ''?'' \<notin> set (url_escape s EncodePath)"
  using set_url_escape [of _ s EncodePath] by (auto simp: unreserved_chars_def url_kept_def)

lemma url_escape_append: "url_escape (a @ b) mode = url_escape a mode @ url_escape b mode"
  by (simp add: url_escape_def)

lemma url_escape_id: "\<forall>c\<in>set s. \<not> should_escape c mode \<Longrightarrow> url_escape s mode = s"
  by (induction s) (auto simp: url_escape_def escape_char_def)

end
