(* ===== verification/Go_Time.thy ===== *)
theory Go_Time
  imports Prelude
begin

section \<open>Printing and rounding durations\<close>

text \<open>\<open>time.Duration.String\<close> and \<open>time.Duration.Round\<close> of the Go standard library.\<close>

text \<open>The fraction of \<open>v\<close> over a power of ten, without trailing zeros.\<close>

definition pad_digits :: "nat \<Rightarrow> nat \<Rightarrow> string" where
  "pad_digits width v = replicate (width - length (nat_digits v)) (CHR ''0'') @ nat_digits v"

definition frac_digits :: "nat \<Rightarrow> nat \<Rightarrow> string" where
  "frac_digits width v =
     (let s = rev (dropWhile (\<lambda>c. c = CHR ''0'') (rev (pad_digits width v)))
      in if v = 0 then [] else CHR ''.'' # s)"

definition dur_string :: "duration \<Rightarrow> string" where
  "dur_string d =
     (let u = nat \<bar>d\<bar>;
          sign = (if d < 0 then ''-'' else []);
          secs = u div 1000000000;
          s = nat_digits (secs mod 60) @ frac_digits 9 (u mod 1000000000) @ ''s'';
          mins = secs div 60;
          hours = mins div 60
      in if u = 0 then ''0s''
         else if u < 1000 then sign @ nat_digits u @ ''ns''
         else if u < 1000000 then
           sign @ nat_digits (u div 1000) @ frac_digits 3 (u mod 1000) @ [CHR 0xC2, CHR 0xB5] @ ''s''
         else if u < 1000000000 then
           sign @ nat_digits (u div 1000000) @ frac_digits 6 (u mod 1000000) @ ''ms''
         else
           sign @ (if hours > 0 then nat_digits hours @ ''h'' else [])
                @ (if mins > 0 then nat_digits (mins mod 60) @ ''m'' else []) @ s)"

text \<open>Rounding half away from zero to a multiple of a positive \<open>m\<close>, saturating.\<close>

definition dur_round :: "duration \<Rightarrow> duration \<Rightarrow> duration" where
  "dur_round d m =
     (let r = \<bar>d\<bar> mod m in
      if m \<le> 0 then d
      else if d < 0 then
        if 2 * r < m then d + r
        else if d - m + r < - (2 ^ 63) then - (2 ^ 63) else d - m + r
      else
        if 2 * r < m then d - r
        else if d + m - r \<ge> 2 ^ 63 then 2 ^ 63 - 1 else d + m - r)"

lemma nat_digits_eval:
  "n < 10 \<Longrightarrow> nat_digits n = [digit_char n]"
  "10 \<le> n \<Longrightarrow> nat_digits n = nat_digits (n div 10) @ [digit_char (n mod 10)]"
  by (subst nat_digits.simps; simp)+

lemma dur_string_examples:
  "dur_string (1500 * second) = ''25m0s''" "dur_string (3600 * second) = ''1h0m0s''"
  "dur_string (30 * second) = ''30s''"
  unfolding dur_string_def Let_def
  by (simp_all add: frac_digits_def nat_digits_eval digit_char_def)

lemma dur_round_multiple:
  assumes "0 < m" and "0 \<le> d" and "d + m < 2 ^ 63"
  shows "m dvd dur_round d m" and "2 * \<bar>dur_round d m - d\<bar> \<le> m"
proof -
  let ?r = "d mod m"
  have r: "0 \<le> ?r" "?r < m" using assms(1) by simp_all
  have dvd: "m dvd d - ?r" by (rule dvd_minus_mod)
  have "d + m - ?r = (d - ?r) + m" by simp
  then have dvd2: "m dvd d + m - ?r" using dvd by (metis dvd_add_triv_right_iff)
  have e: "dur_round d m = (if 2 * ?r < m then d - ?r else d + m - ?r)"
    using assms r by (simp add: dur_round_def Let_def)
  show "m dvd dur_round d m" using dvd dvd2 e by simp
  show "2 * \<bar>dur_round d m - d\<bar> \<le> m" using r e by (simp split: if_splits)
qed

end
