(* ===== verification/Migration_Check.thy ===== *)
theory Migration_Check
  imports Migration_Jobs Migration_Report Clone Net_Url Go_Time Preview_Checks
begin

section \<open>The MigrationCheck reconciler: internal/controller/migrationcheck_controller.go\<close>

text \<open>
  One pass over a MigrationCheck: provisioning the clone, waiting for it, starting and judging the
  probe, publishing and tearing down. Every routine returns the pass's result; a write returns the
  object as stored. A nil dereference is a panic, which controller-runtime turns into an error of
  the pass.
\<close>

definition migrationCheckFinalizer :: string where
  "migrationCheckFinalizer = ''preview.homelab.io/migration-check''"

abbreviation warmSnapshotMaxAge :: duration where "warmSnapshotMaxAge \<equiv> 12 * hour"
abbreviation maxMigrationMessage :: nat where "maxMigrationMessage \<equiv> 4096"

subsection \<open>Names, budgets and deadlines\<close>

definition migCheckID :: "migration_check \<Rightarrow> string" where
  "migCheckID mc =
     (let cid = take 12 (replace_all (mc_uid mc) ''-'' []) in
      if cid = [] then ''n'' @ mc_name mc else cid)"

definition clone_namespace_name :: "migration_check \<Rightarrow> string" where
  "clone_namespace_name mc = ''migration-check-'' @ mcs_app (mc_spec mc) @ ''-'' @ migCheckID mc"

definition mc_ttl :: "migration_check \<Rightarrow> duration" where
  "mc_ttl mc = dur_seconds (if mcs_ttl (mc_spec mc) \<le> 0 then 3600 else mcs_ttl (mc_spec mc))"

text \<open>Whether the TTL has passed and, if not, what remains.\<close>

definition ttl_left :: "migration_check \<Rightarrow> instant \<Rightarrow> bool \<times> duration" where
  "ttl_left mc now =
     (let remaining = time_sub (mc_created mc + mc_ttl mc) now in
      if remaining \<le> 0 then (True, 0) else (False, remaining))"

definition ttlExpired :: "'w cluster_api \<Rightarrow> migration_check \<Rightarrow> ('w, bool \<times> duration) cprog" where
  "ttlExpired api mc =
     do { now \<leftarrow> operate (cl_now api) ClockNow; State_Monad.return (ttl_left mc now) }"

definition readyTimeout :: "migration_check \<Rightarrow> duration" where
  "readyTimeout mc =
     dur_seconds (if mcs_ready_timeout (mc_spec mc) \<le> 0 then 1500 else mcs_ready_timeout (mc_spec mc))"

definition ready_overdue :: "migration_check \<Rightarrow> instant \<Rightarrow> bool" where
  "ready_overdue mc now \<longleftrightarrow>
     now > (case mst_started (mc_status mc) of Some t \<Rightarrow> t | None \<Rightarrow> mc_created mc) + readyTimeout mc"

definition probeBudget :: "mig_probe option \<Rightarrow> duration" where
  "probeBudget p = wrap64 (probeTimeout p + probePullGrace + dbSettleGrace)"

definition probe_overdue :: "migration_check \<Rightarrow> instant \<Rightarrow> bool" where
  "probe_overdue mc now \<longleftrightarrow>
     (case mst_probe_started (mc_status mc) of
        None \<Rightarrow> False | Some t \<Rightarrow> now > t + probeBudget (mcs_probe (mc_spec mc)))"

definition probeDeadlinePassed :: "'w cluster_api \<Rightarrow> migration_check \<Rightarrow> ('w, bool) cprog" where
  "probeDeadlinePassed api mc =
     (if mst_probe_started (mc_status mc) = None then State_Monad.return False
      else do { now \<leftarrow> operate (cl_now api) ClockNow; State_Monad.return (probe_overdue mc now) })"

definition probePath :: "migration_check \<Rightarrow> string" where
  "probePath mc =
     (case mcs_probe (mc_spec mc) of
        None \<Rightarrow> ''/'' | Some p \<Rightarrow> if mp_ready_path p = [] then ''/'' else mp_ready_path p)"

definition truncateMigrationMessage :: "string \<Rightarrow> string" where
  "truncateMigrationMessage s =
     (if length s \<le> maxMigrationMessage then s else TruncateLogTail s (int maxMigrationMessage))"

definition buildDatabaseURL :: "string \<Rightarrow> string \<Rightarrow> string \<Rightarrow> string \<Rightarrow> string" where
  "buildDatabaseURL user pass host db =
     url_string ''postgres'' user pass (host @ '':5432'') (''/'' @ db) ''sslmode=disable''"

definition cnpgPhaseHealthy :: string where
  "cnpgPhaseHealthy = ''Cluster in healthy state''"

definition cnpgClusterSettled :: "klib \<Rightarrow> uobj \<Rightarrow> bool \<times> string" where
  "cnpgClusterSettled lib cluster =
     (let ready = lib_nested_int64 lib (u_object cluster) [''status'', ''readyInstances''];
          phase = lib_nested_string lib (u_object cluster) [''status'', ''phase'']
      in (ready \<ge> 1 \<and> phase = cnpgPhaseHealthy,
          ''readyInstances='' @ itoa ready @ '' phase='' @ go_quote phase))"

definition endpointsReady :: "endpoints \<Rightarrow> bool" where
  "endpointsReady eps \<longleftrightarrow> list_ex (\<lambda>addresses. length addresses > 0) eps"

subsection \<open>Finishing\<close>

definition migration_panic :: reconcile_result where
  "migration_panic = (res_done,
     Some (Plain ''panic: runtime error: invalid memory address or nil pointer dereference [recovered]''))"

definition finished :: "migration_check \<Rightarrow> mc_phase \<Rightarrow> mc_reason \<Rightarrow> string \<Rightarrow> instant \<Rightarrow> migration_check" where
  "finished mc phase reason message now =
     mc\<lparr>mc_status := (mc_status mc)\<lparr>mst_phase := phase, mst_reason := reason,
        mst_message := truncateMigrationMessage message, mst_completed := Some now\<rparr>\<rparr>"

definition finish_check ::
  "'w cluster_api \<Rightarrow> migration_check \<Rightarrow> mc_phase \<Rightarrow> mc_reason \<Rightarrow> string \<Rightarrow> ('w, reconcile_result) cprog" where
  "finish_check api mc phase reason message =
     do {
       now \<leftarrow> operate (cl_now api) ClockNow;
       u \<leftarrow> operate (cl_status_mc api (finished mc phase reason message now))
              (StatusMC (finished mc phase reason message now));
       case u of
         Inl err \<Rightarrow> State_Monad.return (requeueOnConflict err)
       | Inr stored \<Rightarrow> do {
           r \<leftarrow> publishReport api stored;
           State_Monad.return
             (case r of Some _ \<Rightarrow> (res_requeue_after (30 * second), None) | None \<Rightarrow> (res_done, None))
         }
     }"

definition fail_check ::
  "'w cluster_api \<Rightarrow> migration_check \<Rightarrow> mc_reason \<Rightarrow> goerr \<Rightarrow> ('w, reconcile_result) cprog" where
  "fail_check api mc reason err =
     finish_check api mc
       (if mcs_probe (mc_spec mc) \<noteq> None then MigrationCheckExpired else MigrationCheckFailed)
       reason (err_text err)"

definition tailProbe :: "'w cluster_api \<Rightarrow> string \<Rightarrow> string \<Rightarrow> ('w, string) cprog" where
  "tailProbe api ns name =
     (case cl_tail api of
        None \<Rightarrow> State_Monad.return []
      | Some tl_logs \<Rightarrow> do {
          r \<leftarrow> operate (tl_logs ns name logTailBytes) (TailProbe ns name logTailBytes);
          State_Monad.return
            (case r of Inl _ \<Rightarrow> [] | Inr text \<Rightarrow> TruncateLogTail (trim_space text) logTailBytes)
        })"

subsection \<open>Provisioning\<close>

definition database_name :: "migration_check \<Rightarrow> string" where
  "database_name mc =
     (if mcs_database (mc_spec mc) = [] then mcs_app (mc_spec mc) else mcs_database (mc_spec mc))"

definition with_annotations :: "migration_check \<Rightarrow> smap \<Rightarrow> string \<times> string" where
  "with_annotations mc ann =
     (if mcs_cluster (mc_spec mc) = [] then sget ann ''postgres.cnpg.io/cluster-name''
      else mcs_cluster (mc_spec mc),
      if mcs_cluster_ns (mc_spec mc) \<noteq> [] then mcs_cluster_ns (mc_spec mc)
      else if sget ann ''postgres.cnpg.io/cluster-namespace'' = [] then ''postgres''
      else sget ann ''postgres.cnpg.io/cluster-namespace'')"

definition checked_source :: "migration_check \<Rightarrow> string \<times> string \<Rightarrow> (string \<times> string) result" where
  "checked_source mc src =
     (if fst src = [] then
        Inl (Plain (''app '' @ go_quote (mcs_app (mc_spec mc)) @
          '' namespace has no postgres.cnpg.io/cluster-name annotation''))
      else Inr src)"

text \<open>The source cluster and its namespace.\<close>

definition resolveSource :: "'w cluster_api \<Rightarrow> migration_check \<Rightarrow> ('w, (string \<times> string) result) cprog" where
  "resolveSource api mc =
     (if mcs_cluster (mc_spec mc) = [] \<or> mcs_cluster_ns (mc_spec mc) = [] then do {
        r \<leftarrow> operate (cl_get_ns api (mcs_app (mc_spec mc))) (GetNS (mcs_app (mc_spec mc)));
        State_Monad.return
          (case r of
             Inl err \<Rightarrow> Inl (errorf (''read production namespace '' @ go_quote (mcs_app (mc_spec mc)) @ '': '') err)
           | Inr ns \<Rightarrow> checked_source mc (with_annotations mc (ns_annotations ns)))
      }
      else State_Monad.return (checked_source mc (mcs_cluster (mc_spec mc), mcs_cluster_ns (mc_spec mc))))"

definition clone_namespace :: "migration_check \<Rightarrow> namespace" where
  "clone_namespace mc =
     \<lparr>ns_name = clone_namespace_name mc, ns_deleting = False,
      ns_labels = [(''preview.homelab.io/migration-check'', mc_name mc),
                   (''pod-security.kubernetes.io/enforce'', ''privileged''),
                   (''istio.io/dataplane-mode'', ''none''),
                   (''app.kubernetes.io/managed-by'', ''homelab-preview-operator'')],
      ns_annotations = []\<rparr>"

definition migration_clone :: "migration_check \<Rightarrow> string \<Rightarrow> string \<Rightarrow> cnpg_clone" where
  "migration_clone mc srcCluster srcNS =
     (let cid = migCheckID mc in
      \<lparr>cc_source = srcCluster, cc_source_ns = srcNS, cc_target_ns = clone_namespace_name mc,
       cc_prod_snapshot = ''migcheck-'' @ cid, cc_vsc = ''migcheck-'' @ cid @ ''-content'',
       cc_vs = ''migcheck-restore'', cc_cluster = ''migcheck-'' @ cid,
       cc_class = ''ceph-block-snapshot'',
       cc_labels = Some [(''preview.homelab.io/migration-check'', mc_name mc),
                         (''preview.homelab.io/type'', ''migration-check'')],
       cc_warm = ''migcheck-warm-'' @ srcCluster, cc_warm_max_age = warmSnapshotMaxAge\<rparr>)"

definition provisioning :: "migration_check \<Rightarrow> migration_check" where
  "provisioning mc =
     mc\<lparr>mc_status := (mc_status mc)\<lparr>mst_phase := MigrationCheckProvisioning,
        mst_reason := MigrationReasonProvisioning, mst_message := ''clone provisioning'',
        mst_clone_ns := clone_namespace_name mc, mst_expires := Some (mc_created mc + mc_ttl mc)\<rparr>\<rparr>"

definition mark_started :: "'w cluster_api \<Rightarrow> migration_check \<Rightarrow> ('w, migration_check) cprog" where
  "mark_started api mc =
     (case mst_started (mc_status mc) of
        Some _ \<Rightarrow> State_Monad.return mc
      | None \<Rightarrow> do {
          now \<leftarrow> operate (cl_now api) ClockNow;
          State_Monad.return (mc\<lparr>mc_status := (mc_status mc)\<lparr>mst_started := Some now\<rparr>\<rparr>)
        })"

definition provision :: "'w cluster_api \<Rightarrow> migration_check \<Rightarrow> ('w, reconcile_result) cprog" where
  "provision api mc0 =
     do {
       mc \<leftarrow> mark_started api mc0;
       src \<leftarrow> resolveSource api mc;
       case src of
         Inl err \<Rightarrow> fail_check api mc MigrationReasonCloneFailed err
       | Inr (srcCluster, srcNS) \<Rightarrow> do {
           c \<leftarrow> operate (cl_create_ns api (clone_namespace mc)) (CreateNS (clone_namespace mc));
           (case (case c of Inl err \<Rightarrow> if IsAlreadyExists err then None else Some err | Inr _ \<Rightarrow> None) of
              Some err \<Rightarrow> State_Monad.return (res_done, Some (errorf ''create clone namespace: '' err))
            | None \<Rightarrow> do {
                r \<leftarrow> cloneCNPGFromSnapshot api (migration_clone mc srcCluster srcNS);
                case r of
                  Some err \<Rightarrow> fail_check api mc MigrationReasonCloneFailed (errorf ''clone from snapshot: '' err)
                | None \<Rightarrow> do {
                    u \<leftarrow> operate (cl_status_mc api (provisioning mc)) (StatusMC (provisioning mc));
                    case u of
                      Inl err \<Rightarrow> State_Monad.return (requeueOnConflict err)
                    | Inr stored \<Rightarrow> do {
                        publishReport api stored;
                        State_Monad.return (res_requeue_after (10 * second), None)
                      }
                  }
              })
         }
     }"

subsection \<open>Waiting for the clone\<close>

definition not_ready :: "'w cluster_api \<Rightarrow> migration_check \<Rightarrow> string \<Rightarrow> ('w, reconcile_result) cprog" where
  "not_ready api mc state =
     (if mcs_probe (mc_spec mc) = None then State_Monad.return (res_requeue_after (10 * second), None)
      else do {
        now \<leftarrow> operate (cl_now api) ClockNow;
        if ready_overdue mc now then
          finish_check api mc MigrationCheckExpired MigrationReasonCloneNotReady
            (''clone did not settle within '' @ dur_string (readyTimeout mc) @ '' ('' @ state @ '')'')
        else State_Monad.return (res_requeue_after (10 * second), None)
      })"

definition connection_secret :: "migration_check \<Rightarrow> string \<Rightarrow> secret" where
  "connection_secret mc dsn =
     \<lparr>sec_name = mc_name mc @ ''-db'', sec_namespace = mc_namespace mc,
      sec_labels = [(''preview.homelab.io/migration-check'', mc_name mc)], sec_type = ''Opaque'',
      sec_string_data = [(''DATABASE_URL'', dsn)], sec_data = [], sec_owners = []\<rparr>"

definition clone_ready :: "klib \<Rightarrow> migration_check \<Rightarrow> uobj \<Rightarrow> migration_check" where
  "clone_ready lib mc cluster =
     (let img = lib_nested_string lib (u_object cluster) [''spec'', ''imageName''] in
      mc\<lparr>mc_status := (mc_status mc)\<lparr>mst_phase := MigrationCheckReady, mst_reason := MigrationReasonReady,
        mst_message := ''clone ready'', mst_secret_name := mc_name mc @ ''-db'',
        mst_secret_ns := mc_namespace mc,
        mst_clone_image := (if img \<noteq> [] then img else mst_clone_image (mc_status mc))\<rparr>\<rparr>)"

definition publish_ready ::
  "'w cluster_api \<Rightarrow> migration_check \<Rightarrow> uobj \<Rightarrow> string \<Rightarrow> ('w, reconcile_result) cprog" where
  "publish_ready api mc cluster dsn =
     (case cl_set_owner api mc (connection_secret mc dsn) of
        Inl err \<Rightarrow> State_Monad.return (res_done, Some err)
      | Inr sec \<Rightarrow> do {
          c \<leftarrow> operate (cl_create_secret api sec) (CreateSecret sec);
          (case (case c of Inl err \<Rightarrow> if IsAlreadyExists err then None else Some err | Inr _ \<Rightarrow> None) of
             Some err \<Rightarrow> State_Monad.return (res_done, Some (errorf ''create result secret: '' err))
           | None \<Rightarrow> do {
               u \<leftarrow> operate (cl_status_mc api (clone_ready (cl_lib api) mc cluster))
                      (StatusMC (clone_ready (cl_lib api) mc cluster));
               case u of
                 Inl err \<Rightarrow> State_Monad.return (requeueOnConflict err)
               | Inr stored \<Rightarrow>
                   if mcs_probe (mc_spec stored) \<noteq> None then State_Monad.return (res_requeue_now, None)
                   else do {
                     t \<leftarrow> ttlExpired api stored;
                     State_Monad.return (res_requeue_after (snd t), None)
                   }
             })
        })"

definition checkReady :: "'w cluster_api \<Rightarrow> migration_check \<Rightarrow> ('w, reconcile_result) cprog" where
  "checkReady api mc =
     (let cloneNS = mst_clone_ns (mc_status mc); clusterName = ''migcheck-'' @ migCheckID mc in
      do {
        cr \<leftarrow> operate (cl_uget api CnpgCluster cloneNS clusterName) (UGet CnpgCluster cloneNS clusterName);
        case cr of
          Inl err \<Rightarrow>
            if IsNotFound err then not_ready api mc ''cluster not found''
            else State_Monad.return (res_done, Some err)
        | Inr cluster \<Rightarrow>
            if \<not> fst (cnpgClusterSettled (cl_lib api) cluster)
            then not_ready api mc (snd (cnpgClusterSettled (cl_lib api) cluster))
            else do {
              er \<leftarrow> operate (cl_get_endpoints api cloneNS (clusterName @ ''-rw''))
                     (GetEndpoints cloneNS (clusterName @ ''-rw''));
              case er of
                Inl err \<Rightarrow>
                  if IsNotFound err then not_ready api mc ''-rw endpoints not found''
                  else State_Monad.return (res_done, Some err)
              | Inr eps \<Rightarrow>
                  if \<not> endpointsReady eps then not_ready api mc ''-rw endpoints not ready''
                  else do {
                    sr \<leftarrow> operate (cl_get_secret api cloneNS (clusterName @ ''-superuser''))
                           (GetSecret cloneNS (clusterName @ ''-superuser''));
                    case sr of
                      Inl err \<Rightarrow>
                        if IsNotFound err then not_ready api mc ''superuser secret not found''
                        else State_Monad.return (res_done, Some err)
                    | Inr su \<Rightarrow>
                        let user = sget (sec_data su) ''username''; pass = sget (sec_data su) ''password'' in
                        if user = [] \<or> pass = [] then not_ready api mc ''superuser secret empty''
                        else
                          publish_ready api mc cluster
                            (buildDatabaseURL user pass
                              (clusterName @ ''-rw.'' @ cloneNS @ ''.svc.cluster.local'') (database_name mc))
                  }
            }
      })"

subsection \<open>The probe\<close>

definition running_probe :: "migration_check \<Rightarrow> mig_probe \<Rightarrow> job \<Rightarrow> migration_check" where
  "running_probe mc p j =
     mc\<lparr>mc_status := (mc_status mc)\<lparr>mst_phase := MigrationCheckRunning,
        mst_reason := MigrationReasonProbeRunning,
        mst_message := ''running '' @ mp_image p @ '' against the clone'', mst_probe_job := job_name j\<rparr>\<rparr>"

definition mark_probe_started :: "'w cluster_api \<Rightarrow> migration_check \<Rightarrow> ('w, migration_check) cprog" where
  "mark_probe_started api mc =
     (case mst_probe_started (mc_status mc) of
        Some _ \<Rightarrow> State_Monad.return mc
      | None \<Rightarrow> do {
          now \<leftarrow> operate (cl_now api) ClockNow;
          State_Monad.return (mc\<lparr>mc_status := (mc_status mc)\<lparr>mst_probe_started := Some now\<rparr>\<rparr>)
        })"

definition with_message :: "migration_check \<Rightarrow> string \<Rightarrow> migration_check" where
  "with_message mc message = mc\<lparr>mc_status := (mc_status mc)\<lparr>mst_message := message\<rparr>\<rparr>"

definition startProbe ::
  "'w cluster_api \<Rightarrow> migration_check \<Rightarrow> mig_probe \<Rightarrow> ('w, reconcile_result) cprog" where
  "startProbe api mc p =
     do {
       t \<leftarrow> ttlExpired api mc;
       (let remaining = snd t; need = probeBudget (Some p) in
        if remaining < need then
          finish_check api mc MigrationCheckExpired MigrationReasonTTLTooShort
            (dur_string (dur_round remaining second) @ '' left before TTL, the probe needs '' @ dur_string need)
        else do {
          r \<leftarrow> ensureProbeJob api (migrationProbeJob (cl_probe_image api) mc p (migCheckID mc));
          case r of
            Inl err \<Rightarrow> State_Monad.return (res_done, Some err)
          | Inr (Inl w) \<Rightarrow> do {
              u \<leftarrow> operate (cl_status_mc api (with_message mc (pw_message w)))
                     (StatusMC (with_message mc (pw_message w)));
              State_Monad.return
                (case u of Inl err \<Rightarrow> requeueOnConflict err | Inr _ \<Rightarrow> (res_requeue_after (pw_requeue w), None))
            }
          | Inr (Inr j) \<Rightarrow> do {
              mc \<leftarrow> mark_probe_started api (running_probe mc p j);
              u \<leftarrow> operate (cl_status_mc api mc) (StatusMC mc);
              case u of
                Inl err \<Rightarrow> State_Monad.return (requeueOnConflict err)
              | Inr stored \<Rightarrow> do {
                  publishReport api stored;
                  State_Monad.return (res_requeue_after (10 * second), None)
                }
            }
        })
     }"

definition probe_passed ::
  "'w cluster_api \<Rightarrow> migration_check \<Rightarrow> string \<Rightarrow> ('w, reconcile_result) cprog" where
  "probe_passed api mc name =
     do {
       tail \<leftarrow> tailProbe api (mc_namespace mc) name;
       case mcs_probe (mc_spec mc) of
         None \<Rightarrow> State_Monad.return migration_panic
       | Some p \<Rightarrow>
           finish_check api mc MigrationCheckPassed MigrationReasonProbePassed
             (joinDetail (mp_image p @ '' answered '' @ probePath mc @ '' against the prod-data clone'') tail)
     }"

definition probe_failed ::
  "'w cluster_api \<Rightarrow> migration_check \<Rightarrow> string \<Rightarrow> string \<Rightarrow> string \<Rightarrow> ('w, reconcile_result) cprog" where
  "probe_failed api mc name reason message =
     do {
       tail \<leftarrow> tailProbe api (mc_namespace mc) name;
       stuck \<leftarrow> probeWaitingFailure api (mc_namespace mc) name;
       case stuck of
         Some (why, detail) \<Rightarrow>
           finish_check api mc MigrationCheckExpired why
             (joinDetail (''probe pod never started: '' @ detail) tail)
       | None \<Rightarrow>
           (case mcs_probe (mc_spec mc) of
              None \<Rightarrow> State_Monad.return migration_panic
            | Some p \<Rightarrow>
                finish_check api mc MigrationCheckFailed MigrationReasonProbeFailed
                  (joinDetail (mp_image p @ '' did not answer '' @ probePath mc @ '' against the prod-data clone''
                     @ (if reason \<noteq> [] then '' ('' @ reason @ '': '' @ message @ '')'' else [])) tail))
     }"

definition probe_stuck ::
  "'w cluster_api \<Rightarrow> migration_check \<Rightarrow> mc_reason \<Rightarrow> string \<Rightarrow> ('w, reconcile_result) cprog" where
  "probe_stuck api mc why detail =
     do {
       late \<leftarrow> probeDeadlinePassed api mc;
       if late then finish_check api mc MigrationCheckExpired why (''probe pod never started: '' @ detail)
       else
         let msg = ''waiting for the probe pod: '' @ detail in
         if mst_message (mc_status mc) = msg then State_Monad.return (res_requeue_after (15 * second), None)
         else do {
           u \<leftarrow> operate (cl_status_mc api (with_message mc msg)) (StatusMC (with_message mc msg));
           State_Monad.return
             (case u of Inl err \<Rightarrow> requeueOnConflict err | Inr _ \<Rightarrow> (res_requeue_after (15 * second), None))
         }
     }"

definition probe_late ::
  "'w cluster_api \<Rightarrow> migration_check \<Rightarrow> string \<Rightarrow> ('w, reconcile_result) cprog" where
  "probe_late api mc name =
     do {
       tail \<leftarrow> tailProbe api (mc_namespace mc) name;
       now \<leftarrow> operate (cl_now api) ClockNow;
       finish_check api mc MigrationCheckExpired MigrationReasonDeadlineExceeded
         (joinDetail (''probe still running ''
            @ dur_string (dur_round (time_sub now
                (case mst_probe_started (mc_status mc) of Some t \<Rightarrow> t | None \<Rightarrow> 0)) second)
            @ '' after start'') tail)
     }"

definition probe_running ::
  "'w cluster_api \<Rightarrow> migration_check \<Rightarrow> string \<Rightarrow> ('w, reconcile_result) cprog" where
  "probe_running api mc name =
     do {
       stuck \<leftarrow> probeWaitingFailure api (mc_namespace mc) name;
       case stuck of
         Some (why, detail) \<Rightarrow> probe_stuck api mc why detail
       | None \<Rightarrow> do {
           late \<leftarrow> probeDeadlinePassed api mc;
           if late then probe_late api mc name
           else State_Monad.return (res_requeue_after (10 * second), None)
         }
     }"

definition judge_job ::
  "'w cluster_api \<Rightarrow> migration_check \<Rightarrow> string \<Rightarrow> job_phase \<times> string \<times> string \<Rightarrow> ('w, reconcile_result) cprog" where
  "judge_job api mc name outcome =
     (case outcome of
        (JobSucceeded, _, _) \<Rightarrow> probe_passed api mc name
      | (JobFailed, reason, message) \<Rightarrow> probe_failed api mc name reason message
      | (JobRunning, _, _) \<Rightarrow> probe_running api mc name)"

definition checkProbe :: "'w cluster_api \<Rightarrow> migration_check \<Rightarrow> ('w, reconcile_result) cprog" where
  "checkProbe api mc =
     (let name = probe_job_name mc (migCheckID mc) in
      do {
        jr \<leftarrow> operate (cl_get_job api (mc_namespace mc) name) (GetProbeJob (mc_namespace mc) name);
        case jr of
          Inl err \<Rightarrow>
            if IsNotFound err then
              finish_check api mc MigrationCheckExpired MigrationReasonDeadlineExceeded
                ''probe job disappeared before a verdict''
            else State_Monad.return (res_done, Some err)
        | Inr j \<Rightarrow> judge_job api mc name (JobOutcome (Some j))
      })"

subsection \<open>Teardown\<close>

definition teardown_check :: "'w cluster_api \<Rightarrow> migration_check \<Rightarrow> ('w, goerr option) cprog" where
  "teardown_check api mc =
     (let cid = migCheckID mc;
          cloneNS = (if mst_clone_ns (mc_status mc) = [] then clone_namespace_name mc
                     else mst_clone_ns (mc_status mc))
      in do {
        j \<leftarrow> (if mcs_probe (mc_spec mc) \<noteq> None \<or> mst_probe_job (mc_status mc) \<noteq> []
              then deleteProbeJob api mc cid else State_Monad.return None);
        case j of
          Some err \<Rightarrow> State_Monad.return (Some err)
        | None \<Rightarrow> do {
            whenM (mst_secret_name (mc_status mc) \<noteq> [])
              (do {
                 operate (cl_delete_secret api (mc_namespace mc) (mst_secret_name (mc_status mc)))
                   (DeleteSecret (mc_namespace mc) (mst_secret_name (mc_status mc)));
                 State_Monad.return ()
               });
            d \<leftarrow> operate (cl_delete_ns api cloneNS) (DeleteNS cloneNS);
            case ignore_not_found d of
              Some err \<Rightarrow> State_Monad.return (Some (errorf ''delete clone namespace: '' err))
            | None \<Rightarrow> do {
                operate (cl_udelete api VolumeSnapshotContent [] (''migcheck-'' @ cid @ ''-content''))
                  (UDelete VolumeSnapshotContent [] (''migcheck-'' @ cid @ ''-content''));
                src \<leftarrow> resolveSource api mc;
                (let srcNS = (case src of Inl _ \<Rightarrow> ''postgres'' | Inr s \<Rightarrow> snd s) in
                 do {
                   operate (cl_udelete api VolumeSnapshot srcNS (''migcheck-'' @ cid))
                     (UDelete VolumeSnapshot srcNS (''migcheck-'' @ cid));
                   State_Monad.return None
                 })
              }
          }
      })"

subsection \<open>Reconcile\<close>

definition reconcile_deleted_check :: "'w cluster_api \<Rightarrow> migration_check \<Rightarrow> ('w, reconcile_result) cprog" where
  "reconcile_deleted_check api mc =
     (let lib = cl_lib api in
      if lib_contains_finalizer lib (mc_finalizers mc) migrationCheckFinalizer then do {
        reportCancelled api mc;
        r \<leftarrow> teardown_check api mc;
        case r of
          Some err \<Rightarrow> State_Monad.return (res_requeue_after (15 * second), None)
        | None \<Rightarrow>
            let mc' = mc\<lparr>mc_finalizers := lib_remove_finalizer lib (mc_finalizers mc) migrationCheckFinalizer\<rparr> in
            do {
              u \<leftarrow> operate (cl_update_mc api mc') (UpdateMC mc');
              State_Monad.return (case u of Inl err \<Rightarrow> requeueOnConflict err | Inr _ \<Rightarrow> (res_done, None))
            }
      }
      else State_Monad.return (res_done, None))"

definition add_check_finalizer :: "'w cluster_api \<Rightarrow> migration_check \<Rightarrow> ('w, reconcile_result) cprog" where
  "add_check_finalizer api mc =
     (let mc' = mc\<lparr>mc_finalizers := lib_add_finalizer (cl_lib api) (mc_finalizers mc) migrationCheckFinalizer\<rparr> in
      do {
        u \<leftarrow> operate (cl_update_mc api mc') (UpdateMC mc');
        State_Monad.return (case u of Inl err \<Rightarrow> requeueOnConflict err | Inr _ \<Rightarrow> (res_requeue_now, None))
      })"

definition terminal_pass :: "'w cluster_api \<Rightarrow> migration_check \<Rightarrow> ('w, reconcile_result) cprog" where
  "terminal_pass api mc =
     do {
       r \<leftarrow> publishReport api mc;
       State_Monad.return
         (case r of Some _ \<Rightarrow> (res_requeue_after (30 * second), None) | None \<Rightarrow> (res_done, None))
     }"

definition phase_pass :: "'w cluster_api \<Rightarrow> migration_check \<Rightarrow> ('w, reconcile_result) cprog" where
  "phase_pass api mc =
     (case mst_phase (mc_status mc) of
        MigrationCheckNone \<Rightarrow> provision api mc
      | MigrationCheckPending \<Rightarrow> provision api mc
      | MigrationCheckProvisioning \<Rightarrow> checkReady api mc
      | MigrationCheckReady \<Rightarrow>
          (case mcs_probe (mc_spec mc) of
             None \<Rightarrow> do {
               t \<leftarrow> ttlExpired api mc;
               State_Monad.return (res_requeue_after (snd t), None)
             }
           | Some p \<Rightarrow> startProbe api mc p)
      | MigrationCheckRunning \<Rightarrow> checkProbe api mc
      | _ \<Rightarrow> terminal_pass api mc)"

text \<open>The pass over a check that was read.\<close>

definition check_pass :: "'w cluster_api \<Rightarrow> migration_check \<Rightarrow> ('w, reconcile_result) cprog" where
  "check_pass api mc =
     (if mc_deleting mc then reconcile_deleted_check api mc
      else if \<not> lib_contains_finalizer (cl_lib api) (mc_finalizers mc) migrationCheckFinalizer
      then add_check_finalizer api mc
      else do {
        t \<leftarrow> ttlExpired api mc;
        if fst t then do {
          d \<leftarrow> operate (cl_delete_mc api mc) (DeleteMC mc);
          State_Monad.return (res_done, ignore_not_found d)
        }
        else phase_pass api mc
      })"

definition MigrationReconcile ::
  "'w cluster_api \<Rightarrow> string \<Rightarrow> string \<Rightarrow> ('w, reconcile_result) cprog" where
  "MigrationReconcile api ns name =
     do {
       got \<leftarrow> operate (cl_get_mc api ns name) (GetMC ns name);
       case got of
         Inl err \<Rightarrow> State_Monad.return (res_done, ignore_not_found (Some err))
       | Inr mc \<Rightarrow> check_pass api mc
     }"

end
