(* ===== verification/Migration_Log.thy ===== *)
theory Migration_Log
  imports Contract Migration_Check
begin

section \<open>What a pass over a MigrationCheck may do\<close>

text \<open>
  The discipline of the reconciler, as a contract on the call log: which status may be written in
  which phase and on what evidence, when a Job, a connection Secret and a check-run report may leave
  the operator. Each routine is shown to keep it, following its text.
\<close>

subsection \<open>The evidence\<close>

definition clone_evidence :: "klib \<Rightarrow> migration_check \<Rightarrow> uobj \<Rightarrow> string \<Rightarrow> cluster_call set \<Rightarrow> bool" where
  "clone_evidence lib mc cluster dsn E \<longleftrightarrow>
     (let ns = mst_clone_ns (mc_status mc); cname = ''migcheck-'' @ migCheckID mc in
      UGet CnpgCluster ns cname (Inr cluster) \<in> E \<and> fst (cnpgClusterSettled lib cluster)
      \<and> (\<exists>eps. GetEndpoints ns (cname @ ''-rw'') (Inr eps) \<in> E \<and> endpointsReady eps)
      \<and> (\<exists>su. GetSecret ns (cname @ ''-superuser'') (Inr su) \<in> E
           \<and> sget (sec_data su) ''username'' \<noteq> [] \<and> sget (sec_data su) ''password'' \<noteq> []
           \<and> dsn = buildDatabaseURL (sget (sec_data su) ''username'') (sget (sec_data su) ''password'')
               (cname @ ''-rw.'' @ ns @ ''.svc.cluster.local'') (database_name mc)))"

definition jobs_allowed :: "migration_check \<Rightarrow> cluster_call set \<Rightarrow> bool" where
  "jobs_allowed mc E \<longleftrightarrow>
     (\<exists>nso. GetNS (mc_namespace mc) (Inr nso) \<in> E \<and> sget (ns_labels nso) MigrationCheckJobsLabel = ''true'')"

definition job_seen :: "migration_check \<Rightarrow> job_phase \<Rightarrow> cluster_call set \<Rightarrow> bool" where
  "job_seen mc ph E \<longleftrightarrow>
     (\<exists>j. GetProbeJob (mc_namespace mc) (probe_job_name mc (migCheckID mc)) (Inr j) \<in> E
        \<and> fst (JobOutcome (Some j)) = ph)"

definition pods_failure :: "pod list result \<Rightarrow> (mc_reason \<times> string) option" where
  "pods_failure r =
     (case r of Inl _ \<Rightarrow> None
      | Inr pods \<Rightarrow> first_failure (concat (map (\<lambda>p. pod_init_statuses p @ pod_statuses p) pods)))"

definition stuck_seen :: "migration_check \<Rightarrow> (mc_reason \<times> string) option \<Rightarrow> cluster_call set \<Rightarrow> bool" where
  "stuck_seen mc f E \<longleftrightarrow>
     (\<exists>r. ListJobPods (mc_namespace mc) (probe_job_name mc (migCheckID mc)) r \<in> E \<and> pods_failure r = f)"

subsection \<open>The status a pass may write\<close>

definition expires :: "migration_check \<Rightarrow> mc_reason set \<Rightarrow> migration_check \<Rightarrow> bool" where
  "expires mc whys m \<longleftrightarrow> (\<exists>why\<in>whys. \<exists>msg now. m = finished mc MigrationCheckExpired why msg now)"

definition marked :: "migration_check \<Rightarrow> migration_check \<Rightarrow> bool" where
  "marked mc m \<longleftrightarrow> m = mc \<and> mst_started (mc_status mc) \<noteq> None
     \<or> mst_started (mc_status mc) = None \<and> (\<exists>t. m = mc\<lparr>mc_status := (mc_status mc)\<lparr>mst_started := Some t\<rparr>\<rparr>)"

definition provision_write :: "migration_check \<Rightarrow> migration_check \<Rightarrow> bool" where
  "provision_write mc m \<longleftrightarrow>
     (\<exists>mc'. marked mc mc' \<and>
        (m = provisioning mc' \<or>
         (\<exists>msg now. m = finished mc' (if mcs_probe (mc_spec mc) \<noteq> None then MigrationCheckExpired
            else MigrationCheckFailed) MigrationReasonCloneFailed msg now)))"

definition secret_there :: "cluster_call set \<Rightarrow> bool" where
  "secret_there E \<longleftrightarrow> (\<exists>sec r. CreateSecret sec r \<in> E \<and> (\<forall>e. r = Inl e \<longrightarrow> IsAlreadyExists e))"

definition ready_write :: "klib \<Rightarrow> migration_check \<Rightarrow> cluster_call set \<Rightarrow> migration_check \<Rightarrow> bool" where
  "ready_write lib mc E m \<longleftrightarrow>
     (\<exists>cluster dsn. clone_evidence lib mc cluster dsn E \<and> secret_there E \<and> m = clone_ready lib mc cluster)
     \<or> mcs_probe (mc_spec mc) \<noteq> None \<and> (\<exists>t. ClockNow t \<in> E \<and> ready_overdue mc t)
       \<and> expires mc {MigrationReasonCloneNotReady} m"

definition probe_marked :: "migration_check \<Rightarrow> mig_probe \<Rightarrow> migration_check \<Rightarrow> bool" where
  "probe_marked mc p m \<longleftrightarrow>
     (\<exists>j started. m = (running_probe mc p j)\<lparr>mc_status :=
          (mc_status (running_probe mc p j))\<lparr>mst_probe_started := Some started\<rparr>\<rparr>
        \<and> (\<forall>t. mst_probe_started (mc_status mc) = Some t \<longrightarrow> started = t))"

definition start_write :: "migration_check \<Rightarrow> cluster_call set \<Rightarrow> migration_check \<Rightarrow> bool" where
  "start_write mc E m \<longleftrightarrow>
     (\<exists>p. mcs_probe (mc_spec mc) = Some p \<and>
        ((\<exists>t. ClockNow t \<in> E \<and> snd (ttl_left mc t) < probeBudget (Some p))
           \<and> expires mc {MigrationReasonTTLTooShort} m
         \<or> (\<exists>msg. m = with_message mc msg)
         \<or> jobs_allowed mc E \<and> probe_marked mc p m))"

definition probe_write :: "migration_check \<Rightarrow> cluster_call set \<Rightarrow> migration_check \<Rightarrow> bool" where
  "probe_write mc E m \<longleftrightarrow>
     job_seen mc JobSucceeded E \<and> mcs_probe (mc_spec mc) \<noteq> None
       \<and> (\<exists>msg now. m = finished mc MigrationCheckPassed MigrationReasonProbePassed msg now)
     \<or> job_seen mc JobFailed E \<and> mcs_probe (mc_spec mc) \<noteq> None \<and> stuck_seen mc None E
       \<and> (\<exists>msg now. m = finished mc MigrationCheckFailed MigrationReasonProbeFailed msg now)
     \<or> (\<exists>why detail. stuck_seen mc (Some (why, detail)) E \<and> expires mc {why} m)
     \<or> expires mc {MigrationReasonDeadlineExceeded} m
     \<or> (\<exists>msg. m = with_message mc msg)"

definition mig_write :: "klib \<Rightarrow> migration_check \<Rightarrow> cluster_call set \<Rightarrow> migration_check \<Rightarrow> bool" where
  "mig_write lib mc E m =
     (case mst_phase (mc_status mc) of
        MigrationCheckNone \<Rightarrow> provision_write mc m
      | MigrationCheckPending \<Rightarrow> provision_write mc m
      | MigrationCheckProvisioning \<Rightarrow> ready_write lib mc E m
      | MigrationCheckReady \<Rightarrow> start_write mc E m
      | MigrationCheckRunning \<Rightarrow> probe_write mc E m
      | _ \<Rightarrow> False)"

subsection \<open>The contract\<close>

text \<open>A report is of a state on the server: the terminal one read, or one a status write returned.\<close>

definition on_server :: "klib \<Rightarrow> migration_check \<Rightarrow> migration_check \<Rightarrow> cluster_call set \<Rightarrow> bool" where
  "on_server lib mc m0 E \<longleftrightarrow>
     m0 = mc \<and> mc_terminal (mst_phase (mc_status mc))
     \<or> (\<exists>m. StatusMC m (Inr m0) \<in> E \<and> mig_write lib mc E m)"

definition report_of :: "klib \<Rightarrow> migration_check \<Rightarrow> mig_report \<Rightarrow> int \<Rightarrow> check_run \<Rightarrow> migration_check
    \<Rightarrow> cluster_call set \<Rightarrow> bool" where
  "report_of lib mc rep i run m0 E \<longleftrightarrow>
     on_server lib mc m0 E \<and> mcs_report (mc_spec m0) = Some rep \<and> i = mst_check_run (mc_status m0)
     \<and> mst_reported (mc_status m0) \<noteq> mst_phase (mc_status m0) \<and> (\<exists>now. run = checkRunFor m0 rep now)"

definition live :: "klib \<Rightarrow> migration_check \<Rightarrow> bool" where
  "live lib mc \<longleftrightarrow> \<not> mc_deleting mc \<and> lib_contains_finalizer lib (mc_finalizers mc) migrationCheckFinalizer"

text \<open>What has been deleted when the finalizer may go.\<close>

definition old_clone_ns :: "migration_check \<Rightarrow> string" where
  "old_clone_ns mc =
     (if mst_clone_ns (mc_status mc) = [] then clone_namespace_name mc else mst_clone_ns (mc_status mc))"

definition job_gone :: "migration_check \<Rightarrow> cluster_call set \<Rightarrow> bool" where
  "job_gone mc E \<longleftrightarrow>
     (\<exists>d. DeleteProbeJob (mc_namespace mc) (probe_job_name mc (migCheckID mc)) d \<in> E
        \<and> (\<forall>e. d = Some e \<longrightarrow> IsNotFound e \<or> namespaceUnavailable e))"

definition job_done :: "migration_check \<Rightarrow> cluster_call set \<Rightarrow> bool" where
  "job_done mc E \<longleftrightarrow> mcs_probe (mc_spec mc) = None \<and> mst_probe_job (mc_status mc) = [] \<or> job_gone mc E"

definition secret_done :: "migration_check \<Rightarrow> cluster_call set \<Rightarrow> bool" where
  "secret_done mc E \<longleftrightarrow> mst_secret_name (mc_status mc) = []
     \<or> (\<exists>d. DeleteSecret (mc_namespace mc) (mst_secret_name (mc_status mc)) d \<in> E)"

definition clone_done :: "migration_check \<Rightarrow> cluster_call set \<Rightarrow> bool" where
  "clone_done mc E \<longleftrightarrow> (\<exists>d. DeleteNS (old_clone_ns mc) d \<in> E \<and> ignore_not_found d = None)"

definition content_name :: "migration_check \<Rightarrow> string" where
  "content_name mc = ''migcheck-'' @ migCheckID mc @ ''-content''"

definition content_done :: "migration_check \<Rightarrow> cluster_call set \<Rightarrow> bool" where
  "content_done mc E \<longleftrightarrow> (\<exists>d. UDelete VolumeSnapshotContent [] (content_name mc) d \<in> E)"

definition check_torn_down :: "migration_check \<Rightarrow> cluster_call set \<Rightarrow> bool" where
  "check_torn_down mc E \<longleftrightarrow> job_done mc E \<and> secret_done mc E \<and> clone_done mc E \<and> content_done mc E"

text \<open>The answer to a report is the one the configured reporter gave.\<close>

definition answered :: "'w cluster_api \<Rightarrow> mig_report \<Rightarrow> int \<Rightarrow> check_run \<Rightarrow> int result \<Rightarrow> bool" where
  "answered api rep i run r \<longleftrightarrow> (\<exists>f w. cl_report api = Some f \<and> r = fst (f rep i run w))"

lemma answered_at: "cl_report api = Some f \<Longrightarrow> answered api rep i run (fst (f rep i run w))"
  by (auto simp: answered_def)

fun mig_call :: "'w cluster_api \<Rightarrow> migration_check \<Rightarrow> cluster_call set \<Rightarrow> cluster_call \<Rightarrow> bool" where
  "mig_call api mc E (StatusMC m r) \<longleftrightarrow>
     live (cl_lib api) mc \<and> (mig_write (cl_lib api) mc E m
       \<or> (\<exists>rep i run m0 cid. Report rep i run (Inr cid) \<in> E \<and> report_of (cl_lib api) mc rep i run m0 E
            \<and> m = reported m0 cid))"
| "mig_call api mc E (Report rep i run r) \<longleftrightarrow> answered api rep i run r \<and>
     (live (cl_lib api) mc \<and> (\<exists>m0. report_of (cl_lib api) mc rep i run m0 E)
     \<or> mc_deleting mc \<and> mcs_report (mc_spec mc) = Some rep \<and> i = mst_check_run (mc_status mc) \<and> i \<noteq> 0
       \<and> \<not> mc_terminal (mst_reported (mc_status mc))
       \<and> (\<exists>t now. run = cancelled_run (checkRunFor mc rep t) now))"
| "mig_call api mc E (CreateProbeJob j r) \<longleftrightarrow>
     live (cl_lib api) mc \<and> mst_phase (mc_status mc) = MigrationCheckReady \<and> jobs_allowed mc E
     \<and> (\<exists>p. mcs_probe (mc_spec mc) = Some p \<and> j = migrationProbeJob (cl_probe_image api) mc p (migCheckID mc)
          \<and> (\<exists>t. ClockNow t \<in> E \<and> probeBudget (Some p) \<le> snd (ttl_left mc t)))"
| "mig_call api mc E (CreateSecret sec r) \<longleftrightarrow>
     live (cl_lib api) mc \<and> mst_phase (mc_status mc) = MigrationCheckProvisioning
     \<and> (\<exists>cluster dsn. clone_evidence (cl_lib api) mc cluster dsn E \<and> cl_set_owner api mc (connection_secret mc dsn) = Inr sec)"
| "mig_call api mc E (CreateNS nso r) \<longleftrightarrow> live (cl_lib api) mc \<and> nso = clone_namespace mc"
| "mig_call api mc E (UCreate u r) \<longleftrightarrow> live (cl_lib api) mc"
| "mig_call api mc E (UUpdate u r) \<longleftrightarrow> live (cl_lib api) mc"
| "mig_call api mc E (UpdateMC m r) \<longleftrightarrow>
     \<not> live (cl_lib api) mc \<and> (\<exists>fs. m = mc\<lparr>mc_finalizers := fs\<rparr>) \<and> (mc_deleting mc \<longrightarrow> check_torn_down mc E)"
| "mig_call api mc E (DeleteMC m r) \<longleftrightarrow> live (cl_lib api) mc \<and> m = mc \<and> (\<exists>t. ClockNow t \<in> E \<and> fst (ttl_left mc t))"
| "mig_call api mc E (DeleteNS nsn r) \<longleftrightarrow> mc_deleting mc"
| "mig_call api mc E (DeleteSecret nsn sn r) \<longleftrightarrow> mc_deleting mc \<and> nsn = mc_namespace mc"
| "mig_call api mc E (DeleteProbeJob nsn jn r) \<longleftrightarrow> mc_deleting mc \<and> nsn = mc_namespace mc"
| "mig_call api mc E (GetMC ns name r) \<longleftrightarrow> False"
| "mig_call api mc E _ \<longleftrightarrow> True"

lemma clone_evidence_mono: "E \<subseteq> F \<Longrightarrow> clone_evidence lib mc cluster dsn E \<longrightarrow> clone_evidence lib mc cluster dsn F"
  unfolding clone_evidence_def Let_def by (intro evidence_mono in_mono; assumption)

lemma jobs_allowed_mono: "E \<subseteq> F \<Longrightarrow> jobs_allowed mc E \<longrightarrow> jobs_allowed mc F"
  unfolding jobs_allowed_def by (intro evidence_mono in_mono; assumption)

lemma job_seen_mono: "E \<subseteq> F \<Longrightarrow> job_seen mc ph E \<longrightarrow> job_seen mc ph F"
  unfolding job_seen_def by (intro evidence_mono in_mono; assumption)

lemma stuck_seen_mono: "E \<subseteq> F \<Longrightarrow> stuck_seen mc f E \<longrightarrow> stuck_seen mc f F"
  unfolding stuck_seen_def by (intro evidence_mono in_mono; assumption)

lemma secret_there_mono: "E \<subseteq> F \<Longrightarrow> secret_there E \<longrightarrow> secret_there F"
  unfolding secret_there_def by (intro evidence_mono in_mono; assumption)

lemmas seen_mono = secret_there_mono clone_evidence_mono jobs_allowed_mono job_seen_mono stuck_seen_mono in_mono

lemma ready_write_mono: "E \<subseteq> F \<Longrightarrow> ready_write lib mc E m \<longrightarrow> ready_write lib mc F m"
  unfolding ready_write_def by (intro evidence_mono seen_mono; assumption)

lemma start_write_mono: "E \<subseteq> F \<Longrightarrow> start_write mc E m \<longrightarrow> start_write mc F m"
  unfolding start_write_def by (intro evidence_mono seen_mono; assumption)

lemma probe_write_mono: "E \<subseteq> F \<Longrightarrow> probe_write mc E m \<longrightarrow> probe_write mc F m"
  unfolding probe_write_def by (intro evidence_mono seen_mono; assumption)

lemma mig_write_mono: "E \<subseteq> F \<Longrightarrow> mig_write lib mc E m \<longrightarrow> mig_write lib mc F m"
  by (cases "mst_phase (mc_status mc)")
     (simp_all add: mig_write_def ready_write_mono start_write_mono probe_write_mono)

lemma on_server_mono: "E \<subseteq> F \<Longrightarrow> on_server lib mc m0 E \<longrightarrow> on_server lib mc m0 F"
  unfolding on_server_def by (intro evidence_mono seen_mono mig_write_mono; assumption)

lemma report_of_mono: "E \<subseteq> F \<Longrightarrow> report_of lib mc rep i run m0 E \<longrightarrow> report_of lib mc rep i run m0 F"
  unfolding report_of_def by (intro evidence_mono seen_mono on_server_mono; assumption)

lemma job_gone_mono: "E \<subseteq> F \<Longrightarrow> job_gone mc E \<longrightarrow> job_gone mc F"
  unfolding job_gone_def by (intro evidence_mono in_mono; assumption)

lemma teardown_mono:
  "E \<subseteq> F \<Longrightarrow> job_done mc E \<longrightarrow> job_done mc F" "E \<subseteq> F \<Longrightarrow> secret_done mc E \<longrightarrow> secret_done mc F"
  "E \<subseteq> F \<Longrightarrow> clone_done mc E \<longrightarrow> clone_done mc F" "E \<subseteq> F \<Longrightarrow> content_done mc E \<longrightarrow> content_done mc F"
  unfolding job_done_def secret_done_def clone_done_def content_done_def
  by (intro evidence_mono in_mono job_gone_mono; assumption)+

lemma check_torn_down_mono: "E \<subseteq> F \<Longrightarrow> check_torn_down mc E \<longrightarrow> check_torn_down mc F"
  unfolding check_torn_down_def by (intro evidence_mono teardown_mono; assumption)

lemma mig_call_mono: "E \<subseteq> F \<Longrightarrow> mig_call api mc E x \<longrightarrow> mig_call api mc F x"
  by (cases x; hypsubst; unfold mig_call.simps; intro imp_mono evidence_mono seen_mono mig_write_mono report_of_mono check_torn_down_mono; assumption?)

declare mig_call.simps [simp del]

lemma silent_calls [simp]:
  "mig_call api mc E (ClockNow t)" "mig_call api mc E (WallNow t)" "mig_call api mc E (WaitPlan n e)"
  "mig_call api mc E (UGet k ns name u)"
  "mig_call api mc E (GetNS ns nsr)" "mig_call api mc E (GetEndpoints ns name eps)"
  "mig_call api mc E (GetSecret ns name s)" "mig_call api mc E (GetProbeJob ns name jr)"
  "mig_call api mc E (ListJobPods ns name ps)" "mig_call api mc E (TailProbe ns name bytes l)"
  "mig_call api mc E (UDelete k ns name d)"
  by (simp_all add: mig_call.simps)

interpretation mig: call_contract "mig_call api mc" for api mc
  by unfold_locales (rule mig_call_mono [rule_format])

subsection \<open>The routines keep it\<close>

text \<open>A call whose answer is known to be the world's.\<close>

context call_contract begin

lemma keeps_answer:
  assumes "\<And>w. allowed (insert (c (fst (g w))) E) (c (fst (g w)))"
    and "\<And>w. keeps (insert (c (fst (g w))) E) (f (fst (g w))) S"
  shows "keeps E (State_Monad.bind (operate g c) f) S"
proof (rule keeps_bind [where R = "\<lambda>a F. \<exists>w. a = fst (g w) \<and> F = insert (c a) E"])
  have e: "\<exists>w. fst (run_state (operate g c) s) = fst (g w)
      \<and> calls (snd (run_state (operate g c) s)) = calls s @ [c (fst (g w))]" for s
    by (rule exI [of _ "world s"]) (simp add: operate_def split: prod.split)
  show "keeps E (operate g c) (\<lambda>a F. \<exists>w. a = fst (g w) \<and> F = insert (c a) E)"
    unfolding keeps_def ensures_def
  proof
    fix s
    obtain w where w: "fst (run_state (operate g c) s) = fst (g w)"
        "calls (snd (run_state (operate g c) s)) = calls s @ [c (fst (g w))]" using e by blast
    show "\<exists>xs. calls (snd (run_state (operate g c) s)) = calls s @ xs
        \<and> (\<forall>x\<in>set xs. allowed (E \<union> set xs) x)
        \<and> (\<exists>w. fst (run_state (operate g c) s) = fst (g w) \<and> E \<union> set xs = insert (c (fst (run_state (operate g c) s))) E)"
      by (rule exI [of _ "[c (fst (g w))]"]) (use w assms(1) in auto)
  qed
qed (use assms(2) in blast)

end

abbreviation keeps_mig ::
  "'w cluster_api \<Rightarrow> migration_check \<Rightarrow> cluster_call set \<Rightarrow> ('w, 'a) cprog \<Rightarrow> bool" where
  "keeps_mig api mc E m \<equiv> call_contract.keeps (mig_call api mc) E m (\<lambda>_ _. True)"

lemma status_ok:
  "live (cl_lib api) mc \<Longrightarrow> mig_write (cl_lib api) mc E m \<Longrightarrow> E \<subseteq> F \<Longrightarrow> mig_call api mc F (StatusMC m r)"
  unfolding mig_call.simps by (metis mig_write_mono)

lemma report_ok:
  "live (cl_lib api) mc \<Longrightarrow> report_of (cl_lib api) mc rep i run m0 E \<Longrightarrow> answered api rep i run r \<Longrightarrow> E \<subseteq> F \<Longrightarrow>
   mig_call api mc F (Report rep i run r)"
  unfolding mig_call.simps by (metis report_of_mono)

lemma recorded_ok:
  "live (cl_lib api) mc \<Longrightarrow> report_of (cl_lib api) mc rep i run m0 E \<Longrightarrow> E \<subseteq> F \<Longrightarrow> Report rep i run (Inr cid) \<in> F \<Longrightarrow>
   mig_call api mc F (StatusMC (reported m0 cid) r)"
  unfolding mig_call.simps by (metis report_of_mono)

lemma publishReport_keeps:
  assumes l: "live (cl_lib api) mc" and s: "on_server (cl_lib api) mc m0 E"
  shows "keeps_mig api mc E (publishReport api m0)"
proof (cases "\<exists>report rep. cl_report api = Some report \<and> mcs_report (mc_spec m0) = Some rep
    \<and> mst_reported (mc_status m0) \<noteq> mst_phase (mc_status m0)")
  case True
  then obtain report rep where r: "cl_report api = Some report" "mcs_report (mc_spec m0) = Some rep"
    "mst_reported (mc_status m0) \<noteq> mst_phase (mc_status m0)" by blast
  then have e: "report_of (cl_lib api) mc rep (mst_check_run (mc_status m0)) (checkRunFor m0 rep now) m0 E" for now
    using s unfolding report_of_def by blast
  have p: "publishReport api m0 = do {
            now \<leftarrow> operate (cl_now api) ClockNow;
            r \<leftarrow> operate (report rep (mst_check_run (mc_status m0)) (checkRunFor m0 rep now))
                  (Report rep (mst_check_run (mc_status m0)) (checkRunFor m0 rep now));
            case r of
              Inl err \<Rightarrow> State_Monad.return (Some err)
            | Inr cid \<Rightarrow> do {
                u \<leftarrow> operate (cl_status_mc api (reported m0 cid)) (StatusMC (reported m0 cid));
                State_Monad.return (case u of Inl err \<Rightarrow> Some err | Inr _ \<Rightarrow> None)
              }
          }"
    using r by (simp add: publishReport_def)
  show ?thesis
    unfolding p by (intro mig.keeps_step [where c = ClockNow] mig.keeps_answer mig.keeps_step mig.keeps_rules)
      (auto intro: report_ok [OF l e] recorded_ok [OF l e] answered_at [OF r(1)])
next
  case False
  then show ?thesis
    unfolding publishReport_def by (auto intro!: mig.keeps_return split: option.split)
qed

lemma stored_on_server:
  "mig_write lib mc E m \<Longrightarrow> E \<subseteq> F \<Longrightarrow> StatusMC m (Inr m0) \<in> F \<Longrightarrow> on_server lib mc m0 F"
  unfolding on_server_def by (metis mig_write_mono)

lemma stored_keeps:
  assumes "live (cl_lib api) mc" and "mig_write (cl_lib api) mc E m"
  shows "keeps_mig api mc E (do {
           u \<leftarrow> operate (cl_status_mc api m) (StatusMC m);
           case u of Inl err \<Rightarrow> State_Monad.return (f err)
           | Inr stored \<Rightarrow> do { r \<leftarrow> publishReport api stored; State_Monad.return (g r) }
         })"
  by (intro mig.keeps_step mig.keeps_rules mig.keeps_bind [OF publishReport_keeps])
     (auto intro: status_ok [OF assms] assms stored_on_server [OF assms(2)])

lemma finish_check_keeps:
  assumes "live (cl_lib api) mc" and "\<And>now. mig_write (cl_lib api) mc E (finished mc' ph why msg now)"
  shows "keeps_mig api mc E (finish_check api mc' ph why msg)"
  unfolding finish_check_def
  by (intro mig.keeps_step stored_keeps) (auto intro: assms mig_write_mono [rule_format, of E])

lemma provision_writes:
  "marked mc mc' \<Longrightarrow> provision_write mc (provisioning mc')"
  "marked mc mc' \<Longrightarrow> provision_write mc (finished mc' (if mcs_probe (mc_spec mc) \<noteq> None then MigrationCheckExpired
     else MigrationCheckFailed) MigrationReasonCloneFailed msg now)"
  unfolding provision_write_def by blast+

lemma fail_check_keeps:
  assumes "live (cl_lib api) mc" and "mst_phase (mc_status mc) \<in> {MigrationCheckNone, MigrationCheckPending}"
    and "marked mc mc'"
  shows "keeps_mig api mc E (fail_check api mc' MigrationReasonCloneFailed err)"
proof -
  have s: "mc_spec mc' = mc_spec mc" using assms(3) by (auto simp: marked_def)
  show ?thesis
    unfolding fail_check_def s
    using assms provision_writes(2) [OF assms(3)]
    by (intro finish_check_keeps) (auto simp: mig_write_def)
qed

lemma not_ready_keeps:
  assumes "live (cl_lib api) mc" and "mst_phase (mc_status mc) = MigrationCheckProvisioning"
  shows "keeps_mig api mc E (not_ready api mc state)"
  unfolding not_ready_def using assms
  by (intro mig.keeps_step mig.keeps_rules finish_check_keeps)
     (auto simp: mig_write_def ready_write_def expires_def)

text \<open>The clone routines write unstructured objects only.\<close>

lemma clone_keeps:
  assumes l: "live (cl_lib api) mc"
  shows "keeps_mig api mc E (cloneCNPGFromSnapshot api c)"
proof (rule mig.keeps_ens [OF clone_log])
  fix r :: "goerr option" and xs x
  let ?lib = "cl_lib api"
  assume "(\<forall>x\<in>set xs. observes x \<or> (\<exists>src pvc. UGet CnpgCluster (cc_source_ns c) (cc_source c) (Inr src) \<in> set xs
          \<and> (acquire_call ?lib (with_class c) pvc (cold_allowed ?lib c src) x \<or> target_call c x)))
     \<and> (\<forall>d. UDelete VolumeSnapshot (cc_source_ns c) (source_name c) d \<in> set xs \<longrightarrow> warm c \<and> stale_seen c xs)
     \<and> (r = None \<longrightarrow> (\<exists>src meta. UGet CnpgCluster (cc_source_ns c) (cc_source c) (Inr src) \<in> set xs
          \<and> meta_read ?lib c meta xs \<and> restored ?lib (with_class c) src meta xs))" and "x \<in> set xs"
  then have "observes x \<or> (\<exists>u r. x = UCreate u r) \<or> (\<exists>u r. x = UUpdate u r) \<or> (\<exists>k a b d. x = UDelete k a b d)"
    unfolding acquire_call_def refresh_call_def take_call_def backup_call_def target_call_def by blast
  then show "mig_call api mc (E \<union> set xs) x"
    using l by (auto simp: mig_call.simps elim: observes.elims)
qed simp

lemma mark_started_keeps:
  "call_contract.keeps (mig_call api mc) E (mark_started api mc) (\<lambda>mc' _. marked mc mc')"
  unfolding mark_started_def
  by (intro mig.keeps_step mig.keeps_rules) (auto simp: marked_def)

lemma resolveSource_keeps: "keeps_mig api mc E (resolveSource api mc')"
  unfolding resolveSource_def by (intro mig.keeps_step mig.keeps_rules) auto

lemma provision_keeps:
  assumes l: "live (cl_lib api) mc"
    and ph: "mst_phase (mc_status mc) \<in> {MigrationCheckNone, MigrationCheckPending}"
  shows "keeps_mig api mc E (provision api mc)"
proof -
  have m: "clone_namespace mc' = clone_namespace mc" "mig_write (cl_lib api) mc F (provisioning mc')"
    if "marked mc mc'" for mc' F
    using provision_writes(1) [OF that] ph that
    by (auto simp: marked_def mig_write_def clone_namespace_def clone_namespace_name_def migCheckID_def)
  show ?thesis
    unfolding provision_def using ph
    by (intro stored_keeps fail_check_keeps mig.keeps_bind [OF mark_started_keeps]
          mig.keeps_bind [OF resolveSource_keeps] mig.keeps_bind [OF clone_keeps [OF l]]
          mig.keeps_step mig.keeps_rules)
       (auto simp: mig_call.simps m l)
qed

lemma ttlExpired_keeps:
  "call_contract.keeps (mig_call api mc) E (ttlExpired api mc') (\<lambda>r F. \<exists>t. ClockNow t \<in> F \<and> r = ttl_left mc' t)"
  unfolding ttlExpired_def by (intro mig.keeps_step mig.keeps_rules) auto

lemma publish_ready_keeps:
  assumes l: "live (cl_lib api) mc" and ph: "mst_phase (mc_status mc) = MigrationCheckProvisioning"
    and e: "clone_evidence (cl_lib api) mc cluster dsn E"
  shows "keeps_mig api mc E (publish_ready api mc cluster dsn)"
proof -
  have s: "mig_call api mc F (CreateSecret sec r)"
    if "E \<subseteq> F" "cl_set_owner api mc (connection_secret mc dsn) = Inr sec" for F sec r
    using l ph that(2) clone_evidence_mono [OF that(1)] e unfolding mig_call.simps by blast
  have w: "mig_call api mc F (StatusMC (clone_ready (cl_lib api) mc cluster) u)"
    if "E \<subseteq> F" "secret_there F" for F u
  proof (rule status_ok [OF l _ subset_refl])
    show "mig_write (cl_lib api) mc F (clone_ready (cl_lib api) mc cluster)"
      using that(2) clone_evidence_mono [OF that(1), rule_format, OF e]
      unfolding mig_write_def ph ready_write_def by auto
  qed
  have created: "secret_there (insert x (insert (CreateSecret sec r) E))"
    if "\<forall>e. r = Inl e \<longrightarrow> IsAlreadyExists e" for x sec r
    using that unfolding secret_there_def by blast
  show ?thesis
    unfolding publish_ready_def
    by (intro mig.keeps_step mig.keeps_rules mig.keeps_bind [OF ttlExpired_keeps])
       (auto intro!: s w intro: created split: sum.splits if_splits)
qed

lemma checkReady_keeps:
  assumes l: "live (cl_lib api) mc" and ph: "mst_phase (mc_status mc) = MigrationCheckProvisioning"
  shows "keeps_mig api mc E (checkReady api mc)"
  unfolding checkReady_def Let_def
  by (intro mig.keeps_step mig.keeps_rules not_ready_keeps [OF l ph] publish_ready_keeps [OF l ph])
     (auto simp: clone_evidence_def Let_def)

subsection \<open>Starting the probe\<close>

lemma migrationProbeJob_key [simp]:
  "job_namespace (migrationProbeJob img mc p cid) = mc_namespace mc"
  "job_name (migrationProbeJob img mc p cid) = migrationProbeJobName cid"
  by (simp_all add: migrationProbeJob_def Let_def)

lemma ensureProbeJob_keeps:
  assumes l: "live (cl_lib api) mc" and ph: "mst_phase (mc_status mc) = MigrationCheckReady"
    and p: "mcs_probe (mc_spec mc) = Some p"
    and t: "ClockNow t \<in> E" "probeBudget (Some p) \<le> snd (ttl_left mc t)"
  shows "call_contract.keeps (mig_call api mc) E
     (ensureProbeJob api (migrationProbeJob (cl_probe_image api) mc p (migCheckID mc)))
     (\<lambda>r F. \<forall>x. r = Inr x \<longrightarrow> jobs_allowed mc F)"
proof -
  let ?j = "migrationProbeJob (cl_probe_image api) mc p (migCheckID mc)"
  have j: "mig_call api mc F (CreateProbeJob ?j r)" if "E \<subseteq> F" "jobs_allowed mc F" for F r
    unfolding mig_call.simps using l ph p t that by blast
  have a: "jobs_allowed mc F" if "GetNS (mc_namespace mc) (Inr nso) \<in> F"
    "sget (ns_labels nso) MigrationCheckJobsLabel = ''true''" for nso F
    using that unfolding jobs_allowed_def by blast
  show ?thesis
    unfolding ensureProbeJob_def Let_def migrationProbeJob_key
    by (intro mig.keeps_step mig.keeps_rules) (auto intro!: j intro: a)
qed

lemma mark_probe_started_keeps:
  "call_contract.keeps (mig_call api mc) E (mark_probe_started api (running_probe mc p j)) (\<lambda>m _. probe_marked mc p m)"
  unfolding mark_probe_started_def
  by (intro mig.keeps_step mig.keeps_rules)
     (auto simp: probe_marked_def running_probe_def intro!: exI [of _ j])

lemma startProbe_keeps:
  assumes l: "live (cl_lib api) mc" and ph: "mst_phase (mc_status mc) = MigrationCheckReady"
    and p: "mcs_probe (mc_spec mc) = Some p"
  shows "keeps_mig api mc E (startProbe api mc p)"
proof -
  have w: "mig_write (cl_lib api) mc F m" if "start_write mc F m" for F m
    using that ph by (simp add: mig_write_def)
  have short: "start_write mc F (finished mc MigrationCheckExpired MigrationReasonTTLTooShort msg now)"
    if "ClockNow t \<in> F" "snd (ttl_left mc t) < probeBudget (Some p)" for t F msg now
    using that p unfolding start_write_def expires_def by blast
  have wait: "start_write mc F (with_message mc msg)" for F msg
    using p unfolding start_write_def by blast
  have go: "start_write mc F m" if "jobs_allowed mc F" "probe_marked mc p m" for F m
    using that p unfolding start_write_def by blast
  show ?thesis
    unfolding startProbe_def Let_def
  proof (intro mig.keeps_bind [OF ttlExpired_keeps] mig.keeps_if)
    fix tl F
    assume t: "\<exists>t. ClockNow t \<in> F \<and> tl = ttl_left mc t"
    {
      assume "snd tl < probeBudget (Some p)"
      then show "keeps_mig api mc F (finish_check api mc MigrationCheckExpired MigrationReasonTTLTooShort
          (dur_string (dur_round (snd tl) second) @ '' left before TTL, the probe needs ''
             @ dur_string (probeBudget (Some p))))"
        using t by (intro finish_check_keeps [OF l] w) (auto intro: short)
    next
      assume "\<not> snd tl < probeBudget (Some p)"
      then obtain t' where t': "ClockNow t' \<in> F" "probeBudget (Some p) \<le> snd (ttl_left mc t')" using t by auto
      show "keeps_mig api mc F (do {
          r \<leftarrow> ensureProbeJob api (migrationProbeJob (cl_probe_image api) mc p (migCheckID mc));
          case r of
            Inl err \<Rightarrow> State_Monad.return (res_done, Some err)
          | Inr (Inl w) \<Rightarrow> do {
              u \<leftarrow> operate (cl_status_mc api (with_message mc (pw_message w)))
                     (StatusMC (with_message mc (pw_message w)));
              State_Monad.return
                (case u of Inl err \<Rightarrow> requeueOnConflict err | Inr _ \<Rightarrow> (res_requeue_after (pw_requeue w), None))
            }
          | Inr (Inr j) \<Rightarrow> do {
              mc \<leftarrow> mark_probe_started api (running_probe mc p j);
              u \<leftarrow> operate (cl_status_mc api mc) (StatusMC mc);
              case u of
                Inl err \<Rightarrow> State_Monad.return (requeueOnConflict err)
              | Inr stored \<Rightarrow> do {
                  publishReport api stored;
                  State_Monad.return (res_requeue_after (10 * second), None)
                }
            }
        })"
        by (intro stored_keeps [OF l] w go mig.keeps_bind [OF ensureProbeJob_keeps [OF l ph p t']]
              mig.keeps_bind [OF mark_probe_started_keeps] mig.keeps_sum mig.keeps_return mig.keeps_step
              status_ok [OF l w [OF wait]])
           (auto intro: jobs_allowed_mono [rule_format])
    }
  qed
qed

subsection \<open>Judging the probe\<close>

lemma probeDeadlinePassed_keeps: "keeps_mig api mc E (probeDeadlinePassed api mc')"
  unfolding probeDeadlinePassed_def by (intro mig.keeps_step mig.keeps_rules) auto

lemma tailProbe_keeps: "keeps_mig api mc E (tailProbe api ns name)"
  unfolding tailProbe_def by (intro mig.keeps_step mig.keeps_rules) auto

lemma probeWaitingFailure_keeps:
  "call_contract.keeps (mig_call api mc) E
     (probeWaitingFailure api (mc_namespace mc) (probe_job_name mc (migCheckID mc)))
     (\<lambda>r F. stuck_seen mc r F)"
  unfolding probeWaitingFailure_def
  by (intro mig.keeps_step mig.keeps_rules) (auto simp: stuck_seen_def pods_failure_def)

lemma probe_writes:
  "stuck_seen mc (Some (why, detail)) E \<Longrightarrow> probe_write mc E (finished mc MigrationCheckExpired why msg now)"
  "probe_write mc E (finished mc MigrationCheckExpired MigrationReasonDeadlineExceeded msg now)"
  "probe_write mc E (with_message mc msg)"
  "job_seen mc JobSucceeded E \<Longrightarrow> mcs_probe (mc_spec mc) = Some p \<Longrightarrow>
     probe_write mc E (finished mc MigrationCheckPassed MigrationReasonProbePassed msg now)"
  "job_seen mc JobFailed E \<Longrightarrow> mcs_probe (mc_spec mc) = Some p \<Longrightarrow> stuck_seen mc None E \<Longrightarrow>
     probe_write mc E (finished mc MigrationCheckFailed MigrationReasonProbeFailed msg now)"
  unfolding probe_write_def expires_def by blast+

lemma checkProbe_keeps:
  assumes l: "live (cl_lib api) mc" and ph: "mst_phase (mc_status mc) = MigrationCheckRunning"
  shows "keeps_mig api mc E (checkProbe api mc)"
proof -
  let ?n = "probe_job_name mc (migCheckID mc)"
  have w: "mig_write (cl_lib api) mc F m" if "probe_write mc F m" for F m
    using that ph by (simp add: mig_write_def)
  note k = finish_check_keeps [OF l w] mig.keeps_bind [OF tailProbe_keeps]
    mig.keeps_bind [OF probeWaitingFailure_keeps] mig.keeps_bind [OF probeDeadlinePassed_keeps] mig.keeps_step
    mig.keeps_rules
  have seen2: "job_seen mc ph F \<Longrightarrow> F \<subseteq> G \<Longrightarrow> G \<subseteq> H \<Longrightarrow> job_seen mc ph H" for ph F G H
    by (metis job_seen_mono order_trans)
  have passed: "keeps_mig api mc F (probe_passed api mc ?n)" if "job_seen mc JobSucceeded F" for F
    unfolding probe_passed_def
    by (intro k) (auto intro: probe_writes that job_seen_mono [rule_format])
  have failed: "keeps_mig api mc F (probe_failed api mc ?n reason message)" if "job_seen mc JobFailed F" for F reason message
    unfolding probe_failed_def
    by (intro k) (auto intro: probe_writes seen2 [OF that])
  have stuck: "keeps_mig api mc F (probe_stuck api mc why detail)" if "stuck_seen mc (Some (why, detail)) F" for F why detail
    unfolding probe_stuck_def Let_def
    by (intro k) (auto intro: probe_writes that stuck_seen_mono [rule_format] status_ok [OF l w [OF probe_writes(3)]])
  have running: "keeps_mig api mc F (probe_running api mc ?n)" for F
    unfolding probe_running_def probe_late_def
    by (intro k stuck) (auto intro: probe_writes)
  show ?thesis
    unfolding checkProbe_def Let_def
  proof (intro mig.keeps_step mig.keeps_sum mig.keeps_if finish_check_keeps [OF l w] mig.keeps_return)
    fix jr :: "job result" and j
    assume "jr = Inr j"
    then show "keeps_mig api mc (insert (GetProbeJob (mc_namespace mc) ?n jr) E)
        (judge_job api mc ?n (JobOutcome (Some j)))"
      by (cases "JobOutcome (Some j)" rule: prod_cases3)
         (auto simp: job_seen_def judge_job_def intro!: passed failed running exI [of _ j] split: job_phase.split)
  qed (auto intro: probe_writes)
qed

subsection \<open>A whole pass\<close>

lemma terminal_pass_keeps:
  "live (cl_lib api) mc \<Longrightarrow> mc_terminal (mst_phase (mc_status mc)) \<Longrightarrow> keeps_mig api mc E (terminal_pass api mc)"
  unfolding terminal_pass_def
  by (intro mig.keeps_bind [OF publishReport_keeps] mig.keeps_return) (auto simp: on_server_def)

lemma phase_pass_keeps:
  assumes "live (cl_lib api) mc"
  shows "keeps_mig api mc E (phase_pass api mc)"
  using assms unfolding phase_pass_def
  by (cases "mst_phase (mc_status mc)")
     (auto intro!: provision_keeps checkReady_keeps checkProbe_keeps terminal_pass_keeps startProbe_keeps
        mig.keeps_bind [OF ttlExpired_keeps] mig.keeps_return split: option.split)

lemma cancelled_ok:
  "mc_deleting mc \<Longrightarrow> mcs_report (mc_spec mc) = Some rep \<Longrightarrow> mst_check_run (mc_status mc) \<noteq> 0 \<Longrightarrow>
   \<not> mc_terminal (mst_reported (mc_status mc)) \<Longrightarrow>
   answered api rep (mst_check_run (mc_status mc)) (cancelled_run (checkRunFor mc rep t) now) r \<Longrightarrow>
   mig_call api mc E (Report rep (mst_check_run (mc_status mc)) (cancelled_run (checkRunFor mc rep t) now) r)"
  unfolding mig_call.simps by blast

lemma reportCancelled_keeps:
  "mc_deleting mc \<Longrightarrow> keeps_mig api mc E (reportCancelled api mc)"
  unfolding reportCancelled_def
  by (cases "cl_report api"; cases "mcs_report (mc_spec mc)")
     (auto intro!: mig.keeps_step [where c = ClockNow] mig.keeps_answer mig.keeps_return cancelled_ok answered_at)

lemma deleteProbeJob_keeps:
  "mc_deleting mc \<Longrightarrow> call_contract.keeps (mig_call api mc) E (deleteProbeJob api mc (migCheckID mc))
     (\<lambda>r F. r = None \<longrightarrow> job_gone mc F)"
  unfolding deleteProbeJob_def Let_def
  by (intro mig.keeps_step mig.keeps_return) (auto simp: mig_call.simps job_gone_def split: option.splits)

lemma teardown_keeps:
  assumes d: "mc_deleting mc"
  shows "call_contract.keeps (mig_call api mc) E (teardown_check api mc) (\<lambda>r F. r = None \<longrightarrow> check_torn_down mc F)"
proof -
  have j: "call_contract.keeps (mig_call api mc) E
      (if mcs_probe (mc_spec mc) \<noteq> None \<or> mst_probe_job (mc_status mc) \<noteq> []
       then deleteProbeJob api mc (migCheckID mc) else State_Monad.return None)
      (\<lambda>r F. r = None \<longrightarrow> job_done mc F)"
    by (intro mig.keeps_if mig.keeps_return mig.keeps_weaken [OF deleteProbeJob_keeps [OF d]])
       (auto simp: job_done_def)
  have sec: "call_contract.keeps (mig_call api mc) F
      (whenM (mst_secret_name (mc_status mc) \<noteq> [])
         (do {
            operate (cl_delete_secret api (mc_namespace mc) (mst_secret_name (mc_status mc)))
              (DeleteSecret (mc_namespace mc) (mst_secret_name (mc_status mc)));
            State_Monad.return ()
          }))
      (\<lambda>_ F. secret_done mc F)" for F
    by (intro mig.keeps_whenM mig.keeps_step mig.keeps_return) (auto simp: mig_call.simps secret_done_def d)
  have last: "check_torn_down mc (insert y H)"
    if "job_done mc F" "F \<subseteq> G" "secret_done mc G" "ignore_not_found dn = None"
      "UDelete VolumeSnapshotContent [] (content_name mc) dc \<in> H" "DeleteNS (old_clone_ns mc) dn \<in> H" "G \<subseteq> H" for F G H dn dc y
  proof -
    have s: "F \<subseteq> insert y H" "G \<subseteq> insert y H" using that(2,7) by auto
    have "clone_done mc (insert y H)" "content_done mc (insert y H)"
      using that(4-6) unfolding clone_done_def content_done_def by auto
    moreover have "job_done mc (insert y H)" "secret_done mc (insert y H)"
      by (rule teardown_mono(1) [rule_format, OF s(1) that(1)] teardown_mono(2) [rule_format, OF s(2) that(3)])+
    ultimately show ?thesis unfolding check_torn_down_def by blast
  qed
  show ?thesis
    unfolding teardown_check_def Let_def old_clone_ns_def [symmetric] content_name_def [symmetric]
    apply (intro mig.keeps_bind [OF j] mig.keeps_bind [OF sec] mig.keeps_option mig.keeps_return
          mig.keeps_step mig.keeps_bind [OF resolveSource_keeps])
                     apply (simp_all add: mig_call.simps d)
    apply (elim conjE, rule last; assumption)
    done
qed

lemma deleted_keeps:
  assumes d: "mc_deleting mc"
  shows "keeps_mig api mc E (reconcile_deleted_check api mc)"
  unfolding reconcile_deleted_check_def Let_def using d
  by (intro mig.keeps_if mig.keeps_bind [OF reportCancelled_keeps [OF d]] mig.keeps_bind [OF teardown_keeps [OF d]]
        mig.keeps_option mig.keeps_step mig.keeps_return)
     (auto simp: mig_call.simps live_def intro: check_torn_down_mono [rule_format])

lemma finalizer_keeps:
  "\<not> mc_deleting mc \<Longrightarrow> \<not> live (cl_lib api) mc \<Longrightarrow> keeps_mig api mc E (add_check_finalizer api mc)"
  unfolding add_check_finalizer_def Let_def
  by (intro mig.keeps_step mig.keeps_return) (auto simp: mig_call.simps)

text \<open>After the check has been read, the rest of the pass keeps the contract.\<close>

lemma check_pass_keeps: "keeps_mig api mc E (check_pass api mc)"
  unfolding check_pass_def
  by (intro mig.keeps_if deleted_keeps finalizer_keeps mig.keeps_bind [OF ttlExpired_keeps] mig.keeps_step
        mig.keeps_return phase_pass_keeps)
     (auto simp: live_def mig_call.simps)

text \<open>The log of a whole pass: the check is read once, and what follows keeps the contract for it.\<close>

definition pass_log :: "'w cluster_api \<Rightarrow> string \<Rightarrow> string \<Rightarrow> cluster_call list \<Rightarrow> bool" where
  "pass_log api ns name xs \<longleftrightarrow>
     (\<exists>err. xs = [GetMC ns name (Inl err)])
     \<or> (\<exists>mc rest. xs = GetMC ns name (Inr mc) # rest \<and> (\<forall>x\<in>set rest. mig_call api mc (set xs) x))"

lemma MigrationReconcile_log: "ensures (MigrationReconcile api ns name) (\<lambda>_ xs. pass_log api ns name xs)"
  unfolding MigrationReconcile_def
proof (rule ens_bind, rule ens_operate, rule ens_sum)
  fix got err
  assume "got = (Inl err :: migration_check result)"
  then show "ensures (State_Monad.return (res_done, ignore_not_found (Some err)))
      (\<lambda>_ ys. pass_log api ns name ([GetMC ns name got] @ ys))"
    by (auto simp: pass_log_def intro!: ens_return)
next
  fix got mc
  assume g: "got = (Inr mc :: migration_check result)"
  show "ensures (check_pass api mc) (\<lambda>_ ys. pass_log api ns name ([GetMC ns name got] @ ys))"
    by (rule ens_weaken [OF check_pass_keeps [of api mc "{GetMC ns name got}", unfolded mig.keeps_def]])
       (auto simp: pass_log_def g)
qed

lemma pass_head:
  assumes "run_in (MigrationReconcile api ns name) w = (res, xs)" and "GetMC ns name (Inr mc) \<in> set xs"
  shows "\<exists>rest. xs = GetMC ns name (Inr mc) # rest \<and> (\<forall>x\<in>set rest. mig_call api mc (set xs) x)"
proof -
  have p: "pass_log api ns name xs" by (rule ens_run_in [OF MigrationReconcile_log assms(1)])
  then obtain mc' rest where xs: "xs = GetMC ns name (Inr mc') # rest"
    and ok: "\<And>y. y \<in> set rest \<Longrightarrow> mig_call api mc' (set xs) y"
    using assms(2) unfolding pass_log_def by auto
  have "mc' = mc"
    using assms(2) ok [of "GetMC ns name (Inr mc)"] xs by (auto simp: mig_call.simps)
  then show ?thesis using ok xs by auto
qed

lemma pass_call:
  assumes "run_in (MigrationReconcile api ns name) w = (res, xs)" and "GetMC ns name (Inr mc) \<in> set xs"
    and "x \<in> set xs" and "\<And>a b r. x \<noteq> GetMC a b r"
  shows "mig_call api mc (set xs) x"
  using pass_head [OF assms(1,2)] assms(3,4) by auto

lemma pass_reads:
  assumes "run_in (MigrationReconcile api ns name) w = (res, xs)" and "x \<in> set xs"
    and "\<And>a b r. x \<noteq> GetMC a b r"
  obtains mc where "GetMC ns name (Inr mc) \<in> set xs"
  using ens_run_in [OF MigrationReconcile_log assms(1)] assms(2,3) unfolding pass_log_def by fastforce

end
