(* ===== verification/Migration_State.thy ===== *)
theory Migration_State
  imports Migration_Log Verdicts
begin

section \<open>The life of a MigrationCheck\<close>

text \<open>
  The states a check goes through and the documented machine they follow, the invariant of every
  reachable state, and the contract of a verdict, which the reconciler fulfils.
\<close>

subsection \<open>The states of a check\<close>

text \<open>A status update that succeeds stores what was sent, and returns it.\<close>

definition stored_as_sent :: "cluster_call list \<Rightarrow> bool" where
  "stored_as_sent xs \<longleftrightarrow> (\<forall>m s. StatusMC m (Inr s) \<in> set xs \<longrightarrow> s = m)"

lemma pass_status_write:
  assumes "run_in (MigrationReconcile api ns name) w = (res, xs)" and "stored_as_sent xs"
    and "GetMC ns name (Inr mc) \<in> set xs" and "StatusMC m r \<in> set xs"
  shows "live (cl_lib api) mc \<and> (mig_write (cl_lib api) mc (set xs) m
     \<or> (\<exists>m0 cid. m = reported m0 cid
          \<and> (m0 = mc \<and> mc_terminal (mst_phase (mc_status mc)) \<or> mig_write (cl_lib api) mc (set xs) m0)))"
proof -
  have "mig_call api mc (set xs) (StatusMC m r)" by (rule pass_call [OF assms(1,3,4)]) simp
  moreover have "m0 = mc \<and> mc_terminal (mst_phase (mc_status mc)) \<or> mig_write (cl_lib api) mc (set xs) m0"
    if "on_server (cl_lib api) mc m0 (set xs)" for m0
    using that assms(2) unfolding on_server_def stored_as_sent_def by blast
  ultimately show ?thesis unfolding mig_call.simps report_of_def by blast
qed

text \<open>
  The states a check goes through: a pass's status writes, and, by other writers, edits of the spec
  and of the metadata. The status subresource belongs to the reconciler.
\<close>

inductive mc_step :: "'w cluster_api \<Rightarrow> migration_check \<Rightarrow> migration_check \<Rightarrow> bool" for api where
  pass: "run_in (MigrationReconcile api ns name) w = (res, xs) \<Longrightarrow> stored_as_sent xs \<Longrightarrow>
     GetMC ns name (Inr mc) \<in> set xs \<Longrightarrow> StatusMC m (Inr m) \<in> set xs \<Longrightarrow> mc_step api mc m"
| edit: "mc_step api mc (mc\<lparr>mc_spec := s\<rparr>)"
| meta: "mc_step api mc (mc\<lparr>mc_deleting := d, mc_finalizers := f\<rparr>)"

definition mc_fresh :: "migration_check \<Rightarrow> bool" where
  "mc_fresh mc \<longleftrightarrow> mst_phase (mc_status mc) = MigrationCheckNone
     \<and> mst_reported (mc_status mc) = MigrationCheckNone \<and> mst_completed (mc_status mc) = None
     \<and> mst_secret_name (mc_status mc) = [] \<and> mst_started (mc_status mc) = None"

inductive mc_reachable :: "'w cluster_api \<Rightarrow> migration_check \<Rightarrow> bool" for api where
  fresh: "mc_fresh mc \<Longrightarrow> mc_reachable api mc"
| step: "mc_reachable api mc \<Longrightarrow> mc_step api mc m \<Longrightarrow> mc_reachable api m"

subsection \<open>The machine it implements\<close>

text \<open>The documented life of a check, by its phases only.\<close>

inductive phase_next :: "mc_phase \<Rightarrow> mc_phase \<Rightarrow> bool" where
  "ph \<in> {MigrationCheckNone, MigrationCheckPending} \<Longrightarrow>
     ph' \<in> {MigrationCheckProvisioning, MigrationCheckFailed, MigrationCheckExpired} \<Longrightarrow> phase_next ph ph'"
| "ph' \<in> {MigrationCheckReady, MigrationCheckExpired} \<Longrightarrow> phase_next MigrationCheckProvisioning ph'"
| "ph' \<in> {MigrationCheckRunning, MigrationCheckExpired} \<Longrightarrow> phase_next MigrationCheckReady ph'"
| "ph' \<in> {MigrationCheckPassed, MigrationCheckFailed, MigrationCheckExpired} \<Longrightarrow>
     phase_next MigrationCheckRunning ph'"

inductive_simps phase_next_simps: "phase_next ph ph'"

lemma reported_sel [simp]:
  "mst_phase (mc_status (reported m cid)) = mst_phase (mc_status m)"
  "mst_reason (mc_status (reported m cid)) = mst_reason (mc_status m)"
  "mst_message (mc_status (reported m cid)) = mst_message (mc_status m)"
  "mst_completed (mc_status (reported m cid)) = mst_completed (mc_status m)"
  "mst_started (mc_status (reported m cid)) = mst_started (mc_status m)"
  "mst_secret_name (mc_status (reported m cid)) = mst_secret_name (mc_status m)"
  "mst_secret_ns (mc_status (reported m cid)) = mst_secret_ns (mc_status m)"
  "mst_reported (mc_status (reported m cid)) = mst_phase (mc_status m)"
  "mst_check_run (mc_status (reported m cid)) = cid"
  "mc_spec (reported m cid) = mc_spec m" "mc_name (reported m cid) = mc_name m"
  "mc_namespace (reported m cid) = mc_namespace m"
  by (simp_all add: reported_def)

lemma finished_sel [simp]:
  "mst_phase (mc_status (finished m ph why msg now)) = ph"
  "mst_reason (mc_status (finished m ph why msg now)) = why"
  "mst_completed (mc_status (finished m ph why msg now)) = Some now"
  "mst_started (mc_status (finished m ph why msg now)) = mst_started (mc_status m)"
  "mst_secret_name (mc_status (finished m ph why msg now)) = mst_secret_name (mc_status m)"
  "mst_secret_ns (mc_status (finished m ph why msg now)) = mst_secret_ns (mc_status m)"
  "mst_reported (mc_status (finished m ph why msg now)) = mst_reported (mc_status m)"
  "mc_spec (finished m ph why msg now) = mc_spec m" "mc_name (finished m ph why msg now) = mc_name m"
  "mc_namespace (finished m ph why msg now) = mc_namespace m"
  by (simp_all add: finished_def)

lemma provisioning_sel [simp]:
  "mst_phase (mc_status (provisioning m)) = MigrationCheckProvisioning"
  "mst_reason (mc_status (provisioning m)) = MigrationReasonProvisioning"
  "mst_completed (mc_status (provisioning m)) = mst_completed (mc_status m)"
  "mst_started (mc_status (provisioning m)) = mst_started (mc_status m)"
  "mst_reported (mc_status (provisioning m)) = mst_reported (mc_status m)"
  "mc_spec (provisioning m) = mc_spec m" "mc_name (provisioning m) = mc_name m"
  "mc_namespace (provisioning m) = mc_namespace m"
  by (simp_all add: provisioning_def)

lemma clone_ready_sel [simp]:
  "mst_phase (mc_status (clone_ready lib m c)) = MigrationCheckReady"
  "mst_reason (mc_status (clone_ready lib m c)) = MigrationReasonReady"
  "mst_completed (mc_status (clone_ready lib m c)) = mst_completed (mc_status m)"
  "mst_started (mc_status (clone_ready lib m c)) = mst_started (mc_status m)"
  "mst_reported (mc_status (clone_ready lib m c)) = mst_reported (mc_status m)"
  "mst_secret_name (mc_status (clone_ready lib m c)) = mc_name m @ ''-db''"
  "mst_secret_ns (mc_status (clone_ready lib m c)) = mc_namespace m"
  "mc_spec (clone_ready lib m c) = mc_spec m" "mc_name (clone_ready lib m c) = mc_name m"
  "mc_namespace (clone_ready lib m c) = mc_namespace m"
  by (simp_all add: clone_ready_def Let_def)

lemma with_message_sel [simp]:
  "mst_phase (mc_status (with_message m msg)) = mst_phase (mc_status m)"
  "mst_reason (mc_status (with_message m msg)) = mst_reason (mc_status m)"
  "mst_completed (mc_status (with_message m msg)) = mst_completed (mc_status m)"
  "mst_started (mc_status (with_message m msg)) = mst_started (mc_status m)"
  "mst_reported (mc_status (with_message m msg)) = mst_reported (mc_status m)"
  "mst_secret_name (mc_status (with_message m msg)) = mst_secret_name (mc_status m)"
  "mst_secret_ns (mc_status (with_message m msg)) = mst_secret_ns (mc_status m)"
  "mc_spec (with_message m msg) = mc_spec m" "mc_name (with_message m msg) = mc_name m"
  "mc_namespace (with_message m msg) = mc_namespace m"
  by (simp_all add: with_message_def)

lemma probe_marked_sel:
  "probe_marked mc p m \<Longrightarrow> mst_phase (mc_status m) = MigrationCheckRunning
     \<and> mst_reason (mc_status m) = MigrationReasonProbeRunning
     \<and> mst_completed (mc_status m) = mst_completed (mc_status mc)
     \<and> mst_started (mc_status m) = mst_started (mc_status mc)
     \<and> mst_reported (mc_status m) = mst_reported (mc_status mc)
     \<and> mst_secret_name (mc_status m) = mst_secret_name (mc_status mc)
     \<and> mst_secret_ns (mc_status m) = mst_secret_ns (mc_status mc)
     \<and> mc_spec m = mc_spec mc \<and> mc_name m = mc_name mc \<and> mc_namespace m = mc_namespace mc"
  by (auto simp: probe_marked_def running_probe_def)

lemma marked_sel:
  "marked mc m \<Longrightarrow> mst_started (mc_status m) \<noteq> None \<and> mst_completed (mc_status m) = mst_completed (mc_status mc)
     \<and> mst_reported (mc_status m) = mst_reported (mc_status mc)
     \<and> mc_spec m = mc_spec mc \<and> mc_name m = mc_name mc \<and> mc_namespace m = mc_namespace mc"
  by (auto simp: marked_def)

fun reason_fits :: "mc_phase \<Rightarrow> mc_reason \<Rightarrow> bool" where
  "reason_fits MigrationCheckProvisioning why \<longleftrightarrow> why = MigrationReasonProvisioning"
| "reason_fits MigrationCheckReady why \<longleftrightarrow> why = MigrationReasonReady"
| "reason_fits MigrationCheckRunning why \<longleftrightarrow> why = MigrationReasonProbeRunning"
| "reason_fits MigrationCheckPassed why \<longleftrightarrow> why = MigrationReasonProbePassed"
| "reason_fits MigrationCheckFailed why \<longleftrightarrow> why \<in> {MigrationReasonCloneFailed, MigrationReasonProbeFailed}"
| "reason_fits MigrationCheckExpired why \<longleftrightarrow>
     why \<in> {MigrationReasonCloneFailed, MigrationReasonCloneNotReady, MigrationReasonTTLTooShort,
       MigrationReasonImageUnavailable, MigrationReasonPodNotStarted, MigrationReasonDeadlineExceeded}"
| "reason_fits _ _ \<longleftrightarrow> True"

definition mc_inv :: "migration_check \<Rightarrow> bool" where
  "mc_inv mc \<longleftrightarrow>
     (let st = mc_status mc in
      (mst_completed st \<noteq> None \<longleftrightarrow> mc_terminal (mst_phase st))
      \<and> (mst_phase st \<notin> {MigrationCheckNone, MigrationCheckPending} \<longrightarrow> mst_started st \<noteq> None)
      \<and> (mst_phase st \<in> {MigrationCheckReady, MigrationCheckRunning, MigrationCheckPassed} \<longrightarrow>
           mst_secret_name st = mc_name mc @ ''-db'' \<and> mst_secret_ns st = mc_namespace mc)
      \<and> reason_fits (mst_phase st) (mst_reason st)
      \<and> (mc_terminal (mst_reported st) \<longrightarrow> mst_reported st = mst_phase st))"

lemma waiting_failure_reason:
  "waiting_failure cs = Some (why, detail) \<Longrightarrow> why \<in> {MigrationReasonImageUnavailable, MigrationReasonPodNotStarted}"
  by (auto simp: waiting_failure_def split: option.splits if_splits)

lemma first_failure_reason:
  "first_failure css = Some (why, detail) \<Longrightarrow> why \<in> {MigrationReasonImageUnavailable, MigrationReasonPodNotStarted}"
  by (induction css) (auto dest: waiting_failure_reason split: option.splits)

lemma pods_failure_reason:
  "pods_failure r = Some (why, detail) \<Longrightarrow> why \<in> {MigrationReasonImageUnavailable, MigrationReasonPodNotStarted}"
  by (cases r) (auto simp: pods_failure_def dest: first_failure_reason)

lemma stuck_reason:
  "stuck_seen mc (Some (why, detail)) E \<Longrightarrow> why \<in> {MigrationReasonImageUnavailable, MigrationReasonPodNotStarted}"
  unfolding stuck_seen_def by (elim exE conjE) (rule pods_failure_reason)

text \<open>Every status a pass decides keeps the invariant and moves along the documented life.\<close>

lemma provision_step:
  assumes "provision_write mc m" and "mst_phase (mc_status mc) \<in> {MigrationCheckNone, MigrationCheckPending}"
    and "mc_inv mc"
  shows "mc_inv m \<and> phase_next (mst_phase (mc_status mc)) (mst_phase (mc_status m))"
proof -
  obtain mc' where mc': "marked mc mc'" and m: "m = provisioning mc'
      \<or> (\<exists>msg now. m = finished mc' (if mcs_probe (mc_spec mc) \<noteq> None then MigrationCheckExpired
            else MigrationCheckFailed) MigrationReasonCloneFailed msg now)"
    using assms(1) unfolding provision_write_def by blast
  note s = marked_sel [OF mc']
  from m show ?thesis
  proof (elim disjE exE)
    assume "m = provisioning mc'"
    then show ?thesis using s assms(2,3) by (auto simp: mc_inv_def Let_def phase_next_simps)
  next
    fix msg now
    assume "m = finished mc' (if mcs_probe (mc_spec mc) \<noteq> None then MigrationCheckExpired
            else MigrationCheckFailed) MigrationReasonCloneFailed msg now"
    then show ?thesis using s assms(2,3)
      by (cases "mcs_probe (mc_spec mc)") (auto simp: mc_inv_def Let_def phase_next_simps)
  qed
qed

lemma ready_step:
  assumes "ready_write lib mc E m" and "mst_phase (mc_status mc) = MigrationCheckProvisioning" and "mc_inv mc"
  shows "mc_inv m \<and> phase_next (mst_phase (mc_status mc)) (mst_phase (mc_status m))"
  using assms by (auto simp: ready_write_def expires_def mc_inv_def Let_def phase_next_simps)

lemma start_step:
  assumes "start_write mc E m" and "mst_phase (mc_status mc) = MigrationCheckReady" and "mc_inv mc"
  shows "mc_inv m \<and> (mst_phase (mc_status m) = mst_phase (mc_status mc)
    \<or> phase_next (mst_phase (mc_status mc)) (mst_phase (mc_status m)))"
  using assms by (auto simp: start_write_def expires_def mc_inv_def Let_def phase_next_simps dest!: probe_marked_sel)

lemma probe_step:
  assumes "probe_write mc E m" and "mst_phase (mc_status mc) = MigrationCheckRunning" and "mc_inv mc"
  shows "mc_inv m \<and> (mst_phase (mc_status m) = mst_phase (mc_status mc)
    \<or> phase_next (mst_phase (mc_status mc)) (mst_phase (mc_status m)))"
  using assms by (auto simp: probe_write_def expires_def mc_inv_def Let_def phase_next_simps dest: stuck_reason)

lemma mig_write_step:
  assumes "mig_write lib mc E m" and "mc_inv mc"
  shows "mc_inv m \<and> \<not> mc_terminal (mst_phase (mc_status mc)) \<and> (mst_phase (mc_status m) = mst_phase (mc_status mc)
    \<or> phase_next (mst_phase (mc_status mc)) (mst_phase (mc_status m)))"
  using assms provision_step [OF _ _ assms(2), of m] ready_step [OF _ _ assms(2), of lib E m]
    start_step [OF _ _ assms(2), of E m] probe_step [OF _ _ assms(2), of E m]
  by (cases "mst_phase (mc_status mc)") (simp_all add: mig_write_def)

lemma pass_step:
  assumes "run_in (MigrationReconcile api ns name) w = (res, xs)" and "stored_as_sent xs"
    and "GetMC ns name (Inr mc) \<in> set xs" and "StatusMC m r \<in> set xs" and i: "mc_inv mc"
  shows "mc_inv m \<and> (mst_phase (mc_status m) = mst_phase (mc_status mc)
    \<or> phase_next (mst_phase (mc_status mc)) (mst_phase (mc_status m)))"
proof -
  have rep: "mc_inv (reported m0 cid)" if "mc_inv m0" for m0 cid
    using that by (auto simp: mc_inv_def Let_def)
  show ?thesis
    using pass_status_write [OF assms(1-4)] mig_write_step [OF _ i] rep i by (elim conjE disjE exE) auto
qed

lemma mc_inv_reachable: "mc_reachable api mc \<Longrightarrow> mc_inv mc"
proof (induction rule: mc_reachable.induct)
  case (fresh mc)
  then show ?case by (simp add: mc_fresh_def mc_inv_def Let_def)
next
  case (step mc m)
  from step.hyps(2) step.IH show ?case
  proof (induction rule: mc_step.induct)
    case (pass ns name w res xs mc m)
    show ?case by (rule conjunct1 [OF pass_step [OF pass.hyps pass.prems]])
  qed (simp_all add: mc_inv_def Let_def)
qed

lemma terminal_kept:
  assumes "mc_step api mc m" and "mc_terminal (mst_phase (mc_status mc))"
  shows "mc_terminal (mst_phase (mc_status m)) \<and>
     (mst_phase (mc_status m), mst_reason (mc_status m), mst_message (mc_status m), mst_completed (mc_status m))
     = (mst_phase (mc_status mc), mst_reason (mc_status mc), mst_message (mc_status mc), mst_completed (mc_status mc))"
  using assms
proof (induction rule: mc_step.induct)
  case (pass ns name w res xs mc m)
  have "\<not> mig_write (cl_lib api) mc (set xs) m0" for m0
    using pass.prems by (cases "mst_phase (mc_status mc)") (simp_all add: mig_write_def)
  then show ?case
    using pass_status_write [OF pass.hyps] pass.prems by auto
qed simp_all

interpretation migration_verdict: verdict_machine "mc_step api" "\<lambda>mc. mc_terminal (mst_phase (mc_status mc))"
  "\<lambda>mc. (mst_phase (mc_status mc), mst_reason (mc_status mc), mst_message (mc_status mc), mst_completed (mc_status mc))"
  for api
  by unfold_locales (rule terminal_kept)

end
