(* ===== verification/Migration_Demo.thy ===== *)
theory Migration_Demo
  imports Migration_State Cluster_Demo
begin

section \<open>A MigrationCheck to evaluate the reconciler on\<close>

definition probe_demo :: mig_probe where
  "probe_demo = \<lparr>mp_image = ''app:1'', mp_command = [], mp_args = [], mp_port = 8080,
     mp_ready_path = ''/ready'', mp_expect = [], mp_run_as_user = None, mp_env = [(''MODE'', ''migrate'')],
     mp_timeout = 0\<rparr>"

definition mc_spec_demo :: mc_spec_t where
  "mc_spec_demo = \<lparr>mcs_app = ''app'', mcs_cluster = ''pg'', mcs_cluster_ns = ''postgres'', mcs_database = [],
     mcs_ttl = 0, mcs_ready_timeout = 0, mcs_probe = Some probe_demo, mcs_report = None\<rparr>"

definition mc_demo :: "mc_phase \<Rightarrow> migration_check" where
  "mc_demo ph = \<lparr>mc_name = ''mc'', mc_namespace = ''ns'', mc_uid = ''u1'', mc_created = 0, mc_deleting = False,
     mc_finalizers = [migrationCheckFinalizer], mc_spec = mc_spec_demo,
     mc_status = \<lparr>mst_phase = ph, mst_reason = MigrationReasonNone, mst_message = [],
       mst_secret_name = ''mc-db'', mst_secret_ns = ''ns'', mst_clone_ns = ''clone'', mst_clone_image = [],
       mst_expires = None, mst_started = Some 0, mst_probe_job = ''job'', mst_probe_started = Some 0,
       mst_completed = None, mst_check_run = 0, mst_reported = MigrationCheckNone\<rparr>\<rparr>"

definition job_demo :: "int \<Rightarrow> int \<Rightarrow> job" where
  "job_demo succeeded failed =
     (migrationProbeJob ''curl'' (mc_demo MigrationCheckReady) probe_demo ''u1'')\<lparr>job_succeeded := succeeded, job_failed := failed\<rparr>"

definition ns_labelled :: namespace where
  "ns_labelled = \<lparr>ns_name = ''ns'', ns_deleting = False,
     ns_labels = [(''preview.homelab.io/migration-check-jobs'', ''true'')], ns_annotations = []\<rparr>"

definition cw_mig :: "migration_check \<Rightarrow> job result \<Rightarrow> cluster_world" where
  "cw_mig mc j = (cw_demo [])\<lparr>cw_mc := Inr mc, cw_job := j, cw_ns := Inr ns_labelled, cw_time := minute\<rparr>"

lemma mc_demo_sel [run_simps]:
  "mc_name (mc_demo ph) = ''mc''" "mc_namespace (mc_demo ph) = ''ns''" "mc_created (mc_demo ph) = 0"
  "mc_deleting (mc_demo ph) = False" "mc_finalizers (mc_demo ph) = [migrationCheckFinalizer]"
  "mc_spec (mc_demo ph) = mc_spec_demo" "mst_phase (mc_status (mc_demo ph)) = ph"
  "mst_probe_job (mc_status (mc_demo ph)) = ''job''" "mst_probe_started (mc_status (mc_demo ph)) = Some 0"
  "mst_started (mc_status (mc_demo ph)) = Some 0" "mst_completed (mc_status (mc_demo ph)) = None"
  "mst_clone_ns (mc_status (mc_demo ph)) = ''clone''" "mst_secret_name (mc_status (mc_demo ph)) = ''mc-db''"
  "mst_message (mc_status (mc_demo ph)) = []" "mst_reported (mc_status (mc_demo ph)) = MigrationCheckNone"
  "migCheckID (mc_demo ph) = ''u1''"
  by (simp_all add: mc_demo_def migCheckID_def replace_all_char)

lemma mc_spec_demo_sel [run_simps]:
  "mcs_app mc_spec_demo = ''app''" "mcs_cluster mc_spec_demo = ''pg''" "mcs_cluster_ns mc_spec_demo = ''postgres''"
  "mcs_database mc_spec_demo = []" "mcs_ttl mc_spec_demo = 0" "mcs_ready_timeout mc_spec_demo = 0"
  "mcs_probe mc_spec_demo = Some probe_demo" "mcs_report mc_spec_demo = None"
  by (simp_all add: mc_spec_demo_def)

lemma cw_mig_sel [run_simps]:
  "cw_mc (cw_mig mc j) = Inr mc" "cw_job (cw_mig mc j) = j" "cw_ns (cw_mig mc j) = Inr ns_labelled"
  "cw_time (cw_mig mc j) = minute" "cw_pods (cw_mig mc j) = []" "cw_objs (cw_mig mc j) = []"
  "cw_report (cw_mig mc j) = Inr 7"
  by (simp_all add: cw_mig_def cw_demo_def)

lemma job_demo_sel [run_simps]:
  "JobOutcome (Some (job_demo 1 0)) = (JobSucceeded, [], [])"
  "JobOutcome (Some (job_demo 0 1)) = (JobFailed, ''BackoffLimitExceeded'', ''job pods failed'')"
  "job_deleting (job_demo n k) = False" "job_name (job_demo n k) = ''migration-probe-u1''"
  by (simp_all add: job_demo_def JobOutcome_def migrationProbeJob_def migrationProbeJobName_def Let_def)

lemma finalizer_demo [run_simps]: "lib_contains_finalizer klib_demo fs f \<longleftrightarrow> f \<in> set fs"
  "lib_remove_finalizer klib_demo fs f = filter (\<lambda>g. g \<noteq> f) fs"
  by (simp_all add: klib_demo_def)

lemma ttl_demo [run_simps]: "ttl_left (mc_demo ph) 60000000000 = (False, 3540000000000)"
  by (simp add: ttl_left_def mc_ttl_def run_simps time_sub_def sat64_id dur_seconds_def wrap64_id Let_def)

lemmas migration_defs = MigrationReconcile_def check_pass_def phase_pass_def checkProbe_def judge_job_def probe_passed_def probe_failed_def
  finish_check_def tailProbe_def ttlExpired_def publishReport_def probeWaitingFailure_def probe_job_name_def

lemma demo_passed:
  "\<exists>msg. run_in (MigrationReconcile cl_demo ''ns'' ''mc'') (cw_mig (mc_demo MigrationCheckRunning) (Inr (job_demo 1 0)))
     = ((res_done, None),
        [GetMC ''ns'' ''mc'' (Inr (mc_demo MigrationCheckRunning)), ClockNow minute,
         GetProbeJob ''ns'' ''job'' (Inr (job_demo 1 0)), ClockNow minute,
         StatusMC (finished (mc_demo MigrationCheckRunning) MigrationCheckPassed MigrationReasonProbePassed msg minute)
           (Inr (finished (mc_demo MigrationCheckRunning) MigrationCheckPassed MigrationReasonProbePassed msg minute))])"
  by (simp add: migration_defs run_simps Let_def) (rule exI, rule refl)

lemma demo_failed:
  "\<exists>msg. run_in (MigrationReconcile cl_demo ''ns'' ''mc'') (cw_mig (mc_demo MigrationCheckRunning) (Inr (job_demo 0 1)))
     = ((res_done, None),
        [GetMC ''ns'' ''mc'' (Inr (mc_demo MigrationCheckRunning)), ClockNow minute,
         GetProbeJob ''ns'' ''job'' (Inr (job_demo 0 1)), ListJobPods ''ns'' ''job'' (Inr []), ClockNow minute,
         StatusMC (finished (mc_demo MigrationCheckRunning) MigrationCheckFailed MigrationReasonProbeFailed msg minute)
           (Inr (finished (mc_demo MigrationCheckRunning) MigrationCheckFailed MigrationReasonProbeFailed msg minute))])"
  by (simp add: migration_defs run_simps Let_def) (rule exI, rule refl)

lemma budget_demo [run_simps]: "probeBudget (Some probe_demo) = 1380000000000"
  by (simp add: probeBudget_def probeTimeout_def probe_demo_def wrap64_id)

lemma label_demo [run_simps]: "sget (ns_labels ns_labelled) MigrationCheckJobsLabel = ''true''"
  by (simp add: ns_labelled_def sget_def MigrationCheckJobsLabel_def)

abbreviation job_wanted :: job where
  "job_wanted \<equiv> migrationProbeJob ''curl'' (mc_demo MigrationCheckReady) probe_demo ''u1''"

definition running_demo :: migration_check where
  "running_demo = running_probe (mc_demo MigrationCheckReady) probe_demo job_wanted"

lemma running_demo_sel [run_simps]:
  "mst_probe_started (mc_status running_demo) = Some 0" "mc_spec running_demo = mc_spec_demo"
  "mst_phase (mc_status running_demo) = MigrationCheckRunning"
  by (simp_all add: running_demo_def running_probe_def run_simps)

lemma missing_demo [run_simps]: "IsNotFound cl_missing" "\<not> IsAlreadyExists cl_missing"
  by (simp_all add: cl_missing_def IsNotFound_def IsAlreadyExists_def)

lemma demo_started:
  "run_in (MigrationReconcile cl_demo ''ns'' ''mc'') (cw_mig (mc_demo MigrationCheckReady) (Inl cl_missing))
     = ((res_requeue_after (10 * second), None),
        [GetMC ''ns'' ''mc'' (Inr (mc_demo MigrationCheckReady)), ClockNow minute, ClockNow minute,
         GetNS ''ns'' (Inr ns_labelled), GetProbeJob ''ns'' ''migration-probe-u1'' (Inl cl_missing),
         CreateProbeJob job_wanted (Inr job_wanted), StatusMC running_demo (Inr running_demo)])"
  by (simp add: migration_defs startProbe_def ensureProbeJob_def mark_probe_started_def migrationProbeJobName_def
      run_simps Let_def running_demo_def [symmetric])

definition settled_demo :: uobj where
  "settled_demo = status_obj CnpgCluster ''migcheck-u1'' 0 [(''imageName'', JStr ''pg:16'')]
     [(''readyInstances'', JInt 1), (''phase'', JStr ''Cluster in healthy state'')]"

definition su_demo :: secret where
  "su_demo = \<lparr>sec_name = ''migcheck-u1-superuser'', sec_namespace = ''clone'', sec_labels = [], sec_type = ''Opaque'',
     sec_string_data = [], sec_data = [(''username'', ''postgres''), (''password'', ''p@ss'')], sec_owners = []\<rparr>"

definition cw_settled :: cluster_world where
  "cw_settled = (cw_mig (mc_demo MigrationCheckProvisioning) (Inl cl_missing))
     \<lparr>cw_objs := [settled_demo], cw_endpoints := Inr [[''10.0.0.1'']], cw_secret := Inr su_demo\<rparr>"

lemma cw_settled_sel [run_simps]:
  "cw_mc cw_settled = Inr (mc_demo MigrationCheckProvisioning)" "cw_time cw_settled = minute"
  "cw_objs cw_settled = [settled_demo]" "cw_endpoints cw_settled = Inr [[''10.0.0.1'']]"
  "cw_secret cw_settled = Inr su_demo"
  by (simp_all add: cw_settled_def run_simps)

lemma settled_demo_sel [run_simps]:
  "u_gvk settled_demo = CnpgCluster" "u_name settled_demo = ''migcheck-u1''"
  "fst (cnpgClusterSettled klib_demo settled_demo)"
  "sget (sec_data su_demo) ''username'' = ''postgres''" "sget (sec_data su_demo) ''password'' = ''p@ss''"
  by (simp_all add: settled_demo_def status_obj_def su_demo_def sget_def cnpgClusterSettled_def cnpgPhaseHealthy_def
      klib_demo_def json_path.simps Let_def)

lemma demo_ready:
  "StatusMC (clone_ready klib_demo (mc_demo MigrationCheckProvisioning) settled_demo)
      (Inr (clone_ready klib_demo (mc_demo MigrationCheckProvisioning) settled_demo))
     \<in> set (snd (run_in (MigrationReconcile cl_demo ''ns'' ''mc'') cw_settled))"
  "GetMC ''ns'' ''mc'' (Inr (mc_demo MigrationCheckProvisioning))
     \<in> set (snd (run_in (MigrationReconcile cl_demo ''ns'' ''mc'') cw_settled))"
  "stored_as_sent (snd (run_in (MigrationReconcile cl_demo ''ns'' ''mc'') cw_settled))"
  by (simp_all add: stored_as_sent_def migration_defs checkReady_def publish_ready_def endpointsReady_def run_simps Let_def)

definition gone_demo :: migration_check where
  "gone_demo = (mc_demo MigrationCheckRunning)\<lparr>mc_deleting := True\<rparr>"

lemma gone_demo_sel [run_simps]:
  "mc_deleting gone_demo = True" "mc_finalizers gone_demo = [migrationCheckFinalizer]"
  "mc_spec gone_demo = mc_spec_demo" "mc_status gone_demo = mc_status (mc_demo MigrationCheckRunning)"
  "mc_namespace gone_demo = ''ns''" "migCheckID gone_demo = ''u1''"
  by (simp_all add: gone_demo_def run_simps)
     (simp add: migCheckID_def mc_demo_def replace_all_char)

lemma demo_torn:
  "UpdateMC (gone_demo\<lparr>mc_finalizers := []\<rparr>) (Inr (gone_demo\<lparr>mc_finalizers := []\<rparr>))
     \<in> set (snd (run_in (MigrationReconcile cl_demo ''ns'' ''mc'') (cw_mig gone_demo (Inl cl_missing))))"
  "GetMC ''ns'' ''mc'' (Inr gone_demo)
     \<in> set (snd (run_in (MigrationReconcile cl_demo ''ns'' ''mc'') (cw_mig gone_demo (Inl cl_missing))))"
  by (simp_all add: migration_defs reconcile_deleted_check_def reportCancelled_def teardown_check_def deleteProbeJob_def
      resolveSource_def ignore_not_found_def checked_source_def run_simps Let_def)

end
