(* ===== verification/Migration_Run.thy ===== *)
theory Migration_Run
  imports Migration_Demo
begin

section \<open>What the MigrationCheck reconciler guarantees\<close>

text \<open>
  The properties of the reconcile loop, each with a run of it on a small cluster: what a verdict rests
  on, that it is final, the consistency of the status, the documented life it refines, the truth of
  what it reports, and the confinement and teardown of what it creates.
\<close>

lemma passed_log:
  obtains msg xs where "run_in (MigrationReconcile cl_demo ''ns'' ''mc'')
       (cw_mig (mc_demo MigrationCheckRunning) (Inr (job_demo 1 0))) = ((res_done, None), xs)"
    and "stored_as_sent xs" and "GetMC ''ns'' ''mc'' (Inr (mc_demo MigrationCheckRunning)) \<in> set xs"
    and "StatusMC (finished (mc_demo MigrationCheckRunning) MigrationCheckPassed MigrationReasonProbePassed msg minute)
        (Inr (finished (mc_demo MigrationCheckRunning) MigrationCheckPassed MigrationReasonProbePassed msg minute)) \<in> set xs"
  using demo_passed by (auto simp: stored_as_sent_def)

lemma failed_log:
  obtains msg xs where "run_in (MigrationReconcile cl_demo ''ns'' ''mc'')
       (cw_mig (mc_demo MigrationCheckRunning) (Inr (job_demo 0 1))) = ((res_done, None), xs)"
    and "stored_as_sent xs" and "GetMC ''ns'' ''mc'' (Inr (mc_demo MigrationCheckRunning)) \<in> set xs"
    and "StatusMC (finished (mc_demo MigrationCheckRunning) MigrationCheckFailed MigrationReasonProbeFailed msg minute)
        (Inr (finished (mc_demo MigrationCheckRunning) MigrationCheckFailed MigrationReasonProbeFailed msg minute)) \<in> set xs"
  using demo_failed by (auto simp: stored_as_sent_def)

text \<open>What the reconciler takes for a container stuck before it could start.\<close>

definition stuck_container :: "container_status \<Rightarrow> bool" where
  "stuck_container cs \<longleftrightarrow>
     (\<exists>w. cst_waiting cs = Some w \<and> w_reason w \<in> {''ImagePullBackOff'', ''ErrImagePull'', ''InvalidImageName'',
        ''ErrImageNeverPull'', ''CreateContainerConfigError'', ''CreateContainerError''})"

lemma no_failure_not_stuck: "first_failure css = None \<Longrightarrow> cs \<in> set css \<Longrightarrow> \<not> stuck_container cs"
  by (induction css) (auto simp: stuck_container_def waiting_failure_def split: option.splits if_splits)

text \<open>C7 A migration verdict is earned: a pass that publishes Passed, or Failed with ProbeFailed, for a
  check that had no verdict read the check in Running, read its probe Job, and found the Job complete
  (Passed), or failed, after which it asked for the Job's pods (ProbeFailed); and every pod of which it
  got an answer shows no container that waits for its image or its configuration. A list of pods that
  fails is read as one without such a container, and a Job that failed because its database was never
  reached is a failed Job like any other: neither is excluded.\<close>

theorem migration_verdict_earned:
  assumes "run_in (MigrationReconcile api ns name) w = (res, xs)" and "stored_as_sent xs"
    and "GetMC ns name (Inr mc) \<in> set xs" and "\<not> mc_terminal (mst_phase (mc_status mc))"
    and "StatusMC m r \<in> set xs"
  shows "(mst_phase (mc_status m) = MigrationCheckPassed \<longrightarrow>
       mst_phase (mc_status mc) = MigrationCheckRunning \<and>
       (\<exists>j. GetProbeJob (mc_namespace mc) (probe_job_name mc (migCheckID mc)) (Inr j) \<in> set xs
          \<and> fst (JobOutcome (Some j)) = JobSucceeded))
    \<and> (mst_phase (mc_status m) = MigrationCheckFailed \<and> mst_reason (mc_status m) = MigrationReasonProbeFailed \<longrightarrow>
       mst_phase (mc_status mc) = MigrationCheckRunning \<and>
       (\<exists>j. GetProbeJob (mc_namespace mc) (probe_job_name mc (migCheckID mc)) (Inr j) \<in> set xs
          \<and> fst (JobOutcome (Some j)) = JobFailed)
       \<and> (\<exists>got. ListJobPods (mc_namespace mc) (probe_job_name mc (migCheckID mc)) got \<in> set xs
          \<and> (\<forall>pods pod cs. got = Inr pods \<longrightarrow> pod \<in> set pods \<longrightarrow> cs \<in> set (pod_init_statuses pod @ pod_statuses pod) \<longrightarrow>
                \<not> stuck_container cs)))"
proof -
  obtain m0 where m: "mst_phase (mc_status m) = mst_phase (mc_status m0)"
      "mst_reason (mc_status m) = mst_reason (mc_status m0)" and w: "mig_write (cl_lib api) mc (set xs) m0"
    using pass_status_write [OF assms(1-3,5)] assms(4) by auto
  have ok: "\<forall>pods pod cs. got = Inr pods \<longrightarrow> pod \<in> set pods \<longrightarrow> cs \<in> set (pod_init_statuses pod @ pod_statuses pod) \<longrightarrow>
      \<not> stuck_container cs" if "pods_failure got = None" for got
  proof (intro allI impI)
    fix pods pod cs
    assume "got = Inr pods" "pod \<in> set pods" "cs \<in> set (pod_init_statuses pod @ pod_statuses pod)"
    with that show "\<not> stuck_container cs"
      by (intro no_failure_not_stuck [of "concat (map (\<lambda>p. pod_init_statuses p @ pod_statuses p) pods)"])
         (auto simp: pods_failure_def)
  qed
  have "(mst_phase (mc_status m0) = MigrationCheckPassed \<longrightarrow>
       mst_phase (mc_status mc) = MigrationCheckRunning \<and> job_seen mc JobSucceeded (set xs))
    \<and> (mst_phase (mc_status m0) = MigrationCheckFailed \<and> mst_reason (mc_status m0) = MigrationReasonProbeFailed \<longrightarrow>
       mst_phase (mc_status mc) = MigrationCheckRunning \<and> job_seen mc JobFailed (set xs) \<and> stuck_seen mc None (set xs))"
    using w by (cases "mst_phase (mc_status mc)")
      (auto simp: mig_write_def provision_write_def ready_write_def start_write_def probe_write_def expires_def
          dest: probe_marked_sel split: if_splits)
  then show ?thesis unfolding m job_seen_def stuck_seen_def using ok by blast
qed

theorem migration_verdict_earned_witness:
  "fst (JobOutcome (Some (job_demo 0 1))) = JobFailed \<and>
   (\<exists>j. GetProbeJob ''ns'' ''job'' (Inr j)
        \<in> set (snd (run_in (MigrationReconcile cl_demo ''ns'' ''mc'')
            (cw_mig (mc_demo MigrationCheckRunning) (Inr (job_demo 1 0)))))
      \<and> fst (JobOutcome (Some j)) = JobSucceeded)"
proof -
  obtain msg xs where run: "run_in (MigrationReconcile cl_demo ''ns'' ''mc'')
       (cw_mig (mc_demo MigrationCheckRunning) (Inr (job_demo 1 0))) = ((res_done, None), xs)"
    and "stored_as_sent xs" and "GetMC ''ns'' ''mc'' (Inr (mc_demo MigrationCheckRunning)) \<in> set xs"
    and "StatusMC (finished (mc_demo MigrationCheckRunning) MigrationCheckPassed MigrationReasonProbePassed msg minute)
        (Inr (finished (mc_demo MigrationCheckRunning) MigrationCheckPassed MigrationReasonProbePassed msg minute)) \<in> set xs"
    by (rule passed_log)
  from migration_verdict_earned [OF this(1-3) _ this(4)] show ?thesis
    unfolding run by (auto simp: mc_demo_sel probe_job_name_def job_demo_sel)
qed

text \<open>C17 A migration verdict is final: once a check is Passed, Failed or Expired, no later pass of the
  reconciler, no edit of its spec and no change of its metadata changes its phase, reason, message or
  completion time.\<close>

theorem migration_verdict_is_final:
  assumes "(mc_step api)\<^sup>*\<^sup>* mc m" and "mc_terminal (mst_phase (mc_status mc))"
  shows "mst_phase (mc_status m) = mst_phase (mc_status mc)
    \<and> mst_reason (mc_status m) = mst_reason (mc_status mc)
    \<and> mst_message (mc_status m) = mst_message (mc_status mc)
    \<and> mst_completed (mc_status m) = mst_completed (mc_status mc)"
  using migration_verdict.terminal_run [OF assms] by simp

theorem migration_verdict_is_final_witness:
  "\<exists>m. mc_step cl_demo (mc_demo MigrationCheckRunning) m
     \<and> mst_phase (mc_status (m\<lparr>mc_spec := mc_spec_demo\<lparr>mcs_probe := None\<rparr>\<rparr>)) = MigrationCheckPassed"
proof -
  obtain msg xs where log: "run_in (MigrationReconcile cl_demo ''ns'' ''mc'')
       (cw_mig (mc_demo MigrationCheckRunning) (Inr (job_demo 1 0))) = ((res_done, None), xs)"
     "stored_as_sent xs" "GetMC ''ns'' ''mc'' (Inr (mc_demo MigrationCheckRunning)) \<in> set xs"
     "StatusMC (finished (mc_demo MigrationCheckRunning) MigrationCheckPassed MigrationReasonProbePassed msg minute)
        (Inr (finished (mc_demo MigrationCheckRunning) MigrationCheckPassed MigrationReasonProbePassed msg minute)) \<in> set xs"
    by (rule passed_log)
  let ?m = "finished (mc_demo MigrationCheckRunning) MigrationCheckPassed MigrationReasonProbePassed msg minute"
  have "(mc_step cl_demo)\<^sup>*\<^sup>* ?m (?m\<lparr>mc_spec := mc_spec_demo\<lparr>mcs_probe := None\<rparr>\<rparr>)"
    by (rule r_into_rtranclp) (rule mc_step.edit)
  from migration_verdict_is_final [OF this] mc_step.pass [OF log] show ?thesis by auto
qed

subsection \<open>The invariant and the documented life\<close>

definition fresh_demo :: migration_check where
  "fresh_demo = (mc_demo MigrationCheckNone)\<lparr>mc_spec := mc_spec_demo\<lparr>mcs_cluster := []\<rparr>,
     mc_status := (mc_status (mc_demo MigrationCheckNone))\<lparr>mst_started := None, mst_secret_name := []\<rparr>\<rparr>"

definition fresh_at :: "instant \<Rightarrow> migration_check" where
  "fresh_at t = fresh_demo\<lparr>mc_status := (mc_status fresh_demo)\<lparr>mst_started := Some t\<rparr>\<rparr>"

abbreviation fresh_started :: migration_check where
  "fresh_started \<equiv> fresh_at minute"

lemma fresh_demo_sel [run_simps]:
  "mc_deleting fresh_demo = False" "mc_finalizers fresh_demo = [migrationCheckFinalizer]"
  "mst_phase (mc_status fresh_demo) = MigrationCheckNone" "mst_started (mc_status fresh_demo) = None"
  "mcs_cluster (mc_spec (fresh_at t)) = []" "mcs_app (mc_spec (fresh_at t)) = ''app''"
  "mcs_probe (mc_spec (fresh_at t)) = Some probe_demo" "mcs_report (mc_spec (fresh_at t)) = None"
  by (simp_all add: fresh_demo_def fresh_at_def run_simps)

lemma fresh_mark [run_simps]:
  "mark_started cl_demo fresh_demo = do { now \<leftarrow> operate (cl_now cl_demo) ClockNow; State_Monad.return (fresh_at now) }"
  by (simp add: mark_started_def fresh_at_def run_simps)

lemma fresh_ttl [run_simps]: "fst (ttl_left fresh_demo 60000000000) = False"
  by (simp add: ttl_left_def mc_ttl_def fresh_demo_def run_simps time_sub_def sat64_id dur_seconds_def wrap64_id Let_def)

definition cw_no_ns :: cluster_world where
  "cw_no_ns = (cw_demo [])\<lparr>cw_mc := Inr fresh_demo, cw_time := minute\<rparr>"

lemma cw_no_ns_sel [run_simps]:
  "cw_mc cw_no_ns = Inr fresh_demo" "cw_ns cw_no_ns = Inl cl_missing" "cw_time cw_no_ns = minute"
  by (simp_all add: cw_no_ns_def cw_demo_def)

lemma demo_no_source:
  "\<exists>msg. run_in (MigrationReconcile cl_demo ''ns'' ''mc'') cw_no_ns
     = ((res_done, None),
        [GetMC ''ns'' ''mc'' (Inr fresh_demo), ClockNow minute, ClockNow minute, GetNS ''app'' (Inl cl_missing),
         ClockNow minute,
         StatusMC (finished fresh_started MigrationCheckExpired MigrationReasonCloneFailed msg minute)
           (Inr (finished fresh_started MigrationCheckExpired MigrationReasonCloneFailed msg minute))])"
  by (simp add: migration_defs provision_def resolveSource_def fail_check_def run_simps Let_def) (rule exI, rule refl)

lemma fresh_reachable: "mc_reachable cl_demo fresh_demo"
  by (rule mc_reachable.fresh) (simp add: mc_fresh_def fresh_demo_def run_simps)

lemma no_source_step:
  "\<exists>msg. mc_step cl_demo fresh_demo (finished fresh_started MigrationCheckExpired MigrationReasonCloneFailed msg minute)"
proof -
  obtain msg where run: "run_in (MigrationReconcile cl_demo ''ns'' ''mc'') cw_no_ns
     = ((res_done, None),
        [GetMC ''ns'' ''mc'' (Inr fresh_demo), ClockNow minute, ClockNow minute, GetNS ''app'' (Inl cl_missing),
         ClockNow minute,
         StatusMC (finished fresh_started MigrationCheckExpired MigrationReasonCloneFailed msg minute)
           (Inr (finished fresh_started MigrationCheckExpired MigrationReasonCloneFailed msg minute))])"
    using demo_no_source by blast
  show ?thesis by (rule exI, rule mc_step.pass [OF run]) (auto simp: stored_as_sent_def)
qed

text \<open>C34 The status of a MigrationCheck stays consistent in every reachable state: a completion time is
  set exactly when the phase is terminal; a check past its first phase has a start time; from Ready
  on, and in Passed, the connection Secret named after the check in its own namespace is recorded; the
  reason is one of those of the phase; and a terminal phase reported to the forge is the check's phase.\<close>

theorem migration_status_consistent:
  assumes "mc_reachable api mc"
  shows "(mst_completed (mc_status mc) \<noteq> None \<longleftrightarrow> mc_terminal (mst_phase (mc_status mc)))
    \<and> (mst_phase (mc_status mc) \<notin> {MigrationCheckNone, MigrationCheckPending} \<longrightarrow> mst_started (mc_status mc) \<noteq> None)
    \<and> (mst_phase (mc_status mc) \<in> {MigrationCheckReady, MigrationCheckRunning, MigrationCheckPassed} \<longrightarrow>
         mst_secret_name (mc_status mc) = mc_name mc @ ''-db'' \<and> mst_secret_ns (mc_status mc) = mc_namespace mc)
    \<and> reason_fits (mst_phase (mc_status mc)) (mst_reason (mc_status mc))
    \<and> (mc_terminal (mst_reported (mc_status mc)) \<longrightarrow> mst_reported (mc_status mc) = mst_phase (mc_status mc))"
  using mc_inv_reachable [OF assms] by (simp add: mc_inv_def Let_def)

theorem migration_status_consistent_witness:
  "\<exists>m :: migration_check. mst_phase (mc_status m) = MigrationCheckExpired \<and> mst_completed (mc_status m) \<noteq> None
     \<and> mst_started (mc_status m) \<noteq> None \<and> reason_fits MigrationCheckExpired (mst_reason (mc_status m))"
proof -
  obtain msg where "mc_step cl_demo fresh_demo (finished fresh_started MigrationCheckExpired MigrationReasonCloneFailed msg minute)"
    using no_source_step by blast
  note c = migration_status_consistent [OF mc_reachable.step [OF fresh_reachable this]]
  show ?thesis
    by (rule exI [of _ "finished fresh_started MigrationCheckExpired MigrationReasonCloneFailed msg minute"])
       (use c in simp)
qed

lemma step_phase:
  assumes "mc_step api mc m" and "mc_inv mc"
  shows "mst_phase (mc_status m) = mst_phase (mc_status mc)
    \<or> phase_next (mst_phase (mc_status mc)) (mst_phase (mc_status m))"
  using assms
proof (induction rule: mc_step.induct)
  case (pass ns name w res xs mc m)
  show ?case using pass_step [OF pass.hyps pass.prems] by blast
qed simp_all

lemma phase_next_changes: "\<not> phase_next ph ph"
  by (cases ph) (simp_all add: phase_next_simps)

text \<open>A run, and the phases one sees of it: every phase once, when it is entered.\<close>

definition mc_run :: "'w cluster_api \<Rightarrow> migration_check list \<Rightarrow> bool" where
  "mc_run api ms \<longleftrightarrow> successively (mc_step api) ms \<and> (\<forall>mc. mc \<in> set (take 1 ms) \<longrightarrow> mc_reachable api mc)"

definition phases :: "migration_check list \<Rightarrow> mc_phase list" where
  "phases ms = remdups_adj (map (\<lambda>m. mst_phase (mc_status m)) ms)"

lemma mc_run_Cons:
  "mc_run api (mc # m # ms) \<longleftrightarrow> mc_reachable api mc \<and> mc_step api mc m \<and> mc_run api (m # ms)"
  by (auto simp: mc_run_def intro: mc_reachable.step)

lemma phases_Cons:
  "phases (mc # m # ms) = (if mst_phase (mc_status mc) = mst_phase (mc_status m) then phases (m # ms)
     else mst_phase (mc_status mc) # phases (m # ms))"
  by (simp add: phases_def)

lemma hd_phases: "phases (m # ms) = mst_phase (mc_status m) # tl (phases (m # ms))"
  unfolding phases_def by (metis hd_remdups_adj list.collapse list.map(2) list.distinct(1) list.sel(1) remdups_adj_Nil_iff)

text \<open>C18 The reconciler refines the documented life of a check, arrow by arrow: along every run, the
  phases a check goes through, each counted when it is entered, are a run of the machine none or Pending,
  Provisioning, Ready, Running, then Passed, Failed or Expired, one arrow at a time. Failed is entered
  only from the first phase or from Running, Passed only from Running, Running only from Ready, Ready
  only from Provisioning, and no verdict is left.\<close>

theorem follows_documented_life:
  assumes "mc_run api ms"
  shows "successively phase_next (phases ms)
    \<and> (\<forall>i a b. Suc i < length (phases ms) \<longrightarrow> phases ms ! i = a \<longrightarrow> phases ms ! Suc i = b \<longrightarrow>
         (b = MigrationCheckFailed \<longrightarrow> a \<in> {MigrationCheckNone, MigrationCheckPending, MigrationCheckRunning})
         \<and> (b = MigrationCheckPassed \<longrightarrow> a = MigrationCheckRunning)
         \<and> (b = MigrationCheckRunning \<longrightarrow> a = MigrationCheckReady)
         \<and> (b = MigrationCheckReady \<longrightarrow> a = MigrationCheckProvisioning) \<and> \<not> mc_terminal a)"
proof -
  have s: "successively phase_next (phases ms)"
    using assms
  proof (induction ms rule: induct_list012)
    case (3 mc m ms)
    then have r: "mc_reachable api mc" "mc_step api mc m" "mc_run api (m # ms)" by (simp_all add: mc_run_Cons)
    note IH = "3.IH"(2) [OF r(3)]
    show ?case
    proof (cases "mst_phase (mc_status mc) = mst_phase (mc_status m)")
      case False
      then have "phase_next (mst_phase (mc_status mc)) (mst_phase (mc_status m))"
        using step_phase [OF r(2) mc_inv_reachable [OF r(1)]] by simp
      then have "successively phase_next (mst_phase (mc_status mc) # phases (m # ms))"
        using IH hd_phases [of m ms] by (metis successively.simps(3))
      with False show ?thesis by (simp add: phases_Cons)
    qed (use IH in \<open>simp add: phases_Cons\<close>)
  qed (simp_all add: phases_def)
  have "phase_next (phases ms ! i) (phases ms ! Suc i)" if "Suc i < length (phases ms)" for i
    using s that by (simp add: successively_conv_nth)
  then have "(phases ms ! Suc i = MigrationCheckFailed \<longrightarrow>
        phases ms ! i \<in> {MigrationCheckNone, MigrationCheckPending, MigrationCheckRunning})
      \<and> (phases ms ! Suc i = MigrationCheckPassed \<longrightarrow> phases ms ! i = MigrationCheckRunning)
      \<and> (phases ms ! Suc i = MigrationCheckRunning \<longrightarrow> phases ms ! i = MigrationCheckReady)
      \<and> (phases ms ! Suc i = MigrationCheckReady \<longrightarrow> phases ms ! i = MigrationCheckProvisioning)
      \<and> \<not> mc_terminal (phases ms ! i)"
    if "Suc i < length (phases ms)" for i
    using that unfolding phase_next_simps by (fastforce simp: phase_next_simps)
  with s show ?thesis by blast
qed

theorem follows_documented_life_witness:
  "\<exists>ms. mc_run cl_demo ms \<and> successively phase_next (phases ms) \<and> phases ms = [MigrationCheckNone, MigrationCheckExpired]"
proof -
  obtain msg where "mc_step cl_demo fresh_demo (finished fresh_started MigrationCheckExpired MigrationReasonCloneFailed msg minute)"
    using no_source_step by blast
  then have r: "mc_run cl_demo [fresh_demo, finished fresh_started MigrationCheckExpired MigrationReasonCloneFailed msg minute]"
    using fresh_reachable by (simp add: mc_run_def)
  from r follows_documented_life [OF r] show ?thesis
    by (intro exI conjI) (assumption, blast, simp add: phases_def fresh_demo_sel)
qed

subsection \<open>Publishing\<close>

lemma run_outcome_conclusion:
  "snd (run_outcome ph) = ''success'' \<longleftrightarrow> ph = MigrationCheckPassed"
  "snd (run_outcome ph) = ''failure'' \<longleftrightarrow> ph = MigrationCheckFailed"
  "snd (run_outcome ph) = ''timed_out'' \<longleftrightarrow> ph = MigrationCheckExpired"
  "fst (run_outcome ph) = ''completed'' \<longleftrightarrow> mc_terminal ph"
  by (cases ph; simp)+

lemma checkRunFor_sel [simp]:
  "run_conclusion (checkRunFor m rep t) = snd (run_outcome (mst_phase (mc_status m)))"
  "run_status (checkRunFor m rep t) = fst (run_outcome (mst_phase (mc_status m)))"
  "run_head_sha (checkRunFor m rep t) = mrp_revision rep"
  by (simp_all add: checkRunFor_def Let_def split: prod.split)

text \<open>The check run tells the truth, once: a pass over a check that is not being deleted reports
  only a state the server holds (the verdict it read, or a status it has just stored) and that was not
  reported yet, for the revision of the spec, under the check run recorded in that state; and the run
  is completed exactly when the phase is terminal, a success exactly for Passed, a failure exactly for
  Failed, timed out exactly for Expired.\<close>

theorem report_tells_the_truth:
  assumes "run_in (MigrationReconcile api ns name) w = (res, xs)" and "stored_as_sent xs"
    and "GetMC ns name (Inr mc) \<in> set xs" and "\<not> mc_deleting mc" and "Report rep i run r \<in> set xs"
  shows "\<exists>m. (m = mc \<and> mc_terminal (mst_phase (mc_status mc)) \<or> StatusMC m (Inr m) \<in> set xs)
     \<and> mcs_report (mc_spec m) = Some rep \<and> i = mst_check_run (mc_status m)
     \<and> mst_reported (mc_status m) \<noteq> mst_phase (mc_status m) \<and> run_head_sha run = mrp_revision rep
     \<and> (run_status run = ''completed'' \<longleftrightarrow> mc_terminal (mst_phase (mc_status m)))
     \<and> (run_conclusion run = ''success'' \<longleftrightarrow> mst_phase (mc_status m) = MigrationCheckPassed)
     \<and> (run_conclusion run = ''failure'' \<longleftrightarrow> mst_phase (mc_status m) = MigrationCheckFailed)
     \<and> (run_conclusion run = ''timed_out'' \<longleftrightarrow> mst_phase (mc_status m) = MigrationCheckExpired)"
proof -
  have "mig_call api mc (set xs) (Report rep i run r)" by (rule pass_call [OF assms(1,3,5)]) simp
  then obtain m now where s: "on_server (cl_lib api) mc m (set xs)" and m: "mcs_report (mc_spec m) = Some rep"
    "i = mst_check_run (mc_status m)" "mst_reported (mc_status m) \<noteq> mst_phase (mc_status m)"
    "run = checkRunFor m rep now"
    using assms(4) unfolding mig_call.simps report_of_def by blast
  have "m = mc \<and> mc_terminal (mst_phase (mc_status mc)) \<or> StatusMC m (Inr m) \<in> set xs"
    using s assms(2) unfolding on_server_def stored_as_sent_def by blast
  with m show ?thesis by (intro exI [of _ m]) (simp add: run_outcome_conclusion)
qed

definition reporting_demo :: migration_check where
  "reporting_demo = (mc_demo MigrationCheckFailed)\<lparr>mc_spec := mc_spec_demo\<lparr>mcs_report :=
     Some \<lparr>mrp_provider = ''github'', mrp_repo = ''o/r'', mrp_revision = ''abc1234'', mrp_name = []\<rparr>\<rparr>\<rparr>"

lemma reporting_demo_sel [run_simps]:
  "mc_deleting reporting_demo = False" "mc_finalizers reporting_demo = [migrationCheckFinalizer]"
  "mst_phase (mc_status reporting_demo) = MigrationCheckFailed" "mst_check_run (mc_status reporting_demo) = 0"
  "mst_reported (mc_status reporting_demo) = MigrationCheckNone" "mc_created reporting_demo = 0"
  "mcs_report (mc_spec reporting_demo) =
     Some \<lparr>mrp_provider = ''github'', mrp_repo = ''o/r'', mrp_revision = ''abc1234'', mrp_name = []\<rparr>"
  "fst (ttl_left reporting_demo 60000000000) = False"
  by (simp_all add: reporting_demo_def mc_demo_def ttl_left_def mc_ttl_def mc_spec_demo_def time_sub_def sat64_id
      dur_seconds_def wrap64_id Let_def)

lemma demo_report:
  "\<exists>run. run_in (MigrationReconcile cl_demo ''ns'' ''mc'') (cw_mig reporting_demo (Inl cl_missing))
     = ((res_done, None),
        [GetMC ''ns'' ''mc'' (Inr reporting_demo), ClockNow minute, ClockNow minute,
         Report \<lparr>mrp_provider = ''github'', mrp_repo = ''o/r'', mrp_revision = ''abc1234'', mrp_name = []\<rparr> 0 run (Inr 7),
         StatusMC (reported reporting_demo 7) (Inr (reported reporting_demo 7))])"
  by (simp add: migration_defs terminal_pass_def run_simps Let_def)

theorem report_tells_the_truth_witness:
  "\<exists>rep run. Report rep 0 run (Inr 7)
      \<in> set (snd (run_in (MigrationReconcile cl_demo ''ns'' ''mc'') (cw_mig reporting_demo (Inl cl_missing))))
    \<and> run_conclusion run = ''failure''"
proof -
  let ?rep = "\<lparr>mrp_provider = ''github'', mrp_repo = ''o/r'', mrp_revision = ''abc1234'', mrp_name = []\<rparr>"
  obtain run where r: "run_in (MigrationReconcile cl_demo ''ns'' ''mc'') (cw_mig reporting_demo (Inl cl_missing))
     = ((res_done, None),
        [GetMC ''ns'' ''mc'' (Inr reporting_demo), ClockNow minute, ClockNow minute,
         Report ?rep 0 run (Inr 7), StatusMC (reported reporting_demo 7) (Inr (reported reporting_demo 7))])"
    using demo_report by blast
  have "run_conclusion run = ''failure''"
    using report_tells_the_truth [OF r, of reporting_demo ?rep 0 run "Inr 7"]
    by (auto simp: stored_as_sent_def reporting_demo_sel)
  then show ?thesis unfolding r by (intro exI [of _ ?rep] exI [of _ run]) simp
qed

subsection \<open>The connection and the probe Job\<close>

text \<open>C14 A connection string is published only for a settled clone: a pass creates the connection Secret,
  or turns the check Ready, only in Provisioning and only after it read the clone Cluster with a ready
  instance and CNPG's healthy phase, a ready address behind its read-write Service, and a superuser
  Secret with a user name and a password.\<close>

theorem connection_only_when_settled:
  assumes "run_in (MigrationReconcile api ns name) w = (res, xs)" and "stored_as_sent xs"
    and "GetMC ns name (Inr mc) \<in> set xs" and "x \<in> set xs"
    and "(\<exists>sec r. x = CreateSecret sec r) \<or>
      (\<exists>m r. x = StatusMC m r \<and> mst_phase (mc_status m) = MigrationCheckReady
         \<and> mst_phase (mc_status mc) \<noteq> MigrationCheckReady)"
  shows "mst_phase (mc_status mc) = MigrationCheckProvisioning \<and>
    (\<exists>cluster eps su. UGet CnpgCluster (mst_clone_ns (mc_status mc)) (''migcheck-'' @ migCheckID mc) (Inr cluster) \<in> set xs
       \<and> 1 \<le> lib_nested_int64 (cl_lib api) (u_object cluster) [''status'', ''readyInstances'']
       \<and> lib_nested_string (cl_lib api) (u_object cluster) [''status'', ''phase''] = ''Cluster in healthy state''
       \<and> GetEndpoints (mst_clone_ns (mc_status mc)) (''migcheck-'' @ migCheckID mc @ ''-rw'') (Inr eps) \<in> set xs
       \<and> (\<exists>addresses\<in>set eps. addresses \<noteq> [])
       \<and> GetSecret (mst_clone_ns (mc_status mc)) (''migcheck-'' @ migCheckID mc @ ''-superuser'') (Inr su) \<in> set xs
       \<and> sget (sec_data su) ''username'' \<noteq> [] \<and> sget (sec_data su) ''password'' \<noteq> [])"
proof -
  have e: "\<exists>cluster dsn. clone_evidence (cl_lib api) mc cluster dsn (set xs)
      \<and> mst_phase (mc_status mc) = MigrationCheckProvisioning"
    using assms(5)
  proof (elim disjE exE conjE)
    fix sec r assume "x = CreateSecret sec r"
    then show ?thesis using pass_call [OF assms(1,3,4)] by (auto simp: mig_call.simps)
  next
    fix m r
    assume x: "x = StatusMC m r" "mst_phase (mc_status m) = MigrationCheckReady"
      "mst_phase (mc_status mc) \<noteq> MigrationCheckReady"
    obtain m0 where m: "mst_phase (mc_status m0) = MigrationCheckReady" and w: "mig_write (cl_lib api) mc (set xs) m0"
      using pass_status_write [OF assms(1-3) assms(4) [unfolded x(1)]] x(2,3) by auto
    show ?thesis
      using w m x(3) by (cases "mst_phase (mc_status mc)")
        (auto simp: mig_write_def provision_write_def ready_write_def start_write_def probe_write_def expires_def
          split: if_splits)
  qed
  then obtain cluster dsn where c: "clone_evidence (cl_lib api) mc cluster dsn (set xs)"
    and p: "mst_phase (mc_status mc) = MigrationCheckProvisioning" by blast
  have "\<exists>addresses\<in>set eps. addresses \<noteq> []" if "endpointsReady eps" for eps
    using that by (auto simp: endpointsReady_def list_ex_iff)
  with c p show ?thesis
    unfolding clone_evidence_def Let_def cnpgClusterSettled_def cnpgPhaseHealthy_def fst_conv append_assoc by blast
qed

theorem connection_only_when_settled_witness:
  "\<exists>su. GetSecret ''clone'' ''migcheck-u1-superuser'' (Inr su)
      \<in> set (snd (run_in (MigrationReconcile cl_demo ''ns'' ''mc'') cw_settled))
    \<and> sget (sec_data su) ''password'' \<noteq> []"
  using connection_only_when_settled [OF surjective_pairing demo_ready(3,2,1)]
  by (simp add: run_simps mc_demo_sel del: run_in_def) blast

text \<open>What the probe Job's pod may do.\<close>

definition confined :: "container \<Rightarrow> bool" where
  "confined c \<longleftrightarrow> (case c_security c of None \<Rightarrow> False | Some sc \<Rightarrow>
     sc_allow_privilege_escalation sc = Some False \<and> sc_drop sc = [''ALL'']
     \<and> sc_seccomp sc = Some ''RuntimeDefault'')"

definition secret_env :: "string \<Rightarrow> env_var \<Rightarrow> bool" where
  "secret_env sec e \<longleftrightarrow>
     (case ev_from e of None \<Rightarrow> True | Some src \<Rightarrow> ev_name e = ''DATABASE_URL'' \<and> src = SecretKeyRef sec ''DATABASE_URL'')"

lemma app_env_secret: "list_all (secret_env sec) (app_env p sec)"
  "map ev_name (app_env p sec) = ''DATABASE_URL'' # filter (\<lambda>k. k \<noteq> ''DATABASE_URL'') (sort (map fst (mp_env p)))"
  by (auto simp: app_env_def secret_env_def database_url_env_def plain_env_def list_all_iff comp_def)

definition container_ok :: "string \<Rightarrow> container \<Rightarrow> bool" where
  "container_ok sec c \<longleftrightarrow> confined c \<and> list_all (secret_env sec) (c_env c)
     \<and> count_list (map ev_name (c_env c)) ''DATABASE_URL'' \<le> 1"

lemma env_sel [simp]:
  "secret_env sec (database_url_env sec)" "secret_env sec (plain_env k v)"
  "ev_name (database_url_env sec) = ''DATABASE_URL''" "ev_name (plain_env k v) = k"
  by (simp_all add: secret_env_def database_url_env_def plain_env_def)

lemma one_database_url: "count_list (map ev_name (app_env p sec)) ''DATABASE_URL'' = 1"
  by (simp add: app_env_secret(2) count_list_0_iff)

lemma app_database_url: "filter (\<lambda>e. ev_name e = ''DATABASE_URL'') (app_env p sec) = [database_url_env sec]"
  by (simp add: app_env_def filter_map comp_def filter_empty_conv)

lemma containers_ok:
  "container_ok sec (wait_db_container img sec)" "container_ok sec (app_container p sec)"
  "container_ok sec (mig_probe_container img p)"
  by (simp_all add: container_ok_def confined_def confined_context_def wait_db_container_def app_container_def
      mig_probe_container_def app_env_secret(1) one_database_url)

lemma probe_pod_containers:
  "c \<in> set (ps_init_containers (job_pod (migrationProbeJob img mc p cid)) @ ps_containers (job_pod (migrationProbeJob img mc p cid)))
   \<Longrightarrow> container_ok (mst_secret_name (mc_status mc)) c"
  by (auto simp: migrationProbeJob_def Let_def containers_ok)

text \<open>C33 The probe Job is confined: a pass creates a Job only for a Ready check, in a namespace it read with
  the opt-in label, while the TTL still leaves the probe its whole budget; the Job is named after the
  check's UID, never retries, mounts no token and runs as non-root; every container drops all
  capabilities, cannot escalate and has the default seccomp profile; the only variables that come from
  a Secret are DATABASE_URL from the connection Secret; and the one container named app, which
  runs the image under test, has exactly one DATABASE_URL, the others at most one.\<close>

theorem probe_job_confined:
  assumes "run_in (MigrationReconcile api ns name) w = (res, xs)"
    and "GetMC ns name (Inr mc) \<in> set xs" and "CreateProbeJob j r \<in> set xs"
  shows "mst_phase (mc_status mc) = MigrationCheckReady
    \<and> (\<exists>nso. GetNS (mc_namespace mc) (Inr nso) \<in> set xs \<and> sget (ns_labels nso) MigrationCheckJobsLabel = ''true'')
    \<and> (\<exists>t. ClockNow t \<in> set xs \<and> probeBudget (mcs_probe (mc_spec mc)) \<le> snd (ttl_left mc t))
    \<and> job_namespace j = mc_namespace mc \<and> job_name j = ''migration-probe-'' @ migCheckID mc
    \<and> job_backoff_limit j = Some 0 \<and> ps_automount_token (job_pod j) = Some False
    \<and> map_option psc_run_as_non_root (ps_security (job_pod j)) = Some (Some True)
    \<and> (\<forall>c\<in>set (ps_init_containers (job_pod j) @ ps_containers (job_pod j)).
         confined c \<and> list_all (secret_env (mst_secret_name (mc_status mc))) (c_env c)
         \<and> count_list (map ev_name (c_env c)) ''DATABASE_URL'' \<le> 1)
    \<and> (\<exists>p app. mcs_probe (mc_spec mc) = Some p
         \<and> filter (\<lambda>c. c_name c = ''app'') (ps_init_containers (job_pod j) @ ps_containers (job_pod j)) = [app]
         \<and> c_image app = mp_image p
         \<and> filter (\<lambda>e. ev_name e = ''DATABASE_URL'') (c_env app)
             = [\<lparr>ev_name = ''DATABASE_URL'', ev_value = [],
                  ev_from = Some (SecretKeyRef (mst_secret_name (mc_status mc)) ''DATABASE_URL'')\<rparr>])"
proof -
  have "mig_call api mc (set xs) (CreateProbeJob j r)" by (rule pass_call [OF assms]) simp
  then obtain p t where g: "mst_phase (mc_status mc) = MigrationCheckReady" "jobs_allowed mc (set xs)"
    "mcs_probe (mc_spec mc) = Some p" "ClockNow t \<in> set xs" "probeBudget (Some p) \<le> snd (ttl_left mc t)"
    and j: "j = migrationProbeJob (cl_probe_image api) mc p (migCheckID mc)"
    unfolding mig_call.simps by blast
  have keys: "job_namespace j = mc_namespace mc" "job_name j = ''migration-probe-'' @ migCheckID mc"
    "job_backoff_limit j = Some 0" "ps_automount_token (job_pod j) = Some False"
    "map_option psc_run_as_non_root (ps_security (job_pod j)) = Some (Some True)"
    by (simp_all add: j migrationProbeJob_def migrationProbeJobName_def Let_def)
  have "\<forall>c\<in>set (ps_init_containers (job_pod j) @ ps_containers (job_pod j)). container_ok (mst_secret_name (mc_status mc)) c"
    using probe_pod_containers unfolding j by blast
  moreover have "filter (\<lambda>c. c_name c = ''app'') (ps_init_containers (job_pod j) @ ps_containers (job_pod j))
      = [app_container p (mst_secret_name (mc_status mc))]"
    by (simp add: j migrationProbeJob_def Let_def wait_db_container_def app_container_def mig_probe_container_def)
  moreover have "c_image (app_container p sec) = mp_image p" "c_env (app_container p sec) = app_env p sec" for sec
    by (simp_all add: app_container_def)
  ultimately show ?thesis
    unfolding container_ok_def keys using g app_database_url [of p "mst_secret_name (mc_status mc)"]
    by (auto simp: jobs_allowed_def database_url_env_def)
qed

theorem probe_job_confined_witness:
  "\<exists>nso. GetNS ''ns'' (Inr nso)
      \<in> set (snd (run_in (MigrationReconcile cl_demo ''ns'' ''mc'')
           (cw_mig (mc_demo MigrationCheckReady) (Inl cl_missing))))
    \<and> sget (ns_labels nso) MigrationCheckJobsLabel = ''true''"
  using probe_job_confined [OF demo_started, of "mc_demo MigrationCheckReady" job_wanted "Inr job_wanted"]
  unfolding demo_started by (simp add: mc_demo_sel)

lemma whole_seconds_mult: "0 \<le> k \<Longrightarrow> whole_seconds (k * second) = k"
  by (simp add: whole_seconds_def sgn_if)

text \<open>C38 The reconciler judges before the Job controller: for every probe the API server admits (a timeout
  of at most an hour, or the default), the Job's own deadline in seconds is the reconciler's probe
  budget plus two minutes, so the pod is still there to be tailed when the probe is overdue, and the
  budget covers the app's own time after the image pull and the database's settling.\<close>

theorem probe_job_outlives_deadline:
  assumes "mp_timeout p \<le> 3600"
  shows "probe_job_deadline p * second = probeBudget (Some p) + 2 * minute
    \<and> probeBudget (Some p) = (if mp_timeout p \<le> 0 then 600 else mp_timeout p) * second + 13 * minute"
proof -
  have t: "probeTimeout (Some p) = (if mp_timeout p \<le> 0 then 600 else mp_timeout p) * second"
    using assms by (simp add: probeTimeout_def dur_seconds_def wrap64_id)
  define k where "k = (if mp_timeout p \<le> 0 then 600 else mp_timeout p)"
  have k: "0 < k" "k \<le> 3600" using assms by (auto simp: k_def)
  have t: "probeTimeout (Some p) = k * second" using t by (simp only: k_def)
  have b: "probeBudget (Some p) = k * second + 13 * minute"
    unfolding probeBudget_def t using k by (subst wrap64_id) simp_all
  have "wrap64 (k * second + probePullGrace + dbSettleGrace + probeJobSlack) = (k + 900) * second"
    using k by (subst wrap64_id) simp_all
  then have "probe_job_deadline p = k + 900"
    unfolding probe_job_deadline_def t using whole_seconds_mult [of "k + 900"] k by simp
  with b show ?thesis unfolding k_def [symmetric] by simp
qed

theorem probe_job_outlives_deadline_witness:
  "probe_job_deadline probe_demo * second = probeBudget (Some probe_demo) + 2 * minute"
  using probe_job_outlives_deadline [of probe_demo] by (simp add: probe_demo_def)

subsection \<open>Teardown\<close>

text \<open>The finalizer outlives what it guards: a pass over a check being deleted writes the object (to
  drop the finalizer) only after it deleted the probe Job when there may be one, the recorded
  connection Secret, the clone's namespace and the cluster-scoped content object, the Job's and the
  namespace's deletion having been accepted or found nothing.\<close>

theorem migration_finalizer_after_teardown:
  assumes "run_in (MigrationReconcile api ns name) w = (res, xs)"
    and "GetMC ns name (Inr mc) \<in> set xs" and "mc_deleting mc" and "UpdateMC m r \<in> set xs"
  shows "(mcs_probe (mc_spec mc) \<noteq> None \<or> mst_probe_job (mc_status mc) \<noteq> [] \<longrightarrow>
       (\<exists>d. DeleteProbeJob (mc_namespace mc) (probe_job_name mc (migCheckID mc)) d \<in> set xs
          \<and> (\<forall>e. d = Some e \<longrightarrow> IsNotFound e \<or> namespaceUnavailable e)))
    \<and> (mst_secret_name (mc_status mc) \<noteq> [] \<longrightarrow>
         (\<exists>d. DeleteSecret (mc_namespace mc) (mst_secret_name (mc_status mc)) d \<in> set xs))
    \<and> (\<exists>d. DeleteNS (if mst_clone_ns (mc_status mc) = [] then clone_namespace_name mc
           else mst_clone_ns (mc_status mc)) d \<in> set xs \<and> ignore_not_found d = None)
    \<and> (\<exists>d. UDelete VolumeSnapshotContent [] (''migcheck-'' @ migCheckID mc @ ''-content'') d \<in> set xs)
    \<and> m = mc\<lparr>mc_finalizers := mc_finalizers m\<rparr>"
proof -
  have "mig_call api mc (set xs) (UpdateMC m r)" by (rule pass_call [OF assms(1,2,4)]) simp
  then have "check_torn_down mc (set xs)" and "\<exists>fs. m = mc\<lparr>mc_finalizers := fs\<rparr>"
    using assms(3) unfolding mig_call.simps by auto
  then show ?thesis
    unfolding check_torn_down_def job_done_def secret_done_def clone_done_def content_done_def job_gone_def
      old_clone_ns_def content_name_def by auto
qed

theorem migration_finalizer_after_teardown_witness:
  "\<exists>d. DeleteNS ''clone'' d
     \<in> set (snd (run_in (MigrationReconcile cl_demo ''ns'' ''mc'') (cw_mig gone_demo (Inl cl_missing))))
   \<and> ignore_not_found d = None"
  using migration_finalizer_after_teardown [OF surjective_pairing demo_torn(2) _ demo_torn(1)]
  by (simp add: gone_demo_sel mc_demo_sel)

end
