(* ===== verification/Migration_Deadline.thy ===== *)
theory Migration_Deadline
  imports Migration_Run
begin

section \<open>Deciding in time\<close>

text \<open>
  What a pass over a Running check decides when its probe is overdue, and what it cannot decide when the
  probe has been taken out of the spec: two statements about every run of the reconciler.
\<close>

subsection \<open>The probe deadline\<close>





lemma log_any:
  "ensures (publishReport api m) (\<lambda>_ _. True)" "ensures (tailProbe api ns name) (\<lambda>_ _. True)"
  "ensures (finish_check api m ph why msg) (\<lambda>_ _. True)"
  "ensures (probeWaitingFailure api ns name) (\<lambda>_ _. True)" "ensures (probeDeadlinePassed api m) (\<lambda>_ _. True)"
  unfolding publishReport_def tailProbe_def finish_check_def probeWaitingFailure_def probeDeadlinePassed_def
  by (intro ens_rules | simp)+



lemma probe_any:
  "ensures (probe_late api mc name) (\<lambda>_ _. True)" "ensures (probe_passed api mc name) (\<lambda>_ _. True)"
  "ensures (probe_failed api mc name r m) (\<lambda>_ _. True)" "ensures (probe_stuck api mc why detail) (\<lambda>_ _. True)"
  unfolding probe_passed_def probe_failed_def probe_stuck_def probe_late_def Let_def
  by (intro ens_rules ens_weaken [OF log_any(2)] ens_weaken [OF log_any(3)] ens_weaken [OF log_any(4)]
       ens_weaken [OF log_any(5)] | simp)+

lemma running_any: "ensures (probe_running api mc name) (\<lambda>_ _. True)"
  unfolding probe_running_def
  by (intro ens_rules ens_weaken [OF log_any(4)] ens_weaken [OF log_any(5)] probe_any | simp)+

lemma judge_any: "ensures (judge_job api mc name out) (\<lambda>_ _. True)"
  unfolding judge_job_def by (auto intro: probe_any running_any split: prod.split job_phase.split)





lemma check_pass_any: "ensures (check_pass api mc) (\<lambda>_ _. True)"
  using check_pass_keeps [of api mc "{}"] unfolding mig.keeps_def by (rule ens_weaken) simp




definition cw_late :: cluster_world where
  "cw_late = (cw_mig (mc_demo MigrationCheckRunning) (Inr (job_demo 0 0)))\<lparr>cw_time := 30 * minute\<rparr>"

lemma cw_late_sel [run_simps]:
  "cw_mc cw_late = Inr (mc_demo MigrationCheckRunning)" "cw_job cw_late = Inr (job_demo 0 0)"
  "cw_time cw_late = 1800000000000" "cw_pods cw_late = []"
  by (simp_all add: cw_late_def run_simps)




subsection \<open>A probe removed from the spec\<close>

definition passed_job :: "migration_check \<Rightarrow> cluster_call list \<Rightarrow> bool" where
  "passed_job mc xs \<longleftrightarrow> (\<forall>t. ClockNow t \<in> set xs \<longrightarrow> \<not> fst (ttl_left mc t))
     \<and> (\<forall>a b r. GetProbeJob a b r \<in> set xs \<longrightarrow> (\<exists>j. r = Inr j \<and> fst (JobOutcome (Some j)) = JobSucceeded))"

definition unjudged :: "reconcile_result \<Rightarrow> cluster_call list \<Rightarrow> bool" where
  "unjudged res xs \<longleftrightarrow> res = migration_panic \<and> (\<forall>m r. StatusMC m r \<notin> set xs)"

lemma probe_removed:
  assumes l: "live (cl_lib api) mc" and ph: "mst_phase (mc_status mc) = MigrationCheckRunning"
    and p: "mcs_probe (mc_spec mc) = None"
  shows "ensures (check_pass api mc) (\<lambda>res xs. passed_job mc xs \<longrightarrow> unjudged res xs)"
proof -
  have pass: "check_pass api mc = do {
        t \<leftarrow> ttlExpired api mc;
        if fst t then do {
          d \<leftarrow> operate (cl_delete_mc api mc) (DeleteMC mc);
          State_Monad.return (res_done, ignore_not_found d)
        }
        else checkProbe api mc
      }"
  proof -
    have "checkProbe api mc = phase_pass api mc" by (simp add: phase_pass_def ph)
    with l show ?thesis by (simp only:) (simp add: check_pass_def live_def)
  qed
  have passed: "ensures (probe_passed api mc name) (\<lambda>res xs. unjudged res xs)" for name
    unfolding probe_passed_def p tailProbe_def
    by (intro ens_rules | simp)+ (auto simp: unjudged_def)
  have ttl: "ensures (ttlExpired api mc) (\<lambda>r xs. \<exists>t. xs = [ClockNow t] \<and> r = ttl_left mc t)"
    unfolding ttlExpired_def by (intro ens_rules) auto
  have judge: "ensures (judge_job api mc name (JobOutcome (Some j)))
      (\<lambda>res xs. fst (JobOutcome (Some j)) = JobSucceeded \<longrightarrow> unjudged res xs)" for name j
    using passed [of name] judge_any [of api mc name "JobOutcome (Some j)"]
    by (cases "JobOutcome (Some j)"; cases "fst (JobOutcome (Some j))")
       (auto simp: judge_job_def elim: ens_weaken)
  have check: "ensures (checkProbe api mc) (\<lambda>res xs. passed_job mc xs \<longrightarrow> unjudged res xs)"
    unfolding checkProbe_def Let_def
  proof (rule ens_bind, rule ens_operate, rule ens_sum)
    fix r :: "job result" and err
    assume "r = Inl err"
    show "ensures (if IsNotFound err then finish_check api mc MigrationCheckExpired
            MigrationReasonDeadlineExceeded ''probe job disappeared before a verdict''
          else State_Monad.return (res_done, Some err))
        (\<lambda>res ys. passed_job mc ([GetProbeJob (mc_namespace mc) (probe_job_name mc (migCheckID mc)) r] @ ys)
           \<longrightarrow> unjudged res ([GetProbeJob (mc_namespace mc) (probe_job_name mc (migCheckID mc)) r] @ ys))"
      by (intro ens_if ens_weaken [OF log_any(3)] ens_return) (auto simp: passed_job_def \<open>r = Inl err\<close>)
  next
    fix r :: "job result" and j
    assume r: "r = Inr j"
    show "ensures (judge_job api mc (probe_job_name mc (migCheckID mc)) (JobOutcome (Some j)))
        (\<lambda>res ys. passed_job mc ([GetProbeJob (mc_namespace mc) (probe_job_name mc (migCheckID mc)) r] @ ys)
           \<longrightarrow> unjudged res ([GetProbeJob (mc_namespace mc) (probe_job_name mc (migCheckID mc)) r] @ ys))"
      by (rule ens_weaken [OF judge]) (auto simp: passed_job_def unjudged_def r)
  qed
  show ?thesis
    unfolding pass
    by (rule ens_bindI [OF ttl])
       (auto intro!: ens_if ens_rules ens_weaken [OF check] simp: passed_job_def unjudged_def)
qed

text \<open>C39 A check whose probe is removed while it runs cannot be judged: the pass that finds the probe Job
  complete dereferences the probe that is no longer there; it ends in a panic, which the controller
  runtime turns into an error to retry, and writes no status, however often it is repeated.\<close>

theorem removed_probe_panics:
  assumes run: "run_in (MigrationReconcile api ns name) w = (res, xs)"
    and get: "GetMC ns name (Inr mc) \<in> set xs" and "live (cl_lib api) mc"
    and "mst_phase (mc_status mc) = MigrationCheckRunning" and "mcs_probe (mc_spec mc) = None"
    and "\<And>t. ClockNow t \<in> set xs \<Longrightarrow> \<not> fst (ttl_left mc t)"
    and "\<And>a b r. GetProbeJob a b r \<in> set xs \<Longrightarrow> \<exists>j. r = Inr j \<and> fst (JobOutcome (Some j)) = JobSucceeded"
  shows "res = migration_panic \<and> (\<forall>m r. StatusMC m r \<notin> set xs)"
proof -
  have "ensures (MigrationReconcile api ns name) (\<lambda>res xs. \<exists>got rest. xs = GetMC ns name got # rest
      \<and> (got = Inr mc \<longrightarrow> passed_job mc rest \<longrightarrow> unjudged res rest))"
    unfolding MigrationReconcile_def
  proof (rule ens_bind, rule ens_operate, rule ens_sum)
    fix got m
    assume g: "got = (Inr m :: migration_check result)"
    have "ensures (check_pass api m) (\<lambda>res ys. m = mc \<longrightarrow> passed_job mc ys \<longrightarrow> unjudged res ys)"
      using probe_removed [OF assms(3-5)] check_pass_any by (cases "m = mc") (auto elim!: ens_weaken)
    then show "ensures (check_pass api m) (\<lambda>res ys. \<exists>got' rest. [GetMC ns name got] @ ys = GetMC ns name got' # rest
        \<and> (got' = Inr mc \<longrightarrow> passed_job mc rest \<longrightarrow> unjudged res rest))"
      by (rule ens_weaken) (auto simp: g)
  qed (auto intro!: ens_return)
  from ens_run_in [OF this run] pass_head [OF run get]
  obtain rest where xs: "xs = GetMC ns name (Inr mc) # rest" and j: "passed_job mc rest \<longrightarrow> unjudged res rest" by auto
  have "passed_job mc rest" using assms(6,7) unfolding passed_job_def xs by auto
  with j show ?thesis unfolding unjudged_def xs by auto
qed

definition bare_demo :: migration_check where
  "bare_demo = (mc_demo MigrationCheckRunning)\<lparr>mc_spec := mc_spec_demo\<lparr>mcs_probe := None\<rparr>\<rparr>"

lemma bare_demo_sel [run_simps]:
  "mc_deleting bare_demo = False" "mc_finalizers bare_demo = [migrationCheckFinalizer]"
  "mst_phase (mc_status bare_demo) = MigrationCheckRunning" "mcs_probe (mc_spec bare_demo) = None"
  "fst (ttl_left bare_demo 60000000000) = False" "mc_namespace bare_demo = ''ns''"
  "probe_job_name bare_demo cid = ''job''"
  by (simp_all add: bare_demo_def mc_demo_def ttl_left_def mc_ttl_def mc_spec_demo_def time_sub_def sat64_id
      dur_seconds_def wrap64_id Let_def probe_job_name_def)

lemma demo_panic:
  "run_in (MigrationReconcile cl_demo ''ns'' ''mc'') (cw_mig bare_demo (Inr (job_demo 1 0)))
     = (migration_panic,
        [GetMC ''ns'' ''mc'' (Inr bare_demo), ClockNow minute, GetProbeJob ''ns'' ''job'' (Inr (job_demo 1 0))])"
  by (simp add: MigrationReconcile_def check_pass_def phase_pass_def checkProbe_def judge_job_def probe_passed_def
      tailProbe_def ttlExpired_def run_simps Let_def)

theorem removed_probe_panics_witness:
  "\<forall>m r. StatusMC m r \<notin> set (snd (run_in (MigrationReconcile cl_demo ''ns'' ''mc'') (cw_mig bare_demo (Inr (job_demo 1 0)))))"
proof -
  have "migration_panic = migration_panic \<and> (\<forall>m r. StatusMC m r \<notin> set
      [GetMC ''ns'' ''mc'' (Inr bare_demo), ClockNow minute, GetProbeJob ''ns'' ''job'' (Inr (job_demo 1 0))])"
    by (rule removed_probe_panics [OF demo_panic, of bare_demo])
       (auto simp: live_def bare_demo_sel cl_demo_sel finalizer_demo job_demo_sel)
  then show ?thesis unfolding demo_panic snd_conv by blast
qed

end
