(* ===== verification/Migration_Scripts.thy ===== *)
theory Migration_Scripts
  imports Migration_Jobs
begin

section \<open>What the probe Job's scripts decide\<close>

text \<open>
  The waiting script and the readiness poll of the probe Job, against what they are for: their exit
  statuses as conditions on what \<open>pg_isready\<close> and \<open>curl\<close> answered.
\<close>

text \<open>C36 The application starts exactly when the database is stable: the exit status of the waiting
  script is 0 if and only if six consecutive checks, five seconds apart, succeeded within the budget,
  whatever came before them, and the prewarming changes it in no way.\<close>

theorem database_gate:
  "fst (run_wait_db timeout ready warmed took) = 0 \<longleftrightarrow>
     (\<exists>k. 5 * (k + 5) < timeout \<and> ready k \<and> ready (k + 1) \<and> ready (k + 2) \<and> ready (k + 3)
        \<and> ready (k + 4) \<and> ready (k + 5))"
proof -
  have all: "(\<forall>j<6. P j) \<longleftrightarrow> P 0 \<and> P 1 \<and> P 2 \<and> P 3 \<and> P 4 \<and> P 5" for P :: "nat \<Rightarrow> bool"
  proof -
    have "{..<6::nat} = {0, 1, 2, 3, 4, 5}" by auto
    then have "(\<forall>j\<in>{..<6}. P j) \<longleftrightarrow> P 0 \<and> P 1 \<and> P 2 \<and> P 3 \<and> P 4 \<and> P 5" by simp
    then show ?thesis by auto
  qed
  show ?thesis by (simp add: run_wait_db_exit six_in_a_row_def all)
qed

lemma split_lines_not_Nil [simp]: "split_lines s \<noteq> []"
  by (induction s) (auto split: list.split)

lemma split_lines_append: "split_lines (a @ CHR 0x0A # b) = split_lines a @ split_lines b"
proof (induction a)
  case (Cons c a)
  then show ?case by (cases "split_lines a") simp_all
qed simp

lemma probe_code_trailer:
  "CHR 0x0A \<notin> set code \<Longrightarrow> probe_code (body @ newline @ ''PROBE_HTTP='' @ code) = code"
proof -
  assume c: "CHR 0x0A \<notin> set code"
  have one: "split_lines s = [s]" if "CHR 0x0A \<notin> set s" for s
    using that by (induction s) auto
  have "split_lines (body @ newline @ ''PROBE_HTTP='' @ code) = split_lines body @ [''PROBE_HTTP='' @ code]"
    using split_lines_append [of body "''PROBE_HTTP='' @ code"] one [of "''PROBE_HTTP='' @ code"] c
    by (simp add: newline_def)
  then show ?thesis
    by (cases "filter (\<lambda>l. has_prefix l ''PROBE_HTTP='') (split_lines body)")
       (simp_all add: probe_code_def has_prefix_def)
qed

text \<open>C37 The probe's exit status is the verdict: it is 0 exactly when some attempt within the budget got an
  answer whose last status line starts with 2 and, when an expectation is set, the output holds one of
  its lines. What is searched is the whole output of curl, status line included: an expectation such
  as 200 is met by every body, although the specification says the body must hold it.\<close>

theorem probe_exit_is_the_verdict:
  "(fst (run_migration_probe timeout path expect outs) = 0 \<longleftrightarrow>
      (\<exists>k. 2 * k < timeout \<and> has_prefix (probe_code (strip_newlines (outs k))) ''2''
         \<and> (expect = [] \<or> grep_fixed (strip_newlines (outs k)) expect)))
   \<and> answer_ready ''200'' (body @ newline @ ''PROBE_HTTP=200'')"
proof -
  have "split_lines (body @ newline @ ''PROBE_HTTP=200'') = split_lines body @ [''PROBE_HTTP=200'']"
    using split_lines_append [of body "''PROBE_HTTP=200''"] by (simp add: newline_def)
  then have "grep_fixed (body @ newline @ ''PROBE_HTTP=200'') ''200''"
    by (simp add: grep_fixed_def newline_def str_contains_def has_prefix_def)
  moreover have "probe_code (body @ newline @ ''PROBE_HTTP=200'') = ''200''"
    using probe_code_trailer [of "''200''" body] by simp
  ultimately have "answer_ready ''200'' (body @ newline @ ''PROBE_HTTP=200'')"
    by (simp add: answer_ready_def has_prefix_def)
  moreover have "fst (run_migration_probe timeout path expect outs) = 0 \<longleftrightarrow>
      (\<exists>k. 2 * k < timeout \<and> answer_ready expect (strip_newlines (outs k)))"
    unfolding run_migration_probe_exit by simp
  ultimately show ?thesis unfolding answer_ready_def by blast
qed

end
