(* ===== verification/Database_Url.thy ===== *)
theory Database_Url
  imports Migration_Check
begin

section \<open>Reading a connection string back\<close>

text \<open>
  The reader's side of \<open>buildDatabaseURL\<close>, as libpq and \<open>net/url\<close> split a URI: the userinfo ends
  at the first at-sign, the password starts at its first colon, the host at the first slash, the query
  at the first question mark, and every part but the query is percent-decoded.
\<close>

definition split_at :: "char \<Rightarrow> string \<Rightarrow> (string \<times> string) option" where
  "split_at c s = map_option (\<lambda>i. (take i s, drop (i + 1) s)) (index_byte s c)"

lemma split_at_append: "c \<notin> set a \<Longrightarrow> split_at c (a @ c # b) = Some (a, b)"
  by (induction a) (auto simp: split_at_def)

record dsn =
  dsn_user :: string
  dsn_pass :: string
  dsn_host :: string
  dsn_port :: string
  dsn_db :: string
  dsn_query :: string

definition decode_pair :: "(string \<times> string) option \<Rightarrow> (string \<times> string) option" where
  "decode_pair x =
     (case x of
        None \<Rightarrow> None
      | Some (a, b) \<Rightarrow> (case (unescape a, unescape b) of (Some a', Some b') \<Rightarrow> Some (a', b') | _ \<Rightarrow> None))"

definition parse_authority :: "string \<Rightarrow> (string \<times> string) option" where
  "parse_authority s =
     (case unescape s of
        None \<Rightarrow> None
      | Some hp \<Rightarrow> map_option (\<lambda>i. (take i hp, drop (i + 1) hp)) (last_index_byte hp (CHR '':'')))"

definition parse_dsn :: "string \<Rightarrow> dsn option" where
  "parse_dsn s =
     (if \<not> has_prefix s ''postgres://'' then None
      else
        case split_at (CHR ''@'') (drop 11 s) of None \<Rightarrow> None
        | Some (userinfo, rest) \<Rightarrow>
        (case split_at (CHR ''/'') rest of None \<Rightarrow> None
         | Some (authority, path) \<Rightarrow>
         (case (decode_pair (split_at (CHR '':'') userinfo), parse_authority authority,
                split_at (CHR ''?'') path) of
            (Some (user, pass), Some (host, port), Some (db, query)) \<Rightarrow>
              map_option (\<lambda>d. \<lparr>dsn_user = user, dsn_pass = pass, dsn_host = host, dsn_port = port,
                dsn_db = d, dsn_query = query\<rparr>) (unescape db)
          | _ \<Rightarrow> None)))"

lemma host_no_slash: "CHR ''/'' \<notin> set (url_escape s EncodeHost)"
  using set_url_escape [of _ s EncodeHost] by (auto simp: unreserved_chars_def url_kept_def)

lemma last_colon: "last_index_byte (h @ CHR '':'' # p) (CHR '':'') = Some (length h)" if "CHR '':'' \<notin> set p"
  using that by (simp add: last_index_byte_append)

text \<open>C35 A connection string reads back as what went in: whatever bytes the user name, the password, the
  host and the database name hold, a reader that splits and decodes the URL gets exactly them, port
  5432 and the query sslmode=disable; in particular a password with separators cannot change the host
  the application connects to.\<close>

theorem connection_string_roundtrip:
  "parse_dsn (buildDatabaseURL user pass host db) =
     Some \<lparr>dsn_user = user, dsn_pass = pass, dsn_host = host, dsn_port = ''5432'', dsn_db = db,
       dsn_query = ''sslmode=disable''\<rparr>"
proof -
  let ?u = "url_escape user EncodeUserPassword" and ?p = "url_escape pass EncodeUserPassword"
  let ?h = "url_escape (host @ '':5432'') EncodeHost" and ?d = "url_escape db EncodePath"
  have slash: "url_escape (CHR ''/'' # db) EncodePath = CHR ''/'' # ?d"
    by (simp add: url_escape_def escape_char_def should_escape_def url_kept_def)
  have s: "buildDatabaseURL user pass host db =
      ''postgres://'' @ (?u @ CHR '':'' # ?p) @ CHR ''@'' # ?h @ CHR ''/'' # ?d @ CHR ''?'' # ''sslmode=disable''"
    by (simp add: buildDatabaseURL_def url_string_def slash del: url_escape_append)
  have "split_at (CHR ''@'') ((?u @ CHR '':'' # ?p) @ CHR ''@'' # ?h @ CHR ''/'' # ?d @ CHR ''?'' # ''sslmode=disable'')
      = Some (?u @ CHR '':'' # ?p, ?h @ CHR ''/'' # ?d @ CHR ''?'' # ''sslmode=disable'')"
    by (rule split_at_append) (simp add: userinfo_separators)
  moreover have "split_at (CHR ''/'') (?h @ CHR ''/'' # ?d @ CHR ''?'' # ''sslmode=disable'')
      = Some (?h, ?d @ CHR ''?'' # ''sslmode=disable'')"
    by (rule split_at_append) (rule host_no_slash)
  moreover have "decode_pair (split_at (CHR '':'') (?u @ CHR '':'' # ?p)) = Some (user, pass)"
    by (simp add: decode_pair_def split_at_append [OF userinfo_separators(1)] unescape_escape)
  moreover have "parse_authority ?h = Some (host, ''5432'')"
    by (simp add: parse_authority_def unescape_escape last_colon)
  moreover have "split_at (CHR ''?'') (?d @ CHR ''?'' # ''sslmode=disable'') = Some (?d, ''sslmode=disable'')"
    by (rule split_at_append) (rule path_no_query)
  ultimately show ?thesis
    unfolding s by (simp add: parse_dsn_def unescape_escape has_prefix_def)
qed

end
