(* ===== verification/Helm_Values.thy ===== *)
theory Helm_Values
  imports Klib Api_PreviewConfig
begin

section \<open>Nested Helm values: preview_handler.go, kustomization_patches.go\<close>

text \<open>
  The values of a HelmRelease are a JSON object; a configured path in dot notation names one of its
  fields. The operator computes the value of every configured path and writes them into the
  release, in the order in which Go ranges over the map of paths: the order of the entries here.
\<close>

subsection \<open>Paths\<close>

text \<open>\<open>strings.Split\<close> at a one-character separator.\<close>

fun split_on :: "char \<Rightarrow> string \<Rightarrow> string list" where
  "split_on c [] = [[]]"
| "split_on c (x # xs) =
     (if x = c then [] # split_on c xs
      else case split_on c xs of [] \<Rightarrow> [[x]] | l # ls \<Rightarrow> (x # l) # ls)"

definition path_parts :: "string \<Rightarrow> string list" where
  "path_parts path = split_on (CHR ''.'') path"

lemma split_on_not_Nil [simp]: "split_on c s \<noteq> []"
  by (cases s) (auto split: list.splits)

lemma path_parts_not_Nil [simp]: "path_parts p \<noteq> []"
  by (simp add: path_parts_def)

lemma join_split: "join_with [c] (split_on c s) = s"
proof (induction s)
  case (Cons x xs)
  obtain l ls where l: "split_on c xs = l # ls" by (cases "split_on c xs") auto
  with Cons show ?case by (cases ls) auto
qed simp

lemma path_parts_inj: "path_parts p = path_parts q \<longleftrightarrow> p = q"
  unfolding path_parts_def by (metis join_split)

subsection \<open>Nested updates\<close>

type_synonym fields = "(string \<times> json) list"

definition jput :: "string \<Rightarrow> json \<Rightarrow> fields \<Rightarrow> fields" where
  "jput k v m = (k, v) # filter (\<lambda>e. fst e \<noteq> k) m"

text \<open>The map an intermediate part names: the one there, or a new one.\<close>

definition submap :: "fields \<Rightarrow> string \<Rightarrow> fields" where
  "submap m k = (case map_of m k of Some (JObj n) \<Rightarrow> n | _ \<Rightarrow> [])"

text \<open>\<open>parts\<close> is never empty: \<open>strings.Split\<close> returns at least one string.\<close>

fun set_nested :: "fields \<Rightarrow> string list \<Rightarrow> string \<Rightarrow> bool \<times> fields" where
  "set_nested m [] v = (False, m)"
| "set_nested m [k] v = (if map_of m k = Some (JStr v) then (False, m) else (True, jput k (JStr v) m))"
| "set_nested m (k # l # ks) v =
     (case set_nested (submap m k) (l # ks) v of (b, n) \<Rightarrow> (b, jput k (JObj n) m))"

definition setNestedValue :: "fields \<Rightarrow> string \<Rightarrow> string \<Rightarrow> bool \<times> fields" where
  "setNestedValue m path value = set_nested m (path_parts path) value"

fun put_nested :: "fields \<Rightarrow> string list \<Rightarrow> string \<Rightarrow> fields" where
  "put_nested m [] v = m"
| "put_nested m [k] v = jput k (JStr v) m"
| "put_nested m (k # l # ks) v = jput k (JObj (put_nested (submap m k) (l # ks) v)) m"

definition setNestedMapValue :: "fields \<Rightarrow> string \<Rightarrow> string \<Rightarrow> fields" where
  "setNestedMapValue m path value = put_nested m (path_parts path) value"

text \<open>The loop over the configured paths: whether any value changed, and the values.\<close>

fun apply_values :: "fields \<Rightarrow> smap \<Rightarrow> bool \<times> fields" where
  "apply_values m [] = (False, m)"
| "apply_values m ((path, v) # ps) =
     (case setNestedValue m path v of (b, n) \<Rightarrow>
      case apply_values n ps of (c, r) \<Rightarrow> (b \<or> c, r))"

subsection \<open>What an update changes\<close>

lemma map_of_filter_key: "map_of (filter (\<lambda>e. fst e \<noteq> k) m) k' = (if k' = k then None else map_of m k')"
  by (induction m) auto

lemma map_of_jput [simp]: "map_of (jput k v m) k' = (if k' = k then Some v else map_of m k')"
  by (simp add: jput_def map_of_filter_key)

lemma submap_jput [simp]: "submap (jput k (JObj n) m) k = n"
  by (simp add: submap_def)

text \<open>The value at a path; \<open>None\<close> where nothing is.\<close>

definition value_at :: "fields \<Rightarrow> string list \<Rightarrow> json option" where
  "value_at m ks = json_path (JObj m) ks"

lemma value_at_single [simp]: "value_at m [k] = map_of m k"
  by (simp add: value_at_def split: option.splits)

lemma value_at_nested: "value_at m (k # l # ks) = value_at (submap m k) (l # ks)"
  by (auto simp: value_at_def submap_def split: option.splits json.splits)

lemma set_nested_value: "ks \<noteq> [] \<Longrightarrow> value_at (snd (set_nested m ks v)) ks = Some (JStr v)"
  by (induction m ks v rule: set_nested.induct) (auto simp: value_at_nested split: prod.splits)

lemma set_nested_settled: "fst (set_nested m ks v) = (ks \<noteq> [] \<and> value_at m ks \<noteq> Some (JStr v))"
  by (induction m ks v rule: set_nested.induct) (auto simp: value_at_nested split: prod.splits)

text \<open>Two paths clash when one of them is an initial segment of the other.\<close>

definition clash :: "string list \<Rightarrow> string list \<Rightarrow> bool" where
  "clash p q \<longleftrightarrow> prefix p q \<or> prefix q p"

lemma set_nested_frame: "\<not> clash ks q \<Longrightarrow> value_at (snd (set_nested m ks v)) q = value_at m q"
proof (induction m ks v arbitrary: q rule: set_nested.induct)
  case (2 m k v)
  then obtain j js where q: "q = j # js" "j \<noteq> k" by (cases q) (auto simp: clash_def)
  then show ?case by (cases js) (auto simp: value_at_nested submap_def)
next
  case (3 m k l ks v)
  then obtain j js where q: "q = j # js" by (cases q) (auto simp: clash_def)
  show ?case
  proof (cases "j = k")
    case True
    with 3 q have c: "\<not> clash (l # ks) js" by (auto simp: clash_def)
    then obtain i iq where js: "js = i # iq" by (cases js) (auto simp: clash_def)
    from 3(1) [OF c] show ?thesis using q js True by (auto simp: value_at_nested split: prod.splits)
  next
    case False
    with q show ?thesis by (cases js) (auto simp: value_at_nested submap_def split: prod.splits)
  qed
qed (simp add: clash_def)

lemma put_nested_value: "ks \<noteq> [] \<Longrightarrow> value_at (put_nested m ks v) ks = Some (JStr v)"
  by (induction m ks v rule: put_nested.induct) (auto simp: value_at_nested)

subsection \<open>The loop settles\<close>

text \<open>No path of the list is an initial segment of another.\<close>

definition clash_free :: "smap \<Rightarrow> bool" where
  "clash_free ps \<longleftrightarrow> pairwise (\<lambda>p q. \<not> clash (path_parts p) (path_parts q)) (set (map fst ps))
     \<and> distinct (map fst ps)"

lemma clash_free_Cons:
  "clash_free ((p, v) # ps) \<Longrightarrow>
     clash_free ps \<and> (\<forall>q\<in>set (map fst ps). \<not> clash (path_parts p) (path_parts q))"
  unfolding clash_free_def by (auto simp: pairwise_insert)

lemma clash_sym: "clash p q = clash q p"
  by (auto simp: clash_def)

lemma apply_values_frame:
  "(\<forall>p\<in>set (map fst ps). \<not> clash (path_parts p) q) \<Longrightarrow> value_at (snd (apply_values m ps)) q = value_at m q"
proof (induction m ps rule: apply_values.induct)
  case (2 m path v ps)
  obtain b n where n: "setNestedValue m path v = (b, n)" by fastforce
  have "value_at n q = value_at m q"
    using set_nested_frame [of "path_parts path" q m v] 2(2) n by (simp add: setNestedValue_def)
  with 2(1) [OF n [symmetric]] 2(2) n show ?case by (auto split: prod.splits)
qed simp

lemma apply_values_value:
  "clash_free ps \<Longrightarrow> (p, v) \<in> set ps \<Longrightarrow> value_at (snd (apply_values m ps)) (path_parts p) = Some (JStr v)"
proof (induction m ps rule: apply_values.induct)
  case (2 m path w ps)
  obtain b n where n: "setNestedValue m path w = (b, n)" by fastforce
  note free = clash_free_Cons [OF 2(2)]
  show ?case
  proof (cases "(p, v) = (path, w)")
    case True
    have "value_at n (path_parts path) = Some (JStr w)"
      using set_nested_value [of "path_parts path" m w] n by (simp add: setNestedValue_def)
    moreover have "value_at (snd (apply_values n ps)) (path_parts path) = value_at n (path_parts path)"
      using free by (intro apply_values_frame) (auto simp: clash_sym)
    ultimately show ?thesis using n True by (auto split: prod.splits)
  next
    case False
    with 2 free n show ?thesis by (auto split: prod.splits)
  qed
qed simp

lemma apply_values_unchanged:
  "(\<forall>(p, v)\<in>set ps. value_at m (path_parts p) = Some (JStr v)) \<Longrightarrow> clash_free ps \<Longrightarrow> \<not> fst (apply_values m ps)"
proof (induction m ps rule: apply_values.induct)
  case (2 m path w ps)
  obtain b n where n: "setNestedValue m path w = (b, n)" by fastforce
  note free = clash_free_Cons [OF 2(3)]
  have "\<not> b"
    using set_nested_settled [of m "path_parts path" w] 2(2) n by (simp add: setNestedValue_def)
  moreover have "value_at n (path_parts p) = Some (JStr v)" if "(p, v) \<in> set ps" for p v
  proof -
    have "\<not> clash (path_parts path) (path_parts p)" using free that by force
    from set_nested_frame [OF this, of m w] show ?thesis
      using n that 2(2) by (auto simp: setNestedValue_def)
  qed
  ultimately show ?case using 2(1) [OF n [symmetric]] free n by (auto split: prod.splits)
qed simp

end
