(* ===== verification/Preview_Values.thy ===== *)
theory Preview_Values
  imports Helm_Values
begin

section \<open>The values a preview is given: preview_handler.go\<close>

text \<open>
  The environment variables and Helm values that point a preview at its own database, Redis, S3
  proxy and OIDC client. A configured name that is empty means that the value is not wanted.
\<close>

record env_patch =
  ep_name :: string
  ep_value :: string
  ep_from :: "env_source option"

record db_credentials =
  dbc_username :: string
  dbc_password :: string

subsection \<open>Names\<close>

definition preview_app_url :: "string \<Rightarrow> string \<Rightarrow> string \<Rightarrow> string" where
  "preview_app_url domain app pr = ''https://pr-'' @ pr @ ''-'' @ app @ ''.'' @ domain"

definition preview_client_id :: "string \<Rightarrow> string \<Rightarrow> string" where
  "preview_client_id app pr = ''preview-'' @ app @ ''-'' @ pr"

definition oidc_secret_name :: "string \<Rightarrow> string" where
  "oidc_secret_name pr = ''preview-oidc-client-secret-'' @ pr"

definition superuser_secret :: "string \<Rightarrow> string" where
  "superuser_secret pr = ''postgres-preview-'' @ pr @ ''-superuser''"

definition preview_db_host :: "string \<Rightarrow> string \<Rightarrow> string" where
  "preview_db_host pr ns = ''postgres-preview-'' @ pr @ ''-rw.'' @ ns @ ''.svc.cluster.local''"

definition preview_redis_host :: "string \<Rightarrow> string" where
  "preview_redis_host ns = ''redis-preview.'' @ ns @ ''.svc.cluster.local''"

definition preview_s3_endpoint :: "string \<Rightarrow> string" where
  "preview_s3_endpoint ns = ''http://s3proxy.'' @ ns @ ''.svc.cluster.local:8080''"

definition s3_access_key :: "string \<Rightarrow> string" where
  "s3_access_key pr = ''preview-'' @ pr"

definition s3_secret_key :: "string \<Rightarrow> string" where
  "s3_secret_key pr = ''preview-secret-'' @ pr"

subsection \<open>Substitution\<close>

text \<open>
  \<open>strings.NewReplacer(...).Replace\<close> for non-empty patterns: left to right, without overlaps, the
  earlier pattern first; what is substituted is not looked at again.
\<close>

function replacer :: "(string \<times> string) list \<Rightarrow> string \<Rightarrow> string" where
  "replacer rules s =
     (if s = [] then []
      else case List.find (\<lambda>(old, _). old \<noteq> [] \<and> has_prefix s old) rules of
        Some (old, new) \<Rightarrow> new @ replacer rules (drop (length old) s)
      | None \<Rightarrow> hd s # replacer rules (tl s))"
  by pat_completeness auto
termination
proof (relation "measure (\<lambda>(_, s). length s)")
  fix rules :: "(string \<times> string) list" and s x old new
  assume "s \<noteq> []" and f: "List.find (\<lambda>(old, _). old \<noteq> [] \<and> has_prefix s old) rules = Some x" "(old, new) = x"
  from f have "old \<noteq> []" by (auto simp: find_Some_iff)
  with \<open>s \<noteq> []\<close> show "((rules, drop (length old) s), rules, s) \<in> measure (\<lambda>(_, s). length s)"
    by simp
qed auto

declare replacer.simps [simp del]

definition extra_env_rules :: "string \<Rightarrow> string \<Rightarrow> string \<Rightarrow> (string \<times> string) list" where
  "extra_env_rules ns app pr =
     [(''{S3_ENDPOINT}'', preview_s3_endpoint ns), (''{S3_ACCESS_KEY}'', s3_access_key pr),
      (''{S3_SECRET_KEY}'', s3_secret_key pr), (''{NAMESPACE}'', ns), (''{PR_NUMBER}'', pr),
      (''{APP_NAME}'', app)]"

text \<open>\<open>strings.ReplaceAll\<close>, one pattern after the other.\<close>

definition extra_value :: "string \<Rightarrow> string \<Rightarrow> string \<Rightarrow> string \<Rightarrow> string" where
  "extra_value ns app pr v0 =
     (let v1 = replace_all v0 ''{REDIS_HOST}'' (preview_redis_host ns);
          v2 = replace_all v1 ''{DB_HOST}'' (preview_db_host pr ns);
          v3 = replace_all v2 ''{NAMESPACE}'' ns;
          v4 = replace_all v3 ''{PR_NUMBER}'' pr
      in replace_all v4 ''{APP_NAME}'' app)"

subsection \<open>Environment variables\<close>

definition plain_patch :: "string \<Rightarrow> string \<Rightarrow> env_patch list" where
  "plain_patch name v = (if name \<noteq> [] then [\<lparr>ep_name = name, ep_value = v, ep_from = None\<rparr>] else [])"

definition secret_patch :: "string \<Rightarrow> string \<Rightarrow> string \<Rightarrow> env_patch list" where
  "secret_patch name secret key =
     (if name \<noteq> [] then [\<lparr>ep_name = name, ep_value = [], ep_from = Some (SecretKeyRef secret key)\<rparr>] else [])"

definition extra_env_patches :: "string \<Rightarrow> string \<Rightarrow> string \<Rightarrow> smap \<Rightarrow> env_patch list" where
  "extra_env_patches ns app pr extra =
     map (\<lambda>(k, v). \<lparr>ep_name = k, ep_value = replacer (extra_env_rules ns app pr) v, ep_from = None\<rparr>) extra"

definition buildEnvPatches ::
  "string \<Rightarrow> string \<Rightarrow> string \<Rightarrow> string \<Rightarrow> env_mapping \<Rightarrow> env_patch list" where
  "buildEnvPatches domain ns app pr m =
     plain_patch (em_app_url m) (preview_app_url domain app pr)
     @ plain_patch (em_oidc_client_id m) (preview_client_id app pr)
     @ secret_patch (em_oidc_client_secret m) ''preview-oidc-client-secret'' ''client_secret''
     @ plain_patch (em_database_host m) (preview_db_host pr ns)
     @ plain_patch (em_database_name m) app
     @ secret_patch (em_database_user m) (superuser_secret pr) ''username''
     @ secret_patch (em_database_password m) (superuser_secret pr) ''password''
     @ plain_patch (em_redis_host m) (preview_redis_host ns)
     @ plain_patch (em_redis_port m) ''6379''
     @ plain_patch (em_s3_endpoint m) (preview_s3_endpoint ns)
     @ secret_patch (em_s3_access_key m) ''s3proxy-credentials'' ''accessKeyId''
     @ secret_patch (em_s3_secret_key m) ''s3proxy-credentials'' ''secretAccessKey''
     @ plain_patch (em_s3_bucket m) app
     @ plain_patch (em_s3_region m) ''preview''
     @ extra_env_patches ns app pr (em_extra_env m)"

text \<open>
  The rendered patches point the OIDC secret at the one the operator creates for this pull request;
  every patch of that name is redirected.
\<close>

definition with_oidc_secret :: "string \<Rightarrow> env_mapping \<Rightarrow> env_patch list \<Rightarrow> env_patch list" where
  "with_oidc_secret pr m ps =
     map (\<lambda>p. if ep_name p = em_oidc_client_secret m
              then p\<lparr>ep_from := Some (SecretKeyRef (oidc_secret_name pr) ''client_secret'')\<rparr> else p) ps"

text \<open>
  \<open>setOrUpdateEnv\<close>: the first variable of that name, or a new one at the end. The code compares two
  \<open>EnvVarSource\<close> structs with \<open>!=\<close>: that compares the pointers they hold, and a source read from the
  server and one just built never share a pointer, so a variable with a source is always rewritten.
\<close>

fun set_or_update_env :: "env_var list \<Rightarrow> string \<Rightarrow> string \<Rightarrow> env_source option \<Rightarrow> bool \<times> env_var list" where
  "set_or_update_env [] name v from =
     (True, [\<lparr>ev_name = name, ev_value = (if from = None then v else []), ev_from = from\<rparr>])"
| "set_or_update_env (e # es) name v from =
     (if ev_name e = name then
        (case from of
           Some src \<Rightarrow> (True, e\<lparr>ev_value := [], ev_from := Some src\<rparr> # es)
         | None \<Rightarrow> if ev_value e \<noteq> v then (True, e\<lparr>ev_value := v, ev_from := None\<rparr> # es) else (False, e # es))
      else case set_or_update_env es name v from of (b, es') \<Rightarrow> (b, e # es'))"

fun apply_env :: "env_var list \<Rightarrow> env_patch list \<Rightarrow> bool \<times> env_var list" where
  "apply_env env [] = (False, env)"
| "apply_env env (p # ps) =
     (case set_or_update_env env (ep_name p) (ep_value p) (ep_from p) of (b, env') \<Rightarrow>
      case apply_env env' ps of (c, r) \<Rightarrow> (b \<or> c, r))"

subsection \<open>Helm values\<close>

definition set_path :: "string \<Rightarrow> string \<Rightarrow> smap \<Rightarrow> smap" where
  "set_path path v ps = (if path \<noteq> [] then sput path v ps else ps)"

definition buildHelmValuePatches ::
  "string \<Rightarrow> string \<Rightarrow> string \<Rightarrow> string \<Rightarrow> helm_mapping \<Rightarrow> db_credentials option \<Rightarrow> smap" where
  "buildHelmValuePatches domain ns app pr m creds =
     (let p1 = set_path (hm_app_url m) (preview_app_url domain app pr) [];
          p2 = set_path (hm_oidc_client_id m) (preview_client_id app pr) p1;
          p3 = set_path (hm_database_host m) (preview_db_host pr ns) p2;
          p4 = set_path (hm_database_name m) app p3;
          p5 = (case creds of
                  Some c \<Rightarrow> set_path (hm_database_password m) (dbc_password c)
                              (set_path (hm_database_user m) (dbc_username c) p4)
                | None \<Rightarrow> p4);
          p6 = set_path (hm_redis_host m) (preview_redis_host ns) p5;
          p7 = set_path (hm_redis_port m) ''6379'' p6;
          p8 = set_path (hm_s3_endpoint m) (preview_s3_endpoint ns) p7;
          p9 = set_path (hm_s3_bucket m) app p8
      in fold (\<lambda>(k, v). sput k (extra_value ns app pr v)) (hm_extra_values m) p9)"

lemma distinct_sput: "distinct (map fst m) \<Longrightarrow> distinct (map fst (sput k v m))"
  by (auto simp: sput_def distinct_map_filter)

lemma distinct_set_path: "distinct (map fst m) \<Longrightarrow> distinct (map fst (set_path k v m))"
  by (simp add: set_path_def distinct_sput)

lemma distinct_fold_sput:
  "distinct (map fst m) \<Longrightarrow> distinct (map fst (fold (\<lambda>(k, v). sput k (f v)) ps m))"
  by (induction ps arbitrary: m) (auto intro: distinct_sput)

text \<open>The paths are the keys of a Go map: no path occurs twice.\<close>

lemma helm_paths_distinct: "distinct (map fst (buildHelmValuePatches domain ns app pr m creds))"
  unfolding buildHelmValuePatches_def Let_def
  by (intro distinct_fold_sput distinct_set_path) (cases creds; simp add: distinct_set_path)

lemma set_or_update_env_secret: "fst (set_or_update_env env name v (Some src))"
  by (induction env) (auto split: prod.splits)

text \<open>A patch with a secret reference reports a change, whatever the container has.\<close>

lemma apply_env_secret:
  "p \<in> set ps \<Longrightarrow> ep_from p \<noteq> None \<Longrightarrow> fst (apply_env env ps)"
proof (induction env ps rule: apply_env.induct)
  case (2 env q ps)
  then show ?case
    by (auto split: prod.splits) (metis fst_conv set_or_update_env_secret)
qed simp

end
