(* ===== verification/Kustomize_Patches.thy ===== *)
theory Kustomize_Patches
  imports Preview_Values
begin

section \<open>The patches of a preview Kustomization: kustomization_patches.go\<close>

text \<open>
  The patch texts, line by line as the format strings of the code have them: a text block is the
  list of its lines joined with newlines.
\<close>

record selector =
  sel_group :: string
  sel_kind :: string
  sel_name :: string

record ks_patch =
  kp_target :: "selector option"
  kp_text :: string

definition patch_for :: "string \<Rightarrow> string \<Rightarrow> string \<Rightarrow> string \<Rightarrow> ks_patch" where
  "patch_for grp kind name txt =
     \<lparr>kp_target = Some \<lparr>sel_group = grp, sel_kind = kind, sel_name = name\<rparr>, kp_text = txt\<rparr>"

definition text_block :: "string list \<Rightarrow> string" where
  "text_block ls = join_with newline ls"

definition spaces :: "nat \<Rightarrow> string" where
  "spaces n = replicate n (CHR '' '')"

subsection \<open>Resources a preview must not have\<close>

definition stripTargets :: "(string \<times> string) list" where
  "stripTargets =
     [('''', ''Namespace''),
      (''external-secrets.io'', ''SecretStore''),
      (''external-secrets.io'', ''ExternalSecret''),
      (''external-secrets.io'', ''PushSecret''),
      (''cert-manager.io'', ''Certificate''),
      (''gateway.networking.k8s.io'', ''HTTPRoute''),
      (''connectivity.homelab.io'', ''DDNSRecord''),
      (''security.istio.io'', ''PeerAuthentication''),
      (''redhatcop.redhat.io'', ''Policy''),
      (''redhatcop.redhat.io'', ''KubernetesAuthEngineRole''),
      (''gateway.envoyproxy.io'', ''SecurityPolicy''),
      (''gateway.envoyproxy.io'', ''ClientTrafficPolicy''),
      (''security.homelab.io'', ''OIDCClient''),
      (''batch'', ''Job''),
      (''generators.external-secrets.io'', ''Password''),
      (''postgresql.cnpg.io'', ''Database'')]"

definition strip_patch :: "string \<times> string \<Rightarrow> ks_patch" where
  "strip_patch t =
     (case t of (grp, kind) \<Rightarrow>
        let apiVersion = (if grp \<noteq> [] then grp @ ''/v1'' else ''v1'') in
        patch_for grp kind []
          (text_block [''apiVersion: '' @ apiVersion, ''kind: '' @ kind, ''metadata:'',
             ''  name: placeholder'', ''$patch: delete'']))"

definition generateStripPatches :: "ks_patch list" where
  "generateStripPatches = map strip_patch stripTargets"

subsection \<open>Environment variables\<close>

definition deployment_merge :: "string \<Rightarrow> string \<Rightarrow> string" where
  "deployment_merge app containers =
     text_block [''apiVersion: apps/v1'', ''kind: Deployment'', ''metadata:'', ''  name: '' @ app, ''spec:'',
       ''  template:'', ''    spec:'', ''      containers:'', containers]"

definition container_entry :: "string \<Rightarrow> string \<Rightarrow> string" where
  "container_entry envBlock cn = text_block [''        - name: '' @ cn, ''          env:'', envBlock]"

definition container_entries :: "string \<Rightarrow> string list \<Rightarrow> string \<Rightarrow> string" where
  "container_entries app containerNames envBlock =
     text_block (map (container_entry envBlock) (if containerNames = [] then [app] else containerNames))"

definition buildEnvVarFromYAML :: "env_patch \<Rightarrow> string" where
  "buildEnvVarFromYAML ep =
     (case ep_from ep of
        Some src \<Rightarrow>
          text_block [spaces 26 @ ''- name: '' @ ep_name ep, spaces 28 @ ''valueFrom:'',
            spaces 30 @ ''secretKeyRef:'', spaces 32 @ ''name: '' @ skr_name src,
            spaces 32 @ ''key: '' @ skr_key src]
      | None \<Rightarrow>
          text_block [spaces 26 @ ''- name: '' @ ep_name ep, spaces 28 @ ''value: '' @ go_quote (ep_value ep)])"

definition deployment_env_line :: "env_patch \<Rightarrow> string" where
  "deployment_env_line ep =
     (if ep_from ep \<noteq> None then buildEnvVarFromYAML ep
      else text_block [spaces 26 @ ''- name: '' @ ep_name ep, spaces 28 @ ''value: '' @ go_quote (ep_value ep),
             spaces 28 @ ''valueFrom: null''])"

definition generateDeploymentEnvPatches :: "string \<Rightarrow> string list \<Rightarrow> env_patch list \<Rightarrow> ks_patch option" where
  "generateDeploymentEnvPatches app containerNames envPatches =
     (if envPatches = [] then None
      else Some (patch_for [] ''Deployment'' app
        (deployment_merge app
          (container_entries app containerNames (text_block (map deployment_env_line envPatches))))))"

subsection \<open>HelmRelease patches\<close>

definition helm_merge :: "string \<Rightarrow> string list \<Rightarrow> string" where
  "helm_merge app spec_lines =
     text_block ([''apiVersion: helm.toolkit.fluxcd.io/v2'', ''kind: HelmRelease'', ''metadata:'',
       ''  name: '' @ app, ''spec:''] @ spec_lines)"

definition generateValuesFromStripPatch :: "string \<Rightarrow> ks_patch" where
  "generateValuesFromStripPatch app =
     patch_for ''helm.toolkit.fluxcd.io'' ''HelmRelease'' app (helm_merge app [''  valuesFrom: []''])"

text \<open>\<open>%v\<close> of a value that is neither a string nor a map.\<close>

fun go_value :: "json \<Rightarrow> string" where
  "go_value JNull = ''<nil>''"
| "go_value (JBool b) = btoa b"
| "go_value (JInt i) = itoa i"
| "go_value (JFloat s) = s"
| "go_value (JStr s) = s"
| "go_value (JArr js) = ''['' @ join_with '' '' (map go_value js) @ '']''"
| "go_value (JObj fs) = ''map['' @ join_with '' '' (map (\<lambda>(k, v). k @ '':'' @ go_value v) fs) @ '']''"

function yaml_lines :: "fields \<Rightarrow> nat \<Rightarrow> string list" where
  "yaml_lines [] indent = []"
| "yaml_lines ((k, JObj n) # m) indent =
     (spaces indent @ k @ '':'') # text_block (yaml_lines n (indent + 2)) # yaml_lines m indent"
| "yaml_lines ((k, JStr s) # m) indent = (spaces indent @ k @ '': '' @ go_quote s) # yaml_lines m indent"
| "yaml_lines ((k, JNull) # m) indent = (spaces indent @ k @ '': '' @ go_value JNull) # yaml_lines m indent"
| "yaml_lines ((k, JBool b) # m) indent = (spaces indent @ k @ '': '' @ go_value (JBool b)) # yaml_lines m indent"
| "yaml_lines ((k, JInt i) # m) indent = (spaces indent @ k @ '': '' @ go_value (JInt i)) # yaml_lines m indent"
| "yaml_lines ((k, JFloat f) # m) indent = (spaces indent @ k @ '': '' @ go_value (JFloat f)) # yaml_lines m indent"
| "yaml_lines ((k, JArr js) # m) indent = (spaces indent @ k @ '': '' @ go_value (JArr js)) # yaml_lines m indent"
  by pat_completeness auto
termination
  by (relation "measure (\<lambda>(m, _). size (JObj m))") auto

definition renderYAMLMap :: "fields \<Rightarrow> nat \<Rightarrow> string" where
  "renderYAMLMap m indent = text_block (yaml_lines m indent)"

text \<open>The nested map of the paths without an index.\<close>

definition values_tree :: "smap \<Rightarrow> fields" where
  "values_tree ps =
     fold (\<lambda>(path, v) root. if CHR ''['' \<in> set path then root else setNestedMapValue root path v) ps []"

definition generateHelmValuePatches :: "string \<Rightarrow> smap \<Rightarrow> ks_patch option" where
  "generateHelmValuePatches app valuePatches =
     (if valuePatches = [] then None
      else let root = values_tree valuePatches in
        if root = [] then None
        else Some (patch_for ''helm.toolkit.fluxcd.io'' ''HelmRelease'' app
               (helm_merge app [''  values:'', renderYAMLMap root 4])))"

subsection \<open>Post renderers\<close>

definition indentYAML :: "string \<Rightarrow> nat \<Rightarrow> string" where
  "indentYAML s n =
     text_block (map (\<lambda>l. if l \<noteq> [] then spaces n @ l else l) (split_on (CHR 0x0A) s))"

definition post_renderer_env_line :: "env_patch \<Rightarrow> string" where
  "post_renderer_env_line ep =
     (case ep_from ep of
        Some src \<Rightarrow>
          text_block [spaces 12 @ ''- name: '' @ ep_name ep, spaces 14 @ ''valueFrom:'',
            spaces 16 @ ''secretKeyRef:'', spaces 18 @ ''name: '' @ skr_name src,
            spaces 18 @ ''key: '' @ skr_key src]
      | None \<Rightarrow>
          text_block [spaces 12 @ ''- name: '' @ ep_name ep, spaces 14 @ ''value: '' @ go_quote (ep_value ep),
            spaces 14 @ ''valueFrom: null''])"

definition generatePostRendererPatch :: "string \<Rightarrow> string list \<Rightarrow> env_patch list \<Rightarrow> ks_patch option" where
  "generatePostRendererPatch app containerNames envPatches =
     (if envPatches = [] then None
      else
        let inner = deployment_merge app
              (container_entries app containerNames (text_block (map post_renderer_env_line envPatches)))
        in Some (patch_for ''helm.toolkit.fluxcd.io'' ''HelmRelease'' app
             (helm_merge app [''  postRenderers:'', ''    - kustomize:'', ''        patches:'',
                ''          - patch: |'', indentYAML inner 14])))"

subsection \<open>Containers a preview must not run\<close>

definition strip_container_lines :: "string \<Rightarrow> string list \<Rightarrow> string" where
  "strip_container_lines heading names =
     (if names = [] then []
      else ''      '' @ heading @ '':'' @ newline
        @ concat (map (\<lambda>c. ''        - name: '' @ c @ newline @ ''          $patch: delete'' @ newline) names))"

definition generateContainerStripPatch :: "string \<Rightarrow> string list \<Rightarrow> string list \<Rightarrow> ks_patch option" where
  "generateContainerStripPatch app removeContainers removeInitContainers =
     (if removeContainers = [] \<and> removeInitContainers = [] then None
      else Some (patch_for [] ''Deployment'' app
        (text_block [''apiVersion: apps/v1'', ''kind: Deployment'', ''metadata:'', ''  name: '' @ app, ''spec:'',
           ''  template:'', ''    spec:'', []]
         @ strip_container_lines ''containers'' removeContainers
         @ strip_container_lines ''initContainers'' removeInitContainers)))"

subsection \<open>All patches\<close>

definition opt_list :: "'a option \<Rightarrow> 'a list" where
  "opt_list x = (case x of None \<Rightarrow> [] | Some a \<Rightarrow> [a])"

definition helm_patches ::
  "string \<Rightarrow> string \<Rightarrow> string \<Rightarrow> string \<Rightarrow> preview_config \<Rightarrow> db_credentials option \<Rightarrow> ks_patch list" where
  "helm_patches app pr ns domain config creds =
     [generateValuesFromStripPatch app]
     @ (case cfg_helm_values config of
          Some m \<Rightarrow> opt_list (generateHelmValuePatches app (buildHelmValuePatches domain ns app pr m creds))
        | None \<Rightarrow> [])
     @ (case cfg_env_mapping config of
          Some m \<Rightarrow> opt_list (generatePostRendererPatch app (em_container_names m)
                      (with_oidc_secret pr m (buildEnvPatches domain ns app pr m)))
        | None \<Rightarrow> [])"

definition deployment_patches ::
  "string \<Rightarrow> string \<Rightarrow> string \<Rightarrow> string \<Rightarrow> preview_config \<Rightarrow> ks_patch list" where
  "deployment_patches app pr ns domain config =
     (case cfg_deployment_patch config of
        Some d \<Rightarrow> opt_list (generateContainerStripPatch app (dp_containers d) (dp_init_containers d))
      | None \<Rightarrow> [])
     @ (case cfg_env_mapping config of
          Some m \<Rightarrow> opt_list (generateDeploymentEnvPatches app (em_container_names m)
                      (with_oidc_secret pr m (buildEnvPatches domain ns app pr m)))
        | None \<Rightarrow> [])"

text \<open>The callback path the code passes along is not used in the patches.\<close>

definition buildAllPatches ::
  "string \<Rightarrow> string \<Rightarrow> string \<Rightarrow> string \<Rightarrow> preview_config \<Rightarrow> string \<Rightarrow> db_credentials option \<Rightarrow> ks_patch list" where
  "buildAllPatches app pr ns domain config callbackPath creds =
     generateStripPatches
     @ (case cfg_deployment_type config of
          DeploymentTypeHelm \<Rightarrow> helm_patches app pr ns domain config creds
        | _ \<Rightarrow> deployment_patches app pr ns domain config)"

lemma buildAllPatches_not_Nil [simp]: "buildAllPatches app pr ns domain config cb creds \<noteq> []"
  by (simp add: buildAllPatches_def generateStripPatches_def stripTargets_def)

end
