(* ===== verification/Handler_Api.thy ===== *)
theory Handler_Api
  imports Clone Kustomize_Patches
begin

section \<open>What the Kustomization reconciler and the preview handler call\<close>

text \<open>
  \<open>handler_api\<close> holds the client operations of \<open>KustomizationReconciler\<close> and \<open>PreviewHandler\<close> with
  their settings; \<open>handler_call\<close> is the entry each leaves in the call log. Unstructured objects,
  namespaces, Secrets and Jobs are read and written through the same client as the clone routines
  use: those calls are the entries \<open>OnCluster\<close>, and \<open>on_cluster\<close> runs a routine of that layer inside
  a handler program.
\<close>

subsection \<open>Typed objects the handler writes\<close>

record source_ref =
  src_kind :: string
  src_name :: string
  src_namespace :: string

record preview_ks = kustomization +
  pk_labels :: smap
  pk_deleting :: bool
  pk_finalizers :: "string list"
  pk_patches :: "ks_patch list"
  pk_source :: source_ref

record pvc =
  pvc_name :: string
  pvc_namespace :: string
  pvc_access_modes :: "string list"
  pvc_storage_class :: "string option"
  pvc_storage :: string
  pvc_source :: "(string \<times> string \<times> string) option"

record probe_spec =
  prb_command :: "string list"
  prb_initial_delay :: int
  prb_period :: int
  prb_timeout :: int
  prb_failure_threshold :: int

record app_container = container +
  ac_ports :: "(string \<times> int) list"
  ac_mounts :: "(string \<times> string) list"
  ac_run_as_group :: "int option"
  ac_readiness :: "probe_spec option"
  ac_liveness :: "probe_spec option"

record volume =
  vol_name :: string
  vol_claim :: "string option"

record deployment =
  dep_name :: string
  dep_namespace :: string
  dep_replicas :: "int option"
  dep_strategy :: string
  dep_selector :: smap
  dep_pod_labels :: smap
  dep_pod_annotations :: smap
  dep_fs_group :: "int option"
  dep_containers :: "app_container list"
  dep_volumes :: "volume list"

record app_service =
  asv_name :: string
  asv_namespace :: string
  asv_selector :: smap
  asv_ports :: "(string \<times> int \<times> int) list"

record volume_job = job +
  vj_pod_annotations :: smap
  vj_mounts :: "(string \<times> string) list"
  vj_volumes :: "volume list"

datatype typed_obj = TSecret secret | TPVC pvc | TDeployment deployment | TService app_service

datatype typed_kind = KSecret | KPVC | KDeployment | KService

fun typed_key :: "typed_obj \<Rightarrow> typed_kind \<times> string \<times> string" where
  "typed_key (TSecret s) = (KSecret, sec_namespace s, sec_name s)"
| "typed_key (TPVC p) = (KPVC, pvc_namespace p, pvc_name p)"
| "typed_key (TDeployment d) = (KDeployment, dep_namespace d, dep_name d)"
| "typed_key (TService s) = (KService, asv_namespace s, asv_name s)"

subsection \<open>Requests to the forge\<close>

record http_request =
  rq_method :: string
  rq_url :: string
  rq_headers :: smap
  rq_body :: string

record http_response =
  rsp_status :: int
  rsp_body :: string

subsection \<open>The calls\<close>

text \<open>
  A typed update carries the resource version it was read at. \<open>Random n r\<close> asks for \<open>n\<close> random
  bytes: the bytes, or \<open>None\<close> when the source fails. \<open>ReadSource\<close> answers the URL of a
  GitRepository.
\<close>

datatype handler_call =
    OnCluster cluster_call
  | GetKs string string "preview_ks result"
  | UpdateKs preview_ks "preview_ks result"
  | GetPreviewConfig string string "preview_config result"
  | CreateTyped typed_obj "typed_obj result"
  | GetTyped typed_kind string string "string result"
  | UpdateTyped typed_obj string "typed_obj result"
  | GetDeployment string string "(deployment \<times> string) result"
  | CreateVolumeJob volume_job "volume_job result"
  | Random nat "nat list option"
  | ReadSource string string "string result"
  | Http http_request "http_response result"

record 'w handler_api =
  hd_cluster :: "'w cluster_api"
  hd_get_ks :: "string \<Rightarrow> string \<Rightarrow> 'w \<Rightarrow> preview_ks result \<times> 'w"
  hd_update_ks :: "preview_ks \<Rightarrow> 'w \<Rightarrow> preview_ks result \<times> 'w"
  hd_get_config :: "string \<Rightarrow> string \<Rightarrow> 'w \<Rightarrow> preview_config result \<times> 'w"
  hd_create_typed :: "typed_obj \<Rightarrow> 'w \<Rightarrow> typed_obj result \<times> 'w"
  hd_get_typed :: "typed_kind \<Rightarrow> string \<Rightarrow> string \<Rightarrow> 'w \<Rightarrow> string result \<times> 'w"
  hd_update_typed :: "typed_obj \<Rightarrow> string \<Rightarrow> 'w \<Rightarrow> typed_obj result \<times> 'w"
  hd_get_deployment :: "string \<Rightarrow> string \<Rightarrow> 'w \<Rightarrow> (deployment \<times> string) result \<times> 'w"
  hd_create_job :: "volume_job \<Rightarrow> 'w \<Rightarrow> volume_job result \<times> 'w"
  hd_random :: "nat \<Rightarrow> 'w \<Rightarrow> nat list option \<times> 'w"
  hd_read_source :: "string \<Rightarrow> string \<Rightarrow> 'w \<Rightarrow> string result \<times> 'w"
  hd_http :: "http_request \<Rightarrow> 'w \<Rightarrow> http_response result \<times> 'w"
  hd_string_slice :: "json \<Rightarrow> string list \<Rightarrow> string list"
  hd_set_nested_slice :: "json \<Rightarrow> json list \<Rightarrow> string list \<Rightarrow> json result"
  hd_quantity :: "string \<Rightarrow> bool"
  hd_domain :: string
  hd_repo :: string
  hd_provider :: string
  hd_api_base :: string

type_synonym ('w, 'a) hprog = "('w, handler_call, 'a) prog"

abbreviation hd_lib :: "'w handler_api \<Rightarrow> klib" where
  "hd_lib api \<equiv> cl_lib (hd_cluster api)"

subsection \<open>Running a routine of the cluster layer\<close>

definition on_cluster :: "('w, 'a) cprog \<Rightarrow> ('w, 'a) hprog" where
  "on_cluster m = State (\<lambda>s. case run_state m \<lparr>world = world s, calls = []\<rparr> of
     (a, t) \<Rightarrow> (a, s\<lparr>world := world t, calls := calls s @ map OnCluster (calls t)\<rparr>))"

lemma ens_on_cluster:
  assumes "ensures m P" and "\<And>a xs. P a xs \<Longrightarrow> Q a (map OnCluster xs)"
  shows "ensures (on_cluster m) Q"
  unfolding ensures_def
proof
  fix s :: "('a, handler_call) sys"
  obtain a t where r: "run_state m \<lparr>world = world s, calls = []\<rparr> = (a, t)" by fastforce
  with assms(1) have "P a (calls t)"
    unfolding ensures_def by (metis append_Nil fst_conv snd_conv sys.select_convs(2))
  with assms(2) show "\<exists>xs. calls (snd (run_state (on_cluster m) s)) = calls s @ xs
      \<and> Q (fst (run_state (on_cluster m) s)) xs"
    using r by (auto simp: on_cluster_def)
qed

lemma run_on_cluster [run_simps]:
  "run_state (on_cluster m) s =
     (case run_state m \<lparr>world = world s, calls = []\<rparr> of
        (a, t) \<Rightarrow> (a, s\<lparr>world := world t, calls := calls s @ map OnCluster (calls t)\<rparr>))"
  by (simp add: on_cluster_def)

definition get_namespace :: "'w handler_api \<Rightarrow> string \<Rightarrow> ('w, namespace result) hprog" where
  "get_namespace api name = on_cluster (operate (cl_get_ns (hd_cluster api) name) (GetNS name))"

definition get_secret :: "'w handler_api \<Rightarrow> string \<Rightarrow> string \<Rightarrow> ('w, secret result) hprog" where
  "get_secret api ns name = on_cluster (operate (cl_get_secret (hd_cluster api) ns name) (GetSecret ns name))"

definition get_object :: "'w handler_api \<Rightarrow> gvk \<Rightarrow> string \<Rightarrow> string \<Rightarrow> ('w, uobj result) hprog" where
  "get_object api k ns name = on_cluster (operate (cl_uget (hd_cluster api) k ns name) (UGet k ns name))"

definition update_object :: "'w handler_api \<Rightarrow> uobj \<Rightarrow> ('w, uobj result) hprog" where
  "update_object api u = on_cluster (operate (cl_uupdate (hd_cluster api) u) (UUpdate u))"

definition delete_object :: "'w handler_api \<Rightarrow> gvk \<Rightarrow> string \<Rightarrow> string \<Rightarrow> ('w, goerr option) hprog" where
  "delete_object api k ns name =
     on_cluster (operate (cl_udelete (hd_cluster api) k ns name) (UDelete k ns name))"

text \<open>The client calls of the reconciler and the handler themselves.\<close>

definition read_ks :: "'w handler_api \<Rightarrow> string \<Rightarrow> string \<Rightarrow> ('w, preview_ks result) hprog" where
  "read_ks api ns name = operate (hd_get_ks api ns name) (GetKs ns name)"

definition update_ks :: "'w handler_api \<Rightarrow> preview_ks \<Rightarrow> ('w, preview_ks result) hprog" where
  "update_ks api ks = operate (hd_update_ks api ks) (UpdateKs ks)"

definition read_config :: "'w handler_api \<Rightarrow> string \<Rightarrow> string \<Rightarrow> ('w, preview_config result) hprog" where
  "read_config api ns name = operate (hd_get_config api ns name) (GetPreviewConfig ns name)"

subsection \<open>Create or update a typed object (preview_handler.go)\<close>

definition createOrUpdateTyped :: "'w handler_api \<Rightarrow> typed_obj \<Rightarrow> ('w, goerr option) hprog" where
  "createOrUpdateTyped api obj =
     (case typed_key obj of (kind, ns, name) \<Rightarrow>
      do {
        c \<leftarrow> operate (hd_create_typed api obj) (CreateTyped obj);
        case c of
          Inr _ \<Rightarrow> State_Monad.return None
        | Inl err \<Rightarrow>
            if \<not> IsAlreadyExists err then State_Monad.return (Some err)
            else do {
              g \<leftarrow> operate (hd_get_typed api kind ns name) (GetTyped kind ns name);
              case g of
                Inl gerr \<Rightarrow> State_Monad.return (Some gerr)
              | Inr version \<Rightarrow> do {
                  w \<leftarrow> operate (hd_update_typed api obj version) (UpdateTyped obj version);
                  State_Monad.return (case w of Inl werr \<Rightarrow> Some werr | Inr _ \<Rightarrow> None)
                }
            }
      })"

text \<open>Run the rest of the routine unless a step failed, with the step's name before the error.\<close>

definition step_ok :: "string \<Rightarrow> ('w, goerr option) hprog \<Rightarrow> ('w, goerr option) hprog \<Rightarrow> ('w, goerr option) hprog" where
  "step_ok what m rest =
     do {
       r \<leftarrow> m;
       case r of
         Some err \<Rightarrow> State_Monad.return (Some (errorf what err))
       | None \<Rightarrow> rest
     }"

definition when_ok :: "bool \<Rightarrow> ('w, goerr option) hprog \<Rightarrow> ('w, goerr option) hprog" where
  "when_ok b m = (if b then m else State_Monad.return None)"

end
