(* ===== verification/Preview_Setup.thy ===== *)
theory Preview_Setup
  imports Handler_Api
begin

section \<open>The resources of a preview: preview_handler.go, config_volume.go\<close>

text \<open>
  The OIDC client, the database clone, Redis, the S3 proxy and the cloned configuration volume of a
  preview. Every routine returns \<open>None\<close> for success or the error.
\<close>

subsection \<open>Reading the production configuration\<close>

definition fetchPreviewConfig :: "'w handler_api \<Rightarrow> string \<Rightarrow> ('w, preview_config result) hprog" where
  "fetchPreviewConfig api app = read_config api app app"

definition OIDCClient :: gvk where
  "OIDCClient = \<lparr>gvk_group = ''security.homelab.io'', gvk_version = ''v1alpha1'', gvk_kind = ''OIDCClient''\<rparr>"

definition default_callback :: string where
  "default_callback = ''/oauth/callback''"

definition callback_path :: "string list \<Rightarrow> string" where
  "callback_path uris =
     (case uris of
        [] \<Rightarrow> default_callback
      | uri # _ \<Rightarrow>
          (case index_str uri ''//'' of
             None \<Rightarrow> default_callback
           | Some i \<Rightarrow>
               let remainder = drop (i + 2) uri in
               (case index_byte remainder (CHR ''/'') of
                  None \<Rightarrow> default_callback
                | Some j \<Rightarrow> drop j remainder)))"

definition discoverOIDCCallbackPath :: "'w handler_api \<Rightarrow> string \<Rightarrow> ('w, string) hprog" where
  "discoverOIDCCallbackPath api app =
     do {
       got \<leftarrow> get_object api OIDCClient app app;
       State_Monad.return
         (case got of
            Inl _ \<Rightarrow> default_callback
          | Inr o1 \<Rightarrow> callback_path (hd_string_slice api (u_object o1) [''spec'', ''redirectUris'']))
     }"

text \<open>\<open>hex.EncodeToString\<close> of random bytes.\<close>

definition hex_of :: "nat list \<Rightarrow> string" where
  "hex_of bs = concat (map (\<lambda>n. [hex_char (n div 16), hex_char (n mod 16)]) bs)"

definition generateRandomString :: "'w handler_api \<Rightarrow> nat \<Rightarrow> ('w, string) hprog" where
  "generateRandomString api n =
     do {
       r \<leftarrow> operate (hd_random api n) (Random n);
       State_Monad.return (case r of None \<Rightarrow> ''preview-fallback-secret'' | Some bs \<Rightarrow> hex_of bs)
     }"

subsection \<open>OIDC\<close>

definition opaque_secret :: "string \<Rightarrow> string \<Rightarrow> smap \<Rightarrow> secret" where
  "opaque_secret ns name data =
     \<lparr>sec_name = name, sec_namespace = ns, sec_labels = [], sec_type = ''Opaque'',
      sec_string_data = data, sec_data = [], sec_owners = []\<rparr>"

definition preview_oidc_spec ::
  "'w handler_api \<Rightarrow> string \<Rightarrow> string \<Rightarrow> fields \<Rightarrow> fields" where
  "preview_oidc_spec api app pr spec =
     (let path = callback_path (hd_string_slice api (JObj spec) [''redirectUris'']) in
      jput ''secretRef'' (JObj [(''name'', JStr (oidc_secret_name pr)), (''key'', JStr ''client_secret'')])
        (jput ''redirectUris'' (JArr [JStr (preview_app_url (hd_domain api) app pr @ path)])
          (jput ''clientName'' (JStr (app @ '' Preview PR #'' @ pr))
            (jput ''clientId'' (JStr (preview_client_id app pr)) spec))))"

definition setupOIDC :: "'w handler_api \<Rightarrow> string \<Rightarrow> string \<Rightarrow> string \<Rightarrow> ('w, goerr option) hprog" where
  "setupOIDC api ns app pr =
     do {
       got \<leftarrow> get_object api OIDCClient app app;
       case got of
         Inl err \<Rightarrow> State_Monad.return (if IsNotFound err then None else Some err)
       | Inr source \<Rightarrow>
           (case lib_nested_map (hd_lib api) (u_object source) [''spec''] of
              None \<Rightarrow> State_Monad.return (Some (Plain ''failed to get OIDCClient spec''))
            | Some spec \<Rightarrow> do {
                clientSecret \<leftarrow> generateRandomString api 32;
                step_ok ''failed to create OIDC client secret: ''
                  (createOrUpdateTyped api
                     (TSecret (opaque_secret ns (oidc_secret_name pr) [(''client_secret'', clientSecret)])))
                  (case set_spec (hd_lib api) (new_uobj OIDCClient ns (preview_client_id app pr))
                          (preview_oidc_spec api app pr spec) of
                     Inl err \<Rightarrow> State_Monad.return (Some (errorf ''failed to set OIDCClient spec: '' err))
                   | Inr u \<Rightarrow> on_cluster (createOrUpdate (hd_cluster api) u))
              })
     }"

subsection \<open>Database\<close>

definition preview_clone :: "string \<Rightarrow> string \<Rightarrow> string \<Rightarrow> string \<Rightarrow> cnpg_clone" where
  "preview_clone cluster clusterNS ns pr =
     \<lparr>cc_source = cluster, cc_source_ns = clusterNS, cc_target_ns = ns,
      cc_prod_snapshot = ''postgres-preview-pr-'' @ pr,
      cc_vsc = ''postgres-preview-'' @ pr @ ''-content'',
      cc_vs = ''postgres-preview-snapshot'',
      cc_cluster = ''postgres-preview-'' @ pr,
      cc_class = ''ceph-block-snapshot'',
      cc_labels = Some [(''preview.homelab/pr'', pr), (''preview.homelab/namespace'', ns),
                        (''preview.homelab/type'', ''database'')],
      cc_warm = [], cc_warm_max_age = 0\<rparr>"

definition cluster_namespace :: "namespace \<Rightarrow> string" where
  "cluster_namespace n =
     (let c = sget (ns_annotations n) ''postgres.cnpg.io/cluster-namespace'' in
      if c = [] then ''postgres'' else c)"

definition setupDatabase :: "'w handler_api \<Rightarrow> string \<Rightarrow> string \<Rightarrow> string \<Rightarrow> ('w, goerr option) hprog" where
  "setupDatabase api ns app pr =
     do {
       got \<leftarrow> get_namespace api app;
       case got of
         Inl err \<Rightarrow> State_Monad.return (if IsNotFound err then None else Some err)
       | Inr prodNS \<Rightarrow>
           let cluster = sget (ns_annotations prodNS) ''postgres.cnpg.io/cluster-name'' in
           if cluster = [] then State_Monad.return None
           else on_cluster (cloneCNPGFromSnapshot (hd_cluster api)
                  (preview_clone cluster (cluster_namespace prodNS) ns pr))
     }"

subsection \<open>Redis\<close>

definition RedisKind :: gvk where
  "RedisKind = \<lparr>gvk_group = ''redis.redis.opstreelabs.in'', gvk_version = ''v1beta2'', gvk_kind = ''Redis''\<rparr>"

definition redis_spec :: fields where
  "redis_spec =
     [(''kubernetesConfig'', JObj
        [(''image'', JStr ''quay.io/opstree/redis:v7.0.15''),
         (''imagePullPolicy'', JStr ''IfNotPresent''),
         (''resources'', JObj
            [(''requests'', JObj [(''cpu'', JStr ''50m''), (''memory'', JStr ''64Mi'')]),
             (''limits'', JObj [(''cpu'', JStr ''200m''), (''memory'', JStr ''128Mi'')])])]),
      (''storage'', JObj
        [(''volumeClaimTemplate'', JObj
           [(''spec'', JObj
              [(''storageClassName'', JStr ''rook-ceph-block''),
               (''accessModes'', JArr [JStr ''ReadWriteOnce'']),
               (''resources'', JObj [(''requests'', JObj [(''storage'', JStr ''1Gi'')])])])])]),
      (''podSecurityContext'', JObj
        [(''runAsUser'', JInt 1000), (''fsGroup'', JInt 1000), (''runAsNonRoot'', JBool True)])]"

definition setupRedis :: "'w handler_api \<Rightarrow> string \<Rightarrow> ('w, goerr option) hprog" where
  "setupRedis api ns =
     (case set_spec (hd_lib api) (new_uobj RedisKind ns ''redis-preview'') redis_spec of
        Inl err \<Rightarrow> State_Monad.return (Some err)
      | Inr u \<Rightarrow> on_cluster (createOrUpdate (hd_cluster api) u))"

subsection \<open>S3 proxy\<close>

definition s3_data_claim :: "string \<Rightarrow> pvc" where
  "s3_data_claim ns =
     \<lparr>pvc_name = ''s3proxy-data'', pvc_namespace = ns, pvc_access_modes = [''ReadWriteOnce''],
      pvc_storage_class = Some ''rook-ceph-block'', pvc_storage = ''5Gi'', pvc_source = None\<rparr>"

definition s3_credentials :: "string \<Rightarrow> string \<Rightarrow> secret" where
  "s3_credentials ns pr =
     opaque_secret ns ''s3proxy-credentials''
       [(''accessKeyId'', s3_access_key pr), (''secretAccessKey'', s3_secret_key pr)]"

definition secret_env :: "string \<Rightarrow> string \<Rightarrow> string \<Rightarrow> env_var" where
  "secret_env n secret key = \<lparr>ev_name = n, ev_value = [], ev_from = Some (SecretKeyRef secret key)\<rparr>"

definition s3_health_command :: "string list" where
  "s3_health_command = [''/bin/sh'', ''-c'',
     ''wget -q --timeout=5 -O /dev/null http://localhost:8080/ 2>&1 || [ '' @ [CHR 0x22] @ ''$?'' @ [CHR 0x22]
       @ '' = '' @ [CHR 0x22] @ ''8'' @ [CHR 0x22] @ '' ]'']"

definition s3_container :: app_container where
  "s3_container =
     \<lparr>c_name = ''s3proxy'', c_image = ''andrewgaul/s3proxy:sha-001d042'', c_pull_policy = [],
      c_restart_policy = None, c_command = [], c_args = [],
      c_env =
        [secret_env ''S3PROXY_IDENTITY'' ''s3proxy-credentials'' ''accessKeyId'',
         secret_env ''S3PROXY_CREDENTIAL'' ''s3proxy-credentials'' ''secretAccessKey'',
         plain_env ''S3PROXY_ENDPOINT'' ''http://0.0.0.0:8080'',
         plain_env ''JCLOUDS_PROVIDER'' ''filesystem'',
         plain_env ''JCLOUDS_FILESYSTEM_BASEDIR'' ''/data/s3''],
      c_security = Some \<lparr>sc_allow_privilege_escalation = None, sc_read_only_root = None,
        sc_run_as_non_root = None, sc_run_as_user = Some 1000, sc_drop = [], sc_seccomp = None\<rparr>,
      c_requests = Some \<lparr>res_cpu = ''50m'', res_memory = ''256Mi''\<rparr>,
      c_limits = Some \<lparr>res_cpu = ''500m'', res_memory = ''512Mi''\<rparr>,
      ac_ports = [(''http'', 8080)], ac_mounts = [(''data'', ''/data/s3'')],
      ac_run_as_group = Some 1000,
      ac_readiness = Some \<lparr>prb_command = s3_health_command, prb_initial_delay = 30, prb_period = 10,
        prb_timeout = 10, prb_failure_threshold = 0\<rparr>,
      ac_liveness = Some \<lparr>prb_command = s3_health_command, prb_initial_delay = 60, prb_period = 15,
        prb_timeout = 10, prb_failure_threshold = 5\<rparr>\<rparr>"

definition s3_deployment :: "string \<Rightarrow> deployment" where
  "s3_deployment ns =
     \<lparr>dep_name = ''s3proxy'', dep_namespace = ns, dep_replicas = Some 1, dep_strategy = ''Recreate'',
      dep_selector = [(''app'', ''s3proxy'')], dep_pod_labels = [(''app'', ''s3proxy'')],
      dep_pod_annotations = [(''ambient.istio.io/redirection'', ''disabled'')], dep_fs_group = Some 1000,
      dep_containers = [s3_container],
      dep_volumes = [\<lparr>vol_name = ''data'', vol_claim = Some ''s3proxy-data''\<rparr>]\<rparr>"

definition s3_service :: "string \<Rightarrow> app_service" where
  "s3_service ns =
     \<lparr>asv_name = ''s3proxy'', asv_namespace = ns, asv_selector = [(''app'', ''s3proxy'')],
      asv_ports = [(''http'', 8080, 8080)]\<rparr>"

definition setupS3Proxy :: "'w handler_api \<Rightarrow> string \<Rightarrow> string \<Rightarrow> string \<Rightarrow> ('w, goerr option) hprog" where
  "setupS3Proxy api ns bucket pr =
     step_ok ''failed to create PVC: '' (createOrUpdateTyped api (TPVC (s3_data_claim ns)))
      (step_ok ''failed to create s3proxy credentials: '' (createOrUpdateTyped api (TSecret (s3_credentials ns pr)))
        (step_ok ''failed to create s3proxy deployment: '' (createOrUpdateTyped api (TDeployment (s3_deployment ns)))
          (step_ok ''failed to create s3proxy service: '' (createOrUpdateTyped api (TService (s3_service ns)))
            (State_Monad.return None))))"

end
