(* ===== verification/Config_Volume.thy ===== *)
theory Config_Volume
  imports Preview_Setup
begin

section \<open>Cloned configuration volumes: config_volume.go\<close>

text \<open>
  The snapshot of a production configuration volume, its restore into the preview namespace, the
  Job that rewrites the URLs in it, and the switch of the Deployment to the clone.
  \<open>resource.MustParse\<close> panics on a malformed quantity; controller-runtime recovers the panic and
  fails the pass, so a panic is an error here.
\<close>

subsection \<open>Names\<close>

definition clone_pvc_name :: "string \<Rightarrow> string" where
  "clone_pvc_name app = app @ ''-config-clone''"

definition config_snapshot_name :: "string \<Rightarrow> string" where
  "config_snapshot_name pr = ''config-preview-pr-'' @ pr"

definition config_content_name :: "string \<Rightarrow> string \<Rightarrow> string" where
  "config_content_name app pr = ''config-preview-'' @ app @ ''-pr-'' @ pr @ ''-content''"

definition config_restore_name :: "string \<Rightarrow> string" where
  "config_restore_name app = app @ ''-config-snapshot''"

definition rewrite_job_name :: "string \<Rightarrow> string" where
  "rewrite_job_name app = ''config-rewrite-'' @ app"

definition config_class :: "config_volume \<Rightarrow> string" where
  "config_class cv = (if cv_snapshot_class cv = [] then ''ceph-block-snapshot'' else cv_snapshot_class cv)"

subsection \<open>Steps A and B: the production snapshot and its content\<close>

definition config_snapshot :: "string \<Rightarrow> string \<Rightarrow> uobj" where
  "config_snapshot app pr =
     (new_uobj VolumeSnapshot app (config_snapshot_name pr))
       \<lparr>u_labels := Some [(''preview.homelab/pr'', pr), (''preview.homelab/type'', ''config'')]\<rparr>"

definition config_snapshot_fields :: "config_volume \<Rightarrow> fields" where
  "config_snapshot_fields cv =
     [(''volumeSnapshotClassName'', JStr (config_class cv)),
      (''source'', JObj [(''persistentVolumeClaimName'', JStr (cv_claim cv))])]"

definition create_config_snapshot ::
  "'w cluster_api \<Rightarrow> string \<Rightarrow> string \<Rightarrow> config_volume \<Rightarrow> ('w, goerr option) cprog" where
  "create_config_snapshot api app pr cv =
     (case set_spec (cl_lib api) (config_snapshot app pr) (config_snapshot_fields cv) of
        Inl err \<Rightarrow> State_Monad.return (Some (errorf ''failed to set production snapshot spec: '' err))
      | Inr u \<Rightarrow> do {
          c \<leftarrow> createOrUpdate api u;
          case c of
            Some err \<Rightarrow> State_Monad.return (Some (errorf ''failed to create production VolumeSnapshot: '' err))
          | None \<Rightarrow> do {
              w \<leftarrow> waitForSnapshotReady api app (config_snapshot_name pr);
              State_Monad.return (map_option (errorf ''production snapshot not ready: '') w)
            }
        })"

text \<open>The handle, the driver and the sz of the snapshot just taken.\<close>

definition read_config_snapshot ::
  "'w cluster_api \<Rightarrow> string \<Rightarrow> string \<Rightarrow> ('w, snapshot_meta result) cprog" where
  "read_config_snapshot api app pr =
     (let lib = cl_lib api; name = config_snapshot_name pr in
      do {
        got \<leftarrow> operate (cl_uget api VolumeSnapshot app name) (UGet VolumeSnapshot app name);
        case got of
          Inl err \<Rightarrow> State_Monad.return (Inl (errorf ''failed to re-read production snapshot: '' err))
        | Inr snap \<Rightarrow>
            let bound = lib_nested_string lib (u_object snap) [''status'', ''boundVolumeSnapshotContentName''] in
            if bound = [] then
              State_Monad.return (Inl (Plain ''production snapshot has no boundVolumeSnapshotContentName''))
            else do {
              vr \<leftarrow> operate (cl_uget api VolumeSnapshotContent [] bound) (UGet VolumeSnapshotContent [] bound);
              State_Monad.return
                (case vr of
                   Inl err \<Rightarrow> Inl (errorf ''failed to get bound VolumeSnapshotContent: '' err)
                 | Inr vsc \<Rightarrow>
                     let handle = lib_nested_string lib (u_object vsc) [''status'', ''snapshotHandle''];
                         driver = lib_nested_string lib (u_object vsc) [''spec'', ''driver''];
                         sz = lib_nested_string lib (u_object snap) [''status'', ''restoreSize'']
                     in if handle = [] then Inl (Plain ''bound VolumeSnapshotContent has no snapshotHandle'')
                        else Inr (handle, driver, if sz = [] then ''5Gi'' else sz))
            }
      })"

definition config_content :: "string \<Rightarrow> string \<Rightarrow> string \<Rightarrow> uobj" where
  "config_content app pr ns =
     (new_uobj VolumeSnapshotContent [] (config_content_name app pr))
       \<lparr>u_labels := Some [(''preview.homelab/pr'', pr), (''preview.homelab/namespace'', ns),
                          (''preview.homelab/type'', ''config'')]\<rparr>"

definition config_content_fields ::
  "string \<Rightarrow> string \<Rightarrow> config_volume \<Rightarrow> string \<Rightarrow> string \<Rightarrow> fields" where
  "config_content_fields app ns cv handle driver =
     [(''driver'', JStr driver), (''deletionPolicy'', JStr ''Retain''),
      (''source'', JObj [(''snapshotHandle'', JStr handle)]),
      (''volumeSnapshotClassName'', JStr (config_class cv)),
      (''volumeSnapshotRef'', JObj [(''name'', JStr (config_restore_name app)), (''namespace'', JStr ns)])]"

definition put_object ::
  "'w cluster_api \<Rightarrow> string \<Rightarrow> uobj \<Rightarrow> fields \<Rightarrow> ('w, goerr option) cprog" where
  "put_object api what u fs =
     (case set_spec (cl_lib api) u fs of
        Inl err \<Rightarrow> State_Monad.return (Some err)
      | Inr u' \<Rightarrow> do {
          r \<leftarrow> createOrUpdate api u';
          State_Monad.return (map_option (errorf what) r)
        })"

subsection \<open>Step C: the cloned claim\<close>

definition clone_claim :: "string \<Rightarrow> string \<Rightarrow> string \<Rightarrow> pvc" where
  "clone_claim app ns sz =
     \<lparr>pvc_name = clone_pvc_name app, pvc_namespace = ns, pvc_access_modes = [''ReadWriteOnce''],
      pvc_storage_class = Some ''rook-ceph-block'', pvc_storage = sz,
      pvc_source = Some (''snapshot.storage.k8s.io'', ''VolumeSnapshot'', config_restore_name app)\<rparr>"

definition quantity_panic :: goerr where
  "quantity_panic = Plain ''panic: cannot parse the quantity [recovered]''"

subsection \<open>Step D: the rewrite Job\<close>

definition rewriteScript :: "string \<Rightarrow> string \<Rightarrow> string \<Rightarrow> string \<Rightarrow> string" where
  "rewriteScript app ns domain pr =
     text_block
       [''set -e'',
        ''echo '' @ [CHR 0x22] @ ''Rewriting URLs for preview namespace...'' @ [CHR 0x22],
        ''PROD_NS='' @ [CHR 0x22] @ app @ [CHR 0x22],
        ''PREVIEW_NS='' @ [CHR 0x22] @ ns @ [CHR 0x22],
        ''DOMAIN='' @ [CHR 0x22] @ domain @ [CHR 0x22],
        ''PR='' @ [CHR 0x22] @ pr @ [CHR 0x22],
        ''APP='' @ [CHR 0x22] @ app @ [CHR 0x22],
        [],
        ''# Install file command if not present'',
        ''apk add --no-cache file >/dev/null 2>&1 || true'',
        [],
        ''find /config -type f | while read -r file; do'',
        ''  if file '' @ [CHR 0x22] @ ''$file'' @ [CHR 0x22] @ '' | grep -qiE '' @ [CHR 0x27]
          @ ''text|xml|json|ascii|utf-'' @ [CHR 0x27] @ ''; then'',
        ''    # Rewrite internal FQDNs: .{prodNs}.svc.cluster.local -> .{previewNs}.svc.cluster.local'',
        ''    sed -i '' @ [CHR 0x22] @ ''s/'' @ [CHR 0x5C] @ ''.${PROD_NS}'' @ [CHR 0x5C] @ ''.svc'' @ [CHR 0x5C]
          @ ''.cluster'' @ [CHR 0x5C] @ ''.local/.${PREVIEW_NS}.svc.cluster.local/g'' @ [CHR 0x22]
          @ '' '' @ [CHR 0x22] @ ''$file'' @ [CHR 0x22],
        ''    # Rewrite external URLs: {app}.{domain} -> pr-{pr}-{app}.{domain}'',
        ''    sed -i '' @ [CHR 0x22] @ ''s/${APP}'' @ [CHR 0x5C] @ ''.${DOMAIN}/pr-${PR}-${APP}.${DOMAIN}/g''
          @ [CHR 0x22] @ '' '' @ [CHR 0x22] @ ''$file'' @ [CHR 0x22],
        ''  fi'',
        ''done'',
        ''echo '' @ [CHR 0x22] @ ''URL rewrite complete'' @ [CHR 0x22],
        []]"

definition rewrite_container :: "string \<Rightarrow> container" where
  "rewrite_container script =
     \<lparr>c_name = ''rewrite'', c_image = ''alpine:3.21'', c_pull_policy = [], c_restart_policy = None,
      c_command = [''/bin/sh'', ''-c'', script], c_args = [], c_env = [], c_security = None,
      c_requests = Some \<lparr>res_cpu = ''50m'', res_memory = ''64Mi''\<rparr>,
      c_limits = Some \<lparr>res_cpu = ''200m'', res_memory = ''128Mi''\<rparr>\<rparr>"

definition rewrite_job :: "string \<Rightarrow> string \<Rightarrow> string \<Rightarrow> string \<Rightarrow> volume_job" where
  "rewrite_job app ns domain pr =
     \<lparr>job_name = rewrite_job_name app, job_namespace = ns,
      job_labels = [(''preview.homelab/pr'', pr), (''preview.homelab/type'', ''config-rewrite'')],
      job_deleting = False, job_backoff_limit = Some 2, job_active_deadline = None, job_ttl = Some 300,
      job_pod_labels = [],
      job_pod = \<lparr>ps_restart_policy = ''OnFailure'', ps_automount_token = None,
        ps_security = Some \<lparr>psc_run_as_non_root = None, psc_run_as_user = Some 0, psc_seccomp = None\<rparr>,
        ps_init_containers = [], ps_containers = [rewrite_container (rewriteScript app ns domain pr)]\<rparr>,
      job_conditions = [], job_succeeded = 0, job_failed = 0,
      vj_pod_annotations = [(''ambient.istio.io/redirection'', ''disabled'')],
      vj_mounts = [(''config'', ''/config'')],
      vj_volumes = [\<lparr>vol_name = ''config'', vol_claim = Some (clone_pvc_name app)\<rparr>]\<rparr>"

definition job_tick :: "'w cluster_api \<Rightarrow> string \<Rightarrow> string \<Rightarrow> ('w, goerr option option) cprog" where
  "job_tick api ns name =
     do {
       r \<leftarrow> operate (cl_get_job api ns name) (GetProbeJob ns name);
       State_Monad.return
         (case r of
            Inl err \<Rightarrow> Some (Some err)
          | Inr j \<Rightarrow>
              if job_succeeded j > 0 then Some None
              else if job_failed j > 0 then Some (Some (Plain (''URL rewrite job '' @ name @ '' failed'')))
              else None)
     }"

definition waitForJobCompletion :: "'w cluster_api \<Rightarrow> string \<Rightarrow> string \<Rightarrow> ('w, goerr option) cprog" where
  "waitForJobCompletion api ns name =
     wait_for api (''timed out waiting for Job '' @ ns @ ''/'' @ name @ '' to complete'') (job_tick api ns name)"

definition create_rewrite_job ::
  "'w handler_api \<Rightarrow> string \<Rightarrow> string \<Rightarrow> string \<Rightarrow> ('w, goerr option) hprog" where
  "create_rewrite_job api ns app pr =
     (let j = rewrite_job app ns (hd_domain api) pr in
      do {
        c \<leftarrow> operate (hd_create_job api j) (CreateVolumeJob j);
        case c of
          Inl err \<Rightarrow>
            if \<not> IsAlreadyExists err then
              State_Monad.return (Some (errorf ''failed to create rewrite job: '' err))
            else do {
              w \<leftarrow> on_cluster (waitForJobCompletion (hd_cluster api) ns (rewrite_job_name app));
              State_Monad.return (map_option (errorf ''URL rewrite job failed: '') w)
            }
        | Inr _ \<Rightarrow> do {
            w \<leftarrow> on_cluster (waitForJobCompletion (hd_cluster api) ns (rewrite_job_name app));
            State_Monad.return (map_option (errorf ''URL rewrite job failed: '') w)
          }
      })"

definition runURLRewriteJob :: "'w handler_api \<Rightarrow> string \<Rightarrow> string \<Rightarrow> string \<Rightarrow> ('w, goerr option) hprog" where
  "runURLRewriteJob api ns app pr =
     do {
       got \<leftarrow> on_cluster (operate (cl_get_job (hd_cluster api) ns (rewrite_job_name app))
                (GetProbeJob ns (rewrite_job_name app)));
       case got of
         Inr existing \<Rightarrow>
           if job_succeeded existing > 0 then State_Monad.return None
           else create_rewrite_job api ns app pr
       | Inl _ \<Rightarrow> create_rewrite_job api ns app pr
     }"

subsection \<open>Step E: the Deployment's volume\<close>

definition switches_claim :: "string \<Rightarrow> string \<Rightarrow> volume \<Rightarrow> bool" where
  "switches_claim original clone v \<longleftrightarrow> vol_claim v = Some original \<and> original \<noteq> clone"

definition switch_claim :: "string \<Rightarrow> string \<Rightarrow> volume \<Rightarrow> volume" where
  "switch_claim original clone v =
     (if switches_claim original clone v then v\<lparr>vol_claim := Some clone\<rparr> else v)"

definition patchDeploymentVolume ::
  "'w handler_api \<Rightarrow> string \<Rightarrow> string \<Rightarrow> string \<Rightarrow> string \<Rightarrow> ('w, goerr option) hprog" where
  "patchDeploymentVolume api ns app original clone =
     do {
       got \<leftarrow> operate (hd_get_deployment api ns app) (GetDeployment ns app);
       case got of
         Inl err \<Rightarrow> State_Monad.return (if IsNotFound err then None else Some err)
       | Inr (d, version) \<Rightarrow>
           if list_ex (switches_claim original clone) (dep_volumes d) then
             let d' = d\<lparr>dep_volumes := map (switch_claim original clone) (dep_volumes d)\<rparr> in
             do {
               w \<leftarrow> operate (hd_update_typed api (TDeployment d') version) (UpdateTyped (TDeployment d') version);
               State_Monad.return
                 (case w of Inl err \<Rightarrow> Some (errorf ''failed to update deployment volume: '' err) | Inr _ \<Rightarrow> None)
             }
           else State_Monad.return None
     }"

subsection \<open>The whole routine\<close>

definition restore_config_volume ::
  "'w handler_api \<Rightarrow> string \<Rightarrow> string \<Rightarrow> string \<Rightarrow> config_volume \<Rightarrow> snapshot_meta \<Rightarrow> ('w, goerr option) hprog" where
  "restore_config_volume api ns app pr cv meta =
     (case meta of (handle, driver, sz) \<Rightarrow>
      do {
        a \<leftarrow> on_cluster (put_object (hd_cluster api) ''failed to create VolumeSnapshotContent: ''
               (config_content app pr ns) (config_content_fields app ns cv handle driver));
        case a of
          Some err \<Rightarrow> State_Monad.return (Some err)
        | None \<Rightarrow> do {
            b \<leftarrow> on_cluster (put_object (hd_cluster api) ''failed to create preview VolumeSnapshot: ''
                   (new_uobj VolumeSnapshot ns (config_restore_name app))
                   [(''source'', JObj [(''volumeSnapshotContentName'', JStr (config_content_name app pr))])]);
            case b of
              Some err \<Rightarrow> State_Monad.return (Some err)
            | None \<Rightarrow>
                if \<not> hd_quantity api sz then State_Monad.return (Some quantity_panic)
                else
                  step_ok ''failed to create cloned PVC: '' (createOrUpdateTyped api (TPVC (clone_claim app ns sz)))
                   (step_ok ''failed to run URL rewrite job: '' (runURLRewriteJob api ns app pr)
                     (step_ok ''failed to patch deployment volume: ''
                        (patchDeploymentVolume api ns app (cv_claim cv) (clone_pvc_name app))
                        (State_Monad.return None)))
          }
      })"

definition setupConfigVolume ::
  "'w handler_api \<Rightarrow> string \<Rightarrow> string \<Rightarrow> string \<Rightarrow> config_volume \<Rightarrow> ('w, goerr option) hprog" where
  "setupConfigVolume api ns app pr cv =
     do {
       s \<leftarrow> on_cluster (create_config_snapshot (hd_cluster api) app pr cv);
       case s of
         Some err \<Rightarrow> State_Monad.return (Some err)
       | None \<Rightarrow> do {
           m \<leftarrow> on_cluster (read_config_snapshot (hd_cluster api) app pr);
           case m of
             Inl err \<Rightarrow> State_Monad.return (Some err)
           | Inr meta \<Rightarrow> restore_config_volume api ns app pr cv meta
         }
     }"

end
