(* ===== verification/Json_Text.thy ===== *)
theory Json_Text
  imports Klib
begin

section \<open>JSON texts: encoding/json\<close>

text \<open>
  What the operator uses of \<open>encoding/json\<close>: \<open>Marshal\<close> with its HTML-safe escapes (map keys and
  struct fields in the order given here) and the decoder, which reads one value and leaves what
  follows it. Strings are byte strings; a byte of 128 or rem is kept as it is.
\<close>

subsection \<open>Writing\<close>

definition json_char :: "char \<Rightarrow> string" where
  "json_char c =
     (if c = CHR 0x22 then [CHR 0x5C, CHR 0x22]
      else if c = CHR 0x5C then [CHR 0x5C, CHR 0x5C]
      else if c = CHR 0x08 then CHR 0x5C # ''b''
      else if c = CHR 0x0C then CHR 0x5C # ''f''
      else if c = CHR 0x0A then CHR 0x5C # ''n''
      else if c = CHR 0x0D then CHR 0x5C # ''r''
      else if c = CHR 0x09 then CHR 0x5C # ''t''
      else
        let n = (of_char c :: nat) in
        if n < 32 \<or> c = CHR ''<'' \<or> c = CHR ''>'' \<or> c = CHR 0x26
        then CHR 0x5C # ''u00'' @ [hex_char (n div 16), hex_char (n mod 16)]
        else [c])"

definition json_quote :: "string \<Rightarrow> string" where
  "json_quote s = CHR 0x22 # concat (map json_char s) @ [CHR 0x22]"

fun json_text :: "json \<Rightarrow> string" where
  "json_text JNull = ''null''"
| "json_text (JBool b) = btoa b"
| "json_text (JInt i) = itoa i"
| "json_text (JFloat s) = s"
| "json_text (JStr s) = json_quote s"
| "json_text (JArr js) = ''['' @ join_with '','' (map json_text js) @ '']''"
| "json_text (JObj fs) =
     ''{'' @ join_with '','' (map (\<lambda>(k, v). json_quote k @ '':'' @ json_text v) fs) @ ''}''"

subsection \<open>Reading\<close>

definition json_space :: "char \<Rightarrow> bool" where
  "json_space c \<longleftrightarrow> c = CHR '' '' \<or> c = CHR 0x09 \<or> c = CHR 0x0A \<or> c = CHR 0x0D"

definition skip_space :: "string \<Rightarrow> string" where
  "skip_space s = dropWhile json_space s"

definition hex_digit :: "char \<Rightarrow> nat option" where
  "hex_digit c = index_byte ''0123456789abcdef'' (lower_char c)"

definition hex4 :: "char \<Rightarrow> char \<Rightarrow> char \<Rightarrow> char \<Rightarrow> nat option" where
  "hex4 a b c d =
     (case (hex_digit a, hex_digit b, hex_digit c, hex_digit d) of
        (Some w, Some x, Some y, Some z) \<Rightarrow> Some (w * 4096 + x * 256 + y * 16 + z)
      | _ \<Rightarrow> None)"

text \<open>\<open>utf8.EncodeRune\<close>.\<close>

definition utf8 :: "nat \<Rightarrow> string" where
  "utf8 n =
     (if n < 0x80 then [char_of n]
      else if n < 0x800 then [char_of (0xC0 + n div 64), char_of (0x80 + n mod 64)]
      else if n < 0x10000 then
        [char_of (0xE0 + n div 4096), char_of (0x80 + n div 64 mod 64), char_of (0x80 + n mod 64)]
      else
        [char_of (0xF0 + n div 262144), char_of (0x80 + n div 4096 mod 64), char_of (0x80 + n div 64 mod 64),
         char_of (0x80 + n mod 64)])"

definition simple_escape :: "char \<Rightarrow> char option" where
  "simple_escape e =
     (if e = CHR 0x22 \<or> e = CHR 0x5C \<or> e = CHR ''/'' then Some e
      else if e = CHR ''b'' then Some (CHR 0x08)
      else if e = CHR ''f'' then Some (CHR 0x0C)
      else if e = CHR ''n'' then Some (CHR 0x0A)
      else if e = CHR ''r'' then Some (CHR 0x0D)
      else if e = CHR ''t'' then Some (CHR 0x09)
      else None)"

text \<open>The characters of a string and what follows its closing quote.\<close>

definition joined :: "string \<Rightarrow> (string \<times> string) option \<Rightarrow> (string \<times> string) option" where
  "joined pre r = map_option (\<lambda>(s, rest). (pre @ s, rest)) r"

fun low_surrogate :: "string \<Rightarrow> (nat \<times> string) option" where
  "low_surrogate (b # u # w # x # y # z # rest) =
     (if b = CHR 0x5C \<and> u = CHR ''u'' then
        (case hex4 w x y z of
           Some n \<Rightarrow> if 0xDC00 \<le> n \<and> n < 0xE000 then Some (n, rest) else None
         | None \<Rightarrow> None)
      else None)"
| "low_surrogate _ = None"

lemma low_surrogate_length: "low_surrogate s = Some (n, r) \<Longrightarrow> length r < length s"
  by (induction s rule: low_surrogate.induct) (auto split: if_splits option.splits)

function json_chars :: "string \<Rightarrow> (string \<times> string) option" where
  "json_chars [] = None"
| "json_chars (c # cs) =
     (if c = CHR 0x22 then Some ([], cs)
      else if c = CHR 0x5C then
        (case cs of
           [] \<Rightarrow> None
         | e # rest \<Rightarrow>
             if e = CHR ''u'' then
               (case rest of
                  w # x # y # z # rem \<Rightarrow>
                    (case hex4 w x y z of
                       None \<Rightarrow> None
                     | Some n \<Rightarrow>
                         if 0xD800 \<le> n \<and> n < 0xE000 then
                           (case (if n < 0xDC00 then low_surrogate rem else None) of
                              Some (l, after) \<Rightarrow>
                                joined (utf8 (0x10000 + (n - 0xD800) * 1024 + (l - 0xDC00))) (json_chars after)
                            | None \<Rightarrow> joined (utf8 0xFFFD) (json_chars rem))
                         else joined (utf8 n) (json_chars rem))
                | _ \<Rightarrow> None)
             else
               (case simple_escape e of
                  None \<Rightarrow> None
                | Some d \<Rightarrow> joined [d] (json_chars rest)))
      else if (of_char c :: nat) < 32 then None
      else joined [c] (json_chars cs))"
  by pat_completeness auto
termination
  by (relation "measure length") (auto dest!: low_surrogate_length split: if_splits)

text \<open>A number, as Go's scanner accepts it.\<close>

definition digits :: "string \<Rightarrow> string \<times> string" where
  "digits s = (takeWhile (\<lambda>c. c \<in> set ''0123456789'') s, dropWhile (\<lambda>c. c \<in> set ''0123456789'') s)"

definition digits_val :: "string \<Rightarrow> int" where
  "digits_val s = fold (\<lambda>c n. n * 10 + int (the (index_byte ''0123456789'' c))) s 0"

definition json_number :: "string \<Rightarrow> (json \<times> string) option" where
  "json_number s =
     (let (sign, s1) = (case s of c # cs \<Rightarrow> if c = CHR ''-'' then ([c], cs) else ([], s) | [] \<Rightarrow> ([], s));
          (whole, s2) = digits s1;
          (frac, s3) = (case s2 of c # cs \<Rightarrow> if c = CHR ''.'' then (let (d, r) = digits cs in (c # d, r)) else ([], s2)
                        | [] \<Rightarrow> ([], s2));
          (expo, s4) = (case s3 of
              c # cs \<Rightarrow>
                if c = CHR ''e'' \<or> c = CHR ''E'' then
                  (let (sg, cs') = (case cs of d # ds \<Rightarrow> if d = CHR ''+'' \<or> d = CHR ''-'' then ([d], ds) else ([], cs)
                                    | [] \<Rightarrow> ([], cs));
                       (d, r) = digits cs' in (c # sg @ d, r))
                else ([], s3)
            | [] \<Rightarrow> ([], s3))
      in if whole = [] \<or> (hd whole = CHR ''0'' \<and> length whole > 1) then None
         else if frac = [CHR ''.''] \<or> (expo \<noteq> [] \<and> last expo \<notin> set ''0123456789'') then None
         else if frac = [] \<and> expo = [] then
           Some (JInt (if sign = [] then digits_val whole else - digits_val whole), s4)
         else Some (JFloat (sign @ whole @ frac @ expo), s4))"

text \<open>
  A value: the first argument bounds the nesting and the number of elements still to be read; the
  length of the text is enough, each step consumes a character.
\<close>

fun json_value :: "nat \<Rightarrow> string \<Rightarrow> (json \<times> string) option"
and json_elems :: "nat \<Rightarrow> string \<Rightarrow> (json list \<times> string) option"
and json_members :: "nat \<Rightarrow> string \<Rightarrow> ((string \<times> json) list \<times> string) option" where
  "json_value 0 s = None"
| "json_value (Suc f) s =
     (case skip_space s of
        [] \<Rightarrow> None
      | c # cs \<Rightarrow>
          if c = CHR 0x22 then map_option (\<lambda>(v, r). (JStr v, r)) (json_chars cs)
          else if c = CHR ''['' then
            (case skip_space cs of
               d # ds \<Rightarrow> if d = CHR '']'' then Some (JArr [], ds)
                          else map_option (\<lambda>(v, r). (JArr v, r)) (json_elems f cs)
             | [] \<Rightarrow> None)
          else if c = CHR ''{'' then
            (case skip_space cs of
               d # ds \<Rightarrow> if d = CHR ''}'' then Some (JObj [], ds)
                          else map_option (\<lambda>(v, r). (JObj v, r)) (json_members f cs)
             | [] \<Rightarrow> None)
          else if has_prefix (c # cs) ''true'' then Some (JBool True, drop 4 (c # cs))
          else if has_prefix (c # cs) ''false'' then Some (JBool False, drop 5 (c # cs))
          else if has_prefix (c # cs) ''null'' then Some (JNull, drop 4 (c # cs))
          else json_number (c # cs))"
| "json_elems 0 s = None"
| "json_elems (Suc f) s =
     (case json_value f s of
        None \<Rightarrow> None
      | Some (v, r) \<Rightarrow>
          (case skip_space r of
             c # cs \<Rightarrow>
               if c = CHR '','' then map_option (\<lambda>(vs, r'). (v # vs, r')) (json_elems f cs)
               else if c = CHR '']'' then Some ([v], cs)
               else None
           | [] \<Rightarrow> None))"
| "json_members 0 s = None"
| "json_members (Suc f) s =
     (case skip_space s of
        q # qs \<Rightarrow>
          if q \<noteq> CHR 0x22 then None
          else
            (case json_chars qs of
               None \<Rightarrow> None
             | Some (k, r) \<Rightarrow>
                 (case skip_space r of
                    c # cs \<Rightarrow>
                      if c \<noteq> CHR '':'' then None
                      else
                        (case json_value f cs of
                           None \<Rightarrow> None
                         | Some (v, r2) \<Rightarrow>
                             (case skip_space r2 of
                                d # ds \<Rightarrow>
                                  if d = CHR '','' then map_option (\<lambda>(ms, r'). ((k, v) # ms, r')) (json_members f ds)
                                  else if d = CHR ''}'' then Some ([(k, v)], ds)
                                  else None
                              | [] \<Rightarrow> None))
                  | [] \<Rightarrow> None))
      | [] \<Rightarrow> None)"

definition json_decode :: "string \<Rightarrow> (json \<times> string) option" where
  "json_decode s = json_value (2 * length s + 1) s"

subsection \<open>A string reads back\<close>

lemma joined_simps [simp]: "joined p None = None" "joined p (Some (s, r)) = Some (p @ s, r)"
  by (simp_all add: joined_def)

lemma hex_digit_hex_char: "n < 16 \<Longrightarrow> hex_digit (hex_char n) = Some n"
proof -
  have "\<forall>n\<in>set [0..<16]. hex_digit (hex_char n) = Some n" by code_simp
  then show "n < 16 \<Longrightarrow> hex_digit (hex_char n) = Some n" by simp
qed

lemma json_chars_char: "json_chars (json_char c @ rest) = joined [c] (json_chars rest)"
proof (cases "c \<in> {CHR 0x22, CHR 0x5C, CHR 0x08, CHR 0x0C, CHR 0x0A, CHR 0x0D, CHR 0x09}")
  case True
  then show ?thesis by (auto simp: json_char_def simple_escape_def)
next
  case False
  let ?n = "of_char c :: nat"
  show ?thesis
  proof (cases "?n < 32 \<or> c = CHR ''<'' \<or> c = CHR ''>'' \<or> c = CHR 0x26")
    case True
    then have n: "?n < 128" by auto
    have d: "?n div 16 < 16" "?n mod 16 < 16" using n by (simp_all add: div_less_iff_less_mult)
    have h: "hex4 (CHR ''0'') (CHR ''0'') (hex_char (?n div 16)) (hex_char (?n mod 16)) = Some ?n"
      using d by (simp add: hex4_def hex_digit_hex_char hex_digit_def [of "CHR ''0''"] lower_char_def)
    have "json_char c = CHR 0x5C # ''u00'' @ [hex_char (?n div 16), hex_char (?n mod 16)]"
      using False True by (auto simp: json_char_def Let_def)
    then show ?thesis using n by (simp add: h utf8_def)
  next
    case n: False
    then have "json_char c = [c]" using False by (auto simp: json_char_def Let_def)
    then show ?thesis using False n by simp
  qed
qed

lemma json_chars_quote: "json_chars (concat (map json_char s) @ CHR 0x22 # rest) = Some (s, rest)"
  by (induction s) (simp_all add: json_chars_char del: json_chars.simps(2), simp)

text \<open>An object with one string field reads back.\<close>

lemma skip_space_id [simp]: "\<not> json_space c \<Longrightarrow> skip_space (c # cs) = c # cs"
  by (simp add: skip_space_def)

lemma json_decode_field:
  "json_decode (json_text (JObj [(k, JStr s)]) @ rest) = Some (JObj [(k, JStr s)], rest)"
proof -
  have q: "\<not> json_space (CHR 0x22)" "\<not> json_space (CHR ''{'')" "\<not> json_space (CHR '':'')"
    "\<not> json_space (CHR ''}'')" "\<not> json_space (CHR '','')"
    by (simp_all add: json_space_def)
  have "json_value (Suc (Suc (Suc f))) (json_text (JObj [(k, JStr s)]) @ rest) = Some (JObj [(k, JStr s)], rest)" for f
    by (simp add: json_quote_def q json_chars_quote)
  moreover obtain f where "2 * length (json_text (JObj [(k, JStr s)]) @ rest) + 1 = Suc (Suc (Suc f))"
    by (auto simp: json_quote_def)
  ultimately show ?thesis unfolding json_decode_def by simp
qed

end
