(* ===== verification/Config_Hash.thy ===== *)
theory Config_Hash
  imports Json_Text Api_PreviewConfig "HOL-Library.Word"
begin

section \<open>The hash of a PreviewConfig: preview_handler.go\<close>

text \<open>
  \<open>hashPreviewConfigSpec\<close> is the hexadecimal SHA-256 of the JSON encoding of the spec, both from
  Go's standard library: \<open>encoding/json\<close> writes the fields in the order of the struct, leaves out
  the empty ones marked \<open>omitempty\<close> and sorts the keys of a map; \<open>crypto/sha256\<close> is FIPS 180-4.
\<close>

unbundle bit_operations_syntax

subsection \<open>JSON\<close>

text \<open>Fields marked \<open>omitempty\<close>.\<close>

definition omit_str :: "string \<Rightarrow> string \<Rightarrow> (string \<times> json) list" where
  "omit_str k v = (if v = [] then [] else [(k, JStr v)])"

definition omit_strs :: "string \<Rightarrow> string list \<Rightarrow> (string \<times> json) list" where
  "omit_strs k vs = (if vs = [] then [] else [(k, JArr (map JStr vs))])"

definition omit_map :: "string \<Rightarrow> smap \<Rightarrow> (string \<times> json) list" where
  "omit_map k m = (if m = [] then [] else [(k, JObj (map (\<lambda>(a, b). (a, JStr b)) (sort_key fst m)))])"

definition omit_nil :: "string \<Rightarrow> (string \<times> json) list option \<Rightarrow> (string \<times> json) list" where
  "omit_nil k fs = (case fs of None \<Rightarrow> [] | Some f \<Rightarrow> [(k, JObj f)])"

fun deployment_type_text :: "deployment_type \<Rightarrow> string" where
  "deployment_type_text DeploymentTypeEmpty = []"
| "deployment_type_text DeploymentTypeDeployment = ''deployment''"
| "deployment_type_text DeploymentTypeHelm = ''helm''"

definition env_mapping_fields :: "env_mapping \<Rightarrow> (string \<times> json) list" where
  "env_mapping_fields m =
     omit_strs ''containerNames'' (em_container_names m) @ omit_str ''databaseHost'' (em_database_host m)
     @ omit_str ''databaseName'' (em_database_name m) @ omit_str ''databaseUser'' (em_database_user m)
     @ omit_str ''databasePassword'' (em_database_password m) @ omit_str ''redisHost'' (em_redis_host m)
     @ omit_str ''redisPort'' (em_redis_port m) @ omit_str ''s3Endpoint'' (em_s3_endpoint m)
     @ omit_str ''s3AccessKey'' (em_s3_access_key m) @ omit_str ''s3SecretKey'' (em_s3_secret_key m)
     @ omit_str ''s3Bucket'' (em_s3_bucket m) @ omit_str ''s3Region'' (em_s3_region m)
     @ omit_str ''oidcClientId'' (em_oidc_client_id m)
     @ omit_str ''oidcClientSecret'' (em_oidc_client_secret m)
     @ omit_str ''oidcRedirectUri'' (em_oidc_redirect_uri m) @ omit_str ''appUrl'' (em_app_url m)
     @ omit_map ''extraEnv'' (em_extra_env m)"

definition helm_mapping_fields :: "helm_mapping \<Rightarrow> (string \<times> json) list" where
  "helm_mapping_fields m =
     omit_str ''databaseHost'' (hm_database_host m) @ omit_str ''databaseName'' (hm_database_name m)
     @ omit_str ''databaseUser'' (hm_database_user m) @ omit_str ''databasePassword'' (hm_database_password m)
     @ omit_str ''redisHost'' (hm_redis_host m) @ omit_str ''redisPort'' (hm_redis_port m)
     @ omit_str ''s3Endpoint'' (hm_s3_endpoint m) @ omit_str ''s3AccessKey'' (hm_s3_access_key m)
     @ omit_str ''s3SecretKey'' (hm_s3_secret_key m) @ omit_str ''s3Bucket'' (hm_s3_bucket m)
     @ omit_str ''oidcClientId'' (hm_oidc_client_id m)
     @ omit_str ''oidcClientSecret'' (hm_oidc_client_secret m) @ omit_str ''appUrl'' (hm_app_url m)
     @ omit_map ''extraValues'' (hm_extra_values m)"

definition smoke_test_fields :: "smoke_test \<Rightarrow> (string \<times> json) list" where
  "smoke_test_fields t =
     [(''image'', JStr (smk_image t))] @ omit_strs ''command'' (smk_command t) @ omit_strs ''args'' (smk_args t)
     @ omit_map ''env'' (smk_env t)
     @ (if smk_timeout t = 0 then [] else [(''timeoutSeconds'', JInt (smk_timeout t))])"

definition config_spec_json :: "preview_config \<Rightarrow> json" where
  "config_spec_json c = JObj
     (omit_str ''deploymentType'' (deployment_type_text (cfg_deployment_type c))
      @ omit_nil ''redis'' (map_option (\<lambda>b. [(''enabled'', JBool b)]) (cfg_redis c))
      @ omit_nil ''storage'' (map_option (\<lambda>s. (''enabled'', JBool (sto_enabled s)) # omit_str ''bucket'' (sto_bucket s))
          (cfg_storage c))
      @ omit_nil ''envMapping'' (map_option env_mapping_fields (cfg_env_mapping c))
      @ omit_nil ''helmValues'' (map_option helm_mapping_fields (cfg_helm_values c))
      @ omit_strs ''sharedServices'' (cfg_shared_services c)
      @ omit_nil ''configVolume'' (map_option (\<lambda>v. (''claimName'', JStr (cv_claim v))
          # omit_str ''snapshotClass'' (cv_snapshot_class v)) (cfg_config_volume c))
      @ omit_nil ''deploymentPatch'' (map_option (\<lambda>d. omit_strs ''removeContainers'' (dp_containers d)
          @ omit_strs ''removeInitContainers'' (dp_init_containers d)) (cfg_deployment_patch c))
      @ omit_nil ''smokeTest'' (map_option smoke_test_fields (cfg_smoke_test c)))"

subsection \<open>SHA-256\<close>

type_synonym w32 = "32 word"

definition rotr :: "nat \<Rightarrow> w32 \<Rightarrow> w32" where
  "rotr n x = (drop_bit n x) OR (push_bit (32 - n) x)"

definition sha_k :: "w32 list" where
  "sha_k =
     [0x428a2f98, 0x71374491, 0xb5c0fbcf, 0xe9b5dba5, 0x3956c25b, 0x59f111f1, 0x923f82a4, 0xab1c5ed5,
      0xd807aa98, 0x12835b01, 0x243185be, 0x550c7dc3, 0x72be5d74, 0x80deb1fe, 0x9bdc06a7, 0xc19bf174,
      0xe49b69c1, 0xefbe4786, 0x0fc19dc6, 0x240ca1cc, 0x2de92c6f, 0x4a7484aa, 0x5cb0a9dc, 0x76f988da,
      0x983e5152, 0xa831c66d, 0xb00327c8, 0xbf597fc7, 0xc6e00bf3, 0xd5a79147, 0x06ca6351, 0x14292967,
      0x27b70a85, 0x2e1b2138, 0x4d2c6dfc, 0x53380d13, 0x650a7354, 0x766a0abb, 0x81c2c92e, 0x92722c85,
      0xa2bfe8a1, 0xa81a664b, 0xc24b8b70, 0xc76c51a3, 0xd192e819, 0xd6990624, 0xf40e3585, 0x106aa070,
      0x19a4c116, 0x1e376c08, 0x2748774c, 0x34b0bcb5, 0x391c0cb3, 0x4ed8aa4a, 0x5b9cca4f, 0x682e6ff3,
      0x748f82ee, 0x78a5636f, 0x84c87814, 0x8cc70208, 0x90befffa, 0xa4506ceb, 0xbef9a3f7, 0xc67178f2]"

definition sha_init :: "w32 list" where
  "sha_init =
     [0x6a09e667, 0xbb67ae85, 0x3c6ef372, 0xa54ff53a, 0x510e527f, 0x9b05688c, 0x1f83d9ab, 0x5be0cd19]"

text \<open>The padded message: a one bit, zeros, and the length in bits on eight bytes.\<close>

definition byte_of :: "nat \<Rightarrow> nat \<Rightarrow> nat" where
  "byte_of n i = n div 256 ^ i mod 256"

definition sha_pad :: "nat list \<Rightarrow> nat list" where
  "sha_pad bs =
     (let len = length bs; zeros = (119 - len mod 64) mod 64 in
      bs @ [128] @ replicate zeros 0 @ map (byte_of (8 * len)) [7, 6, 5, 4, 3, 2, 1, 0])"

fun chunks :: "nat \<Rightarrow> 'a list \<Rightarrow> 'a list list" where
  "chunks n [] = []"
| "chunks n (x # xs) = (x # take (n - 1) xs) # chunks n (drop (n - 1) xs)"

definition word_of_bytes :: "nat list \<Rightarrow> w32" where
  "word_of_bytes bs = of_nat (fold (\<lambda>b a. a * 256 + b) bs 0)"

text \<open>The message schedule, newest word first.\<close>

fun sha_schedule :: "nat \<Rightarrow> w32 list \<Rightarrow> w32 list" where
  "sha_schedule 0 ws = ws"
| "sha_schedule (Suc n) ws =
     (let w15 = ws ! 14; w2 = ws ! 1;
          s0 = rotr 7 w15 XOR rotr 18 w15 XOR drop_bit 3 w15;
          s1 = rotr 17 w2 XOR rotr 19 w2 XOR drop_bit 10 w2
      in sha_schedule n ((ws ! 15 + s0 + ws ! 6 + s1) # ws))"

definition sha_round :: "w32 \<times> w32 \<Rightarrow> w32 list \<Rightarrow> w32 list" where
  "sha_round kw hs =
     (case (kw, hs) of
        ((k, w), [a, b, c, d, e, f, g, h]) \<Rightarrow>
          let s1 = rotr 6 e XOR rotr 11 e XOR rotr 25 e;
              ch = (e AND f) XOR (NOT e AND g);
              t1 = h + s1 + ch + k + w;
              s0 = rotr 2 a XOR rotr 13 a XOR rotr 22 a;
              maj = (a AND b) XOR (a AND c) XOR (b AND c)
          in [t1 + s0 + maj, a, b, c, d + t1, e, f, g]
      | _ \<Rightarrow> hs)"

definition sha_block :: "nat list \<Rightarrow> w32 list \<Rightarrow> w32 list" where
  "sha_block block hs =
     (let ws = rev (sha_schedule 48 (rev (map word_of_bytes (chunks 4 block))))
      in map2 (+) hs (fold sha_round (zip sha_k ws) hs))"

definition sha256_words :: "nat list \<Rightarrow> w32 list" where
  "sha256_words bs = fold sha_block (chunks 64 (sha_pad bs)) sha_init"

definition hex_byte :: "nat \<Rightarrow> string" where
  "hex_byte n = [hex_char (n div 16), hex_char (n mod 16)]"

definition sha256_hex :: "string \<Rightarrow> string" where
  "sha256_hex s =
     concat (map (\<lambda>w. concat (map (\<lambda>i. hex_byte (byte_of (unat w) i)) [3, 2, 1, 0]))
       (sha256_words (map of_char s)))"

definition hashPreviewConfigSpec :: "preview_config \<Rightarrow> string" where
  "hashPreviewConfigSpec config = sha256_hex (json_text (config_spec_json config))"

subsection \<open>The shape of a hash\<close>

lemma length_sha_round: "length hs = 8 \<Longrightarrow> length (sha_round kw hs) = 8"
  by (auto simp: sha_round_def Let_def split: prod.splits list.splits)

lemma length_fold_round: "length hs = 8 \<Longrightarrow> length (fold sha_round kws hs) = 8"
  by (induction kws arbitrary: hs) (simp_all add: length_sha_round)

lemma length_sha_block: "length hs = 8 \<Longrightarrow> length (sha_block b hs) = 8"
  by (simp add: sha_block_def Let_def length_fold_round)

lemma length_sha256_words: "length (sha256_words bs) = 8"
proof -
  have "length hs = 8 \<Longrightarrow> length (fold sha_block xs hs) = 8" for xs hs
    by (induction xs arbitrary: hs) (simp_all add: length_sha_block)
  then show ?thesis by (simp add: sha256_words_def sha_init_def)
qed

lemma length_sha256_hex: "length (sha256_hex s) = 64"
proof -
  have "length (concat (map (\<lambda>w. concat (map (\<lambda>i. hex_byte (byte_of (unat w) i)) [3, 2, 1, 0])) ws)) = 8 * length ws"
    for ws :: "w32 list"
    by (induction ws) (simp_all add: hex_byte_def)
  from this [of "sha256_words (map of_char s)"] show ?thesis
    by (simp add: sha256_hex_def length_sha256_words)
qed

lemma hash_not_Nil: "hashPreviewConfigSpec c \<noteq> []"
  using length_sha256_hex [of "json_text (config_spec_json c)"] by (auto simp: hashPreviewConfigSpec_def)

end
