(* ===== verification/Preview_Handler.thy ===== *)
theory Preview_Handler
  imports Config_Volume Config_Hash
begin

section \<open>The preview handler: preview_handler.go\<close>

text \<open>
  What the reconciler does in each state of a preview: preparing the patches, creating the
  infrastructure, filling in the database credentials, keeping the Helm values, and the flow from
  before the patches were rendered by the operator. The Kustomization a routine gets is the
  reconciler's own object, which the routine changes and sends.
\<close>

definition HelmRelease :: gvk where
  "HelmRelease = \<lparr>gvk_group = ''helm.toolkit.fluxcd.io'', gvk_version = ''v2'', gvk_kind = ''HelmRelease''\<rparr>"

definition PatchesAppliedAnnotation :: string where
  "PatchesAppliedAnnotation = ''preview.homelab.io/patches-applied''"

definition InfraCreatedAnnotation :: string where
  "InfraCreatedAnnotation = ''preview.homelab.io/infra-created''"

definition PRCommentedAnnotation :: string where
  "PRCommentedAnnotation = ''preview.homelab.io/pr-commented''"

definition ConfigHashAnnotation :: string where
  "ConfigHashAnnotation = ''preview.homelab.io/config-hash''"

text \<open>A PreviewConfig that was not found: all fields have their zero value.\<close>

definition empty_config :: preview_config where
  "empty_config = \<lparr>cfg_deployment_type = DeploymentTypeEmpty, cfg_redis = None, cfg_storage = None,
     cfg_env_mapping = None, cfg_helm_values = None, cfg_shared_services = [], cfg_config_volume = None,
     cfg_deployment_patch = None, cfg_smoke_test = None\<rparr>"

definition ks_pr :: "preview_ks \<Rightarrow> string" where
  "ks_pr ks = trim_prefix (ks_namespace ks) ''preview-pr-''"

definition annotate :: "string \<Rightarrow> string \<Rightarrow> preview_ks \<Rightarrow> preview_ks" where
  "annotate k v ks = ks\<lparr>ks_annotations := sput k v (ks_annotations ks)\<rparr>"

definition annotation :: "preview_ks \<Rightarrow> string \<Rightarrow> string" where
  "annotation ks k = sget (ks_annotations ks) k"

text \<open>Send the object; the answer is only its error.\<close>

definition send_ks :: "'w handler_api \<Rightarrow> preview_ks \<Rightarrow> ('w, goerr option) hprog" where
  "send_ks api ks =
     do {
       r \<leftarrow> update_ks api ks;
       State_Monad.return (case r of Inl err \<Rightarrow> Some err | Inr _ \<Rightarrow> None)
     }"

subsection \<open>State 1: patches\<close>

definition prepared ::
  "'w handler_api \<Rightarrow> preview_ks \<Rightarrow> string \<Rightarrow> preview_config \<Rightarrow> string \<Rightarrow> preview_ks" where
  "prepared api ks app config callback =
     (let patches = buildAllPatches app (ks_pr ks) (ks_namespace ks) (hd_domain api) config callback None;
          hash = hashPreviewConfigSpec config;
          ks1 = annotate PatchesAppliedAnnotation ''true'' (ks\<lparr>pk_patches := patches\<rparr>);
          ks2 = (if hash \<noteq> [] then annotate ConfigHashAnnotation hash ks1 else ks1)
      in ks2\<lparr>ks_suspend := False\<rparr>)"

definition PrepareKustomization :: "'w handler_api \<Rightarrow> preview_ks \<Rightarrow> string \<Rightarrow> ('w, goerr option) hprog" where
  "PrepareKustomization api ks app =
     do {
       got \<leftarrow> fetchPreviewConfig api app;
       case (case got of
               Inr config \<Rightarrow> Inr config
             | Inl err \<Rightarrow> if IsNotFound err then Inr empty_config
                          else Inl (errorf ''failed to fetch preview config: '' err)) of
         Inl err \<Rightarrow> State_Monad.return (Some err)
       | Inr config \<Rightarrow> do {
           callback \<leftarrow> discoverOIDCCallbackPath api app;
           r \<leftarrow> send_ks api (prepared api ks app config callback);
           State_Monad.return (map_option (errorf ''failed to update Kustomization with patches: '') r)
         }
     }"

subsection \<open>State 2: infrastructure\<close>

definition storage_enabled :: "preview_config \<Rightarrow> bool" where
  "storage_enabled config = (case cfg_storage config of Some s \<Rightarrow> sto_enabled s | None \<Rightarrow> False)"

definition storage_bucket :: "preview_config \<Rightarrow> string" where
  "storage_bucket config = (case cfg_storage config of Some s \<Rightarrow> sto_bucket s | None \<Rightarrow> [])"

text \<open>The set-up steps, then the rest.\<close>

definition setup_steps ::
  "'w handler_api \<Rightarrow> string \<Rightarrow> string \<Rightarrow> string \<Rightarrow> preview_config \<Rightarrow> ('w, goerr option) hprog \<Rightarrow> ('w, goerr option) hprog" where
  "setup_steps api ns app pr config rest =
     step_ok ''failed to setup OIDC: '' (setupOIDC api ns app pr)
      (step_ok ''failed to setup database: '' (setupDatabase api ns app pr)
        (step_ok ''failed to setup Redis: '' (when_ok (cfg_redis config = Some True) (setupRedis api ns))
          (step_ok ''failed to setup S3 proxy: ''
             (when_ok (storage_enabled config) (setupS3Proxy api ns (storage_bucket config) pr))
            (step_ok ''failed to setup config volume: ''
               (case cfg_config_volume config of
                  Some cv \<Rightarrow> setupConfigVolume api ns app pr cv
                | None \<Rightarrow> State_Monad.return None)
              rest))))"

definition CreateInfrastructure :: "'w handler_api \<Rightarrow> preview_ks \<Rightarrow> string \<Rightarrow> ('w, goerr option) hprog" where
  "CreateInfrastructure api ks app =
     do {
       got \<leftarrow> fetchPreviewConfig api app;
       case got of
         Inl err \<Rightarrow>
           State_Monad.return
             (if IsNotFound err then None else Some (errorf ''failed to fetch preview config: '' err))
       | Inr config \<Rightarrow>
           setup_steps api (ks_namespace ks) app (ks_pr ks) config (State_Monad.return None)
     }"

subsection \<open>Helm values\<close>

text \<open>
  The release as it should be: its values with the configured ones, and no \<open>valuesFrom\<close>. \<open>Inr None\<close>
  when it already is.
\<close>

definition release_values :: "klib \<Rightarrow> uobj \<Rightarrow> fields" where
  "release_values lib hr = (case lib_nested_map lib (u_object hr) [''spec'', ''values''] of None \<Rightarrow> [] | Some m \<Rightarrow> m)"

definition has_values_from :: "'w handler_api \<Rightarrow> uobj \<Rightarrow> bool" where
  "has_values_from api hr =
     (case lib_nested_slice (hd_lib api) (u_object hr) [''spec'', ''valuesFrom''] of None \<Rightarrow> False | Some xs \<Rightarrow> xs \<noteq> [])"

definition without_values_from :: "'w handler_api \<Rightarrow> uobj \<Rightarrow> json result" where
  "without_values_from api hr =
     (if has_values_from api hr then hd_set_nested_slice api (u_object hr) [] [''spec'', ''valuesFrom'']
      else Inr (u_object hr))"

definition patched_release :: "'w handler_api \<Rightarrow> uobj \<Rightarrow> smap \<Rightarrow> uobj option result" where
  "patched_release api hr patches =
     (case apply_values (release_values (hd_lib api) hr) patches of
        (modified, values) \<Rightarrow>
          (case without_values_from api hr of
             Inl err \<Rightarrow> Inl err
           | Inr j \<Rightarrow>
               if \<not> (modified \<or> has_values_from api hr) then Inr None
               else
                 (case lib_set_nested_map (hd_lib api) j values [''spec'', ''values''] of
                    Inl err \<Rightarrow> Inl err
                  | Inr j' \<Rightarrow> Inr (Some (hr\<lparr>u_object := j'\<rparr>)))))"

definition secret_data :: "secret \<Rightarrow> string \<Rightarrow> string" where
  "secret_data s k = sget (sec_data s) k"

definition credentials_of :: "secret \<Rightarrow> db_credentials" where
  "credentials_of s = \<lparr>dbc_username = secret_data s ''username'', dbc_password = secret_data s ''password''\<rparr>"

definition ensureHelmReleaseValues :: "'w handler_api \<Rightarrow> string \<Rightarrow> string \<Rightarrow> ('w, bool result) hprog" where
  "ensureHelmReleaseValues api ns app =
     (let pr = trim_prefix ns ''preview-pr-'' in
      do {
        got \<leftarrow> fetchPreviewConfig api app;
        case got of
          Inl err \<Rightarrow> State_Monad.return (if IsNotFound err then Inr False else Inl err)
        | Inr config \<Rightarrow>
            (case (cfg_deployment_type config, cfg_helm_values config) of
               (DeploymentTypeHelm, Some mapping) \<Rightarrow> do {
                 sec \<leftarrow> get_secret api ns (superuser_secret pr);
                 hrr \<leftarrow> get_object api HelmRelease ns app;
                 case hrr of
                   Inl err \<Rightarrow> State_Monad.return (if IsNotFound err then Inr False else Inl err)
                 | Inr hr \<Rightarrow>
                     let creds = (case sec of Inl _ \<Rightarrow> None | Inr s \<Rightarrow> Some (credentials_of s)) in
                     (case patched_release api hr (buildHelmValuePatches (hd_domain api) ns app pr mapping creds) of
                        Inl err \<Rightarrow> State_Monad.return (Inl err)
                      | Inr None \<Rightarrow> State_Monad.return (Inr False)
                      | Inr (Some hr') \<Rightarrow> do {
                          w \<leftarrow> update_object api hr';
                          State_Monad.return
                            (case w of
                               Inl err \<Rightarrow> Inl (errorf ''failed to directly patch HelmRelease values: '' err)
                             | Inr _ \<Rightarrow> Inr True)
                        })
               }
             | _ \<Rightarrow> State_Monad.return (Inr False))
      })"

subsection \<open>State 3: database credentials\<close>

definition setAnnotation :: "'w handler_api \<Rightarrow> preview_ks \<Rightarrow> string \<Rightarrow> string \<Rightarrow> ('w, goerr option) hprog" where
  "setAnnotation api ks k v = send_ks api (annotate k v ks)"

definition needs_credentials :: "preview_config \<Rightarrow> bool" where
  "needs_credentials config =
     (case cfg_helm_values config of
        Some m \<Rightarrow> hm_database_user m \<noteq> [] \<or> hm_database_password m \<noteq> []
      | None \<Rightarrow> False)"

definition with_credentials ::
  "'w handler_api \<Rightarrow> preview_ks \<Rightarrow> string \<Rightarrow> preview_config \<Rightarrow> string \<Rightarrow> db_credentials \<Rightarrow> preview_ks" where
  "with_credentials api ks app config callback creds =
     annotate CredentialsPatchedAnnotation ''true''
       (ks\<lparr>pk_patches := buildAllPatches app (ks_pr ks) (ks_namespace ks) (hd_domain api) config callback (Some creds)\<rparr>)"

definition UpdateDBCredentialPatches :: "'w handler_api \<Rightarrow> preview_ks \<Rightarrow> string \<Rightarrow> ('w, goerr option) hprog" where
  "UpdateDBCredentialPatches api ks app =
     do {
       got \<leftarrow> fetchPreviewConfig api app;
       case got of
         Inl err \<Rightarrow>
           if IsNotFound err then setAnnotation api ks CredentialsPatchedAnnotation ''true''
           else State_Monad.return (Some err)
       | Inr config \<Rightarrow>
           if \<not> needs_credentials config then setAnnotation api ks CredentialsPatchedAnnotation ''true''
           else do {
             s \<leftarrow> get_secret api (ks_namespace ks) (superuser_secret (ks_pr ks));
             case s of
               Inl err \<Rightarrow>
                 State_Monad.return (Some (errorf
                   (''CNPG superuser secret '' @ superuser_secret (ks_pr ks) @ '' not yet available: '') err))
             | Inr secret \<Rightarrow> do {
                 callback \<leftarrow> discoverOIDCCallbackPath api app;
                 w \<leftarrow> send_ks api (with_credentials api ks app config callback (credentials_of secret));
                 case w of
                   Some err \<Rightarrow>
                     State_Monad.return (Some (errorf ''failed to update Kustomization with DB credentials: '' err))
                 | None \<Rightarrow> do {
                     _ \<leftarrow> ensureHelmReleaseValues api (ks_namespace ks) app;
                     State_Monad.return None
                   }
               }
           }
     }"

subsection \<open>The flow without patches\<close>

fun patch_containers :: "app_container list \<Rightarrow> env_patch list \<Rightarrow> bool \<times> app_container list" where
  "patch_containers [] ps = (False, [])"
| "patch_containers (c # cs) ps =
     (case apply_env (c_env c) ps of (b, env) \<Rightarrow>
      case patch_containers cs ps of (b', cs') \<Rightarrow> (b \<or> b', c\<lparr>c_env := env\<rparr> # cs'))"

definition patchDeployment ::
  "'w handler_api \<Rightarrow> string \<Rightarrow> string \<Rightarrow> string \<Rightarrow> preview_config \<Rightarrow> ('w, goerr option) hprog" where
  "patchDeployment api ns app pr config =
     (case cfg_env_mapping config of
        None \<Rightarrow> State_Monad.return None
      | Some m \<Rightarrow> do {
          got \<leftarrow> operate (hd_get_deployment api ns app) (GetDeployment ns app);
          case got of
            Inl err \<Rightarrow> State_Monad.return (if IsNotFound err then None else Some err)
          | Inr (d, version) \<Rightarrow>
              (case patch_containers (dep_containers d) (buildEnvPatches (hd_domain api) ns app pr m) of
                 (modified, cs) \<Rightarrow>
                   if modified then
                     let d' = d\<lparr>dep_containers := cs\<rparr> in
                     do {
                       w \<leftarrow> operate (hd_update_typed api (TDeployment d') version) (UpdateTyped (TDeployment d') version);
                       State_Monad.return
                         (case w of Inl err \<Rightarrow> Some (errorf ''failed to update deployment: '' err) | Inr _ \<Rightarrow> None)
                     }
                   else State_Monad.return None)
        })"

definition patchHelmRelease ::
  "'w handler_api \<Rightarrow> string \<Rightarrow> string \<Rightarrow> string \<Rightarrow> preview_config \<Rightarrow> ('w, goerr option) hprog" where
  "patchHelmRelease api ns app pr config =
     (case cfg_helm_values config of
        None \<Rightarrow> State_Monad.return None
      | Some m \<Rightarrow> do {
          got \<leftarrow> get_object api HelmRelease ns app;
          case got of
            Inl err \<Rightarrow> State_Monad.return (if IsNotFound err then None else Some err)
          | Inr hr \<Rightarrow>
              (case apply_values (release_values (hd_lib api) hr)
                      (buildHelmValuePatches (hd_domain api) ns app pr m None) of
                 (modified, values) \<Rightarrow>
                   if \<not> modified then State_Monad.return None
                   else
                     (case lib_set_nested_map (hd_lib api) (u_object hr) values [''spec'', ''values''] of
                        Inl err \<Rightarrow> State_Monad.return (Some err)
                      | Inr j \<Rightarrow> do {
                          w \<leftarrow> update_object api (hr\<lparr>u_object := j\<rparr>);
                          State_Monad.return
                            (case w of Inl err \<Rightarrow> Some (errorf ''failed to update HelmRelease: '' err) | Inr _ \<Rightarrow> None)
                        }))
        })"

definition patchWorkload ::
  "'w handler_api \<Rightarrow> string \<Rightarrow> string \<Rightarrow> string \<Rightarrow> preview_config \<Rightarrow> ('w, goerr option) hprog" where
  "patchWorkload api ns app pr config =
     (case cfg_deployment_type config of
        DeploymentTypeHelm \<Rightarrow> patchHelmRelease api ns app pr config
      | _ \<Rightarrow> patchDeployment api ns app pr config)"

definition Process :: "'w handler_api \<Rightarrow> preview_ks \<Rightarrow> string \<Rightarrow> ('w, goerr option) hprog" where
  "Process api ks app =
     do {
       got \<leftarrow> fetchPreviewConfig api app;
       case got of
         Inl err \<Rightarrow>
           State_Monad.return
             (if IsNotFound err then None else Some (errorf ''failed to fetch preview config: '' err))
       | Inr config \<Rightarrow>
           setup_steps api (ks_namespace ks) app (ks_pr ks) config
             (step_ok ''failed to patch workload: ''
                (patchWorkload api (ks_namespace ks) app (ks_pr ks) config)
                (State_Monad.return None))
     }"

subsection \<open>Hashes and teardown\<close>

definition PreviewConfigHash :: "'w handler_api \<Rightarrow> string \<Rightarrow> ('w, string result) hprog" where
  "PreviewConfigHash api app =
     do {
       got \<leftarrow> fetchPreviewConfig api app;
       State_Monad.return
         (case got of
            Inr config \<Rightarrow> Inr (hashPreviewConfigSpec config)
          | Inl err \<Rightarrow> if IsNotFound err then Inr (hashPreviewConfigSpec empty_config) else Inl err)
     }"

definition deleteByGVK :: "'w handler_api \<Rightarrow> gvk \<Rightarrow> string \<Rightarrow> string \<Rightarrow> ('w, goerr option) hprog" where
  "deleteByGVK api k ns name =
     do {
       d \<leftarrow> delete_object api k ns name;
       State_Monad.return
         (map_option (errorf (''delete '' @ gvk_kind k @ '' '' @ ns @ ''/'' @ name @ '': '')) (ignore_not_found d))
     }"

text \<open>The names come from the namespace and the application alone.\<close>

definition preview_content_name :: "string \<Rightarrow> string" where
  "preview_content_name pr = ''postgres-preview-'' @ pr @ ''-content''"

definition preview_snapshot_name :: "string \<Rightarrow> string" where
  "preview_snapshot_name pr = ''postgres-preview-pr-'' @ pr"

definition or_else :: "('w, goerr option) hprog \<Rightarrow> ('w, goerr option) hprog \<Rightarrow> ('w, goerr option) hprog" where
  "or_else m rest = do { r \<leftarrow> m; case r of Some err \<Rightarrow> State_Monad.return (Some err) | None \<Rightarrow> rest }"

definition TeardownSnapshots :: "'w handler_api \<Rightarrow> string \<Rightarrow> string \<Rightarrow> ('w, goerr option) hprog" where
  "TeardownSnapshots api app pr =
     or_else (deleteByGVK api VolumeSnapshotContent [] (config_content_name app pr))
      (or_else (deleteByGVK api VolumeSnapshotContent [] (preview_content_name pr))
        (or_else (deleteByGVK api VolumeSnapshot app (config_snapshot_name pr))
          (do {
             got \<leftarrow> get_namespace api app;
             case got of
               Inl _ \<Rightarrow> State_Monad.return None
             | Inr prodNS \<Rightarrow>
                 if sget (ns_annotations prodNS) ''postgres.cnpg.io/cluster-name'' = [] then State_Monad.return None
                 else deleteByGVK api VolumeSnapshot (cluster_namespace prodNS) (preview_snapshot_name pr)
           })))"

end
