(* ===== verification/Url_Parse.thy ===== *)
theory Url_Parse
  imports Net_Url
begin

section \<open>Parsing URLs: net/url\<close>

text \<open>
  \<open>url.Parse\<close> as far as the scheme and the host go, with every case in which it fails: control
  bytes, a missing or malformed scheme, a colon in a first path segment, malformed user
  information, ports and hosts, and malformed escapes in the path and the fragment. Bytes of 128 or
  more pass the checks, as in Go.
\<close>

record parsed_url =
  pu_scheme :: string
  pu_host :: string

definition ascii_letter :: "char \<Rightarrow> bool" where
  "ascii_letter c \<longleftrightarrow> c \<in> set upper_letters \<or> c \<in> set lower_letters"

definition ascii_digit :: "char \<Rightarrow> bool" where
  "ascii_digit c \<longleftrightarrow> c \<in> set ''0123456789''"

definition unhex :: "char \<Rightarrow> nat option" where
  "unhex c = index_byte ''0123456789abcdef'' (lower_char c)"

text \<open>
  \<open>getScheme\<close>: the scheme and the rest, no scheme, or the error of a leading colon. The first
  argument is the text scanned so far.
\<close>

fun get_scheme :: "string \<Rightarrow> string \<Rightarrow> (string \<times> string) option" where
  "get_scheme seen [] = Some ([], seen)"
| "get_scheme seen (c # cs) =
     (if ascii_letter c then get_scheme (seen @ [c]) cs
      else if ascii_digit c \<or> c \<in> set ''+-.'' then
        (if seen = [] then Some ([], c # cs) else get_scheme (seen @ [c]) cs)
      else if c = CHR '':'' then (if seen = [] then None else Some (seen, cs))
      else Some ([], seen @ c # cs))"

definition cut :: "char \<Rightarrow> string \<Rightarrow> string \<times> string option" where
  "cut c s = (case index_byte s c of None \<Rightarrow> (s, None) | Some i \<Rightarrow> (take i s, Some (drop (Suc i) s)))"

text \<open>Whether every escape of a text is well formed.\<close>

fun escapes_ok :: "string \<Rightarrow> bool" where
  "escapes_ok [] = True"
| "escapes_ok (c # cs) =
     (if c = CHR ''%'' then
        (case cs of
           a # b # rest \<Rightarrow> unhex a \<noteq> None \<and> unhex b \<noteq> None \<and> escapes_ok rest
         | _ \<Rightarrow> False)
      else escapes_ok cs)"

text \<open>
  A host: an escape may only stand for a byte of 128 or more or for a percent sign, and every other
  character must be one a host keeps.
\<close>

fun unescape_host :: "string \<Rightarrow> string option" where
  "unescape_host [] = Some []"
| "unescape_host (c # cs) =
     (if c = CHR ''%'' then
        (case cs of
           a # b # rest \<Rightarrow>
             (case (unhex a, unhex b) of
                (Some x, Some y) \<Rightarrow>
                  if x < 8 \<and> \<not> (a = CHR ''2'' \<and> b = CHR ''5'') then None else map_option ((#) (char_of (16 * x + y))) (unescape_host rest)
              | _ \<Rightarrow> None)
         | _ \<Rightarrow> None)
      else if (of_char c :: nat) < 128 \<and> should_escape c EncodeHost then None
      else map_option ((#) c) (unescape_host cs))"

definition valid_optional_port :: "string \<Rightarrow> bool" where
  "valid_optional_port port \<longleftrightarrow>
     port = [] \<or> (hd port = CHR '':'' \<and> list_all ascii_digit (tl port))"

text \<open>
  The zone identifier of an IPv6 literal is read as part of the host (Go allows it some escapes
  more).
\<close>

definition parse_host :: "string \<Rightarrow> string option" where
  "parse_host host =
     (if has_prefix host ''['' then
        (case last_index_byte host (CHR '']'') of
           None \<Rightarrow> None
         | Some i \<Rightarrow> if valid_optional_port (drop (Suc i) host) then unescape_host host else None)
      else
        (case last_index_byte host (CHR '':'') of
           Some i \<Rightarrow> if valid_optional_port (drop i host) then unescape_host host else None
         | None \<Rightarrow> unescape_host host))"

definition userinfo_chars :: string where
  "userinfo_chars = upper_letters @ lower_letters @ ''0123456789-._:~!$&()*+,;=%@'' @ [CHR 0x27]"

definition parse_authority :: "string \<Rightarrow> string option" where
  "parse_authority a =
     (case last_index_byte a (CHR ''@'') of
        None \<Rightarrow> parse_host a
      | Some i \<Rightarrow>
          (case parse_host (drop (Suc i) a) of
             None \<Rightarrow> None
           | Some h \<Rightarrow>
               if list_all (\<lambda>c. c \<in> set userinfo_chars) (take i a) \<and> escapes_ok (take i a) then Some h else None))"

definition has_control :: "string \<Rightarrow> bool" where
  "has_control s \<longleftrightarrow> list_ex (\<lambda>c. (of_char c :: nat) < 32 \<or> c = CHR 0x7F) s"

definition url_parse :: "string \<Rightarrow> parsed_url option" where
  "url_parse raw =
     (let (u, frag) = cut (CHR ''#'') raw in
      if has_control u \<or> (case frag of None \<Rightarrow> False | Some f \<Rightarrow> \<not> escapes_ok f) then None
      else if u = ''*'' then Some \<lparr>pu_scheme = [], pu_host = []\<rparr>
      else
        (case get_scheme [] u of
           None \<Rightarrow> None
         | Some (scheme0, rest0) \<Rightarrow>
             let scheme = to_lower scheme0; rest = fst (cut (CHR ''?'') rest0) in
             if \<not> has_prefix rest ''/'' then
               (if scheme \<noteq> [] then Some \<lparr>pu_scheme = scheme, pu_host = []\<rparr>
                else if CHR '':'' \<in> set (fst (cut (CHR ''/'') rest)) then None
                else if escapes_ok rest then Some \<lparr>pu_scheme = scheme, pu_host = []\<rparr> else None)
             else if has_prefix rest ''//'' \<and> (scheme \<noteq> [] \<or> \<not> has_prefix rest ''///'') then
               (case cut (CHR ''/'') (drop 2 rest) of
                  (authority, path) \<Rightarrow>
                    (case parse_authority authority of
                       None \<Rightarrow> None
                     | Some host \<Rightarrow>
                         if (case path of None \<Rightarrow> True | Some p \<Rightarrow> escapes_ok p)
                         then Some \<lparr>pu_scheme = scheme, pu_host = host\<rparr> else None))
             else if escapes_ok rest then Some \<lparr>pu_scheme = scheme, pu_host = []\<rparr> else None))"

text \<open>\<open>URL.Hostname\<close>: without the port and the brackets.\<close>

definition url_hostname :: "parsed_url \<Rightarrow> string" where
  "url_hostname u =
     (let h = pu_host u;
          h1 = (case last_index_byte h (CHR '':'') of
                  Some i \<Rightarrow> if valid_optional_port (drop i h) then take i h else h
                | None \<Rightarrow> h)
      in if has_prefix h1 ''['' \<and> has_suffix h1 '']'' then butlast (tl h1) else h1)"

end
