(* ===== verification/Forge_Comments.thy ===== *)
theory Forge_Comments
  imports Handler_Api Json_Text Url_Parse
begin

section \<open>The preview comment: forge_comment.go, github_comment.go, gitea_comment.go\<close>

text \<open>
  The operator keeps one comment with the preview's URL on the pull request: it looks for the
  comment that carries its marker and rewrites it, or posts a new one. GitHub and Gitea/Forgejo
  differ in the root of the API, the Accept header and the name in error messages.
\<close>

definition commentMarker :: string where
  "commentMarker = ''<!-- preview-operator-comment -->''"

definition ProviderGitHub :: string where
  "ProviderGitHub = ''github''"

definition ProviderGitea :: string where
  "ProviderGitea = ''gitea''"

definition githubAPIBaseURL :: string where
  "githubAPIBaseURL = ''https://api.github.com''"

definition giteaAPIPath :: string where
  "giteaAPIPath = ''/api/v1''"

record forge_config =
  fg_provider :: string
  fg_api_base :: string
  fg_repo :: string

record forge_comment =
  fc_id :: int
  fc_body :: string

record rest_client =
  rc_base :: string
  rc_token :: string
  rc_accept :: string
  rc_provider :: string

subsection \<open>Clients\<close>

definition newGitHubClient :: "string \<Rightarrow> string \<Rightarrow> rest_client" where
  "newGitHubClient baseURL token =
     (let base = (if baseURL = [] then githubAPIBaseURL else baseURL) in
      \<lparr>rc_base = trim_suffix base ''/'', rc_token = token, rc_accept = ''application/vnd.github.v3+json'',
       rc_provider = ''GitHub''\<rparr>)"

definition newGiteaClient :: "string \<Rightarrow> string \<Rightarrow> rest_client" where
  "newGiteaClient baseURL token =
     (let base = trim_suffix (trim_space baseURL) ''/'';
          root = (if has_suffix base giteaAPIPath then base else base @ giteaAPIPath)
      in \<lparr>rc_base = root, rc_token = token, rc_accept = ''application/json'', rc_provider = ''Gitea/Forgejo''\<rparr>)"

definition newCommentClient :: "forge_config \<Rightarrow> string \<Rightarrow> rest_client result" where
  "newCommentClient cfg token =
     (if fg_provider cfg = [] \<or> fg_provider cfg = ProviderGitHub then
        Inr (newGitHubClient (fg_api_base cfg) token)
      else if fg_provider cfg = ProviderGitea then
        (if fg_api_base cfg = [] then
           Inl (Plain (''git provider '' @ go_quote ProviderGitea @ '' requires an API base URL''))
         else Inr (newGiteaClient (fg_api_base cfg) token))
      else Inl (Plain (''unsupported git provider '' @ go_quote (fg_provider cfg) @ '' (want ''
             @ go_quote ProviderGitHub @ '' or '' @ go_quote ProviderGitea @ '')'')))"

definition comments_url :: "rest_client \<Rightarrow> string \<Rightarrow> string \<Rightarrow> string" where
  "comments_url c repo pr = rc_base c @ ''/repos/'' @ repo @ ''/issues/'' @ pr @ ''/comments''"

definition comment_url :: "rest_client \<Rightarrow> string \<Rightarrow> int \<Rightarrow> string" where
  "comment_url c repo i = rc_base c @ ''/repos/'' @ repo @ ''/issues/comments/'' @ itoa i"

text \<open>\<open>http.NewRequest\<close> fails on a URL that does not parse.\<close>

definition new_request :: "rest_client \<Rightarrow> string \<Rightarrow> string \<Rightarrow> string \<Rightarrow> http_request result" where
  "new_request c meth url body =
     (case url_parse url of
        None \<Rightarrow> Inl (Plain (''parse '' @ go_quote url))
      | Some _ \<Rightarrow>
          Inr \<lparr>rq_method = meth, rq_url = url,
               rq_headers = [(''Authorization'', ''token '' @ rc_token c), (''Accept'', rc_accept c)]
                 @ (if body \<noteq> [] then [(''Content-Type'', ''application/json'')] else []),
               rq_body = body\<rparr>)"

definition check_status :: "rest_client \<Rightarrow> http_response \<Rightarrow> int \<Rightarrow> goerr option" where
  "check_status c rsp want =
     (if rsp_status rsp = want then None
      else Some (Plain (rc_provider c @ '' API returned '' @ itoa (rsp_status rsp) @ '': '' @ rsp_body rsp)))"

subsection \<open>Decoding the list of comments\<close>

text \<open>
  \<open>encoding/json\<close> into a slice of structs: keys match a field name in any case, the last one wins,
  \<open>null\<close> leaves a field as it is, another type is an error.
\<close>

fun comment_fields :: "(string \<times> json) list \<Rightarrow> forge_comment \<Rightarrow> forge_comment option" where
  "comment_fields [] c = Some c"
| "comment_fields ((k, v) # fs) c =
     (if equal_fold k ''id'' then
        (case v of
           JInt i \<Rightarrow> if - (2 ^ 63) \<le> i \<and> i < 2 ^ 63 then comment_fields fs (c\<lparr>fc_id := i\<rparr>) else None
         | JNull \<Rightarrow> comment_fields fs c
         | _ \<Rightarrow> None)
      else if equal_fold k ''body'' then
        (case v of
           JStr s \<Rightarrow> comment_fields fs (c\<lparr>fc_body := s\<rparr>)
         | JNull \<Rightarrow> comment_fields fs c
         | _ \<Rightarrow> None)
      else comment_fields fs c)"

definition comment_of :: "json \<Rightarrow> forge_comment option" where
  "comment_of j =
     (case j of
        JObj fs \<Rightarrow> comment_fields fs \<lparr>fc_id = 0, fc_body = []\<rparr>
      | JNull \<Rightarrow> Some \<lparr>fc_id = 0, fc_body = []\<rparr>
      | _ \<Rightarrow> None)"

fun all_some :: "'a option list \<Rightarrow> 'a list option" where
  "all_some [] = Some []"
| "all_some (x # xs) =
     (case x of None \<Rightarrow> None | Some a \<Rightarrow> map_option ((#) a) (all_some xs))"

definition decode_comments :: "string \<Rightarrow> forge_comment list option" where
  "decode_comments body =
     (case json_decode body of
        Some (JArr js, _) \<Rightarrow> all_some (map comment_of js)
      | Some (JNull, _) \<Rightarrow> Some []
      | _ \<Rightarrow> None)"

subsection \<open>Requests\<close>

definition send :: "'w handler_api \<Rightarrow> string \<Rightarrow> http_request result \<Rightarrow> ('w, http_response result) hprog" where
  "send api what rq =
     (case rq of
        Inl err \<Rightarrow> State_Monad.return (Inl err)
      | Inr r \<Rightarrow> do {
          a \<leftarrow> operate (hd_http api r) (Http r);
          State_Monad.return (case a of Inl err \<Rightarrow> Inl (errorf what err) | Inr rsp \<Rightarrow> Inr rsp)
        })"

definition FindComment ::
  "'w handler_api \<Rightarrow> rest_client \<Rightarrow> string \<Rightarrow> string \<Rightarrow> ('w, forge_comment option result) hprog" where
  "FindComment api c repo pr =
     do {
       a \<leftarrow> send api ''listing comments: '' (new_request c ''GET'' (comments_url c repo pr) []);
       State_Monad.return
         (case a of
            Inl err \<Rightarrow> Inl err
          | Inr rsp \<Rightarrow>
              (case check_status c rsp 200 of
                 Some err \<Rightarrow> Inl err
               | None \<Rightarrow>
                   (case decode_comments (rsp_body rsp) of
                      None \<Rightarrow> Inl (Plain ''decoding comments'')
                    | Some cs \<Rightarrow> Inr (List.find (\<lambda>x. str_contains (fc_body x) commentMarker) cs))))
     }"

definition comment_payload :: "string \<Rightarrow> string" where
  "comment_payload body = json_text (JObj [(''body'', JStr body)])"

definition CreateComment ::
  "'w handler_api \<Rightarrow> rest_client \<Rightarrow> string \<Rightarrow> string \<Rightarrow> string \<Rightarrow> ('w, goerr option) hprog" where
  "CreateComment api c repo pr body =
     do {
       a \<leftarrow> send api ''creating comment: ''
             (new_request c ''POST'' (comments_url c repo pr) (comment_payload body));
       State_Monad.return (case a of Inl err \<Rightarrow> Some err | Inr rsp \<Rightarrow> check_status c rsp 201)
     }"

definition UpdateComment ::
  "'w handler_api \<Rightarrow> rest_client \<Rightarrow> string \<Rightarrow> int \<Rightarrow> string \<Rightarrow> ('w, goerr option) hprog" where
  "UpdateComment api c repo i body =
     do {
       a \<leftarrow> send api ''updating comment: ''
             (new_request c ''PATCH'' (comment_url c repo i) (comment_payload body));
       State_Monad.return (case a of Inl err \<Rightarrow> Some err | Inr rsp \<Rightarrow> check_status c rsp 200)
     }"

subsection \<open>Posting\<close>

definition first_token :: "secret \<Rightarrow> string" where
  "first_token s =
     (let p = trim_space (sget (sec_data s) ''password'') in
      if p \<noteq> [] then p else trim_space (sget (sec_data s) ''token''))"

definition getForgeToken :: "'w handler_api \<Rightarrow> string \<Rightarrow> ('w, string result) hprog" where
  "getForgeToken api ns =
     do {
       got \<leftarrow> get_secret api ns ''github-token'';
       State_Monad.return
         (case got of
            Inl err \<Rightarrow> Inl (errorf ''reading github-token secret: '' err)
          | Inr s \<Rightarrow>
              if first_token s = [] then
                Inl (Plain (''github-token secret missing '' @ [CHR 0x27] @ ''password'' @ [CHR 0x27] @ '' or ''
                  @ [CHR 0x27] @ ''token'' @ [CHR 0x27] @ '' key''))
              else Inr (first_token s))
     }"

definition buildCommentBody :: "string \<Rightarrow> string \<Rightarrow> string \<Rightarrow> string" where
  "buildCommentBody app pr previewURL =
     text_block
       [commentMarker,
        ''## :rocket: Preview Environment Ready'',
        [],
        ''**App:** '' @ [CHR 0x60] @ app @ [CHR 0x60],
        ''**PR:** #'' @ pr,
        [],
        '':link: **Preview URL:** ['' @ previewURL @ ''](''  @ previewURL @ '')'',
        [],
        ''---'',
        ''*Posted by homelab-preview-operator*'']"

definition PostPRComment ::
  "'w handler_api \<Rightarrow> string \<Rightarrow> forge_config \<Rightarrow> string \<Rightarrow> string \<Rightarrow> string \<Rightarrow> ('w, goerr option) hprog" where
  "PostPRComment api ns forge pr app previewURL =
     do {
       t \<leftarrow> getForgeToken api ns;
       case t of
         Inl err \<Rightarrow> State_Monad.return (Some (errorf ''getting forge token: '' err))
       | Inr token \<Rightarrow>
           (case newCommentClient forge token of
              Inl err \<Rightarrow> State_Monad.return (Some err)
            | Inr c \<Rightarrow> do {
                found \<leftarrow> FindComment api c (fg_repo forge) pr;
                case found of
                  Inl err \<Rightarrow> State_Monad.return (Some (errorf ''finding existing comment: '' err))
                | Inr (Some old) \<Rightarrow>
                    UpdateComment api c (fg_repo forge) (fc_id old) (buildCommentBody app pr previewURL)
                | Inr None \<Rightarrow> CreateComment api c (fg_repo forge) pr (buildCommentBody app pr previewURL)
              })
     }"

subsection \<open>The forge behind a clone URL\<close>

definition apiBaseURLFromCloneURL :: "string \<Rightarrow> string result" where
  "apiBaseURLFromCloneURL cloneURL =
     (let trimmed = trim_space cloneURL;
          underivable = Plain (''cannot derive API base URL from '' @ go_quote cloneURL) in
      if trimmed = [] then Inl (Plain ''empty git clone URL'')
      else if \<not> str_contains trimmed ''://'' then
        (case cut (CHR '':'') trimmed of
           (_, None) \<Rightarrow> Inl underivable
         | (before, Some _) \<Rightarrow>
             let host = (case cut (CHR ''@'') before of (_, Some after) \<Rightarrow> after | (h, None) \<Rightarrow> h) in
             if host = [] then Inl underivable else Inr (''https://'' @ host))
      else
        (case url_parse trimmed of
           None \<Rightarrow> Inl (Plain (''parsing git clone URL '' @ go_quote cloneURL))
         | Some u \<Rightarrow>
             if pu_host u = [] then Inl (Plain (''git clone URL '' @ go_quote cloneURL @ '' has no host''))
             else if pu_scheme u = ''http'' \<or> pu_scheme u = ''https'' then
               Inr (pu_scheme u @ ''://'' @ pu_host u)
             else Inr (''https://'' @ url_hostname u)))"

end
