(* ===== verification/Kustomization_Controller.thy ===== *)
theory Kustomization_Controller
  imports Preview_Handler Forge_Comments
begin

section \<open>The Kustomization reconciler: kustomization_controller.go\<close>

text \<open>
  One pass over a Kustomization that carries the preview label. The state of a preview is in the
  object: its finalizer, \<open>spec.suspend\<close>, its patches and five annotations. An update returns the
  object as stored, which the client decodes back into the reconciler's copy; the annotations the
  pass goes on with are the ones it set itself.
\<close>

definition AppNameLabel :: string where
  "AppNameLabel = ''app.kubernetes.io/name''"

definition PreviewFinalizer :: string where
  "PreviewFinalizer = ''preview.homelab.io/cleanup''"

definition GitRepositoryKind :: string where
  "GitRepositoryKind = ''GitRepository''"

definition inferAppNameFromNamespace :: "string \<Rightarrow> string" where
  "inferAppNameFromNamespace namespace = []"

definition ks_app :: "preview_ks \<Rightarrow> string" where
  "ks_app ks =
     (let a = sget (pk_labels ks) AppNameLabel in
      if a = [] then inferAppNameFromNamespace (ks_namespace ks) else a)"

subsection \<open>The forge of a preview\<close>

definition sourceCloneURL :: "'w handler_api \<Rightarrow> preview_ks \<Rightarrow> ('w, string result) hprog" where
  "sourceCloneURL api ks =
     (let ref = pk_source ks;
          ns = (if src_namespace ref = [] then ks_namespace ks else src_namespace ref) in
      if src_kind ref \<noteq> GitRepositoryKind then
        State_Monad.return (Inl (Plain (''source '' @ src_namespace ref @ ''/'' @ src_name ref @ '' is a ''
          @ src_kind ref @ '', not a '' @ GitRepositoryKind)))
      else do {
        r \<leftarrow> operate (hd_read_source api ns (src_name ref)) (ReadSource ns (src_name ref));
        State_Monad.return
          (case r of
             Inl err \<Rightarrow> Inl (errorf (''reading GitRepository '' @ ns @ ''/'' @ src_name ref @ '': '') err)
           | Inr url \<Rightarrow> Inr url)
      })"

definition forgeConfig :: "'w handler_api \<Rightarrow> preview_ks \<Rightarrow> ('w, forge_config result) hprog" where
  "forgeConfig api ks =
     (let provider = (if hd_provider api = [] then ProviderGitHub else hd_provider api);
          cfg = \<lparr>fg_provider = provider, fg_api_base = hd_api_base api, fg_repo = hd_repo api\<rparr> in
      if provider \<noteq> ProviderGitea \<or> hd_api_base api \<noteq> [] then State_Monad.return (Inr cfg)
      else do {
        u \<leftarrow> sourceCloneURL api ks;
        State_Monad.return
          (case u of
             Inl err \<Rightarrow> Inl err
           | Inr cloneURL \<Rightarrow>
               (case apiBaseURLFromCloneURL cloneURL of
                  Inl err \<Rightarrow> Inl err
                | Inr base \<Rightarrow> Inr (cfg\<lparr>fg_api_base := base\<rparr>)))
      })"

definition postPreviewComment ::
  "'w handler_api \<Rightarrow> preview_ks \<Rightarrow> string \<Rightarrow> string \<Rightarrow> string \<Rightarrow> ('w, goerr option) hprog" where
  "postPreviewComment api ks pr app previewURL =
     do {
       f \<leftarrow> forgeConfig api ks;
       case f of
         Inl err \<Rightarrow> State_Monad.return (Some (errorf ''resolving forge API endpoint: '' err))
       | Inr forge \<Rightarrow> PostPRComment api (ks_namespace ks) forge pr app previewURL
     }"

subsection \<open>Deletion and the finalizer\<close>

definition fail_after :: "duration \<Rightarrow> goerr \<Rightarrow> reconcile_result" where
  "fail_after d err = (res_requeue_after d, Some err)"

definition has_finalizer :: "'w handler_api \<Rightarrow> preview_ks \<Rightarrow> bool" where
  "has_finalizer api ks = lib_contains_finalizer (hd_lib api) (pk_finalizers ks) PreviewFinalizer"

definition delete_pass :: "'w handler_api \<Rightarrow> preview_ks \<Rightarrow> ('w, reconcile_result) hprog" where
  "delete_pass api ks =
     (if \<not> has_finalizer api ks then State_Monad.return (res_done, None)
      else do {
        t \<leftarrow> TeardownSnapshots api (ks_app ks) (ks_pr ks);
        case t of
          Some err \<Rightarrow> State_Monad.return (fail_after (15 * second) err)
        | None \<Rightarrow> do {
            u \<leftarrow> send_ks api
                  (ks\<lparr>pk_finalizers := lib_remove_finalizer (hd_lib api) (pk_finalizers ks) PreviewFinalizer\<rparr>);
            State_Monad.return (res_done, u)
          }
      })"

definition add_preview_finalizer :: "'w handler_api \<Rightarrow> preview_ks \<Rightarrow> ('w, reconcile_result) hprog" where
  "add_preview_finalizer api ks =
     do {
       u \<leftarrow> send_ks api
             (ks\<lparr>pk_finalizers := lib_add_finalizer (hd_lib api) (pk_finalizers ks) PreviewFinalizer\<rparr>);
       State_Monad.return (case u of Some err \<Rightarrow> (res_done, Some err) | None \<Rightarrow> (res_requeue_now, None))
     }"

subsection \<open>States of a preview\<close>

text \<open>State 1: the Kustomization is suspended.\<close>

definition prepare_pass :: "'w handler_api \<Rightarrow> preview_ks \<Rightarrow> ('w, reconcile_result) hprog" where
  "prepare_pass api ks =
     do {
       p \<leftarrow> PrepareKustomization api ks (ks_app ks);
       State_Monad.return
         (case p of
            Some err \<Rightarrow> fail_after (30 * second) err
          | None \<Rightarrow> (res_requeue_after (30 * second), None))
     }"

text \<open>Back to state 1: the marks of the patches and the credentials are dropped and the Kustomization suspended.\<close>

definition unprepare :: "preview_ks \<Rightarrow> preview_ks" where
  "unprepare ks =
     ks\<lparr>ks_annotations := sdel CredentialsPatchedAnnotation (sdel PatchesAppliedAnnotation (ks_annotations ks)),
        ks_suspend := True\<rparr>"

definition render_again :: "'w handler_api \<Rightarrow> preview_ks \<Rightarrow> ('w, reconcile_result) hprog" where
  "render_again api ks =
     do {
       u \<leftarrow> send_ks api (unprepare ks);
       State_Monad.return
         (case u of
            Some err \<Rightarrow> fail_after (10 * second) err
          | None \<Rightarrow> (res_requeue_after (5 * second), None))
     }"

text \<open>State 2: the infrastructure has not been created.\<close>

definition infra_pass :: "'w handler_api \<Rightarrow> preview_ks \<Rightarrow> ('w, reconcile_result) hprog" where
  "infra_pass api ks =
     do {
       c \<leftarrow> CreateInfrastructure api ks (ks_app ks);
       case c of
         Some err \<Rightarrow> State_Monad.return (fail_after (60 * second) err)
       | None \<Rightarrow> do {
           u \<leftarrow> send_ks api (annotate InfraCreatedAnnotation ''true'' ks);
           State_Monad.return
             (case u of
                Some err \<Rightarrow> fail_after (10 * second) err
              | None \<Rightarrow> (res_requeue_after (15 * second), None))
         }
     }"

text \<open>State 3: the credentials have not been filled in.\<close>

definition credentials_pass :: "'w handler_api \<Rightarrow> preview_ks \<Rightarrow> ('w, reconcile_result) hprog" where
  "credentials_pass api ks =
     do {
       c \<leftarrow> UpdateDBCredentialPatches api ks (ks_app ks);
       State_Monad.return
         (case c of
            Some _ \<Rightarrow> (res_requeue_after (15 * second), None)
          | None \<Rightarrow> (res_done, None))
     }"

text \<open>
  The comment, once; a failure to post it or to record it is only logged. The answer is the object
  the pass goes on with.
\<close>

definition comment_step :: "'w handler_api \<Rightarrow> preview_ks \<Rightarrow> ('w, preview_ks) hprog" where
  "comment_step api ks =
     (if annotation ks PRCommentedAnnotation = ''true'' \<or> hd_repo api = [] then State_Monad.return ks
      else do {
        p \<leftarrow> postPreviewComment api ks (ks_pr ks) (ks_app ks)
              (preview_app_url (hd_domain api) (ks_app ks) (ks_pr ks));
        case p of
          Some _ \<Rightarrow> State_Monad.return ks
        | None \<Rightarrow>
            let marked = annotate PRCommentedAnnotation ''true'' ks in
            do {
              u \<leftarrow> update_ks api marked;
              State_Monad.return
                (case u of
                   Inl _ \<Rightarrow> marked
                 | Inr stored \<Rightarrow> stored\<lparr>ks_annotations := ks_annotations marked\<rparr>)
            }
      })"

text \<open>All states complete: the patches must still be there and the Helm values right.\<close>

definition complete_pass :: "'w handler_api \<Rightarrow> preview_ks \<Rightarrow> ('w, reconcile_result) hprog" where
  "complete_pass api ks0 =
     do {
       ks \<leftarrow> comment_step api ks0;
       if pk_patches ks = [] then render_again api ks
       else do {
         e \<leftarrow> ensureHelmReleaseValues api (ks_namespace ks) (ks_app ks0);
         State_Monad.return
           (case e of
              Inr True \<Rightarrow> (res_requeue_after (60 * second), None)
            | _ \<Rightarrow> (res_done, None))
       }
     }"

text \<open>The progression after the patches were applied.\<close>

definition config_changed :: "preview_ks \<Rightarrow> string result \<Rightarrow> bool" where
  "config_changed ks h =
     (case h of Inl _ \<Rightarrow> False | Inr hash \<Rightarrow> hash \<noteq> [] \<and> annotation ks ConfigHashAnnotation \<noteq> hash)"

definition patched_pass :: "'w handler_api \<Rightarrow> preview_ks \<Rightarrow> ('w, reconcile_result) hprog" where
  "patched_pass api ks =
     do {
       h \<leftarrow> PreviewConfigHash api (ks_app ks);
       if config_changed ks h then render_again api ks
       else if annotation ks InfraCreatedAnnotation \<noteq> ''true'' then infra_pass api ks
       else if annotation ks CredentialsPatchedAnnotation \<noteq> ''true'' then credentials_pass api ks
       else complete_pass api ks
     }"

definition legacy_pass :: "'w handler_api \<Rightarrow> preview_ks \<Rightarrow> ('w, reconcile_result) hprog" where
  "legacy_pass api ks =
     do {
       p \<leftarrow> Process api ks (ks_app ks);
       State_Monad.return (res_done, p)
     }"

subsection \<open>The pass\<close>

definition preview_pass :: "'w handler_api \<Rightarrow> preview_ks \<Rightarrow> ('w, reconcile_result) hprog" where
  "preview_pass api ks =
     (if sget (pk_labels ks) PreviewEnvironmentLabel \<noteq> ''true'' then State_Monad.return (res_done, None)
      else if ks_app ks = [] then State_Monad.return (res_done, None)
      else if pk_deleting ks then delete_pass api ks
      else if \<not> has_finalizer api ks then add_preview_finalizer api ks
      else if ks_suspend ks then prepare_pass api ks
      else if annotation ks PatchesAppliedAnnotation = ''true'' then patched_pass api ks
      else legacy_pass api ks)"

definition KustomizationReconcile ::
  "'w handler_api \<Rightarrow> string \<Rightarrow> string \<Rightarrow> ('w, reconcile_result) hprog" where
  "KustomizationReconcile api ns name =
     do {
       got \<leftarrow> read_ks api ns name;
       case got of
         Inl err \<Rightarrow> State_Monad.return (if IsNotFound err then (res_done, None) else (res_done, Some err))
       | Inr ks \<Rightarrow> preview_pass api ks
     }"

end
