(* ===== verification/Environment_Log.thy ===== *)
theory Environment_Log
  imports Contract Kustomization_Controller
begin

section \<open>What a pass over a preview Kustomization may do\<close>

text \<open>
  The discipline of the Kustomization reconciler, as a contract on the call log: which calls it may
  make in which state of the preview, where it may write, on what evidence it may change the
  Kustomization. Each routine of the handler is shown to keep it, following its text.
\<close>

subsection \<open>A clone without a warm snapshot\<close>

definition no_delete :: "cluster_call \<Rightarrow> bool" where
  "no_delete x \<longleftrightarrow> (\<forall>k ns name d. x \<noteq> UDelete k ns name d)"

lemma observes_no_delete: "observes x \<Longrightarrow> no_delete x"
  by (auto simp: no_delete_def)

lemma target_no_delete: "target_call c x \<Longrightarrow> no_delete x"
  by (auto simp: target_call_def no_delete_def)

lemma take_no_delete: "\<not> warm c \<Longrightarrow> take_call lib c pvc cold x \<Longrightarrow> no_delete x"
  by (auto simp: take_call_def no_delete_def)

lemma acquire_no_delete:
  assumes "\<not> warm c"
  shows "ensures (acquireSourceSnapshot api c pvc cold) (\<lambda>_ xs. list_all no_delete xs)"
proof -
  have take: "ensures (take_snapshot api c pvc cold) (\<lambda>_ xs. list_all no_delete xs)"
    by (rule ens_weaken [OF take_calls]) (auto simp: list_all_iff intro: take_no_delete [OF assms])
  have read: "ensures (read_snapshot api c) (\<lambda>_ xs. list_all no_delete xs)"
    by (rule ens_weaken [OF read_log]) (auto simp: list_all_iff intro: observes_no_delete)
  have reuse: "reuse_warm api c = State_Monad.return (Inr False)"
    using assms by (simp add: reuse_warm_def)
  show ?thesis
    unfolding acquireSourceSnapshot_def reuse
    by (rule ens_bind, rule ens_return, simp, rule ens_bindI [OF take])
       (auto intro!: ens_option ens_return ens_weaken [OF read])
qed

lemma clone_no_delete:
  assumes "\<not> warm c"
  shows "ensures (cloneCNPGFromSnapshot api c) (\<lambda>_ xs. list_all no_delete xs)"
proof -
  have w: "\<not> warm (with_class c)" using assms by simp
  have res: "ensures (restore_clone api (with_class c) src meta) (\<lambda>_ xs. list_all no_delete xs)" for src meta
    by (rule ens_weaken [OF restore_log]) (auto simp: list_all_iff intro: target_no_delete)
  show ?thesis
    unfolding cloneCNPGFromSnapshot_def Let_def
    by (intro ens_bind ens_operate ens_sum ens_if ens_return)
       (auto simp: no_delete_def intro!: ens_weaken [OF acquire_no_delete [OF w]] ens_sum ens_return ens_weaken [OF res]
         simp: no_delete_def split: sum.splits)
qed


text \<open>Where such a clone writes.\<close>

definition clone_keys :: "cnpg_clone \<Rightarrow> (gvk \<times> string \<times> string) set" where
  "clone_keys c =
     {(VolumeSnapshot, cc_source_ns c, cc_prod_snapshot c), (VolumeSnapshotContent, [], cc_vsc c),
      (VolumeSnapshot, cc_target_ns c, cc_vs c), (CnpgCluster, cc_target_ns c, cc_cluster c)}"

definition obj_key :: "uobj \<Rightarrow> gvk \<times> string \<times> string" where
  "obj_key u = (u_gvk u, u_namespace u, u_name u)"

definition writes_in :: "(gvk \<times> string \<times> string) set \<Rightarrow> cluster_call \<Rightarrow> bool" where
  "writes_in K x \<longleftrightarrow> observes x \<or> (\<exists>u r. (x = UCreate u r \<or> x = UUpdate u r) \<and> obj_key u \<in> K)"

lemma clone_writes:
  assumes w: "\<not> warm c"
  shows "ensures (cloneCNPGFromSnapshot api c) (\<lambda>r xs. (\<forall>x\<in>set xs. writes_in (clone_keys c) x)
     \<and> (r = None \<longrightarrow> (\<exists>src meta. restored (cl_lib api) (with_class c) src meta xs)))"
proof (rule ens_weaken [OF ens_conj [OF clone_log clone_no_delete [OF w]]])
  fix r :: "goerr option" and xs
  let ?lib = "cl_lib api"
  assume a: "((\<forall>x\<in>set xs. observes x \<or> (\<exists>src pvc. UGet CnpgCluster (cc_source_ns c) (cc_source c) (Inr src) \<in> set xs
          \<and> (acquire_call ?lib (with_class c) pvc (cold_allowed ?lib c src) x \<or> target_call c x)))
     \<and> (\<forall>d. UDelete VolumeSnapshot (cc_source_ns c) (source_name c) d \<in> set xs \<longrightarrow> warm c \<and> stale_seen c xs)
     \<and> (r = None \<longrightarrow> (\<exists>src meta. UGet CnpgCluster (cc_source_ns c) (cc_source c) (Inr src) \<in> set xs
          \<and> meta_read ?lib c meta xs \<and> restored ?lib (with_class c) src meta xs)))
     \<and> list_all no_delete xs"
  have n: "source_name c = cc_prod_snapshot c" using w by (simp add: source_name_def)
  have snap: "obj_key u = (VolumeSnapshot, a, b)" if "set_spec ?lib (newVolumeSnapshot a b l) fs = Inr u" for u a b l fs
    using set_spec_key [OF that] by (simp add: newVolumeSnapshot_def obj_key_def)
  have "writes_in (clone_keys c) x" if x: "x \<in> set xs" for x
  proof -
    from a x have "no_delete x" by (simp add: list_all_iff)
    moreover from a x have "observes x \<or> (\<exists>src pvc. acquire_call ?lib (with_class c) pvc (cold_allowed ?lib c src) x \<or> target_call c x)"
      by blast
    ultimately show ?thesis
      using w n
      by (auto simp: acquire_call_def refresh_call_def take_call_def target_call_def no_delete_def writes_in_def
          clone_keys_def dest!: snap) (auto simp: obj_key_def)
  qed
  with a show "(\<forall>x\<in>set xs. writes_in (clone_keys c) x)
     \<and> (r = None \<longrightarrow> (\<exists>src meta. restored ?lib (with_class c) src meta xs))" by blast
qed

subsection \<open>States of a preview\<close>

definition labelled :: "preview_ks \<Rightarrow> bool" where
  "labelled ks \<longleftrightarrow> sget (pk_labels ks) PreviewEnvironmentLabel = ''true'' \<and> ks_app ks \<noteq> []"

definition tearing :: "'w handler_api \<Rightarrow> preview_ks \<Rightarrow> bool" where
  "tearing api ks \<longleftrightarrow> labelled ks \<and> pk_deleting ks \<and> has_finalizer api ks"

definition standing :: "'w handler_api \<Rightarrow> preview_ks \<Rightarrow> bool" where
  "standing api ks \<longleftrightarrow> labelled ks \<and> \<not> pk_deleting ks \<and> has_finalizer api ks"

definition patched :: "preview_ks \<Rightarrow> bool" where
  "patched ks \<longleftrightarrow> annotation ks PatchesAppliedAnnotation = ''true''"

definition infra_created :: "preview_ks \<Rightarrow> bool" where
  "infra_created ks \<longleftrightarrow> annotation ks InfraCreatedAnnotation = ''true''"

definition credentials_patched :: "preview_ks \<Rightarrow> bool" where
  "credentials_patched ks \<longleftrightarrow> annotation ks CredentialsPatchedAnnotation = ''true''"

definition active :: "'w handler_api \<Rightarrow> preview_ks \<Rightarrow> bool" where
  "active api ks \<longleftrightarrow> standing api ks \<and> \<not> ks_suspend ks"

definition building :: "'w handler_api \<Rightarrow> preview_ks \<Rightarrow> bool" where
  "building api ks \<longleftrightarrow> active api ks \<and> (patched ks \<longrightarrow> \<not> infra_created ks)"

definition complete :: "'w handler_api \<Rightarrow> preview_ks \<Rightarrow> bool" where
  "complete api ks \<longleftrightarrow> active api ks \<and> patched ks \<and> infra_created ks \<and> credentials_patched ks"

subsection \<open>The evidence\<close>

definition config_seen :: "preview_ks \<Rightarrow> preview_config \<Rightarrow> handler_call set \<Rightarrow> bool" where
  "config_seen ks config E \<longleftrightarrow> GetPreviewConfig (ks_app ks) (ks_app ks) (Inr config) \<in> E"

definition config_missing :: "preview_ks \<Rightarrow> handler_call set \<Rightarrow> bool" where
  "config_missing ks E \<longleftrightarrow>
     (\<exists>err. GetPreviewConfig (ks_app ks) (ks_app ks) (Inl err) \<in> E \<and> IsNotFound err)"

definition config_used :: "preview_ks \<Rightarrow> preview_config \<Rightarrow> handler_call set \<Rightarrow> bool" where
  "config_used ks config E \<longleftrightarrow> config_seen ks config E \<or> config_missing ks E \<and> config = empty_config"

text \<open>Calls of the cluster layer among the evidence.\<close>

definition did :: "handler_call set \<Rightarrow> (cluster_call list \<Rightarrow> bool) \<Rightarrow> bool" where
  "did E P \<longleftrightarrow> (\<exists>xs. OnCluster ` set xs \<subseteq> E \<and> P xs)"

definition applied_typed :: "typed_obj \<Rightarrow> handler_call set \<Rightarrow> bool" where
  "applied_typed obj E \<longleftrightarrow>
     (\<exists>r. CreateTyped obj (Inr r) \<in> E) \<or> (\<exists>v r. UpdateTyped obj v (Inr r) \<in> E)"

definition oidc_done :: "'w handler_api \<Rightarrow> preview_ks \<Rightarrow> handler_call set \<Rightarrow> bool" where
  "oidc_done api ks E \<longleftrightarrow>
     (\<exists>err. OnCluster (UGet OIDCClient (ks_app ks) (ks_app ks) (Inl err)) \<in> E \<and> IsNotFound err)
     \<or> (\<exists>src spec clientSecret. OnCluster (UGet OIDCClient (ks_app ks) (ks_app ks) (Inr src)) \<in> E
          \<and> lib_nested_map (hd_lib api) (u_object src) [''spec''] = Some spec
          \<and> applied_typed (TSecret (opaque_secret (ks_namespace ks) (oidc_secret_name (ks_pr ks))
               [(''client_secret'', clientSecret)])) E
          \<and> did E (applied_spec (hd_lib api)
               (new_uobj OIDCClient (ks_namespace ks) (preview_client_id (ks_app ks) (ks_pr ks)))
               (preview_oidc_spec api (ks_app ks) (ks_pr ks) spec)))"

definition database_name_of :: "namespace \<Rightarrow> string" where
  "database_name_of n = sget (ns_annotations n) ''postgres.cnpg.io/cluster-name''"

definition database_clone :: "preview_ks \<Rightarrow> namespace \<Rightarrow> cnpg_clone" where
  "database_clone ks n = preview_clone (database_name_of n) (cluster_namespace n) (ks_namespace ks) (ks_pr ks)"

definition database_done :: "'w handler_api \<Rightarrow> preview_ks \<Rightarrow> handler_call set \<Rightarrow> bool" where
  "database_done api ks E \<longleftrightarrow>
     (\<exists>err. OnCluster (GetNS (ks_app ks) (Inl err)) \<in> E \<and> IsNotFound err)
     \<or> (\<exists>n. OnCluster (GetNS (ks_app ks) (Inr n)) \<in> E
          \<and> (database_name_of n = []
             \<or> did E (\<lambda>xs. \<exists>src meta. restored (hd_lib api) (with_class (database_clone ks n)) src meta xs)))"

definition redis_done :: "'w handler_api \<Rightarrow> preview_ks \<Rightarrow> preview_config \<Rightarrow> handler_call set \<Rightarrow> bool" where
  "redis_done api ks config E \<longleftrightarrow> cfg_redis config \<noteq> Some True
     \<or> did E (applied_spec (hd_lib api) (new_uobj RedisKind (ks_namespace ks) ''redis-preview'') redis_spec)"

definition s3_done :: "preview_ks \<Rightarrow> preview_config \<Rightarrow> handler_call set \<Rightarrow> bool" where
  "s3_done ks config E \<longleftrightarrow> \<not> storage_enabled config
     \<or> applied_typed (TPVC (s3_data_claim (ks_namespace ks))) E
       \<and> applied_typed (TSecret (s3_credentials (ks_namespace ks) (ks_pr ks))) E
       \<and> applied_typed (TDeployment (s3_deployment (ks_namespace ks))) E
       \<and> applied_typed (TService (s3_service (ks_namespace ks))) E"

definition volume_done :: "preview_ks \<Rightarrow> preview_config \<Rightarrow> handler_call set \<Rightarrow> bool" where
  "volume_done ks config E \<longleftrightarrow> cfg_config_volume config = None
     \<or> (\<exists>sz. applied_typed (TPVC (clone_claim (ks_app ks) (ks_namespace ks) sz)) E)
       \<and> (\<exists>j. OnCluster (GetProbeJob (ks_namespace ks) (rewrite_job_name (ks_app ks)) (Inr j)) \<in> E
            \<and> job_succeeded j > 0)"

definition infra_done :: "'w handler_api \<Rightarrow> preview_ks \<Rightarrow> preview_config \<Rightarrow> handler_call set \<Rightarrow> bool" where
  "infra_done api ks config E \<longleftrightarrow>
     oidc_done api ks E \<and> database_done api ks E \<and> redis_done api ks config E \<and> s3_done ks config E
     \<and> volume_done ks config E"

text \<open>What a preview leaves outside its own namespace, and what its teardown deletes.\<close>

definition snapshot_keys :: "preview_ks \<Rightarrow> (gvk \<times> string \<times> string) set" where
  "snapshot_keys ks =
     {(VolumeSnapshotContent, [], config_content_name (ks_app ks) (ks_pr ks)),
      (VolumeSnapshotContent, [], preview_content_name (ks_pr ks)),
      (VolumeSnapshot, ks_app ks, config_snapshot_name (ks_pr ks))}"

definition database_key :: "preview_ks \<Rightarrow> namespace \<Rightarrow> gvk \<times> string \<times> string" where
  "database_key ks n = (VolumeSnapshot, cluster_namespace n, preview_snapshot_name (ks_pr ks))"

definition outside_key :: "preview_ks \<Rightarrow> handler_call set \<Rightarrow> gvk \<times> string \<times> string \<Rightarrow> bool" where
  "outside_key ks E key \<longleftrightarrow> key \<in> snapshot_keys ks
     \<or> (\<exists>n. OnCluster (GetNS (ks_app ks) (Inr n)) \<in> E \<and> database_name_of n \<noteq> [] \<and> key = database_key ks n)"

definition deleted_key :: "handler_call set \<Rightarrow> gvk \<times> string \<times> string \<Rightarrow> bool" where
  "deleted_key E key \<longleftrightarrow>
     (\<exists>d. OnCluster (UDelete (fst key) (fst (snd key)) (snd (snd key)) d) \<in> E \<and> ignore_not_found d = None)"

definition torn_down :: "preview_ks \<Rightarrow> handler_call set \<Rightarrow> bool" where
  "torn_down ks E \<longleftrightarrow>
     deleted_key E (VolumeSnapshotContent, [], config_content_name (ks_app ks) (ks_pr ks))
     \<and> deleted_key E (VolumeSnapshotContent, [], preview_content_name (ks_pr ks))
     \<and> deleted_key E (VolumeSnapshot, ks_app ks, config_snapshot_name (ks_pr ks))
     \<and> ((\<exists>err. OnCluster (GetNS (ks_app ks) (Inl err)) \<in> E)
        \<or> (\<exists>n. OnCluster (GetNS (ks_app ks) (Inr n)) \<in> E
             \<and> (database_name_of n = [] \<or> deleted_key E (database_key ks n))))"

subsection \<open>The contract\<close>

text \<open>The object a pass goes on with: the one read, or one an update stored.\<close>

definition version_of :: "preview_ks \<Rightarrow> preview_ks \<Rightarrow> handler_call set \<Rightarrow> bool" where
  "version_of ks k E \<longleftrightarrow> k = ks
     \<or> (\<exists>err. UpdateKs (annotate PRCommentedAnnotation ''true'' ks) (Inl err) \<in> E
          \<and> k = annotate PRCommentedAnnotation ''true'' ks)
     \<or> (\<exists>stored. UpdateKs (annotate PRCommentedAnnotation ''true'' ks) (Inr stored) \<in> E
          \<and> k = stored\<lparr>ks_annotations := ks_annotations (annotate PRCommentedAnnotation ''true'' ks)\<rparr>)"

definition placed :: "preview_ks \<Rightarrow> uobj \<Rightarrow> handler_call set \<Rightarrow> bool" where
  "placed ks u E \<longleftrightarrow> u_namespace u = ks_namespace ks \<or> outside_key ks E (obj_key u)"

definition release_update :: "preview_ks \<Rightarrow> uobj \<Rightarrow> handler_call set \<Rightarrow> bool" where
  "release_update ks u E \<longleftrightarrow>
     (\<exists>k old j. version_of ks k E \<and> OnCluster (UGet HelmRelease (ks_namespace k) (ks_app ks) (Inr old)) \<in> E
        \<and> u = old\<lparr>u_object := j\<rparr>)"

fun cluster_ok :: "'w handler_api \<Rightarrow> preview_ks \<Rightarrow> handler_call set \<Rightarrow> cluster_call \<Rightarrow> bool" where
  "cluster_ok api ks E (UCreate u r) \<longleftrightarrow> building api ks \<and> placed ks u E"
| "cluster_ok api ks E (UUpdate u r) \<longleftrightarrow>
     building api ks \<and> placed ks u E \<or> active api ks \<and> release_update ks u E"
| "cluster_ok api ks E (UDelete k n name d) \<longleftrightarrow> tearing api ks \<and> outside_key ks E (k, n, name)"
| "cluster_ok api ks E (GetNS n r) \<longleftrightarrow> True"
| "cluster_ok api ks E (GetSecret n name r) \<longleftrightarrow> True"
| "cluster_ok api ks E (GetProbeJob n name r) \<longleftrightarrow> True"
| "cluster_ok api ks E (UGet k n name r) \<longleftrightarrow> True"
| "cluster_ok api ks E (WallNow t) \<longleftrightarrow> True"
| "cluster_ok api ks E (WaitPlan n e) \<longleftrightarrow> True"
| "cluster_ok api ks E _ \<longleftrightarrow> False"

definition finalizer_write :: "'w handler_api \<Rightarrow> preview_ks \<Rightarrow> handler_call set \<Rightarrow> preview_ks \<Rightarrow> bool" where
  "finalizer_write api ks E k \<longleftrightarrow>
     labelled ks \<and> \<not> pk_deleting ks \<and> \<not> has_finalizer api ks
       \<and> k = ks\<lparr>pk_finalizers := lib_add_finalizer (hd_lib api) (pk_finalizers ks) PreviewFinalizer\<rparr>
     \<or> tearing api ks \<and> torn_down ks E
       \<and> k = ks\<lparr>pk_finalizers := lib_remove_finalizer (hd_lib api) (pk_finalizers ks) PreviewFinalizer\<rparr>"

definition prepare_write :: "'w handler_api \<Rightarrow> preview_ks \<Rightarrow> handler_call set \<Rightarrow> preview_ks \<Rightarrow> bool" where
  "prepare_write api ks E k \<longleftrightarrow> standing api ks \<and> ks_suspend ks
     \<and> (\<exists>config callback. config_used ks config E \<and> k = prepared api ks (ks_app ks) config callback)"

definition render_write :: "'w handler_api \<Rightarrow> preview_ks \<Rightarrow> handler_call set \<Rightarrow> preview_ks \<Rightarrow> bool" where
  "render_write api ks E k \<longleftrightarrow> active api ks \<and> patched ks
     \<and> (k = unprepare ks
          \<and> (\<exists>config. config_used ks config E \<and> annotation ks ConfigHashAnnotation \<noteq> hashPreviewConfigSpec config)
        \<or> complete api ks \<and> (\<exists>v. version_of ks v E \<and> pk_patches v = [] \<and> k = unprepare v))"

definition infra_write :: "'w handler_api \<Rightarrow> preview_ks \<Rightarrow> handler_call set \<Rightarrow> preview_ks \<Rightarrow> bool" where
  "infra_write api ks E k \<longleftrightarrow> active api ks \<and> patched ks \<and> \<not> infra_created ks
     \<and> k = annotate InfraCreatedAnnotation ''true'' ks
     \<and> (config_missing ks E \<or> (\<exists>config. config_seen ks config E \<and> infra_done api ks config E))"

definition credential_write :: "'w handler_api \<Rightarrow> preview_ks \<Rightarrow> handler_call set \<Rightarrow> preview_ks \<Rightarrow> bool" where
  "credential_write api ks E k \<longleftrightarrow> active api ks \<and> patched ks \<and> infra_created ks \<and> \<not> credentials_patched ks
     \<and> (k = annotate CredentialsPatchedAnnotation ''true'' ks
          \<and> (config_missing ks E \<or> (\<exists>config. config_seen ks config E \<and> \<not> needs_credentials config))
        \<or> (\<exists>config callback s. config_seen ks config E
             \<and> OnCluster (GetSecret (ks_namespace ks) (superuser_secret (ks_pr ks)) (Inr s)) \<in> E
             \<and> k = with_credentials api ks (ks_app ks) config callback (credentials_of s)))"

definition comment_write :: "'w handler_api \<Rightarrow> preview_ks \<Rightarrow> handler_call set \<Rightarrow> preview_ks \<Rightarrow> bool" where
  "comment_write api ks E k \<longleftrightarrow> complete api ks \<and> annotation ks PRCommentedAnnotation \<noteq> ''true''
     \<and> k = annotate PRCommentedAnnotation ''true'' ks
     \<and> (\<exists>rq rsp. Http rq (Inr rsp) \<in> E
          \<and> (rq_method rq = ''POST'' \<and> rsp_status rsp = 201 \<or> rq_method rq = ''PATCH'' \<and> rsp_status rsp = 200))"

definition env_write :: "'w handler_api \<Rightarrow> preview_ks \<Rightarrow> handler_call set \<Rightarrow> preview_ks \<Rightarrow> bool" where
  "env_write api ks E k \<longleftrightarrow> finalizer_write api ks E k \<or> prepare_write api ks E k \<or> render_write api ks E k
     \<or> infra_write api ks E k \<or> credential_write api ks E k \<or> comment_write api ks E k"

fun env_call :: "'w handler_api \<Rightarrow> preview_ks \<Rightarrow> handler_call set \<Rightarrow> handler_call \<Rightarrow> bool" where
  "env_call api ks E (OnCluster c) \<longleftrightarrow> cluster_ok api ks E c"
| "env_call api ks E (GetKs n name r) \<longleftrightarrow> False"
| "env_call api ks E (UpdateKs k r) \<longleftrightarrow> env_write api ks E k"
| "env_call api ks E (GetPreviewConfig n name r) \<longleftrightarrow> n = ks_app ks \<and> name = ks_app ks"
| "env_call api ks E (CreateTyped obj r) \<longleftrightarrow> building api ks \<and> fst (snd (typed_key obj)) = ks_namespace ks"
| "env_call api ks E (UpdateTyped obj v r) \<longleftrightarrow> building api ks"
| "env_call api ks E (CreateVolumeJob j r) \<longleftrightarrow> building api ks \<and> job_namespace j = ks_namespace ks"
| "env_call api ks E (Http rq r) \<longleftrightarrow> complete api ks"
| "env_call api ks E (ReadSource n name r) \<longleftrightarrow> complete api ks"
| "env_call api ks E _ \<longleftrightarrow> True"

subsection \<open>More evidence allows no less\<close>

lemma did_mono: "E \<subseteq> F \<Longrightarrow> did E P \<longrightarrow> did F P"
  unfolding did_def by blast

lemma applied_typed_mono: "E \<subseteq> F \<Longrightarrow> applied_typed obj E \<longrightarrow> applied_typed obj F"
  unfolding applied_typed_def by (intro evidence_mono in_mono; assumption)

lemma config_mono:
  "E \<subseteq> F \<Longrightarrow> config_seen ks config E \<longrightarrow> config_seen ks config F"
  "E \<subseteq> F \<Longrightarrow> config_missing ks E \<longrightarrow> config_missing ks F"
  "E \<subseteq> F \<Longrightarrow> config_used ks config E \<longrightarrow> config_used ks config F"
  unfolding config_used_def config_seen_def config_missing_def
  by (intro evidence_mono in_mono; assumption)+

lemmas env_seen_mono = did_mono applied_typed_mono config_mono in_mono

lemma infra_part_mono:
  "E \<subseteq> F \<Longrightarrow> oidc_done api ks E \<longrightarrow> oidc_done api ks F"
  "E \<subseteq> F \<Longrightarrow> database_done api ks E \<longrightarrow> database_done api ks F"
  "E \<subseteq> F \<Longrightarrow> redis_done api ks config E \<longrightarrow> redis_done api ks config F"
  "E \<subseteq> F \<Longrightarrow> s3_done ks config E \<longrightarrow> s3_done ks config F"
  "E \<subseteq> F \<Longrightarrow> volume_done ks config E \<longrightarrow> volume_done ks config F"
  unfolding oidc_done_def database_done_def redis_done_def s3_done_def volume_done_def
  by (intro evidence_mono env_seen_mono; assumption)+

lemma infra_done_mono: "E \<subseteq> F \<Longrightarrow> infra_done api ks config E \<longrightarrow> infra_done api ks config F"
  unfolding infra_done_def by (intro evidence_mono infra_part_mono; assumption)

lemma outside_key_mono: "E \<subseteq> F \<Longrightarrow> outside_key ks E key \<longrightarrow> outside_key ks F key"
  unfolding outside_key_def by (intro evidence_mono in_mono; assumption)

lemma deleted_key_mono: "E \<subseteq> F \<Longrightarrow> deleted_key E key \<longrightarrow> deleted_key F key"
  unfolding deleted_key_def by (intro evidence_mono in_mono; assumption)

lemma torn_down_mono: "E \<subseteq> F \<Longrightarrow> torn_down ks E \<longrightarrow> torn_down ks F"
  unfolding torn_down_def by (intro evidence_mono in_mono deleted_key_mono; assumption)

lemma version_of_mono: "E \<subseteq> F \<Longrightarrow> version_of ks k E \<longrightarrow> version_of ks k F"
  unfolding version_of_def by (intro evidence_mono in_mono; assumption)

lemma release_update_mono: "E \<subseteq> F \<Longrightarrow> release_update ks u E \<longrightarrow> release_update ks u F"
  unfolding release_update_def by (intro evidence_mono in_mono version_of_mono; assumption)

lemma placed_mono: "E \<subseteq> F \<Longrightarrow> placed ks u E \<longrightarrow> placed ks u F"
  unfolding placed_def by (intro evidence_mono outside_key_mono; assumption)

lemma env_write_mono: "E \<subseteq> F \<Longrightarrow> env_write api ks E k \<longrightarrow> env_write api ks F k"
  unfolding env_write_def finalizer_write_def prepare_write_def render_write_def infra_write_def
    credential_write_def comment_write_def
  by (intro evidence_mono env_seen_mono infra_done_mono torn_down_mono version_of_mono; assumption)

lemma cluster_ok_mono: "E \<subseteq> F \<Longrightarrow> cluster_ok api ks E x \<longrightarrow> cluster_ok api ks F x"
  by (cases x; hypsubst; unfold cluster_ok.simps;
      intro evidence_mono placed_mono release_update_mono outside_key_mono; assumption?)

lemma env_call_mono: "E \<subseteq> F \<Longrightarrow> env_call api ks E x \<longrightarrow> env_call api ks F x"
  by (cases x; hypsubst; unfold env_call.simps; intro evidence_mono cluster_ok_mono env_write_mono; assumption?)

declare env_call.simps [simp del]

lemma env_reads [simp]:
  "env_call api ks E (OnCluster (UGet k n name u))" "env_call api ks E (OnCluster (GetNS nn nr))"
  "env_call api ks E (OnCluster (GetSecret sn sname s))" "env_call api ks E (OnCluster (GetProbeJob jn jname j))"
  "env_call api ks E (OnCluster (WallNow t))" "env_call api ks E (OnCluster (WaitPlan m e))"
  "env_call api ks E (GetPreviewConfig (ks_app ks) (ks_app ks) c)" "env_call api ks E (GetTyped tk tn tname v)"
  "env_call api ks E (GetDeployment dn dname d)" "env_call api ks E (Random b bytes)"
  by (simp_all add: env_call.simps)

interpretation env: call_contract "env_call api ks" for api ks
  by unfold_locales (rule env_call_mono [rule_format])

end
