(* ===== verification/Environment_Routines.thy ===== *)
theory Environment_Routines
  imports Environment_Log
begin

section \<open>The routines of the preview handler keep the contract\<close>

text \<open>
  One lemma per routine, in the order of the code: what it may call in the state the pass is in, and
  what its success is evidence of.
\<close>

abbreviation keeps_env ::
  "'w handler_api \<Rightarrow> preview_ks \<Rightarrow> handler_call set \<Rightarrow> ('w, 'a) hprog \<Rightarrow> ('a \<Rightarrow> handler_call set \<Rightarrow> bool) \<Rightarrow> bool" where
  "keeps_env api ks \<equiv> call_contract.keeps (env_call api ks)"

subsection \<open>Composition\<close>

lemma on_cluster_operate: "on_cluster (operate g c) = operate g (\<lambda>a. OnCluster (c a))"
  unfolding on_cluster_def operate_def by (rule arg_cong [where f = State]) (auto split: prod.split)

lemma keeps_on_cluster:
  assumes "ensures m P"
    and "\<And>a xs x. P a xs \<Longrightarrow> x \<in> set xs \<Longrightarrow> env_call api ks (E \<union> OnCluster ` set xs) (OnCluster x)"
    and "\<And>a xs. P a xs \<Longrightarrow> R a (E \<union> OnCluster ` set xs)"
  shows "keeps_env api ks E (on_cluster m) R"
  unfolding env.keeps_def
  by (rule ens_on_cluster [OF assms(1)]) (use assms(2,3) in auto)

lemma keeps_step_ok:
  assumes "keeps_env api ks E m (\<lambda>r F. r = None \<longrightarrow> A F)"
    and "\<And>F. E \<subseteq> F \<Longrightarrow> A F \<Longrightarrow> keeps_env api ks F rest (\<lambda>r G. r = None \<longrightarrow> B G)"
  shows "keeps_env api ks E (step_ok what m rest) (\<lambda>r G. r = None \<longrightarrow> B G)"
  unfolding step_ok_def
  by (intro env.keeps_bind [OF assms(1)] env.keeps_option) (auto intro: env.keeps_return assms(2))

lemma keeps_or_else:
  assumes "keeps_env api ks E m (\<lambda>r F. r = None \<longrightarrow> A F)"
    and "\<And>F. E \<subseteq> F \<Longrightarrow> A F \<Longrightarrow> keeps_env api ks F rest (\<lambda>r G. r = None \<longrightarrow> B G)"
  shows "keeps_env api ks E (or_else m rest) (\<lambda>r G. r = None \<longrightarrow> B G)"
  unfolding or_else_def
  by (intro env.keeps_bind [OF assms(1)] env.keeps_option) (auto intro: env.keeps_return assms(2))

lemma keeps_when_ok:
  assumes "b \<Longrightarrow> keeps_env api ks E m (\<lambda>r F. r = None \<longrightarrow> A F)" and "\<not> b \<Longrightarrow> A E"
  shows "keeps_env api ks E (when_ok b m) (\<lambda>r F. r = None \<longrightarrow> A F)"
  unfolding when_ok_def using assms by (auto intro: env.keeps_return)

subsection \<open>Creating or updating\<close>

lemma createOrUpdateTyped_keeps:
  assumes b: "building api ks" and n: "fst (snd (typed_key obj)) = ks_namespace ks"
  shows "keeps_env api ks E (createOrUpdateTyped api obj) (\<lambda>r F. r = None \<longrightarrow> applied_typed obj F)"
proof -
  obtain kind ns name where k: "typed_key obj = (kind, ns, name)" by (cases "typed_key obj")
  have ns: "ns = ks_namespace ks" using n k by simp
  show ?thesis
    unfolding createOrUpdateTyped_def k prod.case
    by (intro env.keeps_step env.keeps_rules)
       (auto simp: env_call.simps b k ns applied_typed_def split: sum.splits)
qed

lemma obj_key_version [simp]: "obj_key (u\<lparr>u_resource_version := rv\<rparr>) = obj_key u"
  by (simp add: obj_key_def)

lemma placed_version [simp]: "placed ks (u\<lparr>u_resource_version := rv\<rparr>) E = placed ks u E"
  by (simp add: placed_def)

lemma observes_ok: "observes x \<Longrightarrow> env_call api ks E (OnCluster x)"
  by (cases x) simp_all

lemma createOrUpdate_keeps:
  assumes b: "building api ks" and p: "placed ks u E"
  shows "keeps_env api ks E (on_cluster (createOrUpdate (hd_cluster api) u)) (\<lambda>r F. r = None \<longrightarrow> did F (applied u))"
proof (rule keeps_on_cluster [OF createOrUpdate_log])
  fix r :: "goerr option" and xs x
  assume a: "list_all (\<lambda>x. observes x \<or> (\<exists>r. x = UCreate u r) \<or> (\<exists>rv r. x = UUpdate (u\<lparr>u_resource_version := rv\<rparr>) r)) xs
     \<and> (r = None \<longrightarrow> applied u xs)"
  have p': "placed ks u (E \<union> OnCluster ` set xs)"
    by (rule placed_mono [rule_format, OF _ p]) auto
  show "env_call api ks (E \<union> OnCluster ` set xs) (OnCluster x)" if "x \<in> set xs"
  proof -
    from a that consider "observes x" | r where "x = UCreate u r"
      | rv r where "x = UUpdate (u\<lparr>u_resource_version := rv\<rparr>) r"
      unfolding list_all_iff by blast
    then show ?thesis
      using p' b by cases (rule observes_ok, assumption, auto simp: env_call.simps)
  qed
  from a show "r = None \<longrightarrow> did (E \<union> OnCluster ` set xs) (applied u)"
    unfolding did_def by blast
qed

subsection \<open>Setting up\<close>

lemma fetchPreviewConfig_keeps:
  "keeps_env api ks E (fetchPreviewConfig api (ks_app ks))
     (\<lambda>r F. GetPreviewConfig (ks_app ks) (ks_app ks) r \<in> F)"
  unfolding fetchPreviewConfig_def read_config_def by (rule env.keeps_operate) auto

lemma callback_keeps: "keeps_env api ks E (discoverOIDCCallbackPath api app) (\<lambda>_ _. True)"
  unfolding discoverOIDCCallbackPath_def get_object_def on_cluster_operate
  by (intro env.keeps_step env.keeps_return) auto

lemma random_keeps: "keeps_env api ks E (generateRandomString api n) (\<lambda>_ _. True)"
  unfolding generateRandomString_def by (intro env.keeps_step env.keeps_return) auto

lemma did_applied_spec:
  "set_spec lib u fs = Inr u' \<Longrightarrow> did E (applied u') \<Longrightarrow> did E (applied_spec lib u fs)"
  unfolding did_def applied_spec_def by blast

lemma placed_own: "u_namespace u = ks_namespace ks \<Longrightarrow> placed ks u E"
  by (simp add: placed_def)

lemma setupOIDC_keeps:
  assumes b: "building api ks"
  shows "keeps_env api ks E (setupOIDC api (ks_namespace ks) (ks_app ks) (ks_pr ks))
     (\<lambda>r F. r = None \<longrightarrow> oidc_done api ks F)"
proof -
  let ?sec = "\<lambda>s. TSecret (opaque_secret (ks_namespace ks) (oidc_secret_name (ks_pr ks)) [(''client_secret'', s)])"
  let ?u = "new_uobj OIDCClient (ks_namespace ks) (preview_client_id (ks_app ks) (ks_pr ks))"
  let ?fs = "preview_oidc_spec api (ks_app ks) (ks_pr ks)"
  have n: "fst (snd (typed_key (?sec s))) = ks_namespace ks" for s by (simp add: opaque_secret_def)
  have last: "keeps_env api ks G
      (case set_spec (hd_lib api) ?u (?fs spec) of
         Inl err \<Rightarrow> State_Monad.return (Some (errorf ''failed to set OIDCClient spec: '' err))
       | Inr u \<Rightarrow> on_cluster (createOrUpdate (hd_cluster api) u))
      (\<lambda>r F. r = None \<longrightarrow> oidc_done api ks F)"
    if g: "OnCluster (UGet OIDCClient (ks_app ks) (ks_app ks) (Inr src)) \<in> G"
      "lib_nested_map (hd_lib api) (u_object src) [''spec''] = Some spec" and s: "applied_typed (?sec s) G" for G src spec s
  proof (rule env.keeps_sum)
    fix u
    assume u: "set_spec (hd_lib api) ?u (?fs spec) = Inr u"
    have "placed ks u G" using set_spec_key [OF u] by (intro placed_own) simp
    from createOrUpdate_keeps [OF b this]
    show "keeps_env api ks G (on_cluster (createOrUpdate (hd_cluster api) u)) (\<lambda>r F. r = None \<longrightarrow> oidc_done api ks F)"
    proof (rule env.keeps_weaken, intro impI)
      fix r :: "goerr option" and F
      assume "G \<subseteq> F" and "r = None \<longrightarrow> did F (applied u)" and "r = None"
      then show "oidc_done api ks F"
        using g s did_applied_spec [OF u] applied_typed_mono [of G F "?sec s"] unfolding oidc_done_def by blast
    qed
  qed (auto intro: env.keeps_return)
  show ?thesis
    unfolding setupOIDC_def get_object_def on_cluster_operate
    apply (rule env.keeps_step, simp)
    apply (rule env.keeps_sum, rule env.keeps_return, force simp: oidc_done_def)
    apply (rule env.keeps_option, rule env.keeps_return, simp)
    apply (rule env.keeps_bind [OF random_keeps])
    apply (rule keeps_step_ok [OF createOrUpdateTyped_keeps [OF b n]])
    apply (rule last; (assumption | blast)?)
    done
qed


lemma writes_in_ok:
  assumes "writes_in K x" and "building api ks"
    and "\<And>key. key \<in> K \<Longrightarrow> fst (snd key) = ks_namespace ks \<or> outside_key ks E key"
  shows "env_call api ks E (OnCluster x)"
proof -
  consider "observes x" | u r where "x = UCreate u r" "obj_key u \<in> K" | u r where "x = UUpdate u r" "obj_key u \<in> K"
    using assms(1) unfolding writes_in_def by blast
  then show ?thesis
  proof cases
    case (2 u r)
    with assms(2) assms(3) [OF 2(2)] show ?thesis by (auto simp: env_call.simps placed_def obj_key_def)
  next
    case (3 u r)
    with assms(2) assms(3) [OF 3(2)] show ?thesis by (auto simp: env_call.simps placed_def obj_key_def)
  qed (rule observes_ok)
qed

lemma database_clone_keys:
  assumes "OnCluster (GetNS (ks_app ks) (Inr n)) \<in> E" and "database_name_of n \<noteq> []"
    and "key \<in> clone_keys (database_clone ks n)"
  shows "fst (snd key) = ks_namespace ks \<or> outside_key ks E key"
  using assms
  by (auto simp: clone_keys_def database_clone_def preview_clone_def outside_key_def snapshot_keys_def
      database_key_def preview_content_name_def preview_snapshot_name_def)

lemma setupDatabase_keeps:
  assumes b: "building api ks"
  shows "keeps_env api ks E (setupDatabase api (ks_namespace ks) (ks_app ks) (ks_pr ks))
     (\<lambda>r F. r = None \<longrightarrow> database_done api ks F)"
proof -
  have clone: "keeps_env api ks F (on_cluster (cloneCNPGFromSnapshot (hd_cluster api) (database_clone ks n)))
      (\<lambda>r F. r = None \<longrightarrow> database_done api ks F)"
    if n: "OnCluster (GetNS (ks_app ks) (Inr n)) \<in> F" "database_name_of n \<noteq> []" for F n
  proof (rule keeps_on_cluster [OF clone_writes])
    show "\<not> warm (database_clone ks n)" by (simp add: database_clone_def preview_clone_def warm_def)
  next
    fix r :: "goerr option" and xs x
    assume a: "(\<forall>x\<in>set xs. writes_in (clone_keys (database_clone ks n)) x)
       \<and> (r = None \<longrightarrow> (\<exists>src meta. restored (hd_lib api) (with_class (database_clone ks n)) src meta xs))"
    have e: "OnCluster (GetNS (ks_app ks) (Inr n)) \<in> F \<union> OnCluster ` set xs" using n by blast
    show "env_call api ks (F \<union> OnCluster ` set xs) (OnCluster x)" if "x \<in> set xs"
      using a that by (intro writes_in_ok [OF _ b database_clone_keys [OF e n(2)]]) auto
    show "r = None \<longrightarrow> database_done api ks (F \<union> OnCluster ` set xs)"
      using a e unfolding database_done_def did_def by blast
  qed
  show ?thesis
    unfolding setupDatabase_def get_namespace_def on_cluster_operate Let_def database_name_of_def [symmetric]
      database_clone_def [symmetric]
    apply (rule env.keeps_step, simp)
    apply (rule env.keeps_sum, rule env.keeps_return, force simp: database_done_def)
    apply (rule env.keeps_if, rule env.keeps_return, force simp: database_done_def)
    apply (rule clone, auto)
    done
qed

lemma setupRedis_keeps:
  assumes b: "building api ks" and c: "cfg_redis config = Some True"
  shows "keeps_env api ks E (setupRedis api (ks_namespace ks)) (\<lambda>r F. r = None \<longrightarrow> redis_done api ks config F)"
  unfolding setupRedis_def
proof (rule env.keeps_sum)
  fix u
  assume u: "set_spec (hd_lib api) (new_uobj RedisKind (ks_namespace ks) ''redis-preview'') redis_spec = Inr u"
  have "placed ks u E" using set_spec_key [OF u] by (intro placed_own) simp
  from createOrUpdate_keeps [OF b this]
  show "keeps_env api ks E (on_cluster (createOrUpdate (hd_cluster api) u)) (\<lambda>r F. r = None \<longrightarrow> redis_done api ks config F)"
    by (rule env.keeps_weaken) (use did_applied_spec [OF u] in \<open>auto simp: redis_done_def\<close>)
qed (auto intro: env.keeps_return)

lemma setupS3Proxy_keeps:
  assumes b: "building api ks"
  shows "keeps_env api ks E (setupS3Proxy api (ks_namespace ks) bucket (ks_pr ks))
     (\<lambda>r F. r = None \<longrightarrow> s3_done ks config F)"
  unfolding setupS3Proxy_def s3_done_def
  apply (rule keeps_step_ok [OF createOrUpdateTyped_keeps [OF b]], simp add: s3_data_claim_def)
  apply (rule keeps_step_ok [OF createOrUpdateTyped_keeps [OF b]], simp add: s3_credentials_def opaque_secret_def)
  apply (rule keeps_step_ok [OF createOrUpdateTyped_keeps [OF b]], simp add: s3_deployment_def)
  apply (rule keeps_step_ok [OF createOrUpdateTyped_keeps [OF b]], simp add: s3_service_def)
  apply (rule env.keeps_return)
  apply (metis applied_typed_mono)
  done

subsection \<open>Configuration volumes\<close>

lemma createOrUpdate_writes:
  "ensures (createOrUpdate api u) (\<lambda>r xs. (\<forall>x\<in>set xs. writes_in {obj_key u} x) \<and> (r = None \<longrightarrow> applied u xs))"
  by (rule ens_weaken [OF createOrUpdate_log]) (fastforce simp: list_all_iff writes_in_def)

lemma set_spec_obj_key: "set_spec lib u fs = Inr u' \<Longrightarrow> obj_key u' = obj_key u"
  by (simp add: obj_key_def set_spec_key)

lemma config_snapshot_writes:
  "ensures (create_config_snapshot api app pr cv)
     (\<lambda>_ xs. \<forall>x\<in>set xs. writes_in {(VolumeSnapshot, app, config_snapshot_name pr)} x)"
proof (cases "set_spec (cl_lib api) (config_snapshot app pr) (config_snapshot_fields cv)")
  case (Inl err)
  then show ?thesis by (auto simp: create_config_snapshot_def intro: ens_return)
next
  case (Inr u)
  have k: "obj_key u = (VolumeSnapshot, app, config_snapshot_name pr)"
    using set_spec_obj_key [OF Inr] by (simp add: config_snapshot_def obj_key_def)
  have w: "ensures (waitForSnapshotReady api app name) (\<lambda>_ xs. \<forall>x\<in>set xs. writes_in K x)" for name K
    by (rule ens_weaken [OF snapshot_waited]) (auto simp: list_all_iff writes_in_def)
  show ?thesis
    unfolding create_config_snapshot_def Inr sum.case
    by (rule ens_bindI [OF createOrUpdate_writes])
       (auto simp: k intro!: ens_option ens_return ens_bind ens_weaken [OF w])
qed

lemma read_config_snapshot_writes:
  "ensures (read_config_snapshot api app pr) (\<lambda>_ xs. \<forall>x\<in>set xs. writes_in K x)"
  unfolding read_config_snapshot_def Let_def
  by (intro ens_rules) (auto simp: writes_in_def)

lemma put_object_writes:
  "ensures (put_object api what u fs) (\<lambda>_ xs. \<forall>x\<in>set xs. writes_in {obj_key u} x)"
proof (cases "set_spec (cl_lib api) u fs")
  case (Inr u')
  then show ?thesis
    unfolding put_object_def Inr sum.case
    by (intro ens_bindI [OF createOrUpdate_writes] ens_return) (auto simp: set_spec_obj_key [OF Inr])
qed (auto simp: put_object_def intro: ens_return)

text \<open>A cluster routine that writes allowed keys only.\<close>

lemma keeps_writes:
  assumes "ensures m (\<lambda>_ xs. \<forall>x\<in>set xs. writes_in K x)" and "building api ks"
    and "\<And>key. key \<in> K \<Longrightarrow> fst (snd key) = ks_namespace ks \<or> key \<in> snapshot_keys ks"
  shows "keeps_env api ks E (on_cluster m) (\<lambda>_ _. True)"
proof (rule keeps_on_cluster [OF assms(1)])
  have "fst (snd key) = ks_namespace ks \<or> outside_key ks F key" if "key \<in> K" for key F
    using assms(3) [OF that] unfolding outside_key_def by blast
  then show "env_call api ks (E \<union> OnCluster ` set xs) (OnCluster x)"
    if "\<forall>x\<in>set xs. writes_in K x" "x \<in> set xs" for xs x
    using that assms(2) by (intro writes_in_ok [of K]) auto
qed simp

definition rewritten :: "preview_ks \<Rightarrow> handler_call set \<Rightarrow> bool" where
  "rewritten ks E \<longleftrightarrow>
     (\<exists>j. OnCluster (GetProbeJob (ks_namespace ks) (rewrite_job_name (ks_app ks)) (Inr j)) \<in> E \<and> job_succeeded j > 0)"

lemma rewritten_mono: "E \<subseteq> F \<Longrightarrow> rewritten ks E \<longrightarrow> rewritten ks F"
  unfolding rewritten_def by (intro evidence_mono in_mono; assumption)

lemma job_waited:
  "ensures (waitForJobCompletion api ns name) (\<lambda>r xs. list_all (\<lambda>x. observes x \<or> (\<exists>j. x = GetProbeJob ns name j)) xs
     \<and> (r = None \<longrightarrow> (\<exists>j. GetProbeJob ns name (Inr j) \<in> set xs \<and> job_succeeded j > 0)))"
  unfolding waitForJobCompletion_def
  by (rule ens_wait_for [where R = "\<lambda>a xs. a = None \<longrightarrow>
        (\<exists>j. GetProbeJob ns name (Inr j) \<in> set xs \<and> job_succeeded j > 0)", simplified])
     (auto simp: job_tick_def intro!: ens_rules split: sum.splits if_splits)

lemma wait_keeps:
  "keeps_env api ks E (on_cluster (waitForJobCompletion (hd_cluster api) (ks_namespace ks) (rewrite_job_name (ks_app ks))))
     (\<lambda>r F. r = None \<longrightarrow> rewritten ks F)"
  by (rule keeps_on_cluster [OF job_waited])
     (auto simp: list_all_iff rewritten_def dest!: observes_ok)

lemma create_rewrite_job_keeps:
  assumes b: "building api ks"
  shows "keeps_env api ks E (create_rewrite_job api (ks_namespace ks) (ks_app ks) (ks_pr ks))
     (\<lambda>r F. r = None \<longrightarrow> rewritten ks F)"
  unfolding create_rewrite_job_def Let_def
  by (intro env.keeps_step env.keeps_rules env.keeps_bind [OF wait_keeps])
     (auto simp: env_call.simps b rewrite_job_def)

lemma runURLRewriteJob_keeps:
  assumes b: "building api ks"
  shows "keeps_env api ks E (runURLRewriteJob api (ks_namespace ks) (ks_app ks) (ks_pr ks))
     (\<lambda>r F. r = None \<longrightarrow> rewritten ks F)"
  unfolding runURLRewriteJob_def on_cluster_operate
  by (intro env.keeps_step env.keeps_sum env.keeps_if env.keeps_return create_rewrite_job_keeps [OF b])
     (auto simp: rewritten_def)

lemma patchDeploymentVolume_keeps:
  assumes b: "building api ks"
  shows "keeps_env api ks E (patchDeploymentVolume api ns app original clone) (\<lambda>_ _. True)"
  unfolding patchDeploymentVolume_def Let_def
  by (intro env.keeps_step env.keeps_rules) (auto simp: env_call.simps b)

lemma setupConfigVolume_keeps:
  assumes b: "building api ks"
  shows "keeps_env api ks E (setupConfigVolume api (ks_namespace ks) (ks_app ks) (ks_pr ks) cv)
     (\<lambda>r F. r = None \<longrightarrow> volume_done ks config F)"
proof -
  let ?ns = "ks_namespace ks" and ?app = "ks_app ks" and ?pr = "ks_pr ks"
  have claim: "fst (snd (typed_key (TPVC (clone_claim ?app ?ns sz)))) = ?ns" for sz
    by (simp add: clone_claim_def)
  have rest: "keeps_env api ks F
      (step_ok ''failed to create cloned PVC: '' (createOrUpdateTyped api (TPVC (clone_claim ?app ?ns sz)))
         (step_ok ''failed to run URL rewrite job: '' (runURLRewriteJob api ?ns ?app ?pr)
           (step_ok ''failed to patch deployment volume: ''
              (patchDeploymentVolume api ?ns ?app (cv_claim cv) (clone_pvc_name ?app))
              (State_Monad.return None))))
      (\<lambda>r F. r = None \<longrightarrow> volume_done ks config F)" for F sz
    apply (rule keeps_step_ok [OF createOrUpdateTyped_keeps [OF b claim]])
    apply (rule keeps_step_ok [OF runURLRewriteJob_keeps [OF b]])
    apply (rule keeps_step_ok [where A = "\<lambda>_. True", OF env.keeps_weaken [OF patchDeploymentVolume_keeps [OF b]]], simp)
    apply (rule env.keeps_return)
    apply (unfold volume_done_def rewritten_def [symmetric])
    apply (metis applied_typed_mono rewritten_mono)
    done
  have vsc: "fst (snd key) = ?ns \<or> key \<in> snapshot_keys ks" if "key \<in> {obj_key (config_content ?app ?pr ?ns)}" for key
    using that by (simp add: config_content_def obj_key_def snapshot_keys_def)
  have vs: "fst (snd key) = ?ns \<or> key \<in> snapshot_keys ks"
    if "key \<in> {obj_key (new_uobj VolumeSnapshot ?ns (config_restore_name ?app))}" for key
    using that by (simp add: obj_key_def)
  have src: "fst (snd key) = ?ns \<or> key \<in> snapshot_keys ks"
    if "key \<in> {(VolumeSnapshot, ?app, config_snapshot_name ?pr)}" for key
    using that by (simp add: snapshot_keys_def)
  have restore: "keeps_env api ks F (restore_config_volume api ?ns ?app ?pr cv meta)
      (\<lambda>r F. r = None \<longrightarrow> volume_done ks config F)" for F meta
    unfolding restore_config_volume_def
    by (intro env.keeps_prod env.keeps_bind [OF keeps_writes [OF put_object_writes b vsc]]
          env.keeps_bind [OF keeps_writes [OF put_object_writes b vs]] env.keeps_option env.keeps_if
          env.keeps_return rest) simp_all
  show ?thesis
    unfolding setupConfigVolume_def
    by (intro env.keeps_bind [OF keeps_writes [OF config_snapshot_writes b src]]
          env.keeps_bind [OF keeps_writes [where K = "{}", OF read_config_snapshot_writes b]] env.keeps_option env.keeps_sum
          env.keeps_return restore) simp_all
qed

subsection \<open>The states of a preview\<close>

lemma infra_done_chain:
  assumes "oidc_done api ks F1" "F1 \<subseteq> F2" "database_done api ks F2" "F2 \<subseteq> F3" "redis_done api ks config F3"
    "F3 \<subseteq> F4" "s3_done ks config F4" "F4 \<subseteq> F5" "volume_done ks config F5"
  shows "infra_done api ks config F5"
proof -
  have s: "F1 \<subseteq> F5" "F2 \<subseteq> F5" "F3 \<subseteq> F5" using assms(2,4,6,8) by auto
  show ?thesis
    unfolding infra_done_def
    using infra_part_mono(1) [rule_format, OF s(1) assms(1)] infra_part_mono(2) [rule_format, OF s(2) assms(3)]
      infra_part_mono(3) [rule_format, OF s(3) assms(5)] infra_part_mono(4) [rule_format, OF assms(8,7)] assms(9)
    by blast
qed

lemma setup_steps_keeps:
  assumes b: "building api ks"
    and rest: "\<And>F. E \<subseteq> F \<Longrightarrow> infra_done api ks config F \<Longrightarrow> keeps_env api ks F rest (\<lambda>r G. r = None \<longrightarrow> B G)"
  shows "keeps_env api ks E (setup_steps api (ks_namespace ks) (ks_app ks) (ks_pr ks) config rest)
     (\<lambda>r G. r = None \<longrightarrow> B G)"
proof -
  have vol: "keeps_env api ks F (case cfg_config_volume config of
        Some cv \<Rightarrow> setupConfigVolume api (ks_namespace ks) (ks_app ks) (ks_pr ks) cv
      | None \<Rightarrow> State_Monad.return None) (\<lambda>r F. r = None \<longrightarrow> volume_done ks config F)" for F
    by (rule env.keeps_option [OF env.keeps_return setupConfigVolume_keeps [OF b]]) (simp add: volume_done_def)
  show ?thesis
    unfolding setup_steps_def
    apply (rule keeps_step_ok [OF setupOIDC_keeps [OF b]])
    apply (rule keeps_step_ok [OF setupDatabase_keeps [OF b]])
    apply (rule keeps_step_ok [where A = "redis_done api ks config"], rule keeps_when_ok, erule setupRedis_keeps [OF b],
        simp add: redis_done_def)
    apply (rule keeps_step_ok [where A = "s3_done ks config"], rule keeps_when_ok, rule setupS3Proxy_keeps [OF b],
        simp add: s3_done_def)
    apply (rule keeps_step_ok [OF vol])
    apply (rule rest)
     apply blast
    apply (rule infra_done_chain; assumption)
    done
qed


lemma active_building: "active api ks \<Longrightarrow> patched ks \<Longrightarrow> \<not> infra_created ks \<Longrightarrow> building api ks"
  by (simp add: building_def)

lemma CreateInfrastructure_keeps:
  assumes b: "building api ks"
  shows "keeps_env api ks E (CreateInfrastructure api ks (ks_app ks))
     (\<lambda>r F. r = None \<longrightarrow> config_missing ks F \<or> (\<exists>config. config_seen ks config F \<and> infra_done api ks config F))"
proof -
  have steps: "keeps_env api ks F
      (setup_steps api (ks_namespace ks) (ks_app ks) (ks_pr ks) config (State_Monad.return None))
      (\<lambda>r F. r = None \<longrightarrow> config_missing ks F \<or> (\<exists>config. config_seen ks config F \<and> infra_done api ks config F))"
    if c: "config_seen ks config F" for F config
  proof (rule setup_steps_keeps [OF b], rule env.keeps_return, intro impI disjI2 exI conjI)
    fix G assume "F \<subseteq> G"
    then show "config_seen ks config G" by (rule config_mono(1) [rule_format, OF _ c])
  qed
  show ?thesis
    unfolding CreateInfrastructure_def
    by (intro env.keeps_bind [OF fetchPreviewConfig_keeps] env.keeps_sum env.keeps_return steps)
       (auto simp: config_missing_def config_seen_def split: if_splits)
qed

lemma send_ks_keeps:
  assumes "env_write api ks E k"
  shows "keeps_env api ks E (send_ks api k) (\<lambda>_ _. True)"
  unfolding send_ks_def update_ks_def
  by (intro env.keeps_step env.keeps_return)
     (auto simp: env_call.simps intro: env_write_mono [rule_format, OF _ assms])

lemma config_used_of:
  "GetPreviewConfig (ks_app ks) (ks_app ks) r \<in> F \<Longrightarrow> r = Inr config \<Longrightarrow> config_used ks config F"
  "GetPreviewConfig (ks_app ks) (ks_app ks) r \<in> F \<Longrightarrow> r = Inl err \<Longrightarrow> IsNotFound err \<Longrightarrow> config_used ks empty_config F"
  unfolding config_used_def config_seen_def config_missing_def by blast+

lemma PrepareKustomization_keeps:
  assumes s: "standing api ks" "ks_suspend ks"
  shows "keeps_env api ks E (PrepareKustomization api ks (ks_app ks)) (\<lambda>_ _. True)"
proof -
  have w: "env_write api ks F (prepared api ks (ks_app ks) config callback)" if "config_used ks config F" for F config callback
    using that s unfolding env_write_def prepare_write_def by blast
  have m: "config_used ks config G" if "config_used ks config F" "F \<subseteq> G" for F G config
    by (rule config_mono(3) [rule_format, OF that(2,1)])
  show ?thesis
    unfolding PrepareKustomization_def
    apply (rule env.keeps_bind [OF fetchPreviewConfig_keeps])
    apply (rule env.keeps_sum, rule env.keeps_return, simp)
    apply (rule env.keeps_bind [OF callback_keeps])
    apply (rule env.keeps_bind [OF send_ks_keeps [OF w]])
     apply (rule m)
      apply (auto simp: config_used_of split: sum.splits if_splits intro: env.keeps_return)
    done
qed

lemma update_release_keeps:
  assumes "active api ks" and "version_of ks k E" and "OnCluster (UGet HelmRelease (ks_namespace k) (ks_app ks) (Inr old)) \<in> E"
  shows "keeps_env api ks E (do { w \<leftarrow> update_object api (old\<lparr>u_object := j\<rparr>); State_Monad.return (f w) }) (\<lambda>_ _. True)"
proof -
  have "release_update ks (old\<lparr>u_object := j\<rparr>) E" using assms(2,3) unfolding release_update_def by blast
  then show ?thesis
    unfolding update_object_def on_cluster_operate
    by (intro env.keeps_step env.keeps_return)
       (use assms(1) in \<open>auto simp: env_call.simps intro: release_update_mono [rule_format]\<close>)
qed

lemma patched_release_object:
  "patched_release api hr patches = Inr (Some hr') \<Longrightarrow> \<exists>j. hr' = hr\<lparr>u_object := j\<rparr>"
  by (auto simp: patched_release_def split: prod.splits sum.splits if_splits)

lemma ensureHelmReleaseValues_keeps:
  assumes a: "active api ks" and v: "version_of ks k E"
  shows "keeps_env api ks E (ensureHelmReleaseValues api (ks_namespace k) (ks_app ks)) (\<lambda>_ _. True)"
proof -
  have upd: "keeps_env api ks F (do {
                          w \<leftarrow> update_object api hr';
                          State_Monad.return (f w)
                        }) (\<lambda>_ _. True)"
    if p: "patched_release api hr ps = Inr (Some hr')" and f: "E \<subseteq> F"
      "OnCluster (UGet HelmRelease (ks_namespace k) (ks_app ks) (Inr hr)) \<in> F" for F hr ps hr' f
  proof -
    obtain j where "hr' = hr\<lparr>u_object := j\<rparr>" using patched_release_object [OF p] by blast
    then show ?thesis
      using update_release_keeps [OF a version_of_mono [rule_format, OF f(1) v] f(2)] by simp
  qed
  show ?thesis
    unfolding ensureHelmReleaseValues_def Let_def get_secret_def get_object_def on_cluster_operate
    apply (rule env.keeps_bind [OF fetchPreviewConfig_keeps])
    apply (rule env.keeps_sum, rule env.keeps_return, simp)
    subgoal for r F config
      apply (cases "cfg_deployment_type config"; cases "cfg_helm_values config")
           apply (simp_all add: env.keeps_return)
      apply (intro env.keeps_step env.keeps_sum env.keeps_option env.keeps_return)
          apply simp_all
      apply (rule upd, assumption, auto)
      done
    done
qed

lemma UpdateDBCredentialPatches_keeps:
  assumes a: "active api ks" "patched ks" "infra_created ks" "\<not> credentials_patched ks"
  shows "keeps_env api ks E (UpdateDBCredentialPatches api ks (ks_app ks)) (\<lambda>_ _. True)"
proof -
  let ?mark = "annotate CredentialsPatchedAnnotation ''true'' ks"
  have plain: "env_write api ks F ?mark"
    if "config_missing ks F \<or> (\<exists>config. config_seen ks config F \<and> \<not> needs_credentials config)" for F
    using a that unfolding env_write_def credential_write_def by blast
  have full: "env_write api ks G (with_credentials api ks (ks_app ks) config callback (credentials_of s))"
    if "config_seen ks config F" "F \<subseteq> G"
      "OnCluster (GetSecret (ks_namespace ks) (superuser_secret (ks_pr ks)) (Inr s)) \<in> G" for F G config callback s
    using a that(3) config_mono(1) [rule_format, OF that(2,1)] unfolding env_write_def credential_write_def by blast
  have v: "version_of ks ks F" for F by (simp add: version_of_def)
  have rest: "keeps_env api ks F (do {
             s \<leftarrow> get_secret api (ks_namespace ks) (superuser_secret (ks_pr ks));
             case s of
               Inl err \<Rightarrow>
                 State_Monad.return (Some (errorf
                   (''CNPG superuser secret '' @ superuser_secret (ks_pr ks) @ '' not yet available: '') err))
             | Inr secret \<Rightarrow> do {
                 callback \<leftarrow> discoverOIDCCallbackPath api (ks_app ks);
                 w \<leftarrow> send_ks api (with_credentials api ks (ks_app ks) config callback (credentials_of secret));
                 case w of
                   Some err \<Rightarrow>
                     State_Monad.return (Some (errorf ''failed to update Kustomization with DB credentials: '' err))
                 | None \<Rightarrow> do {
                     _ \<leftarrow> ensureHelmReleaseValues api (ks_namespace ks) (ks_app ks);
                     State_Monad.return None
                   }
               }
           }) (\<lambda>_ _. True)" if "config_seen ks config F" for F config
    unfolding get_secret_def on_cluster_operate
    apply (rule env.keeps_step, simp)
    apply (rule env.keeps_sum, rule env.keeps_return, simp)
    apply (rule env.keeps_bind [OF callback_keeps])
    apply (rule env.keeps_bind [OF send_ks_keeps [OF full]], rule that)
      apply blast
     apply blast
    apply (rule env.keeps_option)
     apply (intro env.keeps_bind [OF ensureHelmReleaseValues_keeps [OF a(1) v]] env.keeps_return, simp)
    apply (rule env.keeps_return, simp)
    done
  show ?thesis
    unfolding UpdateDBCredentialPatches_def setAnnotation_def
    by (intro env.keeps_bind [OF fetchPreviewConfig_keeps] env.keeps_sum env.keeps_if env.keeps_return
          send_ks_keeps plain rest)
       (auto simp: config_missing_def config_seen_def)
qed

subsection \<open>The flow without patches\<close>

lemma patchDeployment_keeps:
  "building api ks \<Longrightarrow> keeps_env api ks E (patchDeployment api ns app pr config) (\<lambda>_ _. True)"
  unfolding patchDeployment_def Let_def
  by (intro env.keeps_step env.keeps_rules) (auto simp: env_call.simps)

lemma building_active: "building api ks \<Longrightarrow> active api ks"
  by (simp add: building_def)

lemma patchHelmRelease_keeps:
  assumes b: "building api ks"
  shows "keeps_env api ks E (patchHelmRelease api (ks_namespace ks) (ks_app ks) pr config) (\<lambda>_ _. True)"
proof -
  have v: "version_of ks ks F" for F by (simp add: version_of_def)
  show ?thesis
    unfolding patchHelmRelease_def get_object_def on_cluster_operate
    by (intro env.keeps_option env.keeps_step env.keeps_sum env.keeps_prod env.keeps_if env.keeps_return
          update_release_keeps [OF building_active [OF b] v]) auto
qed

lemma Process_keeps:
  assumes b: "building api ks"
  shows "keeps_env api ks E (Process api ks (ks_app ks)) (\<lambda>_ _. True)"
proof -
  have w: "keeps_env api ks F (patchWorkload api (ks_namespace ks) (ks_app ks) (ks_pr ks) config)
      (\<lambda>r F. r = None \<longrightarrow> True)" for F config
    unfolding patchWorkload_def
    by (cases "cfg_deployment_type config") (simp_all add: patchHelmRelease_keeps patchDeployment_keeps b)
  have last: "keeps_env api ks F (step_ok what (patchWorkload api (ks_namespace ks) (ks_app ks) (ks_pr ks) config)
       (State_Monad.return None)) (\<lambda>r F. r = None \<longrightarrow> True)" for F what config
    by (rule keeps_step_ok [OF w], rule env.keeps_return) simp
  show ?thesis
    unfolding Process_def
    apply (intro env.keeps_bind [OF fetchPreviewConfig_keeps] env.keeps_sum env.keeps_return)
     apply simp
    apply (rule env.keeps_weaken [OF setup_steps_keeps [OF b last]], simp)
    done
qed

subsection \<open>Teardown\<close>

lemma deleteByGVK_keeps:
  assumes "tearing api ks" and "outside_key ks E (k, ns, name)"
  shows "keeps_env api ks E (deleteByGVK api k ns name) (\<lambda>r F. r = None \<longrightarrow> deleted_key F (k, ns, name))"
  unfolding deleteByGVK_def delete_object_def on_cluster_operate
  by (intro env.keeps_step env.keeps_return)
     (auto simp: env_call.simps assms deleted_key_def intro: outside_key_mono [rule_format, OF _ assms(2)])

lemma TeardownSnapshots_keeps:
  assumes t: "tearing api ks"
  shows "keeps_env api ks E (TeardownSnapshots api (ks_app ks) (ks_pr ks)) (\<lambda>r F. r = None \<longrightarrow> torn_down ks F)"
proof -
  let ?k1 = "(VolumeSnapshotContent, [], config_content_name (ks_app ks) (ks_pr ks))"
  let ?k2 = "(VolumeSnapshotContent, [], preview_content_name (ks_pr ks))"
  let ?k3 = "(VolumeSnapshot, ks_app ks, config_snapshot_name (ks_pr ks))"
  have k: "outside_key ks F ?k1" "outside_key ks F ?k2" "outside_key ks F ?k3" for F
    by (simp_all add: outside_key_def snapshot_keys_def)
  have db: "outside_key ks F (VolumeSnapshot, cluster_namespace n, preview_snapshot_name (ks_pr ks))"
    if "OnCluster (GetNS (ks_app ks) (Inr n)) \<in> F" "database_name_of n \<noteq> []" for n F
    using that unfolding outside_key_def database_key_def by blast
  have down: "torn_down ks H"
    if "deleted_key F1 ?k1" "F1 \<subseteq> F2" "deleted_key F2 ?k2" "F2 \<subseteq> F3" "deleted_key F3 ?k3" "F3 \<subseteq> H"
      "(\<exists>err. OnCluster (GetNS (ks_app ks) (Inl err)) \<in> H)
        \<or> (\<exists>n. OnCluster (GetNS (ks_app ks) (Inr n)) \<in> H
             \<and> (database_name_of n = [] \<or> deleted_key H (database_key ks n)))" for F1 F2 F3 H
  proof -
    have s: "F1 \<subseteq> H" "F2 \<subseteq> H" using that(2,4,6) by auto
    show ?thesis
      unfolding torn_down_def
      using deleted_key_mono [rule_format, OF s(1) that(1)] deleted_key_mono [rule_format, OF s(2) that(3)]
        deleted_key_mono [rule_format, OF that(6,5)] that(7)
      by blast
  qed
  show ?thesis
    unfolding TeardownSnapshots_def get_namespace_def on_cluster_operate database_name_of_def [symmetric]
    apply (rule keeps_or_else [OF deleteByGVK_keeps [OF t k(1)]])
    apply (rule keeps_or_else [OF deleteByGVK_keeps [OF t k(2)]])
    apply (rule keeps_or_else [OF deleteByGVK_keeps [OF t k(3)]])
    apply (rule env.keeps_step, simp)
    apply (rule env.keeps_sum, rule env.keeps_return, intro impI, rule down, assumption+, blast)
     apply blast
    apply (rule env.keeps_if, rule env.keeps_return, intro impI, rule down, assumption+, blast)
     apply blast
    apply (rule env.keeps_weaken [OF deleteByGVK_keeps [OF t db]], blast, assumption, intro impI)
    apply (rule down, assumption+, blast)
    apply (auto simp: database_key_def)
    done
qed

subsection \<open>The comment\<close>

definition posted :: "handler_call set \<Rightarrow> bool" where
  "posted E \<longleftrightarrow> (\<exists>rq rsp. Http rq (Inr rsp) \<in> E
     \<and> (rq_method rq = ''POST'' \<and> rsp_status rsp = 201 \<or> rq_method rq = ''PATCH'' \<and> rsp_status rsp = 200))"

lemma postedI:
  "Http rq (Inr rsp) \<in> E \<Longrightarrow> rq_method rq = ''POST'' \<Longrightarrow> rsp_status rsp = 201 \<Longrightarrow> posted E"
  "Http rq (Inr rsp) \<in> E \<Longrightarrow> rq_method rq = ''PATCH'' \<Longrightarrow> rsp_status rsp = 200 \<Longrightarrow> posted E"
  unfolding posted_def by blast+

lemma send_keeps:
  assumes "complete api ks"
  shows "keeps_env api ks E (send api what rq)
     (\<lambda>r F. \<forall>rsp. r = Inr rsp \<longrightarrow> (\<exists>q. rq = Inr q \<and> Http q (Inr rsp) \<in> F))"
  unfolding send_def
  by (intro env.keeps_sum env.keeps_step env.keeps_return) (auto simp: env_call.simps assms split: sum.splits)

lemma new_request_method: "new_request c m url body = Inr q \<Longrightarrow> rq_method q = m"
  by (auto simp: new_request_def split: option.splits)

lemma FindComment_keeps: "complete api ks \<Longrightarrow> keeps_env api ks E (FindComment api c repo pr) (\<lambda>_ _. True)"
  unfolding FindComment_def by (intro env.keeps_bind [OF send_keeps] env.keeps_return) auto

lemma CreateComment_keeps:
  "complete api ks \<Longrightarrow> keeps_env api ks E (CreateComment api c repo pr body) (\<lambda>r F. r = None \<longrightarrow> posted F)"
  unfolding CreateComment_def
  by (intro env.keeps_bind [OF send_keeps] env.keeps_return)
     (auto intro: postedI simp: check_status_def dest!: new_request_method split: sum.splits if_splits)

lemma UpdateComment_keeps:
  "complete api ks \<Longrightarrow> keeps_env api ks E (UpdateComment api c repo i body) (\<lambda>r F. r = None \<longrightarrow> posted F)"
  unfolding UpdateComment_def
  by (intro env.keeps_bind [OF send_keeps] env.keeps_return)
     (auto intro: postedI simp: check_status_def dest!: new_request_method split: sum.splits if_splits)

lemma getForgeToken_keeps: "keeps_env api ks E (getForgeToken api ns) (\<lambda>_ _. True)"
  unfolding getForgeToken_def get_secret_def on_cluster_operate
  by (intro env.keeps_step env.keeps_return) auto

lemma PostPRComment_keeps:
  "complete api ks \<Longrightarrow> keeps_env api ks E (PostPRComment api ns forge pr app url) (\<lambda>r F. r = None \<longrightarrow> posted F)"
  unfolding PostPRComment_def
  by (intro env.keeps_bind [OF getForgeToken_keeps] env.keeps_bind [OF FindComment_keeps] env.keeps_sum
        env.keeps_option env.keeps_return CreateComment_keeps UpdateComment_keeps) auto

lemma forgeConfig_keeps: "complete api ks \<Longrightarrow> keeps_env api ks E (forgeConfig api ks) (\<lambda>_ _. True)"
  unfolding forgeConfig_def sourceCloneURL_def Let_def
  by (intro env.keeps_if env.keeps_return env.keeps_bind [where R = "\<lambda>_ _. True"] env.keeps_step)
     (auto simp: env_call.simps)

lemma postPreviewComment_keeps:
  "complete api ks \<Longrightarrow> keeps_env api ks E (postPreviewComment api ks pr app url) (\<lambda>r F. r = None \<longrightarrow> posted F)"
  unfolding postPreviewComment_def
  by (intro env.keeps_bind [OF forgeConfig_keeps] env.keeps_sum env.keeps_return PostPRComment_keeps) auto

lemma comment_step_keeps:
  assumes c: "complete api ks"
  shows "keeps_env api ks E (comment_step api ks) (\<lambda>k F. version_of ks k F)"
proof -
  let ?m = "annotate PRCommentedAnnotation ''true'' ks"
  have w: "env_write api ks F ?m" if "annotation ks PRCommentedAnnotation \<noteq> ''true''" "posted F" for F
    using that c unfolding env_write_def comment_write_def posted_def by blast
  show ?thesis
    unfolding comment_step_def Let_def update_ks_def
    apply (rule env.keeps_if, rule env.keeps_return, simp add: version_of_def)
    apply (rule env.keeps_bind [OF postPreviewComment_keeps [OF c]])
    apply (rule env.keeps_option)
     apply (rule env.keeps_step)
      apply (use env_write_mono [rule_format, OF subset_insertI w] in \<open>auto simp: env_call.simps\<close>) [1]
     apply (rule env.keeps_return)
     apply (auto simp: version_of_def split: sum.splits) [1]
    apply (rule env.keeps_return, simp add: version_of_def)
    done
qed

subsection \<open>The pass\<close>

lemma render_again_keeps:
  "render_write api ks E (unprepare k) \<Longrightarrow> keeps_env api ks E (render_again api k) (\<lambda>_ _. True)"
  unfolding render_again_def
  by (intro env.keeps_bind [OF send_ks_keeps] env.keeps_return) (simp_all add: env_write_def)

lemma complete_pass_keeps:
  assumes c: "complete api ks"
  shows "keeps_env api ks E (complete_pass api ks) (\<lambda>_ _. True)"
proof -
  have a: "active api ks" "patched ks" using c by (simp_all add: complete_def)
  have r: "render_write api ks F (unprepare k)" if "version_of ks k F" "pk_patches k = []" for k F
    using that a c unfolding render_write_def by blast
  show ?thesis
    unfolding complete_pass_def
    by (intro env.keeps_bind [OF comment_step_keeps [OF c]] env.keeps_if render_again_keeps r
          env.keeps_bind [OF ensureHelmReleaseValues_keeps [OF a(1)]] env.keeps_return)
qed

lemma PreviewConfigHash_keeps:
  "keeps_env api ks E (PreviewConfigHash api (ks_app ks))
     (\<lambda>r F. \<forall>h. r = Inr h \<longrightarrow> (\<exists>config. config_used ks config F \<and> h = hashPreviewConfigSpec config))"
  unfolding PreviewConfigHash_def
  by (intro env.keeps_bind [OF fetchPreviewConfig_keeps] env.keeps_return)
     (auto intro: config_used_of split: sum.splits if_splits)

lemma patched_pass_keeps:
  assumes a: "active api ks" and p: "patched ks"
  shows "keeps_env api ks E (patched_pass api ks) (\<lambda>_ _. True)"
proof -
  have r: "render_write api ks F (unprepare ks)"
    if "\<forall>h. r = Inr h \<longrightarrow> (\<exists>config. config_used ks config F \<and> h = hashPreviewConfigSpec config)"
      "config_changed ks r" for r F
    using that a p by (auto simp: render_write_def config_changed_def split: sum.splits)
  have i: "keeps_env api ks F (infra_pass api ks) (\<lambda>_ _. True)" if n: "\<not> infra_created ks" for F
  proof -
    have w: "env_write api ks G (annotate InfraCreatedAnnotation ''true'' ks)"
      if "config_missing ks G \<or> (\<exists>config. config_seen ks config G \<and> infra_done api ks config G)" for G
      using that a p n unfolding env_write_def infra_write_def by blast
    show ?thesis
      unfolding infra_pass_def
      by (intro env.keeps_bind [OF CreateInfrastructure_keeps [OF active_building [OF a p n]]] env.keeps_option
            env.keeps_bind [OF send_ks_keeps [OF w]] env.keeps_return) simp_all
  qed
  have cr: "keeps_env api ks F (credentials_pass api ks) (\<lambda>_ _. True)" if "infra_created ks" "\<not> credentials_patched ks" for F
    unfolding credentials_pass_def
    by (intro env.keeps_bind [OF UpdateDBCredentialPatches_keeps [OF a p that]] env.keeps_return) simp
  show ?thesis
    unfolding patched_pass_def
    by (intro env.keeps_bind [OF PreviewConfigHash_keeps] env.keeps_if render_again_keeps r i cr complete_pass_keeps)
       (use a p in \<open>auto simp: infra_created_def credentials_patched_def complete_def\<close>)
qed

lemma preview_pass_keeps: "keeps_env api ks E (preview_pass api ks) (\<lambda>_ _. True)"
proof -
  have d: "keeps_env api ks E (delete_pass api ks) (\<lambda>_ _. True)" if "labelled ks" "pk_deleting ks"
  proof -
    have t: "tearing api ks" if "has_finalizer api ks" using that \<open>labelled ks\<close> \<open>pk_deleting ks\<close> by (simp add: tearing_def)
    have w: "env_write api ks F
        (ks\<lparr>pk_finalizers := lib_remove_finalizer (hd_lib api) (pk_finalizers ks) PreviewFinalizer\<rparr>)"
      if "has_finalizer api ks" "torn_down ks F" for F
      using t that unfolding env_write_def finalizer_write_def by blast
    show ?thesis
      unfolding delete_pass_def
      by (intro env.keeps_if env.keeps_return env.keeps_bind [OF TeardownSnapshots_keeps [OF t]] env.keeps_option
            env.keeps_bind [OF send_ks_keeps [OF w]]) auto
  qed
  have f: "keeps_env api ks E (add_preview_finalizer api ks) (\<lambda>_ _. True)"
    if "labelled ks" "\<not> pk_deleting ks" "\<not> has_finalizer api ks"
    unfolding add_preview_finalizer_def using that
    by (intro env.keeps_bind [OF send_ks_keeps] env.keeps_return) (auto simp: env_write_def finalizer_write_def)
  have p: "keeps_env api ks E (prepare_pass api ks) (\<lambda>_ _. True)" if "standing api ks" "ks_suspend ks"
    unfolding prepare_pass_def
    by (intro env.keeps_bind [OF PrepareKustomization_keeps [OF that]] env.keeps_return) simp
  have l: "keeps_env api ks E (legacy_pass api ks) (\<lambda>_ _. True)" if "active api ks" "\<not> patched ks"
    unfolding legacy_pass_def using that
    by (intro env.keeps_bind [OF Process_keeps] env.keeps_return) (simp_all add: building_def)
  show ?thesis
    unfolding preview_pass_def
    by (intro env.keeps_if env.keeps_return d f p patched_pass_keeps l)
       (auto simp: labelled_def standing_def active_def patched_def)
qed

text \<open>The log of a whole pass: the Kustomization is read once, and what follows keeps the contract for it.\<close>

definition env_log :: "'w handler_api \<Rightarrow> string \<Rightarrow> string \<Rightarrow> handler_call list \<Rightarrow> bool" where
  "env_log api ns name xs \<longleftrightarrow>
     (\<exists>err. xs = [GetKs ns name (Inl err)])
     \<or> (\<exists>ks rest. xs = GetKs ns name (Inr ks) # rest \<and> (\<forall>x\<in>set rest. env_call api ks (set xs) x))"

lemma KustomizationReconcile_log: "ensures (KustomizationReconcile api ns name) (\<lambda>_ xs. env_log api ns name xs)"
  unfolding KustomizationReconcile_def read_ks_def
proof (rule ens_bind, rule ens_operate, rule ens_sum)
  fix got err
  assume "got = (Inl err :: preview_ks result)"
  then show "ensures (State_Monad.return (if IsNotFound err then (res_done, None) else (res_done, Some err)))
      (\<lambda>_ ys. env_log api ns name ([GetKs ns name got] @ ys))"
    by (auto simp: env_log_def intro!: ens_return)
next
  fix got ks
  assume g: "got = (Inr ks :: preview_ks result)"
  show "ensures (preview_pass api ks) (\<lambda>_ ys. env_log api ns name ([GetKs ns name got] @ ys))"
    by (rule ens_weaken [OF preview_pass_keeps [of api ks "{GetKs ns name got}", unfolded env.keeps_def]])
       (auto simp: env_log_def g)
qed

lemma env_head:
  assumes "run_in (KustomizationReconcile api ns name) w = (res, xs)" and "GetKs ns name (Inr ks) \<in> set xs"
  shows "\<exists>rest. xs = GetKs ns name (Inr ks) # rest \<and> (\<forall>x\<in>set rest. env_call api ks (set xs) x)"
proof -
  have p: "env_log api ns name xs" by (rule ens_run_in [OF KustomizationReconcile_log assms(1)])
  then obtain k rest where xs: "xs = GetKs ns name (Inr k) # rest"
    and ok: "\<And>y. y \<in> set rest \<Longrightarrow> env_call api k (set xs) y"
    using assms(2) unfolding env_log_def by auto
  have "k = ks"
    using assms(2) ok [of "GetKs ns name (Inr ks)"] xs by (auto simp: env_call.simps)
  then show ?thesis using ok xs by auto
qed

lemma env_pass_call:
  assumes "run_in (KustomizationReconcile api ns name) w = (res, xs)" and "GetKs ns name (Inr ks) \<in> set xs"
    and "x \<in> set xs" and "\<And>a b r. x \<noteq> GetKs a b r"
  shows "env_call api ks (set xs) x"
  using env_head [OF assms(1,2)] assms(3,4) by auto

end
