(* ===== verification/Environment_State.thy ===== *)
theory Environment_State
  imports Environment_Routines
begin

section \<open>The life of a preview\<close>

text \<open>
  The stages a preview goes through, read off the Kustomization, the machine they follow, and the
  rank every pass lowers: with one PreviewConfig the reconciler stops writing.
\<close>

subsection \<open>What the writes keep\<close>

lemma annotation_keys [simp]:
  "PatchesAppliedAnnotation \<noteq> ConfigHashAnnotation" "PatchesAppliedAnnotation \<noteq> InfraCreatedAnnotation"
  "PatchesAppliedAnnotation \<noteq> CredentialsPatchedAnnotation" "PatchesAppliedAnnotation \<noteq> PRCommentedAnnotation"
  "ConfigHashAnnotation \<noteq> PatchesAppliedAnnotation" "ConfigHashAnnotation \<noteq> InfraCreatedAnnotation"
  "ConfigHashAnnotation \<noteq> CredentialsPatchedAnnotation" "ConfigHashAnnotation \<noteq> PRCommentedAnnotation"
  "InfraCreatedAnnotation \<noteq> PatchesAppliedAnnotation" "InfraCreatedAnnotation \<noteq> ConfigHashAnnotation"
  "InfraCreatedAnnotation \<noteq> CredentialsPatchedAnnotation" "InfraCreatedAnnotation \<noteq> PRCommentedAnnotation"
  "CredentialsPatchedAnnotation \<noteq> PatchesAppliedAnnotation" "CredentialsPatchedAnnotation \<noteq> ConfigHashAnnotation"
  "CredentialsPatchedAnnotation \<noteq> InfraCreatedAnnotation" "CredentialsPatchedAnnotation \<noteq> PRCommentedAnnotation"
  "PRCommentedAnnotation \<noteq> PatchesAppliedAnnotation" "PRCommentedAnnotation \<noteq> ConfigHashAnnotation"
  "PRCommentedAnnotation \<noteq> InfraCreatedAnnotation" "PRCommentedAnnotation \<noteq> CredentialsPatchedAnnotation"
  by (simp_all add: PatchesAppliedAnnotation_def ConfigHashAnnotation_def InfraCreatedAnnotation_def
      CredentialsPatchedAnnotation_def PRCommentedAnnotation_def)

lemma annotation_annotate [simp]: "annotation (annotate k v ks) k' = (if k' = k then v else annotation ks k')"
  by (simp add: annotation_def annotate_def)

lemma annotate_sel [simp]:
  "ks_suspend (annotate k v ks) = ks_suspend ks" "pk_finalizers (annotate k v ks) = pk_finalizers ks"
  "pk_labels (annotate k v ks) = pk_labels ks" "pk_deleting (annotate k v ks) = pk_deleting ks"
  "pk_patches (annotate k v ks) = pk_patches ks" "ks_namespace (annotate k v ks) = ks_namespace ks"
  by (simp_all add: annotate_def)

lemma prepared_sel [simp]:
  "\<not> ks_suspend (prepared api ks app config cb)" "pk_finalizers (prepared api ks app config cb) = pk_finalizers ks"
  "pk_labels (prepared api ks app config cb) = pk_labels ks" "pk_deleting (prepared api ks app config cb) = pk_deleting ks"
  "pk_patches (prepared api ks app config cb) = buildAllPatches app (ks_pr ks) (ks_namespace ks) (hd_domain api) config cb None"
  "ks_namespace (prepared api ks app config cb) = ks_namespace ks"
  by (simp_all add: prepared_def Let_def)

lemma annotation_prepared [simp]:
  "annotation (prepared api ks app config cb) k =
     (if k = PatchesAppliedAnnotation then ''true''
      else if k = ConfigHashAnnotation then hashPreviewConfigSpec config else annotation ks k)"
proof -
  have frame: "annotation (ks\<lparr>pk_patches := ps\<rparr>) k = annotation ks k" "annotation (ks1\<lparr>ks_suspend := b\<rparr>) k = annotation ks1 k"
    for ps b and ks1 :: preview_ks by (simp_all add: annotation_def)
  show ?thesis by (auto simp: prepared_def Let_def hash_not_Nil frame)
qed

lemma unprepare_sel [simp]:
  "ks_suspend (unprepare ks)" "pk_finalizers (unprepare ks) = pk_finalizers ks" "pk_labels (unprepare ks) = pk_labels ks"
  "pk_deleting (unprepare ks) = pk_deleting ks" "pk_patches (unprepare ks) = pk_patches ks"
  "ks_namespace (unprepare ks) = ks_namespace ks"
  "annotation (unprepare ks) k =
     (if k = PatchesAppliedAnnotation \<or> k = CredentialsPatchedAnnotation then [] else annotation ks k)"
  by (simp_all add: unprepare_def annotation_def)

lemma with_credentials_sel [simp]:
  "ks_suspend (with_credentials api ks app config cb creds) = ks_suspend ks"
  "pk_finalizers (with_credentials api ks app config cb creds) = pk_finalizers ks"
  "pk_labels (with_credentials api ks app config cb creds) = pk_labels ks"
  "pk_deleting (with_credentials api ks app config cb creds) = pk_deleting ks"
  "pk_patches (with_credentials api ks app config cb creds) =
     buildAllPatches app (ks_pr ks) (ks_namespace ks) (hd_domain api) config cb (Some creds)"
  "ks_namespace (with_credentials api ks app config cb creds) = ks_namespace ks"
  "annotation (with_credentials api ks app config cb creds) k =
     (if k = CredentialsPatchedAnnotation then ''true'' else annotation ks k)"
  by (simp_all add: with_credentials_def annotation_def annotate_def)

lemma finalizers_sel [simp]:
  "annotation (ks\<lparr>pk_finalizers := fs\<rparr>) k = annotation ks k" "ks_app (ks\<lparr>pk_finalizers := fs\<rparr>) = ks_app ks"
  by (simp_all add: annotation_def ks_app_def Let_def)

lemma ks_app_cong: "pk_labels k = pk_labels ks \<Longrightarrow> ks_namespace k = ks_namespace ks \<Longrightarrow> ks_app k = ks_app ks"
  by (simp add: ks_app_def Let_def)

subsection \<open>Stages\<close>

datatype stage = Waiting | Unrendered | Rendered | Built | Complete

definition stage_of :: "preview_ks \<Rightarrow> stage" where
  "stage_of ks =
     (if ks_suspend ks then Waiting
      else if \<not> patched ks then Unrendered
      else if \<not> infra_created ks then Rendered
      else if \<not> credentials_patched ks then Built
      else Complete)"

text \<open>
  An update that succeeds stores what was sent, but for what the API server and the
  kustomize-controller own: the generation, which the server raises on every change of the spec, and
  the status.
\<close>

definition ks_stored_as :: "preview_ks \<Rightarrow> preview_ks \<Rightarrow> bool" where
  "ks_stored_as k s \<longleftrightarrow>
     (\<exists>g ob got cs. s = k\<lparr>ks_generation := g, ks_observed_generation := ob, ks_last_applied := got, ks_conditions := cs\<rparr>)"

definition ks_stored_as_sent :: "handler_call list \<Rightarrow> bool" where
  "ks_stored_as_sent xs \<longleftrightarrow> (\<forall>k s. UpdateKs k (Inr s) \<in> set xs \<longrightarrow> ks_stored_as k s)"

lemma ks_stored_as_refl [simp]: "ks_stored_as k k"
  unfolding ks_stored_as_def
  by (rule exI [of _ "ks_generation k"], rule exI [of _ "ks_observed_generation k"],
      rule exI [of _ "ks_last_applied k"], rule exI [of _ "ks_conditions k"]) simp

lemma ks_stored_as_generation [simp]: "ks_stored_as k (k\<lparr>ks_generation := g\<rparr>)"
  unfolding ks_stored_as_def
  by (rule exI [of _ g], rule exI [of _ "ks_observed_generation k"],
      rule exI [of _ "ks_last_applied k"], rule exI [of _ "ks_conditions k"]) simp

lemma ks_stored_as_sel:
  assumes "ks_stored_as k s"
  shows "ks_suspend s = ks_suspend k" "annotation s a = annotation k a" "pk_patches s = pk_patches k"
    "pk_finalizers s = pk_finalizers k" "pk_deleting s = pk_deleting k"
  using assms by (auto simp: ks_stored_as_def annotation_def)

lemma sent_write:
  assumes "run_in (KustomizationReconcile api ns name) w = (res, xs)" and "GetKs ns name (Inr ks) \<in> set xs"
    and "UpdateKs k r \<in> set xs"
  shows "env_write api ks (set xs) k"
  using env_pass_call [OF assms(1,2,3)] by (simp add: env_call.simps)

lemma version_annotation:
  assumes "version_of ks v E"
  shows "annotation v a = annotation ks a \<or> annotation v a = annotation (annotate PRCommentedAnnotation ''true'' ks) a"
  using assms unfolding version_of_def by (elim disjE exE conjE) (simp_all add: annotation_def)

lemma version_as_sent:
  assumes "ks_stored_as_sent xs" and "version_of ks v (set xs)"
  shows "ks_stored_as ks v \<or> ks_stored_as (annotate PRCommentedAnnotation ''true'' ks) v"
  using assms(2) unfolding version_of_def
proof (elim disjE exE conjE)
  fix stored
  assume "UpdateKs (annotate PRCommentedAnnotation ''true'' ks) (Inr stored) \<in> set xs"
    and v: "v = stored\<lparr>ks_annotations := ks_annotations (annotate PRCommentedAnnotation ''true'' ks)\<rparr>"
  with assms(1) have "ks_stored_as (annotate PRCommentedAnnotation ''true'' ks) stored"
    unfolding ks_stored_as_sent_def by blast
  then obtain g ob got cs where "stored = (annotate PRCommentedAnnotation ''true'' ks)
      \<lparr>ks_generation := g, ks_observed_generation := ob, ks_last_applied := got, ks_conditions := cs\<rparr>"
    unfolding ks_stored_as_def by blast
  then have "v = stored" by (simp add: v)
  with \<open>ks_stored_as (annotate PRCommentedAnnotation ''true'' ks) stored\<close> show ?thesis by simp
qed simp_all

subsection \<open>The machine of the stages\<close>

text \<open>The documented progression of a preview, with the way back to the start.\<close>

inductive stage_next :: "stage \<Rightarrow> stage \<Rightarrow> bool" where
  "to \<in> {Rendered, Built} \<Longrightarrow> stage_next Waiting to"
| "to \<in> {Built, Waiting} \<Longrightarrow> stage_next Rendered to"
| "to \<in> {Complete, Waiting} \<Longrightarrow> stage_next Built to"
| "stage_next Complete Waiting"

inductive_simps stage_next_simps: "stage_next a b"

definition env_inv :: "preview_ks \<Rightarrow> bool" where
  "env_inv ks \<longleftrightarrow>
     (ks_suspend ks \<longleftrightarrow> \<not> patched ks) \<and> (credentials_patched ks \<longrightarrow> patched ks \<and> infra_created ks)
     \<and> (patched ks \<longrightarrow> annotation ks ConfigHashAnnotation \<noteq> [])"

definition env_fresh :: "preview_ks \<Rightarrow> bool" where
  "env_fresh ks \<longleftrightarrow> ks_suspend ks \<and> \<not> patched ks \<and> \<not> infra_created ks \<and> \<not> credentials_patched ks"

lemmas stage_defs = stage_of_def patched_def infra_created_def credentials_patched_def

lemmas write_defs = env_write_def finalizer_write_def prepare_write_def render_write_def infra_write_def
  credential_write_def comment_write_def

lemma version_marks: "version_of ks v E \<Longrightarrow> annotation v InfraCreatedAnnotation = annotation ks InfraCreatedAnnotation"
  using version_annotation [of ks v E InfraCreatedAnnotation] by simp

lemma write_keeps_inv:
  assumes w: "env_write api ks (set xs) k" and i: "env_inv ks"
  shows "env_inv k \<and> (stage_of k = stage_of ks \<or> stage_next (stage_of ks) (stage_of k))"
proof -
  note defs = env_inv_def stage_defs stage_next_simps active_def complete_def
  from w show ?thesis
    unfolding env_write_def
  proof (elim disjE)
    assume "finalizer_write api ks (set xs) k"
    then show ?thesis using i by (auto simp: finalizer_write_def defs)
  next
    assume "prepare_write api ks (set xs) k"
    then show ?thesis using i by (auto simp: prepare_write_def defs hash_not_Nil)
  next
    assume "render_write api ks (set xs) k"
    then show ?thesis using i unfolding render_write_def by (elim conjE disjE exE) (auto simp: defs dest: version_marks)
  next
    assume "infra_write api ks (set xs) k"
    then show ?thesis using i unfolding infra_write_def by (elim conjE) (auto simp: defs)
  next
    assume "credential_write api ks (set xs) k"
    then show ?thesis using i unfolding credential_write_def by (elim conjE disjE exE) (auto simp: defs)
  next
    assume "comment_write api ks (set xs) k"
    then show ?thesis using i unfolding comment_write_def by (elim conjE) (auto simp: defs)
  qed
qed

text \<open>
  The Kustomizations a preview goes through: what the server stores of a pass's writes, and, by other
  writers, a deletion, the status the kustomize-controller reports, and labels, finalizers, a patch
  list and a source that the object's producer sets anew.
\<close>

inductive env_step :: "'w handler_api \<Rightarrow> preview_ks \<Rightarrow> preview_ks \<Rightarrow> bool" for api where
  pass: "run_in (KustomizationReconcile api ns name) w = (res, xs) \<Longrightarrow> ks_stored_as_sent xs \<Longrightarrow>
     GetKs ns name (Inr ks) \<in> set xs \<Longrightarrow> UpdateKs k (Inr s) \<in> set xs \<Longrightarrow> env_step api ks s"
| deleted: "env_step api ks (ks\<lparr>pk_deleting := True\<rparr>)"
| status: "env_step api ks (ks\<lparr>ks_generation := g, ks_observed_generation := ob, ks_last_applied := got, ks_conditions := cs\<rparr>)"
| produced: "env_step api ks (ks\<lparr>pk_labels := ls, pk_finalizers := fs, pk_patches := ps, pk_source := src\<rparr>)"

inductive env_reachable :: "'w handler_api \<Rightarrow> preview_ks \<Rightarrow> bool" for api where
  fresh: "env_fresh ks \<Longrightarrow> env_reachable api ks"
| step: "env_reachable api ks \<Longrightarrow> env_step api ks k \<Longrightarrow> env_reachable api k"

lemma frame_inv:
  assumes "ks_suspend k = ks_suspend ks" and "\<And>a. annotation k a = annotation ks a"
  shows "env_inv k = env_inv ks" and "stage_of k = stage_of ks"
  using assms by (simp_all add: env_inv_def stage_defs)

lemma env_step_inv:
  assumes "env_step api ks k" and "env_inv ks"
  shows "env_inv k \<and> (stage_of k = stage_of ks \<or> stage_next (stage_of ks) (stage_of k))"
  using assms
proof (induction rule: env_step.induct)
  case (pass ns name w res xs ks k s)
  have st: "ks_stored_as k s" using pass.hyps(2,4) unfolding ks_stored_as_sent_def by blast
  have "env_inv s = env_inv k" "stage_of s = stage_of k" by (rule frame_inv; simp add: ks_stored_as_sel [OF st])+
  then show ?case using write_keeps_inv [OF sent_write [OF pass.hyps(1,3,4)] pass.prems] by simp
next
  case (deleted ks)
  have f: "env_inv (ks\<lparr>pk_deleting := True\<rparr>) = env_inv ks" "stage_of (ks\<lparr>pk_deleting := True\<rparr>) = stage_of ks"
    by (rule frame_inv; simp add: annotation_def)+
  from deleted f show ?case by simp
next
  case (status ks cs got ob g)
  let ?k = "ks\<lparr>ks_generation := g, ks_observed_generation := ob, ks_last_applied := got, ks_conditions := cs\<rparr>"
  have f: "env_inv ?k = env_inv ks" "stage_of ?k = stage_of ks" by (rule frame_inv; simp add: annotation_def)+
  from status f show ?case by simp
next
  case (produced ks src ps fs ls)
  let ?k = "ks\<lparr>pk_labels := ls, pk_finalizers := fs, pk_patches := ps, pk_source := src\<rparr>"
  have f: "env_inv ?k = env_inv ks" "stage_of ?k = stage_of ks" by (rule frame_inv; simp add: annotation_def)+
  from produced f show ?case by simp
qed

lemma env_inv_reachable: "env_reachable api ks \<Longrightarrow> env_inv ks"
proof (induction rule: env_reachable.induct)
  case (fresh ks)
  then show ?case by (simp add: env_fresh_def env_inv_def)
qed (blast dest: env_step_inv)

lemma stage_never_unrendered: "env_inv ks \<Longrightarrow> stage_of ks \<noteq> Unrendered"
  by (auto simp: env_inv_def stage_of_def)

subsection \<open>The reconciler stops writing\<close>

text \<open>What the reconciler relies on of the finalizer helpers.\<close>

definition finalizer_laws :: "klib \<Rightarrow> bool" where
  "finalizer_laws lib \<longleftrightarrow>
     (\<forall>fs f. lib_contains_finalizer lib (lib_add_finalizer lib fs f) f
        \<and> \<not> lib_contains_finalizer lib (lib_remove_finalizer lib fs f) f)"

text \<open>The answers of a PreviewConfig that does not change; a read may also fail.\<close>

definition config_answer :: "preview_config \<Rightarrow> preview_config result \<Rightarrow> bool" where
  "config_answer config r \<longleftrightarrow>
     (case r of Inr c \<Rightarrow> c = config | Inl err \<Rightarrow> IsNotFound err \<longrightarrow> config = empty_config)"

inductive env_pass :: "'w handler_api \<Rightarrow> preview_config \<Rightarrow> preview_ks \<Rightarrow> preview_ks \<Rightarrow> bool" for api config where
  "run_in (KustomizationReconcile api ns name) w = (res, xs) \<Longrightarrow> ks_stored_as_sent xs \<Longrightarrow>
     (\<And>a b r. GetPreviewConfig a b r \<in> set xs \<Longrightarrow> config_answer config r) \<Longrightarrow>
     GetKs ns name (Inr ks) \<in> set xs \<Longrightarrow> UpdateKs k (Inr s) \<in> set xs \<Longrightarrow> env_pass api config ks s"

definition stale :: "preview_config \<Rightarrow> preview_ks \<Rightarrow> bool" where
  "stale config ks \<longleftrightarrow> annotation ks ConfigHashAnnotation \<noteq> hashPreviewConfigSpec config \<or> pk_patches ks = []"

definition stage_rank :: "preview_config \<Rightarrow> preview_ks \<Rightarrow> nat" where
  "stage_rank config ks =
     (case stage_of ks of
        Waiting \<Rightarrow> 3
      | Unrendered \<Rightarrow> 0
      | Rendered \<Rightarrow> 2 + (if stale config ks then 4 else 0)
      | Built \<Rightarrow> 1 + (if stale config ks then 4 else 0)
      | Complete \<Rightarrow> (if stale config ks then 4 else 0))"

definition env_rank :: "'w handler_api \<Rightarrow> preview_config \<Rightarrow> preview_ks \<Rightarrow> nat" where
  "env_rank api config ks =
     (if has_finalizer api ks = pk_deleting ks then 1 else 0)
     + (if annotation ks PRCommentedAnnotation = ''true'' then 0 else 1) + stage_rank config ks"

lemma env_rank_bound: "env_rank api config ks \<le> 8"
  by (simp add: env_rank_def stage_rank_def split: stage.split)

lemma rank_cong:
  assumes "ks_suspend k = ks_suspend ks" and "\<And>a. annotation k a = annotation ks a" and "pk_patches k = pk_patches ks"
  shows "stage_rank config k = stage_rank config ks"
  using assms by (simp add: stage_rank_def stale_def stage_of_def patched_def infra_created_def credentials_patched_def)

lemma config_of_answers:
  assumes "\<And>a b r. GetPreviewConfig a b r \<in> E \<Longrightarrow> config_answer config r" and "config_used ks c E"
  shows "c = config"
  using assms(2) assms(1) [of "ks_app ks" "ks_app ks"]
  unfolding config_used_def config_seen_def config_missing_def config_answer_def by fastforce

lemma write_lowers_rank:
  assumes w: "env_write api ks (set xs) k" and s: "ks_stored_as_sent xs" and l: "finalizer_laws (hd_lib api)"
    and c: "\<And>a b r. GetPreviewConfig a b r \<in> set xs \<Longrightarrow> config_answer config r"
  shows "env_rank api config k < env_rank api config ks"
proof -
  note defs = env_rank_def stage_rank_def stale_def stage_defs has_finalizer_def active_def complete_def
  from w show ?thesis
    unfolding env_write_def
  proof (elim disjE)
    assume "finalizer_write api ks (set xs) k"
    then obtain fs where k: "k = ks\<lparr>pk_finalizers := fs\<rparr>" and f: "has_finalizer api k = (\<not> has_finalizer api ks)"
        "has_finalizer api ks = pk_deleting ks"
      using l by (auto simp: finalizer_write_def finalizer_laws_def has_finalizer_def tearing_def)
    have "stage_rank config k = stage_rank config ks" by (rule rank_cong) (simp_all add: k)
    with f show ?thesis by (simp add: env_rank_def k)
  next
    assume "prepare_write api ks (set xs) k"
    then obtain c' cb where k: "k = prepared api ks (ks_app ks) c' cb" and u: "config_used ks c' (set xs)"
      and st: "standing api ks" "ks_suspend ks" unfolding prepare_write_def by blast
    have "c' = config" by (rule config_of_answers [OF c u])
    with k st show ?thesis by (simp add: defs)
  next
    assume "render_write api ks (set xs) k"
    then have a: "active api ks" "patched ks"
      and r: "(k = unprepare ks \<and> (\<exists>c. config_used ks c (set xs) \<and> annotation ks ConfigHashAnnotation \<noteq> hashPreviewConfigSpec c))
          \<or> complete api ks \<and> (\<exists>v. version_of ks v (set xs) \<and> pk_patches v = [] \<and> k = unprepare v)"
      unfolding render_write_def by iprover+
    from r show ?thesis
    proof (elim disjE conjE exE)
      fix c'
      assume "config_used ks c' (set xs)" "annotation ks ConfigHashAnnotation \<noteq> hashPreviewConfigSpec c'" "k = unprepare ks"
      with a show ?thesis using config_of_answers [OF c] by (auto simp: defs)
    next
      fix v
      assume "complete api ks" "pk_patches v = []" "k = unprepare v" and v: "version_of ks v (set xs)"
      with version_as_sent [OF s v] show ?thesis
        by (elim disjE) (simp_all add: defs ks_stored_as_sel)
    qed
  next
    assume "infra_write api ks (set xs) k"
    then have "active api ks" "patched ks" "\<not> infra_created ks" "k = annotate InfraCreatedAnnotation ''true'' ks"
      by (simp_all add: infra_write_def)
    then show ?thesis by (simp add: defs)
  next
    assume "credential_write api ks (set xs) k"
    then have a: "active api ks" "patched ks" "infra_created ks" "\<not> credentials_patched ks"
      and k: "k = annotate CredentialsPatchedAnnotation ''true'' ks
        \<or> (\<exists>c cb creds. k = with_credentials api ks (ks_app ks) c cb creds)"
      unfolding credential_write_def by blast+
    from k a show ?thesis by (elim disjE exE) (simp_all add: defs)
  next
    assume "comment_write api ks (set xs) k"
    then have "complete api ks" "annotation ks PRCommentedAnnotation \<noteq> ''true''"
        "k = annotate PRCommentedAnnotation ''true'' ks" by (simp_all add: comment_write_def)
    then show ?thesis by (simp add: defs)
  qed
qed

lemma env_rank_stored: "ks_stored_as k s \<Longrightarrow> env_rank api config s = env_rank api config k"
  using rank_cong [of s k config] by (simp add: env_rank_def has_finalizer_def ks_stored_as_sel)

lemma env_pass_lowers:
  assumes "env_pass api config ks s" and l: "finalizer_laws (hd_lib api)"
  shows "env_rank api config s < env_rank api config ks"
  using assms(1)
proof (cases rule: env_pass.cases)
  case (1 ns name w res xs k)
  have st: "ks_stored_as k s" using 1(2,5) unfolding ks_stored_as_sent_def by blast
  show ?thesis
    unfolding env_rank_stored [OF st] by (rule write_lowers_rank [OF sent_write [OF 1(1,4,5)] 1(2) l 1(3)])
qed

lemma env_passes_lower:
  assumes "(env_pass api config ^^ n) ks k" and l: "finalizer_laws (hd_lib api)"
  shows "n + env_rank api config k \<le> env_rank api config ks"
  using assms(1)
proof (induction n arbitrary: k)
  case (Suc n)
  then obtain m where "(env_pass api config ^^ n) ks m" and "env_pass api config m k" by auto
  with Suc.IH env_pass_lowers [OF _ l] show ?case by fastforce
qed simp

subsection \<open>A pass is never stuck\<close>

text \<open>
  What a pass over an unfinished preview comes to: an error, which the controller retries; a write
  that changes the stage; or the wait for the database credentials.
\<close>

definition moved :: "preview_ks \<Rightarrow> reconcile_result \<Rightarrow> handler_call list \<Rightarrow> bool" where
  "moved ks res xs \<longleftrightarrow> snd res \<noteq> None
     \<or> (\<exists>k s. UpdateKs k (Inr s) \<in> set xs \<and> stage_of k \<noteq> stage_of ks)
     \<or> stage_of ks = Built \<and> res = (res_requeue_after (15 * second), None)"

definition sent :: "preview_ks \<Rightarrow> handler_call list \<Rightarrow> bool" where
  "sent k xs \<longleftrightarrow> (\<exists>s. UpdateKs k (Inr s) \<in> set xs)"

lemma sent_moved: "sent k xs \<Longrightarrow> stage_of k \<noteq> stage_of ks \<Longrightarrow> moved ks res xs"
  unfolding moved_def sent_def by blast

lemma sent_append [simp]: "sent k (xs @ ys) \<longleftrightarrow> sent k xs \<or> sent k ys"
  by (auto simp: sent_def)

lemma error_moved [simp]: "moved ks (fail_after d err) xs"
  by (simp add: moved_def fail_after_def)

lemma keeps_appends: "keeps_env api ks {} m R \<Longrightarrow> ensures m (\<lambda>_ _. True)"
  unfolding env.keeps_def by (erule ens_weaken) simp

lemma send_ks_sent: "ensures (send_ks api k) (\<lambda>r xs. r = None \<longrightarrow> sent k xs)"
  unfolding send_ks_def update_ks_def
  by (intro ens_bind ens_operate ens_return) (auto simp: sent_def split: sum.splits)

lemma render_again_moved:
  assumes "stage_of ks \<noteq> Waiting"
  shows "ensures (render_again api ks) (\<lambda>res xs. moved ks res xs)"
proof -
  have "stage_of (unprepare ks) \<noteq> stage_of ks" using assms by (simp add: stage_of_def)
  then show ?thesis
    unfolding render_again_def
    by (intro ens_bindI [OF send_ks_sent] ens_return) (auto intro: sent_moved split: option.splits)
qed

lemma PrepareKustomization_sent:
  "ensures (PrepareKustomization api ks (ks_app ks))
     (\<lambda>r xs. r = None \<longrightarrow> (\<exists>config cb. sent (prepared api ks (ks_app ks) config cb) xs))"
  unfolding PrepareKustomization_def
  apply (rule ens_bindI [OF keeps_appends [OF fetchPreviewConfig_keeps]], rule ens_sum)
   apply (rule ens_return, simp)
  apply (rule ens_bindI [OF keeps_appends [OF callback_keeps]])
  apply (rule ens_bindI [OF send_ks_sent], rule ens_return, auto)
  done

lemma prepare_pass_moved:
  assumes "stage_of ks = Waiting"
  shows "ensures (prepare_pass api ks) (\<lambda>res xs. moved ks res xs)"
proof -
  have "stage_of (prepared api ks app config cb) \<noteq> stage_of ks" for app config cb
    using assms by (simp add: stage_of_def)
  then show ?thesis
    unfolding prepare_pass_def
    by (intro ens_bindI [OF PrepareKustomization_sent] ens_return) (auto intro: sent_moved split: option.splits)
qed

lemma infra_pass_moved:
  assumes a: "active api ks" and s: "stage_of ks = Rendered"
  shows "ensures (infra_pass api ks) (\<lambda>res xs. moved ks res xs)"
proof -
  have st: "patched ks" "\<not> infra_created ks" "\<not> ks_suspend ks" using s by (auto simp: stage_of_def split: if_splits)
  have n: "stage_of (annotate InfraCreatedAnnotation ''true'' ks) \<noteq> stage_of ks"
    using s st by (simp add: stage_defs)
  show ?thesis
    unfolding infra_pass_def
    apply (rule ens_bindI [OF keeps_appends [OF CreateInfrastructure_keeps [OF active_building [OF a st(1,2)]]]])
    apply (rule ens_option, rule ens_bindI [OF send_ks_sent], rule ens_return)
     apply (use n in \<open>auto intro: sent_moved split: option.splits\<close>)[1]
    apply (rule ens_return, simp)
    done
qed

definition credentials_sent :: "handler_call list \<Rightarrow> bool" where
  "credentials_sent xs \<longleftrightarrow>
     (\<exists>k. sent k xs \<and> credentials_patched k \<and> patched k \<and> infra_created k \<and> \<not> ks_suspend k)"

lemma credentials_sent_append [simp]:
  "credentials_sent (xs @ ys) \<longleftrightarrow> credentials_sent xs \<or> credentials_sent ys"
  "credentials_sent (OnCluster c # ys) \<longleftrightarrow> credentials_sent ys"
  unfolding credentials_sent_def by (auto simp: sent_def)

lemma UpdateDBCredentialPatches_sent:
  assumes a: "active api ks" "patched ks" "infra_created ks" "\<not> credentials_patched ks"
  shows "ensures (UpdateDBCredentialPatches api ks (ks_app ks))
     (\<lambda>r xs. r = None \<longrightarrow> credentials_sent xs)"
proof -
  have v: "version_of ks ks {}" by (simp add: version_of_def)
  have mark: "credentials_sent xs" if "sent (annotate CredentialsPatchedAnnotation ''true'' ks) xs" for xs
    unfolding credentials_sent_def using a that by (intro exI conjI) (assumption, auto simp: stage_defs active_def)
  have full: "credentials_sent xs" if "sent (with_credentials api ks (ks_app ks) config cb creds) xs" for config cb creds xs
    unfolding credentials_sent_def using a that by (intro exI conjI) (assumption, auto simp: stage_defs active_def)
  show ?thesis
    unfolding UpdateDBCredentialPatches_def setAnnotation_def get_secret_def on_cluster_operate
    apply (rule ens_bindI [OF keeps_appends [OF fetchPreviewConfig_keeps]])
    apply (intro ens_sum ens_if ens_return)
        apply (rule ens_weaken [OF send_ks_sent], use mark in auto)[1]
       apply simp
      apply (rule ens_weaken [OF send_ks_sent], use mark in auto)[1]
    apply (rule ens_bind, rule ens_operate, rule ens_sum, rule ens_return, simp)
    apply (rule ens_bindI [OF keeps_appends [OF callback_keeps]])
    apply (rule ens_bindI [OF send_ks_sent], rule ens_option)
     apply (rule ens_bindI [OF keeps_appends [OF ensureHelmReleaseValues_keeps [OF a(1) v]]], rule ens_return)
     apply (use full in auto)[1]
    apply (rule ens_return, simp)
    done
qed

lemma credentials_pass_moved:
  assumes a: "active api ks" and s: "stage_of ks = Built"
  shows "ensures (credentials_pass api ks) (\<lambda>res xs. moved ks res xs)"
proof -
  have st: "patched ks" "infra_created ks" "\<not> credentials_patched ks" using s by (auto simp: stage_of_def split: if_splits)
  have n: "stage_of k \<noteq> stage_of ks"
    if "credentials_patched k" "patched k" "infra_created k" "\<not> ks_suspend k" for k
    using that s by (simp add: stage_of_def)
  show ?thesis
    unfolding credentials_pass_def
    by (rule ens_bindI [OF UpdateDBCredentialPatches_sent [OF a st]], rule ens_return)
       (use s n in \<open>auto simp: moved_def sent_def credentials_sent_def split: option.splits\<close>)
qed

lemma moved_append: "moved ks res ys \<Longrightarrow> moved ks res (xs @ ys)"
  unfolding moved_def by auto

lemma preview_pass_moved:
  assumes st: "standing api ks" and s: "stage_of ks \<in> {Waiting, Rendered, Built}"
  shows "ensures (preview_pass api ks) (\<lambda>res xs. moved ks res xs)"
proof (cases "ks_suspend ks")
  case True
  have "preview_pass api ks = prepare_pass api ks"
    using st True by (simp add: preview_pass_def standing_def labelled_def)
  then show ?thesis using True by (simp add: prepare_pass_moved stage_of_def)
next
  case False
  then have p: "patched ks" and a: "active api ks" using s st by (auto simp: stage_of_def active_def split: if_splits)
  have e: "preview_pass api ks = patched_pass api ks"
    using st False p by (simp add: preview_pass_def standing_def labelled_def patched_def)
  have i: "annotation ks InfraCreatedAnnotation = ''true'' \<longleftrightarrow> stage_of ks \<noteq> Rendered"
    and c: "annotation ks CredentialsPatchedAnnotation \<noteq> ''true'' \<or> stage_of ks = Rendered"
    using s False p by (auto simp: stage_defs split: if_splits)
  have w: "stage_of ks \<noteq> Waiting" using False by (simp add: stage_of_def)
  show ?thesis
    unfolding e patched_pass_def
    by (intro ens_bindI [OF keeps_appends [OF PreviewConfigHash_keeps]] ens_if
          ens_weaken [OF render_again_moved [OF w]] ens_weaken [OF infra_pass_moved [OF a]]
          ens_weaken [OF credentials_pass_moved [OF a]])
       (use s i c w in \<open>auto intro: moved_append\<close>)
qed

lemma pass_moved:
  assumes "run_in (KustomizationReconcile api ns name) w = (res, xs)" and "GetKs ns name (Inr ks) \<in> set xs"
    and "standing api ks" and "stage_of ks \<in> {Waiting, Rendered, Built}"
  shows "moved ks res xs"
proof -
  have "ensures (KustomizationReconcile api ns name)
      (\<lambda>res xs. \<forall>k. standing api k \<and> stage_of k \<in> {Waiting, Rendered, Built} \<longrightarrow> hd xs = GetKs ns name (Inr k) \<longrightarrow> moved k res xs)"
    unfolding KustomizationReconcile_def read_ks_def
  proof (rule ens_bind, rule ens_operate, rule ens_sum)
    fix got k
    assume g: "got = (Inr k :: preview_ks result)"
    have "ensures (preview_pass api k) (\<lambda>res ys. standing api k \<and> stage_of k \<in> {Waiting, Rendered, Built} \<longrightarrow> moved k res ys)"
    proof (cases "standing api k \<and> stage_of k \<in> {Waiting, Rendered, Built}")
      case True
      then show ?thesis by (intro ens_weaken [OF preview_pass_moved]) auto
    next
      case False
      then show ?thesis by (intro ens_weaken [OF keeps_appends [OF preview_pass_keeps]]) (use False in blast)
    qed
    then show "ensures (preview_pass api k) (\<lambda>res ys. \<forall>k. standing api k \<and> stage_of k \<in> {Waiting, Rendered, Built} \<longrightarrow>
        hd ([GetKs ns name got] @ ys) = GetKs ns name (Inr k) \<longrightarrow> moved k res ([GetKs ns name got] @ ys))"
      by (rule ens_weaken) (auto simp: g simp del: append_Cons append_Nil intro: moved_append)
  qed (auto intro!: ens_return)
  from ens_run_in [OF this assms(1)] env_head [OF assms(1,2)] assms(3,4) show ?thesis by auto
qed

end
