(* ===== verification/Environment_Demo.thy ===== *)
theory Environment_Demo
  imports Environment_State Cluster_Demo
begin

section \<open>A small preview to evaluate the reconciler on\<close>

text \<open>
  The cluster of \<open>Cluster_Demo\<close> with a Kustomization, whose generation goes up with every change of
  its spec, and a PreviewConfig, a forge that takes every comment, and accessors of unstructured
  objects that follow paths of any length.
\<close>

record env_world = cluster_world +
  ew_ks :: "preview_ks result"
  ew_config :: "preview_config result"

fun json_put :: "(string \<times> json) list \<Rightarrow> string list \<Rightarrow> json \<Rightarrow> (string \<times> json) list option" where
  "json_put fs [] v = None"
| "json_put fs [k] v = Some ((k, v) # filter (\<lambda>e. fst e \<noteq> k) fs)"
| "json_put fs (k # ks) v =
     (case map_of fs k of
        Some (JObj sub) \<Rightarrow>
          (case json_put sub ks v of
             Some sub' \<Rightarrow> Some ((k, JObj sub') # filter (\<lambda>e. fst e \<noteq> k) fs)
           | None \<Rightarrow> None)
      | Some _ \<Rightarrow> None
      | None \<Rightarrow>
          (case json_put [] ks v of
             Some sub' \<Rightarrow> Some ((k, JObj sub') # fs)
           | None \<Rightarrow> None))"

definition json_set :: "json \<Rightarrow> json \<Rightarrow> string list \<Rightarrow> json result" where
  "json_set j v p =
     (case j of
        JObj fs \<Rightarrow> (case json_put fs p v of Some fs' \<Rightarrow> Inr (JObj fs') | None \<Rightarrow> Inl (Plain ''value cannot be set''))
      | _ \<Rightarrow> Inl (Plain ''value cannot be set''))"

definition klib_env :: klib where
  "klib_env = klib_demo\<lparr>lib_set_nested_map := \<lambda>j fs p. json_set j (JObj fs) p\<rparr>"

lemma klib_env_sel [run_simps]:
  "lib_nested_map klib_env j p = (case json_path j p of Some (JObj fs) \<Rightarrow> Some fs | _ \<Rightarrow> None)"
  "lib_nested_slice klib_env j p = (case json_path j p of Some (JArr xs) \<Rightarrow> Some xs | _ \<Rightarrow> None)"
  "lib_nested_string klib_env j p = (case json_path j p of Some (JStr s) \<Rightarrow> s | _ \<Rightarrow> [])"
  "lib_set_nested_map klib_env j new p = json_set j (JObj new) p"
  "lib_contains_finalizer klib_env fs f = (f \<in> set fs)"
  "lib_add_finalizer klib_env fs f = (if f \<in> set fs then fs else fs @ [f])"
  "lib_remove_finalizer klib_env fs f = filter (\<lambda>g. g \<noteq> f) fs"
  by (simp_all add: klib_env_def klib_demo_def)

definition env_cluster :: "env_world cluster_api" where
  "env_cluster = cl_any\<lparr>cl_lib := klib_env\<rparr>"

lemma env_cluster_sel [run_simps]:
  "cl_lib env_cluster = klib_env" "cl_uget env_cluster = cl_uget cl_any" "cl_ucreate env_cluster = cl_ucreate cl_any"
  "cl_uupdate env_cluster = cl_uupdate cl_any" "cl_udelete env_cluster = cl_udelete cl_any"
  "cl_wall env_cluster = cl_wall cl_any" "cl_wait env_cluster = cl_wait cl_any" "cl_get_ns env_cluster = cl_get_ns cl_any"
  "cl_get_secret env_cluster = cl_get_secret cl_any" "cl_get_job env_cluster = cl_get_job cl_any"
  by (simp_all add: env_cluster_def)

definition accepted :: "preview_ks result \<Rightarrow> preview_ks \<Rightarrow> preview_ks" where
  "accepted old k =
     (case old of
        Inl _ \<Rightarrow> k
      | Inr o1 \<Rightarrow> if ks_suspend o1 = ks_suspend k \<and> pk_patches o1 = pk_patches k then k
                 else k\<lparr>ks_generation := ks_generation o1 + 1\<rparr>)"

definition env_demo :: "env_world handler_api" where
  "env_demo =
     \<lparr>hd_cluster = env_cluster,
      hd_get_ks = (\<lambda>ns n w. (ew_ks w, w)),
      hd_update_ks = (\<lambda>k w. (Inr (accepted (ew_ks w) k), w\<lparr>ew_ks := Inr (accepted (ew_ks w) k)\<rparr>)),
      hd_get_config = (\<lambda>ns n w. (ew_config w, w)),
      hd_create_typed = (\<lambda>obj w. (Inr obj, w)),
      hd_get_typed = (\<lambda>k ns n w. (Inl cl_missing, w)),
      hd_update_typed = (\<lambda>obj v w. (Inr obj, w)),
      hd_get_deployment = (\<lambda>ns n w. (Inl cl_missing, w)),
      hd_create_job = (\<lambda>j w. (Inr j, w)),
      hd_random = (\<lambda>n w. (Some (replicate n 7), w)),
      hd_read_source = (\<lambda>ns n w. (Inl cl_missing, w)),
      hd_http = (\<lambda>q w. (Inr \<lparr>rsp_status = (if rq_method q = ''POST'' then 201 else 200), rsp_body = ''[]''\<rparr>, w)),
      hd_string_slice = (\<lambda>j p. []),
      hd_set_nested_slice = (\<lambda>j xs p. json_set j (JArr xs) p),
      hd_quantity = (\<lambda>q. True),
      hd_domain = ''example.org'',
      hd_repo = ''me/app'',
      hd_provider = [],
      hd_api_base = []\<rparr>"

lemma env_demo_sel [run_simps]:
  "hd_cluster env_demo = env_cluster" "hd_get_ks env_demo ns n w = (ew_ks w, w)"
  "hd_update_ks env_demo k w = (Inr (accepted (ew_ks w) k), w\<lparr>ew_ks := Inr (accepted (ew_ks w) k)\<rparr>)"
  "hd_get_config env_demo ns n w = (ew_config w, w)"
  "hd_create_typed env_demo obj w = (Inr obj, w)" "hd_get_typed env_demo kd ns n w = (Inl cl_missing, w)"
  "hd_update_typed env_demo obj v w = (Inr obj, w)" "hd_get_deployment env_demo ns n w = (Inl cl_missing, w)"
  "hd_create_job env_demo j w = (Inr j, w)" "hd_random env_demo m w = (Some (replicate m 7), w)"
  "hd_read_source env_demo ns n w = (Inl cl_missing, w)"
  "hd_http env_demo q w = (Inr \<lparr>rsp_status = (if rq_method q = ''POST'' then 201 else 200), rsp_body = ''[]''\<rparr>, w)"
  "hd_string_slice env_demo jj p = []" "hd_set_nested_slice env_demo jj xs p = json_set jj (JArr xs) p"
  "hd_domain env_demo = ''example.org''" "hd_repo env_demo = ''me/app''" "hd_provider env_demo = []"
  "hd_api_base env_demo = []"
  by (simp_all add: env_demo_def)

subsection \<open>The preview of an application\<close>

definition pks_demo :: preview_ks where
  "pks_demo = \<lparr>ks_name = ''app'', ks_namespace = ''preview-pr-7'', ks_annotations = [], ks_generation = 1,
     ks_suspend = True, ks_observed_generation = 0, ks_last_applied = [], ks_conditions = [],
     pk_labels = [(''preview-environment'', ''true''), (''app.kubernetes.io/name'', ''app'')],
     pk_deleting = False, pk_finalizers = [''preview.homelab.io/cleanup''], pk_patches = [],
     pk_source = \<lparr>src_kind = ''GitRepository'', src_name = ''app'', src_namespace = []\<rparr>\<rparr>"

definition cfg_demo :: preview_config where
  "cfg_demo = empty_config\<lparr>cfg_redis := Some True\<rparr>"

definition marks :: "string list \<Rightarrow> smap" where
  "marks ks = map (\<lambda>k. (k, ''true'')) ks @ [(ConfigHashAnnotation, hashPreviewConfigSpec cfg_demo)]"

text \<open>With its patches applied and these annotations set.\<close>

definition pks_at :: "string list \<Rightarrow> preview_ks" where
  "pks_at ks = pks_demo\<lparr>ks_suspend := False, ks_annotations := marks (PatchesAppliedAnnotation # ks),
     pk_patches := generateStripPatches\<rparr>"

definition pks_deleting :: preview_ks where
  "pks_deleting = pks_demo\<lparr>pk_deleting := True\<rparr>"

definition ns_env :: "namespace" where
  "ns_env = \<lparr>ns_name = ''app'', ns_deleting = False, ns_labels = [],
     ns_annotations = [(''postgres.cnpg.io/cluster-name'', ''pg'')]\<rparr>"

definition ew_demo :: "preview_ks \<Rightarrow> namespace result \<Rightarrow> env_world" where
  "ew_demo ks ns = \<lparr>cw_objs = [src_demo], cw_mc = Inl cl_missing, cw_ns = ns, cw_endpoints = Inl cl_missing,
     cw_secret = Inl cl_missing, cw_job = Inl cl_missing, cw_pods = [], cw_report = Inr 7, cw_time = 13 * hour,
     ew_ks = Inr ks, ew_config = Inr cfg_demo\<rparr>"

lemma ew_demo_sel [run_simps]:
  "cw_objs (ew_demo ks ns) = [src_demo]" "cw_ns (ew_demo ks ns) = ns" "cw_secret (ew_demo ks ns) = Inl cl_missing"
  "ew_ks (ew_demo ks ns) = Inr ks" "ew_config (ew_demo ks ns) = Inr cfg_demo"
  by (simp_all add: ew_demo_def)

lemma cfg_demo_sel [run_simps]:
  "cfg_redis cfg_demo = Some True" "cfg_storage cfg_demo = None" "cfg_config_volume cfg_demo = None"
  "cfg_helm_values cfg_demo = None" "cfg_env_mapping cfg_demo = None" "cfg_deployment_type cfg_demo = DeploymentTypeEmpty"
  by (simp_all add: cfg_demo_def empty_config_def)

lemma pks_demo_sel [run_simps]:
  "ks_namespace pks_demo = ''preview-pr-7''" "ks_suspend pks_demo" "\<not> pk_deleting pks_demo"
  "pk_finalizers pks_demo = [PreviewFinalizer]" "sget (pk_labels pks_demo) PreviewEnvironmentLabel = ''true''"
  "ks_app pks_demo = ''app''" "annotation pks_demo k = []" "has_finalizer env_demo pks_demo"
  by (simp_all add: pks_demo_def PreviewFinalizer_def PreviewEnvironmentLabel_def sget_def ks_app_def AppNameLabel_def
      annotation_def has_finalizer_def run_simps)

lemma pks_at_sel [run_simps]:
  "ks_namespace (pks_at ks) = ''preview-pr-7''" "\<not> ks_suspend (pks_at ks)" "\<not> pk_deleting (pks_at ks)"
  "pk_finalizers (pks_at ks) = [PreviewFinalizer]" "sget (pk_labels (pks_at ks)) PreviewEnvironmentLabel = ''true''"
  "ks_app (pks_at ks) = ''app''" "has_finalizer env_demo (pks_at ks)" "pk_patches (pks_at ks) = generateStripPatches"
  "annotation (pks_at ks) k = sget (marks (PatchesAppliedAnnotation # ks)) k"
  by (simp_all add: pks_at_def pks_demo_def PreviewFinalizer_def PreviewEnvironmentLabel_def sget_def ks_app_def AppNameLabel_def
      annotation_def has_finalizer_def run_simps)

lemma pks_deleting_sel [run_simps]:
  "ks_namespace pks_deleting = ''preview-pr-7''" "pk_deleting pks_deleting"
  "pk_finalizers pks_deleting = [PreviewFinalizer]" "sget (pk_labels pks_deleting) PreviewEnvironmentLabel = ''true''"
  "ks_app pks_deleting = ''app''" "has_finalizer env_demo pks_deleting"
  by (simp_all add: pks_deleting_def pks_demo_def PreviewFinalizer_def PreviewEnvironmentLabel_def sget_def ks_app_def
      AppNameLabel_def has_finalizer_def run_simps)

lemma marks_get [run_simps]:
  "sget (marks []) k = (if k = ConfigHashAnnotation then hashPreviewConfigSpec cfg_demo else [])"
  "sget (marks (a # ks)) k = (if k = a then ''true'' else sget (marks ks) k)"
  by (simp_all add: marks_def sget_def)

lemma ks_pr_demo [run_simps]: "ks_namespace ks = ''preview-pr-7'' \<Longrightarrow> ks_pr ks = ''7''"
  by (simp add: ks_pr_def trim_prefix_def has_prefix_def)



subsection \<open>Evaluating a pass\<close>

lemmas pass_defs = KustomizationReconcile_def read_ks_def preview_pass_def prepare_pass_def patched_pass_def
  PrepareKustomization_def send_ks_def update_ks_def fetchPreviewConfig_def read_config_def PreviewConfigHash_def
  config_changed_def discoverOIDCCallbackPath_def get_object_def get_namespace_def delete_object_def on_cluster_operate

lemmas infra_defs = infra_pass_def CreateInfrastructure_def setup_steps_def step_ok_def when_ok_def storage_enabled_def
  setupOIDC_def setupDatabase_def setupRedis_def set_spec_def json_set_def createOrUpdate_def

lemma new_uobj_env [run_simps]: "u_gvk (new_uobj k ns n) = k" "u_name (new_uobj k ns n) = n" "u_namespace (new_uobj k ns n) = ns"
  "u_object (new_uobj k ns n) = JObj []"
  by (simp_all add: new_uobj_def)

lemma env_gvks [run_simps]: "OIDCClient \<noteq> CnpgCluster" "CnpgCluster \<noteq> OIDCClient" "RedisKind \<noteq> CnpgCluster" "CnpgCluster \<noteq> RedisKind"
  by (simp_all add: OIDCClient_def CnpgCluster_def RedisKind_def)

lemma env_missing [run_simps]: "IsNotFound cl_missing" "\<not> IsNotFound cl_exists" 
  by (simp_all add: IsNotFound_def cl_missing_def cl_exists_def)

abbreviation env_run :: "preview_ks \<Rightarrow> namespace result \<Rightarrow> reconcile_result \<times> handler_call list" where
  "env_run ks ns \<equiv> run_in (KustomizationReconcile env_demo ''preview-pr-7'' ''app'') (ew_demo ks ns)"

definition redis_demo :: uobj where
  "redis_demo = (new_uobj RedisKind ''preview-pr-7'' ''redis-preview'')\<lparr>u_object := JObj [(''spec'', JObj redis_spec)]\<rparr>"

lemma demo_redis: "OnCluster (UCreate redis_demo (Inr redis_demo)) \<in> set (snd (env_run (pks_at []) (Inl cl_missing)))"
  by (simp add: pass_defs infra_defs run_simps redis_demo_def)

lemma ns_env_sel [run_simps]: "sget (ns_annotations ns_env) ''postgres.cnpg.io/cluster-name'' = ''pg''"
    "cluster_namespace ns_env = ''postgres''"
  by (simp_all add: ns_env_def sget_def cluster_namespace_def)

definition released_demo :: preview_ks where
  "released_demo = pks_deleting\<lparr>pk_finalizers := []\<rparr>"

lemma demo_delete: "UpdateKs released_demo (Inr released_demo) \<in> set (snd (env_run pks_deleting (Inr ns_env)))"
  by (simp add: pass_defs run_simps delete_pass_def TeardownSnapshots_def or_else_def deleteByGVK_def ignore_not_found_def
      released_demo_def accepted_def)

lemma clone_env_sel [run_simps]:
  "cc_source (preview_clone a b d e) = a" "cc_source_ns (preview_clone a b d e) = b"
  "\<not> warm (preview_clone a b d e)" "source_name (preview_clone a b d e) = ''postgres-preview-pr-'' @ e"
  by (simp_all add: preview_clone_def warm_def source_name_def)

lemma src_object [run_simps]:
  "u_object src_demo = JObj [(''spec'', JObj [(''instances'', JInt 2), (''imageName'', JStr ''pg:16'')]),
     (''status'', JObj [(''readyInstances'', JInt 2), (''currentPrimary'', JStr ''pg-1''),
        (''phase'', JStr ''Cluster in healthy state'')])]"
  by (simp add: src_demo_def status_obj_def)

definition snap_demo :: uobj where
  "snap_demo = (newVolumeSnapshot ''postgres'' ''postgres-preview-pr-7'' (cc_labels (preview_clone ''pg'' ''postgres'' ''preview-pr-7'' ''7'')))
     \<lparr>u_object := JObj [(''spec'', JObj [(''volumeSnapshotClassName'', JStr ''ceph-block-snapshot''),
        (''source'', JObj [(''persistentVolumeClaimName'', JStr ''pg-1'')])])]\<rparr>"

lemma class_demo [run_simps]: "cc_class (with_class (preview_clone a b d e)) = ''ceph-block-snapshot''"
  by (simp add: with_class_def preview_clone_def)

lemma snapshot_env_sel [run_simps]: "u_object (newVolumeSnapshot ns n l) = JObj []"
  "u_gvk (newVolumeSnapshot ns n l) = VolumeSnapshot" "u_namespace (newVolumeSnapshot ns n l) = ns"
  by (simp_all add: newVolumeSnapshot_def)

lemma demo_clone: "OnCluster (UCreate snap_demo (Inr snap_demo)) \<in> set (snd (env_run (pks_at []) (Inr ns_env)))"
  by (simp add: pass_defs infra_defs run_simps cloneCNPGFromSnapshot_def Let_def on_cluster_def snap_demo_def
    acquireSourceSnapshot_def reuse_warm_def take_snapshot_def raw_snapshot_def
    waitForSnapshotReady_def wait_for_def snapshot_tick_def)


text \<open>The first two passes over a fresh preview.\<close>

definition prep_sent :: preview_ks where
  "prep_sent = prepared env_demo pks_demo ''app'' cfg_demo default_callback"

definition prep_demo :: preview_ks where
  "prep_demo = prep_sent\<lparr>ks_generation := 2\<rparr>"

definition built_demo :: preview_ks where
  "built_demo = annotate InfraCreatedAnnotation ''true'' prep_demo"

definition complete_demo :: preview_ks where
  "complete_demo = annotate CredentialsPatchedAnnotation ''true'' built_demo"

lemma same_owner:
  assumes "pk_labels k = pk_labels pks_demo" and "ks_namespace k = ks_namespace pks_demo"
    and "pk_finalizers k = pk_finalizers pks_demo"
  shows "ks_app k = ''app''" and "has_finalizer env_demo k" and "sget (pk_labels k) PreviewEnvironmentLabel = ''true''"
    and "ks_namespace k = ''preview-pr-7''"
  using assms pks_demo_sel ks_app_cong [OF assms(1,2)] by (simp_all add: has_finalizer_def)

lemma prep_demo_frame:
  "pk_labels prep_demo = pk_labels pks_demo" "ks_namespace prep_demo = ks_namespace pks_demo"
  "pk_finalizers prep_demo = pk_finalizers pks_demo" "pk_deleting prep_demo = pk_deleting pks_demo"
  by (simp_all add: prep_demo_def prep_sent_def)

lemmas prep_demo_owner [run_simps] = same_owner [OF prep_demo_frame(1-3)]

lemma annotation_generation: "annotation (ks\<lparr>ks_generation := g\<rparr>) k = annotation ks k"
  by (simp add: annotation_def)

lemma prep_demo_sel [run_simps]:
  "\<not> pk_deleting prep_demo" "\<not> ks_suspend prep_demo"
  "annotation prep_demo k = (if k = PatchesAppliedAnnotation then ''true''
     else if k = ConfigHashAnnotation then hashPreviewConfigSpec cfg_demo else [])"
  by (simp_all add: prep_demo_def prep_sent_def pks_demo_sel annotation_generation)

lemma prep_accepted [run_simps]: "accepted (Inr pks_demo) prep_sent = prep_demo"
  by (simp add: accepted_def prep_demo_def prep_sent_def pks_demo_sel) (simp add: pks_demo_def)

lemma prep_sent_sel:
  "\<not> ks_suspend prep_sent" "annotation prep_sent k = annotation prep_demo k" "pk_patches prep_sent = pk_patches prep_demo"
  by (simp_all add: prep_demo_def annotation_generation) (simp add: prep_sent_def)

lemma built_demo_frame:
  "pk_labels built_demo = pk_labels pks_demo" "ks_namespace built_demo = ks_namespace pks_demo"
  "pk_finalizers built_demo = pk_finalizers pks_demo" "pk_deleting built_demo = pk_deleting pks_demo"
  by (simp_all add: built_demo_def prep_demo_frame)

lemmas built_demo_owner [run_simps] = same_owner [OF built_demo_frame(1-3)]

lemma built_demo_sel [run_simps]:
  "\<not> pk_deleting built_demo" "\<not> ks_suspend built_demo"
  "annotation built_demo k = (if k = InfraCreatedAnnotation then ''true'' else annotation prep_demo k)"
  by (simp_all add: built_demo_def prep_demo_sel)

lemma demo_prepare: "snd (env_run pks_demo (Inl cl_missing)) =
   [GetKs ''preview-pr-7'' ''app'' (Inr pks_demo), GetPreviewConfig ''app'' ''app'' (Inr cfg_demo),
    OnCluster (UGet OIDCClient ''app'' ''app'' (Inl cl_missing)), UpdateKs prep_sent (Inr prep_demo)]"
  by (simp add: pass_defs run_simps prep_sent_def [symmetric])

lemma built_accepted [run_simps]:
  "accepted (Inr prep_demo) (annotate InfraCreatedAnnotation v prep_demo) = annotate InfraCreatedAnnotation v prep_demo"
  by (simp add: accepted_def)

lemma demo_build:
  "GetKs ''preview-pr-7'' ''app'' (Inr prep_demo) \<in> set (snd (env_run prep_demo (Inl cl_missing)))"
  "ks_stored_as_sent (snd (env_run prep_demo (Inl cl_missing)))"
  "UpdateKs built_demo (Inr built_demo) \<in> set (snd (env_run prep_demo (Inl cl_missing)))"
  by (simp_all add: pass_defs infra_defs run_simps built_demo_def ks_stored_as_sent_def)

lemma demo_build_config:
  "GetPreviewConfig a b r \<in> set (snd (env_run prep_demo (Inl cl_missing))) \<Longrightarrow> config_answer cfg_demo r"
  by (simp add: pass_defs infra_defs run_simps config_answer_def)

end
