(* ===== verification/Environment_Run.thy ===== *)
theory Environment_Run
  imports Environment_State Environment_Demo
begin

section \<open>The Kustomization reconciler: what every pass guarantees\<close>

fun creates :: "handler_call \<Rightarrow> bool" where
  "creates (OnCluster (UCreate u r)) \<longleftrightarrow> True"
| "creates (CreateTyped obj r) \<longleftrightarrow> True"
| "creates (UpdateTyped obj v r) \<longleftrightarrow> True"
| "creates (CreateVolumeJob j r) \<longleftrightarrow> True"
| "creates _ \<longleftrightarrow> False"

fun updates :: "handler_call \<Rightarrow> bool" where
  "updates (OnCluster (UUpdate u r)) \<longleftrightarrow> True"
| "updates _ \<longleftrightarrow> False"

fun deletes :: "handler_call \<Rightarrow> bool" where
  "deletes (OnCluster (UDelete k n nm d)) \<longleftrightarrow> True"
| "deletes _ \<longleftrightarrow> False"

lemma updates_cases:
  assumes "updates x"
  obtains u r where "x = OnCluster (UUpdate u r)"
  using assms by (cases x rule: updates.cases) auto

lemma deletes_cases:
  assumes "deletes x"
  obtains k n nm d where "x = OnCluster (UDelete k n nm d)"
  using assms by (cases x rule: deletes.cases) auto

lemma creates_cases:
  assumes "creates x"
  obtains u r where "x = OnCluster (UCreate u r)" | obj r where "x = CreateTyped obj r"
    | obj v r where "x = UpdateTyped obj v r" | j r where "x = CreateVolumeJob j r"
  using assms by (cases x rule: creates.cases) auto

lemma creates_building: "creates x \<Longrightarrow> env_call api ks E x \<Longrightarrow> building api ks"
  by (erule creates_cases) (auto simp: env_call.simps)

lemma run_read:
  assumes "run_in (KustomizationReconcile api ns name) w = (res, xs)" and "x \<in> set xs" and "\<And>a b r. x \<noteq> GetKs a b r"
  obtains ks where "GetKs ns name (Inr ks) \<in> set xs" and "env_call api ks (set xs) x"
  using ens_run_in [OF KustomizationReconcile_log assms(1)] assms(2,3) unfolding env_log_def by fastforce

lemma render_of:
  "render_write api ks E k \<Longrightarrow> \<exists>v. k = unprepare v \<and> (v = ks \<or> version_of ks v E)"
  unfolding render_write_def by iprover

lemma comment_of:
  "comment_write api ks E k \<Longrightarrow> k = annotate PRCommentedAnnotation ''true'' ks"
  "comment_write api ks E k \<Longrightarrow> posted E"
  unfolding comment_write_def posted_def by iprover+

lemma credentials_sent_of:
  assumes "credential_write api ks E k"
  shows "infra_created ks \<and> annotation k PRCommentedAnnotation = annotation ks PRCommentedAnnotation
    \<and> (config_missing ks E \<or> (\<exists>config. config_seen ks config E \<and> (\<not> needs_credentials config
         \<or> (\<exists>s cb. OnCluster (GetSecret (ks_namespace ks) (superuser_secret (ks_pr ks)) (Inr s)) \<in> E
              \<and> pk_patches k = buildAllPatches (ks_app ks) (ks_pr ks) (ks_namespace ks) (hd_domain api) config cb
                                 (Some (credentials_of s))))))"
  using assms unfolding credential_write_def
proof (elim conjE disjE exE)
  fix config cb s
  assume "infra_created ks" and r: "config_seen ks config E"
    "OnCluster (GetSecret (ks_namespace ks) (superuser_secret (ks_pr ks)) (Inr s)) \<in> E"
    and k: "k = with_credentials api ks (ks_app ks) config cb (credentials_of s)"
  moreover have "pk_patches k = buildAllPatches (ks_app ks) (ks_pr ks) (ks_namespace ks) (hd_domain api) config cb
      (Some (credentials_of s))" "annotation k PRCommentedAnnotation = annotation ks PRCommentedAnnotation"
    by (simp_all add: k)
  ultimately show ?thesis by blast
next
  assume "infra_created ks" "k = annotate CredentialsPatchedAnnotation ''true'' ks" "config_missing ks E"
  then show ?thesis by simp
next
  fix config
  assume "infra_created ks" "k = annotate CredentialsPatchedAnnotation ''true'' ks" "config_seen ks config E"
    "\<not> needs_credentials config"
  then show ?thesis by auto
qed

lemma write_keeps_infra:
  assumes w: "env_write api ks (set xs) k" and i: "infra_created ks"
  shows "infra_created k"
  using w unfolding env_write_def
proof (elim disjE)
  assume "render_write api ks (set xs) k"
  then obtain v where k: "k = unprepare v" and "v = ks \<or> version_of ks v (set xs)"
    using render_of by blast
  then show ?thesis using i k version_marks [of ks v "set xs"] by (auto simp: infra_created_def)
qed (use i in \<open>auto simp: finalizer_write_def prepare_write_def infra_write_def credential_write_def comment_write_def
      infra_created_def\<close>)

lemma step_keeps_infra: "env_step api ks k \<Longrightarrow> infra_created ks \<Longrightarrow> infra_created k"
proof (induction rule: env_step.induct)
  case (pass ns name w res xs ks k s)
  have st: "ks_stored_as k s" using pass.hyps(2,4) unfolding ks_stored_as_sent_def by blast
  have "infra_created k" by (rule write_keeps_infra [OF sent_write [OF pass.hyps(1,3,4)] pass.prems])
  then show ?case by (simp add: infra_created_def ks_stored_as_sel [OF st])
qed (simp_all add: infra_created_def annotation_def)

lemma steps_reach: "(env_step api)\<^sup>*\<^sup>* ks k \<Longrightarrow> env_reachable api ks \<Longrightarrow> env_reachable api k"
  by (induction rule: rtranclp_induct) (auto intro: env_reachable.step)

lemma steps_keep_infra: "(env_step api)\<^sup>*\<^sup>* ks k \<Longrightarrow> infra_created ks \<Longrightarrow> infra_created k"
  by (induction rule: rtranclp_induct) (auto intro: step_keeps_infra)

lemma comment_sent:
  assumes "run_in (KustomizationReconcile api ns name) w = (res, xs)" and "GetKs ns name (Inr ks) \<in> set xs"
    and u: "UpdateKs (annotate PRCommentedAnnotation ''true'' ks) r \<in> set xs"
  shows "annotation ks PRCommentedAnnotation = ''true'' \<or> posted (set xs)"
proof (rule disjCI)
  assume n: "\<not> posted (set xs)"
  let ?k = "annotate PRCommentedAnnotation ''true'' ks"
  have k: "annotation ?k PRCommentedAnnotation = ''true''" "ks_suspend ?k = ks_suspend ks" by simp_all
  from sent_write [OF assms] show "annotation ks PRCommentedAnnotation = ''true''"
    unfolding env_write_def
  proof (elim disjE)
    assume "finalizer_write api ks (set xs) ?k"
    then obtain fs where e: "?k = ks\<lparr>pk_finalizers := fs\<rparr>" unfolding finalizer_write_def by blast
    show ?thesis using k(1) by (simp only: e finalizers_sel)
  next
    assume "prepare_write api ks (set xs) ?k"
    then obtain c cb where "?k = prepared api ks (ks_app ks) c cb" by (auto simp: prepare_write_def)
    then show ?thesis using k(1) by (metis annotation_prepared annotation_keys(17,18))
  next
    assume "render_write api ks (set xs) ?k"
    then have "\<not> ks_suspend ks \<and> (\<exists>v. ?k = unprepare v)" unfolding render_write_def active_def by blast
    then show ?thesis using k(2) unprepare_sel(1) by metis
  next
    assume "infra_write api ks (set xs) ?k"
    then have "?k = annotate InfraCreatedAnnotation ''true'' ks" by (simp add: infra_write_def)
    then show ?thesis using k(1) by (metis annotation_annotate annotation_keys(19))
  next
    assume "credential_write api ks (set xs) ?k"
    from credentials_sent_of [OF this] show ?thesis using k(1) by simp
  next
    assume "comment_write api ks (set xs) ?k"
    with n comment_of(2) show ?thesis by blast
  qed
qed

subsection \<open>Evaluated passes\<close>

lemma demo_delete_log:
  "GetKs ''preview-pr-7'' ''app'' (Inr pks_deleting) \<in> set (snd (env_run pks_deleting (Inr ns_env)))"
  "OnCluster (GetNS app got) \<in> set (snd (env_run pks_deleting (Inr ns_env))) \<Longrightarrow> got = Inr ns_env"
  by (simp_all add: pass_defs run_simps delete_pass_def TeardownSnapshots_def or_else_def deleteByGVK_def ignore_not_found_def)

lemma demo_clone_log:
  "GetKs ''preview-pr-7'' ''app'' (Inr (pks_at [])) \<in> set (snd (env_run (pks_at []) (Inr ns_env)))"
  "OnCluster (GetNS app (Inr n)) \<in> set (snd (env_run (pks_at []) (Inr ns_env))) \<Longrightarrow> n = ns_env"
  by (simp_all add: pass_defs infra_defs run_simps cloneCNPGFromSnapshot_def Let_def on_cluster_def
    acquireSourceSnapshot_def reuse_warm_def take_snapshot_def raw_snapshot_def
    waitForSnapshotReady_def wait_for_def snapshot_tick_def)

lemma demo_build_ok: "snd (fst (env_run prep_demo (Inl cl_missing))) = None"
   "fst (fst (env_run prep_demo (Inl cl_missing))) = res_requeue_after (15 * second)"
  by (simp_all add: pass_defs infra_defs run_simps)

lemma built_infra: "infra_created built_demo"
  by (simp add: infra_created_def run_simps)

lemma built_read: "GetKs ''preview-pr-7'' ''app'' (Inr built_demo) \<in> set (snd (env_run built_demo (Inl cl_missing)))"
  by (simp add: pass_defs run_simps credentials_pass_def UpdateDBCredentialPatches_def setAnnotation_def needs_credentials_def)

lemma prepared_update: "UpdateKs prep_sent (Inr prep_demo) \<in> set (snd (env_run pks_demo (Inl cl_missing)))"
  by (simp add: demo_prepare)

lemma prepared_stored: "ks_stored_as_sent (snd (env_run pks_demo (Inl cl_missing)))"
  unfolding demo_prepare by (simp add: ks_stored_as_sent_def prep_demo_def)

lemma reachable_prep: "env_reachable env_demo prep_demo"
proof (rule env_reachable.step [OF env_reachable.fresh])
  show "env_fresh pks_demo"
    by (simp add: env_fresh_def patched_def infra_created_def credentials_patched_def run_simps)
  show "env_step env_demo pks_demo prep_demo"
    by (rule env_step.pass [OF surjective_pairing prepared_stored _ prepared_update]) (simp add: demo_prepare)
qed

lemma step_built: "env_step env_demo prep_demo built_demo"
  by (rule env_step.pass [OF surjective_pairing demo_build(2,1,3)])

lemma reachable_built: "env_reachable env_demo built_demo"
  by (rule env_reachable.step [OF reachable_prep step_built])

lemma pass_prep: "env_pass env_demo cfg_demo pks_demo prep_demo"
  by (rule env_pass.intros [OF surjective_pairing prepared_stored _ _ prepared_update])
     (simp_all add: demo_prepare config_answer_def)

lemma pass_built: "env_pass env_demo cfg_demo prep_demo built_demo"
  by (rule env_pass.intros [OF surjective_pairing demo_build(2) demo_build_config demo_build(1,3)])

subsection \<open>Where and when a pass changes the cluster\<close>

text \<open>C16 Nothing is changed before the cleanup is secured: a pass that creates, updates or deletes an
  object other than the Kustomization has read the Kustomization with the preview label and the cleanup
  finalizer on it, being deleted exactly if the call deletes. A pass that creates or updates found it not
  suspended; and unless the call updates the HelmRelease of the preview's application, which the same
  pass read, also found its infrastructure not yet recorded or its patches not applied.\<close>

theorem environment_changes_behind_finalizer:
  assumes "run_in (KustomizationReconcile api ns name) w = (res, xs)" and "x \<in> set xs"
    and "creates x \<or> updates x \<or> deletes x"
  shows "\<exists>ks. GetKs ns name (Inr ks) \<in> set xs \<and> sget (pk_labels ks) PreviewEnvironmentLabel = ''true''
     \<and> has_finalizer api ks \<and> pk_deleting ks = deletes x
     \<and> (creates x \<or> updates x \<longrightarrow> \<not> ks_suspend ks)
     \<and> (creates x \<or> updates x \<longrightarrow> (patched ks \<longrightarrow> \<not> infra_created ks)
          \<or> (\<exists>n old j r. OnCluster (UGet HelmRelease n (ks_app ks) (Inr old)) \<in> set xs
               \<and> x = OnCluster (UUpdate (old\<lparr>u_object := j\<rparr>) r)))"
proof -
  obtain ks where g: "GetKs ns name (Inr ks) \<in> set xs" and c: "env_call api ks (set xs) x"
    by (rule run_read [OF assms(1,2)]) (use assms(3) in auto)
  from assms(3) show ?thesis
  proof (elim disjE)
    assume x: "creates x"
    then have "\<not> deletes x" by (elim creates_cases) simp_all
    with x creates_building [OF x c] g show ?thesis
      by (auto simp: building_def active_def standing_def labelled_def)
  next
    assume "updates x"
    then obtain u r where x: "x = OnCluster (UUpdate u r)" by (rule updates_cases)
    with c consider "building api ks" | "active api ks" "release_update ks u (set xs)"
      by (auto simp: env_call.simps)
    then show ?thesis
    proof cases
      case 1
      with g x show ?thesis by (auto simp: building_def active_def standing_def labelled_def)
    next
      case 2
      then obtain n old j where "OnCluster (UGet HelmRelease n (ks_app ks) (Inr old)) \<in> set xs" "u = old\<lparr>u_object := j\<rparr>"
        unfolding release_update_def by blast
      with g x 2(1) show ?thesis
        by (intro exI [of _ ks]) (auto simp: active_def standing_def labelled_def)
    qed
  next
    assume "deletes x"
    then obtain k n nm d where "x = OnCluster (UDelete k n nm d)" by (rule deletes_cases)
    with c g show ?thesis by (auto simp: env_call.simps tearing_def labelled_def)
  qed
qed

theorem environment_changes_behind_finalizer_witness:
  "\<exists>ks. GetKs ''preview-pr-7'' ''app'' (Inr ks) \<in> set (snd (env_run (pks_at []) (Inl cl_missing)))
     \<and> has_finalizer env_demo ks \<and> \<not> pk_deleting ks \<and> \<not> ks_suspend ks"
  using environment_changes_behind_finalizer [OF surjective_pairing demo_redis] by fastforce

text \<open>C5 Teardown covers creation: what a pass of a preview creates outside the preview's own namespace, a
  cluster-scoped content object or a VolumeSnapshot in a production namespace, is deleted, or found
  missing, in the pass that updates the Kustomization once it is being deleted (the update that drops
  the finalizer), provided the labels stayed and the production namespace could be read again with
  the annotations it had.\<close>

theorem teardown_covers_creation:
  assumes "run_in (KustomizationReconcile api ns name) w1 = (r1, xs1)" and "GetKs ns name (Inr ks1) \<in> set xs1"
    and "OnCluster (UCreate u made) \<in> set xs1" and "u_namespace u \<noteq> ks_namespace ks1"
    and "run_in (KustomizationReconcile api ns name) w2 = (r2, xs2)" and "GetKs ns name (Inr ks2) \<in> set xs2"
    and "pk_deleting ks2" and "UpdateKs k r \<in> set xs2"
    and "pk_labels ks2 = pk_labels ks1" and "ks_namespace ks2 = ks_namespace ks1"
    and "\<And>n got. OnCluster (GetNS (ks_app ks1) (Inr n)) \<in> set xs1 \<Longrightarrow> OnCluster (GetNS (ks_app ks1) got) \<in> set xs2 \<Longrightarrow>
           \<exists>n'. got = Inr n' \<and> ns_annotations n' = ns_annotations n"
  shows "deleted_key (set xs2) (obj_key u)"
proof -
  have out: "outside_key ks1 (set xs1) (obj_key u)"
    using env_pass_call [OF assms(1,2,3)] assms(4) by (auto simp: env_call.simps placed_def)
  have t: "torn_down ks2 (set xs2)"
    using sent_write [OF assms(5,6,8)] assms(7) by (auto simp: write_defs standing_def active_def complete_def)
  have app: "ks_app ks2 = ks_app ks1" by (rule ks_app_cong [OF assms(9,10)])
  have pr: "ks_pr ks2 = ks_pr ks1" using assms(10) by (simp add: ks_pr_def)
  show ?thesis
  proof (cases "obj_key u \<in> snapshot_keys ks1")
    case True
    then show ?thesis using t by (auto simp: snapshot_keys_def torn_down_def app pr)
  next
    case False
    then obtain n where n: "OnCluster (GetNS (ks_app ks1) (Inr n)) \<in> set xs1" "database_name_of n \<noteq> []"
        "obj_key u = database_key ks1 n"
      using out by (auto simp: outside_key_def)
    have d: "database_name_of n' = database_name_of n \<and> database_key ks2 n' = database_key ks1 n"
      if "ns_annotations n' = ns_annotations n" for n'
      using that by (simp add: database_name_of_def database_key_def cluster_namespace_def pr)
    from t have "(\<exists>err. OnCluster (GetNS (ks_app ks1) (Inl err)) \<in> set xs2)
        \<or> (\<exists>n'. OnCluster (GetNS (ks_app ks1) (Inr n')) \<in> set xs2
             \<and> (database_name_of n' = [] \<or> deleted_key (set xs2) (database_key ks2 n')))"
      unfolding torn_down_def app by (elim conjE)
    then show ?thesis
    proof (elim disjE exE conjE)
      fix n'
      assume "OnCluster (GetNS (ks_app ks1) (Inr n')) \<in> set xs2" "deleted_key (set xs2) (database_key ks2 n')"
      with assms(11) [OF n(1), of "Inr n'"] d [of n'] n(3) show ?thesis by auto
    next
      fix n'
      assume "OnCluster (GetNS (ks_app ks1) (Inr n')) \<in> set xs2" "database_name_of n' = []"
      with assms(11) [OF n(1), of "Inr n'"] d [of n'] n(2) show ?thesis by auto
    next
      fix err
      assume "OnCluster (GetNS (ks_app ks1) (Inl err)) \<in> set xs2"
      with assms(11) [OF n(1)] show ?thesis by auto
    qed
  qed
qed

theorem teardown_covers_creation_witness:
  "deleted_key (set (snd (env_run pks_deleting (Inr ns_env)))) (VolumeSnapshot, ''postgres'', ''postgres-preview-pr-7'')"
proof -
  have "deleted_key (set (snd (env_run pks_deleting (Inr ns_env)))) (obj_key snap_demo)"
  proof (rule teardown_covers_creation [OF surjective_pairing demo_clone_log(1) demo_clone _ surjective_pairing
        demo_delete_log(1) _ demo_delete])
    fix n got
    assume "OnCluster (GetNS (ks_app (pks_at [])) (Inr n)) \<in> set (snd (env_run (pks_at []) (Inr ns_env)))"
      and "OnCluster (GetNS (ks_app (pks_at [])) got) \<in> set (snd (env_run pks_deleting (Inr ns_env)))"
    from demo_clone_log(2) [OF this(1)] demo_delete_log(2) [OF this(2)]
    show "\<exists>n'. got = Inr n' \<and> ns_annotations n' = ns_annotations n" by blast
  qed (simp_all add: run_simps snap_demo_def pks_at_def pks_deleting_def del: run_in_def)
  then show ?thesis by (simp add: obj_key_def snap_demo_def newVolumeSnapshot_def)
qed

text \<open>A rendering from scratch keeps the record of the infrastructure and drops that of the credentials.\<close>

lemma render_marks:
  assumes "run_in (KustomizationReconcile api ns name) w = (res, xs)"
    and "GetKs ns name (Inr ks) \<in> set xs" and "render_write api ks (set xs) k"
  shows "(infra_created k \<longrightarrow> infra_created ks) \<and> \<not> credentials_patched k
     \<and> (annotation k PRCommentedAnnotation = ''true'' \<longrightarrow> annotation ks PRCommentedAnnotation = ''true'' \<or> posted (set xs))"
proof -
  obtain v where v: "version_of ks v (set xs)" "k = unprepare v"
    using render_of [OF assms(3)] by (auto simp: version_of_def)
  have c: "annotation ks PRCommentedAnnotation = ''true'' \<or> posted (set xs)"
    if "annotation v PRCommentedAnnotation = ''true''"
    using v(1) that comment_sent [OF assms(1,2)] unfolding version_of_def by blast
  show ?thesis
    using c version_marks [OF v(1)] by (auto simp: v(2) infra_created_def credentials_patched_def)
qed

text \<open>C4 A mark of a preview is earned: a pass that newly marks the infrastructure as created found no
  PreviewConfig, or applied every part the PreviewConfig it read asks for (the OIDC client, the
  database clone, the cache, the object store, the config volume with its URLs rewritten by a Job seen
  succeeded); one that newly marks the credentials as filled in found they are not needed, or put the
  username and password of the superuser Secret it read into the patches; one that newly marks the
  pull request as commented got 201 for a new comment or 200 for an updated one.\<close>

theorem environment_marks_earned:
  assumes "run_in (KustomizationReconcile api ns name) w = (res, xs)"
    and "GetKs ns name (Inr ks) \<in> set xs" and "UpdateKs k r \<in> set xs"
  shows "(infra_created k \<longrightarrow> infra_created ks \<or> config_missing ks (set xs)
       \<or> (\<exists>config. config_seen ks config (set xs) \<and> infra_done api ks config (set xs)))
     \<and> (credentials_patched k \<longrightarrow> credentials_patched ks \<or> config_missing ks (set xs)
       \<or> (\<exists>config. config_seen ks config (set xs) \<and> (\<not> needs_credentials config
            \<or> (\<exists>s cb. OnCluster (GetSecret (ks_namespace ks) (superuser_secret (ks_pr ks)) (Inr s)) \<in> set xs
                 \<and> pk_patches k = buildAllPatches (ks_app ks) (ks_pr ks) (ks_namespace ks) (hd_domain api) config cb
                                    (Some (credentials_of s))))))
     \<and> (annotation k PRCommentedAnnotation = ''true'' \<longrightarrow> annotation ks PRCommentedAnnotation = ''true'' \<or> posted (set xs))"
proof -
  show ?thesis
    using sent_write [OF assms] unfolding env_write_def
  proof (elim disjE)
    assume "finalizer_write api ks (set xs) k"
    then show ?thesis by (auto simp: finalizer_write_def infra_created_def credentials_patched_def)
  next
    assume "prepare_write api ks (set xs) k"
    then show ?thesis by (auto simp: prepare_write_def infra_created_def credentials_patched_def)
  next
    assume "render_write api ks (set xs) k"
    from render_marks [OF assms(1,2) this] show ?thesis by blast
  next
    assume "infra_write api ks (set xs) k"
    then have k: "k = annotate InfraCreatedAnnotation ''true'' ks" and
      "config_missing ks (set xs) \<or> (\<exists>config. config_seen ks config (set xs) \<and> infra_done api ks config (set xs))"
      by (simp_all add: infra_write_def)
    then show ?thesis by (simp add: credentials_patched_def)
  next
    assume "credential_write api ks (set xs) k"
    note c = credentials_sent_of [OF this]
    have "credentials_patched k \<longrightarrow> config_missing ks (set xs) \<or> (\<exists>config. config_seen ks config (set xs)
        \<and> (\<not> needs_credentials config
            \<or> (\<exists>s cb. OnCluster (GetSecret (ks_namespace ks) (superuser_secret (ks_pr ks)) (Inr s)) \<in> set xs
                 \<and> pk_patches k = buildAllPatches (ks_app ks) (ks_pr ks) (ks_namespace ks) (hd_domain api) config cb
                                    (Some (credentials_of s)))))"
      using c by (elim conjE) (rule impI)
    with c show ?thesis by simp
  next
    assume "comment_write api ks (set xs) k"
    note c = comment_of [OF this]
    then show ?thesis by (simp add: infra_created_def credentials_patched_def)
  qed
qed

theorem environment_marks_earned_witness:
  "\<exists>config. config_seen prep_demo config (set (snd (env_run prep_demo (Inl cl_missing))))
     \<and> infra_done env_demo prep_demo config (set (snd (env_run prep_demo (Inl cl_missing))))"
proof -
  have "cfg_demo \<noteq> empty_config" by (simp add: cfg_demo_def empty_config_def)
  then have "\<not> config_missing prep_demo (set (snd (env_run prep_demo (Inl cl_missing))))"
    using demo_build_config by (fastforce simp: config_missing_def config_answer_def)
  moreover have "\<not> infra_created prep_demo" by (simp add: infra_created_def run_simps)
  ultimately show ?thesis
    using environment_marks_earned [OF surjective_pairing demo_build(1,3)] built_infra by blast
qed

text \<open>C8 A preview runs only with its patches: the update that lifts the suspension of a Kustomization
  carries all patches of the PreviewConfig read from the production namespace, the only one a pass reads
  it from (or of an empty one, when none is there), the deletions of production resources first among them, and the hash of that
  PreviewConfig.\<close>

theorem unsuspended_only_with_patches:
  assumes "run_in (KustomizationReconcile api ns name) w = (res, xs)" and "GetKs ns name (Inr ks) \<in> set xs"
    and "ks_suspend ks" and "UpdateKs k r \<in> set xs" and "\<not> ks_suspend k"
  shows "(\<forall>n nm got. GetPreviewConfig n nm got \<in> set xs \<longrightarrow> n = ks_app ks \<and> nm = ks_app ks)
   \<and> (\<exists>config cb. config_used ks config (set xs)
     \<and> pk_patches k = buildAllPatches (ks_app ks) (ks_pr ks) (ks_namespace ks) (hd_domain api) config cb None
     \<and> set generateStripPatches \<subseteq> set (pk_patches k)
     \<and> patched k \<and> annotation k ConfigHashAnnotation = hashPreviewConfigSpec config)"
proof -
  have "n = ks_app ks \<and> nm = ks_app ks" if "GetPreviewConfig n nm got \<in> set xs" for n nm got
    using env_pass_call [OF assms(1,2) that] by (simp add: env_call.simps)
  moreover
  from sent_write [OF assms(1,2,4)] assms(3,5) have "prepare_write api ks (set xs) k"
    by (auto simp: write_defs active_def complete_def)
  then have "\<exists>config cb. config_used ks config (set xs)
     \<and> pk_patches k = buildAllPatches (ks_app ks) (ks_pr ks) (ks_namespace ks) (hd_domain api) config cb None
     \<and> set generateStripPatches \<subseteq> set (pk_patches k)
     \<and> patched k \<and> annotation k ConfigHashAnnotation = hashPreviewConfigSpec config"
    by (auto simp: prepare_write_def patched_def buildAllPatches_def)
  ultimately show ?thesis by blast
qed

theorem unsuspended_only_with_patches_witness:
  "set generateStripPatches \<subseteq> set (pk_patches prep_demo) \<and> annotation prep_demo ConfigHashAnnotation \<noteq> []"
proof -
  have "GetKs ''preview-pr-7'' ''app'' (Inr pks_demo) \<in> set (snd (env_run pks_demo (Inl cl_missing)))"
    by (simp add: demo_prepare)
  from unsuspended_only_with_patches [OF surjective_pairing this _ prepared_update] show ?thesis
    by (auto simp: hash_not_Nil pks_demo_sel prep_demo_sel prep_sent_sel)
qed

text \<open>C9 The infrastructure is created once: from the moment it is recorded, through every later pass and
  every change by others (of the deletion mark, the status, labels, finalizers, patches or source), the
  record stays, and no pass creates an object, starts a Job or writes a
  typed object again, whatever re-rendering its PreviewConfig calls for.\<close>

theorem infrastructure_created_once:
  assumes "env_reachable api ks" and "infra_created ks" and "(env_step api)\<^sup>*\<^sup>* ks k"
    and "run_in (KustomizationReconcile api ns name) w = (res, xs)" and "GetKs ns name (Inr k) \<in> set xs"
    and "x \<in> set xs"
  shows "infra_created k \<and> \<not> creates x"
proof -
  have i: "infra_created k" by (rule steps_keep_infra [OF assms(3,2)])
  have "\<not> building api k"
    using i stage_never_unrendered [OF env_inv_reachable [OF steps_reach [OF assms(3,1)]]]
    by (auto simp: building_def active_def stage_of_def split: if_splits)
  then have "\<not> creates x"
    using env_pass_call [OF assms(4,5,6)] creates_building [of x api k "set xs"] by (cases x rule: creates.cases) auto
  with i show ?thesis by simp
qed

theorem infrastructure_created_once_witness:
  "infra_created built_demo \<and> list_all (\<lambda>x. \<not> creates x) (snd (env_run built_demo (Inl cl_missing)))"
  unfolding list_all_iff
  using infrastructure_created_once [OF reachable_built built_infra rtranclp.rtrancl_refl surjective_pairing built_read] built_infra
  by blast

text \<open>C13 The documented progression: every Kustomization a preview can become, from a fresh suspended one
  through passes and the changes of others, is waiting exactly when its patches are not applied, has
  credentials filled in only on created infrastructure, and every step keeps its stage or takes an
  arrow of the machine Waiting, Rendered, Built, Complete, with the way back to Waiting.\<close>

theorem environment_follows_stages:
  assumes "env_reachable api ks" and "env_step api ks k"
  shows "env_inv k \<and> stage_of k \<noteq> Unrendered \<and> (stage_of k = stage_of ks \<or> stage_next (stage_of ks) (stage_of k))"
  using env_step_inv [OF assms(2) env_inv_reachable [OF assms(1)]] stage_never_unrendered by blast

theorem environment_follows_stages_witness:
  "stage_of prep_demo = Rendered \<and> stage_of built_demo = Built \<and> env_inv built_demo"
  using environment_follows_stages [OF reachable_prep step_built]
  by (simp add: stage_defs run_simps)

text \<open>C11 The reconciler stops writing: while the PreviewConfig stays the same, a chain of updates, each by a
  pass over what the server stored of the one before it (what was sent, with any new generation and any
  status), is at most as long as the rank of the Kustomization it starts from, which is never above
  eight.\<close>

theorem reconciler_stops_writing:
  assumes "(env_pass api config ^^ n) ks k" and "finalizer_laws (hd_lib api)"
  shows "n + env_rank api config k \<le> env_rank api config ks \<and> n \<le> 8"
  using env_passes_lower [OF assms] env_rank_bound [of api config ks] by linarith

theorem reconciler_stops_writing_witness:
  "2 + env_rank env_demo cfg_demo built_demo \<le> env_rank env_demo cfg_demo pks_demo
   \<and> ks_generation pks_demo < ks_generation prep_demo"
proof -
  have "(env_pass env_demo cfg_demo ^^ Suc (Suc 0)) pks_demo built_demo"
    using pass_prep pass_built by (metis relpowp_0_I relpowp_Suc_I)
  from reconciler_stops_writing [OF this] show ?thesis
    by (simp add: finalizer_laws_def run_simps) (simp add: prep_demo_def pks_demo_def)
qed

text \<open>C26 A pass is never stuck: over a preview that has its finalizer and is not being deleted, and is not
  yet complete, it reports an error, or writes a Kustomization of another stage, or, with only the
  credentials missing, asks to be run again in fifteen seconds. This holds of every such Kustomization
  a fresh suspended one can become, and of any other that is not on the path without patches
  (unsuspended, its patches not applied), where a pass may have nothing to do.\<close>

theorem unfinished_preview_moves:
  assumes "run_in (KustomizationReconcile api ns name) w = (res, xs)" and "GetKs ns name (Inr ks) \<in> set xs"
    and "standing api ks" and "stage_of ks \<noteq> Complete" and "env_reachable api ks \<or> stage_of ks \<noteq> Unrendered"
  shows "snd res \<noteq> None \<or> (\<exists>k s. UpdateKs k (Inr s) \<in> set xs \<and> stage_of k \<noteq> stage_of ks)
     \<or> stage_of ks = Built \<and> res = (res_requeue_after (15 * second), None)"
proof -
  have "stage_of ks \<noteq> Unrendered" using assms(5) stage_never_unrendered env_inv_reachable by blast
  then have "stage_of ks \<in> {Waiting, Rendered, Built}" using assms(4) by (cases "stage_of ks") simp_all
  from pass_moved [OF assms(1-3) this] show ?thesis unfolding moved_def .
qed

theorem unfinished_preview_moves_witness:
  "\<exists>k s. UpdateKs k (Inr s) \<in> set (snd (env_run prep_demo (Inl cl_missing))) \<and> stage_of k \<noteq> Rendered"
proof -
  have s: "standing env_demo prep_demo" "stage_of prep_demo = Rendered"
    by (simp_all add: standing_def labelled_def stage_defs run_simps)
  show ?thesis
    using unfinished_preview_moves [OF surjective_pairing demo_build(1) s(1)] s(2) demo_build_ok reachable_prep by simp
qed

end
