(* ===== verification/Release_Values.thy ===== *)
theory Release_Values
  imports Environment_Demo
begin

section \<open>The Helm values settle\<close>

text \<open>
  \<open>patched_release\<close>, with which the reconciler keeps the values of a HelmRelease, reaches a state it
  leaves alone; what it changes and what it keeps.
\<close>

text \<open>What the accessors of unstructured objects promise on the two fields of the release.\<close>

definition release_laws :: "'w handler_api \<Rightarrow> bool" where
  "release_laws api \<longleftrightarrow>
     (\<forall>j fs j'. lib_set_nested_map (hd_lib api) j fs [''spec'', ''values''] = Inr j' \<longrightarrow>
        lib_nested_map (hd_lib api) j' [''spec'', ''values''] = Some fs
        \<and> lib_nested_slice (hd_lib api) j' [''spec'', ''valuesFrom''] = lib_nested_slice (hd_lib api) j [''spec'', ''valuesFrom''])
     \<and> (\<forall>j j'. hd_set_nested_slice api j [] [''spec'', ''valuesFrom''] = Inr j' \<longrightarrow>
        lib_nested_slice (hd_lib api) j' [''spec'', ''valuesFrom''] = Some [])"

lemma without_values_from_cleared:
  assumes "release_laws api" and "without_values_from api hr = Inr j"
  shows "\<not> has_values_from api (u\<lparr>u_object := j\<rparr>)"
  using assms by (auto simp: without_values_from_def has_values_from_def release_laws_def split: if_splits option.splits)

lemma patched_release_values:
  assumes "release_laws api" and "patched_release api hr ps = Inr (Some hr')"
  shows "release_values (hd_lib api) hr' = snd (apply_values (release_values (hd_lib api) hr) ps)"
    and "\<not> has_values_from api hr'"
proof -
  obtain b m where a: "apply_values (release_values (hd_lib api) hr) ps = (b, m)" by fastforce
  with assms(2) obtain j j' where j: "without_values_from api hr = Inr j"
    and j': "lib_set_nested_map (hd_lib api) j m [''spec'', ''values''] = Inr j'" and hr': "hr' = hr\<lparr>u_object := j'\<rparr>"
    by (auto simp: patched_release_def split: sum.splits if_splits)
  from assms(1) j' have g: "lib_nested_map (hd_lib api) j' [''spec'', ''values''] = Some m"
    "lib_nested_slice (hd_lib api) j' [''spec'', ''valuesFrom''] = lib_nested_slice (hd_lib api) j [''spec'', ''valuesFrom'']"
    unfolding release_laws_def by blast+
  from g(1) have "release_values (hd_lib api) hr' = m" by (simp add: release_values_def hr')
  with a show "release_values (hd_lib api) hr' = snd (apply_values (release_values (hd_lib api) hr) ps)" by simp
  from without_values_from_cleared [OF assms(1) j, of hr] g(2) show "\<not> has_values_from api hr'"
    by (simp add: has_values_from_def hr')
qed

lemma json_put_path: "json_put fs p v = Some fs' \<Longrightarrow> json_path (JObj fs') p = Some v"
proof (induction fs p v arbitrary: fs' rule: json_put.induct)
  case (3 fs k l ks v)
  have step: "json_path (JObj ((k, JObj sub) # rest)) (k # q) = json_path (JObj sub) q" for sub rest q by simp
  from 3(3) consider old sub rest where "fs' = (k, JObj sub) # rest" "map_of fs k = Some (JObj old)"
      "json_put old (l # ks) v = Some sub"
    | sub rest where "fs' = (k, JObj sub) # rest" "map_of fs k = None" "json_put [] (l # ks) v = Some sub"
    by (auto split: option.splits json.splits)
  then show ?case
  proof cases
    case 1
    then show ?thesis using 3(2) [OF 1(2) refl 1(3)] unfolding step by simp
  next
    case 2
    then show ?thesis using 3(1) [OF 2(2,3)] unfolding step by simp
  qed
qed simp_all

lemma map_of_filter_other [simp]: "k' \<noteq> k \<Longrightarrow> map_of (filter (\<lambda>e. fst e \<noteq> k) m) k' = map_of m k'"
  by (induction m) auto

lemma release_laws_demo: "release_laws env_demo"
  unfolding release_laws_def
  by (auto simp: run_simps json_set_def dest!: json_put_path split: json.splits option.splits)

text \<open>C15 The Helm values settle: when the reconciler rewrites a HelmRelease, the release it writes holds every
  configured value at its path, keeps every value at a path apart from the configured ones, has no
  \<open>valuesFrom\<close> left, and is left alone by the next pass, provided no configured path is an initial
  segment of another.\<close>

theorem helm_values_settle:
  assumes "release_laws api" and "clash_free patches" and "patched_release api hr patches = Inr (Some hr')"
  shows "patched_release api hr' patches = Inr None \<and> \<not> has_values_from api hr'
     \<and> (\<forall>(p, v)\<in>set patches. value_at (release_values (hd_lib api) hr') (path_parts p) = Some (JStr v))
     \<and> (\<forall>q. (\<forall>p\<in>set (map fst patches). \<not> clash (path_parts p) q) \<longrightarrow>
          value_at (release_values (hd_lib api) hr') q = value_at (release_values (hd_lib api) hr) q)"
proof -
  note v = patched_release_values [OF assms(1,3)]
  have vals: "\<forall>(p, v)\<in>set patches. value_at (release_values (hd_lib api) hr') (path_parts p) = Some (JStr v)"
    unfolding v(1) using apply_values_value [OF assms(2)] by blast
  have "\<not> fst (apply_values (release_values (hd_lib api) hr') patches)"
    by (rule apply_values_unchanged [OF vals assms(2)])
  then have "patched_release api hr' patches = Inr None"
    using v(2) by (cases "apply_values (release_values (hd_lib api) hr') patches")
      (simp add: patched_release_def without_values_from_def)
  moreover have "value_at (release_values (hd_lib api) hr') q = value_at (release_values (hd_lib api) hr) q"
    if "\<forall>p\<in>set (map fst patches). \<not> clash (path_parts p) q" for q
    unfolding v(1) by (rule apply_values_frame [OF that])
  ultimately show ?thesis using v(2) vals by blast
qed

definition release_demo :: uobj where
  "release_demo = (new_uobj HelmRelease ''preview-pr-7'' ''app'')\<lparr>u_object :=
     JObj [(''spec'', JObj [(''valuesFrom'', JArr [JNull]), (''values'', JObj [(''image'', JStr ''app:1'')])])]\<rparr>"

definition values_demo :: smap where
  "values_demo = [(''ingress.host'', ''pr-7-app.example.org''), (''ingress.path'', ''/'')]"

theorem helm_values_settle_witness:
  "\<exists>hr'. patched_release env_demo release_demo values_demo = Inr (Some hr')
     \<and> patched_release env_demo hr' values_demo = Inr None
     \<and> value_at (release_values klib_env hr') [''image''] = Some (JStr ''app:1'')"
proof -
  have p: "path_parts ''ingress.host'' = [''ingress'', ''host'']" "path_parts ''ingress.path'' = [''ingress'', ''path'']"
    by (simp_all add: path_parts_def)
  have f: "clash_free values_demo" by (auto simp: clash_free_def values_demo_def p clash_def pairwise_def)
  have img: "value_at (release_values klib_env release_demo) [''image''] = Some (JStr ''app:1'')"
    by (simp add: release_values_def release_demo_def run_simps)
  obtain hr' where r: "patched_release env_demo release_demo values_demo = Inr (Some hr')"
    by (cases "apply_values (release_values klib_env release_demo) values_demo")
      (auto simp: patched_release_def without_values_from_def has_values_from_def run_simps json_set_def release_demo_def)
  have n: "\<forall>p\<in>set (map fst values_demo). \<not> clash (path_parts p) [''image'']"
    by (simp add: values_demo_def p clash_def)
  note settled = helm_values_settle [OF release_laws_demo f r]
  then have "value_at (release_values klib_env hr') [''image''] = Some (JStr ''app:1'')"
    using n img by (simp only: env_cluster_sel(1) env_demo_sel(1))
  with settled r show ?thesis by blast
qed

end
