(* ===== verification/Go_Date.thy ===== *)
theory Go_Date
  imports Prelude
begin

section \<open>Reading an RFC 3339 instant: time.Parse\<close>

text \<open>
  \<open>time.Parse(time.RFC3339, s)\<close> of the Go standard library, with what it tolerates beyond the layout:
  an hour of one digit, a fraction of a second after a point or a comma, of which nine digits count,
  and offsets of 24 hours or 60 minutes. The proleptic Gregorian calendar is the one of \<open>time.Date\<close>.
\<close>

subsection \<open>The calendar\<close>

definition leap_year :: "int \<Rightarrow> bool" where
  "leap_year y \<longleftrightarrow> y mod 4 = 0 \<and> (y mod 100 \<noteq> 0 \<or> y mod 400 = 0)"

definition days_in :: "int \<Rightarrow> nat \<Rightarrow> int" where
  "days_in y m =
     (if m = 2 then (if leap_year y then 29 else 28) else if m \<in> {4, 6, 9, 11} then 30 else 31)"

text \<open>Days of a year before a month, and days from the epoch to a date.\<close>

primrec days_before_month :: "int \<Rightarrow> nat \<Rightarrow> int" where
  "days_before_month y 0 = 0"
| "days_before_month y (Suc m) = days_before_month y m + (if m = 0 then 0 else days_in y m)"

definition days_before_year :: "int \<Rightarrow> int" where
  "days_before_year y = 365 * (y - 1) + (y - 1) div 4 - (y - 1) div 100 + (y - 1) div 400 - 719162"

definition date_days :: "int \<Rightarrow> nat \<Rightarrow> int \<Rightarrow> int" where
  "date_days y m d = days_before_year y + days_before_month y m + (d - 1)"

text \<open>\<open>time.Date\<close> in UTC, and \<open>Time.Unix\<close>.\<close>

definition date_instant :: "int \<Rightarrow> nat \<Rightarrow> int \<Rightarrow> int \<Rightarrow> int \<Rightarrow> int \<Rightarrow> int \<Rightarrow> instant" where
  "date_instant y m d h mi s ns = (((date_days y m d * 24 + h) * 60 + mi) * 60 + s) * second + ns"

definition unix :: "instant \<Rightarrow> int" where
  "unix t = t div second"

subsection \<open>Digits\<close>

definition digit_of :: "char \<Rightarrow> nat option" where
  "digit_of c = index_byte ''0123456789'' c"

text \<open>A reader consumes a part of the value, or fails.\<close>

type_synonym 'a reader = "string \<Rightarrow> ('a \<times> string) option"

text \<open>\<open>n\<close> digits, all of them required.\<close>

fun read_digits :: "nat \<Rightarrow> nat \<Rightarrow> nat reader" where
  "read_digits 0 acc s = Some (acc, s)"
| "read_digits (Suc n) acc [] = None"
| "read_digits (Suc n) acc (c # cs) =
     (case digit_of c of None \<Rightarrow> None | Some d \<Rightarrow> read_digits n (10 * acc + d) cs)"

text \<open>\<open>getnum\<close>: two digits, or one when the layout does not fix the width.\<close>

definition getnum :: "bool \<Rightarrow> nat reader" where
  "getnum fixed s =
     (case read_digits 2 0 s of
        Some r \<Rightarrow> Some r
      | None \<Rightarrow> if fixed then None else read_digits 1 0 s)"

definition expect :: "char \<Rightarrow> string \<Rightarrow> string option" where
  "expect c s = (case s of x # xs \<Rightarrow> if x = c then Some xs else None | [] \<Rightarrow> None)"

text \<open>A number in a range, and the separator after it.\<close>

definition read_field :: "nat reader \<Rightarrow> nat \<Rightarrow> nat \<Rightarrow> char \<Rightarrow> nat reader" where
  "read_field rd lo hi sep s =
     (case rd s of
        None \<Rightarrow> None
      | Some (n, rest) \<Rightarrow> if lo \<le> n \<and> n \<le> hi then map_option (Pair n) (expect sep rest) else None)"

text \<open>The fraction: nothing unless a point or a comma is followed by a digit; digits after the ninth are
  read and dropped.\<close>

definition read_fraction :: "string \<Rightarrow> int \<times> string" where
  "read_fraction s =
     (case s of
        p # d # rest \<Rightarrow>
          if (p = CHR ''.'' \<or> p = CHR '','') \<and> digit_of d \<noteq> None then
            let ds = takeWhile (\<lambda>c. digit_of c \<noteq> None) (d # rest);
                kept = take 9 ds
            in (int (fold (\<lambda>c n. 10 * n + the (digit_of c)) kept 0) * 10 ^ (9 - length kept),
                dropWhile (\<lambda>c. digit_of c \<noteq> None) (d # rest))
          else (0, s)
      | _ \<Rightarrow> (0, s))"

text \<open>The offset from UTC in seconds: \<open>Z\<close> or \<open>+hh:mm\<close>, at the end of the value.\<close>

definition read_zone :: "string \<Rightarrow> int option" where
  "read_zone s =
     (if s = ''Z'' then Some 0
      else
        (case s of
           [sg, a, b, c, d, e] \<Rightarrow>
             if c = CHR '':'' \<and> (sg = CHR ''+'' \<or> sg = CHR ''-'') then
               (case (read_digits 2 0 [a, b], read_digits 2 0 [d, e]) of
                  (Some (hr, _), Some (mm, _)) \<Rightarrow>
                    if hr \<le> 24 \<and> mm \<le> 60 then
                      Some ((if sg = CHR ''-'' then - 1 else 1) * (int hr * 60 + int mm) * 60)
                    else None
                | _ \<Rightarrow> None)
             else None
         | _ \<Rightarrow> None))"

subsection \<open>The whole value\<close>

definition parse_rfc3339 :: "string \<Rightarrow> instant option" where
  "parse_rfc3339 s =
     (case read_field (read_digits 4 0) 0 9999 (CHR ''-'') s of None \<Rightarrow> None | Some (y, s1) \<Rightarrow>
      case read_field (getnum True) 1 12 (CHR ''-'') s1 of None \<Rightarrow> None | Some (m, s2) \<Rightarrow>
      case read_field (getnum True) 0 99 (CHR ''T'') s2 of None \<Rightarrow> None | Some (d, s3) \<Rightarrow>
      case read_field (getnum False) 0 23 (CHR '':'') s3 of None \<Rightarrow> None | Some (h, s4) \<Rightarrow>
      case read_field (getnum True) 0 59 (CHR '':'') s4 of None \<Rightarrow> None | Some (mi, s5) \<Rightarrow>
      case getnum True s5 of None \<Rightarrow> None | Some (sec, s6) \<Rightarrow>
      if sec \<ge> 60 then None else
      case read_fraction s6 of (ns, s7) \<Rightarrow>
      case read_zone s7 of None \<Rightarrow> None | Some offset \<Rightarrow>
      if 1 \<le> d \<and> int d \<le> days_in (int y) m then
        Some (date_instant (int y) m (int d) (int h) (int mi) (int sec) ns - offset * second)
      else None)"

lemmas reader_defs = read_field_def getnum_def expect_def read_fraction_def read_zone_def digit_of_def
lemmas date_defs = date_instant_def date_days_def days_before_year_def days_in_def leap_year_def

lemma read_digits_numeral [simp]:
  "read_digits (numeral k) acc [] = None"
  "read_digits (numeral k) acc (c # cs) =
     (case digit_of c of None \<Rightarrow> None | Some d \<Rightarrow> read_digits (pred_numeral k) (10 * acc + d) cs)"
  by (simp_all add: numeral_eq_Suc)

lemma days_before_month_numeral [simp]:
  "days_before_month y (numeral k) =
     days_before_month y (pred_numeral k) + (if pred_numeral k = 0 then 0 else days_in y (pred_numeral k))"
  by (simp add: numeral_eq_Suc)

lemma parse_rfc3339_examples:
  "parse_rfc3339 ''1970-01-01T00:00:00Z'' = Some 0"
  "parse_rfc3339 ''2026-03-01T10:00:00Z'' = Some (1772359200 * second)"
  "parse_rfc3339 ''2024-02-29T23:59:59.5+01:00'' = Some (1709247599 * second + 500000000)"
  "parse_rfc3339 ''2023-02-29T00:00:00Z'' = None"
  by (simp_all add: parse_rfc3339_def reader_defs date_defs)

end
