(* ===== verification/Github_Credentials.thy ===== *)
theory Github_Credentials
  imports Config_Hash Go_Date
begin

section \<open>App credentials and App tokens: credentials.go, jwt.go\<close>

text \<open>
  The credentials of a GitHub App installation, read from a Secret in one of the accepted spellings,
  and the JWT that authenticates the App: RS256 over two base64url segments. PEM, ASN.1 and the RSA
  signature are the fields of \<open>pk_lib\<close>, a parameter of the definitions that use them; JSON, base64url
  and SHA-256 are spelled out.
\<close>

subsection \<open>Credentials\<close>

record credentials =
  cr_app_id :: string
  cr_installation_id :: string
  cr_private_key :: string

definition cacheKey :: "credentials \<Rightarrow> string" where
  "cacheKey c = cr_app_id c @ ''/'' @ cr_installation_id c"

definition appIDKeys :: "string list" where
  "appIDKeys = [''githubAppID'', ''github_app_id'', ''app_id'']"

definition installationIDKeys :: "string list" where
  "installationIDKeys = [''githubAppInstallationID'', ''github_app_installation_id'', ''installation_id'']"

definition privateKeyKeys :: "string list" where
  "privateKeyKeys = [''githubAppPrivateKey'', ''github_app_private_key'', ''private_key'']"

fun lookup :: "smap \<Rightarrow> string list \<Rightarrow> string" where
  "lookup data [] = []"
| "lookup data (k # ks) =
     (case map_of data k of
        None \<Rightarrow> lookup data ks
      | Some v \<Rightarrow> if trim_space v \<noteq> [] then trim_space v else lookup data ks)"

definition missing :: "string \<Rightarrow> string list \<Rightarrow> goerr" where
  "missing what keys = Plain (''github: secret is missing '' @ what @ '' (one of '' @ join_with '', '' keys @ '')'')"

definition CredentialsFromSecretData :: "smap \<Rightarrow> credentials result" where
  "CredentialsFromSecretData data =
     (let appID = lookup data appIDKeys;
          installationID = lookup data installationIDKeys;
          privateKey = lookup data privateKeyKeys
      in if appID = [] then Inl (missing ''an app id'' appIDKeys)
         else if installationID = [] then Inl (missing ''an installation id'' installationIDKeys)
         else if privateKey = [] then Inl (missing ''a private key'' privateKeyKeys)
         else Inr \<lparr>cr_app_id = appID, cr_installation_id = installationID, cr_private_key = privateKey\<rparr>)"

text \<open>The value of the first key that has one.\<close>

lemma lookup_first:
  "lookup data ks =
     (case List.find (\<lambda>k. trim_space (sget data k) \<noteq> []) ks of None \<Rightarrow> [] | Some k \<Rightarrow> trim_space (sget data k))"
  by (induction ks) (auto simp: sget_def trim_space_def split: option.splits)

subsection \<open>Private keys\<close>

datatype 'k parsed_key = RsaKey 'k | OtherKey string

record 'k pk_lib =
  pk_pem :: "string \<Rightarrow> string option"
  pk_pkcs1 :: "string \<Rightarrow> 'k result"
  pk_pkcs8 :: "string \<Rightarrow> 'k parsed_key result"
  pk_sign :: "'k \<Rightarrow> nat list \<Rightarrow> string result"

definition parsePrivateKey :: "'k pk_lib \<Rightarrow> string \<Rightarrow> 'k result" where
  "parsePrivateKey pk pemBytes =
     (case pk_pem pk pemBytes of
        None \<Rightarrow> Inl (Plain ''no PEM block found'')
      | Some block \<Rightarrow>
          (case pk_pkcs1 pk block of
             Inr key \<Rightarrow> Inr key
           | Inl _ \<Rightarrow>
               (case pk_pkcs8 pk block of
                  Inl err \<Rightarrow> Inl (Wrapped ''private key is neither PKCS#1 nor PKCS#8: '' err)
                | Inr (OtherKey type) \<Rightarrow> Inl (Plain (''private key is '' @ type @ '', want an RSA key''))
                | Inr (RsaKey key) \<Rightarrow> Inr key)))"

subsection \<open>base64url without padding\<close>

definition base64_alphabet :: string where
  "base64_alphabet = ''ABCDEFGHIJKLMNOPQRSTUVWXYZabcdefghijklmnopqrstuvwxyz0123456789-_''"

definition sextet :: "nat \<Rightarrow> char" where
  "sextet n = base64_alphabet ! (n mod 64)"

fun base64_bytes :: "nat list \<Rightarrow> string" where
  "base64_bytes [] = []"
| "base64_bytes [a] = [sextet (a div 4), sextet (a * 16)]"
| "base64_bytes [a, b] = [sextet (a div 4), sextet (a * 16 + b div 16), sextet (b * 4)]"
| "base64_bytes (a # b # c # rest) =
     sextet (a div 4) # sextet (a * 16 + b div 16) # sextet (b * 4 + c div 64) # sextet c # base64_bytes rest"

definition base64_url :: "string \<Rightarrow> string" where
  "base64_url s = base64_bytes (map of_char s)"

text \<open>The reader of the other side: \<open>None\<close> on a character outside the alphabet or a lone sextet.\<close>

definition unsextet :: "char \<Rightarrow> nat option" where
  "unsextet c = index_byte base64_alphabet c"

fun base64_read :: "nat list \<Rightarrow> nat list option" where
  "base64_read [] = Some []"
| "base64_read [a] = None"
| "base64_read [a, b] = Some [a * 4 + b div 16]"
| "base64_read [a, b, c] = Some [a * 4 + b div 16, b mod 16 * 16 + c div 4]"
| "base64_read (a # b # c # d # rest) =
     map_option (\<lambda>r. (a * 4 + b div 16) # (b mod 16 * 16 + c div 4) # (c mod 4 * 64 + d) # r) (base64_read rest)"

definition base64_decode :: "string \<Rightarrow> string option" where
  "base64_decode s =
     (if list_all (\<lambda>c. unsextet c \<noteq> None) s then
        map_option (map char_of) (base64_read (map (\<lambda>c. the (unsextet c)) s))
      else None)"

lemma unsextet_sextet: "unsextet (sextet n) = Some (n mod 64)"
proof -
  have "\<forall>i\<in>set [0..<64]. unsextet (base64_alphabet ! i) = Some i" by code_simp
  moreover have "n mod 64 \<in> set [0..<64]" by simp
  ultimately show ?thesis unfolding sextet_def by blast
qed

lemma base64_alphabet_no_dot: "CHR ''.'' \<notin> set base64_alphabet"
  by (simp add: base64_alphabet_def)

lemma sextet_no_dot: "sextet n \<noteq> CHR ''.''"
proof -
  have "n mod 64 < length base64_alphabet" by (simp add: base64_alphabet_def)
  then have "sextet n \<in> set base64_alphabet" unfolding sextet_def by (rule nth_mem)
  then show ?thesis using base64_alphabet_no_dot by metis
qed

lemma base64_no_dot: "CHR ''.'' \<notin> set (base64_url s)"
proof -
  have "CHR ''.'' \<notin> set (base64_bytes bs)" for bs
    by (induction bs rule: base64_bytes.induct) (use sextet_no_dot in \<open>auto dest: sym\<close>)
  then show ?thesis by (simp add: base64_url_def)
qed

lemma sextet_joined:
  fixes a r :: nat
  shows "r < 16 \<Longrightarrow> (a * 16 + r) mod 64 = a mod 4 * 16 + r" "r < 4 \<Longrightarrow> (a * 4 + r) mod 64 = a mod 16 * 4 + r"
proof -
  have m: "a * 16 mod 64 = a mod 4 * 16" "a * 4 mod 64 = a mod 16 * 4"
    using mult_mod_left [of a 4 16] mult_mod_left [of a 16 4] by simp_all
  have "a mod 4 < 4" "a mod 16 < 16" by simp_all
  then show "r < 16 \<Longrightarrow> (a * 16 + r) mod 64 = a mod 4 * 16 + r" "r < 4 \<Longrightarrow> (a * 4 + r) mod 64 = a mod 16 * 4 + r"
    using mod_add_left_eq [of "a * 16" 64 r] mod_add_left_eq [of "a * 4" 64 r] unfolding m by simp_all
qed

lemma base64_read_bytes:
  "\<forall>b\<in>set bs. b < 256 \<Longrightarrow> base64_read (map (\<lambda>c. the (unsextet c)) (base64_bytes bs)) = Some bs"
proof (induction bs rule: base64_bytes.induct)
  case (4 a b c rest)
  then have "a div 4 < 64" "b div 16 < 16" "c div 64 < 4" by auto
  with 4 show ?case by (simp add: unsextet_sextet sextet_joined mult.commute [of 4] mult.commute [of 16])
next
  case (3 a b)
  then have "a div 4 < 64" "b div 16 < 16" by auto
  with 3 show ?case by (simp add: unsextet_sextet sextet_joined sextet_joined(2) [of 0, simplified])
next
  case (2 a)
  then have "a div 4 < 64" by auto
  with 2 show ?case by (simp add: unsextet_sextet sextet_joined(1) [of 0, simplified])
qed simp

lemma base64_decode_url: "base64_decode (base64_url s) = Some s"
proof -
  have a: "list_all (\<lambda>c. unsextet c \<noteq> None) (base64_bytes bs)" for bs
    by (induction bs rule: base64_bytes.induct) (simp_all add: unsextet_sextet)
  have b: "\<forall>b\<in>set (map (of_char :: char \<Rightarrow> nat) s). b < 256" by simp
  have "map (char_of \<circ> (of_char :: char \<Rightarrow> nat)) s = s" by (simp add: map_idI)
  then show ?thesis unfolding base64_decode_def base64_url_def base64_read_bytes [OF b]
    using a by simp
qed

end
