(* ===== verification/App_Token.thy ===== *)
theory App_Token
  imports Github_Credentials Helm_Values
begin

section \<open>The App's JWT: internal/githubapp/jwt.go\<close>

definition jwtBackdate :: duration where
  "jwtBackdate = 60 * second"

definition jwtLifetime :: duration where
  "jwtLifetime = 540 * second"

text \<open>The structs \<open>jwtHeader\<close> and \<open>jwtClaims\<close>, as \<open>encoding/json\<close> writes them.\<close>

definition jwt_header :: json where
  "jwt_header = JObj [(''alg'', JStr ''RS256''), (''typ'', JStr ''JWT'')]"

definition jwt_claims :: "int \<Rightarrow> int \<Rightarrow> string \<Rightarrow> json" where
  "jwt_claims issuedAt expiresAt issuer =
     JObj [(''iat'', JInt issuedAt), (''exp'', JInt expiresAt), (''iss'', JStr issuer)]"

definition sha256_digest :: "string \<Rightarrow> nat list" where
  "sha256_digest s =
     concat (map (\<lambda>w. map (byte_of (unat w)) [3, 2, 1, 0]) (sha256_words (map of_char s)))"

definition SignJWT :: "'k pk_lib \<Rightarrow> credentials \<Rightarrow> instant \<Rightarrow> string result" where
  "SignJWT pk cr now =
     (if cr_app_id cr = [] then Inl (Plain ''github: sign jwt: app id is empty'')
      else
        (case parsePrivateKey pk (cr_private_key cr) of
           Inl err \<Rightarrow> Inl (Wrapped ''github: sign jwt: '' err)
         | Inr key \<Rightarrow>
             let claims = jwt_claims (unix (now - jwtBackdate)) (unix (now + jwtLifetime)) (cr_app_id cr);
                 signingInput = base64_url (json_text jwt_header) @ ''.'' @ base64_url (json_text claims)
             in (case pk_sign pk key (sha256_digest signingInput) of
                   Inl err \<Rightarrow> Inl (Wrapped ''github: sign jwt: '' err)
                 | Inr sig \<Rightarrow> Inr (signingInput @ ''.'' @ base64_url sig))))"

subsection \<open>Numbers and objects read back\<close>

definition decimal :: "char \<Rightarrow> bool" where
  "decimal c \<longleftrightarrow> c \<in> set ''0123456789''"

lemma digits_append:
  assumes "list_all decimal ds" and "r = [] \<or> \<not> decimal (hd r)"
  shows "digits (ds @ r) = (ds, r)"
  using assms unfolding digits_def decimal_def [symmetric] by (cases r) (simp_all add: list_all_iff)

lemma digit_char_facts:
  assumes "d < 10"
  shows "decimal (digit_char d)" "index_byte ''0123456789'' (digit_char d) = Some d"
    "digit_char d = CHR ''0'' \<longleftrightarrow> d = 0"
proof -
  have "list_all (\<lambda>d. decimal (digit_char d) \<and> index_byte ''0123456789'' (digit_char d) = Some d
    \<and> (digit_char d = CHR ''0'' \<longleftrightarrow> d = 0)) [0..<10]" by code_simp
  with assms show "decimal (digit_char d)" "index_byte ''0123456789'' (digit_char d) = Some d"
    "digit_char d = CHR ''0'' \<longleftrightarrow> d = 0"
    unfolding list_all_iff by simp_all
qed

lemma nat_digits_set: "list_all decimal (nat_digits n)"
proof (induction n rule: nat_digits.induct)
  case (1 n)
  then show ?case by (subst nat_digits.simps) (simp add: digit_char_facts)
qed

lemma nat_digits_head: "n > 0 \<Longrightarrow> hd (nat_digits n) \<noteq> CHR ''0''"
proof (induction n rule: nat_digits.induct)
  case (1 n)
  then show ?case by (subst nat_digits.simps) (simp add: digit_char_facts)
qed

lemma nat_digits_leading: "\<not> (hd (nat_digits n) = CHR ''0'' \<and> length (nat_digits n) > 1)"
  using nat_digits_head [of n] by (cases "n = 0") (auto simp: nat_digits.simps [of 0])

definition decimal_value :: "char \<Rightarrow> int" where
  "decimal_value c = int (the (index_byte ''0123456789'' c))"

lemma decimal_value_char: "d < 10 \<Longrightarrow> decimal_value (digit_char d) = int d"
  unfolding decimal_value_def by (simp only: digit_char_facts option.sel)

lemma digits_val_fold: "digits_val s = fold (\<lambda>c n. n * 10 + decimal_value c) s 0"
  by (simp only: digits_val_def decimal_value_def)

lemma digits_val_nat_digits: "digits_val (nat_digits n) = int n"
  unfolding digits_val_fold
proof (induction n rule: nat_digits.induct)
  case (1 n)
  then show ?case by (subst nat_digits.simps) (simp add: decimal_value_char zdiv_int zmod_int)
qed

text \<open>A number stops before a comma or a closing bracket.\<close>

definition ends_value :: "string \<Rightarrow> bool" where
  "ends_value r \<longleftrightarrow> r = [] \<or> hd r = CHR '','' \<or> hd r = CHR ''}''"

lemma json_number_itoa:
  assumes "ends_value r"
  shows "json_number (itoa i @ r) = Some (JInt i, r)"
proof -
  have d: "digits (nat_digits n @ r) = (nat_digits n, r)" for n
    using assms by (intro digits_append nat_digits_set) (auto simp: ends_value_def decimal_def)
  have e: "r = [] \<or> (hd r \<noteq> CHR ''.'' \<and> hd r \<noteq> CHR ''e'' \<and> hd r \<noteq> CHR ''E'')"
    using assms by (auto simp: ends_value_def)
  have nd: "nat_digits n = c # cs \<Longrightarrow> c \<noteq> CHR ''-''" for n c cs
    using nat_digits_set [of n] by (auto simp: decimal_def)
  show ?thesis
  proof (cases "i < 0")
    case True
    then show ?thesis using e nat_digits_leading [of "nat (- i)"] d [of "nat (- i)"]
      by (cases r) (auto simp: json_number_def itoa_def Let_def digits_val_nat_digits)
  next
    case False
    obtain c cs where n: "nat_digits (nat i) = c # cs" by (cases "nat_digits (nat i)") auto
    then show ?thesis using False e nd [OF n] nat_digits_leading [of "nat i"] d [of "nat i"] digits_val_nat_digits [of "nat i"]
      by (cases r) (auto simp: json_number_def itoa_def Let_def)
  qed
qed

lemma itoa_head:
  obtains c cs where "itoa i = c # cs" "decimal c \<or> c = CHR ''-''"
proof (cases "itoa i")
  case (Cons c cs)
  moreover have "decimal c \<or> c = CHR ''-''"
    using Cons nat_digits_set [of "nat i"] by (auto simp: itoa_def split: if_splits)
  ultimately show ?thesis by (rule that)
qed simp

lemma json_value_int:
  assumes "ends_value r"
  shows "json_value (Suc f) (itoa i @ r) = Some (JInt i, r)"
proof -
  obtain c cs where c: "itoa i = c # cs" "decimal c \<or> c = CHR ''-''" by (rule itoa_head)
  then have "\<not> json_space c" "c \<noteq> CHR 0x22" "c \<noteq> CHR ''[''" "c \<noteq> CHR ''{''" "c \<noteq> CHR ''t''" "c \<noteq> CHR ''f''" "c \<noteq> CHR ''n''"
    by (auto simp: decimal_def json_space_def)
  then show ?thesis using json_number_itoa [OF assms, of i] by (simp add: c(1) has_prefix_def)
qed

lemma json_value_string: "json_value (Suc f) (json_quote s @ r) = Some (JStr s, r)"
  by (simp add: json_quote_def json_space_def json_chars_quote)

text \<open>Members are read one at a time.\<close>

lemma json_members_next:
  "json_value f (v @ CHR '','' # ds) = Some (j, CHR '','' # ds) \<Longrightarrow> json_members f ds = Some (ms, r) \<Longrightarrow>
    json_members (Suc f) (json_quote k @ CHR '':'' # v @ CHR '','' # ds) = Some ((k, j) # ms, r)"
  "json_value f (v @ CHR ''}'' # ds) = Some (j, CHR ''}'' # ds) \<Longrightarrow>
    json_members (Suc f) (json_quote k @ CHR '':'' # v @ CHR ''}'' # ds) = Some ([(k, j)], ds)"
  by (simp_all add: json_quote_def json_space_def json_chars_quote)

lemma json_value_object:
  "json_members f (json_quote k @ s) = Some (ms, r) \<Longrightarrow> json_value (Suc f) (CHR ''{'' # json_quote k @ s) = Some (JObj ms, r)"
  by (simp add: json_quote_def json_space_def)

lemma claims_read:
  "json_decode (json_text (jwt_claims i e a)) = Some (jwt_claims i e a, [])"
proof -
  let ?t = "json_text (jwt_claims i e a)"
  let ?s3 = "json_quote ''iss'' @ CHR '':'' # json_quote a @ ''}''"
  let ?s2 = "json_quote ''exp'' @ CHR '':'' # itoa e @ CHR '','' # ?s3"
  let ?s1 = "json_quote ''iat'' @ CHR '':'' # itoa i @ CHR '','' # ?s2"
  have t: "?t = CHR ''{'' # ?s1" by (simp add: jwt_claims_def)
  have "json_value (Suc (Suc (Suc (Suc (Suc f))))) ?t = Some (jwt_claims i e a, [])" for f
    unfolding t unfolding jwt_claims_def
    by (intro json_value_object json_members_next json_value_int json_value_string) (simp_all add: ends_value_def)
  moreover obtain f where "2 * length ?t + 1 = Suc (Suc (Suc (Suc (Suc f))))"
    by (auto simp: t json_quote_def)
  ultimately show ?thesis unfolding json_decode_def by simp
qed

subsection \<open>Segments\<close>

lemma split_on_none: "c \<notin> set s \<Longrightarrow> split_on c s = [s]"
  by (induction s) auto

lemma split_on_first: "c \<notin> set s \<Longrightarrow> split_on c (s @ c # t) = s # split_on c t"
  by (induction s) auto

lemma jwt_segments:
  "split_on (CHR ''.'') ((base64_url h @ ''.'' @ base64_url c) @ ''.'' @ base64_url s)
     = [base64_url h, base64_url c, base64_url s]"
  using base64_no_dot by (simp add: split_on_first split_on_none)

lemma unix_window: "unix (now + jwtLifetime) = unix now + 540" "unix (now - jwtBackdate) = unix now - 60"
  using div_mult_self1 [of second now 540] div_mult_self1 [of second now "- 60"]
  by (simp_all add: unix_def jwtLifetime_def jwtBackdate_def)

lemma header_read: "json_decode (json_text jwt_header) = Some (jwt_header, [])"
  by code_simp

text \<open>C40 An App token reads back: a signed JWT is three base64url segments without dots in them; the first
  decodes to the RS256 header, the second to claims issued a minute before the clock reading, expiring
  nine minutes after it and naming the App, so that the token is valid for the ten minutes GitHub
  allows at most; the third is the signature, under the key of the credentials, of the SHA-256 digest
  of the first two.\<close>

theorem app_jwt_reads_back:
  assumes "SignJWT pk cr now = Inr jwt"
  shows "\<exists>h c sg claims key sig. split_on (CHR ''.'') jwt = [h, c, sg]
    \<and> Option.bind (base64_decode h) json_decode = Some (jwt_header, [])
    \<and> Option.bind (base64_decode c) json_decode = Some (claims, [])
    \<and> claims = jwt_claims (unix now - 60) (unix now + 540) (cr_app_id cr) \<and> cr_app_id cr \<noteq> []
    \<and> parsePrivateKey pk (cr_private_key cr) = Inr key
    \<and> pk_sign pk key (sha256_digest (h @ ''.'' @ c)) = Inr sig \<and> base64_decode sg = Some sig"
proof -
  let ?h = "base64_url (json_text jwt_header)"
  let ?c = "base64_url (json_text (jwt_claims (unix now - 60) (unix now + 540) (cr_app_id cr)))"
  obtain key sig where k: "cr_app_id cr \<noteq> []" "parsePrivateKey pk (cr_private_key cr) = Inr key"
    "pk_sign pk key (sha256_digest (?h @ ''.'' @ ?c)) = Inr sig" "jwt = (?h @ ''.'' @ ?c) @ ''.'' @ base64_url sig"
    using assms unfolding SignJWT_def Let_def unix_window by (auto split: if_splits sum.splits)
  show ?thesis unfolding k(4) jwt_segments
    by (intro exI conjI, rule refl)
      (rule k(1-3) base64_decode_url refl | simp only: base64_decode_url header_read claims_read Option.bind.bind_lunit)+
qed

definition pk_demo :: "string pk_lib" where
  "pk_demo =
     \<lparr>pk_pem = (\<lambda>s. if s = [] then None else Some s), pk_pkcs1 = Inr, pk_pkcs8 = (\<lambda>s. Inr (OtherKey s)),
      pk_sign = (\<lambda>key _. Inr key)\<rparr>"

definition app_demo :: credentials where
  "app_demo = \<lparr>cr_app_id = ''7'', cr_installation_id = ''42'', cr_private_key = ''pem''\<rparr>"

lemma app_demo_signs: "\<exists>jwt. SignJWT pk_demo app_demo now = Inr jwt"
  by (simp add: SignJWT_def pk_demo_def app_demo_def parsePrivateKey_def Let_def)

theorem app_jwt_reads_back_witness:
  "\<exists>jwt h c sg. SignJWT pk_demo app_demo 0 = Inr jwt \<and> split_on (CHR ''.'') jwt = [h, c, sg]
    \<and> Option.bind (base64_decode c) json_decode = Some (jwt_claims (- 60) 540 ''7'', [])"
proof -
  obtain jwt where jwt: "SignJWT pk_demo app_demo 0 = Inr jwt" using app_demo_signs by blast
  from app_jwt_reads_back [OF jwt] jwt show ?thesis by (auto simp: app_demo_def unix_def)
qed

end
