(* ===== verification/Github_Client.thy ===== *)
theory Github_Client
  imports App_Token Handler_Api Url_Parse
begin

section \<open>The GitHub App client: internal/githubapp/client.go, migrationcheck_report.go\<close>

text \<open>
  The client keeps one installation token per App and installation and sends the check-run requests
  of the operator. Its token table is part of the state its programs run on, next to an arbitrary
  environment that answers the requests, reads the Secret and tells the time; each section under the
  mutex is one entry of the call log.
\<close>

subsection \<open>State and calls\<close>

record cached_token =
  ct_token :: string
  ct_renew_at :: instant

record 'w gh_world =
  gw_env :: 'w
  gw_tokens :: "string \<Rightarrow> cached_token option"

datatype gh_answer = DoFailed goerr | ReadFailed int goerr | Answered int string

datatype gh_call =
    GhNow instant
  | GhHttp http_request gh_answer
  | GhSecret string string "secret result"
  | TokenRead string "cached_token option"
  | TokenStore string cached_token
  | TokenDrop string

record ('k, 'w) github_api =
  gh_base :: string
  gh_lib :: klib
  gh_pk :: "'k pk_lib"
  gh_http :: "http_request \<Rightarrow> 'w \<Rightarrow> gh_answer \<times> 'w"
  gh_now :: "'w \<Rightarrow> instant \<times> 'w"
  gh_get_secret :: "string \<Rightarrow> string \<Rightarrow> 'w \<Rightarrow> secret result \<times> 'w"

type_synonym ('w, 'a) gprog = "('w gh_world, gh_call, 'a) prog"

definition DefaultBaseURL :: string where
  "DefaultBaseURL = ''https://api.github.com''"

definition NewClient ::
  "string \<Rightarrow> klib \<Rightarrow> 'k pk_lib \<Rightarrow> (http_request \<Rightarrow> 'w \<Rightarrow> gh_answer \<times> 'w) \<Rightarrow> ('w \<Rightarrow> instant \<times> 'w)
   \<Rightarrow> (string \<Rightarrow> string \<Rightarrow> 'w \<Rightarrow> secret result \<times> 'w) \<Rightarrow> ('k, 'w) github_api" where
  "NewClient baseURL lib pk http now secrets =
     \<lparr>gh_base = trim_suffix baseURL ''/'', gh_lib = lib, gh_pk = pk, gh_http = http, gh_now = now,
      gh_get_secret = secrets\<rparr>"

text \<open>A new client holds no token.\<close>

definition new_world :: "'w \<Rightarrow> 'w gh_world" where
  "new_world w = \<lparr>gw_env = w, gw_tokens = Map.empty\<rparr>"

definition on_env :: "('w \<Rightarrow> 'a \<times> 'w) \<Rightarrow> 'w gh_world \<Rightarrow> 'a \<times> 'w gh_world" where
  "on_env g w = (case g (gw_env w) of (a, e) \<Rightarrow> (a, w\<lparr>gw_env := e\<rparr>))"

definition clock :: "('k, 'w) github_api \<Rightarrow> ('w, instant) gprog" where
  "clock api = operate (on_env (gh_now api)) GhNow"

definition token_get :: "string \<Rightarrow> ('w, cached_token option) gprog" where
  "token_get key = operate (\<lambda>w. (gw_tokens w key, w)) (TokenRead key)"

definition token_put :: "string \<Rightarrow> cached_token \<Rightarrow> ('w, unit) gprog" where
  "token_put key c = operate (\<lambda>w. ((), w\<lparr>gw_tokens := (gw_tokens w)(key \<mapsto> c)\<rparr>)) (\<lambda>_. TokenStore key c)"

definition invalidateToken :: "credentials \<Rightarrow> ('w, unit) gprog" where
  "invalidateToken cr =
     operate (\<lambda>w. ((), w\<lparr>gw_tokens := (gw_tokens w)(cacheKey cr := None)\<rparr>)) (\<lambda>_. TokenDrop (cacheKey cr))"

subsection \<open>One request\<close>

definition acceptHeader :: string where
  "acceptHeader = ''application/vnd.github+json''"

definition apiVersionHeader :: string where
  "apiVersionHeader = ''2022-11-28''"

definition errBodyLimit :: nat where
  "errBodyLimit = 512"

definition redactURL :: "string \<Rightarrow> string" where
  "redactURL url = (case index_byte url (CHR ''?'') of Some i \<Rightarrow> take i url | None \<Rightarrow> url)"

definition statusError :: "int \<Rightarrow> string \<Rightarrow> goerr" where
  "statusError status body =
     Plain (''unexpected status '' @ itoa status @ '': '' @ trim_space (take errBodyLimit body))"

text \<open>The request \<open>do\<close> builds; no body is the empty text.\<close>

definition gh_request :: "string \<Rightarrow> string \<Rightarrow> string \<Rightarrow> string option \<Rightarrow> http_request" where
  "gh_request meth url authorization body =
     \<lparr>rq_method = meth, rq_url = url,
      rq_headers = [(''Authorization'', authorization), (''Accept'', acceptHeader),
                    (''X-GitHub-Api-Version'', apiVersionHeader)]
        @ (if body \<noteq> None then [(''Content-Type'', ''application/json'')] else []),
      rq_body = (case body of Some b \<Rightarrow> b | None \<Rightarrow> [])\<rparr>"

definition gh_do ::
  "('k, 'w) github_api \<Rightarrow> string \<Rightarrow> string \<Rightarrow> string \<Rightarrow> string option \<Rightarrow> ('w, (int \<times> string) result) gprog" where
  "gh_do api meth url authorization body =
     (case url_parse url of
        None \<Rightarrow> State_Monad.return (Inl (Wrapped (''build '' @ meth @ '' request: '') (Plain (''parse '' @ go_quote url))))
      | Some _ \<Rightarrow> do {
          a \<leftarrow> operate (on_env (gh_http api (gh_request meth url authorization body)))
                (GhHttp (gh_request meth url authorization body));
          State_Monad.return
            (case a of
               DoFailed err \<Rightarrow> Inl (Wrapped (meth @ '' '' @ redactURL url @ '': '') err)
             | ReadFailed status err \<Rightarrow> Inl (Wrapped ''read response body: '' err)
             | Answered status b \<Rightarrow> Inr (status, b))
        })"

subsection \<open>Reading responses\<close>

text \<open>\<open>json.Unmarshal\<close>: one value and nothing after it.\<close>

definition unmarshal :: "string \<Rightarrow> json option" where
  "unmarshal s =
     (case json_decode s of Some (j, rest) \<Rightarrow> if skip_space rest = [] then Some j else None | None \<Rightarrow> None)"

record token_response =
  tr_token :: string
  tr_expires_at :: string

fun token_fields :: "(string \<times> json) list \<Rightarrow> token_response \<Rightarrow> token_response option" where
  "token_fields [] t = Some t"
| "token_fields ((k, v) # fs) t =
     (if equal_fold k ''token'' then
        (case v of JStr s \<Rightarrow> token_fields fs (t\<lparr>tr_token := s\<rparr>) | JNull \<Rightarrow> token_fields fs t | _ \<Rightarrow> None)
      else if equal_fold k ''expires_at'' then
        (case v of JStr s \<Rightarrow> token_fields fs (t\<lparr>tr_expires_at := s\<rparr>) | JNull \<Rightarrow> token_fields fs t | _ \<Rightarrow> None)
      else token_fields fs t)"

definition decode_token :: "string \<Rightarrow> token_response option" where
  "decode_token body =
     (case unmarshal body of
        Some (JObj fs) \<Rightarrow> token_fields fs \<lparr>tr_token = [], tr_expires_at = []\<rparr>
      | Some JNull \<Rightarrow> Some \<lparr>tr_token = [], tr_expires_at = []\<rparr>
      | _ \<Rightarrow> None)"

fun id_fields :: "(string \<times> json) list \<Rightarrow> int \<Rightarrow> int option" where
  "id_fields [] i = Some i"
| "id_fields ((k, v) # fs) i =
     (if equal_fold k ''id'' then
        (case v of
           JInt n \<Rightarrow> if - (2 ^ 63) \<le> n \<and> n < 2 ^ 63 then id_fields fs n else None
         | JNull \<Rightarrow> id_fields fs i
         | _ \<Rightarrow> None)
      else id_fields fs i)"

definition decode_id :: "string \<Rightarrow> int option" where
  "decode_id body =
     (case unmarshal body of Some (JObj fs) \<Rightarrow> id_fields fs 0 | Some JNull \<Rightarrow> Some 0 | _ \<Rightarrow> None)"

subsection \<open>Installation tokens\<close>

definition tokenRenewMargin :: duration where
  "tokenRenewMargin = 300 * second"

definition bearer :: "string \<Rightarrow> string" where
  "bearer t = ''Bearer '' @ t"

definition token_url :: "string \<Rightarrow> credentials \<Rightarrow> string" where
  "token_url base cr = base @ ''/app/installations/'' @ cr_installation_id cr @ ''/access_tokens''"

definition token_error :: "goerr \<Rightarrow> goerr" where
  "token_error err = Wrapped ''github: installation token: '' err"

text \<open>What the answer to a mint is worth: a token, with the instant it stops being used, or an error.\<close>

definition minted_token :: "(int \<times> string) result \<Rightarrow> cached_token result" where
  "minted_token a =
     (case a of
        Inl err \<Rightarrow> Inl (token_error err)
      | Inr (status, body) \<Rightarrow>
          if status \<noteq> 201 then Inl (token_error (statusError status body))
          else
            (case decode_token body of
               None \<Rightarrow> Inl (token_error (Plain ''decode response''))
             | Some tr \<Rightarrow>
                 if tr_token tr = [] then Inl (token_error (Plain ''response carried no token''))
                 else
                   (case parse_rfc3339 (tr_expires_at tr) of
                      None \<Rightarrow> Inl (token_error (Plain ''parse expires_at''))
                    | Some expiresAt \<Rightarrow>
                        Inr \<lparr>ct_token = tr_token tr, ct_renew_at = expiresAt - tokenRenewMargin\<rparr>)))"

text \<open>The first half of \<open>InstallationToken\<close>: the cached token, while the clock is before its renewal.\<close>

definition usable_token :: "('k, 'w) github_api \<Rightarrow> cached_token option \<Rightarrow> ('w, string option) gprog" where
  "usable_token api cached =
     (case cached of
        None \<Rightarrow> State_Monad.return None
      | Some c \<Rightarrow> do {
          now \<leftarrow> clock api;
          State_Monad.return (if now < ct_renew_at c then Some (ct_token c) else None)
        })"

definition mint :: "('k, 'w) github_api \<Rightarrow> credentials \<Rightarrow> ('w, string result) gprog" where
  "mint api cr =
     do {
       now \<leftarrow> clock api;
       case SignJWT (gh_pk api) cr now of
         Inl err \<Rightarrow> State_Monad.return (Inl err)
       | Inr jwt \<Rightarrow> do {
           a \<leftarrow> gh_do api ''POST'' (token_url (gh_base api) cr) (bearer jwt) None;
           case minted_token a of
             Inl err \<Rightarrow> State_Monad.return (Inl err)
           | Inr c \<Rightarrow> do {
               token_put (cacheKey cr) c;
               State_Monad.return (Inr (ct_token c))
             }
         }
     }"

definition InstallationToken :: "('k, 'w) github_api \<Rightarrow> credentials \<Rightarrow> ('w, string result) gprog" where
  "InstallationToken api cr =
     do {
       cached \<leftarrow> token_get (cacheKey cr);
       usable \<leftarrow> usable_token api cached;
       case usable of
         Some t \<Rightarrow> State_Monad.return (Inr t)
       | None \<Rightarrow> mint api cr
     }"

subsection \<open>Check runs\<close>

text \<open>\<open>json.Marshal\<close> of a map: its keys sorted.\<close>

fun sort_json :: "json \<Rightarrow> json" where
  "sort_json (JObj fs) = JObj (sort_key fst (map (\<lambda>(k, v). (k, sort_json v)) fs))"
| "sort_json (JArr xs) = JArr (map sort_json xs)"
| "sort_json j = j"

definition checkRunRequest ::
  "('k, 'w) github_api \<Rightarrow> credentials \<Rightarrow> string \<Rightarrow> string \<Rightarrow> (string \<times> json) list \<Rightarrow> int \<Rightarrow> ('w, string result) gprog" where
  "checkRunRequest api cr meth url payload wantStatus =
     do {
       t \<leftarrow> InstallationToken api cr;
       case t of
         Inl err \<Rightarrow> State_Monad.return (Inl err)
       | Inr token \<Rightarrow> do {
           a \<leftarrow> gh_do api meth url (bearer token) (Some (json_text (sort_json (JObj payload))));
           case a of
             Inl err \<Rightarrow> State_Monad.return (Inl err)
           | Inr (status, body) \<Rightarrow> do {
               whenM (status = 401) (invalidateToken cr);
               State_Monad.return (if status \<noteq> wantStatus then Inl (statusError status body) else Inr body)
             }
         }
     }"

definition check_runs_url :: "string \<Rightarrow> string \<Rightarrow> string" where
  "check_runs_url base repo = base @ ''/repos/'' @ repo @ ''/check-runs''"

definition check_run_url :: "string \<Rightarrow> string \<Rightarrow> int \<Rightarrow> string" where
  "check_run_url base repo i = base @ ''/repos/'' @ repo @ ''/check-runs/'' @ itoa i"

definition CreateCheckRun ::
  "('k, 'w) github_api \<Rightarrow> credentials \<Rightarrow> string \<Rightarrow> check_run \<Rightarrow> ('w, int result) gprog" where
  "CreateCheckRun api cr repo run =
     do {
       a \<leftarrow> checkRunRequest api cr ''POST'' (check_runs_url (gh_base api) repo) (run_body (gh_lib api) run True) 201;
       State_Monad.return
         (case a of
            Inl err \<Rightarrow> Inl (Wrapped ''github: create check run: '' err)
          | Inr body \<Rightarrow>
              (case decode_id body of
                 None \<Rightarrow> Inl (Wrapped ''github: create check run: '' (Plain ''decode response''))
               | Some i \<Rightarrow> Inr i))
     }"

definition UpdateCheckRun ::
  "('k, 'w) github_api \<Rightarrow> credentials \<Rightarrow> string \<Rightarrow> int \<Rightarrow> check_run \<Rightarrow> ('w, goerr option) gprog" where
  "UpdateCheckRun api cr repo i run =
     do {
       a \<leftarrow> checkRunRequest api cr ''PATCH'' (check_run_url (gh_base api) repo i) (run_body (gh_lib api) run False) 200;
       State_Monad.return (case a of Inl err \<Rightarrow> Some (Wrapped ''github: update check run: '' err) | Inr _ \<Rightarrow> None)
     }"

subsection \<open>The reporter of the MigrationCheck reconciler\<close>

text \<open>
  \<open>GitHubAppReporter\<close>: the Secret is named by the operator, and a repository outside the prefix is
  refused. The id that Go returns next to an error is not used by the caller.
\<close>

record reporter =
  rp_secret_ns :: string
  rp_secret_name :: string
  rp_prefix :: string

definition ReportCheckRun ::
  "('k, 'w) github_api \<Rightarrow> reporter \<Rightarrow> mig_report \<Rightarrow> int \<Rightarrow> check_run \<Rightarrow> ('w, int result) gprog" where
  "ReportCheckRun api rp report existingID run =
     (let ref = rp_secret_ns rp @ ''/'' @ rp_secret_name rp in
      if mrp_provider report \<noteq> [] \<and> mrp_provider report \<noteq> ''github'' then
        State_Monad.return (Inl (Plain (''unsupported report provider '' @ go_quote (mrp_provider report))))
      else if rp_prefix rp \<noteq> [] \<and> \<not> has_prefix (mrp_repo report) (rp_prefix rp) then
        State_Monad.return (Inl (Plain (''refusing to report on '' @ go_quote (mrp_repo report)
          @ '': outside the allowed prefix '' @ go_quote (rp_prefix rp))))
      else do {
        s \<leftarrow> operate (on_env (gh_get_secret api (rp_secret_ns rp) (rp_secret_name rp)))
              (GhSecret (rp_secret_ns rp) (rp_secret_name rp));
        case s of
          Inl err \<Rightarrow> State_Monad.return (Inl (Wrapped (''read github app secret '' @ ref @ '': '') err))
        | Inr sec \<Rightarrow>
            (case CredentialsFromSecretData (sec_data sec) of
               Inl err \<Rightarrow> State_Monad.return (Inl (Wrapped (''github app secret '' @ ref @ '': '') err))
             | Inr creds \<Rightarrow>
                 if existingID = 0 then CreateCheckRun api creds (mrp_repo report) run
                 else do {
                   r \<leftarrow> UpdateCheckRun api creds (mrp_repo report) existingID run;
                   State_Monad.return (case r of Some err \<Rightarrow> Inl err | None \<Rightarrow> Inr existingID)
                 })
      })"

text \<open>The reporter as the operation the MigrationCheck reconciler calls.\<close>

definition github_report ::
  "('k, 'w) github_api \<Rightarrow> reporter \<Rightarrow> mig_report \<Rightarrow> int \<Rightarrow> check_run \<Rightarrow> 'w gh_world \<Rightarrow> int result \<times> 'w gh_world" where
  "github_report api rp report existingID run w =
     (case run_state (ReportCheckRun api rp report existingID run) \<lparr>world = w, calls = []\<rparr> of
        (r, s) \<Rightarrow> (r, world s))"

end
