(* ===== verification/Github_Run.thy ===== *)
theory Github_Run
  imports Github_Client
begin

section \<open>Tokens and reports over the life of a client\<close>

text \<open>
  What the client promises over any sequence of requests, for any answers of the environment: the
  token of a request was minted for the same App and installation and is neither spent nor known to
  be refused. \<open>wpt\<close> follows the token table through a program, next to the log.
\<close>

type_synonym token_table = "string \<Rightarrow> cached_token option"

definition wpt :: "('w, 'a) gprog \<Rightarrow> token_table \<Rightarrow> ('a \<Rightarrow> gh_call list \<Rightarrow> token_table \<Rightarrow> bool) \<Rightarrow> bool" where
  "wpt m T P \<longleftrightarrow>
     (\<forall>s. gw_tokens (world s) = T \<longrightarrow>
        (\<exists>xs. calls (snd (run_state m s)) = calls s @ xs
           \<and> P (fst (run_state m s)) xs (gw_tokens (world (snd (run_state m s))))))"

lemma wpt_run:
  "wpt m (gw_tokens w) P \<Longrightarrow> run_state m \<lparr>world = w, calls = []\<rparr> = (r, s) \<Longrightarrow> P r (calls s) (gw_tokens (world s))"
  unfolding wpt_def by (metis append_Nil fst_conv snd_conv sys.select_convs)

named_theorems wpt_rules \<open>rules for programs over the token table\<close>

lemma wpt_return [wpt_rules]: "P a [] T \<Longrightarrow> wpt (State_Monad.return a) T P"
  by (simp add: wpt_def run_simps)

lemma wpt_bind [wpt_rules]:
  assumes "wpt m T (\<lambda>a xs T1. wpt (f a) T1 (\<lambda>b ys T2. P b (xs @ ys) T2))"
  shows "wpt (State_Monad.bind m f) T P"
  unfolding wpt_def
proof (intro allI impI)
  fix s :: "('a gh_world, gh_call) sys"
  assume T: "gw_tokens (world s) = T"
  obtain a s1 where m: "run_state m s = (a, s1)" by fastforce
  with assms T obtain xs where xs: "calls s1 = calls s @ xs"
    and f: "wpt (f a) (gw_tokens (world s1)) (\<lambda>b ys T2. P b (xs @ ys) T2)"
    unfolding wpt_def by (metis fst_conv snd_conv)
  obtain b s2 where fa: "run_state (f a) s1 = (b, s2)" by fastforce
  with f obtain ys where "calls s2 = calls s1 @ ys" "P b (xs @ ys) (gw_tokens (world s2))"
    unfolding wpt_def by (metis fst_conv snd_conv)
  then show "\<exists>zs. calls (snd (run_state (State_Monad.bind m f) s)) = calls s @ zs
      \<and> P (fst (run_state (State_Monad.bind m f) s)) zs (gw_tokens (world (snd (run_state (State_Monad.bind m f) s))))"
    using xs m fa by (simp add: run_bind)
qed

lemma wpt_weaken:
  assumes "wpt m T P" and "\<And>a xs T1. P a xs T1 \<Longrightarrow> Q a xs T1"
  shows "wpt m T Q"
  using assms unfolding wpt_def by blast

lemma wpt_bindI:
  assumes "wpt m T P" and "\<And>a xs T1. P a xs T1 \<Longrightarrow> wpt (f a) T1 (\<lambda>b ys T2. Q b (xs @ ys) T2)"
  shows "wpt (State_Monad.bind m f) T Q"
  by (rule wpt_bind) (rule wpt_weaken [OF assms])

lemma wpt_env [wpt_rules]: "(\<And>a. P a [c a] T) \<Longrightarrow> wpt (operate (on_env g) c) T P"
  by (auto simp: wpt_def operate_def on_env_def split: prod.split)

lemma wpt_clock [wpt_rules]: "(\<And>t. P t [GhNow t] T) \<Longrightarrow> wpt (clock api) T P"
  unfolding clock_def by (rule wpt_env)

lemma wpt_token_get [wpt_rules]: "P (T key) [TokenRead key (T key)] T \<Longrightarrow> wpt (token_get key) T P"
  by (auto simp: wpt_def token_get_def operate_def)

lemma wpt_token_put [wpt_rules]: "P () [TokenStore key c] (T(key \<mapsto> c)) \<Longrightarrow> wpt (token_put key c) T P"
  by (auto simp: wpt_def token_put_def operate_def)

lemma wpt_invalidateToken [wpt_rules]:
  "P () [TokenDrop (cacheKey cr)] (T(cacheKey cr := None)) \<Longrightarrow> wpt (invalidateToken cr) T P"
  by (auto simp: wpt_def invalidateToken_def operate_def)

lemma wpt_cases [wpt_rules]:
  "(\<And>e. r = Inl e \<Longrightarrow> wpt (f e) T P) \<Longrightarrow> (\<And>v. r = Inr v \<Longrightarrow> wpt (g v) T P) \<Longrightarrow>
   wpt (case r of Inl e \<Rightarrow> f e | Inr v \<Rightarrow> g v) T P"
  "(x = None \<Longrightarrow> wpt m T P) \<Longrightarrow> (\<And>a. x = Some a \<Longrightarrow> wpt (k a) T P) \<Longrightarrow>
   wpt (case x of None \<Rightarrow> m | Some a \<Rightarrow> k a) T P"
  "(\<And>a b. p = (a, b) \<Longrightarrow> wpt (h a b) T P) \<Longrightarrow> wpt (case p of (a, b) \<Rightarrow> h a b) T P"
  by (simp_all split: sum.split option.split prod.split)

lemma wpt_whenM [wpt_rules]:
  "(b \<Longrightarrow> wpt m T P) \<Longrightarrow> (\<not> b \<Longrightarrow> P () [] T) \<Longrightarrow> wpt (whenM b m) T P"
  by (auto simp: whenM_def intro: wpt_return)

subsection \<open>What the log shows\<close>

text \<open>A request of the client with a body, by its token; one that was refused; and a mint.\<close>

definition bears :: "gh_call \<Rightarrow> string \<Rightarrow> bool" where
  "bears x t \<longleftrightarrow> (\<exists>meth url body a. x = GhHttp (gh_request meth url (bearer t) (Some body)) a)"

definition refused :: "gh_call \<Rightarrow> bool" where
  "refused x \<longleftrightarrow>
     (\<exists>meth url auth body answer. x = GhHttp (gh_request meth url auth (Some body)) (Answered 401 answer))"

text \<open>What a successful answer says: a token, and an expiry a margin after its renewal.\<close>

definition grants :: "string \<Rightarrow> cached_token \<Rightarrow> bool" where
  "grants body c \<longleftrightarrow>
     (\<exists>tr. decode_token body = Some tr \<and> ct_token c = tr_token tr \<and> tr_token tr \<noteq> []
        \<and> parse_rfc3339 (tr_expires_at tr) = Some (ct_renew_at c + tokenRenewMargin))"

definition minted :: "('k, 'w) github_api \<Rightarrow> credentials \<Rightarrow> cached_token \<Rightarrow> gh_call list \<Rightarrow> bool" where
  "minted api cr c xs \<longleftrightarrow>
     (\<exists>now jwt body.
        GhNow now \<in> set xs \<and> SignJWT (gh_pk api) cr now = Inr jwt
        \<and> GhHttp (gh_request ''POST'' (token_url (gh_base api) cr) (bearer jwt) None) (Answered 201 body) \<in> set xs
        \<and> grants body c)"

lemma gh_request_body [simp]:
  "gh_request m u a None = gh_request m' u' a' (Some b) \<longleftrightarrow> False"
  "gh_request m' u' a' (Some b) = gh_request m u a None \<longleftrightarrow> False"
  by (simp_all add: gh_request_def)

lemma gh_request_inject [simp]:
  "gh_request m u a (Some b) = gh_request m' u' a' (Some b') \<longleftrightarrow> m = m' \<and> u = u' \<and> a = a' \<and> b = b'"
  by (simp add: gh_request_def)

lemma bearer_inject [simp]: "bearer t = bearer t' \<longleftrightarrow> t = t'"
  by (simp add: bearer_def)

definition bodyless :: "gh_call \<Rightarrow> bool" where
  "bodyless x \<longleftrightarrow> \<not> (\<exists>meth url auth body a. x = GhHttp (gh_request meth url auth (Some body)) a)"

lemma bodyless_facts: "bodyless x \<Longrightarrow> \<not> bears x t" "bodyless x \<Longrightarrow> \<not> refused x"
  by (auto simp: bodyless_def bears_def refused_def)

lemma minted_mono: "minted api cr c xs \<Longrightarrow> set xs \<subseteq> set ys \<Longrightarrow> minted api cr c ys"
  unfolding minted_def by blast

lemma minted_token_grants: "minted_token (Inr (status, body)) = Inr c \<Longrightarrow> status = 201 \<and> grants body c"
  by (auto simp: minted_token_def grants_def split: if_splits option.splits)

subsection \<open>The routines\<close>

lemma wpt_gh_do:
  assumes "\<And>err. P (Inl err) [] T"
    and "\<And>a err. (\<And>status b. a \<noteq> Answered status b) \<Longrightarrow> P (Inl err) [GhHttp (gh_request meth url auth body) a] T"
    and "\<And>status b. P (Inr (status, b)) [GhHttp (gh_request meth url auth body) (Answered status b)] T"
  shows "wpt (gh_do api meth url auth body) T P"
  unfolding gh_do_def
  by (intro wpt_rules) (auto simp: assms split: gh_answer.split)

definition mint_post :: "('k, 'w) github_api \<Rightarrow> credentials \<Rightarrow> token_table \<Rightarrow> string result \<Rightarrow> gh_call list \<Rightarrow> token_table \<Rightarrow> bool" where
  "mint_post api cr T r xs T1 \<longleftrightarrow>
     list_all bodyless xs
     \<and> (case r of
          Inl err \<Rightarrow> T1 = T
        | Inr t \<Rightarrow> \<exists>c. ct_token c = t \<and> minted api cr c xs \<and> T1 = T(cacheKey cr \<mapsto> c))"

lemma mint_wpt: "wpt (mint api cr) T (mint_post api cr T)"
proof -
  have "mint_post api cr T (Inr (ct_token c)) [GhNow now, GhHttp (gh_request ''POST'' (token_url (gh_base api) cr) (bearer jwt) None) (Answered status b), TokenStore (cacheKey cr) c] (T(cacheKey cr \<mapsto> c))"
    if "SignJWT (gh_pk api) cr now = Inr jwt" "minted_token (Inr (status, b)) = Inr c" for now jwt status b c
    using that minted_token_grants [OF that(2)] by (auto simp: mint_post_def minted_def bodyless_def)
  then show ?thesis
    unfolding mint_def
    by (intro wpt_rules wpt_gh_do) (auto simp: mint_post_def bodyless_def minted_token_def)
qed

definition usable_in :: "token_table \<Rightarrow> string \<Rightarrow> cached_token \<Rightarrow> gh_call list \<Rightarrow> bool" where
  "usable_in T key c xs \<longleftrightarrow> T key = Some c \<and> (\<exists>now. GhNow now \<in> set xs \<and> now < ct_renew_at c)"

definition token_post :: "('k, 'w) github_api \<Rightarrow> credentials \<Rightarrow> token_table \<Rightarrow> string result \<Rightarrow> gh_call list \<Rightarrow> token_table \<Rightarrow> bool" where
  "token_post api cr T r xs T1 \<longleftrightarrow>
     list_all bodyless xs
     \<and> (case r of
          Inl err \<Rightarrow> T1 = T
        | Inr t \<Rightarrow> \<exists>c. ct_token c = t
            \<and> (minted api cr c xs \<and> T1 = T(cacheKey cr \<mapsto> c) \<or> usable_in T (cacheKey cr) c xs \<and> T1 = T))"

lemma usable_token_wpt:
  "wpt (usable_token api cached) T (\<lambda>u xs T1. T1 = T \<and> list_all bodyless xs
     \<and> (\<forall>t. u = Some t \<longrightarrow> (\<exists>c. cached = Some c \<and> ct_token c = t \<and> (\<exists>now. GhNow now \<in> set xs \<and> now < ct_renew_at c))))"
  unfolding usable_token_def by (intro wpt_rules) (auto simp: bodyless_def)

lemma mint_token_post:
  assumes "mint_post api cr T r ys T1" and "list_all bodyless ys0"
  shows "token_post api cr T r (ys0 @ ys) T1"
proof (cases r)
  case (Inr t)
  with assms obtain c where "ct_token c = t" "minted api cr c ys" "T1 = T(cacheKey cr \<mapsto> c)"
    by (auto simp: mint_post_def)
  moreover have "minted api cr c (ys0 @ ys)" by (rule minted_mono [OF \<open>minted api cr c ys\<close>]) simp
  ultimately show ?thesis using assms Inr by (auto simp: mint_post_def token_post_def intro!: exI [of _ c])
qed (use assms in \<open>simp add: mint_post_def token_post_def\<close>)

lemma InstallationToken_wpt: "wpt (InstallationToken api cr) T (token_post api cr T)"
proof -
  have b: "bodyless (TokenRead k h)" for k h by (simp add: bodyless_def)
  have m: "list_all bodyless ys0 \<Longrightarrow> wpt (mint api cr) T (\<lambda>r ys. token_post api cr T r (ys0 @ ys))" for ys0
    by (rule wpt_weaken [OF mint_wpt mint_token_post])
  show ?thesis
    unfolding InstallationToken_def
  proof (rule wpt_bind, rule wpt_token_get, rule wpt_bindI [OF usable_token_wpt])
    let ?k = "cacheKey cr"
    fix u xs T1
    assume u: "T1 = T \<and> list_all bodyless xs \<and> (\<forall>t. u = Some t \<longrightarrow>
      (\<exists>c. T ?k = Some c \<and> ct_token c = t \<and> (\<exists>now. GhNow now \<in> set xs \<and> now < ct_renew_at c)))"
    show "wpt (case u of None \<Rightarrow> mint api cr | Some t \<Rightarrow> State_Monad.return (Inr t)) T1
        (\<lambda>r ys. token_post api cr T r ([TokenRead ?k (T ?k)] @ xs @ ys))"
    proof (cases u)
      case None
      then show ?thesis using u m [of "TokenRead ?k (T ?k) # xs"] by (simp add: b)
    next
      case (Some t)
      with u obtain c where "T ?k = Some c" "ct_token c = t" "\<exists>now. GhNow now \<in> set xs \<and> now < ct_renew_at c" by blast
      then have "token_post api cr T (Inr t) (TokenRead ?k (T ?k) # xs) T"
        using u by (auto simp: b token_post_def usable_in_def intro!: exI [of _ c])
      then show ?thesis using u Some by (auto intro!: wpt_return)
    qed
  qed
qed

subsection \<open>An operation\<close>

text \<open>What an authenticated request leaves behind: other installations' tokens; at its own key a token
  that was not refused; and in the log only requests that bear a minted or a usable token.\<close>

definition token_used :: "('k, 'w) github_api \<Rightarrow> credentials \<Rightarrow> token_table \<Rightarrow> cached_token \<Rightarrow> gh_call list \<Rightarrow> bool" where
  "token_used api cr T c xs \<longleftrightarrow> minted api cr c xs \<or> usable_in T (cacheKey cr) c xs"

definition request_post :: "('k, 'w) github_api \<Rightarrow> credentials \<Rightarrow> token_table \<Rightarrow> gh_call list \<Rightarrow> token_table \<Rightarrow> bool" where
  "request_post api cr T xs T1 \<longleftrightarrow>
     (\<forall>key. key \<noteq> cacheKey cr \<longrightarrow> T1 key = T key)
     \<and> (\<forall>c. T1 (cacheKey cr) = Some c \<longrightarrow>
          list_all (\<lambda>x. \<not> refused x) xs \<and> (minted api cr c xs \<or> T (cacheKey cr) = Some c))
     \<and> (\<forall>x t. x \<in> set xs \<longrightarrow> bears x t \<longrightarrow> (\<exists>c. ct_token c = t \<and> token_used api cr T c xs))"

lemma checkRunRequest_wpt:
  "wpt (checkRunRequest api cr meth url payload want) T (\<lambda>_. request_post api cr T)"
  unfolding checkRunRequest_def
proof (rule wpt_bindI [OF InstallationToken_wpt])
  fix r xs T1
  assume t: "token_post api cr T r xs T1"
  then have xs: "\<And>x. x \<in> set xs \<Longrightarrow> \<not> refused x \<and> \<not> bears x u" for u
    using bodyless_facts by (auto simp: token_post_def list_all_iff)
  show "wpt (case r of Inl err \<Rightarrow> State_Monad.return (Inl err)
      | Inr token \<Rightarrow> do {
          a \<leftarrow> gh_do api meth url (bearer token) (Some (json_text (sort_json (JObj payload))));
          case a of
            Inl err \<Rightarrow> State_Monad.return (Inl err)
          | Inr (status, body) \<Rightarrow> do {
              whenM (status = 401) (invalidateToken cr);
              State_Monad.return (if status \<noteq> want then Inl (statusError status body) else Inr body)
            }
        }) T1 (\<lambda>_ ys. request_post api cr T (xs @ ys))"
  proof (cases r)
    case (Inl err)
    then show ?thesis using t xs by (auto simp: token_post_def request_post_def list_all_iff intro!: wpt_return)
  next
    case (Inr token)
    with t obtain c where c: "ct_token c = token" "token_used api cr T c xs"
      "T1 = T(cacheKey cr \<mapsto> c) \<and> minted api cr c xs \<or> T1 = T"
      by (auto simp: token_post_def token_used_def)
    have used: "token_used api cr T c (xs @ ys)" for ys
      using c(2) minted_mono [of api cr c xs "xs @ ys"] by (auto simp: token_used_def usable_in_def)
    have m: "minted api cr c xs \<Longrightarrow> minted api cr c (xs @ ys)" for ys by (rule minted_mono) auto
    show ?thesis
      unfolding Inr sum.case
      by (rule wpt_bind, rule wpt_gh_do; simp only: sum.case prod.case append_Nil; intro wpt_rules)
        (use c xs used m in \<open>auto simp: request_post_def list_all_iff bears_def refused_def\<close>)
  qed
qed

subsection \<open>The life of a client\<close>

datatype gh_op = CreateOp credentials string check_run | UpdateOp credentials string int check_run

fun op_creds :: "gh_op \<Rightarrow> credentials" where
  "op_creds (CreateOp cr repo run) = cr"
| "op_creds (UpdateOp cr repo i run) = cr"

definition op_key :: "gh_op \<Rightarrow> string" where
  "op_key op = cacheKey (op_creds op)"

definition run_op :: "('k, 'w) github_api \<Rightarrow> gh_op \<Rightarrow> 'w gh_world \<Rightarrow> gh_call list \<times> 'w gh_world" where
  "run_op api op w =
     (case op of
        CreateOp cr repo run \<Rightarrow>
          (case run_state (CreateCheckRun api cr repo run) \<lparr>world = w, calls = []\<rparr> of (r, s) \<Rightarrow> (calls s, world s))
      | UpdateOp cr repo i run \<Rightarrow>
          (case run_state (UpdateCheckRun api cr repo i run) \<lparr>world = w, calls = []\<rparr> of (r, s) \<Rightarrow> (calls s, world s)))"

text \<open>A session: the operations, each with what it logged.\<close>

fun session :: "('k, 'w) github_api \<Rightarrow> gh_op list \<Rightarrow> 'w gh_world \<Rightarrow> (gh_op \<times> gh_call list) list" where
  "session api [] w = []"
| "session api (op # ops) w = (case run_op api op w of (xs, w') \<Rightarrow> (op, xs) # session api ops w')"

lemma run_op_post:
  assumes "run_op api op w = (xs, w')"
  shows "request_post api (op_creds op) (gw_tokens w) xs (gw_tokens w')"
proof -
  have c: "wpt (CreateCheckRun api cr repo run) T (\<lambda>_. request_post api cr T)" for cr repo run T
    unfolding CreateCheckRun_def by (rule wpt_bindI [OF checkRunRequest_wpt]) (simp add: wpt_return)
  have u: "wpt (UpdateCheckRun api cr repo i run) T (\<lambda>_. request_post api cr T)" for cr repo i run T
    unfolding UpdateCheckRun_def by (rule wpt_bindI [OF checkRunRequest_wpt]) (simp add: wpt_return)
  show ?thesis using assms
    by (cases op) (auto simp: run_op_def dest: wpt_run [OF c] wpt_run [OF u] split: prod.splits)
qed

text \<open>
  A token is good for an installation after a history: an operation for that installation minted it,
  and neither that operation nor any later one for the installation was refused.
\<close>

definition unrefused :: "string \<Rightarrow> (gh_op \<times> gh_call list) list \<Rightarrow> bool" where
  "unrefused key h \<longleftrightarrow> list_all (\<lambda>(op, xs). op_key op = key \<longrightarrow> list_all (\<lambda>x. \<not> refused x) xs) h"

definition good_token :: "('k, 'w) github_api \<Rightarrow> (gh_op \<times> gh_call list) list \<Rightarrow> string \<Rightarrow> cached_token \<Rightarrow> bool" where
  "good_token api h key c \<longleftrightarrow>
     (\<exists>h1 op xs h2. h = h1 @ (op, xs) # h2 \<and> op_key op = key \<and> minted api (op_creds op) c xs
        \<and> unrefused key ((op, xs) # h2))"

definition table_good :: "('k, 'w) github_api \<Rightarrow> (gh_op \<times> gh_call list) list \<Rightarrow> token_table \<Rightarrow> bool" where
  "table_good api h T \<longleftrightarrow> (\<forall>key c. T key = Some c \<longrightarrow> good_token api h key c)"

lemma good_token_next:
  assumes "good_token api h key c" and "op_key op = key \<longrightarrow> list_all (\<lambda>x. \<not> refused x) xs"
  shows "good_token api (h @ [(op, xs)]) key c"
proof -
  obtain h1 op' xs' h2 where h: "h = h1 @ (op', xs') # h2" "op_key op' = key" "minted api (op_creds op') c xs'"
    "unrefused key ((op', xs') # h2)"
    using assms(1) by (auto simp: good_token_def)
  moreover have "unrefused key ((op', xs') # h2 @ [(op, xs)])" using h(4) assms(2) by (simp add: unrefused_def)
  ultimately show ?thesis unfolding good_token_def
    by (intro exI [of _ h1] exI [of _ op'] exI [of _ xs'] exI [of _ "h2 @ [(op, xs)]"]) simp
qed

lemma table_good_next:
  assumes "table_good api h T" and "request_post api (op_creds op) T xs T1"
  shows "table_good api (h @ [(op, xs)]) T1"
  unfolding table_good_def
proof (intro allI impI)
  fix key c
  assume c: "T1 key = Some c"
  show "good_token api (h @ [(op, xs)]) key c"
  proof (cases "key = op_key op")
    case False
    then show ?thesis using assms c by (intro good_token_next) (auto simp: table_good_def request_post_def op_key_def)
  next
    case True
    then have r: "list_all (\<lambda>x. \<not> refused x) xs" "minted api (op_creds op) c xs \<or> T key = Some c"
      using assms(2) c by (auto simp: request_post_def op_key_def)
    from r(2) show ?thesis
    proof
      assume "minted api (op_creds op) c xs"
      then show ?thesis using True r(1) unfolding good_token_def
        by (intro exI [of _ h] exI [of _ op] exI [of _ xs] exI [of _ "[]"]) (simp add: unrefused_def)
    next
      assume "T key = Some c"
      then show ?thesis using assms(1) r(1) by (intro good_token_next) (auto simp: table_good_def)
    qed
  qed
qed

lemma session_good:
  assumes "table_good api h (gw_tokens w)" and "session api ops w = earlier @ (op, xs) # later"
    and "x \<in> set xs" and "bears x t"
  shows "\<exists>c. ct_token c = t \<and>
    (minted api (op_creds op) c xs
     \<or> good_token api (h @ earlier) (op_key op) c \<and> (\<exists>now. GhNow now \<in> set xs \<and> now < ct_renew_at c))"
  using assms(1,2)
proof (induction ops arbitrary: w h earlier)
  case (Cons o1 ops)
  obtain ys w1 where o1: "run_op api o1 w = (ys, w1)" by fastforce
  note post = run_op_post [OF o1]
  show ?case
  proof (cases earlier)
    case Nil
    then have e: "o1 = op" "ys = xs" using Cons.prems(2) o1 by simp_all
    obtain c where "ct_token c = t" "token_used api (op_creds op) (gw_tokens w) c xs"
      using post assms(3,4) unfolding e request_post_def by blast
    then show ?thesis using Cons.prems(1) Nil
      by (auto simp: token_used_def usable_in_def table_good_def op_key_def)
  next
    case (Cons e es)
    then have e: "e = (o1, ys)" "session api ops w1 = es @ (op, xs) # later" using Cons.prems(2) o1 by simp_all
    from Cons.IH [OF table_good_next [OF Cons.prems(1) post] e(2)] show ?thesis
      unfolding Cons e(1) append_assoc append_Cons append_Nil .
  qed
qed simp

text \<open>C21 Installation tokens are trusted: in any sequence of check-run requests by a new client, over any
  answers of the server and the clock, a request bears a token that the server granted, with a 201, to
  a JWT of the App of the same installation: in this operation, or in an earlier one such that the
  clock was read more than the renewal margin before the stated expiry and that neither that operation
  nor any later one of the installation was answered 401.\<close>

theorem installation_token_trusted:
  assumes "session api ops (new_world w) = earlier @ (op, xs) # later" and "x \<in> set xs" and "bears x t"
  shows "\<exists>c. ct_token c = t \<and>
    (minted api (op_creds op) c xs
     \<or> good_token api earlier (op_key op) c \<and> (\<exists>now. GhNow now \<in> set xs \<and> now < ct_renew_at c))"
proof -
  have "table_good api [] (gw_tokens (new_world w))" by (simp add: table_good_def new_world_def)
  from session_good [OF this assms] show ?thesis by simp
qed

subsection \<open>An example\<close>

text \<open>A server that grants one token and accepts every check run; the world is its clock.\<close>

definition demo_grant :: string where
  "demo_grant = json_text (JObj [(''token'', JStr ''tok''), (''expires_at'', JStr ''2026-03-01T10:00:00Z'')])"

definition demo_answer :: string where
  "demo_answer = json_text (JObj [(''id'', JInt 9)])"

definition gh_demo :: "(string, instant) github_api" where
  "gh_demo =
     NewClient DefaultBaseURL klib_demo pk_demo
       (\<lambda>rq t. (Answered (if rq_method rq = ''PATCH'' then 200 else 201) (if rq_body rq = [] then demo_grant else demo_answer), t))
       (\<lambda>t. (t, t + second))
       (\<lambda>ns name t. (Inr \<lparr>sec_name = name, sec_namespace = ns, sec_labels = [], sec_type = [], sec_string_data = [],
          sec_data = [(''app_id'', ''7''), (''installation_id'', '' 42 ''), (''private_key'', ''pem'')], sec_owners = []\<rparr>, t))"

definition demo_token :: cached_token where
  "demo_token = \<lparr>ct_token = ''tok'', ct_renew_at = 1772358900 * second\<rparr>"

definition demo_jwt :: "instant \<Rightarrow> string" where
  "demo_jwt now = projr (SignJWT pk_demo app_demo now)"

lemma gh_demo_sel:
  "gh_base gh_demo = DefaultBaseURL" "gh_lib gh_demo = klib_demo" "gh_pk gh_demo = pk_demo" "gh_now gh_demo = (\<lambda>t. (t, t + second))"
  "gh_http gh_demo rq t = (Answered (if rq_method rq = ''PATCH'' then 200 else 201) (if rq_body rq = [] then demo_grant else demo_answer), t)"
  by (simp_all add: gh_demo_def NewClient_def) (simp add: DefaultBaseURL_def trim_suffix_def has_suffix_def)

lemma demo_signed: "SignJWT pk_demo app_demo now = Inr (demo_jwt now)"
  using app_demo_signs [of now] by (auto simp: demo_jwt_def)

lemma demo_minted: "minted_token (Inr (201, demo_grant)) = Inr demo_token"
proof -
  have "decode_token demo_grant = Some \<lparr>tr_token = ''tok'', tr_expires_at = ''2026-03-01T10:00:00Z''\<rparr>" by code_simp
  then show ?thesis
    by (simp add: minted_token_def parse_rfc3339_examples demo_token_def tokenRenewMargin_def)
qed

lemma demo_urls:
  "url_parse (token_url DefaultBaseURL app_demo) \<noteq> None"
  "url_parse (check_runs_url DefaultBaseURL ''o/r'') \<noteq> None"
  "url_parse (check_run_url DefaultBaseURL ''o/r'' 9) \<noteq> None"
  by code_simp+

lemma request_sel [simp]:
  "rq_method (gh_request m u a b) = m" "rq_body (gh_request m u a None) = []" "rq_body (gh_request m u a (Some t)) = t"
  by (simp_all add: gh_request_def)

lemma json_object_text [simp]: "json_text (sort_json (JObj fs)) \<noteq> []"
  by simp

lemma demo_mint:
  "run_state (mint gh_demo app_demo) s =
     (Inr ''tok'', \<lparr>world = \<lparr>gw_env = gw_env (world s) + second, gw_tokens = (gw_tokens (world s))(cacheKey app_demo \<mapsto> demo_token)\<rparr>,
        calls = calls s @ [GhNow (gw_env (world s)),
          GhHttp (gh_request ''POST'' (token_url DefaultBaseURL app_demo) (bearer (demo_jwt (gw_env (world s)))) None) (Answered 201 demo_grant),
          TokenStore (cacheKey app_demo) demo_token]\<rparr>)"
  using demo_urls(1)
  by (cases s rule: sys.cases; cases "world s" rule: gh_world.cases)
    (auto simp: mint_def clock_def gh_do_def token_put_def on_env_def gh_demo_sel demo_signed demo_minted run_simps demo_token_def
      split: option.splits)

text \<open>An authenticated request, with the token of the table or a new one.\<close>

lemma demo_request:
  assumes "url_parse url \<noteq> None" and "gw_tokens w (cacheKey app_demo) \<in> {None, Some demo_token}" and "gw_env w < ct_renew_at demo_token"
    and "run_state (checkRunRequest gh_demo app_demo meth url payload want) \<lparr>world = w, calls = cs\<rparr> = (r, s)"
    and "want = (if meth = ''PATCH'' then 200 else 201)"
  shows "r = Inr demo_answer \<and> gw_tokens (world s) (cacheKey app_demo) = Some demo_token \<and> gw_env (world s) \<le> gw_env w + second
    \<and> list_ex (\<lambda>x. bears x ''tok'') (calls s)"
proof -
  obtain u where u: "url_parse url = Some u" using assms(1) by blast
  have b: "bears (GhHttp (gh_request meth url (bearer ''tok'') (Some body)) a) ''tok''" for meth body a
    by (auto simp: bears_def)
  show ?thesis
    using assms(2-5)
    by (auto simp: checkRunRequest_def InstallationToken_def usable_token_def token_get_def clock_def gh_do_def on_env_def
        gh_demo_sel demo_mint demo_token_def u b run_simps split: if_splits prod.splits)
qed

definition run_demo :: check_run where
  "run_demo = no_run\<lparr>run_name := ''migration-check'', run_status := ''in_progress''\<rparr>"

definition session_demo :: "(gh_op \<times> gh_call list) list" where
  "session_demo =
     session gh_demo [CreateOp app_demo ''o/r'' run_demo, UpdateOp app_demo ''o/r'' 9 run_demo]
       (new_world (1772355600 * second))"

lemma run_op_demo:
  assumes "gw_tokens w (cacheKey app_demo) \<in> {None, Some demo_token}" and "gw_env w < ct_renew_at demo_token"
    and "op \<in> {CreateOp app_demo ''o/r'' run_demo, UpdateOp app_demo ''o/r'' 9 run_demo}" and "run_op gh_demo op w = (xs, w')"
  shows "gw_tokens w' (cacheKey app_demo) = Some demo_token \<and> gw_env w' \<le> gw_env w + second \<and> list_ex (\<lambda>x. bears x ''tok'') xs"
  using assms(3,4) demo_request [OF demo_urls(2) assms(1,2), of "''POST''"] demo_request [OF demo_urls(3) assms(1,2), of "''PATCH''"]
  by (auto simp: run_op_def CreateCheckRun_def UpdateCheckRun_def run_simps gh_demo_sel split: prod.splits)

lemma session_demo_runs:
  obtains xs ys y where "session_demo = [(CreateOp app_demo ''o/r'' run_demo, xs)] @ (UpdateOp app_demo ''o/r'' 9 run_demo, ys) # []"
    "y \<in> set ys" "bears y ''tok''"
proof -
  let ?w = "new_world (1772355600 * second)"
  obtain xs w1 where 1: "run_op gh_demo (CreateOp app_demo ''o/r'' run_demo) ?w = (xs, w1)" by fastforce
  have w1: "gw_tokens w1 (cacheKey app_demo) = Some demo_token" "gw_env w1 \<le> 1772355601 * second"
    using run_op_demo [OF _ _ _ 1] by (simp_all add: new_world_def demo_token_def)
  obtain ys w2 where 2: "run_op gh_demo (UpdateOp app_demo ''o/r'' 9 run_demo) w1 = (ys, w2)" by fastforce
  have "list_ex (\<lambda>x. bears x ''tok'') ys"
    using run_op_demo [OF _ _ _ 2] w1 by (simp add: demo_token_def)
  then show ?thesis using 1 2 that by (auto simp: session_demo_def list_ex_iff)
qed

theorem installation_token_trusted_witness:
  "\<exists>xs ys c. session_demo = [(CreateOp app_demo ''o/r'' run_demo, xs)] @ (UpdateOp app_demo ''o/r'' 9 run_demo, ys) # []
    \<and> ct_token c = ''tok''
    \<and> (minted gh_demo app_demo c ys
       \<or> good_token gh_demo [(CreateOp app_demo ''o/r'' run_demo, xs)] (cacheKey app_demo) c
         \<and> (\<exists>now. GhNow now \<in> set ys \<and> now < ct_renew_at c))"
proof -
  obtain xs ys y where s: "session_demo = [(CreateOp app_demo ''o/r'' run_demo, xs)] @ (UpdateOp app_demo ''o/r'' 9 run_demo, ys) # []"
    "y \<in> set ys" "bears y ''tok''" by (rule session_demo_runs)
  from installation_token_trusted [OF s(1) [unfolded session_demo_def] s(2,3)] s(1) show ?thesis
    by (simp add: op_key_def) blast
qed

end
