(* ===== verification/Github_Report.thy ===== *)
theory Github_Report
  imports Github_Run
begin

section \<open>Reports stay where the operator allows them: migrationcheck_report.go\<close>

text \<open>
  What a report may send: everything it calls and every request is one of those below, and its result
  is the server's.
\<close>

fun mint_call :: "('k, 'w) github_api \<Rightarrow> credentials \<Rightarrow> gh_call \<Rightarrow> bool" where
  "mint_call api cr (GhHttp rq a) \<longleftrightarrow>
     (\<exists>jwt. rq = gh_request ''POST'' (token_url (gh_base api) cr) (bearer jwt) None)"
| "mint_call api cr (GhSecret ns name r) \<longleftrightarrow> False"
| "mint_call api cr x \<longleftrightarrow> True"

definition sends :: "string \<Rightarrow> string \<Rightarrow> string \<Rightarrow> gh_call \<Rightarrow> gh_answer \<Rightarrow> bool" where
  "sends meth url body x a \<longleftrightarrow> (\<exists>t. x = GhHttp (gh_request meth url (bearer t) (Some body)) a)"

definition client_call :: "('k, 'w) github_api \<Rightarrow> credentials \<Rightarrow> string \<Rightarrow> string \<Rightarrow> string \<Rightarrow> gh_call \<Rightarrow> bool" where
  "client_call api cr meth url body x \<longleftrightarrow> mint_call api cr x \<or> (\<exists>a. sends meth url body x a)"

lemma gh_do_ens:
  assumes "\<And>err. P (Inl err) []" and "\<And>a err. P (Inl err) [GhHttp (gh_request meth url auth body) a]"
    and "\<And>status b. P (Inr (status, b)) [GhHttp (gh_request meth url auth body) (Answered status b)]"
  shows "ensures (gh_do api meth url auth body) P"
  unfolding gh_do_def by (intro ens_rules) (auto simp: assms split: gh_answer.split)

lemma InstallationToken_calls: "ensures (InstallationToken api cr) (\<lambda>_. list_all (mint_call api cr))"
  unfolding InstallationToken_def usable_token_def mint_def token_get_def token_put_def clock_def
  by (intro ens_rules gh_do_ens) auto

definition request_calls ::
  "('k, 'w) github_api \<Rightarrow> credentials \<Rightarrow> string \<Rightarrow> string \<Rightarrow> string \<Rightarrow> int \<Rightarrow> string result \<Rightarrow> gh_call list \<Rightarrow> bool" where
  "request_calls api cr meth url body want r xs \<longleftrightarrow>
     list_all (client_call api cr meth url body) xs
     \<and> (\<forall>b. r = Inr b \<longrightarrow> (\<exists>x\<in>set xs. sends meth url body x (Answered want b)))"

lemma checkRunRequest_calls:
  "ensures (checkRunRequest api cr meth url payload want)
     (request_calls api cr meth url (json_text (sort_json (JObj payload))) want)"
  unfolding checkRunRequest_def
proof (rule ens_bindI [OF InstallationToken_calls])
  let ?body = "json_text (sort_json (JObj payload))"
  fix r xs
  assume "list_all (mint_call api cr) xs"
  then have xs: "list_all (client_call api cr meth url ?body) xs" by (auto simp: list_all_iff client_call_def)
  have s: "sends meth url b (GhHttp (gh_request meth url (bearer t) (Some b)) a) a" for b t a
    by (auto simp: sends_def)
  have c: "client_call api cr meth url b (GhHttp (gh_request meth url (bearer t) (Some b)) a)" for b t a
    using s by (auto simp: client_call_def)
  have d: "client_call api cr meth url b (TokenDrop k)" for b k by (simp add: client_call_def)
  show "ensures (case r of Inl err \<Rightarrow> State_Monad.return (Inl err)
      | Inr token \<Rightarrow> do {
          a \<leftarrow> gh_do api meth url (bearer token) (Some ?body);
          case a of
            Inl err \<Rightarrow> State_Monad.return (Inl err)
          | Inr (status, body) \<Rightarrow> do {
              whenM (status = 401) (invalidateToken cr);
              State_Monad.return (if status \<noteq> want then Inl (statusError status body) else Inr body)
            }
        }) (\<lambda>b ys. request_calls api cr meth url ?body want b (xs @ ys))"
    unfolding invalidateToken_def
    by (intro ens_rules gh_do_ens) (use xs s c d in \<open>auto simp: request_calls_def simp del: json_text.simps sort_json.simps\<close>)
qed

text \<open>The method, address, body and expected status of the request that publishes a check run.\<close>

definition report_method :: "int \<Rightarrow> string" where
  "report_method i = (if i = 0 then ''POST'' else ''PATCH'')"

definition report_url :: "('k, 'w) github_api \<Rightarrow> mig_report \<Rightarrow> int \<Rightarrow> string" where
  "report_url api rep i =
     (if i = 0 then check_runs_url (gh_base api) (mrp_repo rep) else check_run_url (gh_base api) (mrp_repo rep) i)"

definition report_body :: "('k, 'w) github_api \<Rightarrow> check_run \<Rightarrow> int \<Rightarrow> string" where
  "report_body api run i = json_text (sort_json (JObj (run_body (gh_lib api) run (i = 0))))"

definition published ::
  "('k, 'w) github_api \<Rightarrow> mig_report \<Rightarrow> int \<Rightarrow> check_run \<Rightarrow> gh_call list \<Rightarrow> int \<Rightarrow> bool" where
  "published api rep i run xs cid \<longleftrightarrow>
     (\<exists>x\<in>set xs. \<exists>b.
        sends (report_method i) (report_url api rep i) (report_body api run i) x (Answered (if i = 0 then 201 else 200) b)
        \<and> (if i = 0 then decode_id b = Some cid else cid = i))"

lemma CreateCheckRun_calls:
  "ensures (CreateCheckRun api cr (mrp_repo rep) run)
     (\<lambda>r xs. list_all (client_call api cr (report_method 0) (report_url api rep 0) (report_body api run 0)) xs
        \<and> (\<forall>cid. r = Inr cid \<longrightarrow> published api rep 0 run xs cid))"
  unfolding CreateCheckRun_def report_method_def report_url_def report_body_def
  by (rule ens_bindI [OF checkRunRequest_calls], rule ens_return)
    (auto simp: request_calls_def published_def report_method_def report_url_def report_body_def
      simp del: json_text.simps sort_json.simps split: sum.splits option.splits, blast)

lemma UpdateCheckRun_calls:
  "i \<noteq> 0 \<Longrightarrow> ensures (UpdateCheckRun api cr (mrp_repo rep) i run)
     (\<lambda>r xs. list_all (client_call api cr (report_method i) (report_url api rep i) (report_body api run i)) xs
        \<and> (r = None \<longrightarrow> published api rep i run xs i))"
  unfolding UpdateCheckRun_def report_method_def report_url_def report_body_def
  by (rule ens_bindI [OF checkRunRequest_calls], rule ens_return)
    (auto simp: request_calls_def published_def report_method_def report_url_def report_body_def
      simp del: json_text.simps sort_json.simps split: sum.splits, blast)

definition allowed_report :: "reporter \<Rightarrow> mig_report \<Rightarrow> bool" where
  "allowed_report rp rep \<longleftrightarrow>
     mrp_provider rep \<in> {[], ''github''} \<and> (rp_prefix rp = [] \<or> has_prefix (mrp_repo rep) (rp_prefix rp))"

text \<open>A call of a report: the operator's own Secret is read, or the client works with the credentials
  that Secret held.\<close>

definition report_call ::
  "('k, 'w) github_api \<Rightarrow> reporter \<Rightarrow> mig_report \<Rightarrow> int \<Rightarrow> check_run \<Rightarrow> gh_call list \<Rightarrow> gh_call \<Rightarrow> bool" where
  "report_call api rp rep i run xs x \<longleftrightarrow>
     allowed_report rp rep
     \<and> ((\<exists>r. x = GhSecret (rp_secret_ns rp) (rp_secret_name rp) r)
        \<or> (\<exists>sec cr. GhSecret (rp_secret_ns rp) (rp_secret_name rp) (Inr sec) \<in> set xs
             \<and> CredentialsFromSecretData (sec_data sec) = Inr cr
             \<and> client_call api cr (report_method i) (report_url api rep i) (report_body api run i) x))"

definition report_post ::
  "('k, 'w) github_api \<Rightarrow> reporter \<Rightarrow> mig_report \<Rightarrow> int \<Rightarrow> check_run \<Rightarrow> int result \<Rightarrow> gh_call list \<Rightarrow> bool" where
  "report_post api rp rep i run r xs \<longleftrightarrow>
     list_all (report_call api rp rep i run xs) xs \<and> (\<forall>cid. r = Inr cid \<longrightarrow> published api rep i run xs cid)"

lemma report_post_client:
  assumes "allowed_report rp rep" and "CredentialsFromSecretData (sec_data sec) = Inr cr"
    and "list_all (client_call api cr (report_method i) (report_url api rep i) (report_body api run i)) xs"
    and "\<And>cid. r = Inr cid \<Longrightarrow> published api rep i run xs cid"
  shows "report_post api rp rep i run r (GhSecret (rp_secret_ns rp) (rp_secret_name rp) (Inr sec) # xs)"
  using assms by (auto simp: report_post_def report_call_def list_all_iff published_def)

lemma ReportCheckRun_ens: "ensures (ReportCheckRun api rp rep i run) (report_post api rp rep i run)"
proof (cases "allowed_report rp rep")
  case False
  then have "\<exists>err. ReportCheckRun api rp rep i run = State_Monad.return (Inl err)"
    by (auto simp: ReportCheckRun_def allowed_report_def Let_def)
  then obtain err where e: "ReportCheckRun api rp rep i run = State_Monad.return (Inl err)" ..
  show ?thesis unfolding e by (rule ens_return) (simp add: report_post_def)
next
  case True
  let ?sec = "GhSecret (rp_secret_ns rp) (rp_secret_name rp)"
  have err: "report_post api rp rep i run (Inl err) [?sec s]" for err s
    using True by (auto simp: report_post_def report_call_def)
  have ok: "ensures (if i = 0 then CreateCheckRun api cr (mrp_repo rep) run
        else do {
          r \<leftarrow> UpdateCheckRun api cr (mrp_repo rep) i run;
          State_Monad.return (case r of Some err \<Rightarrow> Inl err | None \<Rightarrow> Inr i)
        }) (\<lambda>r ys. report_post api rp rep i run r ([?sec (Inr sec)] @ ys))"
    if "CredentialsFromSecretData (sec_data sec) = Inr cr" for sec cr
  proof (cases "i = 0")
    case True
    show ?thesis unfolding True if_True if_P [OF refl] append_Cons append_Nil
      by (rule ens_weaken [OF CreateCheckRun_calls]) (rule report_post_client [OF \<open>allowed_report rp rep\<close> that]; blast)
  next
    case False
    show ?thesis unfolding if_not_P [OF False] append_Cons append_Nil
      by (rule ens_bindI [OF UpdateCheckRun_calls [OF False]], rule ens_return, rule report_post_client [OF True that])
        (auto split: option.splits)
  qed
  have p: "mrp_provider rep \<noteq> [] \<and> mrp_provider rep \<noteq> ''github'' \<longleftrightarrow> False"
    "rp_prefix rp \<noteq> [] \<and> \<not> has_prefix (mrp_repo rep) (rp_prefix rp) \<longleftrightarrow> False"
    using True by (auto simp: allowed_report_def)
  show ?thesis
    unfolding ReportCheckRun_def Let_def p if_False
    by (intro ens_bind ens_operate ens_sum ens_return) (simp_all add: err ok [simplified])
qed

text \<open>Reports stay where the operator allows them: whatever a MigrationCheck asks for, a report calls
  nothing unless its provider is GitHub and its repository has the operator's prefix; then it reads
  only the Secret the operator names and sends, besides the mint of a token with the credentials read
  there, only the creation of a check run (the one request that carries the commit) or the update of
  the existing one in that repository; and it succeeds only with an id the server confirmed.\<close>

theorem reports_are_confined:
  "run_in (ReportCheckRun api rp rep i run) w = (r, xs) \<Longrightarrow>
   list_all (report_call api rp rep i run xs) xs \<and> (case r of Inl _ \<Rightarrow> True | Inr cid \<Rightarrow> published api rep i run xs cid)"
  using ens_run_in [OF ReportCheckRun_ens] by (fastforce simp: report_post_def split: sum.split)

definition rp_demo :: reporter where
  "rp_demo = \<lparr>rp_secret_ns = ''operators'', rp_secret_name = ''github-app'', rp_prefix = ''o/''\<rparr>"

definition rep_demo :: mig_report where
  "rep_demo = \<lparr>mrp_provider = [], mrp_repo = ''o/r'', mrp_revision = ''sha'', mrp_name = []\<rparr>"

lemma demo_secret:
  "gh_get_secret gh_demo ns name t = (Inr \<lparr>sec_name = name, sec_namespace = ns, sec_labels = [], sec_type = [], sec_string_data = [],
     sec_data = [(''app_id'', ''7''), (''installation_id'', '' 42 ''), (''private_key'', ''pem'')], sec_owners = []\<rparr>, t)"
  by (simp add: gh_demo_def NewClient_def)

lemma demo_credentials:
  "CredentialsFromSecretData [(''app_id'', ''7''), (''installation_id'', '' 42 ''), (''private_key'', ''pem'')] = Inr app_demo"
  by code_simp

lemma demo_reported:
  "fst (run_in (ReportCheckRun gh_demo rp_demo rep_demo 0 run) (new_world (1772355600 * second))) = Inr 9"
proof -
  let ?w = "new_world (1772355600 * second)"
  let ?c = "[GhSecret ''operators'' ''github-app'' (fst (gh_get_secret gh_demo ''operators'' ''github-app'' 0))]"
  have i: "decode_id demo_answer = Some 9" by code_simp
  have w: "gw_tokens ?w (cacheKey app_demo) \<in> {None, Some demo_token}" "gw_env ?w < ct_renew_at demo_token"
    by (simp_all add: new_world_def demo_token_def)
  obtain r s where rs: "run_state (checkRunRequest gh_demo app_demo ''POST'' (check_runs_url (gh_base gh_demo) ''o/r'')
      (run_body (gh_lib gh_demo) run True) 201) \<lparr>world = ?w, calls = ?c\<rparr> = (r, s)"
    by fastforce
  then have "r = Inr demo_answer" using demo_request [OF demo_urls(2) w, of "''POST''"] by (simp add: gh_demo_sel)
  with rs i show ?thesis
    by (simp add: ReportCheckRun_def CreateCheckRun_def rep_demo_def rp_demo_def has_prefix_def demo_secret on_env_def demo_credentials run_simps
        split: prod.splits)
qed

theorem reports_are_confined_witness:
  "published gh_demo rep_demo 0 run_demo
     (snd (run_in (ReportCheckRun gh_demo rp_demo rep_demo 0 run_demo) (new_world (1772355600 * second)))) 9"
  using reports_are_confined [OF surjective_pairing, of gh_demo rp_demo rep_demo 0 run_demo "new_world (1772355600 * second)"]
  unfolding demo_reported sum.case by blast

end
