(* ===== verification/Pod_Logs.thy ===== *)
theory Pod_Logs
  imports Effects Errors Api_PreviewCheck
begin

section \<open>Job logs and the active gauge: previewcheck_logs.go, previewcheck_metrics.go\<close>

text \<open>
  The log reader both reconcilers use for the detail of a verdict: the newest pod of a Job, its only
  container as it is or every container under a header. And the gauge of unfinished PreviewChecks.
  The clientset is an arbitrary world; a pod is its name, its creation time and its containers' names.
\<close>

subsection \<open>The log reader\<close>

record tail_pod =
  tp_name :: string
  tp_created :: instant
  tp_init_containers :: "string list"
  tp_containers :: "string list"

text \<open>A log request: the stream cannot be opened, breaks while it is read, or delivers bytes.\<close>

datatype log_answer = StreamFailed goerr | StreamBroken goerr | StreamOf string

datatype log_call =
    ListPods string string "tail_pod list result"
  | GetLogs string string string int int log_answer

record 'w log_api =
  lg_list :: "string \<Rightarrow> string \<Rightarrow> 'w \<Rightarrow> tail_pod list result \<times> 'w"
  lg_stream :: "string \<Rightarrow> string \<Rightarrow> string \<Rightarrow> int \<Rightarrow> int \<Rightarrow> 'w \<Rightarrow> log_answer \<times> 'w"

type_synonym ('w, 'a) lprog = "('w, log_call, 'a) prog"

definition readContainer :: "'w log_api \<Rightarrow> string \<Rightarrow> string \<Rightarrow> string \<Rightarrow> int \<Rightarrow> ('w, string result) lprog" where
  "readContainer api ns pod container maxBytes =
     (let tail = 50; limit = maxBytes + 512; at = ns @ ''/'' @ pod @ '': '' in
      do {
        a \<leftarrow> operate (lg_stream api ns pod container tail limit) (GetLogs ns pod container tail limit);
        State_Monad.return
          (case a of
             StreamFailed err \<Rightarrow> Inl (Wrapped (''stream logs for '' @ at) err)
           | StreamBroken err \<Rightarrow> Inl (Wrapped (''read logs for '' @ at) err)
           | StreamOf text \<Rightarrow> Inr (take (nat limit) text))
      })"

text \<open>
  \<open>items[0]\<close> after sorting by creation, newest first: of pods created in the same second the first
  listed (\<open>sort.Slice\<close> keeps the order of up to twelve elements).
\<close>

fun newest :: "tail_pod \<Rightarrow> tail_pod list \<Rightarrow> tail_pod" where
  "newest p [] = p"
| "newest p (q # qs) = newest (if tp_created p < tp_created q then q else p) qs"

definition pod_containers :: "tail_pod \<Rightarrow> string list" where
  "pod_containers p = tp_init_containers p @ tp_containers p"

text \<open>\<open>strings.TrimRight(s, "\n")\<close>.\<close>

definition trim_newlines :: "string \<Rightarrow> string" where
  "trim_newlines s = rev (dropWhile (\<lambda>c. c = CHR 0x0A) (rev s))"

definition log_header :: "string \<Rightarrow> string" where
  "log_header name = ''--- '' @ name @ '' ---'' @ newline"

definition log_section :: "string \<Rightarrow> string \<Rightarrow> string" where
  "log_section name text = log_header name @ trim_newlines text @ newline"

text \<open>The loop over the containers: the text so far and the first error.\<close>

fun tail_containers ::
  "'w log_api \<Rightarrow> string \<Rightarrow> string \<Rightarrow> int \<Rightarrow> string list \<Rightarrow> string \<Rightarrow> goerr option
   \<Rightarrow> ('w, string \<times> goerr option) lprog" where
  "tail_containers api ns pod per [] out firstErr = State_Monad.return (out, firstErr)"
| "tail_containers api ns pod per (name # names) out firstErr =
     do {
       r \<leftarrow> readContainer api ns pod name per;
       case r of
         Inl err \<Rightarrow>
           tail_containers api ns pod per names (out @ log_section name (''(no log: '' @ err_text err @ '')''))
             (if firstErr = None then Some err else firstErr)
       | Inr text \<Rightarrow> tail_containers api ns pod per names (out @ log_section name text) firstErr
     }"

definition TailJobLogs :: "'w log_api option \<Rightarrow> string \<Rightarrow> string \<Rightarrow> int \<Rightarrow> ('w, string result) lprog" where
  "TailJobLogs tailer ns job maxBytes =
     (case tailer of
        None \<Rightarrow> State_Monad.return (Inl (Plain ''no log tailer configured''))
      | Some api \<Rightarrow>
          let sel = ''job-name='' @ job; at = ns @ ''/'' @ job in
          do {
            l \<leftarrow> operate (lg_list api ns sel) (ListPods ns sel);
            case l of
              Inl err \<Rightarrow> State_Monad.return (Inl (Wrapped (''list pods for job '' @ at @ '': '') err))
            | Inr [] \<Rightarrow> State_Monad.return (Inl (Plain (''no pods for job '' @ at)))
            | Inr (p # ps) \<Rightarrow>
                let pod = newest p ps; names = pod_containers pod in
                if length names \<le> 1 then readContainer api ns (tp_name pod) [] maxBytes
                else
                  do {
                    r \<leftarrow> tail_containers api ns (tp_name pod) (max 512 (maxBytes div int (length names))) names [] None;
                    State_Monad.return
                      (case r of
                         ([], Some err) \<Rightarrow> Inl err
                       | (out, _) \<Rightarrow> Inr out)
                  }
          })"

text \<open>The log reader as the operation the reconcilers call.\<close>

definition pod_tail :: "'w log_api \<Rightarrow> string \<Rightarrow> string \<Rightarrow> int \<Rightarrow> 'w \<Rightarrow> string result \<times> 'w" where
  "pod_tail api ns job maxBytes w =
     (case run_state (TailJobLogs (Some api) ns job maxBytes) \<lparr>world = w, calls = []\<rparr> of (r, s) \<Rightarrow> (r, world s))"

lemma newest_in: "newest p ps \<in> set (p # ps)"
  by (induction ps arbitrary: p) (simp_all, (metis list.set_intros(1))?)

lemma newest_max: "q \<in> set (p # ps) \<Longrightarrow> tp_created q \<le> tp_created (newest p ps)"
proof (induction ps arbitrary: p q)
  case (Cons r rs)
  have "tp_created p \<le> tp_created (newest p' rs) \<and> tp_created r \<le> tp_created (newest p' rs)"
    if "p' = (if tp_created p < tp_created r then r else p)" for p'
    using Cons.IH [of p' p'] that by (simp split: if_splits)
  moreover have "q \<in> set rs \<Longrightarrow> tp_created q \<le> tp_created (newest p' rs)" for p'
    using Cons.IH [of q p'] by simp
  ultimately show ?case using Cons.prems by auto
qed simp

text \<open>
  Once the pods are listed, the log of a pod with several containers is never an error: it is one
  section per container, in the pod's order, init containers first.
\<close>

lemma tail_containers_sections:
  "ensures (tail_containers api ns pod per names out e)
     (\<lambda>r _. \<exists>texts. length texts = length names
        \<and> fst r = out @ concat (map2 log_section names texts))"
proof (induction names arbitrary: out e)
  case (Cons name names)
  have "ensures (tail_containers api ns pod per names (out @ log_section name t) e')
      (\<lambda>r _. \<exists>texts. length texts = length (name # names)
        \<and> fst r = out @ concat (map2 log_section (name # names) texts))" for t e'
    by (rule ens_weaken [OF Cons.IH], elim exE) (rule_tac x = "t # texts" in exI, simp)
  then show ?case
    by (auto intro!: ens_bind ens_return ens_operate simp: readContainer_def Let_def split: sum.split log_answer.split)
qed (auto intro: ens_return)

lemma log_header_not_Nil [simp]: "log_header name \<noteq> []"
  by (simp add: log_header_def)

subsection \<open>The gauge\<close>

text \<open>\<open>previewcheck_active\<close>: a list error reads as zero.\<close>

definition active_checks :: "preview_check list result \<Rightarrow> int" where
  "active_checks listed =
     (case listed of
        Inl _ \<Rightarrow> 0
      | Inr pcs \<Rightarrow> int (length (filter (\<lambda>pc. \<not> pc_terminal (st_phase (pc_status pc))) pcs)))"

end
