(* ===== verification/Operator.thy ===== *)
theory Operator
  imports Github_Report Pod_Logs Forge_Comments Preview_Api Enrichment
begin

section \<open>The process: cmd/main.go\<close>

text \<open>
  How the flags of the process configure the three controllers: what each is given of the forge, the
  log reader, the enricher and the check-run reporter. An absent reporter or enricher is a state of
  its own; a malformed Secret name ends the process. \<open>Startup\<close> has the command line and the order
  in which the process is put together.
\<close>

record flags =
  fl_preview_domain :: string
  fl_git_repo :: string
  fl_git_provider :: string
  fl_git_api_base :: string
  fl_probe_image :: string
  fl_cve_enrichment_url :: string
  fl_github_app_secret :: string
  fl_github_api_base :: string
  fl_check_run_repo_prefix :: string
  fl_metrics_addr :: string
  fl_probe_addr :: string
  fl_leader_elect :: bool

definition default_flags :: flags where
  "default_flags =
     \<lparr>fl_preview_domain = ''daddyshome.fr'', fl_git_repo = ''fredericrous/homelab'',
      fl_git_provider = ProviderGitHub, fl_git_api_base = [], fl_probe_image = ''curlimages/curl:8.11.1'',
      fl_cve_enrichment_url = [], fl_github_app_secret = [], fl_github_api_base = DefaultBaseURL,
      fl_check_run_repo_prefix = [], fl_metrics_addr = '':8080'', fl_probe_addr = '':8081'',
      fl_leader_elect = False\<rparr>"

definition wire_previews :: "flags \<Rightarrow> 'w handler_api \<Rightarrow> 'w handler_api" where
  "wire_previews fl api =
     api\<lparr>hd_domain := fl_preview_domain fl, hd_repo := fl_git_repo fl, hd_provider := fl_git_provider fl,
         hd_api_base := fl_git_api_base fl\<rparr>"

text \<open>The reporter: none without a Secret; a name that is not \<open>namespace/name\<close> is an exit with status 1.\<close>

datatype startup_exit = Exit nat

definition wire_reporter ::
  "flags \<Rightarrow> (string \<Rightarrow> 'g) \<Rightarrow> startup_exit + ('g \<times> reporter) option" where
  "wire_reporter fl client =
     (if fl_github_app_secret fl = [] then Inr None
      else
        (case cut (CHR ''/'') (fl_github_app_secret fl) of
           (ns, Some name) \<Rightarrow>
             if ns = [] \<or> name = [] then Inl (Exit 1)
             else
               Inr (Some (client (fl_github_api_base fl),
                 \<lparr>rp_secret_ns = ns, rp_secret_name = name, rp_prefix = fl_check_run_repo_prefix fl\<rparr>))
         | (_, None) \<Rightarrow> Inl (Exit 1)))"

text \<open>The MigrationCheck reconciler runs in the world of the GitHub client.\<close>

definition wire_migrations ::
  "flags \<Rightarrow> (('k, 'w) github_api \<times> reporter) option \<Rightarrow> 'w log_api \<Rightarrow> ('w gh_world) cluster_api \<Rightarrow> ('w gh_world) cluster_api" where
  "wire_migrations fl rep logs api =
     api\<lparr>cl_report := map_option (\<lambda>(gh, rp). github_report gh rp) rep,
         cl_tail := Some (\<lambda>ns job n. on_env (pod_tail logs ns job n)),
         cl_probe_image := fl_probe_image fl\<rparr>"

definition wire_checks ::
  "flags \<Rightarrow> 'w log_api \<Rightarrow> (string list \<Rightarrow> 'w \<Rightarrow> enrich_response result \<times> 'w) \<Rightarrow> 'w preview_api \<Rightarrow> 'w preview_api" where
  "wire_checks fl logs enrich api =
     api\<lparr>api_tail_logs := Some (pod_tail logs), api_recorder := True,
         api_enricher := (case New_enricher (fl_cve_enrichment_url fl) of None \<Rightarrow> None | Some _ \<Rightarrow> Some enrich)\<rparr>"

definition wire_check_config :: "flags \<Rightarrow> pc_config" where
  "wire_check_config fl = \<lparr>cf_preview_domain = fl_preview_domain fl, cf_probe_image = fl_probe_image fl\<rparr>"

text \<open>
  The reporter a process is started with never touches its world for a repository outside the
  configured prefix, and reads no Secret but the configured one.
\<close>

lemma cut_joined: "cut c s = (a, Some b) \<Longrightarrow> s = a @ c # b"
  by (auto simp: cut_def id_take_nth_drop dest!: index_byte_Some split: option.splits)

lemma wired_reporter:
  "wire_reporter fl client = Inr (Some (gh, rp)) \<Longrightarrow>
   fl_github_app_secret fl = rp_secret_ns rp @ ''/'' @ rp_secret_name rp \<and> rp_secret_ns rp \<noteq> []
   \<and> rp_secret_name rp \<noteq> [] \<and> rp_prefix rp = fl_check_run_repo_prefix fl"
  by (auto simp: wire_reporter_def split: if_splits option.splits prod.splits dest!: cut_joined)

lemma wired_report_refused:
  assumes "wire_reporter fl client = Inr (Some (gh, rp))" and "fl_check_run_repo_prefix fl \<noteq> []"
    and "\<not> has_prefix (mrp_repo report) (fl_check_run_repo_prefix fl)"
  shows "\<exists>err. the (cl_report (wire_migrations fl (Some (gh, rp)) logs api)) report i run w = (Inl err, w)"
  using assms(2,3) wired_reporter [OF assms(1)]
  by (auto simp: wire_migrations_def github_report_def ReportCheckRun_def Let_def run_return)

end
