(* ===== verification/Operator_Run.thy ===== *)
theory Operator_Run
  imports Operator Migration_Run
begin

section \<open>The MigrationCheck reconciler with the reporter the process gives it\<close>

text \<open>
  The reconciler knows the reporter as a function; \<open>cmd/main.go\<close> makes it the GitHub client. What a
  pass logs as a report is then a run of that client, and what the client's theorems say of its
  requests holds for the pass.
\<close>

lemma wired_report_runs:
  assumes "answered (wire_migrations fl (Some (gh, rp)) logs api) rep i run r"
  shows "\<exists>w ys. run_in (ReportCheckRun gh rp rep i run) w = (r, ys)"
proof -
  obtain w where "r = fst (github_report gh rp rep i run w)"
    using assms by (auto simp: answered_def wire_migrations_def)
  then have "fst (run_in (ReportCheckRun gh rp rep i run) w) = r"
    by (simp add: github_report_def run_in_def split: prod.splits)
  then show ?thesis by (metis surjective_pairing)
qed

text \<open>A report that succeeded was one the operator allows.\<close>

lemma reported_allowed:
  assumes "run_in (ReportCheckRun gh rp rep i run) w = (Inr cid, ys)"
  shows "allowed_report rp rep \<and> list_all (report_call gh rp rep i run ys) ys \<and> Github_Report.published gh rep i run ys cid"
proof -
  have p: "report_post gh rp rep i run (Inr cid) ys"
    using ens_run_in [OF ReportCheckRun_ens assms] .
  then obtain x where "x \<in> set ys" "report_call gh rp rep i run ys x"
    by (auto simp: report_post_def Github_Report.published_def list_all_iff)
  then have "allowed_report rp rep" by (simp add: report_call_def)
  with p show ?thesis by (simp add: report_post_def)
qed

text \<open>What a run of a live check, or of one being deleted, says.\<close>

definition true_run :: "migration_check \<Rightarrow> mig_report \<Rightarrow> int \<Rightarrow> check_run \<Rightarrow> bool" where
  "true_run m rep i run \<longleftrightarrow>
     mcs_report (mc_spec m) = Some rep \<and> i = mst_check_run (mc_status m)
     \<and> mst_reported (mc_status m) \<noteq> mst_phase (mc_status m) \<and> run_head_sha run = mrp_revision rep
     \<and> (run_status run = ''completed'' \<longleftrightarrow> mc_terminal (mst_phase (mc_status m)))
     \<and> (run_conclusion run = ''success'' \<longleftrightarrow> mst_phase (mc_status m) = MigrationCheckPassed)
     \<and> (run_conclusion run = ''failure'' \<longleftrightarrow> mst_phase (mc_status m) = MigrationCheckFailed)
     \<and> (run_conclusion run = ''timed_out'' \<longleftrightarrow> mst_phase (mc_status m) = MigrationCheckExpired)"

definition cancelled_of :: "migration_check \<Rightarrow> mig_report \<Rightarrow> int \<Rightarrow> check_run \<Rightarrow> bool" where
  "cancelled_of mc rep i run \<longleftrightarrow>
     mcs_report (mc_spec mc) = Some rep \<and> i = mst_check_run (mc_status mc) \<and> i \<noteq> 0
     \<and> \<not> mc_terminal (mst_reported (mc_status mc)) \<and> run_status run = ''completed'' \<and> run_conclusion run = ''cancelled''"

lemma pass_report:
  assumes run: "run_in (MigrationReconcile api ns name) w = (res, xs)" and st: "stored_as_sent xs"
    and g: "GetMC ns name (Inr mc) \<in> set xs" and r: "Report rep i run r \<in> set xs"
  shows "answered api rep i run r"
    and "if mc_deleting mc then cancelled_of mc rep i run
      else \<exists>m. (m = mc \<and> mc_terminal (mst_phase (mc_status mc)) \<or> StatusMC m (Inr m) \<in> set xs) \<and> true_run m rep i run"
proof -
  have c: "mig_call api mc (set xs) (Report rep i run r)" by (rule pass_call [OF run g r]) simp
  then show "answered api rep i run r" by (simp add: mig_call.simps)
  show "if mc_deleting mc then cancelled_of mc rep i run
      else \<exists>m. (m = mc \<and> mc_terminal (mst_phase (mc_status mc)) \<or> StatusMC m (Inr m) \<in> set xs) \<and> true_run m rep i run"
  proof (cases "mc_deleting mc")
    case True
    with c show ?thesis by (auto simp: mig_call.simps live_def cancelled_of_def cancelled_run_def)
  next
    case False
    show ?thesis unfolding true_run_def if_not_P [OF False]
      by (rule report_tells_the_truth [OF run st g False r])
  qed
qed

subsection \<open>A small operator\<close>

text \<open>A server that holds one MigrationCheck, whatever the world; the process's flags.\<close>

definition cl_fixed :: "migration_check \<Rightarrow> 'w cluster_api" where
  "cl_fixed mc =
     \<lparr>cl_lib = klib_demo, cl_uget = (\<lambda>k ns n w. (Inl cl_missing, w)), cl_ucreate = (\<lambda>u w. (Inr u, w)),
      cl_uupdate = (\<lambda>u w. (Inr u, w)), cl_udelete = (\<lambda>k ns n w. (None, w)), cl_wall = (\<lambda>w. (minute, w)),
      cl_wait = (\<lambda>w. ((1, TimedOut), w)), cl_get_mc = (\<lambda>ns n w. (Inr mc, w)),
      cl_update_mc = (\<lambda>m w. (Inr m, w)), cl_status_mc = (\<lambda>m w. (Inr m, w)), cl_delete_mc = (\<lambda>m w. (None, w)),
      cl_get_ns = (\<lambda>n w. (Inl cl_missing, w)), cl_create_ns = (\<lambda>n w. (Inr n, w)), cl_delete_ns = (\<lambda>n w. (None, w)),
      cl_get_endpoints = (\<lambda>ns n w. (Inl cl_missing, w)), cl_get_secret = (\<lambda>ns n w. (Inl cl_missing, w)),
      cl_create_secret = (\<lambda>s w. (Inr s, w)), cl_delete_secret = (\<lambda>ns n w. (None, w)),
      cl_get_job = (\<lambda>ns n w. (Inl cl_missing, w)), cl_create_job = (\<lambda>j w. (Inr j, w)),
      cl_delete_job = (\<lambda>ns n w. (None, w)), cl_list_pods = (\<lambda>ns n w. (Inr [], w)), cl_tail = None,
      cl_report = None, cl_now = (\<lambda>w. (minute, w)), cl_set_owner = (\<lambda>m s. Inr s), cl_probe_image = []\<rparr>"

definition fl_reporting :: flags where
  "fl_reporting = default_flags\<lparr>fl_github_app_secret := ''operators/github-app'', fl_check_run_repo_prefix := ''o/''\<rparr>"

lemma fl_reporting_wired:
  "wire_reporter fl_reporting (\<lambda>_. gh_demo) = Inr (Some (gh_demo, rp_demo))"
proof -
  have "cut (CHR ''/'') ''operators/github-app'' = (''operators'', Some ''github-app'')" by code_simp
  then show ?thesis by (simp add: fl_reporting_def wire_reporter_def rp_demo_def)
qed

definition failed_demo :: migration_check where
  "failed_demo = (mc_demo MigrationCheckFailed)\<lparr>mc_spec := mc_spec_demo\<lparr>mcs_report := Some rep_demo\<rparr>\<rparr>"

definition api_reporting :: "instant gh_world cluster_api" where
  "api_reporting = wire_migrations fl_reporting (Some (gh_demo, rp_demo)) undefined (cl_fixed failed_demo)"

lemma api_reporting_sel:
  "cl_lib api_reporting = klib_demo" "cl_get_mc api_reporting ns n w = (Inr failed_demo, w)"
  "cl_status_mc api_reporting m w = (Inr m, w)" "cl_now api_reporting w = (minute, w)"
  "cl_report api_reporting = Some (github_report gh_demo rp_demo)"
  by (simp_all add: api_reporting_def cl_fixed_def wire_migrations_def)

lemma failed_demo_sel:
  "mc_deleting failed_demo = False" "mc_finalizers failed_demo = [migrationCheckFinalizer]"
  "mst_phase (mc_status failed_demo) = MigrationCheckFailed" "mst_check_run (mc_status failed_demo) = 0"
  "mst_reported (mc_status failed_demo) = MigrationCheckNone" "mc_created failed_demo = 0"
  "mcs_report (mc_spec failed_demo) = Some rep_demo" "fst (ttl_left failed_demo 60000000000) = False"
  by (simp_all add: failed_demo_def mc_demo_def ttl_left_def mc_ttl_def mc_spec_demo_def time_sub_def sat64_id
      dur_seconds_def wrap64_id Let_def)

lemma demo_github_report:
  "\<exists>w1. github_report gh_demo rp_demo rep_demo 0 run (new_world (1772355600 * second)) = (Inr 9, w1)"
  using demo_reported [of run] by (auto simp: run_in_def github_report_def split: prod.splits)

lemma demo_reporting_pass:
  "\<exists>run. run_in (MigrationReconcile api_reporting ''ns'' ''mc'') (new_world (1772355600 * second))
     = ((res_done, None),
        [GetMC ''ns'' ''mc'' (Inr failed_demo), ClockNow minute, ClockNow minute,
         Report rep_demo 0 run (Inr 9), StatusMC (reported failed_demo 9) (Inr (reported failed_demo 9))])"
proof -
  obtain w1 where "github_report gh_demo rp_demo rep_demo 0 (checkRunFor failed_demo rep_demo minute)
      (new_world (1772355600 * second)) = (Inr 9, w1)"
    using demo_github_report by blast
  then show ?thesis
    by (simp add: migration_defs terminal_pass_def run_simps Let_def api_reporting_sel failed_demo_sel)
qed

end
