(* ===== verification/Metrics.thy ===== *)
theory Metrics
  imports Preview_Run Pod_Logs
begin

section \<open>The Prometheus metrics: previewcheck_metrics.go\<close>

text \<open>
  The collectors and their registration, what the entries a pass leaves in its log do to their
  values, and the promise of the comment in the source over the whole life of a PreviewCheck: it is
  counted exactly once. The registry and the vectors of \<open>client_golang\<close> are modelled as far as they
  are used: a name registered twice panics (\<open>None\<close>), a counter is a number per list of label values,
  a histogram counts, per bound, the observations at most that bound.
\<close>

subsection \<open>The collectors\<close>

datatype collector_kind = CounterVec | HistogramVec "int list" | GaugeFunc

record collector =
  co_name :: string
  co_help :: string
  co_kind :: collector_kind
  co_labels :: "string list"

definition duration_buckets :: "int list" where
  "duration_buckets = [30, 60, 120, 300, 600, 900, 1800, 3600]"

definition previewCheckTotal :: collector where
  "previewCheckTotal =
     \<lparr>co_name = ''previewcheck_total'',
      co_help = ''Terminal PreviewCheck verdicts by app, phase and reason.'',
      co_kind = CounterVec, co_labels = [''app'', ''phase'', ''reason'']\<rparr>"

definition previewCheckDuration :: collector where
  "previewCheckDuration =
     \<lparr>co_name = ''previewcheck_duration_seconds'',
      co_help = ''Seconds from a PreviewCheck starting to reaching a terminal phase.'',
      co_kind = HistogramVec duration_buckets, co_labels = [''app'']\<rparr>"

definition previewCheckCheckTotal :: collector where
  "previewCheckCheckTotal =
     \<lparr>co_name = ''previewcheck_check_total'',
      co_help = ''Individual PreviewCheck checks reaching a terminal phase.'',
      co_kind = CounterVec, co_labels = [''app'', ''check'', ''phase'']\<rparr>"

definition activeGauge :: collector where
  "activeGauge =
     \<lparr>co_name = ''previewcheck_active'',
      co_help = ''PreviewChecks that have not reached a terminal phase.'',
      co_kind = GaugeFunc, co_labels = []\<rparr>"

fun MustRegister :: "collector list \<Rightarrow> collector list \<Rightarrow> collector list option" where
  "MustRegister [] reg = Some reg"
| "MustRegister (c # cs) reg =
     (if co_name c \<in> set (map co_name reg) then None else MustRegister cs (reg @ [c]))"

record metrics_process =
  mp_registry :: "collector list"
  mp_gauge_once :: bool

text \<open>The package's \<open>init\<close>, which runs once.\<close>

definition metrics_init :: "metrics_process \<Rightarrow> metrics_process option" where
  "metrics_init p =
     map_option (\<lambda>reg. p\<lparr>mp_registry := reg\<rparr>)
       (MustRegister [previewCheckTotal, previewCheckDuration, previewCheckCheckTotal] (mp_registry p))"

definition registerActiveGauge :: "metrics_process \<Rightarrow> metrics_process option" where
  "registerActiveGauge p =
     (if mp_gauge_once p then Some p
      else map_option (\<lambda>reg. \<lparr>mp_registry = reg, mp_gauge_once = True\<rparr>)
             (MustRegister [activeGauge] (mp_registry p)))"

fun set_up_managers :: "nat \<Rightarrow> metrics_process \<Rightarrow> metrics_process option" where
  "set_up_managers 0 p = Some p"
| "set_up_managers (Suc n) p = Option.bind (registerActiveGauge p) (set_up_managers n)"

lemma registered_once:
  assumes "\<forall>c\<in>set reg. co_name c \<notin> co_name ` {previewCheckTotal, previewCheckDuration, previewCheckCheckTotal, activeGauge}"
  shows "Option.bind (metrics_init \<lparr>mp_registry = reg, mp_gauge_once = False\<rparr>) (set_up_managers (Suc n))
    = Some \<lparr>mp_registry = reg @ [previewCheckTotal, previewCheckDuration, previewCheckCheckTotal, activeGauge],
            mp_gauge_once = True\<rparr>"
proof -
  have "set_up_managers n \<lparr>mp_registry = r, mp_gauge_once = True\<rparr> = Some \<lparr>mp_registry = r, mp_gauge_once = True\<rparr>" for r
    by (induction n) (simp_all add: registerActiveGauge_def)
  with assms show ?thesis
    by (auto simp: metrics_init_def registerActiveGauge_def previewCheckTotal_def previewCheckDuration_def
        previewCheckCheckTotal_def activeGauge_def)
qed

subsection \<open>Their values\<close>

record histogram =
  hi_buckets :: "nat list"
  hi_count :: nat
  hi_sum :: duration

definition no_observations :: histogram where
  "no_observations = \<lparr>hi_buckets = replicate (length duration_buckets) 0, hi_count = 0, hi_sum = 0\<rparr>"

definition observe :: "duration \<Rightarrow> histogram \<Rightarrow> histogram" where
  "observe d h =
     \<lparr>hi_buckets = map2 (\<lambda>b n. if d \<le> b * second then n + 1 else n) duration_buckets (hi_buckets h),
      hi_count = hi_count h + 1, hi_sum = hi_sum h + d\<rparr>"

record metric_values =
  mt_total :: "string \<times> string \<times> string \<Rightarrow> nat"
  mt_checks :: "string \<times> string \<times> string \<Rightarrow> nat"
  mt_duration :: "string \<Rightarrow> histogram"

definition no_values :: metric_values where
  "no_values = \<lparr>mt_total = (\<lambda>_. 0), mt_checks = (\<lambda>_. 0), mt_duration = (\<lambda>_. no_observations)\<rparr>"

definition inc :: "'k \<Rightarrow> ('k \<Rightarrow> nat) \<Rightarrow> 'k \<Rightarrow> nat" where
  "inc k f = f(k := f k + 1)"

fun pc_phase_text :: "pc_phase \<Rightarrow> string" where
  "pc_phase_text NoPhase = []"
| "pc_phase_text PreviewCheckPending = ''Pending''"
| "pc_phase_text PreviewCheckRunning = ''Running''"
| "pc_phase_text PreviewCheckPassed = ''Passed''"
| "pc_phase_text PreviewCheckFailed = ''Failed''"
| "pc_phase_text PreviewCheckExpired = ''Expired''"

text \<open>What one entry of the log does to them.\<close>

fun record_metric :: "preview_call \<Rightarrow> metric_values \<Rightarrow> metric_values" where
  "record_metric (CountCheck app check phase) m =
     m\<lparr>mt_checks := inc (app, check, phase) (mt_checks m)\<rparr>"
| "record_metric (CountVerdict app phase reason) m =
     m\<lparr>mt_total := inc (app, pc_phase_text phase, reason_text reason) (mt_total m)\<rparr>"
| "record_metric (ObserveDuration app d) m =
     m\<lparr>mt_duration := (mt_duration m)(app := observe d (mt_duration m app))\<rparr>"
| "record_metric _ m = m"

definition metrics_after :: "preview_call list \<Rightarrow> metric_values" where
  "metrics_after xs = fold record_metric xs no_values"

lemma metrics_fold:
  "mt_total (fold record_metric xs m)
     = (\<lambda>k. mt_total m k + count_list (map (\<lambda>(a, p, r). (a, pc_phase_text p, reason_text r)) (verdicts xs)) k)"
  "mt_checks (fold record_metric xs m) = (\<lambda>k. mt_checks m k + count_list (check_counts xs) k)"
proof (induction xs arbitrary: m)
  case (Cons x xs)
  { case 1 show ?case using Cons(1) by (cases x) (auto simp: verdicts_def inc_def fun_eq_iff) }
  { case 2 show ?case using Cons(2) by (cases x) (auto simp: check_counts_def inc_def fun_eq_iff) }
qed (simp_all add: verdicts_def check_counts_def)

text \<open>Every bucket of a histogram counts the observations up to its bound, so the buckets are
  cumulative and none exceeds the count.\<close>

lemma histogram_counts:
  "fold observe ds no_observations =
     \<lparr>hi_buckets = map (\<lambda>b. length (filter (\<lambda>d. d \<le> b * second) ds)) duration_buckets,
      hi_count = length ds, hi_sum = sum_list ds\<rparr>"
  by (induction ds rule: rev_induct) (simp_all add: no_observations_def observe_def duration_buckets_def)

subsection \<open>The life of a PreviewCheck, with its log\<close>

text \<open>
  The passes over one PreviewCheck from its creation, their logs one after the other: a pass over the
  stored object whose status write lands, any pass whose status write does not (it may have read a
  stale copy, or written nothing), and the changes by others.
\<close>

inductive pc_history :: "'w preview_api \<Rightarrow> pc_config \<Rightarrow> string \<Rightarrow> string \<Rightarrow> preview_call list \<Rightarrow> preview_check \<Rightarrow> bool"
  for api cf ns name where
    created: "pc_fresh pc \<Longrightarrow> pc_history api cf ns name [] pc"
  | landed: "pc_history api cf ns name hist pc \<Longrightarrow> run_in (Reconcile api cf ns name) w = (res, xs)
      \<Longrightarrow> GetPC ns name (Inr pc) \<in> set xs \<Longrightarrow> UpdateStatus pc' (Inr stored) \<in> set xs
      \<Longrightarrow> pc_history api cf ns name (hist @ xs) (pc\<lparr>pc_status := pc_status pc'\<rparr>)"
  | missed: "pc_history api cf ns name hist pc \<Longrightarrow> run_in (Reconcile api cf ns name) w = (res, xs)
      \<Longrightarrow> \<forall>p s. UpdateStatus p (Inr s) \<notin> set xs \<Longrightarrow> pc_history api cf ns name (hist @ xs) pc"
  | others: "pc_history api cf ns name hist pc
      \<Longrightarrow> spec_edit_ok (pc_spec pc) s \<or> s = pc_spec pc
      \<Longrightarrow> pc_history api cf ns name hist
            (pc\<lparr>pc_spec := s, pc_generation := g, pc_deleting := d, pc_finalizers := f\<rparr>)"

lemma history_reachable: "pc_history api cf ns name hist pc \<Longrightarrow> pc_reachable api cf pc"
proof (induction rule: pc_history.induct)
  case (others hist pc s f d g)
  have "pc_reachable api cf (pc\<lparr>pc_spec := s, pc_generation := g\<rparr>)"
  proof (cases "spec_edit_ok (pc_spec pc) s")
    case True
    then show ?thesis by (intro pc_reachable.step [OF others.IH] pc_step.edit)
  next
    case False
    with others.hyps have "s = pc_spec pc" by blast
    then have "spec_edit_ok (pc_spec pc) s"
      unfolding spec_edit_ok_def
      by (intro exI [of _ "pcs_timeout s"] exI [of _ "pcs_ttl s"] exI [of _ "pcs_thresholds s"]) simp
    then show ?thesis by (intro pc_reachable.step [OF others.IH] pc_step.edit)
  qed
  then have "pc_reachable api cf (pc\<lparr>pc_spec := s, pc_generation := g\<rparr>\<lparr>pc_deleting := d, pc_finalizers := f\<rparr>)"
    by (rule pc_reachable.step) (rule pc_step.meta)
  then show ?case by simp
qed (auto intro: pc_reachable.intros pc_step.pass)

text \<open>A pass that writes no status, or whose write fails, counts nothing.\<close>

lemma missed_counts_nothing:
  assumes "run_in (Reconcile api cf ns name) w = (res, xs)" and "\<forall>p s. UpdateStatus p (Inr s) \<notin> set xs"
  shows "verdicts xs = [] \<and> check_counts xs = []"
proof -
  from ens_run_in [OF Reconcile_ens assms(1)] obtain got ys where
    xs: "xs = GetPC ns name got # ys" and c: "list_all is_silent ys \<or>
      (\<exists>pc now. got = Inr pc \<and> active (api_lib api) pc \<and> Now now \<in> set ys
         \<and> published (api_lib api) is_silent (pass_rel pc now) res ys)"
    unfolding reconcile_post_def by blast
  have silent: "verdicts zs = [] \<and> check_counts zs = []" if "list_all is_silent zs" for zs
    using that by (induction zs) (auto simp: verdicts_def check_counts_def split: preview_call.splits)
  have g: "verdicts xs = verdicts ys" "check_counts xs = check_counts ys"
    by (simp_all add: xs verdicts_def check_counts_def)
  from c show ?thesis
  proof (elim disjE exE conjE)
    fix pc now
    assume "published (api_lib api) is_silent (pass_rel pc now) res ys"
    then obtain pre t pc1 u r tl where
      ys: "ys = pre @ Now t # UpdateStatus (publish_status (api_lib api) pc1 u t) r # tl"
      "list_all is_silent pre" "tail_ok pc1 u r tl"
      unfolding published_def by blast
    have "\<exists>e. r = Inl e" using assms(2) by (cases r) (auto simp: xs ys(1))
    then have "tl = []" using ys(3) by (auto simp: tail_ok_def)
    then show ?thesis using silent [OF ys(2)] unfolding g by (simp add: ys(1) verdicts_def check_counts_def)
  qed (use silent g in auto)
qed

text \<open>A landed pass counts the check it finished, and the verdict if it reached one.\<close>

definition finished :: "check_result list \<Rightarrow> (string \<times> string) list" where
  "finished cs = map check_label (filter (\<lambda>r. check_terminal (cr_phase r)) cs)"

definition done_label :: "status_update \<Rightarrow> (string \<times> string) list" where
  "done_label u = (case u_check_done u of None \<Rightarrow> [] | Some r \<Rightarrow> [check_label r])"

lemma step_rel_finished:
  assumes ok: "checks_ok pc" and n: "next_check (st_checks (pc_status pc)) (Defaulted (pc_spec pc)) name"
    and s: "step_rel pc (Defaulted (pc_spec pc)) env name pc' u"
  shows "finished (st_checks (pc_status pc')) = finished (st_checks (pc_status pc)) @ done_label u"
proof -
  from n obtain dn rest where o: "ord_of pc = dn @ name # rest"
    "list_all (check_done (st_checks (pc_status pc))) dn" "\<not> check_done (st_checks (pc_status pc)) name"
    by (auto simp: next_check_def ord_of_def)
  from s obtain raw started where r: "same_but_checks pc (upsertCheck (st_checks (pc_status pc))
        (step_result env name started (deadline_step env raw))) pc'"
    "u_check_done u = (if check_terminal (stp_phase (deadline_step env raw))
        then Some (step_result env name started (deadline_step env raw)) else None)"
    unfolding step_rel_def Let_def by auto
  define res where "res = step_result env name started (deadline_step env raw)"
  have res: "cr_name res = name" "same_but_checks pc (upsertCheck (st_checks (pc_status pc)) res) pc'"
    "u_check_done u = (if check_terminal (cr_phase res) then Some res else None)"
    using r by (simp_all add: res_def step_result_def)
  have i: "rec_ok (ord_of pc) (st_checks (pc_status pc))"
    and nf: "\<forall>r\<in>set (st_checks (pc_status pc)). cr_phase r \<noteq> CheckFailed"
    using ok by (simp_all add: checks_ok_def)
  have d: "distinct (ord_of pc)" by (simp add: ord_of_def distinct_ordered)
  from upsert_next [OF i d o nf res(1)] obtain fr where
    fr: "upsertCheck (st_checks (pc_status pc)) res = fr @ [res]"
    "st_checks (pc_status pc) = fr \<or> (\<exists>r. st_checks (pc_status pc) = fr @ [r] \<and> cr_name r = name)"
    by blast
  have "\<not> check_terminal (cr_phase r)" if "st_checks (pc_status pc) = fr @ [r]" "cr_name r = name" for r
    using o(3) that check_done_in [OF rec_ok_distinct [OF i d], of name] by auto
  then show ?thesis
    using fr same_but_checks_sel [OF res(2)] res(3) by (auto simp: finished_def done_label_def)
qed

lemma pass_rel_finished:
  assumes p: "pass_rel pc now pc1 u" and i: "pc_inv pc"
  shows "finished (st_checks (pc_status pc1)) = finished (st_checks (pc_status pc)) @ done_label u"
proof -
  let ?spc = "Defaulted (pc_spec pc)"
  have nt: "\<not> pc_terminal (st_phase (pc_status pc))" using p by (simp add: pass_rel_def)
  with i have ok: "checks_ok pc" by (simp add: pc_inv_def Let_def checks_ok_def)
  show ?thesis
  proof (cases "st_started (pc_status pc)")
    case None
    then show ?thesis using p by (auto simp: pass_rel_def done_label_def)
  next
    case (Some started)
    let ?env = "make_env pc ?spc started now"
    from p Some consider
      (quiet) "touched pc pc1" "u_check_done u = None"
      | (run) pc2 ns where "touched pc pc2" "run_rel pc2 ?spc (resolved_env ?env ns) pc1 u"
      by (auto simp: pass_rel_def gate_rel_def gate_update_def)
    then show ?thesis
    proof cases
      case quiet
      then show ?thesis using touched_frame by (simp add: done_label_def)
    next
      case run
      note t = touched_frame [OF run(1)]
      have ok2: "checks_ok pc2" using ok t by (simp add: checks_ok_def ord_of_def)
      from run(2) consider (1) name where "next_check (st_checks (pc_status pc2)) ?spc name"
          and "step_rel pc2 ?spc (resolved_env ?env ns) name pc1 u"
        | (2) "touched pc2 pc1" and "u_check_done u = None"
        unfolding run_rel_def by (elim disjE exE conjE)
      then show ?thesis
      proof cases
        case 1
        then show ?thesis using step_rel_finished [OF ok2, of name _ pc1 u] t by simp
      next
        case 2
        then show ?thesis using touched_frame [OF 2(1)] t by (simp add: done_label_def)
      qed
    qed
  qed
qed


lemma landed_counts:
  assumes run: "run_in (Reconcile api cf ns name) w = (res, xs)" "GetPC ns name (Inr pc) \<in> set xs"
      "UpdateStatus pc' (Inr stored) \<in> set xs"
    and i: "pc_inv pc"
  obtains reason u where "\<not> pc_terminal (st_phase (pc_status pc))"
    and "map snd (verdicts xs) =
          (if pc_terminal (st_phase (pc_status pc')) then [(st_phase (pc_status pc'), reason)] else [])"
    and "reason_ok (st_phase (pc_status pc')) reason"
    and "map snd (check_counts xs) = done_label u"
    and "finished (st_checks (pc_status pc')) = finished (st_checks (pc_status pc)) @ done_label u"
proof -
  obtain now t pc1 up ys where p: "pass_rel pc now pc1 up" and pc': "pc' = publish_status (api_lib api) pc1 up t"
    and tl: "tail_ok pc1 up (Inr stored) ys" and v: "verdicts xs = verdicts ys" "check_counts xs = check_counts ys"
    by (rule reconcile_status_write [OF run])
  note w = pass_rel_write [OF p i]
  have sel: "st_checks (pc_status pc') = st_checks (pc_status pc1)" "st_phase (pc_status pc') = u_phase up"
    by (simp_all add: pc')
  show thesis
  proof (rule that [of "u_reason up" up])
    show "finished (st_checks (pc_status pc')) = finished (st_checks (pc_status pc)) @ done_label up"
      using pass_rel_finished [OF p i] by (simp add: sel)
  qed (use tl v w pass_rel_reason [OF p] in \<open>simp_all add: tail_ok_def sel verdict_entered_def done_label_def\<close>)
qed

definition counted :: "preview_call list \<Rightarrow> preview_check \<Rightarrow> bool" where
  "counted hist pc \<longleftrightarrow>
     (if pc_terminal (st_phase (pc_status pc))
      then \<exists>app reason. reason_ok (st_phase (pc_status pc)) reason
             \<and> verdicts hist = [(app, st_phase (pc_status pc), reason)]
      else verdicts hist = [])
     \<and> map snd (check_counts hist) = finished (st_checks (pc_status pc))"

lemma history_counted: "pc_history api cf ns name hist pc \<Longrightarrow> counted hist pc"
proof (induction rule: pc_history.induct)
  case (created pc)
  then show ?case by (simp add: counted_def pc_fresh_def verdicts_def check_counts_def finished_def)
next
  case (landed hist pc w res xs pc' stored)
  have "pc_inv pc" by (rule pc_inv_reachable [OF history_reachable [OF landed.hyps(1)]])
  then obtain reason u where
    nt: "\<not> pc_terminal (st_phase (pc_status pc))"
    and v: "map snd (verdicts xs) =
          (if pc_terminal (st_phase (pc_status pc')) then [(st_phase (pc_status pc'), reason)] else [])"
    and r: "reason_ok (st_phase (pc_status pc')) reason"
    and c: "map snd (check_counts xs) = done_label u"
      "finished (st_checks (pc_status pc')) = finished (st_checks (pc_status pc)) @ done_label u"
    using landed_counts [OF landed.hyps(2-4)] by metis
  from v have v': "if pc_terminal (st_phase (pc_status pc'))
      then \<exists>app. verdicts xs = [(app, st_phase (pc_status pc'), reason)] else verdicts xs = []"
    by (auto simp: map_eq_Cons_conv split: if_splits)
  show ?case
    using landed.IH nt v' r c by (auto simp: counted_def split: if_splits)
next
  case (missed hist pc w res xs)
  then show ?case using missed_counts_nothing [OF missed.hyps(2,3)] by (simp add: counted_def)
next
  case (others hist pc s f d g)
  then show ?case by (simp add: counted_def)
qed

text \<open>C24 A PreviewCheck is counted exactly once: over its whole life, through any passes (those that
  read a stale copy or lose their status write included) and any changes by others, the verdict
  counter is untouched while no verdict is recorded, and one in exactly one series afterwards, the
  series of the recorded phase with a reason that phase allows; and the per-check counter holds one
  for each recorded check that finished, under its name and phase, and nothing else.\<close>

theorem counted_once_in_a_life:
  assumes "pc_history api cf ns name hist pc"
  shows "(if pc_terminal (st_phase (pc_status pc))
      then \<exists>app reason. reason_ok (st_phase (pc_status pc)) reason
        \<and> mt_total (metrics_after hist)
            = (\<lambda>_. 0)((app, pc_phase_text (st_phase (pc_status pc)), reason_text reason) := 1)
      else mt_total (metrics_after hist) = (\<lambda>_. 0))
    \<and> (\<exists>apps. length apps = length (finished (st_checks (pc_status pc)))
        \<and> mt_checks (metrics_after hist) = count_list (zip apps (finished (st_checks (pc_status pc)))))"
proof -
  note c = history_counted [OF assms]
  have "check_counts hist = zip (map fst (check_counts hist)) (finished (st_checks (pc_status pc)))"
    using c by (metis counted_def zip_map_fst_snd)
  then have "\<exists>apps. length apps = length (finished (st_checks (pc_status pc)))
        \<and> mt_checks (metrics_after hist) = count_list (zip apps (finished (st_checks (pc_status pc))))"
    using c by (intro exI [of _ "map fst (check_counts hist)"])
      (auto simp: metrics_after_def metrics_fold no_values_def counted_def dest: arg_cong [of _ _ length])
  moreover have "if pc_terminal (st_phase (pc_status pc))
      then \<exists>app reason. reason_ok (st_phase (pc_status pc)) reason
        \<and> mt_total (metrics_after hist)
            = (\<lambda>_. 0)((app, pc_phase_text (st_phase (pc_status pc)), reason_text reason) := 1)
      else mt_total (metrics_after hist) = (\<lambda>_. 0)"
  proof (cases "pc_terminal (st_phase (pc_status pc))")
    case True
    with c obtain app reason where "reason_ok (st_phase (pc_status pc)) reason"
      "verdicts hist = [(app, st_phase (pc_status pc), reason)]" by (auto simp: counted_def)
    with True show ?thesis
      by (simp add: metrics_after_def metrics_fold no_values_def)
        (intro exI [of _ app] exI [of _ reason], auto simp: fun_eq_iff)
  next
    case False
    with c show ?thesis by (simp add: counted_def metrics_after_def metrics_fold no_values_def)
  qed
  ultimately show ?thesis by blast
qed

theorem counted_once_in_a_life_witness:
  "\<exists>hist app reason. pc_history api_demo cf_demo ''preview-check'' ''pc'' hist pc_passed
     \<and> mt_total (metrics_after hist) = (\<lambda>_. 0)((app, ''Passed'', reason_text reason) := 1)"
proof -
  have f: "pc_history api_demo cf_demo ''preview-check'' ''pc'' [] pc_demo1"
    by (rule pc_history.created) (simp add: pc_fresh_def pc_demo1_def pc_demo_def status_demo_def)
  have e: "pc_demo1\<lparr>pc_status := pc_status pc_started\<rparr> = pc_started"
      "pc_started\<lparr>pc_status := pc_status pc_passed\<rparr> = pc_passed"
    by (simp_all add: pc_started_def pc_passed_def)
  have "\<exists>hist. pc_history api_demo cf_demo ''preview-check'' ''pc'' hist (pc_demo1\<lparr>pc_status := pc_status pc_started\<rparr>)"
    by (rule exI, rule pc_history.landed [OF f demo_start, of pc_started pc_started]) simp_all
  then obtain log1 where "pc_history api_demo cf_demo ''preview-check'' ''pc'' log1 pc_started"
    unfolding e by blast
  then have "pc_history api_demo cf_demo ''preview-check'' ''pc''
      (log1 @ snd (run_in (Reconcile api_demo cf_demo ''preview-check'' ''pc'') world_ready))
      (pc_started\<lparr>pc_status := pc_status pc_passed\<rparr>)"
    by (rule pc_history.landed [where stored = pc_passed, OF _ surjective_pairing]) (simp_all add: demo_judge)
  then obtain hist where h: "pc_history api_demo cf_demo ''preview-check'' ''pc'' hist pc_passed"
    unfolding e by blast
  have "st_phase (pc_status pc_passed) = PreviewCheckPassed" by (simp add: pc_passed_def)
  with counted_once_in_a_life [OF h] h show ?thesis by auto
qed

end
