(* ===== verification/Judged_Preview.thy ===== *)
theory Judged_Preview
  imports Preview_Run Environment_Run
begin

section \<open>The two reconcilers on one Kustomization\<close>

text \<open>
  The Kustomization reconciler builds a preview; the PreviewCheck reconciler reads the same object, of
  which it knows fewer fields (\<open>kustomization.truncate\<close>), and judges. First, what opens the gate of a
  verdict: a status that says Passed is written, and a Job created, only behind a settled
  Kustomization that the same pass read.
\<close>

fun judging :: "preview_call \<Rightarrow> bool" where
  "judging (CreateJob j r) = True"
| "judging (UpdateStatus p r) = (st_phase (pc_status p) = PreviewCheckPassed)"
| "judging _ = False"

definition gate_open :: "klib \<Rightarrow> preview_check \<Rightarrow> preview_call list \<Rightarrow> bool" where
  "gate_open lib pc xs \<longleftrightarrow>
     (\<exists>pns ks ksn n. n = ''preview-pr-'' @ itoa (pcs_pr (pc_spec pc)) \<and> GetNamespace n (Inr pns) \<in> set xs
        \<and> ns_ready (Defaulted (pc_spec pc)) pns \<and> GetKustomization n ksn (Inr ks) \<in> set xs
        \<and> fst (kustomizationSettled lib ks (pcs_revision (pc_spec pc))))"

definition judged :: "klib \<Rightarrow> preview_check \<Rightarrow> preview_call list \<Rightarrow> bool" where
  "judged lib pc xs \<longleftrightarrow> list_all (\<lambda>c. \<not> judging c) xs \<or> gate_open lib pc xs"

lemma judged_Cons: "judged lib pc xs \<Longrightarrow> \<not> judging c \<Longrightarrow> judged lib pc (c # xs)"
  unfolding judged_def gate_open_def by (elim disjE exE conjE) (simp, fastforce)

lemma published_not_judging:
  assumes "published lib L Q res xs" and "\<And>c. L c \<Longrightarrow> \<not> judging c"
    and "\<And>p u. Q p u \<Longrightarrow> u_phase u \<noteq> PreviewCheckPassed"
  shows "list_all (\<lambda>c. \<not> judging c) xs"
proof -
  from assms(1) obtain pre now p u r ys where
    xs: "xs = pre @ Now now # UpdateStatus (publish_status lib p u now) r # ys"
    "list_all L pre" "Q p u" "tail_ok p u r ys"
    unfolding published_def by blast
  have "list_all (\<lambda>c. \<not> judging c) pre" using xs(2) assms(2) by (auto simp: list_all_iff)
  moreover have "list_all is_counter ys" using xs(4) by (simp add: tail_ok_def)
  then have "list_all (\<lambda>c. \<not> judging c) ys"
    by (rule list.pred_mono_strong) (auto elim: is_counter.elims)
  moreover have "st_phase (pc_status (publish_status lib p u now)) \<noteq> PreviewCheckPassed"
    using assms(3) [OF xs(3)] by (simp add: publish_status_def Let_def)
  ultimately show ?thesis by (simp add: xs(1))
qed

lemma judge_post_judged:
  assumes "judge_post lib pc (Defaulted (pc_spec pc)) (make_env pc (Defaulted (pc_spec pc)) started now) res ys"
  shows "judged lib pc ys"
  using assms unfolding judge_post_def
proof (elim disjE exE conjE)
  let ?env = "make_env pc (Defaulted (pc_spec pc)) started now"
  assume "gate_post lib pc ?env res ys"
  then have "list_all (\<lambda>c. \<not> judging c) ys"
    unfolding gate_post_def
  proof (elim disjE conjE)
    assume "list_all is_gate_read ys"
    then show ?thesis by (rule list.pred_mono_strong) (auto simp: is_gate_read_def)
  next
    assume "published lib is_gate_read (gate_rel pc ?env) res ys"
    then show ?thesis
      by (rule published_not_judging) (auto simp: is_gate_read_def gate_rel_def gate_update_def)
  qed
  then show ?thesis by (simp add: judged_def)
next
  let ?env = "make_env pc (Defaulted (pc_spec pc)) started now"
  fix ns ks pc1 zs
  assume ys: "ys = GetNamespace (ce_ns_name ?env) (Inr ns)
      # GetKustomization (ce_ns_name ?env) (ks_name_of (Defaulted (pc_spec pc))) (Inr ks) # zs"
    and nr: "ns_ready (Defaulted (pc_spec pc)) ns"
    and st: "fst (kustomizationSettled lib ks (pcs_revision (Defaulted (pc_spec pc))))"
  have n: "ce_ns_name ?env = ''preview-pr-'' @ itoa (pcs_pr (pc_spec pc))" by (simp add: make_env_def)
  show ?thesis
    unfolding judged_def gate_open_def using nr st n
    by (intro disjI2 exI [of _ ns] exI [of _ ks] exI [of _ "ks_name_of (Defaulted (pc_spec pc))"]
        exI [of _ "ce_ns_name ?env"]) (simp add: ys)
qed

lemma Reconcile_judged:
  "ensures (Reconcile api cf ns name)
     (\<lambda>r xs. \<exists>got ys. xs = GetPC ns name got # ys
        \<and> (\<forall>pc. got = Inr pc \<longrightarrow>
              (if Preview_Check.active (api_lib api) pc then judged (api_lib api) pc ys
               else list_all (\<lambda>c. \<not> job_call c) ys)))"
proof -
  have pub: "ensures (publish api pc u) (\<lambda>r xs. list_all (\<lambda>c. \<not> judging c) xs)"
    if "u_phase u \<noteq> PreviewCheckPassed" for pc u
    by (rule ens_weaken [OF publish_ens [where L = "\<lambda>_. False"]], rule published_not_judging, assumption)
      (use that in auto)
  have jd: "judged lib pc xs" if "list_all (\<lambda>c. \<not> judging c) xs" for lib pc xs
    using that by (simp add: judged_def)
  have jN: "judged lib pc (Now t # xs)" if "judged lib pc xs" for lib pc t xs
    by (rule judged_Cons [OF that]) simp
  show ?thesis
    unfolding Reconcile_def Let_def
    apply (rule ens_bind, rule ens_operate)
    apply (rule ens_sum)
     apply (rule ens_return, simp)
    apply (rule ens_if)
     apply (rule ens_weaken [OF reconcile_deleted_ens], simp add: Preview_Check.active_def)
    apply (rule ens_if)
     apply (unfold add_finalizer_pass_def Let_def)
     apply (rule ens_bind, rule ens_operate, rule ens_return, simp add: Preview_Check.active_def)
    apply (rule ens_bind, rule ens_operate)
    apply (rule ens_if)
     apply (unfold self_delete_pass_def)
     apply (rule ens_if)
      apply (rule ens_bind, rule ens_operate, rule ens_return, simp add: jd Preview_Check.active_def)
     apply (rule ens_return, simp add: jd Preview_Check.active_def)
    apply (rule ens_option)
     apply (unfold start_pass_def)
     apply (rule ens_weaken [OF pub]; simp add: jd update_of_def Preview_Check.active_def)
    apply (rule ens_if)
     apply (rule ens_weaken [OF pub]; simp add: jd update_of_def Preview_Check.active_def)
    apply (rule ens_weaken [OF judge_pass_ens])
    apply (drule judge_post_judged, simp add: jN Preview_Check.active_def)
    done
qed

lemma pass_judged:
  assumes run: "run_in (Reconcile api cf ns name) w = (res, xs)" and g: "GetPC ns name (Inr pc) \<in> set xs"
    and x: "x \<in> set xs" "judging x"
  shows "gate_open (api_lib api) pc xs"
proof -
  from ens_run_in [OF Reconcile_judged run] obtain got ys where
    xs: "xs = GetPC ns name got # ys" and j: "\<And>pc. got = Inr pc \<Longrightarrow>
      if Preview_Check.active (api_lib api) pc then judged (api_lib api) pc ys else list_all (\<lambda>c. \<not> job_call c) ys"
    by blast
  from ens_run_in [OF Reconcile_ens run] have "GetPC ns name g \<notin> set ys" for g
    unfolding xs by (rule reconcile_post_one_get)
  then have got: "got = Inr pc" using g by (auto simp: xs)
  have xy: "x \<in> set ys" using x by (auto simp: xs)
  have "Preview_Check.active (api_lib api) pc"
  proof (cases x)
    case (CreateJob jb r)
    then have "job_call x" by simp
    then have "\<not> list_all (\<lambda>c. \<not> job_call c) ys" using xy unfolding list_all_iff by blast
    then show ?thesis using j [OF got] by (simp split: if_splits)
  next
    case (UpdateStatus p r)
    then show ?thesis using reconcile_status_write [OF run g, of p r] x(1) by metis
  qed (use x(2) in simp_all)
  then have "judged (api_lib api) pc ys" using j [OF got] by simp
  moreover have "\<not> list_all (\<lambda>c. \<not> judging c) ys" using xy x(2) by (auto simp: list_all_iff)
  ultimately have "gate_open (api_lib api) pc ys" by (simp add: judged_def)
  then show ?thesis unfolding gate_open_def by (auto simp: xs)
qed


subsection \<open>What a settled Kustomization is\<close>

lemma truncate_sel [simp]:
  "ks_suspend (kustomization.truncate p) = ks_suspend p"
  "ks_annotations (kustomization.truncate p) = ks_annotations p"
  "ks_generation (kustomization.truncate p) = ks_generation p"
  "ks_observed_generation (kustomization.truncate p) = ks_observed_generation p"
  "ks_last_applied (kustomization.truncate p) = ks_last_applied p"
  "ks_conditions (kustomization.truncate p) = ks_conditions p"
  by (simp_all add: kustomization.truncate_def)

lemma settled_complete:
  assumes "fst (kustomizationSettled lib (kustomization.truncate p) rv)" and "env_inv p"
  shows "stage_of p = Complete \<and> annotation p ConfigHashAnnotation \<noteq> []"
  using assms unfolding kustomizationSettled_iff by (auto simp: env_inv_def stage_defs annotation_def)

subsection \<open>A preview built and judged\<close>

lemma demo_complete:
  "GetKs ''preview-pr-7'' ''app'' (Inr built_demo) \<in> set (snd (env_run built_demo (Inl cl_missing)))"
  "ks_stored_as_sent (snd (env_run built_demo (Inl cl_missing)))"
  "UpdateKs complete_demo (Inr complete_demo) \<in> set (snd (env_run built_demo (Inl cl_missing)))"
  by (simp_all add: pass_defs run_simps credentials_pass_def UpdateDBCredentialPatches_def setAnnotation_def
      needs_credentials_def complete_demo_def ks_stored_as_sent_def accepted_def)

definition settled_demo :: preview_ks where
  "settled_demo = complete_demo\<lparr>ks_generation := 3, ks_observed_generation := 3, ks_last_applied := ''sha1:abc'',
     ks_conditions := [\<lparr>cond_type = ''Ready'', cond_status = CondTrue, cond_reason = [], cond_message = [],
       cond_observed_generation = 3, cond_last_transition = 0\<rparr>]\<rparr>"

lemma reachable_settled: "env_reachable env_demo settled_demo"
proof -
  have "env_reachable env_demo complete_demo"
    by (rule env_reachable.step [OF reachable_built]) (rule env_step.pass [OF surjective_pairing demo_complete(2,1,3)])
  then show ?thesis unfolding settled_demo_def by (rule env_reachable.step) (rule env_step.status)
qed

lemma settled_demo_settled:
  "kustomizationSettled klib_demo (kustomization.truncate settled_demo) []
     = (True, ReasonEmpty, ''preview Kustomization applied sha1:abc'', False)"
proof -
  have "annotation complete_demo CredentialsPatchedAnnotation = ''true''" by (simp add: complete_demo_def)
  then have "sget (ks_annotations settled_demo) CredentialsPatchedAnnotation = ''true''"
    by (simp add: settled_demo_def annotation_def)
  moreover have "\<not> ks_suspend settled_demo"
    using built_demo_sel(2) by (simp add: settled_demo_def complete_demo_def annotate_def)
  ultimately show ?thesis
    by (simp add: kustomizationSettled_def settled_demo_def klib_demo_def)
qed

definition world_judged :: preview_world where
  "world_judged = world_ready\<lparr>pw_kustomization := Inr (kustomization.truncate settled_demo)\<rparr>"

lemma world_judged_sel:
  "pw_pc world_judged = Inr pc_started" "pw_namespace world_judged = Inr ns_demo"
  "pw_kustomization world_judged = Inr (kustomization.truncate settled_demo)"
  "pw_deployments world_judged = [wl_demo]" "pw_now world_judged = 60 * second"
  by (simp_all add: world_judged_def world_ready_sel)

lemma demo_judged:
  "snd (run_in (Reconcile api_demo cf_demo ''preview-check'' ''pc'') world_judged) =
      [GetPC ''preview-check'' ''pc'' (Inr pc_started), Now (60 * second),
       GetNamespace ''preview-pr-7'' (Inr ns_demo),
       GetKustomization ''preview-pr-7'' ''preview-app-7'' (Inr (kustomization.truncate settled_demo)),
       ListDeployments ''preview-pr-7'' (Inr [wl_demo]), ListStatefulSets ''preview-pr-7'' (Inr []),
       Now (60 * second), UpdateStatus pc_passed (Inr pc_passed),
       CountCheck ''app'' ''readiness'' ''Passed'', CountVerdict ''app'' PreviewCheckPassed ReasonAllChecksPassed,
       ObserveDuration ''app'' (60 * second), Event EventNormal ''AllChecksPassed'' ''1 check(s) passed'']"
  by (simp add: Reconcile_def run_simps Preview_Run.pass_defs truncateMessage_def world_judged_sel settled_demo_settled)
     (simp add: publish_status_def Let_def klib_demo_def pc_passed_def truncateMessage_def
        ConditionSucceeded_def pc_started_def pc_demo1_def pc_demo_def spec_demo_def status_demo_def
        cf_demo_def phase_condition_def)

end
