(* ===== verification/Startup.thy ===== *)
theory Startup
  imports Operator Metrics Kustomization_Controller
begin

section \<open>Starting the process: main\<close>

text \<open>
  \<open>main\<close> as a program: the command line, the scheme, the manager and its options, the three
  controllers with what they watch and how they retry, the health checks, and the start. The manager
  and the clientset are controller-runtime's and client-go's: each call of them is one that may fail.
  The types other modules add to the scheme, and the flags they register, are parameters. Messages
  to the log are left out.
\<close>

subsection \<open>The command line\<close>

text \<open>A registered flag: of the operator, with the variable it sets, or of a library (whether it is
  boolean, and which values it accepts).\<close>

datatype flag_def =
    StringVar "string \<Rightarrow> flags \<Rightarrow> flags"
  | BoolVar "bool \<Rightarrow> flags \<Rightarrow> flags"
  | LibVar bool "string \<Rightarrow> bool"

definition operator_flags :: "(string \<times> flag_def) list" where
  "operator_flags =
     [(''metrics-bind-address'', StringVar (\<lambda>v. fl_metrics_addr_update (\<lambda>_. v))),
      (''health-probe-bind-address'', StringVar (\<lambda>v. fl_probe_addr_update (\<lambda>_. v))),
      (''leader-elect'', BoolVar (\<lambda>b. fl_leader_elect_update (\<lambda>_. b))),
      (''preview-domain'', StringVar (\<lambda>v. fl_preview_domain_update (\<lambda>_. v))),
      (''github-repo'', StringVar (\<lambda>v. fl_git_repo_update (\<lambda>_. v))),
      (''git-provider'', StringVar (\<lambda>v. fl_git_provider_update (\<lambda>_. v))),
      (''git-api-base-url'', StringVar (\<lambda>v. fl_git_api_base_update (\<lambda>_. v))),
      (''probe-image'', StringVar (\<lambda>v. fl_probe_image_update (\<lambda>_. v))),
      (''cve-enrichment-url'', StringVar (\<lambda>v. fl_cve_enrichment_url_update (\<lambda>_. v))),
      (''github-app-secret'', StringVar (\<lambda>v. fl_github_app_secret_update (\<lambda>_. v))),
      (''github-api-base-url'', StringVar (\<lambda>v. fl_github_api_base_update (\<lambda>_. v))),
      (''check-run-repo-prefix'', StringVar (\<lambda>v. fl_check_run_repo_prefix_update (\<lambda>_. v)))]"

definition ParseBool :: "string \<Rightarrow> bool option" where
  "ParseBool s =
     (if s \<in> set [''1'', ''t'', ''T'', ''TRUE'', ''true'', ''True''] then Some True
      else if s \<in> set [''0'', ''f'', ''F'', ''FALSE'', ''false'', ''False''] then Some False
      else None)"

fun set_flag :: "flag_def \<Rightarrow> string \<Rightarrow> flags \<Rightarrow> flags option" where
  "set_flag (StringVar f) v fl = Some (f v fl)"
| "set_flag (BoolVar f) v fl = map_option (\<lambda>b. f b fl) (ParseBool v)"
| "set_flag (LibVar _ ok) v fl = (if ok v then Some fl else None)"

fun is_bool_flag :: "flag_def \<Rightarrow> bool" where
  "is_bool_flag (StringVar _) = False"
| "is_bool_flag (BoolVar _) = True"
| "is_bool_flag (LibVar b _) = b"

text \<open>
  \<open>flag.Parse\<close>: one or two dashes, \<open>name=value\<close> or the next argument, a boolean flag needs no value, the
  first argument that is no flag ends the flags. An error prints the usage and ends the process with
  status 2, a request for help with status 0.
\<close>

fun flag_parse :: "(string \<times> flag_def) list \<Rightarrow> string list \<Rightarrow> flags \<Rightarrow> startup_exit + flags" where
  "flag_parse fs [] fl = Inr fl"
| "flag_parse fs (s # args) fl =
     (if length s < 2 \<or> hd s \<noteq> CHR ''-'' \<or> s = ''--'' then Inr fl
      else
        let name = (if s ! 1 = CHR ''-'' then drop 2 s else drop 1 s) in
        if name = [] \<or> hd name = CHR ''-'' \<or> hd name = CHR ''='' then Inl (Exit 2)
        else
          (case cut (CHR ''='') name of
             (n, v) \<Rightarrow>
               (case map_of fs n of
                  None \<Rightarrow> Inl (Exit (if n = ''help'' \<or> n = ''h'' then 0 else 2))
                | Some f \<Rightarrow>
                    (case v of
                       Some x \<Rightarrow>
                         (case set_flag f x fl of None \<Rightarrow> Inl (Exit 2) | Some fl' \<Rightarrow> flag_parse fs args fl')
                     | None \<Rightarrow>
                         if is_bool_flag f then
                           (case set_flag f ''true'' fl of
                              None \<Rightarrow> Inl (Exit 2)
                            | Some fl' \<Rightarrow> flag_parse fs args fl')
                         else
                           (case args of
                              [] \<Rightarrow> Inl (Exit 2)
                            | x # rest \<Rightarrow>
                                (case set_flag f x fl of
                                   None \<Rightarrow> Inl (Exit 2)
                                 | Some fl' \<Rightarrow> flag_parse fs rest fl'))))))"

text \<open>The flags as a command line, and the command line of the deployment.\<close>

definition flag_args :: "flags \<Rightarrow> string list" where
  "flag_args fl =
     map (\<lambda>(n, v). ''--'' @ n @ ''='' @ v)
       [(''preview-domain'', fl_preview_domain fl), (''leader-elect'', btoa (fl_leader_elect fl)),
        (''health-probe-bind-address'', fl_probe_addr fl), (''metrics-bind-address'', fl_metrics_addr fl),
        (''github-repo'', fl_git_repo fl), (''git-provider'', fl_git_provider fl),
        (''git-api-base-url'', fl_git_api_base fl), (''probe-image'', fl_probe_image fl),
        (''cve-enrichment-url'', fl_cve_enrichment_url fl), (''github-app-secret'', fl_github_app_secret fl),
        (''github-api-base-url'', fl_github_api_base fl),
        (''check-run-repo-prefix'', fl_check_run_repo_prefix fl)]"

lemma cut_joined_back: "c \<notin> set a \<Longrightarrow> cut c (a @ c # b) = (a, Some b)"
  by (simp add: cut_def index_byte_append)

lemma parse_assigned:
  assumes "n \<noteq> []" and "hd n \<noteq> CHR ''-''" and "CHR ''='' \<notin> set n" and "map_of fs n = Some f"
    and "set_flag f v fl = Some fl'"
  shows "flag_parse fs ((''--'' @ n @ ''='' @ v) # args) fl = flag_parse fs args fl'"
proof -
  have "hd n \<noteq> CHR ''=''" using assms(1,3) by (cases n) auto
  moreover have "cut (CHR ''='') (n @ ''='' @ v) = (n, Some v)" using cut_joined_back [OF assms(3)] by simp
  ultimately show ?thesis using assms by (simp add: Let_def)
qed

lemma parse_bool_back: "ParseBool (btoa b) = Some b"
  by (cases b) (simp_all add: ParseBool_def btoa_def)

lemma flags_read_back: "flag_parse (operator_flags @ libs) (flag_args fl) fl0 = Inr fl"
  by (simp add: flag_args_def parse_assigned operator_flags_def parse_bool_back del: append.simps flag_parse.simps(2))

lemma deployed_flags:
  "flag_parse operator_flags [''--leader-elect'', ''--preview-domain=daddyshome.fr'', ''--github-repo=fredericrous/homelab'']
     default_flags = Inr (default_flags\<lparr>fl_leader_elect := True\<rparr>)"
  by (simp add: operator_flags_def cut_def default_flags_def ParseBool_def)


subsection \<open>The scheme\<close>

text \<open>
  The kinds of the group, in the order of the files that register them, and the four groups of types
  the process knows. What the client, Flux and the scheme builder add is a parameter; an error of
  \<open>AddToScheme\<close> panics (\<open>None\<close>).
\<close>

definition GroupVersion :: "string \<times> string" where
  "GroupVersion = (''preview.homelab.io'', ''v1'')"

definition SchemeBuilder :: "string list" where
  "SchemeBuilder =
     [''MigrationCheck'', ''MigrationCheckList''] @ [''PreviewCheck'', ''PreviewCheckList'']
     @ [''PreviewConfig'', ''PreviewConfigList'']"

record scheme_lib =
  sl_client_go :: "gvk list \<Rightarrow> gvk list option"
  sl_kustomize :: "gvk list \<Rightarrow> gvk list option"
  sl_source :: "gvk list \<Rightarrow> gvk list option"
  sl_build :: "string \<times> string \<Rightarrow> string list \<Rightarrow> gvk list \<Rightarrow> gvk list option"

definition AddToScheme :: "scheme_lib \<Rightarrow> gvk list \<Rightarrow> gvk list option" where
  "AddToScheme lib = sl_build lib GroupVersion SchemeBuilder"

definition scheme_init :: "scheme_lib \<Rightarrow> gvk list option" where
  "scheme_init lib =
     Option.bind (sl_client_go lib []) (\<lambda>s. Option.bind (sl_kustomize lib s)
       (\<lambda>s. Option.bind (sl_source lib s) (AddToScheme lib)))"

subsection \<open>The manager and the controllers\<close>

record manager_options =
  mo_scheme :: "gvk list"
  mo_leader_election :: bool
  mo_leader_id :: string
  mo_probe_addr :: string
  mo_metrics_addr :: string
  mo_strip_managed_fields :: bool
  mo_uncached :: "string list"

definition manager_options_of :: "gvk list \<Rightarrow> flags \<Rightarrow> manager_options" where
  "manager_options_of scheme fl =
     \<lparr>mo_scheme = scheme, mo_leader_election = fl_leader_elect fl,
      mo_leader_id = ''preview-operator.homelab.io'', mo_probe_addr = fl_probe_addr fl,
      mo_metrics_addr = fl_metrics_addr fl, mo_strip_managed_fields = True,
      mo_uncached = [''Job'', ''Pod'']\<rparr>"

text \<open>The fields a reconciler is given besides its client, scheme, clock and log reader.\<close>

datatype reconciler_fields =
    KustomizationFields (kf_domain: string) (kf_repo: string) (kf_provider: string) (kf_api_base: string)
  | MigrationFields (mf_probe_image: string) (mf_reporter: "(string \<times> reporter) option")
  | PreviewFields (pf_domain: string) (pf_probe_image: string) (pf_recorder: string) (pf_enricher: "(string \<times> memo) option")

text \<open>What a controller watches, which events it takes, its workers (0 for the library's default) and
  the backoff after errors (likewise).\<close>

record controller_setup =
  ct_for :: string
  ct_owns :: "string list"
  ct_filter :: "(smap \<Rightarrow> bool) option"
  ct_workers :: nat
  ct_backoff :: "(duration \<times> duration) option"
  ct_fields :: reconciler_fields

definition previewLabelPredicate :: "smap \<Rightarrow> bool" where
  "previewLabelPredicate labels \<longleftrightarrow> sget labels PreviewEnvironmentLabel = ''true''"

definition KustomizationSetup :: "reconciler_fields \<Rightarrow> controller_setup" where
  "KustomizationSetup r =
     \<lparr>ct_for = ''Kustomization'', ct_owns = [''Secret''], ct_filter = Some previewLabelPredicate,
      ct_workers = 0, ct_backoff = None, ct_fields = r\<rparr>"

definition MigrationSetup :: "reconciler_fields \<Rightarrow> controller_setup" where
  "MigrationSetup r =
     \<lparr>ct_for = ''MigrationCheck'', ct_owns = [''Secret''], ct_filter = None,
      ct_workers = 0, ct_backoff = None, ct_fields = r\<rparr>"

definition PreviewSetup :: "reconciler_fields \<Rightarrow> controller_setup" where
  "PreviewSetup r =
     \<lparr>ct_for = ''PreviewCheck'', ct_owns = [], ct_filter = None,
      ct_workers = 4, ct_backoff = Some (5 * millisecond, 30 * second), ct_fields = r\<rparr>"

text \<open>What the flags give each of them.\<close>

definition kustomization_fields :: "flags \<Rightarrow> reconciler_fields" where
  "kustomization_fields fl =
     KustomizationFields (fl_preview_domain fl) (fl_git_repo fl) (fl_git_provider fl) (fl_git_api_base fl)"

definition migration_fields :: "flags \<Rightarrow> (string \<times> reporter) option \<Rightarrow> reconciler_fields" where
  "migration_fields fl reporter = MigrationFields (fl_probe_image fl) reporter"

definition preview_fields :: "flags \<Rightarrow> reconciler_fields" where
  "preview_fields fl =
     PreviewFields (fl_preview_domain fl) (fl_probe_image fl) ''previewcheck''
       (New_enricher (fl_cve_enrichment_url fl))"

subsection \<open>The program\<close>

datatype boot_call =
    GetRestConfig "goerr option"
  | NewManager manager_options "goerr option"
  | CompleteController controller_setup "goerr option"
  | NewForConfig "goerr option"
  | AddHealthzCheck string "goerr option"
  | AddReadyzCheck string "goerr option"
  | StartManager "goerr option"

record 'w boot_api =
  bt_config :: "'w \<Rightarrow> goerr option \<times> 'w"
  bt_manager :: "manager_options \<Rightarrow> 'w \<Rightarrow> goerr option \<times> 'w"
  bt_complete :: "controller_setup \<Rightarrow> 'w \<Rightarrow> goerr option \<times> 'w"
  bt_clientset :: "'w \<Rightarrow> goerr option \<times> 'w"
  bt_healthz :: "string \<Rightarrow> 'w \<Rightarrow> goerr option \<times> 'w"
  bt_readyz :: "string \<Rightarrow> 'w \<Rightarrow> goerr option \<times> 'w"
  bt_start :: "'w \<Rightarrow> goerr option \<times> 'w"

type_synonym ('w, 'a) bprog = "('w, boot_call, 'a) prog"

text \<open>\<open>if err := ...; err != nil { ...; os.Exit(1) }\<close>\<close>

definition or_exit ::
  "('w \<Rightarrow> goerr option \<times> 'w) \<Rightarrow> (goerr option \<Rightarrow> boot_call) \<Rightarrow> ('w, startup_exit) bprog \<Rightarrow> ('w, startup_exit) bprog" where
  "or_exit call entry rest =
     do {
       err \<leftarrow> operate call entry;
       case err of Some _ \<Rightarrow> State_Monad.return (Exit 1) | None \<Rightarrow> rest
     }"

text \<open>\<open>main\<close> after the command line is read; \<open>mp\<close> is the metrics registry as the package
  initialisers left it.\<close>

definition run_manager :: "'w boot_api \<Rightarrow> gvk list \<Rightarrow> metrics_process \<Rightarrow> flags \<Rightarrow> ('w, startup_exit) bprog" where
  "run_manager api scheme mp fl =
     or_exit (bt_config api) GetRestConfig
      (let opts = manager_options_of scheme fl; ks = KustomizationSetup (kustomization_fields fl) in
       or_exit (bt_manager api opts) (NewManager opts)
        (or_exit (bt_complete api ks) (CompleteController ks)
          (or_exit (bt_clientset api) NewForConfig
            (case wire_reporter fl (\<lambda>base. trim_suffix base ''/'') of
               Inl e \<Rightarrow> State_Monad.return e
             | Inr reporter \<Rightarrow>
                 let mc = MigrationSetup (migration_fields fl reporter); pc = PreviewSetup (preview_fields fl) in
                 or_exit (bt_complete api mc) (CompleteController mc)
                   (case registerActiveGauge mp of
                      None \<Rightarrow> State_Monad.return (Exit 2)
                    | Some mp' \<Rightarrow>
                        or_exit (bt_complete api pc) (CompleteController pc)
                          (or_exit (bt_healthz api ''healthz'') (AddHealthzCheck ''healthz'')
                            (or_exit (bt_readyz api ''readyz'') (AddReadyzCheck ''readyz'')
                              (or_exit (bt_start api) StartManager (State_Monad.return (Exit 0))))))))))"

text \<open>The process: the initialisers of the packages, whose panics end it with status 2, then \<open>main\<close>.\<close>

definition operator_main ::
  "scheme_lib \<Rightarrow> (string \<times> flag_def) list \<Rightarrow> metrics_process \<Rightarrow> 'w boot_api \<Rightarrow> string list
   \<Rightarrow> ('w, startup_exit) bprog" where
  "operator_main lib libs mp api args =
     (case metrics_init mp of
        None \<Rightarrow> State_Monad.return (Exit 2)
      | Some mp1 \<Rightarrow>
          (case scheme_init lib of
             None \<Rightarrow> State_Monad.return (Exit 2)
           | Some scheme \<Rightarrow>
               (case flag_parse (operator_flags @ libs) args default_flags of
                  Inl e \<Rightarrow> State_Monad.return e
                | Inr fl \<Rightarrow> run_manager api scheme mp1 fl)))"

subsection \<open>What a start means\<close>

text \<open>The calls that put the process together, in order, each successful.\<close>

definition set_up_calls :: "gvk list \<Rightarrow> flags \<Rightarrow> (string \<times> reporter) option \<Rightarrow> boot_call list" where
  "set_up_calls scheme fl reporter =
     [GetRestConfig None, NewManager (manager_options_of scheme fl) None,
      CompleteController (KustomizationSetup (kustomization_fields fl)) None, NewForConfig None,
      CompleteController (MigrationSetup (migration_fields fl reporter)) None,
      CompleteController (PreviewSetup (preview_fields fl)) None,
      AddHealthzCheck ''healthz'' None, AddReadyzCheck ''readyz'' None]"

fun boot_error :: "boot_call \<Rightarrow> goerr option" where
  "boot_error (GetRestConfig e) = e"
| "boot_error (NewManager _ e) = e"
| "boot_error (CompleteController _ e) = e"
| "boot_error (NewForConfig e) = e"
| "boot_error (AddHealthzCheck _ e) = e"
| "boot_error (AddReadyzCheck _ e) = e"
| "boot_error (StartManager e) = e"

lemma ens_or_exit:
  assumes "\<And>err. P (Exit 1) [entry (Some err)]" and "ensures rest (\<lambda>e xs. P e (entry None # xs))"
  shows "ensures (or_exit call entry rest) P"
  unfolding or_exit_def
  by (rule ens_bind, rule ens_operate, rule ens_option; (rule ens_return)?) (use assms in auto)

definition boots :: "metrics_process \<Rightarrow> gvk list \<Rightarrow> flags \<Rightarrow> startup_exit \<Rightarrow> boot_call list \<Rightarrow> bool" where
  "boots mp scheme fl e xs \<longleftrightarrow>
     (\<forall>r. StartManager r \<in> set xs \<longrightarrow>
        (\<exists>reporter. wire_reporter fl (\<lambda>base. trim_suffix base ''/'') = Inr reporter
          \<and> xs = set_up_calls scheme fl reporter @ [StartManager r]))
     \<and> (\<forall>x\<in>set xs. boot_error x \<noteq> None \<longrightarrow> x = last xs \<and> e = Exit 1)
     \<and> (e = Exit 0 \<longleftrightarrow> StartManager None \<in> set xs)
     \<and> ((\<forall>x\<in>set xs. boot_error x = None) \<and> registerActiveGauge mp \<noteq> None
         \<and> (\<exists>reporter. wire_reporter fl (\<lambda>base. trim_suffix base ''/'') = Inr reporter) \<longrightarrow> e = Exit 0)"

lemma run_manager_boots: "ensures (run_manager api scheme mp fl) (boots mp scheme fl)"
proof -
  have exit: "wire_reporter fl (\<lambda>base. trim_suffix base ''/'') = Inl e \<Longrightarrow> e = Exit 1" for e
    by (auto simp: wire_reporter_def split: if_splits prod.splits option.splits)
  show ?thesis
    unfolding run_manager_def Let_def
    by (intro ens_or_exit ens_sum ens_option ens_return) (auto simp: boots_def set_up_calls_def dest: exit)
qed

lemma run_in_return: "run_in (State_Monad.return a) w = (a, [])"
  by (simp add: run_in_def run_return)

lemma main_boots:
  assumes "run_in (operator_main lib libs mp api args) w = (e, xs)" and "xs \<noteq> []"
  shows "\<exists>mp1 scheme fl. metrics_init mp = Some mp1 \<and> scheme_init lib = Some scheme
    \<and> flag_parse (operator_flags @ libs) args default_flags = Inr fl \<and> boots mp1 scheme fl e xs"
  using assms unfolding operator_main_def
  by (auto simp: run_in_return split: option.splits sum.splits intro: ens_run_in [OF run_manager_boots])

text \<open>The values a controller is set up with are those its reconciler runs with in the model.\<close>

lemma fields_are_wired:
  "kustomization_fields fl
     = (let h = wire_previews fl (api :: 'w handler_api)
        in KustomizationFields (hd_domain h) (hd_repo h) (hd_provider h) (hd_api_base h))"
  "mf_probe_image (migration_fields fl r) = cl_probe_image (wire_migrations fl rep logs capi)"
  "pf_domain (preview_fields fl) = cf_preview_domain (wire_check_config fl)"
  "pf_probe_image (preview_fields fl) = cf_probe_image (wire_check_config fl)"
  "pf_enricher (preview_fields fl) = None \<longleftrightarrow> api_enricher (wire_checks fl logs' enrich papi) = None"
  by (simp_all add: kustomization_fields_def wire_previews_def migration_fields_def wire_migrations_def
      preview_fields_def wire_check_config_def wire_checks_def split: option.splits)

lemma reporter_is_wired:
  "wire_reporter fl (\<lambda>base. client (f base)) = map_sum id (map_option (map_prod client id)) (wire_reporter fl f)"
  by (auto simp: wire_reporter_def split: prod.splits option.splits)

text \<open>The event filter of the previews is the guard of their pass, deletions included: over a
  Kustomization it rejects, the pass reads the object and does nothing else.\<close>

lemma filtered_pass_does_nothing:
  assumes "hd_get_ks api ns name w = (Inr ks, w')" and "\<not> previewLabelPredicate (pk_labels ks)"
  shows "run_in (KustomizationReconcile api ns name) w = ((res_done, None), [GetKs ns name (Inr ks)])"
  using assms
  by (simp add: KustomizationReconcile_def read_ks_def run_simps previewLabelPredicate_def preview_pass_def)

subsection \<open>Properties\<close>

text \<open>C23 The operator starts whole or not at all: whatever the calls answer, the manager is started only
  after all of the set-up succeeded, in order: the configuration, the manager with the options of the
  flags, the three controllers with what the flags give them, the clientset, the health checks; the
  flags are those of the command line, and the Secret of the reporter is none or well-formed. A call
  that fails is the last one and the process ends with status 1. Once a call is made, the process ends
  with status 0 exactly if the manager was started and returned without an error, and if no call
  fails and the Secret is well-formed, it was.\<close>

theorem starts_whole_or_not_at_all:
  assumes run: "run_in (operator_main lib libs mp api args) w = (e, xs)" and "xs \<noteq> []"
  shows "\<exists>mp1 scheme fl. metrics_init mp = Some mp1 \<and> scheme_init lib = Some scheme
    \<and> flag_parse (operator_flags @ libs) args default_flags = Inr fl
    \<and> (\<forall>r. StartManager r \<in> set xs \<longrightarrow>
         (\<exists>reporter. wire_reporter fl (\<lambda>base. trim_suffix base ''/'') = Inr reporter
           \<and> xs = set_up_calls scheme fl reporter @ [StartManager r]))
    \<and> (\<forall>x\<in>set xs. boot_error x \<noteq> None \<longrightarrow> x = last xs \<and> e = Exit 1)
    \<and> (e = Exit 0 \<longleftrightarrow> StartManager None \<in> set xs)
    \<and> ((\<forall>x\<in>set xs. boot_error x = None) \<and> registerActiveGauge mp1 \<noteq> None
        \<and> (\<exists>reporter. wire_reporter fl (\<lambda>base. trim_suffix base ''/'') = Inr reporter) \<longrightarrow> e = Exit 0)"
  using main_boots [OF assms] unfolding boots_def by blast

definition lib_demo :: scheme_lib where
  "lib_demo =
     \<lparr>sl_client_go = Some, sl_kustomize = Some, sl_source = Some,
      sl_build = (\<lambda>(g, v) ks s. Some (s @ map (\<lambda>k. \<lparr>gvk_group = g, gvk_version = v, gvk_kind = k\<rparr>) ks))\<rparr>"

definition boot_demo :: "unit boot_api" where
  "boot_demo =
     \<lparr>bt_config = (\<lambda>w. (None, w)), bt_manager = (\<lambda>_ w. (None, w)), bt_complete = (\<lambda>_ w. (None, w)),
      bt_clientset = (\<lambda>w. (None, w)), bt_healthz = (\<lambda>_ w. (None, w)), bt_readyz = (\<lambda>_ w. (None, w)),
      bt_start = (\<lambda>w. (None, w))\<rparr>"

lemma demo_boot:
  "run_in (operator_main lib_demo [] \<lparr>mp_registry = [], mp_gauge_once = False\<rparr> boot_demo [''--leader-elect'']) ()
     = (Exit 0, set_up_calls (the (scheme_init lib_demo)) (default_flags\<lparr>fl_leader_elect := True\<rparr>) None @ [StartManager None])"
proof -
  have "flag_parse operator_flags [''--leader-elect''] default_flags = Inr (default_flags\<lparr>fl_leader_elect := True\<rparr>)"
    by (simp add: operator_flags_def cut_def default_flags_def ParseBool_def)
  moreover have "fl_github_app_secret (default_flags\<lparr>fl_leader_elect := True\<rparr>) = []" by (simp add: default_flags_def)
  ultimately show ?thesis
    by (simp add: operator_main_def lib_demo_def scheme_init_def AddToScheme_def GroupVersion_def metrics_init_def
        previewCheckTotal_def previewCheckDuration_def previewCheckCheckTotal_def activeGauge_def registerActiveGauge_def
        run_manager_def or_exit_def run_simps boot_demo_def wire_reporter_def set_up_calls_def Let_def)
qed

theorem starts_whole_or_not_at_all_witness:
  "\<exists>fl xs. run_in (operator_main lib_demo [] \<lparr>mp_registry = [], mp_gauge_once = False\<rparr> boot_demo [''--leader-elect'']) () = (Exit 0, xs)
     \<and> StartManager None \<in> set xs \<and> flag_parse operator_flags [''--leader-elect''] default_flags = Inr fl \<and> fl_leader_elect fl"
proof -
  note r = starts_whole_or_not_at_all [OF demo_boot]
  have "flag_parse operator_flags [''--leader-elect''] default_flags = Inr (default_flags\<lparr>fl_leader_elect := True\<rparr>)"
    by (simp add: operator_flags_def cut_def default_flags_def ParseBool_def)
  then show ?thesis unfolding demo_boot using r by auto
qed

end
