(* ===== verification/World_Invariant.thy ===== *)
theory World_Invariant
  imports Effects
begin

section \<open>Invariants of the world and the log\<close>

text \<open>
  \<open>preserves J m\<close> says that every run of \<open>m\<close> keeps the relation \<open>J\<close> between the world and the call log.
  It is what remains to be shown when a service keeps state of its own (a cache, a table) and the log
  is to be explained by that state. The rules follow the program text; a call has to keep \<open>J\<close> with its
  answer appended to the log.
\<close>

definition preserves :: "('w \<Rightarrow> 'c list \<Rightarrow> bool) \<Rightarrow> ('w, 'c, 'a) prog \<Rightarrow> bool" where
  "preserves J m \<longleftrightarrow>
     (\<forall>s. J (world s) (calls s) \<longrightarrow> J (world (snd (run_state m s))) (calls (snd (run_state m s))))"

named_theorems inv_rules \<open>introduction rules for preserves\<close>

lemma inv_return [inv_rules]: "preserves J (State_Monad.return a)"
  by (simp add: preserves_def run_return)

lemma inv_bind [inv_rules]:
  "preserves J m \<Longrightarrow> (\<And>a. preserves J (f a)) \<Longrightarrow> preserves J (State_Monad.bind m f)"
  by (auto simp: preserves_def run_bind split: prod.split)

lemma inv_operate:
  "(\<And>w xs a w'. J w xs \<Longrightarrow> g w = (a, w') \<Longrightarrow> J w' (xs @ [c a])) \<Longrightarrow> preserves J (operate g c)"
  by (simp add: preserves_def run_operate split: prod.split)

lemma inv_emit: "(\<And>w xs. J w xs \<Longrightarrow> J w (xs @ [c])) \<Longrightarrow> preserves J (emit c)"
  unfolding emit_def by (rule inv_operate) simp

lemma inv_whenM [inv_rules]: "(b \<Longrightarrow> preserves J m) \<Longrightarrow> preserves J (whenM b m)"
  by (simp add: whenM_def inv_return)

lemma inv_if [inv_rules]:
  "(b \<Longrightarrow> preserves J f) \<Longrightarrow> (\<not> b \<Longrightarrow> preserves J g) \<Longrightarrow> preserves J (if b then f else g)"
  by simp

lemma inv_let [inv_rules]: "preserves J (f x) \<Longrightarrow> preserves J (let y = x in f y)"
  by simp

lemma inv_sum [inv_rules]:
  "(\<And>a. x = Inl a \<Longrightarrow> preserves J (f a)) \<Longrightarrow> (\<And>b. x = Inr b \<Longrightarrow> preserves J (g b)) \<Longrightarrow>
   preserves J (case x of Inl a \<Rightarrow> f a | Inr b \<Rightarrow> g b)"
  by (cases x) simp_all

lemma inv_option [inv_rules]:
  "(x = None \<Longrightarrow> preserves J f) \<Longrightarrow> (\<And>a. x = Some a \<Longrightarrow> preserves J (g a)) \<Longrightarrow>
   preserves J (case x of None \<Rightarrow> f | Some a \<Rightarrow> g a)"
  by (cases x) simp_all

lemma inv_prod [inv_rules]:
  "(\<And>a b. x = (a, b) \<Longrightarrow> preserves J (f a b)) \<Longrightarrow> preserves J (case x of (a, b) \<Rightarrow> f a b)"
  by (cases x) simp

lemma preserves_run:
  "preserves J m \<Longrightarrow> run_state m s = (a, s') \<Longrightarrow> J (world s) (calls s) \<Longrightarrow> J (world s') (calls s')"
  unfolding preserves_def by (metis snd_conv)

end
