(* ===== verification/Enriched_Check.thy ===== *)
theory Enriched_Check
  imports World_Invariant Preview_Run
begin

section \<open>The PreviewCheck reconciler with its enrichment client\<close>

text \<open>
  The reconciler asks an arbitrary enricher; here it is the client of \<open>internal/enrichment\<close>, whose memo
  lives as long as the process. The world is the outside world, the memo, and for every \<open>Lookup\<close> so far
  what it did. An invariant of every pass explains each answer in the reconciler's log
  by these.
\<close>

subsection \<open>The client in the reconciler's world\<close>

record 'w enriched =
  ew_env :: 'w
  ew_memo :: memo
  ew_lookups :: "enrich_call list list"

definition on_outside :: "('w \<Rightarrow> 'a \<times> 'w) \<Rightarrow> 'w enriched \<Rightarrow> 'a \<times> 'w enriched" where
  "on_outside g w = (case g (ew_env w) of (a, e) \<Rightarrow> (a, w\<lparr>ew_env := e\<rparr>))"

definition enrich_lookup ::
  "'w enrich_env \<Rightarrow> string \<Rightarrow> string list \<Rightarrow> 'w enriched \<Rightarrow> enrich_response result \<times> 'w enriched" where
  "enrich_lookup E url cves w =
     (case run_state (Lookup E url (ew_memo w) cves) \<lparr>world = ew_env w, calls = []\<rparr> of
        ((r, m), s) \<Rightarrow>
          (r, \<lparr>ew_env = world s, ew_memo = m, ew_lookups = ew_lookups w @ [calls s]\<rparr>))"

text \<open>The API of a process whose enricher posts to \<open>url\<close>.\<close>

definition enriched_api :: "'w enrich_env \<Rightarrow> string \<Rightarrow> 'w preview_api \<Rightarrow> 'w enriched preview_api" where
  "enriched_api E url api =
     \<lparr>api_lib = api_lib api,
      api_get_pc = (\<lambda>ns name. on_outside (api_get_pc api ns name)),
      api_update_pc = (\<lambda>pc. on_outside (api_update_pc api pc)),
      api_update_status = (\<lambda>pc. on_outside (api_update_status api pc)),
      api_delete_pc = (\<lambda>pc. on_outside (api_delete_pc api pc)),
      api_get_namespace = (\<lambda>n. on_outside (api_get_namespace api n)),
      api_get_kustomization = (\<lambda>n ks. on_outside (api_get_kustomization api n ks)),
      api_get_route = (\<lambda>n r. on_outside (api_get_route api n r)),
      api_get_config = (\<lambda>n c. on_outside (api_get_config api n c)),
      api_get_job = (\<lambda>n j. on_outside (api_get_job api n j)),
      api_create_job = (\<lambda>j. on_outside (api_create_job api j)),
      api_delete_job = (\<lambda>j p. on_outside (api_delete_job api j p)),
      api_list_jobs = (\<lambda>n l v. on_outside (api_list_jobs api n l v)),
      api_list_deployments = (\<lambda>n. on_outside (api_list_deployments api n)),
      api_list_statefulsets = (\<lambda>n. on_outside (api_list_statefulsets api n)),
      api_list_services = (\<lambda>n. on_outside (api_list_services api n)),
      api_list_reports = (\<lambda>n. on_outside (api_list_reports api n)),
      api_now = on_outside (api_now api),
      api_tail_logs = map_option (\<lambda>f n j b. on_outside (f n j b)) (api_tail_logs api),
      api_enricher = map_option (\<lambda>(u, m). enrich_lookup E u) (New_enricher url),
      api_recorder = api_recorder api\<rparr>"

text \<open>A new process: an empty memo, no lookup yet.\<close>

definition process_world :: "'w \<Rightarrow> 'w enriched" where
  "process_world w = \<lparr>ew_env = w, ew_memo = [], ew_lookups = []\<rparr>"

text \<open>The passes of a process, over whichever objects the queue names.\<close>

fun check_passes ::
  "'w preview_api \<Rightarrow> pc_config \<Rightarrow> (string \<times> string) list \<Rightarrow> ('w, reconcile_result list) pprog" where
  "check_passes api cf [] = State_Monad.return []"
| "check_passes api cf ((ns, name) # reqs) =
     do {
       r \<leftarrow> Reconcile api cf ns name;
       rs \<leftarrow> check_passes api cf reqs;
       State_Monad.return (r # rs)
     }"

subsection \<open>What an answer rests on\<close>

text \<open>An answer assembled from the replies of one lookup: the ids were posted in bounded chunks, the
  results are those of the replies in order, and it is usable exactly if every reply is.\<close>

definition fetched :: "'w enrich_env \<Rightarrow> string list \<Rightarrow> enrich_response \<Rightarrow> enrich_call list \<Rightarrow> bool" where
  "fetched E ids resp ys \<longleftrightarrow>
     posted ys = ids \<and> (\<forall>c\<in>set ys. post_ok c) \<and> answers E ys \<noteq> []
     \<and> er_results resp = concat (map er_results (answers E ys))
     \<and> (Usable resp \<longleftrightarrow> (\<forall>a\<in>set (answers E ys). Usable a))"

text \<open>What the memo holds was fetched by an earlier lookup and was usable.\<close>

definition remembered :: "'w enrich_env \<Rightarrow> enrich_call list list \<Rightarrow> string \<Rightarrow> memo_entry \<Rightarrow> bool" where
  "remembered E ls k e \<longleftrightarrow>
     Usable (me_resp e)
     \<and> (\<exists>j ids. j < length ls \<and> k = memoKey E ids \<and> fetched E ids (me_resp e) (ls ! j)
          \<and> last (ls ! j) = EnrichNow (me_at e))"

definition memo_sound :: "'w enrich_env \<Rightarrow> enrich_call list list \<Rightarrow> memo \<Rightarrow> bool" where
  "memo_sound E ls m \<longleftrightarrow> (\<forall>(k, e)\<in>set m. remembered E ls k e)"

text \<open>The \<open>i\<close>-th lookup explains the answer for a set of ids: it fetched it, or it only read the clock
  and an earlier lookup fetched it, usable, for a set with the same key, at most 15 minutes before.\<close>

definition accounted :: "'w enrich_env \<Rightarrow> enrich_call list list \<Rightarrow> nat \<Rightarrow> string list \<Rightarrow> enrich_response \<Rightarrow> bool" where
  "accounted E ls i cves resp \<longleftrightarrow>
     fetched E (sort cves) resp (ls ! i)
     \<or> (\<exists>j now t ids. j < i \<and> ls ! i = [EnrichNow now] \<and> last (ls ! j) = EnrichNow t
          \<and> memoKey E ids = memoKey E (sort cves) \<and> fetched E ids resp (ls ! j)
          \<and> Usable resp \<and> time_sub now t \<le> 15 * minute)"

fun lookups :: "preview_call list \<Rightarrow> (string list \<times> enrich_response result) list" where
  "lookups [] = []"
| "lookups (Enrich cves r # xs) = (cves, r) # lookups xs"
| "lookups (x # xs) = lookups xs"

definition explained :: "'w enrich_env \<Rightarrow> 'w enriched \<Rightarrow> preview_call list \<Rightarrow> bool" where
  "explained E w xs \<longleftrightarrow>
     length (lookups xs) = length (ew_lookups w)
     \<and> (\<forall>i cves resp. i < length (ew_lookups w) \<longrightarrow> lookups xs ! i = (cves, Inr resp) \<longrightarrow>
          accounted E (ew_lookups w) i cves resp)
     \<and> memo_sound E (ew_lookups w) (ew_memo w)"

lemma lookups_append [simp]: "lookups (xs @ ys) = lookups xs @ lookups ys"
  by (induction xs rule: lookups.induct) simp_all

lemma Lookup_log:
  assumes "cves \<noteq> []"
  shows "ensures (Lookup E url m cves)
    (\<lambda>(r, m') xs.
       (case r of
          Inl _ \<Rightarrow> m' = m
        | Inr out \<Rightarrow>
            (\<exists>t. xs = [EnrichNow t] \<and> memoGet m t (memoKey E (sort cves)) = Some out \<and> m' = m)
            \<or> (fetched E (sort cves) out xs
               \<and> (if Usable out then \<exists>t. last xs = EnrichNow t \<and> m' = memoPut m t (memoKey E (sort cves)) out
                  else m' = m))))"
proof -
  have "fetched E ids out xs" if "merged E ids out xs" for ids out xs
    using that merged_sel [OF that] by (simp add: fetched_def merged_def)
  then show ?thesis
    by (intro ens_weaken [OF Lookup_cases [OF assms]]) (force split: sum.splits)
qed


lemma accounted_more:
  assumes "i < length ls" and "accounted E ls i cves resp"
  shows "accounted E (ls @ [ys]) i cves resp"
proof -
  have n: "(ls @ [ys]) ! j = ls ! j" if "j \<le> i" for j using assms(1) that by (simp add: nth_append)
  have e: "(\<exists>now t ids. j < i \<and> (ls @ [ys]) ! i = [EnrichNow now] \<and> last ((ls @ [ys]) ! j) = EnrichNow t
        \<and> memoKey E ids = memoKey E (sort cves) \<and> fetched E ids resp ((ls @ [ys]) ! j)
        \<and> Usable resp \<and> time_sub now t \<le> 15 * minute)
    \<longleftrightarrow> (\<exists>now t ids. j < i \<and> ls ! i = [EnrichNow now] \<and> last (ls ! j) = EnrichNow t
        \<and> memoKey E ids = memoKey E (sort cves) \<and> fetched E ids resp (ls ! j)
        \<and> Usable resp \<and> time_sub now t \<le> 15 * minute)" for j
    by (cases "j < i") (simp_all add: n)
  show ?thesis using assms(2) unfolding accounted_def e by (simp add: n)
qed

lemma remembered_more: "remembered E ls k e \<Longrightarrow> remembered E (ls @ [ys]) k e"
  unfolding remembered_def
proof (elim exE conjE)
  fix j ids
  assume a: "Usable (me_resp e)" "j < length ls" "k = memoKey E ids" "fetched E ids (me_resp e) (ls ! j)"
    "last (ls ! j) = EnrichNow (me_at e)"
  then have "(ls @ [ys]) ! j = ls ! j" "j < length (ls @ [ys])" by (simp_all add: nth_append)
  with a show "Usable (me_resp e) \<and> (\<exists>j ids. j < length (ls @ [ys]) \<and> k = memoKey E ids
      \<and> fetched E ids (me_resp e) ((ls @ [ys]) ! j) \<and> last ((ls @ [ys]) ! j) = EnrichNow (me_at e))"
    by metis
qed

lemma memo_sound_more: "memo_sound E ls m \<Longrightarrow> memo_sound E (ls @ [ys]) m"
  unfolding memo_sound_def by (auto intro: remembered_more)

lemma memo_sound_put:
  assumes "memo_sound E (ls @ [ys]) m" and "fetched E ids out ys" and "Usable out" and "last ys = EnrichNow t"
  shows "memo_sound E (ls @ [ys]) (memoPut m t (memoKey E ids) out)"
proof -
  have "set (memoPut m t (memoKey E ids) out) \<subseteq> insert (memoKey E ids, \<lparr>me_resp = out, me_at = t\<rparr>) (set m)"
    by (auto simp: memoPut_def Let_def split: if_splits)
  moreover have "remembered E (ls @ [ys]) (memoKey E ids) \<lparr>me_resp = out, me_at = t\<rparr>"
    using assms(2-4) unfolding remembered_def
    by (intro conjI exI [of _ "length ls"] exI [of _ ids]) simp_all
  ultimately show ?thesis using assms(1) unfolding memo_sound_def by auto
qed

lemma explained_lookup:
  assumes "explained E w xs" and "enrich_lookup E url cves w = (r, w')"
  shows "explained E w' (xs @ [Enrich cves r])"
proof -
  obtain m s where run: "run_state (Lookup E url (ew_memo w) cves) \<lparr>world = ew_env w, calls = []\<rparr> = ((r, m), s)"
    and w': "w' = \<lparr>ew_env = world s, ew_memo = m, ew_lookups = ew_lookups w @ [calls s]\<rparr>"
    using assms(2) by (auto simp: enrich_lookup_def split: prod.splits)
  define ls ys where "ls = ew_lookups w" and "ys = calls s"
  have len: "length (lookups xs) = length ls"
    and acc: "\<And>i cves resp. i < length ls \<Longrightarrow> lookups xs ! i = (cves, Inr resp) \<Longrightarrow> accounted E ls i cves resp"
    and ms: "memo_sound E ls (ew_memo w)"
    using assms(1) by (auto simp: explained_def ls_def)
  have "memo_sound E (ls @ [ys]) m \<and> (\<forall>out. r = Inr out \<longrightarrow> accounted E (ls @ [ys]) (length ls) cves out)"
  proof (cases "cves = []")
    case True
    then show ?thesis using run memo_sound_more [OF ms] by (auto simp: Lookup_def run_return)
  next
    case False
    have p: "case r of Inl _ \<Rightarrow> m = ew_memo w
        | Inr out \<Rightarrow>
            (\<exists>t. ys = [EnrichNow t] \<and> memoGet (ew_memo w) t (memoKey E (sort cves)) = Some out \<and> m = ew_memo w)
            \<or> (fetched E (sort cves) out ys
               \<and> (if Usable out then \<exists>t. last ys = EnrichNow t \<and> m = memoPut (ew_memo w) t (memoKey E (sort cves)) out
                  else m = ew_memo w))"
      using ens_run_in [OF Lookup_log [OF False], of E url "ew_memo w" "ew_env w" "(r, m)" ys]
      unfolding run_in_def run prod.case ys_def by (simp only: simp_thms)
    show ?thesis
    proof (cases r)
      case (Inl err)
      then show ?thesis using p memo_sound_more [OF ms] by simp
    next
      case (Inr out)
      from p [unfolded Inr] show ?thesis
        unfolding sum.case
      proof (elim disjE exE conjE)
        fix t
        assume h: "ys = [EnrichNow t]" "memoGet (ew_memo w) t (memoKey E (sort cves)) = Some out" "m = ew_memo w"
        then obtain e where e: "(memoKey E (sort cves), e) \<in> set (ew_memo w)" "me_resp e = out"
          "time_sub t (me_at e) \<le> 15 * minute"
          by (auto simp: memoGet_def split: option.splits if_splits dest: map_of_SomeD)
        with ms have "remembered E ls (memoKey E (sort cves)) e" unfolding memo_sound_def by auto
        then obtain j ids where "j < length ls" "memoKey E (sort cves) = memoKey E ids" "fetched E ids out (ls ! j)"
          "last (ls ! j) = EnrichNow (me_at e)" "Usable out"
          unfolding remembered_def e(2) by blast
        then have "accounted E (ls @ [ys]) (length ls) cves out"
          unfolding accounted_def using h(1) e(3)
          by (intro disjI2 exI [of _ j] exI [of _ t] exI [of _ "me_at e"] exI [of _ ids]) (simp add: nth_append)
        then show ?thesis using h(3) memo_sound_more [OF ms] Inr by simp
      next
        assume f: "fetched E (sort cves) out ys"
          and m: "if Usable out then \<exists>t. last ys = EnrichNow t \<and> m = memoPut (ew_memo w) t (memoKey E (sort cves)) out
            else m = ew_memo w"
        have "accounted E (ls @ [ys]) (length ls) cves out" using f by (simp add: accounted_def)
        moreover have "memo_sound E (ls @ [ys]) m"
          using m memo_sound_put [OF memo_sound_more [OF ms] f] memo_sound_more [OF ms] by (auto split: if_splits)
        ultimately show ?thesis using Inr by simp
      qed
    qed
  qed
  then show ?thesis
    using len acc
    by (auto simp: explained_def w' ls_def [symmetric] ys_def [symmetric] nth_append less_Suc_eq
        intro: accounted_more)
qed

subsection \<open>The invariant along a pass\<close>

lemma explained_outside:
  assumes "explained E w xs" and "on_outside g w = (a, w')" and "lookups [x] = []"
  shows "explained E w' (xs @ [x])"
  using assms by (auto simp: explained_def on_outside_def split: prod.splits)

lemma inv_outside: "(\<And>a. lookups [c a] = []) \<Longrightarrow> preserves (explained E) (operate (on_outside g) c)"
  by (rule inv_operate) (rule explained_outside)

lemma inv_lookup: "preserves (explained E) (operate (enrich_lookup E url cves) (Enrich cves))"
  by (rule inv_operate) (rule explained_lookup)

lemma inv_counter: "lookups [x] = [] \<Longrightarrow> preserves (explained E) (emit x)"
  by (rule inv_emit) (simp add: explained_def)


lemma enriched_sel:
  "api_lib (enriched_api E url api) = api_lib api"
  "api_get_pc (enriched_api E url api) ns name = on_outside (api_get_pc api ns name)"
  "api_update_pc (enriched_api E url api) pc = on_outside (api_update_pc api pc)"
  "api_update_status (enriched_api E url api) pc = on_outside (api_update_status api pc)"
  "api_delete_pc (enriched_api E url api) pc = on_outside (api_delete_pc api pc)"
  "api_get_namespace (enriched_api E url api) n = on_outside (api_get_namespace api n)"
  "api_get_kustomization (enriched_api E url api) n k = on_outside (api_get_kustomization api n k)"
  "api_get_route (enriched_api E url api) n k = on_outside (api_get_route api n k)"
  "api_get_config (enriched_api E url api) n k = on_outside (api_get_config api n k)"
  "api_get_job (enriched_api E url api) n k = on_outside (api_get_job api n k)"
  "api_create_job (enriched_api E url api) j = on_outside (api_create_job api j)"
  "api_delete_job (enriched_api E url api) j p = on_outside (api_delete_job api j p)"
  "api_list_jobs (enriched_api E url api) n l v = on_outside (api_list_jobs api n l v)"
  "api_list_deployments (enriched_api E url api) n = on_outside (api_list_deployments api n)"
  "api_list_statefulsets (enriched_api E url api) n = on_outside (api_list_statefulsets api n)"
  "api_list_services (enriched_api E url api) n = on_outside (api_list_services api n)"
  "api_list_reports (enriched_api E url api) n = on_outside (api_list_reports api n)"
  "api_now (enriched_api E url api) = on_outside (api_now api)"
  "api_tail_logs (enriched_api E url api) = map_option (\<lambda>f n j b. on_outside (f n j b)) (api_tail_logs api)"
  "api_enricher (enriched_api E url api) = map_option (\<lambda>(u, m). enrich_lookup E u) (New_enricher url)"
  "api_recorder (enriched_api E url api) = api_recorder api"
  by (simp_all add: enriched_api_def)

lemma inv_job_phase [inv_rules]:
  "preserves J f \<Longrightarrow> preserves J g \<Longrightarrow> preserves J h \<Longrightarrow>
   preserves J (case p of JobRunning \<Rightarrow> f | JobSucceeded \<Rightarrow> g | JobFailed \<Rightarrow> h)"
  by (cases p) simp_all

lemmas inv_all = inv_rules inv_outside inv_counter inv_lookup

lemma tailJob_inv [inv_rules]: "preserves (explained E) (tailJob (enriched_api E url api) ns name)"
  by (cases "api_tail_logs api") (auto simp: tailJob_def enriched_sel intro!: inv_return inv_bind inv_outside)

lemma ensureJob_inv [inv_rules]: "preserves (explained E) (ensureJob (enriched_api E url api) env j)"
  unfolding ensureJob_def enriched_sel by (intro inv_all) simp_all

lemma resolveHTTPTarget_inv [inv_rules]: "preserves (explained E) (resolveHTTPTarget (enriched_api E url api) env)"
  unfolding resolveHTTPTarget_def enriched_sel by (intro inv_all) simp_all

lemma checkReadiness_inv [inv_rules]: "preserves (explained E) (checkReadiness (enriched_api E url api) env)"
  unfolding checkReadiness_def enriched_sel by (intro inv_all) simp_all

lemma checkHTTP_inv [inv_rules]: "preserves (explained E) (checkHTTP (enriched_api E url api) cf pc spc env)"
  unfolding checkHTTP_def by (intro inv_all tailJob_inv ensureJob_inv resolveHTTPTarget_inv)

lemma score_reports_inv [inv_rules]: "preserves (explained E) (score_reports (enriched_api E url api) spc img reports)"
  by (cases "New_enricher url"; unfold score_reports_def enriched_sel option.map)
     (auto intro!: inv_all split: prod.splits)

lemma checkTrivy_inv [inv_rules]: "preserves (explained E) (checkTrivy (enriched_api E url api) pc spc env)"
  unfolding checkTrivy_def resolveWorkloadImage_def enriched_sel
  by (intro inv_all score_reports_inv) simp_all

lemma checkSmoke_inv [inv_rules]: "preserves (explained E) (checkSmoke (enriched_api E url api) pc env)"
  unfolding checkSmoke_def run_smoke_def enriched_sel
  by (intro inv_all tailJob_inv ensureJob_inv resolveHTTPTarget_inv) simp_all

lemma evaluateCheck_inv [inv_rules]: "preserves (explained E) (evaluateCheck (enriched_api E url api) cf pc spc env name)"
  unfolding evaluateCheck_def keep_pc_def
  by (cases name) (auto intro!: inv_rules checkReadiness_inv checkHTTP_inv checkTrivy_inv checkSmoke_inv)

lemma publish_inv [inv_rules]: "preserves (explained E) (publish (enriched_api E url api) pc u)"
  unfolding publish_def count_check_def count_verdict_def pc_event_def enriched_sel
  by (intro inv_all) simp_all

lemma resolveNamespace_inv [inv_rules]: "preserves (explained E) (resolveNamespace (enriched_api E url api) cf pc spc env)"
  unfolding resolveNamespace_def pendingOrExpired_def finish_def enriched_sel
  by (intro inv_all publish_inv) simp_all

lemma checkGate_inv [inv_rules]: "preserves (explained E) (checkGate (enriched_api E url api) pc spc env)"
  unfolding checkGate_def finish_def enriched_sel by (intro inv_all publish_inv) simp_all

lemma advanceCheck_inv [inv_rules]:
  "preserves (explained E) (advanceCheck (enriched_api E url api) cf pc spc env name existing)"
  unfolding advanceCheck_def by (intro inv_all publish_inv evaluateCheck_inv)

lemma runChecks_inv [inv_rules]: "preserves (explained E) (runChecks (enriched_api E url api) cf pc spc env)"
proof -
  have "preserves (explained E) (runChecks_loop (enriched_api E url api) cf pc spc env names)" for names
    by (induction names) (auto intro!: inv_rules publish_inv advanceCheck_inv)
  then show ?thesis by (simp add: runChecks_def)
qed

lemma reconcile_deleted_inv [inv_rules]: "preserves (explained E) (reconcile_deleted (enriched_api E url api) pc)"
proof -
  have "preserves (explained E) (delete_jobs (enriched_api E url api) js)" for js
    by (induction js) (auto simp: enriched_sel intro!: inv_all)
  then show ?thesis
    unfolding reconcile_deleted_def teardown_def listCheckJobs_def enriched_sel by (intro inv_all) simp_all
qed

lemma Reconcile_inv: "preserves (explained E) (Reconcile (enriched_api E url api) cf ns name)"
  unfolding Reconcile_def judge_pass_def start_pass_def self_delete_pass_def add_finalizer_pass_def enriched_sel
  by (intro inv_all publish_inv reconcile_deleted_inv resolveNamespace_inv checkGate_inv runChecks_inv) simp_all

lemma check_passes_inv: "preserves (explained E) (check_passes (enriched_api E url api) cf reqs)"
  by (induction reqs) (auto intro!: inv_return inv_bind Reconcile_inv)

end
