(* ===== verification/Enriched_Run.thy ===== *)
theory Enriched_Run
  imports Enriched_Check Contract
begin

section \<open>What a clean scan rests on\<close>

text \<open>
  A contract on the calls of a pass says which evidence a Passed trivy check in a written status needs;
  with the invariant of the enrichment client it follows what the endpoint was asked, and when. The
  last part evaluates a pass.
\<close>

subsection \<open>What a Passed trivy check rests on\<close>

text \<open>The evidence is scoped to one pass: the check was read at its start, or the calls of the pass show
  the scan of the recorded image in the preview's namespace to be clean.\<close>

definition trivy_passed :: "check_result \<Rightarrow> bool" where
  "trivy_passed c \<longleftrightarrow> cr_name c = CheckTrivy \<and> cr_phase c = CheckPassed"

definition recorded :: "preview_call set \<Rightarrow> check_result \<Rightarrow> bool" where
  "recorded E c \<longleftrightarrow> (\<exists>ns name q. GetPC ns name (Inr q) \<in> E \<and> c \<in> set (st_checks (pc_status q)))"

definition preview_ns :: "preview_check \<Rightarrow> string" where
  "preview_ns p = ''preview-pr-'' @ itoa (pcs_pr (pc_spec p))"

definition backed :: "klib \<Rightarrow> preview_call set \<Rightarrow> preview_check \<Rightarrow> bool" where
  "backed lib E p \<longleftrightarrow>
     (\<forall>c\<in>set (st_checks (pc_status p)). trivy_passed c \<longrightarrow>
        recorded E c \<or> scan_clean lib (Defaulted (pc_spec p)) (preview_ns p) (st_image (pc_status p)) E)"

fun backed_call :: "klib \<Rightarrow> preview_call set \<Rightarrow> preview_call \<Rightarrow> bool" where
  "backed_call lib E (UpdateStatus p r) = backed lib E p"
| "backed_call lib E x = True"

lemma scan_clean_more: "E \<subseteq> F \<Longrightarrow> scan_clean lib spc n img E \<Longrightarrow> scan_clean lib spc n img F"
  unfolding scan_clean_def by (meson subsetD)

lemma backed_more: "E \<subseteq> F \<Longrightarrow> backed lib E p \<Longrightarrow> backed lib F p"
  using scan_clean_more unfolding backed_def recorded_def by (meson subsetD)

interpretation backing: call_contract "backed_call lib" for lib
proof
  show "E \<subseteq> F \<Longrightarrow> backed_call lib E x \<Longrightarrow> backed_call lib F x" for E F x
    by (cases x) (auto intro: backed_more)
qed

text \<open>The status writes of a pass: every check in them was read at its start, or is the one it ran.\<close>

definition all_recorded :: "preview_call set \<Rightarrow> preview_check \<Rightarrow> bool" where
  "all_recorded E p \<longleftrightarrow> (\<forall>c\<in>set (st_checks (pc_status p)). recorded E c)"

lemma all_recorded_backed: "all_recorded E p \<Longrightarrow> backed lib E p"
  by (simp add: all_recorded_def backed_def)

lemma all_recorded_more: "E \<subseteq> F \<Longrightarrow> all_recorded E p \<Longrightarrow> all_recorded F p"
  unfolding all_recorded_def recorded_def by (meson subsetD)

lemma touched_recorded: "touched p q \<Longrightarrow> all_recorded E p \<Longrightarrow> all_recorded E q"
  by (simp add: all_recorded_def touched_sel)

lemma published_backed:
  assumes "published lib L Q res xs" and "\<And>c F. L c \<Longrightarrow> backed_call lib F c" and "\<And>p u. Q p u \<Longrightarrow> backed lib E p"
    and "x \<in> set xs"
  shows "backed_call lib (E \<union> set xs) x"
proof -
  from assms(1) obtain pre now p u r ys where
    xs: "xs = pre @ Now now # UpdateStatus (publish_status lib p u now) r # ys"
      "list_all L pre" "Q p u" "tail_ok p u r ys"
    unfolding published_def by blast
  have "backed lib (E \<union> set xs) p" using assms(3) [OF xs(3)] by (rule backed_more [rotated]) simp
  then have "backed lib (E \<union> set xs) (publish_status lib p u now)"
    by (simp add: backed_def publish_status_def Let_def preview_ns_def)
  moreover have "backed_call lib F y" if "y \<in> set ys" for y F
  proof -
    have "is_counter y" using xs(4) that by (auto simp: tail_ok_def list_all_iff)
    then show ?thesis by (cases y) simp_all
  qed
  moreover have "backed_call lib F y" if "y \<in> set pre" for y F
    using xs(2) that assms(2) by (auto simp: list_all_iff)
  ultimately show ?thesis using assms(4) unfolding xs(1) by auto
qed

lemma publish_backed:
  "backed (api_lib api) E p \<Longrightarrow> backing.keeps (api_lib api) E (publish api p u) (\<lambda>_ _. True)"
  by (rule backing.keeps_ens [OF publish_ens [where L = "\<lambda>_. False"]], erule published_backed) auto

lemma gate_backed:
  assumes "gate_post lib p env res xs" and "all_recorded E p" and "x \<in> set xs"
  shows "backed_call lib (E \<union> set xs) x"
  using assms(1) unfolding gate_post_def
proof (elim disjE conjE)
  assume "list_all is_gate_read xs"
  then have "is_gate_read x" using assms(3) by (auto simp: list_all_iff)
  then show ?thesis by (auto simp: is_gate_read_def)
next
  assume "published lib is_gate_read (gate_rel p env) res xs"
  then show ?thesis
  proof (rule published_backed [OF _ _ _ assms(3)])
    show "is_gate_read c \<Longrightarrow> backed_call lib F c" for c F by (auto simp: is_gate_read_def)
    show "gate_rel p env q u \<Longrightarrow> backed lib E q" for q u
      using assms(2) by (auto simp: gate_rel_def intro: all_recorded_backed touched_recorded)
  qed
qed

lemma upsert_subset: "set (upsertCheck cs res) \<subseteq> insert res (set cs)"
  by (induction cs) auto

lemma evaluateCheck_clean:
  "ensures (evaluateCheck api cf pc spc env name)
     (\<lambda>(pc', r) xs. check_log env (pc_name pc) xs \<and> touched pc pc'
        \<and> (name = CheckTrivy \<longrightarrow> (\<forall>s. r = Inr s \<longrightarrow> stp_phase s = CheckPassed \<longrightarrow>
             scan_clean (api_lib api) spc (ce_ns_name env) (st_image (pc_status pc')) (set xs))))"
proof (cases "name = CheckTrivy")
  case True
  have "ensures (checkTrivy api pc spc env)
     (\<lambda>(pc', r) xs. check_log env (pc_name pc) xs \<and> touched pc pc'
        \<and> (\<forall>s. r = Inr s \<longrightarrow> stp_phase s = CheckPassed \<longrightarrow>
             scan_clean (api_lib api) spc (ce_ns_name env) (st_image (pc_status pc')) (set xs)))"
    by (rule ens_weaken [OF checkTrivy_ens])
      (auto dest: trivy_good_clean(1), auto simp: trivy_good_def step_good_def)
  with True show ?thesis by (auto simp: evaluateCheck_def intro: ens_weaken)
next
  case False
  then show ?thesis
    by (intro ens_weaken [OF evaluateCheck_ens]) (auto simp: eval_good_def step_good_def split: prod.splits)
qed

lemma check_call_backed: "check_call env owner x \<Longrightarrow> backed_call lib E x"
  by (cases x) simp_all

lemma advanceCheck_backed:
  assumes "all_recorded E pc" and spc: "spc = Defaulted (pc_spec pc)"
    and n: "ce_ns_name env = ''preview-pr-'' @ itoa (pcs_pr spc)"
  shows "backing.keeps (api_lib api) E (advanceCheck api cf pc spc env name existing) (\<lambda>_ _. True)"
proof -
  let ?P = "\<lambda>(pc', r) F. touched pc pc'
    \<and> (name = CheckTrivy \<longrightarrow> (\<forall>s. r = Inr s \<longrightarrow> stp_phase s = CheckPassed \<longrightarrow>
         scan_clean (api_lib api) spc (ce_ns_name env) (st_image (pc_status pc')) F))"
  have e: "backing.keeps (api_lib api) E (evaluateCheck api cf pc spc env name) ?P"
    by (rule backing.keeps_ens [OF evaluateCheck_clean])
      (auto simp: list_all_iff intro: check_call_backed scan_clean_more [rotated])
  have w: "backed (api_lib api) F (record_check (step_result env name t (deadline_step env raw)) pc')"
    if "E \<subseteq> F" and p: "?P (pc', Inr raw) F" for F pc' raw t
  proof -
    let ?res = "step_result env name t (deadline_step env raw)"
    have rec: "all_recorded F pc'"
      using p all_recorded_more [OF that(1) assms(1)] by (auto intro: touched_recorded)
    have new: "scan_clean (api_lib api) (Defaulted (pc_spec pc')) (preview_ns pc') (st_image (pc_status pc')) F" if "trivy_passed ?res"
    proof -
      have "name = CheckTrivy" "stp_phase raw = CheckPassed"
        using that by (auto simp: trivy_passed_def step_result_def deadline_step_def split: if_splits)
      then show ?thesis using p touched_sel [of pc pc'] by (simp add: spc n preview_ns_def)
    qed
    show ?thesis
      unfolding backed_def
    proof (intro ballI impI)
      fix c
      assume c: "c \<in> set (st_checks (pc_status (record_check ?res pc')))" "trivy_passed c"
      then have "c = ?res \<or> c \<in> set (st_checks (pc_status pc'))"
        using upsert_subset by (fastforce simp: record_check_def)
      then show "recorded F c \<or> scan_clean (api_lib api) (Defaulted (pc_spec (record_check ?res pc')))
          (preview_ns (record_check ?res pc')) (st_image (pc_status (record_check ?res pc'))) F"
        using rec new c(2) by (auto simp: all_recorded_def record_check_def preview_ns_def)
    qed
  qed
  show ?thesis
    unfolding advanceCheck_def Let_def
    apply (rule backing.keeps_bind [OF e])
    apply (rule backing.keeps_prod)
    apply (rule backing.keeps_sum)
     apply (rule backing.keeps_if)
      apply (rule publish_backed, rule all_recorded_backed)
    subgoal by (auto intro: touched_recorded all_recorded_more [OF _ assms(1)])
     apply (rule backing.keeps_return, rule TrueI)
    apply (rule publish_backed, rule w, assumption)
    apply simp
    done
qed


lemma runChecks_backed:
  assumes "all_recorded E pc" and "spc = Defaulted (pc_spec pc)"
    and "ce_ns_name env = ''preview-pr-'' @ itoa (pcs_pr spc)"
  shows "backing.keeps (api_lib api) E (runChecks api cf pc spc env) (\<lambda>_ _. True)"
proof -
  have "backing.keeps (api_lib api) E (runChecks_loop api cf pc spc env names) (\<lambda>_ _. True)" for names
    using assms by (induction names) (auto intro: publish_backed all_recorded_backed advanceCheck_backed)
  then show ?thesis by (simp add: runChecks_def)
qed

lemma resolveNamespace_backed:
  assumes "all_recorded E pc"
  shows "backing.keeps (api_lib api) E (resolveNamespace api cf pc spc env)
    (\<lambda>r F. case r of Inl _ \<Rightarrow> True | Inr (pc', env') \<Rightarrow> touched pc pc' \<and> ce_ns_name env' = ce_ns_name env)"
  by (rule backing.keeps_ens [OF resolveNamespace_ens]) (auto simp: resolved_env_def split: sum.splits intro: gate_backed assms)

lemma checkGate_backed:
  assumes "all_recorded E pc"
  shows "backing.keeps (api_lib api) E (checkGate api pc spc env) (\<lambda>_ _. True)"
  by (rule backing.keeps_ens [OF checkGate_ens]) (auto split: sum.splits intro: gate_backed assms)

lemma judge_pass_backed:
  assumes "all_recorded E pc" and "spc = Defaulted (pc_spec pc)"
    and "ce_ns_name env = ''preview-pr-'' @ itoa (pcs_pr spc)"
  shows "backing.keeps (api_lib api) E (judge_pass api cf pc spc env) (\<lambda>_ _. True)"
  unfolding judge_pass_def
proof (rule backing.keeps_bind [OF resolveNamespace_backed [OF assms(1)]], rule backing.keeps_sum)
  fix nr F res
  show "backing.keeps (api_lib api) F (State_Monad.return res) (\<lambda>_ _. True)" by (rule backing.keeps_return) simp
next
  fix nr :: "reconcile_result + preview_check \<times> check_env" and F x
  assume F: "E \<subseteq> F" and t: "case nr of Inl _ \<Rightarrow> True | Inr (pc', env') \<Rightarrow> touched pc pc' \<and> ce_ns_name env' = ce_ns_name env" and nr: "nr = Inr x"
  obtain pc' env' where x: "x = (pc', env')" by fastforce
  have t': "touched pc pc'" "ce_ns_name env' = ce_ns_name env" using t nr x by simp_all
  have rec: "all_recorded F pc'" by (rule touched_recorded [OF t'(1) all_recorded_more [OF F assms(1)]])
  have spc: "spc = Defaulted (pc_spec pc')" using assms(2) touched_sel [OF t'(1)] by simp
  show "backing.keeps (api_lib api) F (case x of (pc, env) \<Rightarrow> do {
      gr \<leftarrow> checkGate api pc spc env;
      case gr of Inl res \<Rightarrow> State_Monad.return res | Inr _ \<Rightarrow> runChecks api cf pc spc env}) (\<lambda>_ _. True)"
    unfolding x prod.case
    by (rule backing.keeps_bind [OF checkGate_backed [OF rec]], rule backing.keeps_sum)
       (auto intro: backing.keeps_return runChecks_backed [OF all_recorded_more [OF _ rec] spc trans [OF t'(2) assms(3)]])
qed

lemma Reconcile_backed: "backing.keeps (api_lib api) E (Reconcile api cf ns name) (\<lambda>_ _. True)"
proof -
  have rd: "backing.keeps (api_lib api) F (reconcile_deleted api pc) (\<lambda>_ _. True)" for F pc
  proof (rule backing.keeps_ens [OF reconcile_deleted_silent])
    fix a xs x
    assume "list_all is_silent xs" "x \<in> set xs"
    then have "is_silent x" by (auto simp: list_all_iff)
    then show "backed_call (api_lib api) (F \<union> set xs) x" by (cases x) simp_all
  qed simp
  show ?thesis
    unfolding Reconcile_def Let_def
    apply (rule backing.keeps_step, simp)
    apply (rule backing.keeps_sum)
     apply (rule backing.keeps_return, rule TrueI)
    subgoal for got pc
    proof -
      assume got: "got = Inr pc"
      let ?E = "insert (GetPC ns name got) E"
      have rec: "all_recorded F pc" if "?E \<subseteq> F" for F
        using that unfolding all_recorded_def recorded_def got by blast
      have rec2: "all_recorded F (pc\<lparr>pc_status := (pc_status pc)\<lparr>st_started := s, st_expires := e\<rparr>\<rparr>)"
        if "?E \<subseteq> F" for F s e
        using rec [OF that] by (simp add: all_recorded_def)
      show ?thesis
        unfolding add_finalizer_pass_def self_delete_pass_def start_pass_def Let_def
        apply (rule backing.keeps_if, rule rd)
        apply (rule backing.keeps_if)
         apply (rule backing.keeps_step, simp, rule backing.keeps_return, rule TrueI)
        apply (rule backing.keeps_step, simp)
        apply (rule backing.keeps_if)
         apply (rule backing.keeps_if)
          apply (rule backing.keeps_step, simp, rule backing.keeps_return, rule TrueI)
         apply (rule backing.keeps_return, rule TrueI)
        apply (rule backing.keeps_option)
         apply (rule publish_backed, rule all_recorded_backed, rule rec2, blast)
        apply (rule backing.keeps_if)
         apply (rule publish_backed, rule all_recorded_backed, rule rec, blast)
        apply (rule judge_pass_backed, rule rec, blast, rule refl, simp add: make_env_def)
        done
    qed
    done
qed

subsection \<open>A scan with one finding\<close>

text \<open>An endpoint that knows the one CVE of the report, and the PreviewCheck whose trivy check asks it.\<close>

definition answer_demo :: enrich_response where
  "answer_demo = empty_response\<lparr>er_kev_total := 9\<rparr>"

definition E_demo :: "preview_world enrich_env" where
  "E_demo = \<lparr>en_http = (\<lambda>url body w. (Reply 200 [], w)), en_encode = concat,
     en_decode = (\<lambda>_. Inr answer_demo), en_sha256 = (\<lambda>s. s), en_now = (\<lambda>w. (pw_now w, w))\<rparr>"

definition pc_trivy :: preview_check where
  "pc_trivy = pc_started\<lparr>pc_spec := spec_demo\<lparr>pcs_checks := [CheckTrivy]\<rparr>\<rparr>"

definition world_trivy :: preview_world where
  "world_trivy = world_ready\<lparr>pw_pc := Inr pc_trivy, pw_reports := [report_demo]\<rparr>"

abbreviation trivy_demo_api :: "preview_world enriched preview_api" where
  "trivy_demo_api \<equiv> enriched_api E_demo ''http://cv'' api_demo"

lemma scan_demo:
  "match_reports klib_demo ''ghcr.io/o/app:1'' [report_demo] [] [] = (''ghcr.io/o/app:1'', [''CVE-1''])"
  "ExtractCVEs [''CVE-1''] = ([''CVE-1''], [])" "New_enricher ''http://cv'' = Some (''http://cv'', [])"
  by code_simp+

lemma lookup_demo:
  "run_state (Lookup E_demo url [] [''CVE-1'']) \<lparr>world = w, calls = []\<rparr>
     = ((Inr answer_demo, [(''CVE-1'', \<lparr>me_resp = answer_demo, me_at = pw_now w\<rparr>)]),
        \<lparr>world = w, calls = [HttpPost [''CVE-1''] (Reply 200 []), EnrichNow (pw_now w)]\<rparr>)"
proof -
  have s: "sort [''CVE-1''] = [''CVE-1'']" "memoKey E_demo [''CVE-1''] = ''CVE-1''"
    "mergeResponses empty_response answer_demo True = answer_demo" "Usable answer_demo"
    "memoPut [] t ''CVE-1'' answer_demo = [(''CVE-1'', \<lparr>me_resp = answer_demo, me_at = t\<rparr>)]" for t
    by (simp_all add: memoKey_def E_demo_def mergeResponses_def empty_response_def answer_demo_def Usable_def memoPut_def)
  then show ?thesis
    by (simp add: Lookup_def Let_def run_simps chunk_loop.simps post_chunk_def E_demo_def)
qed

lemma trivy_world_sel:
  "pw_pc world_trivy = Inr pc_trivy" "pw_namespace world_trivy = Inr ns_demo"
  "pw_kustomization world_trivy = Inr ks_demo" "pw_now world_trivy = 60 * second" "pw_reports world_trivy = [report_demo]"
  "pc_deleting pc_trivy = False" "pc_name pc_trivy = ''pc''"
  "lib_contains_finalizer klib_demo (pc_finalizers pc_trivy) previewCheckFinalizer = True"
  "pc_spec pc_trivy = spec_demo\<lparr>pcs_checks := [CheckTrivy]\<rparr>" "pc_status pc_trivy = pc_status pc_started"
  "pcs_image (Defaulted (spec_demo\<lparr>pcs_checks := [CheckTrivy]\<rparr>)) = ''ghcr.io/o/app:1''"
  by (simp_all add: world_trivy_def world_ready_def world_demo_def pc_trivy_def run_simps spec_demo_def Defaulted_def)

lemma verdict_demo:
  "stp_phase (trivy_verdict klib_demo (pcs_thresholds (Defaulted (spec_demo\<lparr>pcs_checks := [CheckTrivy]\<rparr>))) x ds (Inr answer_demo))
     = CheckPassed"
  by (simp add: trivy_verdict_def Defaulted_def spec_demo_def answer_demo_def Usable_def empty_response_def Let_def
     EvaluateExploitability_def exploit_zero_def)

lemma demo_trivy_asks:
  "run_state (checkTrivy trivy_demo_api pc (Defaulted (spec_demo\<lparr>pcs_checks := [CheckTrivy]\<rparr>)) env)
     \<lparr>world = process_world world_trivy, calls = cs\<rparr>
   = ((set_resolved_image ''ghcr.io/o/app:1'' pc,
       Inr (trivy_verdict klib_demo (pcs_thresholds (Defaulted (spec_demo\<lparr>pcs_checks := [CheckTrivy]\<rparr>))) ''ghcr.io/o/app:1''
         (trivy_details ''ghcr.io/o/app:1'' [''CVE-1''] [''CVE-1''] []) (Inr answer_demo))),
      \<lparr>world = \<lparr>ew_env = world_trivy, ew_memo = [(''CVE-1'', \<lparr>me_resp = answer_demo, me_at = 60 * second\<rparr>)],
          ew_lookups = [[HttpPost [''CVE-1''] (Reply 200 []), EnrichNow (60 * second)]]\<rparr>,
       calls = cs @ [ListReports (ce_ns_name env) (Inr [report_demo]), Enrich [''CVE-1''] (Inr answer_demo)]\<rparr>)"
proof -
  have i: "pcs_image spec_demo = ''ghcr.io/o/app:1''" by (simp add: spec_demo_def)
  have a: "api_lib api_demo = klib_demo" "api_list_reports api_demo n w = (Inr (pw_reports w), w)" for n w
    by (simp_all add: api_demo_def)
  show ?thesis
    by (simp add: checkTrivy_def run_simps enriched_sel trivy_world_sel score_reports_def scan_demo Let_def i a
      on_outside_def process_world_def enrich_lookup_def lookup_demo del: match_reports.simps)
qed


lemma outside_process:
  "on_outside g (process_world w) = (case g w of (a, e) \<Rightarrow> (a, process_world e))"
  by (simp add: on_outside_def process_world_def split: prod.split)

definition spec_trivy :: pc_spec_t where
  "spec_trivy = Defaulted (spec_demo\<lparr>pcs_checks := [CheckTrivy]\<rparr>)"

lemma spec_trivy_sel:
  "pcs_pr spec_trivy = 7" "pcs_app spec_trivy = []" "pcs_revision spec_trivy = []" "pcs_checks spec_trivy = [CheckTrivy]"
  "pcs_timeout spec_trivy = 1800"
  by (simp_all add: spec_trivy_def spec_demo_def)

definition env_trivy :: check_env where
  "env_trivy = (make_env pc_trivy spec_trivy 0 (60 * second))\<lparr>ce_ns := Some ns_demo, ce_app := ''app''\<rparr>"

definition seen_trivy :: preview_check where
  "seen_trivy = observe_namespace cf_demo spec_trivy ''preview-pr-7'' ''app'' pc_trivy"

lemma demo_trivy_gates:
  "run_state (Reconcile trivy_demo_api cf_demo ''preview-check'' ''pc'') \<lparr>world = process_world world_trivy, calls = []\<rparr>
   = run_state (advanceCheck trivy_demo_api cf_demo seen_trivy spec_trivy env_trivy CheckTrivy None)
       \<lparr>world = process_world world_trivy,
        calls = [GetPC ''preview-check'' ''pc'' (Inr pc_trivy), Now (60 * second), GetNamespace ''preview-pr-7'' (Inr ns_demo),
         GetKustomization ''preview-pr-7'' ''preview-app-7'' (Inr ks_demo)]\<rparr>"
proof -
  have e: "ce_ns_name (make_env pc_trivy spec_trivy s n) = ''preview-pr-7''" for s n
    by (simp add: make_env_def spec_trivy_sel run_simps)
  have c: "orderedChecks [CheckTrivy] = [CheckTrivy]" "st_checks (pc_status seen_trivy) = []"
    by (simp_all add: orderedChecks_def seen_trivy_def observe_namespace_def trivy_world_sel run_simps)
  show ?thesis
    by (simp add: Reconcile_def judge_pass_def run_simps enriched_sel trivy_world_sel outside_process
      spec_trivy_def [symmetric] spec_trivy_sel resolveNamespace_def checkGate_def runChecks_def env_trivy_def e c
      seen_trivy_def [symmetric] check_done_def findCheck_def Let_def del: Defaulted_sel)
qed


definition res_trivy :: check_result where
  "res_trivy = step_result env_trivy CheckTrivy (60 * second)
     (trivy_verdict klib_demo (pcs_thresholds spec_trivy) ''ghcr.io/o/app:1''
        (trivy_details ''ghcr.io/o/app:1'' [''CVE-1''] [''CVE-1''] []) (Inr answer_demo))"

definition clean_trivy :: preview_check where
  "clean_trivy = record_check res_trivy (set_resolved_image ''ghcr.io/o/app:1'' seen_trivy)"

lemma clean_trivy_sel:
  "st_checks (pc_status clean_trivy) = [res_trivy]" "pcs_pr (pc_spec clean_trivy) = 7"
  "cr_name res_trivy = CheckTrivy" "cr_phase res_trivy = CheckPassed"
proof -
  show "st_checks (pc_status clean_trivy) = [res_trivy]" "pcs_pr (pc_spec clean_trivy) = 7"
    by (simp_all add: clean_trivy_def record_check_def set_resolved_image_def seen_trivy_def observe_namespace_def
        trivy_world_sel run_simps spec_demo_def)
  show "cr_name res_trivy = CheckTrivy" "cr_phase res_trivy = CheckPassed"
    by (simp_all add: res_trivy_def step_result_def verdict_demo [folded spec_trivy_def])
qed

lemma demo_trivy_step:
  "\<exists>u. run_state (advanceCheck trivy_demo_api cf_demo seen_trivy spec_trivy env_trivy CheckTrivy None)
       \<lparr>world = process_world world_trivy, calls = cs\<rparr>
     = run_state (publish trivy_demo_api clean_trivy u)
         \<lparr>world = \<lparr>ew_env = world_trivy, ew_memo = [(''CVE-1'', \<lparr>me_resp = answer_demo, me_at = 60 * second\<rparr>)],
            ew_lookups = [[HttpPost [''CVE-1''] (Reply 200 []), EnrichNow (60 * second)]]\<rparr>,
          calls = cs @ [ListReports ''preview-pr-7'' (Inr [report_demo]), Enrich [''CVE-1''] (Inr answer_demo)]\<rparr>"
proof -
  have e: "ce_ns_name env_trivy = ''preview-pr-7''" "ce_now env_trivy = 60 * second"
    by (simp_all add: env_trivy_def make_env_def spec_trivy_sel run_simps)
  have d: "deadline_step env_trivy s = s" if "stp_phase s = CheckPassed" for s
    using that by (simp add: deadline_step_def)
  show ?thesis
    unfolding advanceCheck_def Let_def
    apply (simp only: evaluateCheck_def check_name.case run_bind demo_trivy_asks [folded spec_trivy_def] prod.case sum.case
      d [OF verdict_demo [folded spec_trivy_def]] option.case e(2) res_trivy_def [symmetric] clean_trivy_def [symmetric] e(1))
    apply (rule exI, rule refl)
    done
qed


lemma publish_log:
  "run_state (publish api pc u) s = (res, s') \<Longrightarrow>
   \<exists>now r ys. calls s' = calls s @ Now now # UpdateStatus (publish_status (api_lib api) pc u now) r # ys \<and> list_all is_counter ys"
proof -
  assume run: "run_state (publish api pc u) s = (res, s')"
  obtain xs where xs: "calls s' = calls s @ xs"
    and p: "published (api_lib api) (\<lambda>_. False) (\<lambda>pc' u'. pc' = pc \<and> u' = u) res xs"
    using publish_ens [of api pc u "\<lambda>_. False"] run unfolding ensures_def by (metis fst_conv snd_conv)
  obtain pre now r ys where "xs = pre @ Now now # UpdateStatus (publish_status (api_lib api) pc u now) r # ys"
    "list_all (\<lambda>_. False) pre" "list_all is_counter ys"
    using p unfolding published_def tail_ok_def by blast
  then show ?thesis using xs by (cases pre) auto
qed

definition log_trivy :: "preview_call list" where
  "log_trivy = [GetPC ''preview-check'' ''pc'' (Inr pc_trivy), Now (60 * second), GetNamespace ''preview-pr-7'' (Inr ns_demo),
     GetKustomization ''preview-pr-7'' ''preview-app-7'' (Inr ks_demo), ListReports ''preview-pr-7'' (Inr [report_demo]),
     Enrich [''CVE-1''] (Inr answer_demo)]"

lemma demo_trivy:
  assumes "run_state (Reconcile trivy_demo_api cf_demo ''preview-check'' ''pc'')
     \<lparr>world = process_world world_trivy, calls = []\<rparr> = (res, s)"
  shows "\<exists>u now r ys. calls s = log_trivy @ Now now # UpdateStatus (publish_status klib_demo clean_trivy u now) r # ys
    \<and> list_all is_counter ys"
proof -
  let ?cs = "[GetPC ''preview-check'' ''pc'' (Inr pc_trivy), Now (60 * second), GetNamespace ''preview-pr-7'' (Inr ns_demo),
     GetKustomization ''preview-pr-7'' ''preview-app-7'' (Inr ks_demo)]"
  have l: "?cs @ [ListReports ''preview-pr-7'' (Inr [report_demo]), Enrich [''CVE-1''] (Inr answer_demo)] = log_trivy"
    by (simp add: log_trivy_def)
  obtain u w where "run_state (advanceCheck trivy_demo_api cf_demo seen_trivy spec_trivy env_trivy CheckTrivy None)
      \<lparr>world = process_world world_trivy, calls = ?cs\<rparr>
    = run_state (publish trivy_demo_api clean_trivy u) \<lparr>world = w, calls = log_trivy\<rparr>"
    using demo_trivy_step [of ?cs] unfolding l by blast
  then have p: "run_state (publish trivy_demo_api clean_trivy u) \<lparr>world = w, calls = log_trivy\<rparr> = (res, s)"
    using assms unfolding demo_trivy_gates by (simp only:)
  have "api_lib trivy_demo_api = klib_demo" by (simp add: enriched_sel run_simps)
  with publish_log [OF p] show ?thesis by auto
qed

subsection \<open>Properties\<close>

lemma lookup_index:
  "Enrich cves r \<in> set xs \<Longrightarrow> \<exists>i. i < length (lookups xs) \<and> lookups xs ! i = (cves, r)"
proof -
  assume "Enrich cves r \<in> set xs"
  then have "(cves, r) \<in> set (lookups xs)" by (induction xs rule: lookups.induct) auto
  then show ?thesis by (simp add: in_set_conv_nth)
qed

text \<open>C3 A clean scan rests on intelligence: after any passes of a process that began with an empty memo,
  a pass that writes a status with a Passed trivy check read that very check, or read, in the
  preview's namespace, a report of the recorded image whose CVEs are none, or were asked of the
  enrichment client by this pass, with a usable answer that stays within both thresholds. The client
  assembled that answer from the replies of the endpoint to exactly these CVEs, posted in chunks of at
  most 200, all of them usable; or it had done so for a set with the same key at most 15 minutes
  before.\<close>

theorem clean_scan_rests_on_intelligence:
  assumes history: "run_state (check_passes (enriched_api E url api) cf reqs)
      \<lparr>world = process_world w, calls = []\<rparr> = (rs, s0)"
    and pass: "run_state (Reconcile (enriched_api E url api) cf ns name) s0 = (res, s)"
    and log: "calls s = calls s0 @ xs"
    and "UpdateStatus p r \<in> set xs" and "c \<in> set (st_checks (pc_status p))"
    and "cr_name c = CheckTrivy" and "cr_phase c = CheckPassed"
  shows "(\<exists>a b q. GetPC a b (Inr q) \<in> set xs \<and> c \<in> set (st_checks (pc_status q)))
    \<or> (\<exists>reports cves. ListReports (''preview-pr-'' @ itoa (pcs_pr (pc_spec p))) (Inr reports) \<in> set xs
        \<and> (\<exists>rep\<in>set reports. MatchesImage (reportArtifact (api_lib api) rep) (st_image (pc_status p)))
        \<and> cves = judged_cves (api_lib api) (st_image (pc_status p)) reports
        \<and> (cves = []
           \<or> (\<exists>i resp kevMax epssMax. length (ew_lookups (world s0)) \<le> i \<and> i < length (ew_lookups (world s))
                \<and> accounted E (ew_lookups (world s)) i cves resp \<and> Usable resp
                \<and> thr_kev_max (pcs_thresholds (Defaulted (pc_spec p))) = Some kevMax
                \<and> thr_epss_max (pcs_thresholds (Defaulted (pc_spec p))) = Some epssMax
                \<and> int (length (filter ci_kev (er_results resp))) \<le> kevMax
                \<and> list_all (\<lambda>x. Permille (ci_epss x) \<le> epssMax) (er_results resp))))"
proof -
  have e0: "explained E (world s0) (calls s0)"
    using preserves_run [OF check_passes_inv history] by (simp add: explained_def process_world_def memo_sound_def)
  have e: "explained E (world s) (calls s0 @ xs)"
    using preserves_run [OF Reconcile_inv pass e0] by (simp add: log)
  have asked: "\<exists>i. length (ew_lookups (world s0)) \<le> i \<and> i < length (ew_lookups (world s))
      \<and> accounted E (ew_lookups (world s)) i cves resp" if q: "Enrich cves (Inr resp) \<in> set xs" for cves resp
  proof -
    obtain i where i: "i < length (lookups xs)" "lookups xs ! i = (cves, Inr resp)" using lookup_index [OF q] by blast
    let ?n = "length (ew_lookups (world s0))"
    have n: "length (lookups (calls s0)) = ?n" using e0 by (simp add: explained_def)
    then have "?n + i < length (ew_lookups (world s))" "lookups (calls s0 @ xs) ! (?n + i) = (cves, Inr resp)"
      using e i by (simp_all add: explained_def nth_append)
    then show ?thesis using e unfolding explained_def by (intro exI [of _ "?n + i"] conjI le_add1) blast+
  qed
  have "\<forall>x\<in>set xs. backed_call (api_lib api) (set xs) x"
    using Reconcile_backed [of "enriched_api E url api" "{}" cf ns name] assms(4)
    unfolding backing.keeps_def ensures_def enriched_sel
    by (auto dest!: spec [of _ s0] simp: pass log)
  with assms(4) have "backed_call (api_lib api) (set xs) (UpdateStatus p r)" by blast
  then have "backed (api_lib api) (set xs) p" by simp
  then have "recorded (set xs) c \<or> scan_clean (api_lib api) (Defaulted (pc_spec p)) (preview_ns p) (st_image (pc_status p)) (set xs)"
    using assms(5-7) by (simp add: backed_def trivy_passed_def)
  then show ?thesis
  proof
    assume "recorded (set xs) c"
    then show ?thesis unfolding recorded_def by blast
  next
    assume "scan_clean (api_lib api) (Defaulted (pc_spec p)) (preview_ns p) (st_image (pc_status p)) (set xs)"
    then obtain reports where l: "ListReports (''preview-pr-'' @ itoa (pcs_pr (pc_spec p))) (Inr reports) \<in> set xs"
      and m: "\<exists>rep\<in>set reports. MatchesImage (reportArtifact (api_lib api) rep) (st_image (pc_status p))"
      and j: "judged_cves (api_lib api) (st_image (pc_status p)) reports = []
        \<or> (\<exists>resp kevMax epssMax. Enrich (judged_cves (api_lib api) (st_image (pc_status p)) reports) (Inr resp) \<in> set xs
             \<and> Usable resp
             \<and> thr_kev_max (pcs_thresholds (Defaulted (pc_spec p))) = Some kevMax
             \<and> thr_epss_max (pcs_thresholds (Defaulted (pc_spec p))) = Some epssMax
             \<and> int (length (filter ci_kev (er_results resp))) \<le> kevMax
             \<and> (\<forall>x\<in>set (er_results resp). Permille (ci_epss x) \<le> epssMax))"
      unfolding scan_clean_def preview_ns_def by auto
    show ?thesis
      by (rule disjI2, intro exI [of _ reports] exI conjI, rule l, rule m, rule refl)
         (use j asked in \<open>unfold list_all_iff, meson\<close>)
  qed
qed

theorem clean_scan_rests_on_intelligence_witness:
  "\<exists>s i resp. s = snd (run_state (Reconcile trivy_demo_api cf_demo ''preview-check'' ''pc'')
       \<lparr>world = process_world world_trivy, calls = []\<rparr>)
     \<and> accounted E_demo (ew_lookups (world s)) i [''CVE-1''] resp \<and> Usable resp"
proof -
  obtain res s where run: "run_state (Reconcile trivy_demo_api cf_demo ''preview-check'' ''pc'')
      \<lparr>world = process_world world_trivy, calls = []\<rparr> = (res, s)" by fastforce
  obtain u now r ys where c: "calls s = log_trivy @ Now now # UpdateStatus (publish_status klib_demo clean_trivy u now) r # ys"
    and ys: "list_all is_counter ys" using demo_trivy [OF run] by blast
  let ?p = "publish_status klib_demo clean_trivy u now"
  have p: "res_trivy \<in> set (st_checks (pc_status ?p))" "pcs_pr (pc_spec ?p) = 7"
    "st_image (pc_status ?p) = ''ghcr.io/o/app:1''"
    by (simp_all add: publish_status_def Let_def clean_trivy_sel)
       (simp add: clean_trivy_def record_check_def set_resolved_image_def)
  have no: "GetPC a b (Inr q) \<in> set (calls s) \<Longrightarrow> q = pc_trivy"
    "ListReports n (Inr rs) \<in> set (calls s) \<Longrightarrow> rs = [report_demo]" for a b q n rs
    using ys unfolding c log_trivy_def list_all_iff by auto
  have j: "judged_cves klib_demo ''ghcr.io/o/app:1'' [report_demo] = [''CVE-1'']" by code_simp
  have "st_checks (pc_status pc_trivy) = []" by (simp add: trivy_world_sel run_simps)
  with clean_scan_rests_on_intelligence [where reqs = "[]" and xs = "calls s" and p = ?p and c = res_trivy and r = r, OF _ run]
    p c no j clean_trivy_sel(3,4)
  have "\<exists>i resp. accounted E_demo (ew_lookups (world s)) i [''CVE-1''] resp \<and> Usable resp"
    by (fastforce simp: run_return run_simps)
  then show ?thesis using run by auto
qed

end
