(* ===== verification/Spec2Isabelle.thy ===== *)
theory Spec2Isabelle
  imports Deep_Copy_Run Eval Enrichment Preview_Deadline Clone_Run Migration_Deadline Migration_Scripts Database_Url
    Environment_Run Release_Values Operator_Run Metrics Judged_Preview Startup Enriched_Run
begin

text \<open>
  The homelab preview operator, \<open>src/\<close>: a Kubernetes operator in Go with three controllers that share
  a snapshot-clone routine.

  The \<^bold>\<open>Kustomization reconciler\<close> turns a suspended Flux Kustomization labelled
  \<open>preview-environment\<close> into the preview of a pull request: it renders patches from the
  application's PreviewConfig, unsuspends the object, creates the preview's infrastructure (OIDC
  client, database clone, Redis, S3 proxy, config volume), fills in database credentials, comments on
  the pull request, and keeps the Helm values right. The \<^bold>\<open>PreviewCheck reconciler\<close> judges such a
  preview with four checks (readiness, http, trivy, smoke). The \<^bold>\<open>MigrationCheck reconciler\<close> clones a
  production database, runs the application under test against it and publishes the verdict as a
  GitHub check run.

  Every controller is a program over an arbitrary world: each call of the API server, the clock, the
  log store, the random source or a forge is one \<open>operate\<close>, which lets the world answer and appends
  the call with its answer to a log (Effects). Nothing is assumed of the world, so a theorem about
  every run is one about every sequence of answers, failures included. What the world relies on
  appears as a named hypothesis: \<open>ks_stored_as_sent\<close> (a successful update of a Kustomization stores
  what was sent, but for the generation, which the server raises with the spec, and the status),
  \<open>stored_as_sent\<close> (the status of a MigrationCheck is stored as sent, its times being whole seconds),
  \<open>finalizer_laws\<close>, \<open>release_laws\<close> and their like; each has a witness that evaluates the program.

  \<^bold>\<open>Shared.\<close> Prelude (strings, decimal numbers, 64-bit durations), Kube_Types (labels, Jobs, pods,
  conditions), Errors (the error values of the API server and their classes), Effects (programs,
  \<open>ensures\<close>), Contract (a contract on the call log, as a locale whose rules follow the program text),
  World_Invariant (invariants of the world and the log),
  Klib (third-party accessors as a parameter), Go_Time, Net_Url, Url_Parse, Json_Text, Cache (the
  contract of a cache with expiry), Verdicts (the contract of a final verdict).

  \<^bold>\<open>internal/previewcheck\<close>. Eval: image references, CVE extraction, exploitability, Job outcome,
  workload readiness, the log tail.

  \<^bold>\<open>internal/enrichment\<close>. Enrichment: \<open>Lookup\<close>, its chunks and its memo, which interprets the cache
  contract.

  \<^bold>\<open>api/v1\<close>. Api_PreviewCheck, Api_PreviewConfig, Api_MigrationCheck: the specs, the defaults, the
  phases and reasons. The generated deep copies (\<open>zz_generated.deepcopy.go\<close>) are modelled over an
  explicit memory: Go_Memory (cells, paths, pointers, slices, maps, panics), Copying (the statement
  forms of the generator), Deep_Copy (every type and method), Deep_Copy_Run (a copy is equal and
  shares nothing). The methods of \<open>metav1\<close> types are the parameter \<open>metav1\<close>, which obeys
  \<open>metav1_laws\<close>.

  \<^bold>\<open>internal/controller, PreviewCheck\<close> (\<open>previewcheck_controller.go\<close>, \<open>previewcheck_checks.go\<close>,
  \<open>previewcheck_jobs.go\<close>). Preview_Api (its calls), Preview_Jobs (the Jobs and the probe script with
  its meaning), Preview_Checks (one step of each check), Preview_Check (the pass), Preview_Run (runs,
  reachable states, properties), Preview_Deadline (what passes past the deadline come to), Metrics (\<open>previewcheck_metrics.go\<close>: the collectors, their
  registration, and what the passes of a life leave in them).

  \<^bold>\<open>internal/controller, clone\<close> (\<open>clone.go\<close>). Cluster (the calls on a cluster), Clone (the routine and
  what every run of it logs), Cluster_Demo, Clone_Run (properties).

  \<^bold>\<open>internal/githubapp\<close>. Go_Date (RFC 3339 instants), Github_Credentials (\<open>credentials.go\<close>, base64url),
  App_Token (\<open>jwt.go\<close>), Github_Client (\<open>client.go\<close>: the token table and every request; and
  \<open>GitHubAppReporter\<close> of \<open>migrationcheck_report.go\<close>), Github_Run (the token table over a sequence of
  requests), Github_Report (what a report sends). PEM, ASN.1 and RSA are the parameter \<open>pk_lib\<close>.

  \<^bold>\<open>internal/controller, MigrationCheck\<close> (\<open>migrationcheck_controller.go\<close>, \<open>migrationcheck_jobs.go\<close>,
  \<open>migrationcheck_report.go\<close>). Check_Run (the body of a check run, \<open>internal/githubapp\<close>),
  Migration_Jobs, Migration_Report, Migration_Check (the pass), Migration_Log (its contract),
  Migration_State (the phases, the invariant), Migration_Demo, Migration_Run, Migration_Deadline,
  Migration_Scripts (the two shell scripts), Database_Url (the connection string).

  \<^bold>\<open>internal/controller, previews\<close>. Helm_Values (paths and nested updates), Preview_Values (names,
  environment and Helm values), Kustomize_Patches (\<open>kustomization_patches.go\<close>), Config_Hash (the JSON
  of a PreviewConfig and its SHA-256), Handler_Api (the calls), Preview_Setup (OIDC, database, Redis,
  S3 proxy), Config_Volume (\<open>config_volume.go\<close>), Preview_Handler (\<open>preview_handler.go\<close>: the states of a
  preview, Helm values, teardown), Forge_Comments (\<open>forge_comment.go\<close> and the two clients),
  Kustomization_Controller (the pass). Environment_Log states the contract of a pass,
  Environment_Routines shows, routine by routine, that it is kept, Environment_State has the stages of
  a preview, the machine they follow and the rank every write lowers, Environment_Demo evaluates a
  small preview, Environment_Run has the properties, Release_Values those of the Helm values.

  \<^bold>\<open>Shared by the controllers\<close>. Pod_Logs (\<open>previewcheck_logs.go\<close>, and what the gauge of
  \<open>previewcheck_metrics.go\<close> counts).

  \<^bold>\<open>cmd\<close> (\<open>main.go\<close>, \<open>groupversion_info.go\<close>, the \<open>SetupWithManager\<close> functions). Operator (what the flags
  give each controller), Startup (the command line, the scheme, the manager's options, what each
  controller watches, the order of the start and its exits).

  \<^bold>\<open>Components together\<close>. Operator_Run (the reports of a MigrationCheck pass and the state they
  report, for a process wired by its flags), Judged_Preview (what a PreviewCheck pass has read of the
  Kustomization when it judges), Enriched_Check and Enriched_Run (the PreviewCheck reconciler with the
  enrichment client as its enricher: the memo over the passes of a process, and what a clean scan
  rests on), and the last section of this theory, whose two properties join the
  Kustomization reconciler with the PreviewCheck reconciler, and the MigrationCheck reconciler with
  the GitHub client and the flags.

  \<^bold>\<open>What the lemmas show.\<close> For each controller: what may be written when, and on which evidence in the
  log (a verdict, a mark, a Job, a report, a finalizer); an invariant of every reachable object and
  the documented state machine it refines; that a verdict, or a record of created infrastructure, is
  final; that a pass makes progress and that passes come to an end. For the pure parts: functional
  behaviour on every branch, round trips, equivalence of the shell scripts with their specification,
  bounds. For the deep copies: independence of the copy. For the process: it starts whole or not at
  all.

  \<^bold>\<open>Bounds and fuel.\<close> \<open>json_decode\<close> runs with fuel \<open>2 * length s + 1\<close>: every value consumes at least
  one character, and a member or element one level of the recursion more. Polling loops take the
  number of ticks before their timeout from the world, which may be any number. The shell loops take
  the seconds their text counts. 64-bit durations wrap and saturate as Go's do (\<open>wrap64\<close>, \<open>sat64\<close>);
  other integers of the code are bounded by the API types and modelled as \<open>int\<close>.

  \<^bold>\<open>Not modelled.\<close> Log lines and Kubernetes events' delivery; the manager, its queues, caches and
  servers, the Kubernetes clientset, the registry of \<open>client_golang\<close> beyond names and values: none of
  them is code of this repository. The interleaving of two passes over one object is not modelled:
  controller-runtime runs one pass per object at a time; changes by others between passes are the
  steps \<open>edit\<close>, \<open>meta\<close>, \<open>deleted\<close>, \<open>status\<close>, \<open>produced\<close> of the step relations, and within a pass they
  are any answer of the world. The GitHub client and the enrichment memo, which the Go code guards
  with a mutex, are modelled with one caller at a time. Strings are lists of bytes: the JSON encoder
  keeps every byte from 128 on, where \<open>encoding/json\<close> replaces invalid UTF-8 and escapes the two line
  separators U+2028 and U+2029. The output of \<open>wait-db\<close> lacks what \<open>psql\<close> prints; its exit status and
  its own lines are there.
\<close>

section \<open>Properties that span components\<close>



text \<open>C22 Published check runs are true, and only the operator's: in a process started with these flags, a
  report of a MigrationCheck pass that succeeded is a run of the GitHub client with the Secret the
  flags name; it sent, besides minting a token, the one request that creates or updates the check run
  in the repository of the spec, which has the prefix of the flags, and the id is the server's. The
  run says what a state on the server says: completed exactly when the phase is terminal, success
  exactly for Passed, failure exactly for Failed, timed out exactly for Expired; for a check being
  deleted it is the existing run, cancelled, and only while no verdict was reported.\<close>

theorem published_check_runs_are_true:
  assumes wire: "wire_reporter fl client = Inr (Some (gh, rp))"
    and run: "run_in (MigrationReconcile (wire_migrations fl (Some (gh, rp)) logs api) ns name) w = (res, xs)"
    and "stored_as_sent xs" and "GetMC ns name (Inr mc) \<in> set xs" and "Report rep i run (Inr cid) \<in> set xs"
  shows "(\<exists>w ys. run_in (ReportCheckRun gh rp rep i run) w = (Inr cid, ys)
        \<and> list_all (report_call gh rp rep i run ys) ys \<and> Github_Report.published gh rep i run ys cid)
    \<and> fl_github_app_secret fl = rp_secret_ns rp @ ''/'' @ rp_secret_name rp
    \<and> (fl_check_run_repo_prefix fl = [] \<or> has_prefix (mrp_repo rep) (fl_check_run_repo_prefix fl))
    \<and> (if mc_deleting mc then cancelled_of mc rep i run
       else \<exists>m. (m = mc \<and> mc_terminal (mst_phase (mc_status mc)) \<or> StatusMC m (Inr m) \<in> set xs)
              \<and> true_run m rep i run)"
proof -
  obtain w' ys where r: "run_in (ReportCheckRun gh rp rep i run) w' = (Inr cid, ys)"
    using wired_report_runs [OF pass_report(1) [OF assms(2-5)]] by blast
  note a = reported_allowed [OF r]
  have "fl_check_run_repo_prefix fl = [] \<or> has_prefix (mrp_repo rep) (fl_check_run_repo_prefix fl)"
    using a wired_reporter [OF wire] by (simp add: allowed_report_def)
  then show ?thesis using r a wired_reporter [OF wire] pass_report(2) [OF assms(2-5)] by blast
qed

theorem published_check_runs_are_true_witness:
  "\<exists>run w ys. run_in (ReportCheckRun gh_demo rp_demo rep_demo 0 run) w = (Inr 9, ys)
     \<and> Github_Report.published gh_demo rep_demo 0 run ys 9 \<and> run_conclusion run = ''failure''"
proof -
  obtain run where p: "run_in (MigrationReconcile api_reporting ''ns'' ''mc'') (new_world (1772355600 * second))
     = ((res_done, None),
        [GetMC ''ns'' ''mc'' (Inr failed_demo), ClockNow minute, ClockNow minute,
         Report rep_demo 0 run (Inr 9), StatusMC (reported failed_demo 9) (Inr (reported failed_demo 9))])"
    using demo_reporting_pass by blast
  have "true_run failed_demo rep_demo 0 run \<or> true_run (reported failed_demo 9) rep_demo 0 run"
    "\<exists>w ys. run_in (ReportCheckRun gh_demo rp_demo rep_demo 0 run) w = (Inr 9, ys)
        \<and> Github_Report.published gh_demo rep_demo 0 run ys 9"
    using published_check_runs_are_true [OF fl_reporting_wired p [unfolded api_reporting_def], of failed_demo rep_demo 0 run 9]
    by (auto simp: stored_as_sent_def failed_demo_sel)
  then show ?thesis by (auto simp: true_run_def failed_demo_sel reported_def)
qed

end
